(* ===== verification/Prelude.thy ===== *)
theory Prelude
  imports Complex_Main
begin

text \<open>
  Shared vocabulary of the development.

  \<^item> \<open>rylus_simps\<close> collects the unfolding equations that component proofs use together,
    \<open>rylus_inv\<close> the preservation lemmas of the components' invariants.
  \<^item> Rust's \<open>usize\<close>, \<open>u64\<close> and \<open>u32\<close> are \<open>nat\<close> with their wrap-around or saturation
    written out where the code can reach it; \<open>Result<T, E>\<close> is the sum \<open>'e + 'a\<close> with
    \<open>Inl\<close> for the error; \<open>Option<T>\<close> is \<open>'a option\<close>; instants and durations are \<open>nat\<close>
    nanoseconds on one monotonic clock.
  \<^item> Generic list facts that more than one component needs: the most recent \<open>n\<close> elements of
    a list (drop-oldest queues) and index search (\<open>Iterator::position\<close>).
\<close>

named_theorems rylus_simps
named_theorems rylus_inv

type_synonym usize = nat
type_synonym u32 = nat
type_synonym u64 = nat
type_synonym byte = nat
type_synonym nanos = nat

section \<open>Machine arithmetic\<close>

definition usize_mul :: "usize \<Rightarrow> usize \<Rightarrow> usize" where
  "usize_mul a b = (a * b) mod 2 ^ 64"

definition u32_max :: nat where
  "u32_max = 4294967295"

definition millis :: "nat \<Rightarrow> nanos" where
  "millis n = n * 1000000"

definition secs :: "nat \<Rightarrow> nanos" where
  "secs n = n * 1000000000"

text \<open>\<open>Duration::as_secs\<close> drops the fraction.\<close>

definition as_secs :: "nanos \<Rightarrow> nat" where
  "as_secs d = d div 1000000000"

definition as_millis :: "nanos \<Rightarrow> nat" where
  "as_millis d = d div 1000000"

lemma usize_mul_exact: "a * b < 2 ^ 64 \<Longrightarrow> usize_mul a b = a * b"
  by (simp add: usize_mul_def)

lemma secs_mono: "a \<le> b \<Longrightarrow> secs a \<le> secs b"
  by (simp add: secs_def)

lemma as_secs_secs [simp]: "as_secs (secs n) = n"
  by (simp add: as_secs_def secs_def)

lemma as_secs_le: "d \<le> secs n \<Longrightarrow> as_secs d \<le> n"
  unfolding as_secs_def secs_def by (metis div_le_mono nonzero_mult_div_cancel_right
      zero_neq_numeral)

text \<open>A wrapping counter \<open>d\<close> that absorbs \<open>k\<close> items keeps a sum modulo \<open>M\<close>.\<close>

lemma account_shift:
  assumes "n mod M = (m + (q + d)) mod (M::nat)" "q + 1 = k + q'"
    and "d' mod M = (d + k) mod M"
  shows "(n + 1) mod M = (m + q' + d') mod M"
proof -
  have "(m + q' + d') mod M = (m + q' + (d + k)) mod M"
    using assms(3) by (rule mod_add_cong [OF refl])
  also have "m + q' + (d + k) = m + (q + d) + 1" using assms(2) by simp
  also have "(m + (q + d) + 1) mod M = (n + 1) mod M"
    using assms(1) [symmetric] refl by (rule mod_add_cong)
  finally show ?thesis by simp
qed

section \<open>Lists\<close>

text \<open>The last \<open>n\<close> elements, in order: what a drop-oldest queue of capacity \<open>n\<close> keeps.\<close>

definition lastn :: "nat \<Rightarrow> 'a list \<Rightarrow> 'a list" where
  "lastn n xs = drop (length xs - n) xs"

lemma length_lastn [simp]: "length (lastn n xs) = min n (length xs)"
  by (simp add: lastn_def min_def)

lemma lastn_short: "length xs \<le> n \<Longrightarrow> lastn n xs = xs"
  by (simp add: lastn_def)

lemma lastn_prefix: "xs = take (length xs - n) xs @ lastn n xs"
  by (simp add: lastn_def)

lemma lastn_append_lastn: "lastn n (lastn n xs @ ys) = lastn n (xs @ ys)"
proof (cases "length xs \<le> n")
  case True
  then show ?thesis by (simp add: lastn_short)
next
  case False
  then show ?thesis
    by (cases "length ys \<le> n") (simp_all add: lastn_def add.commute)
qed

text \<open>\<open>iter().position(p)\<close>: the least index whose element satisfies \<open>p\<close>.\<close>

fun position :: "('a \<Rightarrow> bool) \<Rightarrow> 'a list \<Rightarrow> nat option" where
  "position p [] = None"
| "position p (x # xs) = (if p x then Some 0 else map_option Suc (position p xs))"

lemma position_Some_iff:
  "position p xs = Some i \<longleftrightarrow> i < length xs \<and> p (xs ! i) \<and> (\<forall>j < i. \<not> p (xs ! j))"
proof (induction xs arbitrary: i)
  case Nil
  then show ?case by simp
next
  case (Cons x xs)
  show ?case
  proof (cases i)
    case 0
    then show ?thesis by (auto simp: map_option_case split: option.splits)
  next
    case (Suc k)
    then show ?thesis using Cons.IH [of k]
      by (auto simp: nth_Cons' All_less_Suc2)
  qed
qed

lemma position_None_iff: "position p xs = None \<longleftrightarrow> (\<forall>x \<in> set xs. \<not> p x)"
  by (induction xs) auto

lemma position_SomeD:
  "position p xs = Some i \<Longrightarrow> i < length xs"
  "position p xs = Some i \<Longrightarrow> p (xs ! i)"
  by (simp_all add: position_Some_iff)

text \<open>Number of elements that satisfy \<open>p\<close>: \<open>iter().filter(p).count()\<close>.\<close>

definition count_if :: "('a \<Rightarrow> bool) \<Rightarrow> 'a list \<Rightarrow> nat" where
  "count_if p xs = length (filter p xs)"

lemma count_if_simps [simp]:
  "count_if p [] = 0"
  "count_if p (x # xs) = (if p x then Suc (count_if p xs) else count_if p xs)"
  by (simp_all add: count_if_def)

lemma count_if_le: "count_if p xs \<le> length xs"
  by (simp add: count_if_def)

lemma count_if_pos: "i < length xs \<Longrightarrow> p (xs ! i) \<Longrightarrow> 0 < count_if p xs"
  unfolding count_if_def by (rule length_pos_if_in_set [of "xs ! i"]) simp

lemma count_if_update:
  "i < length xs \<Longrightarrow> count_if p (xs[i := v]) + (if p (xs ! i) then 1 else 0)
     = count_if p xs + (if p v then 1 else 0)"
proof (induction xs arbitrary: i)
  case Nil
  then show ?case by simp
next
  case (Cons x xs)
  then show ?case by (cases i) auto
qed

end
