(* ===== verification/CoreError.thy ===== *)
theory CoreError
  imports Prelude
begin

text \<open>
  \<open>crates/rylus-core/src/error.rs\<close>: the C-layout error with its fixed 1024-byte message
  buffer.  \<open>with_code\<close> copies at most 1023 bytes into a zeroed buffer, so the message is always
  NUL-terminated and \<open>Display\<close> never takes its \<open><invalid error>\<close> branch.  Bytes are \<open>nat\<close>;
  \<open>to_string_lossy\<close> is not modelled, the message is its bytes.
\<close>

record cerror =
  err_code :: int
  error_str :: "byte list"

datatype cerror_code = NoError | GenericError | UInputNotAccessible

definition cerror_new :: cerror where
  "cerror_new = \<lparr>err_code = 0, error_str = replicate 1024 0\<rparr>"

text \<open>The copy loop \<open>for (i, &b) in bytes[..len].iter().enumerate()\<close>.\<close>

fun copy_bytes :: "nat \<Rightarrow> byte list \<Rightarrow> byte list \<Rightarrow> byte list" where
  "copy_bytes i [] buf = buf"
| "copy_bytes i (b # bs) buf = copy_bytes (Suc i) bs (buf[i := b])"

definition cerror_with_code :: "int \<Rightarrow> byte list \<Rightarrow> cerror" where
  "cerror_with_code code msg =
     (let err = cerror_new\<lparr>err_code := code\<rparr>;
          len = min (length msg) 1023
      in err\<lparr>error_str := copy_bytes 0 (take len msg) (error_str err)\<rparr>)"

definition cerror_is_err :: "cerror \<Rightarrow> bool" where
  "cerror_is_err e \<longleftrightarrow> err_code e \<noteq> 0"

definition cerror_to_enum :: "cerror \<Rightarrow> cerror_code" where
  "cerror_to_enum e =
     (if err_code e = 0 then NoError
      else if err_code e = 101 then UInputNotAccessible
      else GenericError)"

text \<open>\<open>CStr::from_bytes_until_nul\<close> fails when the buffer holds no NUL; \<open>Display\<close> then writes
  \<open><invalid error>\<close>, here \<open>None\<close>.\<close>

definition cstr_until_nul :: "byte list \<Rightarrow> byte list option" where
  "cstr_until_nul bs = (if 0 \<in> set bs then Some (takeWhile (\<lambda>b. b \<noteq> 0) bs) else None)"

definition cerror_display :: "cerror \<Rightarrow> int \<times> byte list option" where
  "cerror_display e = (err_code e, cstr_until_nul (error_str e))"

section \<open>The message buffer\<close>

lemma copy_bytes_eq:
  "i + length bs \<le> length buf \<Longrightarrow>
     copy_bytes i bs buf = take i buf @ bs @ drop (i + length bs) buf"
proof (induction i bs buf rule: copy_bytes.induct)
  case (1 i buf)
  then show ?case by simp
next
  case (2 i b bs buf)
  then show ?case
    by (simp add: upd_conv_take_nth_drop take_Suc_conv_app_nth add.commute)
qed

lemma cerror_with_code_buffer:
  "error_str (cerror_with_code c msg) =
     take 1023 msg @ replicate (1024 - min (length msg) 1023) 0"
  by (simp add: cerror_with_code_def cerror_new_def Let_def copy_bytes_eq min_def)

lemma length_error_str: "length (error_str (cerror_with_code c msg)) = 1024"
  by (simp add: cerror_with_code_buffer min_def)

lemma takeWhile_pad:
  "0 \<notin> set xs \<Longrightarrow> takeWhile (\<lambda>b. b \<noteq> 0) (xs @ replicate (Suc n) (0::nat)) = xs"
  by (induction xs) auto

lemma display_with_code:
  assumes "0 \<notin> set msg"
  shows "cerror_display (cerror_with_code c msg) = (c, Some (take 1023 msg))"
proof -
  have "0 \<notin> set (take 1023 msg)" using assms by (meson in_set_takeD)
  moreover have "1024 - min (length msg) 1023 = Suc (1023 - min (length msg) 1023)"
    by arith
  ultimately have "takeWhile (\<lambda>b. b \<noteq> 0) (error_str (cerror_with_code c msg)) = take 1023 msg"
    by (simp only: cerror_with_code_buffer takeWhile_pad not_False_eq_True)
  moreover have "0 \<in> set (error_str (cerror_with_code c msg))"
    by (auto simp: cerror_with_code_buffer)
  moreover have "err_code (cerror_with_code c msg) = c"
    by (simp add: cerror_with_code_def cerror_new_def Let_def)
  ultimately show ?thesis
    by (simp only: cerror_display_def cstr_until_nul_def if_True)
qed

lemma to_enum_is_err: "cerror_is_err e \<longleftrightarrow> cerror_to_enum e \<noteq> NoError"
  by (simp add: cerror_is_err_def cerror_to_enum_def)

end
