(* ===== verification/Pixel.thy ===== *)
theory Pixel
  imports Prelude
begin

text \<open>
  \<open>crates/rylus-core/src/pixel.rs\<close>: captured frames, borrowed (\<open>PixelProvider\<close>) and owned
  (\<open>OwnedPixelData\<close>), and the buffer recycling between the capture and the encode thread.
  A slice \<open>&[u8]\<close> and a \<open>Vec<u8>\<close> are byte lists; \<open>to_owned_reusing\<close> receives the recycled
  buffer, whose old contents must not survive.
\<close>

datatype pixel_provider =
    RGB usize usize "byte list"
  | RGB0 usize usize "byte list"
  | BGR0 usize usize "byte list"
  | BGR0S usize usize usize "byte list"

datatype owned_pixel_data =
    ORGB usize usize "byte list"
  | ORGB0 usize usize "byte list"
  | OBGR0 usize usize "byte list"
  | OBGR0S usize usize usize "byte list"

fun provider_size :: "pixel_provider \<Rightarrow> usize \<times> usize" where
  "provider_size (RGB w h _) = (w, h)"
| "provider_size (RGB0 w h _) = (w, h)"
| "provider_size (BGR0 w h _) = (w, h)"
| "provider_size (BGR0S w h _ _) = (w, h)"

text \<open>\<open>buf.clear()\<close> followed by \<open>buf.extend_from_slice(d)\<close>.\<close>

definition refill :: "byte list \<Rightarrow> byte list \<Rightarrow> byte list" where
  "refill buf d = take 0 buf @ d"

fun to_owned_reusing :: "pixel_provider \<Rightarrow> byte list \<Rightarrow> owned_pixel_data" where
  "to_owned_reusing (RGB w h d) buf = ORGB w h (refill buf d)"
| "to_owned_reusing (RGB0 w h d) buf = ORGB0 w h (refill buf d)"
| "to_owned_reusing (BGR0 w h d) buf = OBGR0 w h (refill buf d)"
| "to_owned_reusing (BGR0S w h s d) buf = OBGR0S w h s (refill buf d)"

definition to_owned :: "pixel_provider \<Rightarrow> owned_pixel_data" where
  "to_owned p = to_owned_reusing p []"

fun owned_size :: "owned_pixel_data \<Rightarrow> usize \<times> usize" where
  "owned_size (ORGB w h _) = (w, h)"
| "owned_size (ORGB0 w h _) = (w, h)"
| "owned_size (OBGR0 w h _) = (w, h)"
| "owned_size (OBGR0S w h _ _) = (w, h)"

fun as_provider :: "owned_pixel_data \<Rightarrow> pixel_provider" where
  "as_provider (ORGB w h d) = RGB w h d"
| "as_provider (ORGB0 w h d) = RGB0 w h d"
| "as_provider (OBGR0 w h d) = BGR0 w h d"
| "as_provider (OBGR0S w h s d) = BGR0S w h s d"

fun into_buffer :: "owned_pixel_data \<Rightarrow> byte list" where
  "into_buffer (ORGB _ _ d) = d"
| "into_buffer (ORGB0 _ _ d) = d"
| "into_buffer (OBGR0 _ _ d) = d"
| "into_buffer (OBGR0S _ _ _ d) = d"

fun provider_bytes :: "pixel_provider \<Rightarrow> byte list" where
  "provider_bytes (RGB _ _ d) = d"
| "provider_bytes (RGB0 _ _ d) = d"
| "provider_bytes (BGR0 _ _ d) = d"
| "provider_bytes (BGR0S _ _ _ d) = d"

lemma as_provider_to_owned [simp]: "as_provider (to_owned_reusing p buf) = p"
  by (cases p) (simp_all add: refill_def)

lemma into_buffer_to_owned [simp]: "into_buffer (to_owned_reusing p buf) = provider_bytes p"
  by (cases p) (simp_all add: refill_def)

lemma owned_size_to_owned [simp]: "owned_size (to_owned_reusing p buf) = provider_size p"
  by (cases p) simp_all

lemma provider_size_as_provider [simp]: "provider_size (as_provider d) = owned_size d"
  by (cases d) simp_all

lemma into_buffer_as_provider [simp]: "provider_bytes (as_provider d) = into_buffer d"
  by (cases d) simp_all

end
