(* ===== verification/TestSource.thy ===== *)
theory TestSource
  imports Pixel
begin

text \<open>
  \<open>crates/rylus-capture/src/testsrc.rs\<close>: the synthetic capture source.  Every indexed store of the
  source is the checked store \<open>store\<close>, \<open>None\<close> being Rust's index panic, so that the frames it
  produces and the absence of an out-of-range access are both theorems.
\<close>

datatype pixel_format = FBGR0 | FRGB0 | FRGB

record test_capturable =
  tc_width :: usize
  tc_height :: usize
  tc_format :: pixel_format

fun pixel_size :: "pixel_format \<Rightarrow> nat" where
  "pixel_size FBGR0 = 4"
| "pixel_size FRGB0 = 4"
| "pixel_size FRGB = 3"

definition store :: "nat \<Rightarrow> byte \<Rightarrow> byte list \<Rightarrow> byte list option" where
  "store i v buf = (if i < length buf then Some (buf[i := v]) else None)"

text \<open>The three channel positions \<open>(pos_r, pos_g, pos_b)\<close>.\<close>

fun channels :: "pixel_format \<Rightarrow> nat \<Rightarrow> nat \<times> nat \<times> nat" where
  "channels FBGR0 pos = (pos + 2, pos + 1, pos)"
| "channels FRGB0 pos = (pos, pos + 1, pos + 2)"
| "channels FRGB pos = (pos, pos + 1, pos + 2)"

definition store3 :: "pixel_format \<Rightarrow> nat \<Rightarrow> byte \<Rightarrow> byte \<Rightarrow> byte \<Rightarrow> byte list \<Rightarrow> byte list option" where
  "store3 fmt pos b g r buf =
     (case channels fmt pos of (pos_r, pos_g, pos_b) \<Rightarrow>
        Option.bind (store pos_b b buf) (\<lambda>buf. Option.bind (store pos_g g buf) (store pos_r r)))"

definition set_default_pixel :: "test_capturable \<Rightarrow> nat \<Rightarrow> nat \<Rightarrow> byte list \<Rightarrow> byte list option" where
  "set_default_pixel c x y buf =
     (let w = tc_width c in
      if w = 0 then None
      else
        let i = x * 8 div w;
            pos = (x + y * w) * pixel_size (tc_format c)
        in store3 (tc_format c) pos
             (if odd i then 255 else 0)
             (if odd (i div 2) then 255 else 0)
             (if odd (i div 4) then 255 else 0) buf)"

text \<open>The nested loops \<open>for y in ys { for x in 0..w { .. } }\<close>.\<close>

fun for_each :: "('i \<Rightarrow> 's \<Rightarrow> 's option) \<Rightarrow> 'i list \<Rightarrow> 's \<Rightarrow> 's option" where
  "for_each f [] s = Some s"
| "for_each f (i # is) s = Option.bind (f i s) (for_each f is)"

definition for_yx ::
  "(nat \<Rightarrow> nat \<Rightarrow> 's \<Rightarrow> 's option) \<Rightarrow> nat list \<Rightarrow> nat list \<Rightarrow> 's \<Rightarrow> 's option" where
  "for_yx f ys xs = for_each (\<lambda>y. for_each (\<lambda>x. f x y) xs) ys"

record test_recorder =
  tr_capturable :: test_capturable
  tr_buf :: "byte list"
  tr_i :: nat

definition frame_bytes :: "test_capturable \<Rightarrow> nat" where
  "frame_bytes c = tc_width c * tc_height c * pixel_size (tc_format c)"

definition test_recorder_new :: "test_capturable \<Rightarrow> test_recorder option" where
  "test_recorder_new c =
     map_option (\<lambda>buf. \<lparr>tr_capturable = c, tr_buf = buf, tr_i = 0\<rparr>)
       (for_yx (set_default_pixel c) [0..<tc_height c] [0..<tc_width c]
          (replicate (frame_bytes c) 0))"

definition band_pixel :: "test_capturable \<Rightarrow> nat \<Rightarrow> nat \<Rightarrow> nat \<Rightarrow> byte list \<Rightarrow> byte list option" where
  "band_pixel c i x y buf =
     (let w = tc_width c; pos = (x + y * w) * pixel_size (tc_format c) in
      if w = 0 then None
      else store3 (tc_format c) pos
             ((i + 120 * x div w) mod 120 * 256 div 120 mod 256)
             ((i + 120 * x div w + 120 div 3) mod 120 * 256 div 120 mod 256)
             ((i + 120 * x div w + 2 * 120 div 3) mod 120 * 256 div 120 mod 256) buf)"

definition as_pixels :: "test_capturable \<Rightarrow> byte list \<Rightarrow> pixel_provider" where
  "as_pixels c buf = (case tc_format c of
      FBGR0 \<Rightarrow> BGR0 (tc_width c) (tc_height c) buf
    | FRGB0 \<Rightarrow> RGB0 (tc_width c) (tc_height c) buf
    | FRGB \<Rightarrow> RGB (tc_width c) (tc_height c) buf)"

definition test_capture :: "test_recorder \<Rightarrow> (test_recorder \<times> pixel_provider) option" where
  "test_capture r =
     (let c = tr_capturable r; dh = tc_height c div 120; xs = [0..<tc_width c] in
      Option.bind
        (for_yx (set_default_pixel c) [tr_i r * dh..<(tr_i r + 1) * dh] xs (tr_buf r))
        (\<lambda>buf. let i = (tr_i r + 1) mod 120 in
           map_option (\<lambda>buf. (r\<lparr>tr_buf := buf, tr_i := i\<rparr>, as_pixels c buf))
             (for_yx (band_pixel c i) [i * dh..<(i + 1) * dh] xs buf)))"

section \<open>No access is out of range\<close>

lemma store3_Some:
  assumes "pos + 2 < length buf"
  shows "\<exists>buf'. store3 fmt pos b g r buf = Some buf' \<and> length buf' = length buf"
  using assms by (cases fmt) (simp_all add: store3_def store_def)

lemma pixel_in_frame:
  assumes "x < tc_width c" "y < tc_height c"
  shows "(x + y * tc_width c) * pixel_size (tc_format c) + 2 < frame_bytes c"
proof -
  have "x + y * tc_width c + 1 \<le> (y + 1) * tc_width c" using assms by simp
  also have "\<dots> \<le> tc_height c * tc_width c" using assms by (intro mult_le_mono1) simp
  finally have "(x + y * tc_width c + 1) * pixel_size (tc_format c)
      \<le> tc_height c * tc_width c * pixel_size (tc_format c)"
    by (rule mult_le_mono1)
  moreover have "3 \<le> pixel_size (tc_format c)" by (cases "tc_format c") simp_all
  moreover have "frame_bytes c = tc_height c * tc_width c * pixel_size (tc_format c)"
    by (simp only: frame_bytes_def mult.commute [of "tc_width c"])
  ultimately show ?thesis
    by (simp only: add_mult_distrib)
qed

lemma set_default_pixel_Some:
  assumes "x < tc_width c" "y < tc_height c" "length buf = frame_bytes c"
  shows "\<exists>buf'. set_default_pixel c x y buf = Some buf' \<and> length buf' = frame_bytes c"
proof -
  have w: "tc_width c \<noteq> 0" using assms(1) by simp
  have pos: "(x + y * tc_width c) * pixel_size (tc_format c) + 2 < length buf"
    unfolding assms(3) by (rule pixel_in_frame [OF assms(1,2)])
  show ?thesis
    unfolding set_default_pixel_def Let_def if_not_P [OF w] assms(3) [symmetric] by (rule store3_Some [OF pos])
qed

lemma band_pixel_Some:
  assumes "x < tc_width c" "y < tc_height c" "length buf = frame_bytes c"
  shows "\<exists>buf'. band_pixel c i x y buf = Some buf' \<and> length buf' = frame_bytes c"
proof -
  have w: "tc_width c \<noteq> 0" using assms(1) by simp
  have pos: "(x + y * tc_width c) * pixel_size (tc_format c) + 2 < length buf"
    unfolding assms(3) by (rule pixel_in_frame [OF assms(1,2)])
  show ?thesis
    unfolding band_pixel_def Let_def if_not_P [OF w] assms(3) [symmetric] by (rule store3_Some [OF pos])
qed

lemma for_each_Some:
  assumes "\<And>i s. i \<in> set is \<Longrightarrow> P s \<Longrightarrow> \<exists>s'. f i s = Some s' \<and> P s'" and "P s"
  shows "\<exists>s'. for_each f is s = Some s' \<and> P s'"
  using assms
proof (induction "is" arbitrary: s)
  case Nil
  then show ?case by simp
next
  case (Cons i "is")
  then obtain s1 where "f i s = Some s1" "P s1" by (metis list.set_intros(1))
  moreover from this Cons obtain s2 where "for_each f is s1 = Some s2" "P s2"
    by (metis list.set_intros(2))
  ultimately show ?case by simp
qed

lemma for_yx_Some:
  assumes "\<And>x y s. x \<in> set xs \<Longrightarrow> y \<in> set ys \<Longrightarrow> P s \<Longrightarrow> \<exists>s'. f x y s = Some s' \<and> P s'" and "P s"
  shows "\<exists>s'. for_yx f ys xs s = Some s' \<and> P s'"
  unfolding for_yx_def using assms by (intro for_each_Some [where P = P]) blast+

definition recorder_ok :: "test_recorder \<Rightarrow> bool" where
  "recorder_ok r \<longleftrightarrow> length (tr_buf r) = frame_bytes (tr_capturable r) \<and> tr_i r < 120"

lemma test_recorder_new_ok:
  "\<exists>r. test_recorder_new c = Some r \<and> recorder_ok r \<and> tr_capturable r = c"
proof -
  have "\<exists>buf. for_yx (set_default_pixel c) [0..<tc_height c] [0..<tc_width c]
      (replicate (frame_bytes c) 0) = Some buf \<and> length buf = frame_bytes c"
    by (rule for_yx_Some) (auto intro!: set_default_pixel_Some)
  then show ?thesis by (auto simp: test_recorder_new_def recorder_ok_def)
qed

lemma band_rows_in_frame:
  assumes "i < 120" "y \<in> set [i * (h div 120)..<(i + 1) * (h div 120)]"
  shows "y < h"
proof -
  have "y < (i + 1) * (h div 120)" using assms by simp
  also have "\<dots> \<le> 120 * (h div 120)" using assms by (intro mult_le_mono1) simp
  also have "\<dots> \<le> h" by simp
  finally show ?thesis .
qed

lemma test_capture_ok:
  assumes "recorder_ok r"
  shows "\<exists>r' p. test_capture r = Some (r', p) \<and> recorder_ok r' \<and>
           tr_capturable r' = tr_capturable r \<and>
           provider_size p = (tc_width (tr_capturable r), tc_height (tr_capturable r)) \<and>
           length (provider_bytes p) = frame_bytes (tr_capturable r)"
proof -
  let ?c = "tr_capturable r" and ?dh = "tc_height (tr_capturable r) div 120"
  let ?i = "(tr_i r + 1) mod 120"
  from assms have i: "tr_i r < 120" and len: "length (tr_buf r) = frame_bytes ?c"
    by (simp_all add: recorder_ok_def)
  have i': "?i < 120" by simp
  have "\<exists>b. for_yx (set_default_pixel ?c) [tr_i r * ?dh..<(tr_i r + 1) * ?dh] [0..<tc_width ?c]
      (tr_buf r) = Some b \<and> length b = frame_bytes ?c"
  proof (rule for_yx_Some [where P = "\<lambda>b. length b = frame_bytes ?c", OF _ len])
    fix x y and buf :: "byte list"
    assume x: "x \<in> set [0..<tc_width ?c]"
      and y: "y \<in> set [tr_i r * ?dh..<(tr_i r + 1) * ?dh]" and buf: "length buf = frame_bytes ?c"
    from x have x': "x < tc_width ?c" by simp
    show "\<exists>b. set_default_pixel ?c x y buf = Some b \<and> length b = frame_bytes ?c"
      by (rule set_default_pixel_Some [OF x' band_rows_in_frame [OF i y] buf])
  qed
  then obtain b where b: "for_yx (set_default_pixel ?c) [tr_i r * ?dh..<(tr_i r + 1) * ?dh]
      [0..<tc_width ?c] (tr_buf r) = Some b" "length b = frame_bytes ?c" by blast
  have "\<exists>b'. for_yx (band_pixel ?c ?i) [?i * ?dh..<(?i + 1) * ?dh] [0..<tc_width ?c] b = Some b' \<and>
      length b' = frame_bytes ?c"
  proof (rule for_yx_Some [where P = "\<lambda>b. length b = frame_bytes ?c", OF _ b(2)])
    fix x y and buf :: "byte list"
    assume x: "x \<in> set [0..<tc_width ?c]"
      and y: "y \<in> set [?i * ?dh..<(?i + 1) * ?dh]" and buf: "length buf = frame_bytes ?c"
    from x have x': "x < tc_width ?c" by simp
    show "\<exists>b. band_pixel ?c ?i x y buf = Some b \<and> length b = frame_bytes ?c"
      by (rule band_pixel_Some [OF x' band_rows_in_frame [OF i' y] buf])
  qed
  then obtain b' where b': "for_yx (band_pixel ?c ?i) [?i * ?dh..<(?i + 1) * ?dh]
      [0..<tc_width ?c] b = Some b'" "length b' = frame_bytes ?c" by blast
  show ?thesis
    using b b' by (simp add: test_capture_def Let_def recorder_ok_def as_pixels_def
        split: pixel_format.split)
qed

end
