(* ===== verification/RustNum.thy ===== *)
theory RustNum
  imports Prelude
begin

text \<open>
  Rust's \<open>f64\<close> as the code uses it: finite values, the two infinities and NaN, with IEEE
  comparisons (false on NaN), \<open>f64::min\<close> / \<open>f64::max\<close> (which ignore a NaN operand),
  \<open>f64::clamp\<close> (which propagates it) and the saturating, truncating \<open>as\<close> casts.
  Finite arithmetic is exact: rounding, the sign of zero and overflow of a finite result to
  infinity are the idealisation of this model.  Everything is executable on \<open>rat\<close>.
\<close>

datatype f64 = Fin rat | PInf | NInf | NaN

section \<open>Arithmetic\<close>

fun fadd :: "f64 \<Rightarrow> f64 \<Rightarrow> f64" where
  "fadd (Fin a) (Fin b) = Fin (a + b)"
| "fadd NaN _ = NaN"
| "fadd _ NaN = NaN"
| "fadd PInf NInf = NaN"
| "fadd NInf PInf = NaN"
| "fadd PInf _ = PInf"
| "fadd _ PInf = PInf"
| "fadd NInf _ = NInf"
| "fadd _ NInf = NInf"

definition finf :: "rat \<Rightarrow> f64" where
  "finf s = (if s = 0 then NaN else if s > 0 then PInf else NInf)"

fun fsgn :: "f64 \<Rightarrow> rat" where
  "fsgn (Fin a) = sgn a"
| "fsgn PInf = 1"
| "fsgn NInf = - 1"
| "fsgn NaN = 0"

fun fmul :: "f64 \<Rightarrow> f64 \<Rightarrow> f64" where
  "fmul (Fin a) (Fin b) = Fin (a * b)"
| "fmul NaN _ = NaN"
| "fmul _ NaN = NaN"
| "fmul x y = finf (fsgn x * fsgn y)"

text \<open>A zero divisor counts as positive zero: \<open>1.0 / 0.0\<close> is infinite, \<open>0.0 / 0.0\<close> is NaN.\<close>

fun fdiv :: "f64 \<Rightarrow> f64 \<Rightarrow> f64" where
  "fdiv (Fin a) (Fin b) = (if b = 0 then finf a else Fin (a / b))"
| "fdiv NaN _ = NaN"
| "fdiv _ NaN = NaN"
| "fdiv (Fin a) _ = Fin 0"
| "fdiv x (Fin b) = finf (fsgn x * (if b < 0 then - 1 else 1))"
| "fdiv _ _ = NaN"

definition fsub :: "rat \<Rightarrow> rat \<Rightarrow> f64" where
  "fsub a b = Fin (a - b)"

section \<open>Comparisons\<close>

fun flt :: "f64 \<Rightarrow> f64 \<Rightarrow> bool" where
  "flt (Fin a) (Fin b) \<longleftrightarrow> a < b"
| "flt NaN _ \<longleftrightarrow> False"
| "flt _ NaN \<longleftrightarrow> False"
| "flt NInf y \<longleftrightarrow> y \<noteq> NInf"
| "flt x PInf \<longleftrightarrow> x \<noteq> PInf"
| "flt _ _ \<longleftrightarrow> False"

definition fle :: "f64 \<Rightarrow> f64 \<Rightarrow> bool" where
  "fle x y \<longleftrightarrow> x \<noteq> NaN \<and> y \<noteq> NaN \<and> (flt x y \<or> x = y)"

definition is_finite :: "f64 \<Rightarrow> bool" where
  "is_finite x \<longleftrightarrow> x \<noteq> PInf \<and> x \<noteq> NInf \<and> x \<noteq> NaN"

definition fmin :: "f64 \<Rightarrow> f64 \<Rightarrow> f64" where
  "fmin x y = (if x = NaN then y else if y = NaN then x else if flt y x then y else x)"

definition fmax :: "f64 \<Rightarrow> f64 \<Rightarrow> f64" where
  "fmax x y = (if x = NaN then y else if y = NaN then x else if flt x y then y else x)"

definition fclamp :: "f64 \<Rightarrow> f64 \<Rightarrow> f64 \<Rightarrow> f64" where
  "fclamp x lo hi = (if flt x lo then lo else if flt hi x then hi else x)"

section \<open>Conversions\<close>

definition f_of_nat :: "nat \<Rightarrow> f64" where
  "f_of_nat n = Fin (of_nat n)"

text \<open>Truncation towards zero.\<close>

definition trunc_rat :: "rat \<Rightarrow> int" where
  "trunc_rat r = (if r < 0 then - \<lfloor>- r\<rfloor> else \<lfloor>r\<rfloor>)"

text \<open>\<open>x as T\<close> for an integer type \<open>T\<close> with range \<open>lo..=hi\<close>: truncates, saturates, NaN is 0.\<close>

fun f_as_int :: "int \<Rightarrow> int \<Rightarrow> f64 \<Rightarrow> int" where
  "f_as_int lo hi (Fin r) = max lo (min hi (trunc_rat r))"
| "f_as_int lo hi PInf = hi"
| "f_as_int lo hi NInf = lo"
| "f_as_int lo hi NaN = 0"

definition f_as_i32 :: "f64 \<Rightarrow> int" where
  "f_as_i32 x = f_as_int (- 2147483648) 2147483647 x"

definition f_as_u32 :: "f64 \<Rightarrow> u32" where
  "f_as_u32 x = nat (f_as_int 0 4294967295 x)"

definition f_as_usize :: "f64 \<Rightarrow> usize" where
  "f_as_usize x = nat (f_as_int 0 18446744073709551615 x)"

text \<open>\<open>i32\<close> arithmetic of the release build.\<close>

definition wrap_i32 :: "int \<Rightarrow> int" where
  "wrap_i32 k = (k + 2 ^ 31) mod 2 ^ 32 - 2 ^ 31"

text \<open>\<open>Duration::as_secs_f64\<close> and \<open>Duration::from_secs_f64\<close> (rounded to whole nanoseconds,
  ties to even; the code only calls it on finite positive values).\<close>

definition round_even :: "rat \<Rightarrow> int" where
  "round_even r = (let f = \<lfloor>r\<rfloor>; d = r - of_int f
     in if 2 * d < 1 then f else if 2 * d > 1 then f + 1 else if even f then f else f + 1)"

definition as_secs_f64 :: "nanos \<Rightarrow> f64" where
  "as_secs_f64 d = Fin (of_nat d / 1000000000)"

definition from_secs_f64 :: "rat \<Rightarrow> nanos" where
  "from_secs_f64 r = nat (round_even (r * 1000000000))"

section \<open>Facts\<close>

lemma wrap_i32_id: "- (2 ^ 31) \<le> k \<Longrightarrow> k < 2 ^ 31 \<Longrightarrow> wrap_i32 k = k"
  by (simp add: wrap_i32_def)

lemma flt_irrefl [simp]: "\<not> flt x x"
  by (cases x) auto

lemma flt_NaN [simp]: "\<not> flt x NaN"
  by (cases x) auto

lemma trunc_rat_nonneg: "0 \<le> r \<Longrightarrow> 0 \<le> trunc_rat r"
  by (simp add: trunc_rat_def)

lemma trunc_rat_le: "0 \<le> r \<Longrightarrow> r \<le> of_int k \<Longrightarrow> trunc_rat r \<le> k"
  by (simp add: trunc_rat_def floor_le_iff)

lemma trunc_rat_floor: "0 \<le> r \<Longrightarrow> trunc_rat r = \<lfloor>r\<rfloor>"
  by (simp add: trunc_rat_def)

lemma trunc_rat_mono: "a \<le> b \<Longrightarrow> trunc_rat a \<le> trunc_rat b"
  unfolding trunc_rat_def by (auto intro: floor_mono order_trans [of _ 0])

lemma f_as_int_range: "lo \<le> 0 \<Longrightarrow> 0 \<le> hi \<Longrightarrow> lo \<le> f_as_int lo hi x \<and> f_as_int lo hi x \<le> hi"
  by (cases x) auto

lemma f_as_u32_le: "f_as_u32 x \<le> 4294967295"
  using f_as_int_range [of 0 4294967295 x] by (simp add: f_as_u32_def nat_le_iff)

lemma fclamp_unit:
  "x \<noteq> NaN \<Longrightarrow> \<exists>r. fclamp x (Fin 0) (Fin 1) = Fin r \<and> 0 \<le> r \<and> r \<le> 1"
  by (cases x) (auto simp: fclamp_def)

lemma fclamp_NaN [simp]: "fclamp NaN lo hi = NaN"
  by (simp add: fclamp_def)

lemma f_as_u32_of_quotient:
  assumes "0 < d"
  shows "f_as_u32 (fdiv (as_secs_f64 e) (as_secs_f64 d)) = min 4294967295 (e div d)"
proof -
  have "\<lfloor>(of_nat e :: rat) / of_nat d\<rfloor> = int (e div d)"
    by (simp add: floor_divide_of_nat_eq)
  then show ?thesis using assms
    by (simp add: f_as_u32_def as_secs_f64_def trunc_rat_floor min_def nat_less_iff)
qed

end
