(* ===== verification/Quality.thy ===== *)
theory Quality
  imports RustNum
begin

text \<open>
  The adaptive quality controller of \<open>crates/rylus-server/src/session.rs\<close>
  (\<open>QualityController\<close>): its state, one definition per method, the invariant that the
  quantisation parameter stays within \<open>QP_MIN..=QP_MAX\<close>, and what a sequence of decisions
  converges to.  \<open>decide\<close> is split the way its body is: the RTT tightening, the buffer
  signal, the pipeline signal and their combination.
\<close>

section \<open>State\<close>

definition QP_MIN :: nat where "QP_MIN = 18"
definition QP_MAX :: nat where "QP_MAX = 45"
definition QP_DEFAULT :: nat where "QP_DEFAULT = 23"

lemmas qp_consts [rylus_simps] = QP_MIN_def QP_MAX_def QP_DEFAULT_def

record quality =
  current_qp :: u32
  encode_time_avg :: f64
  buffer_health_secs :: "f64 option"
  rtt_ms_avg :: "f64 option"

section \<open>Operations\<close>

definition q_new :: quality where
  "q_new = \<lparr>current_qp = QP_DEFAULT, encode_time_avg = Fin 0,
            buffer_health_secs = None, rtt_ms_avg = None\<rparr>"

definition q_reset :: "quality \<Rightarrow> quality" where
  "q_reset q = q\<lparr>current_qp := QP_DEFAULT, encode_time_avg := Fin 0,
                 buffer_health_secs := None, rtt_ms_avg := None\<rparr>"

definition q_set_buffer_health :: "quality \<Rightarrow> f64 \<Rightarrow> quality" where
  "q_set_buffer_health q s = q\<lparr>buffer_health_secs := Some s\<rparr>"

text \<open>The exponential moving average \<open>0.3 * sample + 0.7 * avg\<close>.\<close>

definition ema :: "f64 \<Rightarrow> f64 \<Rightarrow> f64" where
  "ema sample avg = fadd (fmul (Fin (3/10)) sample) (fmul (Fin (7/10)) avg)"

definition q_set_rtt_ms :: "quality \<Rightarrow> u32 \<Rightarrow> quality" where
  "q_set_rtt_ms q rtt_ms =
     (let sample = f_of_nat rtt_ms
      in q\<lparr>rtt_ms_avg := Some (case rtt_ms_avg q of
             Some avg \<Rightarrow> ema sample avg
           | None \<Rightarrow> sample)\<rparr>)"

definition q_record_encode_time :: "quality \<Rightarrow> f64 \<Rightarrow> quality" where
  "q_record_encode_time q elapsed = q\<lparr>encode_time_avg := ema elapsed (encode_time_avg q)\<rparr>"

subsection \<open>decide\<close>

definition rtt_tightening :: "f64 option \<Rightarrow> rat" where
  "rtt_tightening r = (case r of
      Some avg \<Rightarrow> if flt (Fin 150) avg then 1 else if flt (Fin 80) avg then 1/2 else 0
    | None \<Rightarrow> 0)"

definition warn_threshold :: "rat \<Rightarrow> rat" where
  "warn_threshold t = max (2 - t) (1/2)"

definition severe_threshold :: "rat \<Rightarrow> rat" where
  "severe_threshold t = max (3 - t) (warn_threshold t + 1/2)"

definition buffer_delta :: "quality \<Rightarrow> int option" where
  "buffer_delta q =
     (let t = rtt_tightening (rtt_ms_avg q)
      in map_option (\<lambda>b.
           if flt (Fin (severe_threshold t)) b then 2
           else if flt (Fin (warn_threshold t)) b then 1
           else if flt b (Fin (1/2)) \<and> current_qp q > QP_MIN then - 1
           else 0) (buffer_health_secs q))"

definition pipeline_delta :: "quality \<Rightarrow> f64 \<Rightarrow> int option" where
  "pipeline_delta q budget =
     (if flt (Fin 0) budget \<and> flt budget (Fin 1) then
        (let ratio = fdiv (encode_time_avg q) budget
         in if flt (Fin (8/10)) ratio \<and> current_qp q < QP_MAX then Some 1
            else if flt ratio (Fin (4/10)) \<and> current_qp q > QP_MIN then Some (- 1)
            else Some 0)
      else None)"

fun combine_deltas :: "int option \<Rightarrow> int option \<Rightarrow> int" where
  "combine_deltas (Some bd) (Some pd) = (if bd \<noteq> 0 then bd else pd)"
| "combine_deltas (Some bd) None = bd"
| "combine_deltas None (Some pd) = pd"
| "combine_deltas None None = 0"

definition clamp_qp :: "int \<Rightarrow> nat" where
  "clamp_qp i = nat (max (int QP_MIN) (min (int QP_MAX) i))"

definition q_decide :: "quality \<Rightarrow> f64 \<Rightarrow> quality \<times> u32 option" where
  "q_decide q budget =
     (let delta = combine_deltas (buffer_delta q) (pipeline_delta q budget);
          q = q\<lparr>buffer_health_secs := None\<rparr>
      in if delta = 0 then (q, None)
         else let new_qp = clamp_qp (int (current_qp q) + delta)
              in if new_qp \<noteq> current_qp q then (q\<lparr>current_qp := new_qp\<rparr>, Some new_qp)
                 else (q, None))"

section \<open>The quantiser range is invariant\<close>

definition qp_ok :: "quality \<Rightarrow> bool" where
  "qp_ok q \<longleftrightarrow> QP_MIN \<le> current_qp q \<and> current_qp q \<le> QP_MAX"

lemma clamp_qp_range: "QP_MIN \<le> clamp_qp i \<and> clamp_qp i \<le> QP_MAX"
  by (auto simp: clamp_qp_def rylus_simps nat_le_iff le_nat_iff)

lemma qp_ok_new [rylus_inv]: "qp_ok q_new"
  by (simp add: qp_ok_def q_new_def rylus_simps)

lemma qp_ok_reset [rylus_inv]: "qp_ok (q_reset q)"
  by (simp add: qp_ok_def q_reset_def rylus_simps)

lemma qp_ok_samples [rylus_inv]:
  "qp_ok q \<Longrightarrow> qp_ok (q_set_buffer_health q s)"
  "qp_ok q \<Longrightarrow> qp_ok (q_set_rtt_ms q r)"
  "qp_ok q \<Longrightarrow> qp_ok (q_record_encode_time q e)"
  by (simp_all add: qp_ok_def q_set_buffer_health_def q_set_rtt_ms_def
      q_record_encode_time_def Let_def)

lemma q_decide_qp:
  "current_qp (fst (q_decide q b)) =
     (let d = combine_deltas (buffer_delta q) (pipeline_delta q b)
      in if d = 0 then current_qp q else clamp_qp (int (current_qp q) + d))"
  by (simp add: q_decide_def Let_def)

lemma qp_ok_decide [rylus_inv]: "qp_ok q \<Longrightarrow> qp_ok (fst (q_decide q b))"
  using clamp_qp_range by (simp add: qp_ok_def q_decide_qp Let_def)

lemma q_decide_consumes: "buffer_health_secs (fst (q_decide q b)) = None"
  by (simp add: q_decide_def Let_def)

lemma buffer_delta_range: "buffer_delta q \<in> {None, Some (- 1), Some 0, Some 1, Some 2}"
  by (cases "buffer_health_secs q") (simp_all add: buffer_delta_def Let_def)

lemma pipeline_delta_range: "pipeline_delta q b \<in> {None, Some (- 1), Some 0, Some 1}"
  by (simp add: pipeline_delta_def Let_def)

lemma delta_range:
  "combine_deltas (buffer_delta q) (pipeline_delta q b) \<in> {- 1, 0, 1, 2}"
  using buffer_delta_range [of q] pipeline_delta_range [of q b] by auto

text \<open>The commands the controller receives between two frames.\<close>

datatype q_event = Reset | BufferSample f64 | RttSample u32 | EncodeSample f64 | Decide f64

fun q_step :: "quality \<Rightarrow> q_event \<Rightarrow> quality" where
  "q_step q Reset = q_reset q"
| "q_step q (BufferSample s) = q_set_buffer_health q s"
| "q_step q (RttSample r) = q_set_rtt_ms q r"
| "q_step q (EncodeSample e) = q_record_encode_time q e"
| "q_step q (Decide b) = fst (q_decide q b)"

definition q_run :: "quality \<Rightarrow> q_event list \<Rightarrow> quality" where
  "q_run = foldl q_step"

lemma qp_ok_step [rylus_inv]: "qp_ok q \<Longrightarrow> qp_ok (q_step q e)"
  by (cases e) (simp_all add: rylus_inv)

lemma qp_ok_run: "qp_ok q \<Longrightarrow> qp_ok (q_run q es)"
  unfolding q_run_def by (induction es arbitrary: q) (simp_all add: rylus_inv)

section \<open>Averages\<close>

lemma ema_Fin [simp]: "ema (Fin a) (Fin b) = Fin (3/10 * a + 7/10 * b)"
  by (simp add: ema_def)

lemma ema_between:
  assumes "lo \<le> a" "a \<le> hi" "lo \<le> b" "b \<le> (hi::rat)"
  shows "lo \<le> 3/10 * a + 7/10 * b \<and> 3/10 * a + 7/10 * b \<le> hi"
  using assms by simp

text \<open>Every average the RTT samples produce lies between the smallest and the largest sample.\<close>

definition rtt_within :: "nat \<Rightarrow> nat \<Rightarrow> quality \<Rightarrow> bool" where
  "rtt_within lo hi q \<longleftrightarrow> (case rtt_ms_avg q of
      None \<Rightarrow> True
    | Some x \<Rightarrow> \<exists>a. x = Fin a \<and> of_nat lo \<le> a \<and> a \<le> of_nat hi)"

lemma rtt_within_step:
  assumes "rtt_within lo hi q" "lo \<le> r" "r \<le> hi"
  shows "rtt_within lo hi (q_set_rtt_ms q r)"
  using assms ema_between [of "of_nat lo" "of_nat r" "of_nat hi"]
  by (auto simp: rtt_within_def q_set_rtt_ms_def f_of_nat_def Let_def split: option.splits)

lemma rtt_within_run:
  "rtt_within lo hi q \<Longrightarrow> \<forall>r \<in> set rs. lo \<le> r \<and> r \<le> hi \<Longrightarrow>
     rtt_within lo hi (foldl q_set_rtt_ms q rs)"
  by (induction rs arbitrary: q) (simp_all add: rtt_within_step)

section \<open>Convergence under a constant buffer signal\<close>

definition buffer_round :: "f64 \<Rightarrow> f64 \<Rightarrow> quality \<Rightarrow> quality" where
  "buffer_round s b q = fst (q_decide (q_set_buffer_health q s) b)"

lemma severe_threshold_le: "severe_threshold (rtt_tightening r) \<le> 3"
  by (simp add: severe_threshold_def warn_threshold_def rtt_tightening_def split: option.splits)

lemma warn_threshold_ge: "1 \<le> warn_threshold (rtt_tightening r)"
  by (simp add: warn_threshold_def rtt_tightening_def split: option.splits)

lemma severe_ge_warn: "warn_threshold t \<le> severe_threshold t"
  by (simp add: severe_threshold_def)

lemma flt_trans_le: "a \<le> b \<Longrightarrow> flt (Fin b) x \<Longrightarrow> flt (Fin a) x"
  by (cases x) auto

lemma flt_le_trans: "a \<le> b \<Longrightarrow> flt x (Fin a) \<Longrightarrow> flt x (Fin b)"
  by (cases x) auto

lemma flt_asym: "flt x y \<Longrightarrow> \<not> flt y x"
  by (cases x; cases y) auto

lemma overload_delta:
  assumes "flt (Fin 3) s"
  shows "buffer_delta (q_set_buffer_health q s) = Some 2"
  using flt_trans_le [OF severe_threshold_le assms]
  by (simp add: buffer_delta_def q_set_buffer_health_def Let_def)

lemma headroom_delta:
  assumes "flt s (Fin (1/2))" "QP_MIN < current_qp q"
  shows "buffer_delta (q_set_buffer_health q s) = Some (- 1)"
proof -
  let ?t = "rtt_tightening (rtt_ms_avg q)"
  have w: "1/2 \<le> warn_threshold ?t" using warn_threshold_ge [of "rtt_ms_avg q"] by simp
  have "flt s (Fin (warn_threshold ?t))" by (rule flt_le_trans [OF w assms(1)])
  moreover from this have "flt s (Fin (severe_threshold ?t))"
    by (rule flt_le_trans [OF severe_ge_warn])
  ultimately show ?thesis using assms
    by (simp add: buffer_delta_def q_set_buffer_health_def Let_def flt_asym)
qed

lemma combine_buffer_wins: "bd \<noteq> 0 \<Longrightarrow> combine_deltas (Some bd) p = bd"
  by (cases p) simp_all

lemma overload_round_qp:
  assumes "flt (Fin 3) s" "qp_ok q"
  shows "current_qp (buffer_round s b q) = min QP_MAX (current_qp q + 2)"
proof -
  have "current_qp (q_set_buffer_health q s) = current_qp q"
    by (simp add: q_set_buffer_health_def)
  then show ?thesis using assms
    by (simp add: buffer_round_def q_decide_qp overload_delta combine_buffer_wins clamp_qp_def
        qp_ok_def rylus_simps min_def max_def nat_eq_iff)
qed

lemma headroom_round_qp:
  assumes "flt s (Fin (1/2))" "qp_ok q" "QP_MIN < current_qp q"
  shows "current_qp (buffer_round s b q) = current_qp q - 1"
proof -
  have "current_qp (q_set_buffer_health q s) = current_qp q"
    by (simp add: q_set_buffer_health_def)
  then show ?thesis using assms
    by (simp add: buffer_round_def q_decide_qp headroom_delta combine_buffer_wins clamp_qp_def
        qp_ok_def rylus_simps min_def max_def nat_eq_iff)
qed

lemma qp_ok_round [rylus_inv]: "qp_ok q \<Longrightarrow> qp_ok (buffer_round s b q)"
  by (simp add: buffer_round_def rylus_inv)

lemma overload_rounds_qp:
  assumes "flt (Fin 3) s" "qp_ok q"
  shows "qp_ok ((buffer_round s b ^^ n) q) \<and>
         current_qp ((buffer_round s b ^^ n) q) = min QP_MAX (current_qp q + 2 * n)"
proof (induction n)
  case 0
  show ?case using assms by (simp add: qp_ok_def)
next
  case (Suc n)
  then show ?case using assms
    by (simp add: overload_round_qp rylus_inv)
qed

end
