(* ===== verification/ConfigModel.thy ===== *)
theory ConfigModel
  imports Prelude
begin

text \<open>
  \<open>crates/rylus-core/src/config.rs\<close> on Linux: the themes and their index mapping, the
  configuration record, the resolution of the TLS mode, and reading, writing and assembling the
  configuration.  The platform directory, the file system, \<open>toml\<close> and \<open>clap\<close> are arguments of the
  definitions; a file system is a set of directories and a map from paths to contents.
\<close>

section \<open>Themes\<close>

datatype theme_type = Aero | AquaClassic | Blue | Classic | Dark | Greybird | HighContrast | Metro

definition THEME_LIST :: "theme_type list" where
  "THEME_LIST = [Aero, AquaClassic, Blue, Classic, Dark, Greybird, HighContrast, Metro]"

definition theme_default :: theme_type where
  "theme_default = Greybird"

fun theme_name :: "theme_type \<Rightarrow> string" where
  "theme_name Aero = ''Aero''"
| "theme_name AquaClassic = ''AquaClassic''"
| "theme_name Blue = ''Blue''"
| "theme_name Classic = ''Classic''"
| "theme_name Dark = ''Dark''"
| "theme_name Greybird = ''Greybird''"
| "theme_name HighContrast = ''HighContrast''"
| "theme_name Metro = ''Metro''"

text \<open>\<open>position(..).expect(..)\<close>: \<open>None\<close> is the panic of a theme missing from the list.\<close>

definition theme_to_index :: "theme_type \<Rightarrow> int option" where
  "theme_to_index t = map_option int (position (\<lambda>th. th = t) THEME_LIST)"

definition theme_from_index :: "int \<Rightarrow> theme_type" where
  "theme_from_index i =
     (let i = nat (max 0 (min (int (length THEME_LIST) - 1) i)) in THEME_LIST ! i)"

section \<open>Configuration\<close>

datatype tls_mode = TlsDisabled | TlsAuto | TlsCertified

record config =
  access_code :: "string option"
  bind_address :: string
  web_port :: nat
  try_vaapi :: bool
  try_nvenc :: bool
  auto_start :: bool
  gui_theme :: "theme_type option"
  no_gui :: bool
  self_test :: bool
  wayland_support :: bool
  print_index_html :: bool
  print_access_html :: bool
  print_style_css :: bool
  print_lib_js :: bool
  custom_index_html :: "string option"
  custom_access_html :: "string option"
  custom_style_css :: "string option"
  custom_lib_js :: "string option"
  completions :: "string option"
  print_man_page :: bool
  cfg_tls_mode :: "string option"
  tls_cert_path :: "string option"
  tls_key_path :: "string option"
  no_mdns :: bool
  latency_log :: bool

definition default_wayland_support :: "string option \<Rightarrow> bool" where
  "default_wayland_support xdg_session_type =
     (case xdg_session_type of Some v \<Rightarrow> v = ''wayland'' | None \<Rightarrow> False)"

definition resolve_tls_mode :: "config \<Rightarrow> tls_mode" where
  "resolve_tls_mode c = (case cfg_tls_mode c of
      None \<Rightarrow> TlsAuto
    | Some m \<Rightarrow>
        if m = ''disabled'' \<or> m = ''off'' \<or> m = ''none'' then TlsDisabled
        else if m = ''certified'' then TlsCertified
        else if m = ''auto'' then TlsAuto
        else TlsAuto)"

section \<open>Files\<close>

record fs =
  fs_dirs :: "string set"
  fs_files :: "string \<Rightarrow> string option"

definition config_subdir :: "string \<Rightarrow> string" where
  "config_subdir d = d @ ''/rylus''"

definition config_file :: "string \<Rightarrow> string" where
  "config_file d = config_subdir d @ ''/rylus.toml''"

text \<open>\<open>read_to_string\<close> fails when the file is missing (or unreadable, \<open>readable = False\<close>); a text that
  \<open>toml::from_str\<close> refuses also yields \<open>None\<close>.\<close>

definition read_config ::
  "string option \<Rightarrow> fs \<Rightarrow> bool \<Rightarrow> (string \<Rightarrow> config option) \<Rightarrow> config option" where
  "read_config config_dir f readable from_str =
     (case config_dir of
        Some d \<Rightarrow>
          (case (if readable then fs_files f (config_file d) else None) of
             Some s \<Rightarrow> from_str s
           | None \<Rightarrow> None)
      | None \<Rightarrow> None)"

text \<open>\<open>mkdir_ok\<close> and \<open>write_ok\<close> are the results of \<open>create_dir_all\<close> and \<open>fs::write\<close>.\<close>

definition write_config ::
  "string option \<Rightarrow> bool \<Rightarrow> bool \<Rightarrow> (config \<Rightarrow> string option) \<Rightarrow> config \<Rightarrow> fs \<Rightarrow> fs" where
  "write_config config_dir mkdir_ok write_ok to_string conf f =
     (case config_dir of
        Some d \<Rightarrow>
          let exists = config_subdir d \<in> fs_dirs f in
          if \<not> exists \<and> \<not> mkdir_ok then f
          else
            let f = (if exists then f else f\<lparr>fs_dirs := insert (config_subdir d) (fs_dirs f)\<rparr>)
            in (case to_string conf of
                  Some s \<Rightarrow>
                    if write_ok then f\<lparr>fs_files := (fs_files f)(config_file d \<mapsto> s)\<rparr> else f
                | None \<Rightarrow> f)
      | None \<Rightarrow> f)"

text \<open>\<open>stored\<close> is the result of \<open>read_config\<close>; \<open>update_from\<close> and \<open>parse\<close> are \<open>clap\<close>'s.\<close>

definition get_config ::
  "string list \<Rightarrow> config option \<Rightarrow> (config \<Rightarrow> string list \<Rightarrow> config) \<Rightarrow> (string list \<Rightarrow> config)
     \<Rightarrow> string option \<Rightarrow> config" where
  "get_config args stored update_from parse xdg_session_type =
     (let c = (case stored of
                 Some c \<Rightarrow> if length args > 1 then update_from c args else c
               | None \<Rightarrow> parse args);
          explicitly_set = list_ex (\<lambda>a. a = ''--wayland-support'') args
      in if \<not> explicitly_set
         then c\<lparr>wayland_support := default_wayland_support xdg_session_type\<rparr>
         else c)"

section \<open>Facts\<close>

lemma theme_round_trip: "map_option theme_from_index (theme_to_index t) = Some t"
  by (cases t) (simp_all add: theme_to_index_def theme_from_index_def THEME_LIST_def)

lemma theme_from_index_mem: "theme_from_index i \<in> set THEME_LIST"
  unfolding theme_from_index_def Let_def by (rule nth_mem) (simp add: THEME_LIST_def)

lemma theme_from_index_clamps:
  "i \<le> 0 \<Longrightarrow> theme_from_index i = Aero"
  "7 \<le> i \<Longrightarrow> theme_from_index i = Metro"
  by (simp_all add: theme_from_index_def THEME_LIST_def min_def max_def)

lemma config_file_in_subdir: "config_file d = config_subdir d @ ''/rylus.toml''"
  by (simp add: config_file_def)

lemma write_config_file:
  assumes "to_string conf = Some s" "mkdir_ok" "write_ok"
  shows "fs_files (write_config (Some d) mkdir_ok write_ok to_string conf f) (config_file d) = Some s"
  using assms by (simp add: write_config_def Let_def)

lemma write_config_frame:
  "p \<noteq> config_file d \<Longrightarrow>
     fs_files (write_config (Some d) mkdir_ok write_ok to_string conf f) p = fs_files f p"
  by (simp add: write_config_def Let_def split: option.split)

lemma read_after_write:
  assumes "\<And>c s. to_string c = Some s \<Longrightarrow> from_str s = Some (persist c)"
    and "to_string conf = Some s"
  shows "read_config (Some d) (write_config (Some d) True True to_string conf f) True from_str
           = Some (persist conf)"
  using assms by (simp add: read_config_def write_config_file)

end
