(* ===== verification/Protocol.thy ===== *)
theory Protocol
  imports RustNum "HOL-Library.Word"
begin

text \<open>
  The wire protocol of \<open>crates/rylus-core/src/protocol.rs\<close>: the messages in both directions and
  the hand-written pieces of their (de)serialisation, the \<open>serde(rename)\<close> tables of the event
  enums, the \<open>u8\<close> keyboard location and the \<open>u8\<close> button bit set.  The JSON text layer itself is
  \<open>serde_json\<close>.
\<close>

unbundle bit_operations_syntax

section \<open>Versions\<close>

definition PROTOCOL_VERSION :: u32 where "PROTOCOL_VERSION = 3"
definition MIN_CLIENT_PROTOCOL_VERSION :: u32 where "MIN_CLIENT_PROTOCOL_VERSION = 2"

section \<open>Geometry\<close>

record rect =
  rx :: f64
  ry :: f64
  rw :: f64
  rh :: f64

definition rect_default :: rect where
  "rect_default = \<lparr>rx = Fin 0, ry = Fin 0, rw = Fin 1, rh = Fin 1\<rparr>"

record custom_input_areas =
  area_mouse :: "rect option"
  area_touch :: "rect option"
  area_pen :: "rect option"

section \<open>Event enums and their wire names\<close>

datatype pointer_type = PUnknown | Mouse | Pen | Touch

fun pointer_type_name :: "pointer_type \<Rightarrow> string" where
  "pointer_type_name PUnknown = ''''"
| "pointer_type_name Mouse = ''mouse''"
| "pointer_type_name Pen = ''pen''"
| "pointer_type_name Touch = ''touch''"

datatype pointer_event_type = DOWN | UP | CANCEL | MOVE | OVER | ENTER | LEAVE | OUT

fun pointer_event_type_name :: "pointer_event_type \<Rightarrow> string" where
  "pointer_event_type_name DOWN = ''pointerdown''"
| "pointer_event_type_name UP = ''pointerup''"
| "pointer_event_type_name CANCEL = ''pointercancel''"
| "pointer_event_type_name MOVE = ''pointermove''"
| "pointer_event_type_name OVER = ''pointerover''"
| "pointer_event_type_name ENTER = ''pointerenter''"
| "pointer_event_type_name LEAVE = ''pointerleave''"
| "pointer_event_type_name OUT = ''pointerout''"

datatype keyboard_event_type = KDown | KUp | KRepeat

fun keyboard_event_type_name :: "keyboard_event_type \<Rightarrow> string" where
  "keyboard_event_type_name KDown = ''down''"
| "keyboard_event_type_name KUp = ''up''"
| "keyboard_event_type_name KRepeat = ''repeat''"

datatype keyboard_location = STANDARD | LEFT | RIGHT | NUMPAD

text \<open>\<open>location_from\<close>: any other code is a deserialisation error.\<close>

definition location_from :: "8 word \<Rightarrow> string + keyboard_location" where
  "location_from code =
     (if code = 0 then Inr STANDARD
      else if code = 1 then Inr LEFT
      else if code = 2 then Inr RIGHT
      else if code = 3 then Inr NUMPAD
      else Inl ''Failed to parse keyboard location code.'')"

section \<open>Buttons\<close>

text \<open>The \<open>bitflags\<close> type \<open>Button\<close> is its \<open>u8\<close> of bits.\<close>

type_synonym button = "8 word"

definition NONE :: button where "NONE = 0"
definition PRIMARY :: button where "PRIMARY = 1"
definition SECONDARY :: button where "SECONDARY = 2"
definition AUXILARY :: button where "AUXILARY = 4"
definition FOURTH :: button where "FOURTH = 8"
definition FIFTH :: button where "FIFTH = 16"
definition ERASER :: button where "ERASER = 32"

lemmas button_consts = NONE_def PRIMARY_def SECONDARY_def AUXILARY_def FOURTH_def FIFTH_def
  ERASER_def

text \<open>The union of the declared flags; \<open>Button::from_bits\<close> refuses any other bit.\<close>

definition button_all :: button where
  "button_all = NONE OR PRIMARY OR SECONDARY OR AUXILARY OR FOURTH OR FIFTH OR ERASER"

definition button_from_bits :: "8 word \<Rightarrow> button option" where
  "button_from_bits bits = (if bits AND NOT button_all = 0 then Some bits else None)"

definition button_from :: "8 word \<Rightarrow> string + button" where
  "button_from bits = (case button_from_bits bits of
      Some b \<Rightarrow> Inr b
    | None \<Rightarrow> Inl ''Failed to parse button code.'')"

definition button_to :: "button \<Rightarrow> 8 word" where
  "button_to b = b"

definition button_contains :: "button \<Rightarrow> button \<Rightarrow> bool" where
  "button_contains s b \<longleftrightarrow> s AND b = b"

section \<open>Events and messages\<close>

record keyboard_event =
  ke_event_type :: keyboard_event_type
  ke_code :: string
  ke_key :: "nat list"
  ke_location :: keyboard_location
  ke_alt :: bool
  ke_ctrl :: bool
  ke_shift :: bool
  ke_meta :: bool

text \<open>\<open>ke_key\<close> is the Unicode text of the key, as code points; \<open>ke_code\<close> is an ASCII name.\<close>

record pointer_event =
  pe_event_type :: pointer_event_type
  pe_pointer_id :: int
  pe_timestamp :: u64
  pe_is_primary :: bool
  pe_pointer_type :: pointer_type
  pe_button :: button
  pe_buttons :: button
  pe_x :: f64
  pe_y :: f64
  pe_pressure :: f64
  pe_tilt_x :: int
  pe_tilt_y :: int
  pe_twist :: int
  pe_width :: f64
  pe_height :: f64
  pe_altitude_angle :: "f64 option"
  pe_azimuth_angle :: "f64 option"

record wheel_event =
  we_dx :: int
  we_dy :: int
  we_timestamp :: u64

record client_configuration =
  cc_uinput_support :: bool
  cc_capturable_id :: usize
  cc_capture_cursor :: bool
  cc_max_width :: usize
  cc_max_height :: usize
  cc_client_name :: "string option"
  cc_frame_rate :: f64

datatype message_inbound =
    InHello u32
  | InPointerEvent pointer_event
  | BatchedPointerEvents "pointer_event list"
  | InWheelEvent wheel_event
  | InKeyboardEvent keyboard_event
  | GetCapturableList
  | Config client_configuration
  | PauseVideo
  | ResumeVideo
  | RestartVideo
  | ChooseCustomInputAreas
  | InBufferHealth f64
  | Heartbeat
  | RequestKeyframe
  | ClientRtt u32

datatype message_outbound =
    OutHello u32
  | HelloNack u32 u32 string
  | CapturableList "string list"
  | NewVideo
  | VideoInit string
  | ConfigOk
  | OutCustomInputAreas custom_input_areas
  | ConfigError string
  | Error string
  | HeartbeatAck u64

section \<open>Facts\<close>

lemma pointer_type_name_inj: "pointer_type_name a = pointer_type_name b \<longleftrightarrow> a = b"
  by (cases a; cases b) simp_all

lemma pointer_event_type_name_inj:
  "pointer_event_type_name a = pointer_event_type_name b \<longleftrightarrow> a = b"
  by (cases a; cases b) simp_all

lemma keyboard_event_type_name_inj:
  "keyboard_event_type_name a = keyboard_event_type_name b \<longleftrightarrow> a = b"
  by (cases a; cases b) simp_all

lemma button_all_eq: "button_all = 63"
  by (simp add: button_all_def button_consts)

lemma and_not_mask_iff: "a AND NOT m = 0 \<longleftrightarrow> a AND m = (a :: 'a::len word)"
  by (auto simp: bit_eq_iff bit_and_iff bit_not_iff)

lemma button_from_bits_iff: "button_from_bits bits = Some b \<longleftrightarrow> b = bits \<and> unat bits < 64"
proof -
  have "bits AND 63 = take_bit 6 bits"
    by (simp add: take_bit_eq_mask mask_eq_exp_minus_1)
  moreover have "take_bit 6 bits = bits \<longleftrightarrow> unat bits < 64"
    by (simp add: word_unat_eq_iff unsigned_take_bit_eq take_bit_nat_eq_self_iff)
  moreover have "bits AND NOT (63 :: 8 word) = 0 \<longleftrightarrow> bits AND 63 = bits"
    by (rule and_not_mask_iff)
  ultimately show ?thesis
    by (auto simp: button_from_bits_def button_all_eq)
qed

lemma button_contains_NONE: "button_contains s NONE"
  by (simp add: button_contains_def button_consts)

lemma button_contains_refl: "button_contains s s"
  by (simp add: button_contains_def)

end
