(* ===== verification/VideoQueue.thy ===== *)
theory VideoQueue
  imports Prelude "HOL-Library.Sublist"
begin

text \<open>
  The drop-oldest video queue of \<open>crates/rylus-transport/src/websocket.rs\<close> (\<open>VideoQueue\<close>).
  The interface \<open>drop_oldest\<close> states what a producer and a consumer of such a queue rely on and
  derives the consequences once: the queue holds the newest \<open>cap\<close> frames in order, and every
  frame that was pushed is either still there, handed out by a drain, or counted as dropped.
  The queue of the code is an instance.
\<close>

lemma subseq_lastn: "subseq (lastn n xs) xs"
  unfolding lastn_def by (rule suffix_imp_subseq) (rule suffix_drop)

section \<open>The interface\<close>

locale drop_oldest =
  fixes contents :: "'q \<Rightarrow> 'f list"
    and cap :: nat
    and lost :: "'q \<Rightarrow> nat"
    and put :: "'q \<Rightarrow> 'f \<Rightarrow> 'q"
    and take_all :: "'q \<Rightarrow> 'f list \<times> 'q"
  assumes cap_pos: "0 < cap"
    and put_contents: "length (contents q) \<le> cap \<Longrightarrow>
          contents (put q x) = lastn cap (contents q @ [x])"
    and put_lost: "length (contents q) \<le> cap \<Longrightarrow>
          lost (put q x) = (lost q + (length (contents q) + 1 - cap)) mod 2 ^ 64"
    and take_all_fst: "fst (take_all q) = contents q"
    and take_all_contents: "contents (snd (take_all q)) = []"
    and take_all_lost: "lost (snd (take_all q)) = lost q"
begin

lemma put_bounded: "length (contents q) \<le> cap \<Longrightarrow> length (contents (put q x)) \<le> cap"
  by (simp add: put_contents)

lemma puts_contents:
  "length (contents q) \<le> cap \<Longrightarrow> contents (foldl put q xs) = lastn cap (contents q @ xs)"
proof (induction xs arbitrary: q)
  case Nil
  then show ?case by (simp add: lastn_short)
next
  case (Cons x xs)
  then show ?case by (simp add: put_bounded put_contents lastn_append_lastn)
qed

lemma put_suffix:
  assumes "length (contents q) \<le> cap"
  shows "\<exists>d. contents q @ [x] = d @ contents (put q x)
           \<and> length d = length (contents q) + 1 - cap
           \<and> lost (put q x) = (lost q + length d) mod 2 ^ 64"
proof (intro exI conjI)
  let ?d = "take (length (contents q @ [x]) - cap) (contents q @ [x])"
  show "contents q @ [x] = ?d @ contents (put q x)"
    using assms by (simp only: put_contents lastn_prefix [symmetric])
  show "length ?d = length (contents q) + 1 - cap" using cap_pos by simp
  then show "lost (put q x) = (lost q + length ?d) mod 2 ^ 64"
    using assms by (simp only: put_lost)
qed

lemma put_subseq:
  "length (contents q) \<le> cap \<Longrightarrow> subseq (contents (put q x)) (contents q @ [x])"
  by (simp only: put_contents subseq_lastn)

text \<open>Nothing is lost silently.\<close>

lemma put_accounting:
  assumes "length (contents q) \<le> cap" "n mod 2 ^ 64 = (length (contents q) + lost q) mod 2 ^ 64"
  shows "(n + 1) mod 2 ^ 64 = (length (contents (put q x)) + lost (put q x)) mod 2 ^ 64"
proof -
  have "length (contents (put q x)) + (length (contents q) + 1 - cap) = length (contents q) + 1"
    using assms(1) by (simp add: put_contents)
  then have "length (contents (put q x)) + (lost q + (length (contents q) + 1 - cap))
      = (length (contents q) + lost q) + 1" by simp
  then have "(length (contents (put q x)) + lost (put q x)) mod 2 ^ 64
      = ((length (contents q) + lost q) + 1) mod 2 ^ 64"
    by (simp only: put_lost [OF assms(1)] mod_add_right_eq)
  also have "\<dots> = ((length (contents q) + lost q) mod 2 ^ 64 + 1) mod 2 ^ 64"
    by (simp only: mod_add_left_eq)
  also have "\<dots> = (n mod 2 ^ 64 + 1) mod 2 ^ 64"
    by (simp only: assms(2))
  finally show ?thesis by (simp only: mod_add_left_eq)
qed

end

section \<open>The queue of the code\<close>

definition VIDEO_QUEUE_CAPACITY :: usize where "VIDEO_QUEUE_CAPACITY = 4"

text \<open>\<open>vq_permit\<close> is the single permit a \<open>tokio::sync::Notify\<close> stores: \<open>notify_one\<close> sets it (a second
  one merges), a completed \<open>notified()\<close> consumes it.  The drop counter is an \<open>AtomicU64\<close>.\<close>

record video_queue =
  vq_inner :: "byte list list"
  vq_permit :: bool
  vq_dropped :: u64
  vq_closed :: bool

definition vq_new :: video_queue where
  "vq_new = \<lparr>vq_inner = [], vq_permit = False, vq_dropped = 0, vq_closed = False\<rparr>"

definition notify_one :: "video_queue \<Rightarrow> video_queue" where
  "notify_one v = v\<lparr>vq_permit := True\<rparr>"

text \<open>The \<open>while q.len() >= VIDEO_QUEUE_CAPACITY\<close> loop of \<open>push\<close>.\<close>

fun make_room :: "byte list list \<Rightarrow> u64 \<Rightarrow> byte list list \<times> u64" where
  "make_room [] d = ([], d)"
| "make_room (f # q) d =
     (if length (f # q) \<ge> VIDEO_QUEUE_CAPACITY then make_room q ((d + 1) mod 2 ^ 64)
      else (f # q, d))"

definition vq_push :: "video_queue \<Rightarrow> byte list \<Rightarrow> video_queue" where
  "vq_push v bytes =
     (let (q, d) = make_room (vq_inner v) (vq_dropped v)
      in notify_one (v\<lparr>vq_inner := q @ [bytes], vq_dropped := d\<rparr>))"

definition vq_close :: "video_queue \<Rightarrow> video_queue" where
  "vq_close v = notify_one (v\<lparr>vq_closed := True\<rparr>)"

definition vq_is_closed :: "video_queue \<Rightarrow> bool" where
  "vq_is_closed v = vq_closed v"

definition vq_drain :: "video_queue \<Rightarrow> byte list list \<times> video_queue" where
  "vq_drain v = (vq_inner v, v\<lparr>vq_inner := []\<rparr>)"

section \<open>The queue implements the interface\<close>

lemma make_room_short: "length q \<le> 3 \<Longrightarrow> make_room q d = (q, d)"
  by (cases q) (simp_all add: VIDEO_QUEUE_CAPACITY_def)

lemma make_room_full: "length q = 4 \<Longrightarrow> make_room q d = (tl q, (d + 1) mod 2 ^ 64)"
  by (cases q) (simp_all add: VIDEO_QUEUE_CAPACITY_def make_room_short)

lemma vq_push_cases:
  assumes "length (vq_inner v) \<le> 4"
  shows "vq_push v b = v\<lparr>vq_inner := lastn 4 (vq_inner v @ [b]), vq_permit := True,
     vq_dropped := (if length (vq_inner v) = 4 then (vq_dropped v + 1) mod 2 ^ 64
                    else vq_dropped v)\<rparr>"
proof (cases "length (vq_inner v) = 4")
  case True
  then have "lastn 4 (vq_inner v @ [b]) = tl (vq_inner v) @ [b]"
    by (simp add: lastn_def drop_Suc)
  with True show ?thesis
    by (simp add: vq_push_def make_room_full notify_one_def)
next
  case False
  then have l: "length (vq_inner v) \<le> 3" using assms by simp
  show ?thesis using l
    by (simp add: vq_push_def make_room_short notify_one_def lastn_short)
qed

text \<open>The counter starts below \<open>2 ^ 64\<close> and stays there; reading it modulo \<open>2 ^ 64\<close> makes the law
  unconditional.\<close>

interpretation vq: drop_oldest vq_inner VIDEO_QUEUE_CAPACITY "\<lambda>v. vq_dropped v mod 2 ^ 64" vq_push vq_drain
proof unfold_locales
  fix q :: video_queue and x
  assume "length (vq_inner q) \<le> VIDEO_QUEUE_CAPACITY"
  then have l: "length (vq_inner q) \<le> 4" by (simp add: VIDEO_QUEUE_CAPACITY_def)
  show "vq_inner (vq_push q x) = lastn VIDEO_QUEUE_CAPACITY (vq_inner q @ [x])"
    using l by (simp add: vq_push_cases VIDEO_QUEUE_CAPACITY_def)
  show "vq_dropped (vq_push q x) mod 2 ^ 64 =
     (vq_dropped q mod 2 ^ 64 + (length (vq_inner q) + 1 - VIDEO_QUEUE_CAPACITY)) mod 2 ^ 64"
  proof (cases "length (vq_inner q) = 4")
    case True
    then show ?thesis by (simp add: vq_push_cases VIDEO_QUEUE_CAPACITY_def mod_simps)
  next
    case False
    then show ?thesis using l by (simp add: vq_push_cases VIDEO_QUEUE_CAPACITY_def)
  qed
qed (simp_all add: VIDEO_QUEUE_CAPACITY_def vq_drain_def)

lemma vq_push_inner:
  "length (vq_inner v) \<le> 4 \<Longrightarrow> vq_inner (vq_push v b) = lastn 4 (vq_inner v @ [b])"
  by (simp add: vq_push_cases)

lemma vq_push_flags [simp]:
  "vq_permit (vq_push v b)" "vq_closed (vq_push v b) = vq_closed v"
  by (simp_all add: vq_push_def notify_one_def split: prod.split)

lemma vq_close_simps [simp]:
  "vq_inner (vq_close v) = vq_inner v" "vq_dropped (vq_close v) = vq_dropped v"
  "vq_closed (vq_close v)" "vq_permit (vq_close v)"
  by (simp_all add: vq_close_def notify_one_def)

lemma vq_drain_simps [simp]:
  "fst (vq_drain v) = vq_inner v" "vq_inner (snd (vq_drain v)) = []"
  "vq_dropped (snd (vq_drain v)) = vq_dropped v" "vq_closed (snd (vq_drain v)) = vq_closed v"
  "vq_permit (snd (vq_drain v)) = vq_permit v"
  by (simp_all add: vq_drain_def)

lemma vq_new_simps [simp]:
  "vq_inner vq_new = []" "vq_dropped vq_new = 0" "\<not> vq_closed vq_new" "\<not> vq_permit vq_new"
  by (simp_all add: vq_new_def)

end
