(* ===== verification/WsChannel.thy ===== *)
theory WsChannel
  imports VideoQueue Protocol
begin

text \<open>
  The WebSocket channel of \<open>crates/rylus-transport/src/websocket.rs\<close>
  (\<open>rylus_websocket_channel\<close>): the state its two tasks and its two handles share, one definition
  per section of the reader and of the writer loop, and the sender's operations.  The interleaving
  of the two tasks, the session threads that hold the handles and the peer is the step relation
  \<open>ws_step\<close>.

  \<^item> Payloads are byte lists; \<open>parse\<close> and \<open>to_json\<close> are \<open>serde_json\<close>'s \<open>from_str\<close> and \<open>to_string\<close>.
  \<^item> A bounded \<open>mpsc\<close> channel is the list of its queued values with flags for its ends; a send on a
    full channel is not enabled (the sender blocks or awaits), a send on a channel whose receiver is
    gone is an error.
  \<^item> Ghost fields record what was pushed and what reached the socket.
\<close>

section \<open>Constants and frames\<close>

definition MAX_TEXT_FRAME_SIZE :: usize where "MAX_TEXT_FRAME_SIZE = 64 * 1024"
definition IDLE_TIMEOUT :: nanos where "IDLE_TIMEOUT = secs 120"
definition CHANNEL_BUFFER_SIZE :: usize where "CHANNEL_BUFFER_SIZE = 32"

datatype ws_frame =
    TextFrame "byte list"
  | BinaryFrame "byte list"
  | PingFrame "byte list"
  | PongFrame "byte list"
  | CloseFrame "(nat \<times> byte list) option"
  | RawFrame "byte list"

datatype ws_message = WsRaw ws_frame | WsOutbound message_outbound

text \<open>What the reader's \<open>select!\<close> may see: the shutdown semaphore, the idle timer, an item of the
  stream, a stream error or the end of the stream.\<close>

datatype read_event = ShutdownSignal | IdleElapsed | ReadItem ws_frame | ReadError | StreamEnd

datatype reader_pc = RSelect | RForward message_inbound | REnded
datatype writer_pc = WTop | WSending "byte list list" | WSelect | WEnded

record ws_state =
  ws_vq :: video_queue
  ws_in :: "message_inbound list"
  ws_in_open :: bool
  ws_out :: "ws_message list"
  ws_senders :: bool
  ws_reader :: reader_pc
  ws_writer :: writer_pc
  ws_sent :: "ws_frame list"
  ws_pushed :: "byte list list"

text \<open>\<open>ws_in_open\<close>: the \<open>WsRylusReceiver\<close> is alive; \<open>ws_senders\<close>: some clone of \<open>WsRylusSender\<close> is.\<close>

definition rylus_websocket_channel :: ws_state where
  "rylus_websocket_channel =
     \<lparr>ws_vq = vq_new, ws_in = [], ws_in_open = True, ws_out = [], ws_senders = True,
      ws_reader = RSelect, ws_writer = WTop, ws_sent = [], ws_pushed = []\<rparr>"

section \<open>The reader task\<close>

definition reader_break :: "ws_state \<Rightarrow> ws_state" where
  "reader_break s = s\<lparr>ws_vq := vq_close (ws_vq s), ws_reader := REnded\<rparr>"

text \<open>The \<open>match msg\<close> of the loop; a parsed message is then forwarded.\<close>

definition reader_on_frame ::
  "(byte list \<Rightarrow> message_inbound option) \<Rightarrow> ws_frame \<Rightarrow> ws_state \<Rightarrow> ws_state" where
  "reader_on_frame parse f s = (case f of
      CloseFrame _ \<Rightarrow> reader_break s
    | TextFrame text \<Rightarrow>
        if length text > MAX_TEXT_FRAME_SIZE then s
        else (case parse text of
                Some m \<Rightarrow> s\<lparr>ws_reader := RForward m\<rparr>
              | None \<Rightarrow> s)
    | BinaryFrame _ \<Rightarrow> s
    | PingFrame _ \<Rightarrow> s
    | PongFrame _ \<Rightarrow> s
    | RawFrame _ \<Rightarrow> s)"

definition reader_on_event ::
  "(byte list \<Rightarrow> message_inbound option) \<Rightarrow> read_event \<Rightarrow> ws_state \<Rightarrow> ws_state" where
  "reader_on_event parse e s = (case e of
      ShutdownSignal \<Rightarrow> reader_break s
    | IdleElapsed \<Rightarrow> reader_break s
    | ReadItem f \<Rightarrow> reader_on_frame parse f s
    | ReadError \<Rightarrow> reader_break s
    | StreamEnd \<Rightarrow> reader_break s)"

text \<open>\<open>sender_inbound.send(msg).await\<close>: \<open>None\<close> while the channel is full; a send to a receiver that
  is gone only warns.\<close>

definition reader_forward :: "ws_state \<Rightarrow> ws_state option" where
  "reader_forward s = (case ws_reader s of
      RForward m \<Rightarrow>
        if \<not> ws_in_open s then Some (s\<lparr>ws_reader := RSelect\<rparr>)
        else if length (ws_in s) < CHANNEL_BUFFER_SIZE
        then Some (s\<lparr>ws_in := ws_in s @ [m], ws_reader := RSelect\<rparr>)
        else None
    | _ \<Rightarrow> None)"

text \<open>\<open>WsRylusReceiver::next\<close>: the outer \<open>None\<close> is a blocked \<open>blocking_recv\<close>, the inner one the end of
  the iteration, which needs the reader task to have dropped its sender.\<close>

definition receiver_next :: "ws_state \<Rightarrow> (message_inbound option \<times> ws_state) option" where
  "receiver_next s = (case ws_in s of
      m # ms \<Rightarrow> Some (Some m, s\<lparr>ws_in := ms\<rparr>)
    | [] \<Rightarrow> if ws_reader s = REnded then Some (None, s) else None)"

section \<open>The sender handle\<close>

text \<open>\<open>None\<close>: the call blocks; \<open>Inl\<close>: the channel's receiver, the writer task, is gone.\<close>

definition send_message ::
  "ws_state \<Rightarrow> message_outbound \<Rightarrow> ((ws_message + unit) \<times> ws_state) option" where
  "send_message s message =
     (if ws_writer s = WEnded then Some (Inl (WsOutbound message), s)
      else if length (ws_out s) < CHANNEL_BUFFER_SIZE
      then Some (Inr (), s\<lparr>ws_out := ws_out s @ [WsOutbound message]\<rparr>)
      else None)"

definition send_video ::
  "ws_state \<Rightarrow> byte list \<Rightarrow> ((ws_message + unit) \<times> ws_state) option" where
  "send_video s bytes =
     Some (Inr (), s\<lparr>ws_vq := vq_push (ws_vq s) bytes, ws_pushed := ws_pushed s @ [bytes]\<rparr>)"

section \<open>The writer task\<close>

text \<open>Top of the loop: drain the video queue.\<close>

definition writer_top :: "ws_state \<Rightarrow> ws_state" where
  "writer_top s =
     (let (frames, v) = vq_drain (ws_vq s)
      in s\<lparr>ws_vq := v, ws_writer := (if frames \<noteq> [] then WSending frames else WSelect)\<rparr>)"

text \<open>\<open>write.send(Message::Binary(data))\<close> for the next drained frame.\<close>

definition writer_send :: "bool \<Rightarrow> byte list list \<Rightarrow> ws_state \<Rightarrow> ws_state" where
  "writer_send send_ok frames s = (case frames of
      [] \<Rightarrow> s\<lparr>ws_writer := WTop\<rparr>
    | data # rest \<Rightarrow>
        if send_ok
        then s\<lparr>ws_sent := ws_sent s @ [BinaryFrame data], ws_writer := WSending rest\<rparr>
        else s\<lparr>ws_writer := WEnded\<rparr>)"

definition writer_notified :: "ws_state \<Rightarrow> ws_state" where
  "writer_notified s =
     (let s = s\<lparr>ws_vq := (ws_vq s)\<lparr>vq_permit := False\<rparr>\<rparr>
      in if vq_is_closed (ws_vq s) \<and> vq_inner (ws_vq s) = [] then s\<lparr>ws_writer := WEnded\<rparr>
         else s\<lparr>ws_writer := WTop\<rparr>)"

definition writer_deliver :: "bool \<Rightarrow> ws_frame \<Rightarrow> ws_state \<Rightarrow> ws_state" where
  "writer_deliver send_ok f s =
     (if send_ok then s\<lparr>ws_sent := ws_sent s @ [f], ws_writer := WTop\<rparr>
      else s\<lparr>ws_writer := WEnded\<rparr>)"

definition writer_message ::
  "(message_outbound \<Rightarrow> byte list option) \<Rightarrow> bool \<Rightarrow> ws_message \<Rightarrow> ws_state \<Rightarrow> ws_state" where
  "writer_message to_json send_ok msg s = (case msg of
      WsRaw message \<Rightarrow> writer_deliver send_ok message s
    | WsOutbound m \<Rightarrow>
        (case to_json m of
           Some json_string \<Rightarrow> writer_deliver send_ok (TextFrame json_string) s
         | None \<Rightarrow> s\<lparr>ws_writer := WTop\<rparr>))"

text \<open>The biased \<open>select!\<close>: the notification first, then the channel; \<open>None\<close> parks the task.\<close>

definition writer_select ::
  "(message_outbound \<Rightarrow> byte list option) \<Rightarrow> bool \<Rightarrow> ws_state \<Rightarrow> ws_state option" where
  "writer_select to_json send_ok s =
     (if vq_permit (ws_vq s) then Some (writer_notified s)
      else (case ws_out s of
              m # ms \<Rightarrow> Some (writer_message to_json send_ok m (s\<lparr>ws_out := ms\<rparr>))
            | [] \<Rightarrow> if ws_senders s then None else Some (s\<lparr>ws_writer := WEnded\<rparr>)))"

definition writer_step ::
  "(message_outbound \<Rightarrow> byte list option) \<Rightarrow> bool \<Rightarrow> ws_state \<Rightarrow> ws_state option" where
  "writer_step to_json send_ok s = (case ws_writer s of
      WTop \<Rightarrow> Some (writer_top s)
    | WSending frames \<Rightarrow> Some (writer_send send_ok frames s)
    | WSelect \<Rightarrow> writer_select to_json send_ok s
    | WEnded \<Rightarrow> None)"

section \<open>The interleaving\<close>

inductive ws_step ::
  "(byte list \<Rightarrow> message_inbound option) \<Rightarrow> (message_outbound \<Rightarrow> byte list option)
     \<Rightarrow> ws_state \<Rightarrow> ws_state \<Rightarrow> bool"
  for parse to_json where
  Read: "ws_reader s = RSelect \<Longrightarrow> ws_step parse to_json s (reader_on_event parse e s)"
| Forward: "reader_forward s = Some s' \<Longrightarrow> ws_step parse to_json s s'"
| Next: "ws_in_open s \<Longrightarrow> receiver_next s = Some (m, s') \<Longrightarrow> ws_step parse to_json s s'"
| DropReceiver: "ws_step parse to_json s (s\<lparr>ws_in_open := False, ws_in := []\<rparr>)"
| SendMessage: "ws_senders s \<Longrightarrow> send_message s m = Some (r, s') \<Longrightarrow> ws_step parse to_json s s'"
| SendVideo: "ws_senders s \<Longrightarrow> send_video s b = Some (r, s') \<Longrightarrow> ws_step parse to_json s s'"
| DropSenders: "ws_step parse to_json s (s\<lparr>ws_senders := False\<rparr>)"
| Write: "writer_step to_json send_ok s = Some s' \<Longrightarrow> ws_step parse to_json s s'"

inductive ws_reach ::
  "(byte list \<Rightarrow> message_inbound option) \<Rightarrow> (message_outbound \<Rightarrow> byte list option)
     \<Rightarrow> ws_state \<Rightarrow> bool"
  for parse to_json where
  Init: "ws_reach parse to_json rylus_websocket_channel"
| Step: "ws_reach parse to_json s \<Longrightarrow> ws_step parse to_json s s' \<Longrightarrow> ws_reach parse to_json s'"

inductive_cases ws_stepE: "ws_step parse to_json s s'"

end
