(* ===== verification/WsFacts.thy ===== *)
theory WsFacts
  imports WsChannel
begin

text \<open>
  What the WebSocket channel guarantees: the bounds of its three queues, the order and the
  accounting of video frames, which inbound messages are forwarded, that the writer delivers
  everything and ends once the senders are gone, and the one interleaving in which it does not
  notice that the reader has closed the queue.
\<close>

section \<open>Frames on their way to the socket\<close>

fun in_flight :: "writer_pc \<Rightarrow> byte list list" where
  "in_flight (WSending frames) = frames"
| "in_flight _ = []"

fun video_of :: "ws_frame \<Rightarrow> byte list list" where
  "video_of (BinaryFrame b) = [b]"
| "video_of _ = []"

definition videos :: "ws_frame list \<Rightarrow> byte list list" where
  "videos fs = concat (map video_of fs)"

lemma videos_simps [simp]:
  "videos [] = []" "videos (fs @ gs) = videos fs @ videos gs"
  "videos [BinaryFrame b] = [b]" "videos [TextFrame t] = []"
  by (simp_all add: videos_def)

definition pipeline_frames :: "ws_state \<Rightarrow> byte list list" where
  "pipeline_frames s = videos (ws_sent s) @ in_flight (ws_writer s) @ vq_inner (ws_vq s)"

fun is_outbound :: "ws_message \<Rightarrow> bool" where
  "is_outbound (WsOutbound _) = True"
| "is_outbound (WsRaw _) = False"

section \<open>Invariants\<close>

definition ws_bounded :: "ws_state \<Rightarrow> bool" where
  "ws_bounded s \<longleftrightarrow> length (vq_inner (ws_vq s)) \<le> VIDEO_QUEUE_CAPACITY
     \<and> length (ws_in s) \<le> CHANNEL_BUFFER_SIZE \<and> length (ws_out s) \<le> CHANNEL_BUFFER_SIZE
     \<and> length (in_flight (ws_writer s)) \<le> VIDEO_QUEUE_CAPACITY"

definition ws_ordered :: "ws_state \<Rightarrow> bool" where
  "ws_ordered s \<longleftrightarrow> list_all is_outbound (ws_out s) \<and> subseq (pipeline_frames s) (ws_pushed s)"

definition ws_accounted :: "ws_state \<Rightarrow> bool" where
  "ws_accounted s \<longleftrightarrow> ws_writer s \<noteq> WEnded \<longrightarrow>
     length (ws_pushed s) mod 2 ^ 64
       = (length (pipeline_frames s) + vq_dropped (ws_vq s)) mod 2 ^ 64"

definition ws_parsed :: "(byte list \<Rightarrow> message_inbound option) \<Rightarrow> ws_state \<Rightarrow> bool" where
  "ws_parsed parse s \<longleftrightarrow>
     (\<forall>m \<in> set (ws_in s) \<union> {m. ws_reader s = RForward m}.
        \<exists>t. length t \<le> MAX_TEXT_FRAME_SIZE \<and> parse t = Some m)
     \<and> (ws_reader s = REnded \<longleftrightarrow> vq_closed (ws_vq s))"

definition ws_inv :: "(byte list \<Rightarrow> message_inbound option) \<Rightarrow> ws_state \<Rightarrow> bool" where
  "ws_inv parse s \<longleftrightarrow> ws_bounded s \<and> ws_ordered s \<and> ws_accounted s \<and> ws_parsed parse s"

lemmas ws_inv_defs = ws_inv_def ws_bounded_def ws_ordered_def ws_accounted_def ws_parsed_def
  pipeline_frames_def

lemma ws_inv_init [rylus_inv]: "ws_inv parse rylus_websocket_channel"
  by (simp add: ws_inv_defs rylus_websocket_channel_def)

lemma ws_inv_break: "ws_inv parse s \<Longrightarrow> ws_reader s = RSelect \<Longrightarrow> ws_inv parse (reader_break s)"
  by (simp add: ws_inv_defs reader_break_def)

lemma ws_inv_read [rylus_inv]:
  assumes "ws_inv parse s" "ws_reader s = RSelect"
  shows "ws_inv parse (reader_on_event parse e s)"
proof -
  have "ws_inv parse (s\<lparr>ws_reader := RForward m\<rparr>)"
    if "parse t = Some m" "length t \<le> MAX_TEXT_FRAME_SIZE" for t m
    using that assms by (auto simp: ws_inv_defs)
  then show ?thesis using assms
    by (auto simp: reader_on_event_def reader_on_frame_def ws_inv_break
        split: read_event.split ws_frame.split option.split)
qed

lemma ws_inv_forward [rylus_inv]:
  "ws_inv parse s \<Longrightarrow> reader_forward s = Some s' \<Longrightarrow> ws_inv parse s'"
  by (auto simp: ws_inv_defs reader_forward_def split: reader_pc.splits if_splits)

lemma ws_inv_next [rylus_inv]:
  "ws_inv parse s \<Longrightarrow> receiver_next s = Some (m, s') \<Longrightarrow> ws_inv parse s'"
  by (auto simp: ws_inv_defs receiver_next_def split: list.splits if_splits)

lemma ws_inv_message [rylus_inv]:
  "ws_inv parse s \<Longrightarrow> send_message s m = Some (r, s') \<Longrightarrow> ws_inv parse s'"
  by (auto simp: ws_inv_defs send_message_def split: if_splits)

lemma ws_inv_video [rylus_inv]:
  assumes "ws_inv parse s" "send_video s b = Some (r, s')"
  shows "ws_inv parse s'"
proof -
  let ?v = "ws_vq s" and ?pre = "videos (ws_sent s) @ in_flight (ws_writer s)"
  have s': "s' = s\<lparr>ws_vq := vq_push ?v b, ws_pushed := ws_pushed s @ [b]\<rparr>"
    using assms(2) by (simp add: send_video_def)
  have len: "length (vq_inner ?v) \<le> VIDEO_QUEUE_CAPACITY"
    using assms(1) by (simp add: ws_inv_defs)
  have "subseq (vq_inner (vq_push ?v b)) (vq_inner ?v @ [b])"
    by (rule vq.put_subseq [OF len])
  then have "subseq (?pre @ vq_inner (vq_push ?v b)) (?pre @ vq_inner ?v @ [b])"
    by (simp add: subseq_append_le_same_iff list_emb_append_mono)
  moreover have "subseq (?pre @ vq_inner ?v @ [b]) (ws_pushed s @ [b])"
    using assms(1) list_emb_append_mono [of "(=)" "?pre @ vq_inner ?v" "ws_pushed s" "[b]" "[b]"]
    by (simp add: ws_inv_defs)
  ultimately have sub: "subseq (pipeline_frames s') (ws_pushed s')"
    unfolding s' pipeline_frames_def by (auto intro: subseq_order.order_trans)
  have acc: "ws_accounted s'"
  proof (cases "ws_writer s = WEnded")
    case True
    then show ?thesis by (simp add: s' ws_accounted_def)
  next
    case False
    let ?n = "length (ws_pushed s)" and ?m = "length ?pre"
    have "(?n mod 2 ^ 64) = (?m + (length (vq_inner ?v) + vq_dropped ?v)) mod 2 ^ 64"
      using assms(1) False by (simp add: ws_inv_defs add.assoc)
    moreover obtain d where d: "vq_inner ?v @ [b] = d @ vq_inner (vq_push ?v b)"
        "vq_dropped (vq_push ?v b) mod 2 ^ 64 = (vq_dropped ?v + length d) mod 2 ^ 64"
      using vq.put_suffix [OF len, of b] by (auto simp: mod_simps)
    have "length (vq_inner ?v) + 1 = length d + length (vq_inner (vq_push ?v b))"
      using arg_cong [OF d(1), of length] by simp
    ultimately have "(?n + 1) mod 2 ^ 64
        = (?m + length (vq_inner (vq_push ?v b)) + vq_dropped (vq_push ?v b)) mod 2 ^ 64"
      using account_shift [OF _ _ d(2)] by blast
    then show ?thesis by (simp add: s' ws_accounted_def pipeline_frames_def add.assoc)
  qed
  have "length (vq_inner (vq_push ?v b)) \<le> VIDEO_QUEUE_CAPACITY"
    by (rule vq.put_bounded [OF len])
  then show ?thesis using assms(1) sub acc by (simp add: s' ws_inv_def ws_bounded_def
        ws_ordered_def ws_parsed_def)
qed


lemma ws_inv_top: "ws_inv parse s \<Longrightarrow> ws_writer s = WTop \<Longrightarrow> ws_inv parse (writer_top s)"
  by (cases "vq_inner (ws_vq s) = []") (simp_all add: ws_inv_defs writer_top_def vq_drain_def)

lemma subseq_skip_middle: "subseq (a @ c) (a @ b @ c)"
  by (rule list_emb_append_mono) (simp_all add: list_emb_append2)

lemma ws_inv_ended:
  assumes "ws_inv parse s"
  shows "ws_inv parse (s\<lparr>ws_writer := WEnded\<rparr>)"
proof -
  have "subseq (pipeline_frames (s\<lparr>ws_writer := WEnded\<rparr>)) (pipeline_frames s)"
    by (simp add: pipeline_frames_def subseq_skip_middle)
  then have "subseq (pipeline_frames (s\<lparr>ws_writer := WEnded\<rparr>)) (ws_pushed s)"
    using assms by (auto simp: ws_inv_def ws_ordered_def intro: subseq_order.order_trans)
  then show ?thesis using assms
    by (simp add: ws_inv_def ws_bounded_def ws_ordered_def ws_accounted_def ws_parsed_def)
qed

lemma ws_inv_send:
  "ws_inv parse s \<Longrightarrow> ws_writer s = WSending frames \<Longrightarrow> ws_inv parse (writer_send ok frames s)"
  by (cases frames; cases ok) (simp_all add: writer_send_def ws_inv_ended, simp_all add: ws_inv_defs)

lemma ws_inv_notified:
  "ws_inv parse s \<Longrightarrow> ws_writer s = WSelect \<Longrightarrow> ws_inv parse (writer_notified s)"
  by (cases "vq_inner (ws_vq s) = []") (simp_all add: ws_inv_defs writer_notified_def Let_def)

lemma ws_inv_control:
  "ws_inv parse s \<Longrightarrow> ws_writer s = WSelect \<Longrightarrow> ws_out s = m # ms \<Longrightarrow>
     ws_inv parse (writer_message to_json ok m (s\<lparr>ws_out := ms\<rparr>))"
  using ws_inv_ended [of parse "s\<lparr>ws_out := ms\<rparr>"]
  by (cases m; cases ok)
     (simp_all add: writer_message_def writer_deliver_def ws_inv_defs split: option.split)

lemma ws_inv_write [rylus_inv]:
  assumes "ws_inv parse s" "writer_step to_json ok s = Some s'"
  shows "ws_inv parse s'"
proof (cases "ws_writer s")
  case WSelect
  have "ws_inv parse (s\<lparr>ws_writer := WEnded\<rparr>)" by (rule ws_inv_ended [OF assms(1)])
  then show ?thesis using assms WSelect ws_inv_notified [OF assms(1)] ws_inv_control [OF assms(1)]
    by (auto simp: writer_step_def writer_select_def split: if_splits list.splits)
qed (use assms in \<open>auto simp: writer_step_def ws_inv_top ws_inv_send\<close>)

lemma ws_inv_drops [rylus_inv]:
  "ws_inv parse s \<Longrightarrow> ws_inv parse (s\<lparr>ws_in_open := False, ws_in := []\<rparr>)"
  "ws_inv parse s \<Longrightarrow> ws_inv parse (s\<lparr>ws_senders := False\<rparr>)"
  by (simp_all add: ws_inv_defs)

lemma ws_inv_step:
  assumes "ws_step parse to_json s s'" "ws_inv parse s"
  shows "ws_inv parse s'"
  using assms by (induction rule: ws_step.induct) (blast intro: rylus_inv)+

lemma ws_inv_reach: "ws_reach parse to_json s \<Longrightarrow> ws_inv parse s"
  by (induction rule: ws_reach.induct) (auto intro: ws_inv_step ws_inv_init)

section \<open>The writer drains everything and ends\<close>

fun writer_run :: "(message_outbound \<Rightarrow> byte list option) \<Rightarrow> nat \<Rightarrow> ws_state \<Rightarrow> ws_state" where
  "writer_run to_json 0 s = s"
| "writer_run to_json (Suc n) s = (case writer_step to_json True s of
      Some s' \<Rightarrow> writer_run to_json n s'
    | None \<Rightarrow> s)"

lemma writer_run_stuck: "writer_step to_json True s = None \<Longrightarrow> writer_run to_json n s = s"
  by (cases n) simp_all

lemma writer_run_add: "writer_run to_json (m + n) s = writer_run to_json n (writer_run to_json m s)"
  by (induction m arbitrary: s) (simp_all add: writer_run_stuck split: option.split)

lemma writer_run_trans:
  "writer_run to_json m s = s1 \<Longrightarrow> \<exists>n. writer_run to_json n s1 = s2 \<Longrightarrow>
     \<exists>n. writer_run to_json n s = s2"
  by (auto simp: writer_run_add [symmetric])

fun encoded :: "(message_outbound \<Rightarrow> byte list option) \<Rightarrow> ws_message \<Rightarrow> ws_frame list" where
  "encoded to_json (WsRaw f) = [f]"
| "encoded to_json (WsOutbound m) = (case to_json m of Some j \<Rightarrow> [TextFrame j] | None \<Rightarrow> [])"

lemma run_sending:
  "ws_writer s = WSending frames \<Longrightarrow>
     writer_run to_json (length frames + 1) s
       = s\<lparr>ws_sent := ws_sent s @ map BinaryFrame frames, ws_writer := WTop\<rparr>"
proof (induction frames arbitrary: s)
  case Nil
  then show ?case by (simp add: writer_step_def writer_send_def)
next
  case (Cons f fs)
  then show ?case by (simp add: writer_step_def writer_send_def)
qed

text \<open>One round: from the top of the loop, with the queue drained, back to the top.\<close>

lemma run_drain:
  assumes "ws_writer s = WTop" "vq_inner (ws_vq s) = frames" "frames \<noteq> []"
  shows "writer_run to_json (length frames + 2) s
     = s\<lparr>ws_vq := (ws_vq s)\<lparr>vq_inner := []\<rparr>, ws_sent := ws_sent s @ map BinaryFrame frames,
         ws_writer := WTop\<rparr>"
proof -
  let ?s = "s\<lparr>ws_vq := (ws_vq s)\<lparr>vq_inner := []\<rparr>, ws_writer := WSending frames\<rparr>"
  have "writer_step to_json True s = Some ?s"
    using assms by (simp add: writer_step_def writer_top_def vq_drain_def)
  then have "writer_run to_json (Suc (length frames + 1)) s
      = writer_run to_json (length frames + 1) ?s" by (simp del: add_Suc_right)
  then show ?thesis using run_sending [of ?s frames to_json] by simp
qed

lemma run_control:
  assumes "ws_writer s = WTop" "vq_inner (ws_vq s) = []" "\<not> vq_permit (ws_vq s)"
    and "\<not> ws_senders s" "ws_out s = ms"
  shows "writer_run to_json (2 * length ms + 2) s
     = s\<lparr>ws_out := [], ws_sent := ws_sent s @ concat (map (encoded to_json) ms),
         ws_writer := WEnded\<rparr>"
  using assms
proof (induction ms arbitrary: s)
  case Nil
  have "s\<lparr>ws_vq := (ws_vq s)\<lparr>vq_inner := []\<rparr>\<rparr> = s" using Nil by (simp add: rylus_simps)
  with Nil show ?case
    by (simp add: writer_step_def writer_top_def vq_drain_def writer_select_def numeral_2_eq_2)
next
  case (Cons m ms)
  let ?s = "s\<lparr>ws_out := ms, ws_sent := ws_sent s @ encoded to_json m, ws_writer := WTop\<rparr>"
  have q: "s\<lparr>ws_vq := (ws_vq s)\<lparr>vq_inner := []\<rparr>\<rparr> = s" using Cons by (simp add: rylus_simps)
  have "writer_run to_json 2 s = ?s" using Cons.prems
    by (cases m) (simp_all add: writer_step_def writer_top_def vq_drain_def writer_select_def
        writer_message_def writer_deliver_def numeral_2_eq_2 split: option.split)
  moreover have "writer_run to_json (2 * length ms + 2) ?s
      = ?s\<lparr>ws_out := [], ws_sent := ws_sent ?s @ concat (map (encoded to_json) ms),
           ws_writer := WEnded\<rparr>"
    by (rule Cons.IH) (use Cons.prems in simp_all)
  ultimately show ?case
    using writer_run_add [of to_json 2 "2 * length ms + 2" s] by (simp add: numeral_2_eq_2)
qed


lemma run_top:
  "ws_writer s = WTop \<Longrightarrow> \<exists>n. writer_run to_json n s
     = s\<lparr>ws_vq := (ws_vq s)\<lparr>vq_inner := []\<rparr>,
         ws_sent := ws_sent s @ map BinaryFrame (vq_inner (ws_vq s)), ws_writer := WTop\<rparr>"
proof (cases "vq_inner (ws_vq s) = []")
  case True
  moreover assume "ws_writer s = WTop"
  ultimately have "writer_run to_json 0 s = s\<lparr>ws_vq := (ws_vq s)\<lparr>vq_inner := []\<rparr>,
      ws_sent := ws_sent s @ map BinaryFrame (vq_inner (ws_vq s)), ws_writer := WTop\<rparr>"
    by simp
  then show ?thesis ..
next
  case False
  moreover assume "ws_writer s = WTop"
  ultimately show ?thesis using run_drain by blast
qed

lemma run_permit:
  assumes "ws_writer s = WTop" "vq_inner (ws_vq s) = []" "\<not> vq_closed (ws_vq s)"
  shows "\<exists>n. writer_run to_json n s = s\<lparr>ws_vq := (ws_vq s)\<lparr>vq_permit := False\<rparr>\<rparr>"
proof (cases "vq_permit (ws_vq s)")
  case True
  have "writer_run to_json 2 s = s\<lparr>ws_vq := (ws_vq s)\<lparr>vq_permit := False\<rparr>\<rparr>"
    using assms True
    by (simp add: writer_step_def writer_top_def vq_drain_def writer_select_def numeral_2_eq_2
        writer_notified_def vq_is_closed_def)
  then show ?thesis ..
next
  case False
  then have "writer_run to_json 0 s = s\<lparr>ws_vq := (ws_vq s)\<lparr>vq_permit := False\<rparr>\<rparr>" by simp
  then show ?thesis ..
qed

text \<open>Reaching the top of the loop from wherever the task stands.\<close>

lemma run_to_top:
  assumes "ws_writer s \<noteq> WEnded" "\<not> vq_closed (ws_vq s)"
    and "ws_writer s = WSelect \<Longrightarrow> vq_permit (ws_vq s)"
  shows "\<exists>n s'. writer_run to_json n s = s' \<and> ws_writer s' = WTop
     \<and> ws_sent s' = ws_sent s @ map BinaryFrame (in_flight (ws_writer s))
     \<and> vq_inner (ws_vq s') = vq_inner (ws_vq s) \<and> vq_closed (ws_vq s') = vq_closed (ws_vq s)
     \<and> ws_out s' = ws_out s \<and> ws_senders s' = ws_senders s"
proof (cases "ws_writer s")
  case WTop
  then show ?thesis by (intro exI [of _ 0]) simp
next
  case (WSending frames)
  show ?thesis using run_sending [OF WSending, of to_json]
    by (intro exI [of _ "length frames + 1"]) (simp add: WSending)
next
  case WSelect
  then show ?thesis using assms
    by (intro exI [of _ 1]) (simp add: writer_step_def writer_select_def writer_notified_def
        vq_is_closed_def)
qed (use assms in simp)

lemma writer_delivers:
  assumes "ws_writer s \<noteq> WEnded" "\<not> vq_closed (ws_vq s)" "\<not> ws_senders s"
    and "ws_writer s = WSelect \<Longrightarrow> vq_permit (ws_vq s)"
  shows "\<exists>n. let s' = writer_run to_json n s in ws_writer s' = WEnded
     \<and> ws_sent s' = ws_sent s @ map BinaryFrame (in_flight (ws_writer s))
         @ map BinaryFrame (vq_inner (ws_vq s)) @ concat (map (encoded to_json) (ws_out s))
     \<and> vq_inner (ws_vq s') = [] \<and> ws_out s' = []"
proof -
  obtain n1 s1 where 1: "writer_run to_json n1 s = s1" "ws_writer s1 = WTop"
      "ws_sent s1 = ws_sent s @ map BinaryFrame (in_flight (ws_writer s))"
      "vq_inner (ws_vq s1) = vq_inner (ws_vq s)" "\<not> vq_closed (ws_vq s1)"
      "ws_out s1 = ws_out s" "\<not> ws_senders s1"
    using run_to_top [OF assms(1,2,4), of to_json] assms(2,3) by auto
  obtain n2 where 2: "writer_run to_json n2 s1 = s1\<lparr>ws_vq := (ws_vq s1)\<lparr>vq_inner := []\<rparr>,
      ws_sent := ws_sent s1 @ map BinaryFrame (vq_inner (ws_vq s1)), ws_writer := WTop\<rparr>"
    (is "_ = ?s2") using run_top [OF 1(2)] by blast
  obtain n3 where 3: "writer_run to_json n3 ?s2 = ?s2\<lparr>ws_vq := (ws_vq ?s2)\<lparr>vq_permit := False\<rparr>\<rparr>"
    (is "_ = ?s3") using run_permit [of ?s2 to_json] 1(5) by auto
  have 4: "writer_run to_json (2 * length (ws_out ?s3) + 2) ?s3
     = ?s3\<lparr>ws_out := [], ws_sent := ws_sent ?s3 @ concat (map (encoded to_json) (ws_out ?s3)),
         ws_writer := WEnded\<rparr>"
    by (rule run_control) (simp_all add: 1)
  let ?s4 = "?s3\<lparr>ws_out := [], ws_sent := ws_sent ?s3 @ concat (map (encoded to_json) (ws_out ?s3)),
         ws_writer := WEnded\<rparr>"
  have "\<exists>n. writer_run to_json n s = ?s4"
    by (rule writer_run_trans [OF 1(1)], rule writer_run_trans [OF 2],
        rule writer_run_trans [OF 3]) (rule exI, rule 4)
  then obtain n where n: "writer_run to_json n s = ?s4" ..
  show ?thesis unfolding Let_def by (rule exI [of _ n], unfold n) (simp add: 1)
qed

section \<open>The lost wake-up\<close>

text \<open>A frame and the reader's close are announced by one merged permit; the writer consumes it with the
  frame still queued, so the close is not noticed.\<close>

definition parked :: "ws_state \<Rightarrow> bool" where
  "parked s \<longleftrightarrow> ws_writer s = WSelect \<and> \<not> vq_permit (ws_vq s) \<and> ws_out s = [] \<and> ws_senders s"

definition lost_wakeup_state :: "byte list \<Rightarrow> ws_state" where
  "lost_wakeup_state b = \<lparr>ws_vq = \<lparr>vq_inner = [], vq_permit = False, vq_dropped = 0, vq_closed = True\<rparr>,
     ws_in = [], ws_in_open = True, ws_out = [], ws_senders = True, ws_reader = REnded,
     ws_writer = WSelect, ws_sent = [BinaryFrame b], ws_pushed = [b]\<rparr>"

lemma ws_reach_write:
  "ws_reach parse to_json s \<Longrightarrow> ws_reach parse to_json (writer_run to_json n s)"
proof (induction n arbitrary: s)
  case 0
  then show ?case by simp
next
  case (Suc n)
  show ?case
  proof (cases "writer_step to_json True s")
    case None
    then show ?thesis using Suc.prems by simp
  next
    case (Some s')
    have "ws_reach parse to_json s'" by (rule ws_reach.Step [OF Suc.prems ws_step.Write [OF Some]])
    then show ?thesis using Some Suc.IH by simp
  qed
qed

lemma lost_wakeup_reach: "ws_reach parse to_json (lost_wakeup_state b)"
proof -
  let ?s1 = "writer_run to_json 1 rylus_websocket_channel"
  let ?s2 = "snd (the (send_video ?s1 b))"
  let ?s3 = "reader_on_event parse StreamEnd ?s2"
  have "ws_reach parse to_json ?s1" by (rule ws_reach_write) (rule ws_reach.Init)
  moreover have "ws_step parse to_json ?s1 ?s2"
    by (rule ws_step.SendVideo) (simp_all add: writer_step_def writer_top_def vq_drain_def
        send_video_def rylus_websocket_channel_def)
  ultimately have "ws_reach parse to_json ?s2" by (rule ws_reach.Step)
  moreover have "ws_step parse to_json ?s2 ?s3"
    by (rule ws_step.Read) (simp add: writer_step_def writer_top_def vq_drain_def
        send_video_def rylus_websocket_channel_def)
  ultimately have "ws_reach parse to_json ?s3" by (rule ws_reach.Step)
  then have "ws_reach parse to_json (writer_run to_json 5 ?s3)" by (rule ws_reach_write)
  moreover have "writer_run to_json 5 ?s3 = lost_wakeup_state b"
    by (simp add: writer_step_def writer_top_def vq_drain_def send_video_def vq_push_cases
        rylus_websocket_channel_def vq_new_def lastn_short reader_on_event_def reader_break_def
        vq_close_def notify_one_def writer_select_def writer_notified_def vq_is_closed_def
        writer_send_def lost_wakeup_state_def eval_nat_numeral)
  ultimately show ?thesis by simp
qed

lemma lost_wakeup_parked:
  "parked (lost_wakeup_state b)" "writer_step to_json ok (lost_wakeup_state b) = None"
  by (simp_all add: parked_def lost_wakeup_state_def writer_step_def writer_select_def)

end
