(* ===== verification/RateLimiter.thy ===== *)
theory RateLimiter
  imports Prelude
begin

text \<open>
  The per-address login rate limiter of \<open>crates/rylus-server/src/web.rs\<close> (\<open>RateLimiter\<close>).  The
  mutex-protected \<open>HashMap<IpAddr, Vec<Instant>>\<close> is a map to lists of instants; every operation
  takes the \<open>Instant::now()\<close> it reads.  \<open>Instant::duration_since\<close> saturates at zero, as \<open>nat\<close>
  subtraction does.  The lemmas bound how many failures an address can record in one window
  when every attempt checks the lockout before it records.
\<close>

definition MAX_FAILED_ATTEMPTS :: u32 where "MAX_FAILED_ATTEMPTS = 5"
definition RATE_LIMIT_WINDOW :: nanos where "RATE_LIMIT_WINDOW = secs 60"
definition LOCKOUT_DURATION :: nanos where "LOCKOUT_DURATION = secs 30"

type_synonym 'ip attempts = "'ip \<Rightarrow> nanos list option"

definition rl_new :: "'ip attempts" where
  "rl_new = (\<lambda>_. None)"

definition retain_recent :: "nanos \<Rightarrow> nanos list \<Rightarrow> nanos list" where
  "retain_recent now ts = filter (\<lambda>t. now - t < RATE_LIMIT_WINDOW) ts"

definition lockout_remaining :: "nanos \<Rightarrow> 'ip \<Rightarrow> 'ip attempts \<Rightarrow> u64 option \<times> 'ip attempts" where
  "lockout_remaining now ip attempts = (case attempts ip of
      Some timestamps \<Rightarrow>
        let ts = retain_recent now timestamps;
            attempts = attempts(ip \<mapsto> ts)
        in if length ts \<ge> MAX_FAILED_ATTEMPTS then
             (case ts of
                [] \<Rightarrow> (None, attempts)
              | _ \<Rightarrow>
                  let since = now - last ts
                  in if since < LOCKOUT_DURATION
                     then (Some (max (as_secs (LOCKOUT_DURATION - since)) 1), attempts)
                     else (None, attempts))
           else (None, attempts)
    | None \<Rightarrow> (None, attempts))"

definition record_failure :: "nanos \<Rightarrow> 'ip \<Rightarrow> 'ip attempts \<Rightarrow> 'ip attempts" where
  "record_failure now ip attempts =
     (let timestamps = (case attempts ip of Some ts \<Rightarrow> ts | None \<Rightarrow> [])
      in attempts(ip \<mapsto> retain_recent now timestamps @ [now]))"

section \<open>The result of the check\<close>

definition failures :: "'ip attempts \<Rightarrow> 'ip \<Rightarrow> nanos list" where
  "failures m ip = (case m ip of Some ts \<Rightarrow> ts | None \<Rightarrow> [])"

lemma lockout_remaining_fst:
  "fst (lockout_remaining now ip m) =
     (let ts = retain_recent now (failures m ip)
      in if 5 \<le> length ts \<and> now - last ts < LOCKOUT_DURATION
         then Some (max (as_secs (LOCKOUT_DURATION - (now - last ts))) 1) else None)"
proof (cases "m ip")
  case None
  then show ?thesis by (simp add: lockout_remaining_def failures_def retain_recent_def)
next
  case (Some ts)
  then show ?thesis
    by (auto simp: lockout_remaining_def failures_def MAX_FAILED_ATTEMPTS_def Let_def
        split: list.split)
qed

lemma lockout_remaining_snd:
  "failures (snd (lockout_remaining now ip m)) ip = retain_recent now (failures m ip)"
  "a \<noteq> ip \<Longrightarrow> failures (snd (lockout_remaining now ip m)) a = failures m a"
  by (auto simp: lockout_remaining_def failures_def Let_def retain_recent_def
      split: option.split list.split)

lemma record_failure_self:
  "failures (record_failure now ip m) ip = retain_recent now (failures m ip) @ [now]"
  by (simp add: record_failure_def failures_def Let_def)

lemma record_failure_other:
  "a \<noteq> ip \<Longrightarrow> failures (record_failure now ip m) a = failures m a"
  by (simp add: record_failure_def failures_def Let_def)

lemma lockout_range:
  assumes "fst (lockout_remaining now ip m) = Some r"
  shows "1 \<le> r \<and> r \<le> 30"
proof -
  have "as_secs (LOCKOUT_DURATION - d) \<le> 30" for d
    by (rule as_secs_le) (simp add: LOCKOUT_DURATION_def)
  then show ?thesis using assms
    by (auto simp: lockout_remaining_fst Let_def split: if_splits)
qed

section \<open>The bound on checked failures\<close>

text \<open>At most six instants are kept, in order; a sixth is recorded no sooner than the lockout after
  the fifth.\<close>

definition rl_ok :: "nanos \<Rightarrow> nanos list \<Rightarrow> bool" where
  "rl_ok now ts \<longleftrightarrow> sorted ts \<and> (\<forall>t \<in> set ts. t \<le> now) \<and> length ts \<le> 6
     \<and> (length ts = 6 \<longrightarrow> ts ! 4 + LOCKOUT_DURATION \<le> ts ! 5)"

lemma rl_ok_Nil: "rl_ok now []"
  by (simp add: rl_ok_def)

lemma rl_ok_later: "rl_ok now ts \<Longrightarrow> now \<le> later \<Longrightarrow> rl_ok later ts"
  by (auto simp: rl_ok_def)

lemma sorted_filter_recent:
  "sorted ts \<Longrightarrow> \<exists>k. retain_recent now ts = drop k ts"
proof (induction ts)
  case Nil
  then show ?case by (simp add: retain_recent_def)
next
  case (Cons t ts)
  show ?case
  proof (cases "now - t < RATE_LIMIT_WINDOW")
    case True
    then have "\<forall>u \<in> set (t # ts). now - u < RATE_LIMIT_WINDOW"
      using Cons.prems by (auto intro: le_less_trans [OF diff_le_mono2])
    then have "retain_recent now (t # ts) = drop 0 (t # ts)"
      unfolding retain_recent_def by (simp only: filter_id_conv drop_0)
    then show ?thesis by blast
  next
    case False
    obtain k where "retain_recent now ts = drop k ts" using Cons by auto
    then have "retain_recent now (t # ts) = drop (Suc k) (t # ts)"
      using False by (simp add: retain_recent_def)
    then show ?thesis by blast
  qed
qed

lemma rl_ok_drop: "rl_ok now ts \<Longrightarrow> rl_ok now (drop k ts)"
  by (cases k) (auto simp: rl_ok_def sorted_wrt_drop dest: in_set_dropD)

lemma rl_ok_retain: "rl_ok now ts \<Longrightarrow> rl_ok now (retain_recent t ts)"
proof -
  assume ok: "rl_ok now ts"
  then obtain k where "retain_recent t ts = drop k ts"
    using sorted_filter_recent [of ts t] by (auto simp: rl_ok_def)
  then show ?thesis using rl_ok_drop [OF ok] by simp
qed

lemma retain_length: "length (retain_recent t ts) \<le> length ts"
  by (simp add: retain_recent_def)

lemma retain_retain:
  "a \<le> b \<Longrightarrow> retain_recent b (retain_recent a ts) = retain_recent b ts"
  unfolding retain_recent_def filter_filter
  by (rule filter_cong) (auto intro: le_less_trans [OF diff_le_mono])

text \<open>A full list whose last entry is old enough to be admitted no longer has its fifth entry in
  the window.\<close>

lemma admitted_length:
  assumes "rl_ok t0 ts" "retain_recent now ts = ts" "LOCKOUT_DURATION \<le> now - last ts"
    and "ts \<noteq> []"
  shows "length ts \<le> 5"
proof (rule ccontr)
  assume "\<not> length ts \<le> 5"
  then have l: "length ts = 6" using assms(1) by (simp add: rl_ok_def)
  then have "last ts = ts ! 5" using assms(4) by (simp add: last_conv_nth)
  moreover have "ts ! 4 + LOCKOUT_DURATION \<le> ts ! 5" using assms(1) l by (simp add: rl_ok_def)
  ultimately have "RATE_LIMIT_WINDOW \<le> now - ts ! 4"
    using assms(3) by (simp add: LOCKOUT_DURATION_def RATE_LIMIT_WINDOW_def secs_def)
  moreover have "now - ts ! 4 < RATE_LIMIT_WINDOW"
    using assms(2) l nth_mem [of 4 ts] unfolding retain_recent_def filter_id_conv by simp
  ultimately show False by simp
qed

lemma last_retain:
  assumes "sorted ts" "retain_recent now ts \<noteq> []"
  shows "last (retain_recent now ts) = last ts"
  using sorted_filter_recent [OF assms(1), of now] assms(2) by (auto simp: last_drop)

lemma rl_ok_record:
  assumes ok: "rl_ok t0 ts" and "t0 \<le> now" "now \<le> later"
    and admitted: "\<not> (5 \<le> length (retain_recent now ts)
                       \<and> now - last (retain_recent now ts) < LOCKOUT_DURATION)"
  shows "rl_ok later (retain_recent later (retain_recent now ts) @ [later])"
proof -
  let ?a = "retain_recent now ts" and ?b = "retain_recent later (retain_recent now ts)"
  have oka: "rl_ok t0 ?a" and okb: "rl_ok t0 ?b"
    by (rule rl_ok_retain [OF ok], rule rl_ok_retain [OF rl_ok_retain [OF ok]])
  have la: "length ?a \<le> 5"
  proof (cases "5 \<le> length ?a")
    case True
    moreover have "retain_recent now ?a = ?a" by (rule retain_retain [OF order.refl, THEN trans]) simp
    ultimately show ?thesis using admitted by (intro admitted_length [OF oka]) auto
  qed simp
  then have lb: "length ?b \<le> 5" using retain_length [of later ?a] by simp
  have gap: "?b ! 4 + LOCKOUT_DURATION \<le> later" if l: "length ?b = 5"
  proof -
    have "length ?a = 5" using l la retain_length [of later ?a] by simp
    then have "LOCKOUT_DURATION \<le> now - last ?a" using admitted by simp
    moreover have "last ?b = ?b ! 4" using l by (simp add: last_conv_nth flip: length_0_conv)
    moreover have "last ?b = last ?a"
      using l oka by (intro last_retain) (auto simp: rl_ok_def)
    moreover have "0 < LOCKOUT_DURATION" by (simp add: LOCKOUT_DURATION_def secs_def)
    ultimately show ?thesis using \<open>now \<le> later\<close> by linarith
  qed
  have le: "\<forall>t \<in> set ?b. t \<le> later" using okb assms(2,3) by (auto simp: rl_ok_def)
  show ?thesis unfolding rl_ok_def
  proof (intro conjI impI)
    show "sorted (?b @ [later])" using okb le by (simp add: rl_ok_def sorted_append)
    show "\<forall>t \<in> set (?b @ [later]). t \<le> later" using le by simp
    show "length (?b @ [later]) \<le> 6" using lb by simp
    assume "length (?b @ [later]) = 6"
    then have "length ?b = 5" by simp
    then show "(?b @ [later]) ! 4 + LOCKOUT_DURATION \<le> (?b @ [later]) ! 5"
      using gap by (simp add: nth_append)
  qed
qed

end
