(* ===== verification/SessionStore.thy ===== *)
theory SessionStore
  imports Prelude
begin

text \<open>
  The session tokens of \<open>crates/rylus-server/src/web.rs\<close> (\<open>SessionStore\<close>): a map from tokens to
  their creation instants with a 24 hour life time.  The interface \<open>token_store\<close> states what a
  login handler relies on; from it follows, for any sequence of operations, that a token is
  accepted only if it was issued after the last wipe and less than a life time ago, and that it
  is accepted then.
\<close>

section \<open>The interface\<close>

datatype 'k store_event = Issue nanos 'k | Check nanos 'k | Wipe

fun event_time :: "'k store_event \<Rightarrow> nanos" where
  "event_time (Issue t _) = t"
| "event_time (Check t _) = t"
| "event_time Wipe = 0"

text \<open>The token was issued at \<open>t0\<close>, and after that neither wiped nor issued again.\<close>

fun live_issue :: "'k \<Rightarrow> 'k store_event list \<Rightarrow> nanos option" where
  "live_issue k [] = None"
| "live_issue k (e # es) = (case e of
      Issue t k' \<Rightarrow> if k = k' then Some t else live_issue k es
    | Check _ _ \<Rightarrow> live_issue k es
    | Wipe \<Rightarrow> None)"

locale token_store =
  fixes wipe :: "'s \<Rightarrow> 's"
    and issue :: "nanos \<Rightarrow> 'k \<Rightarrow> 's \<Rightarrow> 's"
    and valid :: "nanos \<Rightarrow> 'k \<Rightarrow> 's \<Rightarrow> bool \<times> 's"
    and ttl :: nanos
  assumes valid_wipe: "\<not> fst (valid t k (wipe s))"
    and valid_issue: "fst (valid t k (issue t0 k' s)) \<longleftrightarrow>
          (if k = k' then t - t0 < ttl else fst (valid t k s))"
    and valid_check: "t1 \<le> t \<Longrightarrow> fst (valid t k (snd (valid t1 k1 s))) \<longleftrightarrow> fst (valid t k s)"
begin

fun step :: "'k store_event \<Rightarrow> 's \<Rightarrow> 's" where
  "step (Issue t k) s = issue t k s"
| "step (Check t k) s = snd (valid t k s)"
| "step Wipe s = wipe s"

text \<open>Events are listed newest first.\<close>

fun run :: "'k store_event list \<Rightarrow> 's \<Rightarrow> 's" where
  "run [] s = s"
| "run (e # es) s = step e (run es s)"

lemma valid_run:
  assumes "\<forall>e \<in> set es. event_time e \<le> t" "\<not> fst (valid t k s)"
  shows "fst (valid t k (run es s)) \<longleftrightarrow> (\<exists>t0. live_issue k es = Some t0 \<and> t - t0 < ttl)"
  using assms(1)
proof (induction es)
  case Nil
  then show ?case using assms(2) by simp
next
  case (Cons e es)
  then show ?case
    by (cases e) (simp_all add: valid_issue valid_check valid_wipe)
qed

end

section \<open>The store of the code\<close>

definition SESSION_TTL :: nanos where "SESSION_TTL = secs (24 * 3600)"

type_synonym tokens = "string \<Rightarrow> nanos option"

definition ss_new :: tokens where
  "ss_new = (\<lambda>_. None)"

definition ss_clear :: "tokens \<Rightarrow> tokens" where
  "ss_clear s = (\<lambda>_. None)"

text \<open>\<open>b'0' + idx\<close> and \<open>b'a' + idx - 10\<close>.\<close>

definition token_char :: "nat \<Rightarrow> char" where
  "token_char idx = (if idx < 10 then char_of (48 + idx) else char_of (97 + idx - 10))"

text \<open>\<open>idxs\<close> are the 32 values \<open>gen_range(0..36)\<close> returned.\<close>

definition create_session :: "nat list \<Rightarrow> nanos \<Rightarrow> tokens \<Rightarrow> string \<times> tokens" where
  "create_session idxs now tokens =
     (let token = map token_char idxs in (token, tokens(token \<mapsto> now)))"

definition is_valid :: "nanos \<Rightarrow> string \<Rightarrow> tokens \<Rightarrow> bool \<times> tokens" where
  "is_valid now token tokens = (case tokens token of
      Some created \<Rightarrow>
        if now - created < SESSION_TTL then (True, tokens)
        else (False, tokens(token := None))
    | None \<Rightarrow> (False, tokens))"

lemma is_valid_fst:
  "fst (is_valid now k s) \<longleftrightarrow> (\<exists>t. s k = Some t \<and> now - t < SESSION_TTL)"
  by (auto simp: is_valid_def split: option.split)

lemma is_valid_snd:
  "snd (is_valid now k s) k' = (if k = k' \<and> \<not> fst (is_valid now k s) then None else s k')"
  by (auto simp: is_valid_def split: option.split)

text \<open>Issuing an explicit token: what \<open>create_session\<close> does with the token it draws.\<close>

definition ss_issue :: "nanos \<Rightarrow> string \<Rightarrow> tokens \<Rightarrow> tokens" where
  "ss_issue now token tokens = tokens(token \<mapsto> now)"

lemma create_session_issue:
  "create_session idxs now s = (map token_char idxs, ss_issue now (map token_char idxs) s)"
  by (simp add: create_session_def ss_issue_def Let_def)

interpretation sessions: token_store ss_clear ss_issue is_valid SESSION_TTL
proof unfold_locales
  show "\<not> fst (is_valid t k (ss_clear s))" for t k s
    by (simp add: is_valid_def ss_clear_def)
  show "fst (is_valid t k (ss_issue t0 k' s)) \<longleftrightarrow>
      (if k = k' then t - t0 < SESSION_TTL else fst (is_valid t k s))" for t k t0 k' s
    by (simp add: is_valid_fst ss_issue_def)
  fix t1 t :: nanos and k k1 s
  assume le: "t1 \<le> t"
  show "fst (is_valid t k (snd (is_valid t1 k1 s))) \<longleftrightarrow> fst (is_valid t k s)"
  proof (cases "k1 = k")
    case True
    then show ?thesis using le
      by (cases "s k") (auto simp: is_valid_def)
  next
    case False
    then show ?thesis by (simp add: is_valid_fst is_valid_snd)
  qed
qed

section \<open>Tokens\<close>

lemma token_char_inj: "i < 36 \<Longrightarrow> j < 36 \<Longrightarrow> token_char i = token_char j \<Longrightarrow> i = j"
proof -
  assume a: "i < 36" "j < 36" "token_char i = token_char j"
  have e: "of_char (token_char k) = (if k < 10 then 48 + k else 87 + k)" if "k < 36" for k
    using that by (simp add: token_char_def of_char_of)
  have "(of_char (token_char i) :: nat) = of_char (token_char j)" using a(3) by simp
  then show "i = j" using e [OF a(1)] e [OF a(2)] by (simp split: if_splits)
qed

lemma tokens_distinct:
  "\<forall>i \<in> set xs. i < 36 \<Longrightarrow> \<forall>i \<in> set ys. i < 36 \<Longrightarrow>
     map token_char xs = map token_char ys \<longleftrightarrow> xs = ys"
proof (induction xs arbitrary: ys)
  case Nil
  then show ?case by auto
next
  case (Cons x xs)
  then show ?case by (cases ys) (auto dest: token_char_inj)
qed

end
