(* ===== verification/WebServer.thy ===== *)
theory WebServer
  imports RateLimiter SessionStore ConfigModel RustString
begin

text \<open>
  The request handler of \<open>crates/rylus-server/src/web.rs\<close>: \<open>serve\<close> with the helpers it calls, one
  definition per section of its body, over the state the requests share (rate limiter, session
  store, live access-code hash, stored configuration, client count).

  What \<open>argon2\<close>, \<open>hyper\<close>, \<open>handlebars\<close>, \<open>serde_json\<close>, \<open>toml\<close>, \<open>url\<close> and the file system compute is the
  record \<open>web_env\<close>.  Clock readings and random draws are arguments (\<open>draws\<close>).  Header values are
  strings; \<open>env_to_str\<close> is \<open>HeaderValue::to_str\<close>.
\<close>

section \<open>Requests, responses, state\<close>

datatype http_method = GET | POST | OtherMethod string

record request =
  req_method :: http_method
  req_path :: string
  req_headers :: "string \<Rightarrow> string option"
  req_body :: "string + string"

text \<open>\<open>req_body\<close>: \<open>Inl\<close> is the error text of a body that could not be collected.\<close>

record response =
  status :: nat
  resp_headers :: "(string \<times> string) list"
  body :: string

datatype asset =
    ACCESS_HTML | STYLE_CSS | LIB_JS | SETTINGS_HTML | SW_JS | MANIFEST | APPLE_TOUCH_ICON

record index_context =
  uinput_enabled :: bool
  capture_cursor_enabled :: bool
  log_level :: string

record settings_response =
  sr_bind_address :: string
  sr_web_port :: nat
  sr_access_code :: "string option"
  sr_try_vaapi :: bool
  sr_try_nvenc :: bool
  sr_wayland_support :: bool
  sr_platform :: string

record settings_update =
  su_bind_address :: "string option"
  su_web_port :: "nat option"
  su_access_code :: "string option option"
  su_try_vaapi :: "bool option"
  su_try_nvenc :: "bool option"
  su_wayland_support :: "bool option"

record web_env =
  env_to_str :: "string \<Rightarrow> string option"
  env_accept_key :: "string \<Rightarrow> string"
  env_parse_hash :: "string \<Rightarrow> string option"
  env_verify_password :: "string \<Rightarrow> string \<Rightarrow> bool"
  env_hash_password :: "nat list \<Rightarrow> string \<Rightarrow> string"
  env_form_parse :: "string \<Rightarrow> (string \<times> string) list"
  env_asset :: "asset \<Rightarrow> string"
  env_read_file :: "string \<Rightarrow> string option"
  env_register_template :: "string \<Rightarrow> bool"
  env_render :: "string option \<Rightarrow> index_context \<Rightarrow> string option"
  env_log_level :: string
  env_settings_json :: "settings_response \<Rightarrow> string option"
  env_parse_update :: "string \<Rightarrow> string + settings_update"
  env_parse_addr :: "string \<Rightarrow> string + string"
  env_config_dir :: "string option"
  env_readable :: bool
  env_mkdir_ok :: bool
  env_write_ok :: bool
  env_toml_from :: "string \<Rightarrow> config option"
  env_toml_to :: "config \<Rightarrow> string option"
  env_default_config :: config

record web_config =
  bind_addr :: string
  wc_access_code_hash :: "string option"
  wc_custom_index_html :: "string option"
  wc_custom_access_html :: "string option"
  wc_custom_style_css :: "string option"
  wc_custom_lib_js :: "string option"

text \<open>The client count is the \<open>num_clients\<close> the handler is given beside the context.\<close>

record 'ip serve_context =
  sc_web_config :: web_config
  sc_rate :: "'ip attempts"
  sc_sessions :: tokens
  sc_hash :: "string option"
  sc_secure :: bool
  sc_fs :: fs
  sc_num_clients :: usize

record draws =
  now_preauth :: nanos
  now_check :: nanos
  now_finish :: nanos
  now_retry :: nanos
  now_auth :: nanos
  token_idxs :: "nat list"
  salt :: "nat list"

section \<open>Responses\<close>

definition response_from_str :: "string \<Rightarrow> string \<Rightarrow> response" where
  "response_from_str s content_type =
     \<lparr>status = 200, resp_headers = [(''content-type'', content_type)], body = s\<rparr>"

definition boxed_response :: "nat \<Rightarrow> string \<Rightarrow> string \<Rightarrow> response" where
  "boxed_response st content_type b =
     \<lparr>status = st, resp_headers = [(''content-type'', content_type)], body = b\<rparr>"

definition response_not_found :: response where
  "response_not_found = \<lparr>status = 404,
     resp_headers = [(''content-type'', ''text/html; charset=utf-8'')], body = ''Not found!''\<rparr>"

definition response_from_path_or_default ::
  "web_env \<Rightarrow> string option \<Rightarrow> string \<Rightarrow> string \<Rightarrow> response" where
  "response_from_path_or_default env path dflt content_type = (case path of
      Some p \<Rightarrow> (case env_read_file env p of
          Some s \<Rightarrow> response_from_str s content_type
        | None \<Rightarrow> response_from_str dflt content_type)
    | None \<Rightarrow> response_from_str dflt content_type)"

definition redirect :: "string \<Rightarrow> (string \<times> string) list \<Rightarrow> response" where
  "redirect location extra = \<lparr>status = 303,
     resp_headers = (''location'', location) # extra, body = ''Redirecting...''\<rparr>"

definition unauthorized :: response where
  "unauthorized = boxed_response 401 ''text/plain; charset=utf-8'' ''unauthorized''"

section \<open>Headers\<close>

definition header_str :: "web_env \<Rightarrow> request \<Rightarrow> string \<Rightarrow> string option" where
  "header_str env req name = Option.bind (req_headers req name) (env_to_str env)"

definition ws_handshake_response :: "web_env \<Rightarrow> request \<Rightarrow> response + response" where
  "ws_handshake_response env req =
     (let version_ok = (case header_str env req ''sec-websocket-version'' of
            Some v \<Rightarrow> list_ex (\<lambda>v. trim v = ''13'') (split_on (CHR '','') v)
          | None \<Rightarrow> False)
      in if \<not> version_ok
         then Inl \<lparr>status = 426, resp_headers = [(''sec-websocket-version'', ''13'')],
                   body = ''unsupported websocket version''\<rparr>
         else (case req_headers req ''sec-websocket-key'' of
            None \<Rightarrow> Inl (boxed_response 400 ''text/plain; charset=utf-8'' ''missing Sec-WebSocket-Key'')
          | Some key \<Rightarrow> Inr \<lparr>status = 101,
              resp_headers = [(''upgrade'', ''websocket''), (''connection'', ''Upgrade''),
                              (''sec-websocket-accept'', env_accept_key env key)],
              body = ''''\<rparr>))"

definition origin_authority :: "string \<Rightarrow> string" where
  "origin_authority origin =
     hd (split_on (CHR ''/'') (case split_once ''://'' origin of Some (_, rest) \<Rightarrow> rest | None \<Rightarrow> origin))"

definition ws_origin_matches_host :: "web_env \<Rightarrow> request \<Rightarrow> bool" where
  "ws_origin_matches_host env req = (case header_str env req ''origin'' of
      Some origin \<Rightarrow>
        if origin = '''' then True
        else let host = (case header_str env req ''host'' of Some h \<Rightarrow> h | None \<Rightarrow> '''')
             in host \<noteq> '''' \<and> origin_authority origin \<noteq> '''' \<and> origin_authority origin = host
    | None \<Rightarrow> True)"

fun first_session :: "string list \<Rightarrow> string option" where
  "first_session [] = None"
| "first_session (part # parts) = (case strip_prefix ''rylus_session='' (trim part) of
      Some v \<Rightarrow> Some v
    | None \<Rightarrow> first_session parts)"

definition extract_session_token :: "web_env \<Rightarrow> request \<Rightarrow> string option" where
  "extract_session_token env req = (case header_str env req ''cookie'' of
      Some h \<Rightarrow> first_session (split_on (CHR '';'') h)
    | None \<Rightarrow> None)"

section \<open>Access codes\<close>

definition hash_access_code :: "web_env \<Rightarrow> nat list \<Rightarrow> string \<Rightarrow> string" where
  "hash_access_code env s code = env_hash_password env s code"

definition verify_access_code :: "web_env \<Rightarrow> string \<Rightarrow> string \<Rightarrow> bool" where
  "verify_access_code env code h = (case env_parse_hash env h of
      Some parsed \<Rightarrow> env_verify_password env code parsed
    | None \<Rightarrow> False)"

definition web_config_new ::
  "web_env \<Rightarrow> nat list \<Rightarrow> string \<Rightarrow> string option \<Rightarrow> string option \<Rightarrow> string option
     \<Rightarrow> string option \<Rightarrow> string option \<Rightarrow> web_config" where
  "web_config_new env s addr code index_html access_html style_css lib_js =
     \<lparr>bind_addr = addr, wc_access_code_hash = map_option (hash_access_code env s) code,
      wc_custom_index_html = index_html, wc_custom_access_html = access_html,
      wc_custom_style_css = style_css, wc_custom_lib_js = lib_js\<rparr>"

text \<open>The context \<open>run\<close> builds; \<open>tls\<close>: a TLS configuration was given.\<close>

definition run_context :: "web_config \<Rightarrow> bool \<Rightarrow> fs \<Rightarrow> 'ip serve_context" where
  "run_context wc tls f = \<lparr>sc_web_config = wc, sc_rate = rl_new, sc_sessions = ss_new,
     sc_hash = wc_access_code_hash wc, sc_secure = tls, sc_fs = f, sc_num_clients = 0\<rparr>"

definition is_authed ::
  "web_env \<Rightarrow> nanos \<Rightarrow> request \<Rightarrow> 'ip serve_context \<Rightarrow> bool \<times> 'ip serve_context" where
  "is_authed env now req c =
     (if sc_hash c = None then (True, c)
      else (case extract_session_token env req of
              Some t \<Rightarrow> let (ok, ss) = is_valid now t (sc_sessions c) in (ok, c\<lparr>sc_sessions := ss\<rparr>)
            | None \<Rightarrow> (False, c)))"

section \<open>The configuration API\<close>

definition stored_config :: "web_env \<Rightarrow> fs \<Rightarrow> config" where
  "stored_config env f = (case read_config (env_config_dir env) f (env_readable env) (env_toml_from env) of
      Some c \<Rightarrow> c
    | None \<Rightarrow> env_default_config env)"

definition handle_get_config :: "web_env \<Rightarrow> 'ip serve_context \<Rightarrow> response" where
  "handle_get_config env c =
     (let config = stored_config env (sc_fs c);
          resp = \<lparr>sr_bind_address = bind_address config, sr_web_port = web_port config,
                  sr_access_code = access_code config, sr_try_vaapi = try_vaapi config,
                  sr_try_nvenc = try_nvenc config, sr_wayland_support = wayland_support config,
                  sr_platform = ''linux''\<rparr>;
          json = (case env_settings_json env resp of Some j \<Rightarrow> j | None \<Rightarrow> ''{}'')
      in boxed_response 200 ''application/json'' json)"

text \<open>\<open>access_code\<close>: absent keeps it, null clears it, a string sets it; a changed code swaps the live hash
  and empties the session store.\<close>

definition apply_access_code ::
  "web_env \<Rightarrow> nat list \<Rightarrow> string option option \<Rightarrow> config \<Rightarrow> 'ip serve_context
     \<Rightarrow> config \<times> 'ip serve_context" where
  "apply_access_code env s upd config c = (case upd of
      Some code \<Rightarrow>
        let rotated = (access_code config \<noteq> code);
            config = config\<lparr>access_code := code\<rparr>
        in if rotated
           then (config, c\<lparr>sc_hash := map_option (hash_access_code env s) (access_code config),
                           sc_sessions := ss_clear (sc_sessions c)\<rparr>)
           else (config, c)
    | None \<Rightarrow> (config, c))"

definition apply_flags :: "settings_update \<Rightarrow> config \<Rightarrow> config" where
  "apply_flags u config =
     (let config = (case su_try_vaapi u of Some v \<Rightarrow> config\<lparr>try_vaapi := v\<rparr> | None \<Rightarrow> config);
          config = (case su_try_nvenc u of Some v \<Rightarrow> config\<lparr>try_nvenc := v\<rparr> | None \<Rightarrow> config)
      in (case su_wayland_support u of Some v \<Rightarrow> config\<lparr>wayland_support := v\<rparr> | None \<Rightarrow> config))"

definition bad_request :: "string \<Rightarrow> response" where
  "bad_request msg = boxed_response 400 ''text/plain'' msg"

definition apply_bind_address :: "web_env \<Rightarrow> settings_update \<Rightarrow> config \<Rightarrow> response + config" where
  "apply_bind_address env update config = (case su_bind_address update of
      Some addr \<Rightarrow> (case env_parse_addr env addr of
          Inr a \<Rightarrow> Inr (config\<lparr>bind_address := a\<rparr>)
        | Inl err \<Rightarrow> Inl (bad_request (''Invalid bind address: '' @ err)))
    | None \<Rightarrow> Inr config)"

definition apply_update ::
  "web_env \<Rightarrow> nat list \<Rightarrow> settings_update \<Rightarrow> 'ip serve_context \<Rightarrow> response \<times> 'ip serve_context" where
  "apply_update env s update c =
     (case apply_bind_address env update (stored_config env (sc_fs c)) of
        Inl r \<Rightarrow> (r, c)
      | Inr config \<Rightarrow>
          let config = (case su_web_port update of
                          Some port \<Rightarrow> config\<lparr>web_port := port\<rparr> | None \<Rightarrow> config);
              (config, c) = apply_access_code env s (su_access_code update) config c;
              config = apply_flags update config;
              f = write_config (env_config_dir env) (env_mkdir_ok env) (env_write_ok env)
                    (env_toml_to env) config (sc_fs c)
          in (boxed_response 200 ''application/json'' ''{\"ok\":true}'', c\<lparr>sc_fs := f\<rparr>))"

definition handle_post_config ::
  "web_env \<Rightarrow> nat list \<Rightarrow> request \<Rightarrow> 'ip serve_context \<Rightarrow> response \<times> 'ip serve_context" where
  "handle_post_config env s req c = (case req_body req of
      Inl err \<Rightarrow> (bad_request (''Failed to read body: '' @ err), c)
    | Inr b \<Rightarrow> (case env_parse_update env b of
          Inl err \<Rightarrow> (bad_request (''Invalid JSON: '' @ err), c)
        | Inr update \<Rightarrow> apply_update env s update c))"

section \<open>serve, first part: settings and configuration\<close>

text \<open>\<open>None\<close> falls through to the rest of \<open>serve\<close>.\<close>

definition serve_settings ::
  "web_env \<Rightarrow> draws \<Rightarrow> bool \<Rightarrow> request \<Rightarrow> 'ip serve_context
     \<Rightarrow> (response \<times> 'ip serve_context) option" where
  "serve_settings env d preauthed req c =
     (if req_method req = GET \<and> req_path req = ''/settings'' then
        Some (if \<not> preauthed then unauthorized
              else response_from_str (env_asset env SETTINGS_HTML) ''text/html; charset=utf-8'', c)
      else if req_method req = GET \<and> req_path req = ''/api/config'' then
        Some (if \<not> preauthed then unauthorized else handle_get_config env c, c)
      else if req_method req = POST \<and> req_path req = ''/api/config'' then
        Some (if \<not> preauthed then (unauthorized, c) else handle_post_config env (salt d) req c)
      else None)"

section \<open>serve, second part: POST /auth\<close>

text \<open>The request awaits its body between the lockout check and the verification, so the section is two
  definitions; other requests may run in between.\<close>

datatype auth_check = AuthSkip | AuthReject response | AuthProceed string

definition rate_limited_location :: "nat \<Rightarrow> string" where
  "rate_limited_location retry = ''/?auth_error=rate_limited&retry='' @ dec retry"

definition auth_begin :: "nanos \<Rightarrow> 'ip \<Rightarrow> 'ip serve_context \<Rightarrow> auth_check \<times> 'ip serve_context" where
  "auth_begin now ip c = (case sc_hash c of
      None \<Rightarrow> (AuthSkip, c)
    | Some h \<Rightarrow>
        let (lock, rate) = lockout_remaining now ip (sc_rate c);
            c = c\<lparr>sc_rate := rate\<rparr>
        in (case lock of
              Some retry \<Rightarrow>
                (AuthReject (redirect (rate_limited_location retry) [(''retry-after'', dec retry)]), c)
            | None \<Rightarrow> (AuthProceed h, c)))"

definition session_cookie :: "bool \<Rightarrow> string \<Rightarrow> string" where
  "session_cookie secure token =
     ''rylus_session='' @ token @ ''; HttpOnly; SameSite=Strict; Path=/; Max-Age=86400''
       @ (if secure then ''; Secure'' else [])"

text \<open>The form's code, when present and non-empty and verified; later pairs win in the \<open>HashMap\<close>.\<close>

definition code_accepted :: "web_env \<Rightarrow> string \<Rightarrow> string \<Rightarrow> bool" where
  "code_accepted env h b = (case map_of (rev (env_form_parse env b)) ''access_code'' of
      Some code \<Rightarrow> code \<noteq> [] \<and> verify_access_code env code h
    | None \<Rightarrow> False)"

definition auth_finish ::
  "web_env \<Rightarrow> draws \<Rightarrow> 'ip \<Rightarrow> request \<Rightarrow> string \<Rightarrow> 'ip serve_context
     \<Rightarrow> response \<times> 'ip serve_context" where
  "auth_finish env d ip req h c = (case req_body req of
      Inl err \<Rightarrow> (bad_request (''Failed to read body: '' @ err), c)
    | Inr b \<Rightarrow>
        if code_accepted env h b then
          let (token, ss) = create_session (token_idxs d) (now_finish d) (sc_sessions c)
          in (redirect ''/'' [(''set-cookie'', session_cookie (sc_secure c) token)],
              c\<lparr>sc_sessions := ss\<rparr>)
        else
          let rate = record_failure (now_finish d) ip (sc_rate c);
              (lock, rate) = lockout_remaining (now_retry d) ip rate;
              location = (case lock of
                 Some retry \<Rightarrow> rate_limited_location retry | None \<Rightarrow> ''/?auth_error=invalid'')
          in (redirect location [], c\<lparr>sc_rate := rate\<rparr>))"

definition serve_auth ::
  "web_env \<Rightarrow> draws \<Rightarrow> 'ip \<Rightarrow> request \<Rightarrow> 'ip serve_context
     \<Rightarrow> response option \<times> 'ip serve_context" where
  "serve_auth env d ip req c =
     (if req_method req = POST \<and> req_path req = ''/auth'' then
        (case auth_begin (now_check d) ip c of
           (AuthSkip, c) \<Rightarrow> (None, c)
         | (AuthReject r, c) \<Rightarrow> (Some r, c)
         | (AuthProceed h, c) \<Rightarrow>
             let (r, c) = auth_finish env d ip req h c in (Some r, c))
      else (None, c))"

section \<open>serve, third part: pages and the WebSocket upgrade\<close>

definition serve_index :: "web_env \<Rightarrow> bool \<Rightarrow> web_config \<Rightarrow> response" where
  "serve_index env authed wc =
     (if \<not> authed
      then response_from_path_or_default env (wc_custom_access_html wc) (env_asset env ACCESS_HTML)
             ''text/html; charset=utf-8''
      else
        let ctx = \<lparr>uinput_enabled = True, capture_cursor_enabled = True,
                   log_level = env_log_level env\<rparr>;
            html = (case wc_custom_index_html wc of
                Some path \<Rightarrow> if \<not> env_register_template env path then env_render env None ctx
                             else env_render env (Some path) ctx
              | None \<Rightarrow> env_render env None ctx)
        in (case html of
              Some html \<Rightarrow> response_from_str html ''text/html; charset=utf-8''
            | None \<Rightarrow> response_not_found))"

text \<open>The flag says that the upgrade is accepted: the client is counted and its task spawned.\<close>

definition serve_ws :: "web_env \<Rightarrow> bool \<Rightarrow> request \<Rightarrow> response \<times> bool" where
  "serve_ws env authed req =
     (if \<not> authed then (\<lparr>status = 401, resp_headers = [], body = ''unauthorized''\<rparr>, False)
      else if \<not> ws_origin_matches_host env req
      then (\<lparr>status = 403, resp_headers = [], body = ''forbidden origin''\<rparr>, False)
      else (case ws_handshake_response env req of
              Inr r \<Rightarrow> (r, True)
            | Inl reject \<Rightarrow> (reject, False)))"

definition serve_static :: "web_env \<Rightarrow> web_config \<Rightarrow> string \<Rightarrow> response" where
  "serve_static env wc path =
     (if path = ''/style.css'' then response_from_path_or_default env (wc_custom_style_css wc)
        (env_asset env STYLE_CSS) ''text/css; charset=utf-8''
      else if path = ''/lib.js'' then response_from_path_or_default env (wc_custom_lib_js wc)
        (env_asset env LIB_JS) ''text/javascript; charset=utf-8''
      else if path = ''/sw.js'' then
        response_from_str (env_asset env SW_JS) ''text/javascript; charset=utf-8''
      else if path = ''/manifest.webmanifest'' then
        response_from_str (env_asset env MANIFEST) ''application/manifest+json; charset=utf-8''
      else if path = ''/apple-touch-icon.png'' then
        \<lparr>status = 200, resp_headers = [(''content-type'', ''image/png'')],
         body = env_asset env APPLE_TOUCH_ICON\<rparr>
      else response_not_found)"

definition serve_page ::
  "web_env \<Rightarrow> bool \<Rightarrow> request \<Rightarrow> 'ip serve_context \<Rightarrow> response \<times> 'ip serve_context \<times> bool" where
  "serve_page env authed req c =
     (if req_path req = ''/'' then (serve_index env authed (sc_web_config c), c, False)
      else if req_path req = ''/ws'' then
        (let (r, up) = serve_ws env authed req
         in (r, if up then c\<lparr>sc_num_clients := sc_num_clients c + 1\<rparr> else c, up))
      else (serve_static env (sc_web_config c) (req_path req), c, False))"

definition serve ::
  "web_env \<Rightarrow> draws \<Rightarrow> 'ip \<Rightarrow> request \<Rightarrow> 'ip serve_context \<Rightarrow> response \<times> 'ip serve_context \<times> bool" where
  "serve env d ip req c =
     (let (preauthed, c) = is_authed env (now_preauth d) req c in
      case serve_settings env d preauthed req c of
        Some (r, c) \<Rightarrow> (r, c, False)
      | None \<Rightarrow>
          (case serve_auth env d ip req c of
             (Some r, c) \<Rightarrow> (r, c, False)
           | (None, c) \<Rightarrow>
               let (authed, c) = is_authed env (now_auth d) req c in
               if req_method req \<noteq> GET then (response_not_found, c, False)
               else serve_page env authed req c))"

end
