(* ===== verification/WebFacts.thy ===== *)
theory WebFacts
  imports WebServer
begin

text \<open>
  What the request handler guarantees: what a request without a session can reach, where sessions
  come from, what rotating the access code does, and the bound on guesses.  The last section holds
  the interleavings of the two halves of \<open>POST /auth\<close>.
\<close>

section \<open>Authentication\<close>

definition has_session :: "web_env \<Rightarrow> nanos \<Rightarrow> request \<Rightarrow> 'ip serve_context \<Rightarrow> bool" where
  "has_session env now req c \<longleftrightarrow> (case extract_session_token env req of
      Some t \<Rightarrow> fst (is_valid now t (sc_sessions c)) | None \<Rightarrow> False)"

lemma is_authed_fst: "fst (is_authed env now req c) \<longleftrightarrow> sc_hash c = None \<or> has_session env now req c"
  by (auto simp: is_authed_def has_session_def Let_def split: option.split prod.split)

text \<open>The check only forgets expired tokens.\<close>

definition same_but_sessions :: "'ip serve_context \<Rightarrow> 'ip serve_context \<Rightarrow> bool" where
  "same_but_sessions c c' \<longleftrightarrow> c'\<lparr>sc_sessions := sc_sessions c\<rparr> = c"

lemma is_authed_snd:
  "snd (is_authed env now req c) = c\<lparr>sc_sessions := sc_sessions (snd (is_authed env now req c))\<rparr>"
  by (simp add: is_authed_def Let_def split: option.split prod.split)

lemma is_authed_frame [simp]:
  "sc_hash (snd (is_authed env now req c)) = sc_hash c"
  "sc_rate (snd (is_authed env now req c)) = sc_rate c"
  "sc_fs (snd (is_authed env now req c)) = sc_fs c"
  "sc_num_clients (snd (is_authed env now req c)) = sc_num_clients c"
  "sc_web_config (snd (is_authed env now req c)) = sc_web_config c"
  "sc_secure (snd (is_authed env now req c)) = sc_secure c"
  by (subst is_authed_snd, simp)+

lemma is_authed_sessions:
  "sc_sessions (snd (is_authed env now req c)) k = Some t \<Longrightarrow> sc_sessions c k = Some t"
  by (auto simp: is_authed_def Let_def is_valid_def split: option.splits if_splits)

lemma is_authed_later:
  assumes "now \<le> later"
  shows "has_session env later req' (snd (is_authed env now req c)) = has_session env later req' c"
proof (cases "extract_session_token env req'")
  case None
  then show ?thesis by (simp add: has_session_def)
next
  case (Some k)
  show ?thesis
  proof (cases "extract_session_token env req")
    case None
    then have "snd (is_authed env now req c) = c" by (cases "sc_hash c") (simp_all add: is_authed_def)
    then show ?thesis by simp
  next
    case tok: (Some k1)
    show ?thesis using sessions.valid_check [OF assms, of k k1 "sc_sessions c"]
      by (cases "sc_hash c")
         (simp_all add: has_session_def is_authed_def Some tok Let_def case_prod_beta)
  qed
qed

lemma has_session_later:
  "has_session env later req c \<Longrightarrow> now \<le> later \<Longrightarrow> has_session env now req c"
  by (auto simp: has_session_def is_valid_fst intro: le_less_trans [OF diff_le_mono]
      split: option.splits)

section \<open>The rate limiter and the sessions in the handler\<close>

lemma auth_begin_frame:
  "auth_begin now ip c = (a, c') \<Longrightarrow>
     c' = c\<lparr>sc_rate := (if sc_hash c = None then sc_rate c else snd (lockout_remaining now ip (sc_rate c)))\<rparr>"
  by (auto simp: auth_begin_def Let_def case_prod_beta split: option.splits)

lemma auth_begin_proceed:
  "auth_begin now ip c = (AuthProceed h, c') \<Longrightarrow>
     sc_hash c = Some h \<and> fst (lockout_remaining now ip (sc_rate c)) = None"
  by (auto simp: auth_begin_def Let_def case_prod_beta split: option.splits)

lemma auth_finish_frame:
  "auth_finish env d ip req h c = (r, c') \<Longrightarrow>
     sc_hash c' = sc_hash c \<and> sc_fs c' = sc_fs c \<and> sc_num_clients c' = sc_num_clients c
     \<and> sc_web_config c' = sc_web_config c \<and> sc_secure c' = sc_secure c"
  by (auto simp: auth_finish_def Let_def case_prod_beta split: sum.splits if_splits)

text \<open>A token of the new state that the old one did not hold was issued for an accepted code.\<close>

definition login_ok :: "web_env \<Rightarrow> draws \<Rightarrow> 'ip \<Rightarrow> request \<Rightarrow> 'ip serve_context \<Rightarrow> bool" where
  "login_ok env d ip req c \<longleftrightarrow> req_method req = POST \<and> req_path req = ''/auth''
     \<and> fst (lockout_remaining (now_check d) ip (sc_rate c)) = None
     \<and> (case sc_hash c of None \<Rightarrow> False | Some h \<Rightarrow>
          (case req_body req of Inl _ \<Rightarrow> False | Inr b \<Rightarrow> code_accepted env h b))"

lemma auth_finish_sessions:
  "auth_finish env d ip req h c = (r, c') \<Longrightarrow> sc_sessions c' k = Some t \<Longrightarrow>
     sc_sessions c k = Some t
     \<or> (k = map token_char (token_idxs d) \<and> t = now_finish d
        \<and> (\<exists>b. req_body req = Inr b \<and> code_accepted env h b))"
  by (auto simp: auth_finish_def create_session_def Let_def case_prod_beta
      split: sum.splits if_splits)

lemma auth_begin_skip: "auth_begin now ip c = (AuthSkip, c') \<Longrightarrow> c' = c"
  by (auto simp: auth_begin_def Let_def case_prod_beta split: option.splits)

lemma serve_authE:
  assumes "serve_auth env d ip req c = (r, c')"
  obtains (Skip) "r = None" "c' = c"
  | (Reject) x where "req_method req = POST" "req_path req = ''/auth''" "r = Some x"
      "auth_begin (now_check d) ip c = (AuthReject x, c')"
  | (Finish) h c1 x where "req_method req = POST" "req_path req = ''/auth''" "r = Some x"
      "auth_begin (now_check d) ip c = (AuthProceed h, c1)"
      "auth_finish env d ip req h c1 = (x, c')"
proof (cases "req_method req = POST \<and> req_path req = ''/auth''")
  case False
  then have "r = None \<and> c' = c"
    using assms by (simp only: serve_auth_def if_False prod.inject)
  then show ?thesis using Skip by blast
next
  case True
  obtain a c1 where b: "auth_begin (now_check d) ip c = (a, c1)" by fastforce
  show ?thesis
  proof (cases a)
    case AuthSkip
    then have "r = None \<and> c' = c" using assms True b auth_begin_skip [of "now_check d" ip c c1]
      by (simp add: serve_auth_def)
    then show ?thesis using Skip by blast
  next
    case (AuthReject x)
    then have "r = Some x \<and> c' = c1" using assms True b by (simp add: serve_auth_def)
    then show ?thesis using Reject True b AuthReject by blast
  next
    case (AuthProceed h)
    obtain x c2 where f: "auth_finish env d ip req h c1 = (x, c2)" by fastforce
    have "r = Some x \<and> c' = c2" using assms True b AuthProceed f by (simp add: serve_auth_def)
    then show ?thesis using Finish True b AuthProceed f by blast
  qed
qed

lemma serve_auth_frame:
  assumes "serve_auth env d ip req c = (r, c')"
  shows "sc_hash c' = sc_hash c \<and> sc_fs c' = sc_fs c \<and> sc_num_clients c' = sc_num_clients c
     \<and> sc_web_config c' = sc_web_config c \<and> sc_secure c' = sc_secure c"
  using assms
proof (cases rule: serve_authE)
  case Skip
  then show ?thesis by simp
next
  case (Reject x)
  show ?thesis by (subst auth_begin_frame [OF Reject(4)])+ simp
next
  case (Finish h c1 x)
  have "c1 = c\<lparr>sc_rate := (if sc_hash c = None then sc_rate c
      else snd (lockout_remaining (now_check d) ip (sc_rate c)))\<rparr>"
    by (rule auth_begin_frame [OF Finish(4)])
  then show ?thesis using auth_finish_frame [OF Finish(5)] by simp
qed

lemma serve_auth_sessions:
  assumes "serve_auth env d ip req c = (r, c')" "sc_sessions c' k = Some t"
  shows "sc_sessions c k = Some t \<or> login_ok env d ip req c"
  using assms(1)
proof (cases rule: serve_authE)
  case Skip
  then show ?thesis using assms(2) by simp
next
  case (Reject x)
  have "sc_sessions c' = sc_sessions c" by (subst auth_begin_frame [OF Reject(4)]) simp
  then show ?thesis using assms(2) by simp
next
  case (Finish h c1 x)
  have "sc_sessions c1 = sc_sessions c" by (subst auth_begin_frame [OF Finish(4)]) simp
  then show ?thesis
    using auth_finish_sessions [OF Finish(5) assms(2)] auth_begin_proceed [OF Finish(4)] Finish(1,2)
    by (auto simp: login_ok_def)
qed

section \<open>What a request without a session reaches\<close>

definition protected :: "request \<Rightarrow> bool" where
  "protected req \<longleftrightarrow>
     (req_method req = GET \<and> req_path req \<in> {''/settings'', ''/api/config'', ''/ws''})
     \<or> (req_method req = POST \<and> req_path req = ''/api/config'')"

lemma login_ok_frame [simp]:
  "login_ok env d ip req (snd (is_authed env now req' c)) = login_ok env d ip req c"
  by (simp add: login_ok_def)

lemma serve_settings_unauth:
  "serve_settings env d False req c = Some (r, c') \<Longrightarrow> r = unauthorized \<and> c' = c"
  by (auto simp: serve_settings_def split: if_splits)

lemma serve_settings_None:
  "serve_settings env d p req c = None \<Longrightarrow> protected req \<Longrightarrow>
     req_method req = GET \<and> req_path req = ''/ws''"
  by (auto simp: serve_settings_def protected_def split: if_splits)

lemma serve_page_unauth:
  "serve_page env False req c = (r, c', up) \<Longrightarrow> req_method req = GET \<Longrightarrow>
     c' = c \<and> \<not> up \<and> (protected req \<longrightarrow> req_path req = ''/ws'' \<longrightarrow> status r = 401)"
  by (auto simp: serve_page_def serve_ws_def split: if_splits)

lemma unauthenticated_serve:
  assumes hash: "sc_hash c = Some h" and sess: "\<not> has_session env (now_preauth d) req c"
    and le: "now_preauth d \<le> now_auth d" and s: "serve env d ip req c = (r, c', up)"
  shows "\<not> up \<and> sc_hash c' = sc_hash c \<and> sc_fs c' = sc_fs c
     \<and> sc_num_clients c' = sc_num_clients c \<and> (protected req \<longrightarrow> status r = 401)
     \<and> (\<forall>k t. sc_sessions c' k = Some t \<longrightarrow> sc_sessions c k = Some t \<or> login_ok env d ip req c)"
proof -
  obtain c1 where a1: "is_authed env (now_preauth d) req c = (False, c1)"
    using is_authed_fst [of env "now_preauth d" req c] hash sess
    by (cases "is_authed env (now_preauth d) req c") auto
  have c1: "c1 = snd (is_authed env (now_preauth d) req c)" using a1 by simp
  have old: "sc_sessions c1 k = Some t \<Longrightarrow> sc_sessions c k = Some t" for k t
    unfolding c1 by (rule is_authed_sessions)
  show ?thesis
  proof (cases "serve_settings env d False req c1")
    case (Some p)
    obtain r0 c0 where p: "p = (r0, c0)" by fastforce
    then have "r0 = unauthorized" "c0 = c1" using serve_settings_unauth Some by blast+
    then have "r = unauthorized" "c' = c1" "\<not> up"
      using s a1 Some p by (simp_all add: serve_def)
    then show ?thesis using old by (simp add: c1 unauthorized_def boxed_response_def)
  next
    case None
    obtain ro c2 where au: "serve_auth env d ip req c1 = (ro, c2)" by fastforce
    show ?thesis
    proof (cases ro)
      case (Some r0)
      have e: "r = r0" "c' = c2" "\<not> up" using s a1 None au Some by (simp_all add: serve_def)
      have np: "\<not> protected req"
        using serve_settings_None [OF None] au Some by (auto elim: serve_authE)
      have "sc_sessions c2 k = Some t \<Longrightarrow> sc_sessions c k = Some t \<or> login_ok env d ip req c"
        for k t using serve_auth_sessions [OF au, of k t] old by (auto simp: c1)
      then show ?thesis using serve_auth_frame [OF au] e np by (simp add: c1)
    next
      case ro: None
      have c2: "c2 = c1" using au ro by (auto elim: serve_authE)
      have "\<not> has_session env (now_auth d) req c1"
        using is_authed_later [OF le, of env req req c] has_session_later [OF _ le] sess
        by (auto simp: c1)
      then obtain c3 where a2: "is_authed env (now_auth d) req c1 = (False, c3)"
        using is_authed_fst [of env "now_auth d" req c1] hash
        by (cases "is_authed env (now_auth d) req c1") (auto simp: c1)
      have c3: "c3 = snd (is_authed env (now_auth d) req c1)" using a2 by simp
      have old3: "sc_sessions c3 k = Some t \<Longrightarrow> sc_sessions c k = Some t" for k t
        using is_authed_sessions old unfolding c3 by blast
      have fr: "sc_hash c3 = sc_hash c" "sc_fs c3 = sc_fs c" "sc_num_clients c3 = sc_num_clients c"
        by (simp_all add: c3 c1)
      show ?thesis
      proof (cases "req_method req = GET")
        case False
        have "r = response_not_found" "c' = c3" "\<not> up"
          using s a1 a2 None au ro c2 False by (simp_all add: serve_def)
        moreover have "\<not> protected req" using serve_settings_None [OF None] False by blast
        ultimately show ?thesis using fr old3 by simp
      next
        case True
        have "serve_page env False req c3 = (r, c', up)"
          using s a1 a2 None au ro c2 True by (simp add: serve_def)
        then show ?thesis
          using serve_page_unauth True serve_settings_None [OF None] fr old3 by blast
      qed
    qed
  qed
qed

section \<open>Rotating the access code\<close>

definition rotates :: "web_env \<Rightarrow> settings_update \<Rightarrow> 'ip serve_context \<Rightarrow> string option \<Rightarrow> bool" where
  "rotates env u c code \<longleftrightarrow>
     su_access_code u = Some code \<and> access_code (stored_config env (sc_fs c)) \<noteq> code"

lemma apply_bind_address_code:
  "apply_bind_address env u config = Inr config' \<Longrightarrow> access_code config' = access_code config"
  by (auto simp: apply_bind_address_def split: option.splits sum.splits)

lemma web_port_code:
  "access_code (case p of Some port \<Rightarrow> config\<lparr>web_port := port\<rparr> | None \<Rightarrow> config) = access_code config"
  by (simp split: option.split)

lemma apply_update_rotates:
  assumes "rotates env u c code" "apply_update env s u c = (r, c')" "status r = 200"
  shows "sc_hash c' = map_option (hash_access_code env s) code
     \<and> (\<forall>t k. \<not> fst (is_valid t k (sc_sessions c')))"
proof -
  obtain config where config: "apply_bind_address env u (stored_config env (sc_fs c)) = Inr config"
    using assms(2,3)
    by (cases "apply_bind_address env u (stored_config env (sc_fs c))")
       (auto simp: apply_update_def apply_bind_address_def bad_request_def boxed_response_def
         split: option.splits sum.splits)
  then have "access_code config \<noteq> code"
    using assms(1) apply_bind_address_code by (simp add: rotates_def)
  then show ?thesis
    using assms(1,2) config sessions.valid_wipe
    by (auto simp: apply_update_def apply_access_code_def rotates_def Let_def web_port_code)
qed

lemma apply_update_keeps:
  assumes "\<And>code. \<not> rotates env u c code" "apply_update env s u c = (r, c')"
  shows "sc_hash c' = sc_hash c \<and> sc_sessions c' = sc_sessions c"
proof (cases "apply_bind_address env u (stored_config env (sc_fs c))")
  case (Inl e)
  then show ?thesis using assms(2) by (simp add: apply_update_def)
next
  case (Inr config)
  have "access_code config = access_code (stored_config env (sc_fs c))"
    using apply_bind_address_code [OF Inr] .
  then have "\<And>code. su_access_code u = Some code \<Longrightarrow> access_code config = code"
    using assms(1) by (auto simp: rotates_def)
  then show ?thesis using assms(2) Inr
    by (cases "su_access_code u") (auto simp: apply_update_def apply_access_code_def Let_def web_port_code)
qed

text \<open>After a rotation no request is authenticated until somebody logs in with the new code.\<close>

lemma rotated_no_session:
  assumes "rotates env u c code" "apply_update env s u c = (r, c')" "status r = 200"
  shows "\<not> has_session env now req c'"
  using apply_update_rotates [OF assms] by (auto simp: has_session_def split: option.split)

text \<open>\<open>argon2\<close>: a hash verifies exactly the code it was made from.\<close>

definition argon2_law :: "web_env \<Rightarrow> bool" where
  "argon2_law env \<longleftrightarrow> (\<forall>s code. \<exists>p. env_parse_hash env (env_hash_password env s code) = Some p
     \<and> (\<forall>code'. env_verify_password env code' p \<longleftrightarrow> code' = code))"

lemma verify_hash:
  "argon2_law env \<Longrightarrow> verify_access_code env code' (hash_access_code env s code) \<longleftrightarrow> code' = code"
  unfolding argon2_law_def verify_access_code_def hash_access_code_def
  by (metis option.simps(5))

lemma code_accepted_hash:
  "argon2_law env \<Longrightarrow> code_accepted env (hash_access_code env s code) b \<longleftrightarrow>
     map_of (rev (env_form_parse env b)) ''access_code'' = Some code \<and> code \<noteq> []"
  by (auto simp: code_accepted_def verify_hash split: option.splits)

text \<open>Setting the empty code: no form is accepted any more and no session is left.\<close>

lemma empty_code_locks_out:
  assumes "argon2_law env" "rotates env u c (Some [])" "apply_update env s u c = (r, c')"
    and "status r = 200"
  shows "\<exists>h. sc_hash c' = Some h \<and> (\<forall>b. \<not> code_accepted env h b)
     \<and> (\<forall>now req. \<not> fst (is_authed env now req c'))"
proof -
  have h: "sc_hash c' = Some (hash_access_code env s [])"
    using apply_update_rotates [OF assms(2-4)] by simp
  moreover have "\<not> code_accepted env (hash_access_code env s []) b" for b
    by (simp add: code_accepted_hash [OF assms(1)])
  moreover have "\<not> fst (is_authed env now req c')" for now req
    using rotated_no_session [OF assms(2-4)] h by (simp add: is_authed_fst)
  ultimately show ?thesis by blast
qed

text \<open>Clearing a code that is not in the stored configuration, but was given on the command line, keeps the
  live hash although the response is the success response.\<close>

lemma clear_keeps_live_hash:
  assumes "su_access_code u = Some None" "access_code (stored_config env (sc_fs c)) = None"
    and "apply_update env s u c = (r, c')"
  shows "sc_hash c' = sc_hash c \<and> sc_sessions c' = sc_sessions c"
  by (rule apply_update_keeps [OF _ assms(3)]) (use assms in \<open>auto simp: rotates_def\<close>)

section \<open>Interleaved logins\<close>

lemma auth_begin_unlocked:
  assumes "sc_hash c = Some h" "fst (lockout_remaining now ip (sc_rate c)) = None"
  shows "auth_begin now ip c = (AuthProceed h, c\<lparr>sc_rate := snd (lockout_remaining now ip (sc_rate c))\<rparr>)"
  using assms by (cases "lockout_remaining now ip (sc_rate c)") (simp add: auth_begin_def)

text \<open>\<open>n\<close> requests of one address check the lockout before the first of them records its failure: all
  of them go on to the verification.\<close>

lemma begins_proceed:
  assumes "sc_hash c = Some h" "failures (sc_rate c) ip = []"
  shows "sc_hash (((\<lambda>c. snd (auth_begin now ip c)) ^^ n) c) = Some h
     \<and> failures (sc_rate (((\<lambda>c. snd (auth_begin now ip c)) ^^ n) c)) ip = []
     \<and> fst (auth_begin now ip (((\<lambda>c. snd (auth_begin now ip c)) ^^ n) c)) = AuthProceed h"
proof -
  have free: "fst (lockout_remaining now ip m) = None" if "failures m ip = []" for m
    using that by (simp add: lockout_remaining_fst retain_recent_def)
  show ?thesis
  proof (induction n)
    case 0
    show ?case using assms auth_begin_unlocked [OF assms(1) free [OF assms(2)]] by simp
  next
    case (Suc n)
    let ?c = "((\<lambda>c. snd (auth_begin now ip c)) ^^ n) c"
    have h: "sc_hash ?c = Some h" and f: "failures (sc_rate ?c) ip = []" using Suc by blast+
    let ?c' = "?c\<lparr>sc_rate := snd (lockout_remaining now ip (sc_rate ?c))\<rparr>"
    have e: "auth_begin now ip ?c = (AuthProceed h, ?c')"
      by (rule auth_begin_unlocked [OF h free [OF f]])
    have f': "failures (sc_rate ?c') ip = []"
      by (simp add: lockout_remaining_snd f retain_recent_def)
    have h': "sc_hash ?c' = Some h" using h by simp
    show ?case using e f' h' auth_begin_unlocked [OF h' free [OF f']] by simp
  qed
qed

text \<open>A login that passed the check before a rotation finishes after it: the old code still yields a
  session under the new one.\<close>

lemma stale_login:
  assumes "req_body req = Inr b" "code_accepted env h b"
  shows "fst (is_valid (now_finish d) (map token_char (token_idxs d))
           (sc_sessions (snd (auth_finish env d ip req h c))))"
  using assms by (simp add: auth_finish_def create_session_def is_valid_def Let_def SESSION_TTL_def
      secs_def)

end
