(* ===== verification/WebRate.thy ===== *)
theory WebRate
  imports WebFacts
begin

text \<open>
  The bound the rate limiter puts on guessing when requests are served one after the other: in any
  run of \<open>serve\<close> from a fresh server, at most six guesses of one address failed within the last
  minute, whatever else was requested in between.
\<close>

definition failed_guess :: "web_env \<Rightarrow> draws \<Rightarrow> 'ip \<Rightarrow> request \<Rightarrow> 'ip serve_context \<Rightarrow> bool" where
  "failed_guess env d ip req c \<longleftrightarrow> req_method req = POST \<and> req_path req = ''/auth''
     \<and> (case sc_hash c of None \<Rightarrow> False | Some h \<Rightarrow>
          fst (lockout_remaining (now_check d) ip (sc_rate c)) = None
          \<and> (case req_body req of Inl _ \<Rightarrow> False | Inr b \<Rightarrow> \<not> code_accepted env h b))"

definition clock_ok :: "nanos \<Rightarrow> draws \<Rightarrow> bool" where
  "clock_ok t d \<longleftrightarrow> t \<le> now_preauth d \<and> now_preauth d \<le> now_check d
     \<and> now_check d \<le> now_finish d \<and> now_finish d \<le> now_retry d \<and> now_retry d \<le> now_auth d"

type_synonym 'ip visit = "draws \<times> 'ip \<times> request"

fun serve_run :: "web_env \<Rightarrow> 'ip visit list \<Rightarrow> 'ip serve_context \<Rightarrow> 'ip serve_context" where
  "serve_run env [] c = c"
| "serve_run env ((d, ip, req) # vs) c = serve_run env vs (fst (snd (serve env d ip req c)))"

fun guess_log :: "web_env \<Rightarrow> 'ip visit list \<Rightarrow> 'ip serve_context \<Rightarrow> ('ip \<times> nanos) list" where
  "guess_log env [] c = []"
| "guess_log env ((d, ip, req) # vs) c =
     (if failed_guess env d ip req c then [(ip, now_finish d)] else [])
       @ guess_log env vs (fst (snd (serve env d ip req c)))"

fun clocks_ok :: "nanos \<Rightarrow> 'ip visit list \<Rightarrow> nanos \<Rightarrow> bool" where
  "clocks_ok t [] end_time \<longleftrightarrow> t \<le> end_time"
| "clocks_ok t ((d, _, _) # vs) end_time \<longleftrightarrow> clock_ok t d \<and> clocks_ok (now_auth d) vs end_time"

section \<open>What one request does to the limiter\<close>

lemma handle_post_config_rate: "sc_rate (snd (handle_post_config env s req c)) = sc_rate c"
  by (auto simp: handle_post_config_def apply_update_def apply_access_code_def Let_def
      split: sum.split option.split prod.split)

lemma serve_settings_rate: "serve_settings env d p req c = Some (r, c') \<Longrightarrow> sc_rate c' = sc_rate c"
  using handle_post_config_rate [of env "salt d" req c]
  by (auto simp: serve_settings_def split: if_splits)

lemma serve_page_rate: "serve_page env a req c = (r, c', up) \<Longrightarrow> sc_rate c' = sc_rate c"
  by (auto simp: serve_page_def Let_def case_prod_beta split: if_splits)

lemma serve_settings_auth: "req_path req = ''/auth'' \<Longrightarrow> serve_settings env d p req c = None"
  by (simp add: serve_settings_def)

definition rate_after_guess :: "draws \<Rightarrow> 'ip \<Rightarrow> 'ip attempts \<Rightarrow> 'ip attempts" where
  "rate_after_guess d ip m = snd (lockout_remaining (now_retry d) ip
     (record_failure (now_finish d) ip (snd (lockout_remaining (now_check d) ip m))))"

lemma serve_auth_rate:
  assumes "serve_auth env d ip req c = (ro, c')"
  shows "sc_rate c' = (if failed_guess env d ip req c then rate_after_guess d ip (sc_rate c)
     else if req_method req = POST \<and> req_path req = ''/auth'' \<and> sc_hash c \<noteq> None
     then snd (lockout_remaining (now_check d) ip (sc_rate c)) else sc_rate c)"
proof (cases "req_method req = POST \<and> req_path req = ''/auth'' \<and> sc_hash c \<noteq> None")
  case False
  have "c' = c" using assms
  proof (cases rule: serve_authE)
    case (Reject x)
    then show ?thesis using False by (simp add: auth_begin_def)
  next
    case (Finish h c1 x)
    then show ?thesis using False by (simp add: auth_begin_def)
  qed
  moreover have "\<not> failed_guess env d ip req c"
    using False by (auto simp: failed_guess_def split: option.splits)
  ultimately show ?thesis using False by (simp only: if_False if_cancel)
next
  case True
  then obtain h where h: "sc_hash c = Some h" by blast
  let ?m = "snd (lockout_remaining (now_check d) ip (sc_rate c))"
  show ?thesis using assms
  proof (cases rule: serve_authE)
    case Skip
    then show ?thesis using assms True h
      by (auto simp: serve_auth_def auth_begin_def Let_def case_prod_beta split: option.splits)
  next
    case (Reject x)
    have "fst (lockout_remaining (now_check d) ip (sc_rate c)) \<noteq> None"
      using Reject(4) h by (auto simp: auth_begin_def Let_def case_prod_beta split: option.splits)
    then have "\<not> failed_guess env d ip req c" by (auto simp: failed_guess_def split: option.splits)
    moreover have "sc_rate c' = ?m" using auth_begin_frame [OF Reject(4)] h by simp
    ultimately show ?thesis using True by simp
  next
    case (Finish h' c1 x)
    have h': "h' = h" and free: "fst (lockout_remaining (now_check d) ip (sc_rate c)) = None"
      using auth_begin_proceed [OF Finish(4)] h by auto
    have c1: "sc_rate c1 = ?m" using auth_begin_frame [OF Finish(4)] h by simp
    show ?thesis using Finish(5) True h h' free c1
      by (auto simp: auth_finish_def failed_guess_def rate_after_guess_def Let_def case_prod_beta
          split: sum.splits if_splits)
  qed
qed

lemma serve_rate:
  assumes "serve env d ip req c = (r, c', up)"
  shows "sc_rate c' = (if failed_guess env d ip req c then rate_after_guess d ip (sc_rate c)
     else if req_method req = POST \<and> req_path req = ''/auth'' \<and> sc_hash c \<noteq> None
     then snd (lockout_remaining (now_check d) ip (sc_rate c)) else sc_rate c)"
proof -
  obtain p c1 where a1: "is_authed env (now_preauth d) req c = (p, c1)" by fastforce
  have c1: "c1 = snd (is_authed env (now_preauth d) req c)" using a1 by simp
  have fg: "failed_guess env d ip req c1 = failed_guess env d ip req c"
    by (cases "sc_hash c") (simp_all add: failed_guess_def c1)
  show ?thesis
  proof (cases "serve_settings env d p req c1")
    case (Some q)
    obtain r0 c0 where q: "q = (r0, c0)" by fastforce
    have "c' = c0" using assms a1 Some q by (simp add: serve_def)
    then have "sc_rate c' = sc_rate c1" using serve_settings_rate [of env d p req c1 r0 c0] Some q by simp
    then have "sc_rate c' = sc_rate c" by (simp add: c1)
    moreover have "req_path req \<noteq> ''/auth''" using serve_settings_auth [of req env d p c1] Some by auto
    ultimately show ?thesis by (simp add: failed_guess_def)
  next
    case None
    obtain ro c2 where au: "serve_auth env d ip req c1 = (ro, c2)" by fastforce
    have "sc_rate c' = sc_rate c2"
    proof (cases ro)
      case (Some r0)
      then show ?thesis using assms a1 None au by (simp add: serve_def)
    next
      case ro: None
      obtain b c3 where a2: "is_authed env (now_auth d) req c2 = (b, c3)" by fastforce
      have "sc_rate c3 = sc_rate c2" using is_authed_frame(2) [of env "now_auth d" req c2] a2 by simp
      moreover have "sc_rate c' = sc_rate c3"
        using assms a1 None au ro a2 serve_page_rate [of env b req c3]
        by (auto simp: serve_def split: if_splits)
      ultimately show ?thesis by simp
    qed
    moreover have "sc_rate c1 = sc_rate c" "sc_hash c1 = sc_hash c" by (simp_all add: c1)
    ultimately show ?thesis using serve_auth_rate [OF au] by (simp only: fg)
  qed
qed

section \<open>The limiter's list is the log\<close>

definition logged :: "'ip \<Rightarrow> ('ip \<times> nanos) list \<Rightarrow> nanos list" where
  "logged ip gl = map snd (filter (\<lambda>(a, _). a = ip) gl)"

lemma logged_append [simp]: "logged ip (xs @ ys) = logged ip xs @ logged ip ys"
  by (simp add: logged_def)

lemma logged_one [simp]: "logged ip [(a, t)] = (if a = ip then [t] else [])" "logged ip [] = []"
  by (simp_all add: logged_def)

definition rate_inv :: "nanos \<Rightarrow> 'ip attempts \<Rightarrow> ('ip \<times> nanos) list \<Rightarrow> bool" where
  "rate_inv now m gl \<longleftrightarrow> (\<forall>ip. rl_ok now (failures m ip)
     \<and> retain_recent now (logged ip gl) = retain_recent now (failures m ip))"

lemma retain_append: "retain_recent n (xs @ ys) = retain_recent n xs @ retain_recent n ys"
  by (simp add: retain_recent_def)

lemma retain_later:
  "retain_recent a xs = retain_recent a ys \<Longrightarrow> a \<le> b \<Longrightarrow> retain_recent b xs = retain_recent b ys"
  by (metis retain_retain)

lemma rate_inv_later: "rate_inv now m gl \<Longrightarrow> now \<le> later \<Longrightarrow> rate_inv later m gl"
  unfolding rate_inv_def using rl_ok_later retain_later by blast

lemma rate_inv_check:
  assumes "rate_inv now m gl" "now \<le> t"
  shows "rate_inv t (snd (lockout_remaining t ip m)) gl"
  unfolding rate_inv_def
proof (intro allI)
  fix a
  have i: "rate_inv t m gl" by (rule rate_inv_later [OF assms])
  show "rl_ok t (failures (snd (lockout_remaining t ip m)) a)
     \<and> retain_recent t (logged a gl) = retain_recent t (failures (snd (lockout_remaining t ip m)) a)"
    using i by (cases "a = ip") (auto simp: rate_inv_def lockout_remaining_snd rl_ok_retain retain_retain)
qed

lemma rate_inv_guess:
  assumes inv: "rate_inv now m gl" and le: "now \<le> now_check d" "now_check d \<le> now_finish d"
      "now_finish d \<le> now_retry d"
    and free: "fst (lockout_remaining (now_check d) ip m) = None"
  shows "rate_inv (now_retry d) (rate_after_guess d ip m) (gl @ [(ip, now_finish d)])"
  unfolding rate_after_guess_def
proof (rule rate_inv_check [OF _ le(3)])
  let ?m = "snd (lockout_remaining (now_check d) ip m)" and ?t = "now_finish d"
  have i: "rate_inv ?t ?m gl" by (rule rate_inv_later [OF rate_inv_check [OF inv le(1)] le(2)])
  show "rate_inv ?t (record_failure ?t ip ?m) (gl @ [(ip, ?t)])"
    unfolding rate_inv_def
  proof (intro allI)
    fix a
    show "rl_ok ?t (failures (record_failure ?t ip ?m) a)
      \<and> retain_recent ?t (logged a (gl @ [(ip, ?t)]))
          = retain_recent ?t (failures (record_failure ?t ip ?m) a)"
    proof (cases "a = ip")
      case False
      then show ?thesis using i by (auto simp: rate_inv_def record_failure_other)
    next
      case True
      have "rl_ok now (failures m ip)" using inv by (simp add: rate_inv_def)
      moreover have "\<not> (5 \<le> length (retain_recent (now_check d) (failures m ip))
          \<and> now_check d - last (retain_recent (now_check d) (failures m ip)) < LOCKOUT_DURATION)"
        using free by (auto simp: lockout_remaining_fst Let_def split: if_splits)
      ultimately have "rl_ok ?t (retain_recent ?t (retain_recent (now_check d) (failures m ip)) @ [?t])"
        using rl_ok_record le by blast
      moreover have "retain_recent ?t (logged ip gl) = retain_recent ?t (failures ?m ip)"
        using i by (simp add: rate_inv_def)
      ultimately show ?thesis using True
        by (simp add: record_failure_self lockout_remaining_snd retain_append retain_retain)
    qed
  qed
qed

lemma rate_inv_serve:
  assumes inv: "rate_inv now (sc_rate c) gl" and clk: "clock_ok now d"
    and s: "serve env d ip req c = (r, c', up)"
  shows "rate_inv (now_auth d) (sc_rate c')
           (gl @ (if failed_guess env d ip req c then [(ip, now_finish d)] else []))"
proof (cases "failed_guess env d ip req c")
  case True
  then have "fst (lockout_remaining (now_check d) ip (sc_rate c)) = None"
    by (auto simp: failed_guess_def split: option.splits)
  then have "rate_inv (now_retry d) (rate_after_guess d ip (sc_rate c)) (gl @ [(ip, now_finish d)])"
    using clk by (intro rate_inv_guess [OF inv]) (simp_all add: clock_ok_def)
  then show ?thesis using True clk serve_rate [OF s] by (simp add: clock_ok_def rate_inv_later)
next
  case False
  have "rate_inv (now_auth d) (sc_rate c) gl"
    using clk by (intro rate_inv_later [OF inv]) (simp add: clock_ok_def)
  moreover have "rate_inv (now_auth d) (snd (lockout_remaining (now_check d) ip (sc_rate c))) gl"
    using clk by (intro rate_inv_later [OF rate_inv_check [OF inv, of "now_check d"]])
      (simp_all add: clock_ok_def)
  ultimately show ?thesis using False serve_rate [OF s] by simp
qed

lemma rate_inv_run:
  assumes "rate_inv now (sc_rate c) gl" "clocks_ok now vs end_time"
  shows "rate_inv end_time (sc_rate (serve_run env vs c)) (gl @ guess_log env vs c)"
  using assms
proof (induction vs arbitrary: now c gl)
  case Nil
  then show ?case by (simp add: rate_inv_later)
next
  case (Cons v vs)
  obtain d ip req where v: "v = (d, ip, req)" by (cases v) auto
  obtain r c' up where s: "serve env d ip req c = (r, c', up)" by (cases "serve env d ip req c") auto
  have "rate_inv (now_auth d) (sc_rate c')
           (gl @ (if failed_guess env d ip req c then [(ip, now_finish d)] else []))"
    by (rule rate_inv_serve [OF Cons.prems(1) _ s]) (use Cons.prems(2) v in simp)
  from Cons.IH [OF this] show ?case using Cons.prems v s by simp
qed

lemma rate_inv_new: "rate_inv now rl_new []"
  by (simp add: rate_inv_def failures_def rl_new_def rl_ok_Nil)

lemma guesses_bounded:
  assumes "sc_rate c = rl_new" "clocks_ok t0 vs now"
  shows "length (retain_recent now (logged ip (guess_log env vs c))) \<le> 6"
proof -
  have "rate_inv now (sc_rate (serve_run env vs c)) ([] @ guess_log env vs c)"
    by (rule rate_inv_run [OF _ assms(2)]) (simp add: assms(1) rate_inv_new)
  then have "rl_ok now (failures (sc_rate (serve_run env vs c)) ip)"
    "retain_recent now (logged ip (guess_log env vs c))
       = retain_recent now (failures (sc_rate (serve_run env vs c)) ip)"
    by (simp_all add: rate_inv_def)
  then show ?thesis using retain_length le_trans by (metis rl_ok_def)
qed

end
