(* ===== verification/ServerLoop.thy ===== *)
theory ServerLoop
  imports Prelude
begin

text \<open>
  The accept loop and the shutdown of \<open>crates/rylus-server/src/web.rs\<close> (\<open>run_server\<close>) as a state machine:
  the loop's program counter, the start-up message, the permits of \<open>notify_shutdown\<close> and of the
  WebSocket semaphore, the HTTP connections and the number of clients.  A reader that acquires a
  semaphore permit drops it again, so permits never run out; \<open>notify_disconnect\<close> stores no permit and
  only wakes a loop that already waits.
\<close>

section \<open>State\<close>

datatype startup_message = StartupStart | StartupError

text \<open>\<open>SvHandshake\<close>: awaiting \<open>acceptor.accept(tcp)\<close>.  \<open>SvCheck\<close>, \<open>SvArm\<close>, \<open>SvWait\<close>: the shutdown loop before the
  count is read, before the waiting future exists, and waiting; \<open>SvDrop\<close>: returned, the runtime and its
  tasks are still to be dropped.\<close>

datatype server_pc = SvBind | SvAccept | SvHandshake | SvCheck | SvArm | SvWait | SvDrop | SvEnded

record server =
  sv_pc :: server_pc
  sv_tls :: bool
  sv_startup :: "startup_message option"
  sv_notify :: bool
  sv_conns :: nat
  sv_clients :: nat
  sv_permits :: nat

definition server_init :: "bool \<Rightarrow> bool \<Rightarrow> server" where
  "server_init tls notified = \<lparr>sv_pc = SvBind, sv_tls = tls, sv_startup = None, sv_notify = notified,
     sv_conns = 0, sv_clients = 0, sv_permits = 0\<rparr>"

section \<open>The accept loop\<close>

definition server_bind :: "bool \<Rightarrow> server \<Rightarrow> server" where
  "server_bind ok s =
     (if ok then s\<lparr>sv_startup := Some StartupStart, sv_pc := SvAccept\<rparr>
      else s\<lparr>sv_startup := Some StartupError, sv_pc := SvEnded\<rparr>)"

definition server_spawn :: "server \<Rightarrow> server" where
  "server_spawn s = s\<lparr>sv_conns := sv_conns s + 1, sv_pc := SvAccept\<rparr>"

text \<open>An accepted connection: with TLS the loop itself awaits the handshake.\<close>

definition server_accept :: "bool \<Rightarrow> server \<Rightarrow> server" where
  "server_accept ok s =
     (if \<not> ok then s else if sv_tls s then s\<lparr>sv_pc := SvHandshake\<rparr> else server_spawn s)"

definition server_handshake :: "bool \<Rightarrow> server \<Rightarrow> server" where
  "server_handshake ok s = (if ok then server_spawn s else s\<lparr>sv_pc := SvAccept\<rparr>)"

text \<open>\<open>notify_shutdown.notified()\<close>: the permit is used up and the open clients get permits to end.\<close>

definition server_shutdown :: "server \<Rightarrow> server" where
  "server_shutdown s = s\<lparr>sv_notify := False, sv_permits := sv_permits s + sv_clients s, sv_pc := SvCheck\<rparr>"

section \<open>The shutdown loop\<close>

definition server_check :: "server \<Rightarrow> server" where
  "server_check s = (if sv_clients s = 0 then s\<lparr>sv_pc := SvDrop\<rparr> else s\<lparr>sv_pc := SvArm\<rparr>)"

definition server_drop :: "server \<Rightarrow> server" where
  "server_drop s = s\<lparr>sv_pc := SvEnded, sv_conns := 0\<rparr>"

definition server_timer :: "server \<Rightarrow> server" where
  "server_timer s = s\<lparr>sv_permits := sv_permits s + sv_clients s, sv_pc := SvCheck\<rparr>"

text \<open>A client that has ended: the count, then \<open>notify_waiters\<close>.\<close>

definition client_ended :: "server \<Rightarrow> server" where
  "client_ended s = s\<lparr>sv_clients := sv_clients s - 1,
     sv_pc := (if sv_pc s = SvWait then SvCheck else sv_pc s)\<rparr>"

section \<open>The interleaving\<close>

text \<open>The steps of the loop itself, and those of its surroundings: \<open>stop\<close>, the HTTP connections and the
  clients.\<close>

inductive server_own :: "server \<Rightarrow> server \<Rightarrow> bool" where
  Bind: "sv_pc s = SvBind \<Longrightarrow> server_own s (server_bind ok s)"
| Accept: "sv_pc s = SvAccept \<Longrightarrow> server_own s (server_accept ok s)"
| Handshake: "sv_pc s = SvHandshake \<Longrightarrow> server_own s (server_handshake ok s)"
| Shutdown: "sv_pc s = SvAccept \<Longrightarrow> sv_notify s \<Longrightarrow> server_own s (server_shutdown s)"
| Check: "sv_pc s = SvCheck \<Longrightarrow> server_own s (server_check s)"
| Arm: "sv_pc s = SvArm \<Longrightarrow> server_own s (s\<lparr>sv_pc := SvWait\<rparr>)"
| Timer: "sv_pc s = SvWait \<Longrightarrow> server_own s (server_timer s)"
| Drop: "sv_pc s = SvDrop \<Longrightarrow> server_own s (server_drop s)"

inductive server_env :: "server \<Rightarrow> server \<Rightarrow> bool" where
  Notify: "server_env s (s\<lparr>sv_notify := True\<rparr>)"
| ConnEnd: "0 < sv_conns s \<Longrightarrow> server_env s (s\<lparr>sv_conns := sv_conns s - 1\<rparr>)"
| Upgrade: "0 < sv_conns s \<Longrightarrow> server_env s (s\<lparr>sv_clients := sv_clients s + 1\<rparr>)"
| ClientEnd: "0 < sv_clients s \<Longrightarrow> server_env s (client_ended s)"

inductive server_reach :: "server \<Rightarrow> bool" where
  Init: "server_reach (server_init tls notified)"
| Own: "server_reach s \<Longrightarrow> server_own s s' \<Longrightarrow> server_reach s'"
| Env: "server_reach s \<Longrightarrow> server_env s s' \<Longrightarrow> server_reach s'"

inductive_simps server_own_handshake: "server_own (s\<lparr>sv_pc := SvHandshake\<rparr>) s'"

lemmas server_defs = server_bind_def server_spawn_def server_accept_def server_handshake_def
  server_shutdown_def server_check_def server_timer_def server_drop_def client_ended_def

section \<open>Invariant\<close>

text \<open>The start-up message is sent once, before anything is accepted; an ended server has no connections, and
  one that could not bind never had a client; without TLS there is no handshake.\<close>

definition server_ok :: "server \<Rightarrow> bool" where
  "server_ok s \<longleftrightarrow> (sv_startup s = None \<longleftrightarrow> sv_pc s = SvBind)
     \<and> (sv_startup s = Some StartupError \<longrightarrow> sv_pc s = SvEnded)
     \<and> (sv_pc s = SvBind \<or> sv_pc s = SvEnded \<longrightarrow> sv_conns s = 0)
     \<and> (sv_startup s \<noteq> Some StartupStart \<longrightarrow> sv_clients s = 0)
     \<and> (sv_pc s = SvHandshake \<longrightarrow> sv_tls s)"

lemma server_ok_own: "server_own s s' \<Longrightarrow> server_ok s \<Longrightarrow> server_ok s'"
  by (induction rule: server_own.induct) (auto simp: server_ok_def server_defs)

lemma server_ok_env: "server_env s s' \<Longrightarrow> server_ok s \<Longrightarrow> server_ok s'"
  by (induction rule: server_env.induct)
    (auto simp: server_ok_def server_defs, (metis startup_message.exhaust)+)

lemma server_ok_reach: "server_reach s \<Longrightarrow> server_ok s"
proof (induction rule: server_reach.induct)
  case (Init tls notified)
  show ?case by (simp add: server_ok_def server_init_def)
qed (simp_all add: server_ok_own server_ok_env)

section \<open>Shutdown\<close>

definition draining :: "server \<Rightarrow> bool" where
  "draining s \<longleftrightarrow> sv_pc s \<in> {SvCheck, SvArm, SvWait, SvDrop}"

text \<open>The loop's own steps left once no client is open.\<close>

definition drain_steps :: "server \<Rightarrow> nat" where
  "drain_steps s = (case sv_pc s of SvDrop \<Rightarrow> 1 | SvCheck \<Rightarrow> 2 | SvWait \<Rightarrow> 3 | SvArm \<Rightarrow> 4 | _ \<Rightarrow> 0)"

lemma drain_enabled: "draining s \<Longrightarrow> \<exists>s'. server_own s s'"
  by (auto simp: draining_def intro: server_own.intros)

lemma drain_own:
  assumes "server_own s s'" "draining s"
  shows "sv_clients s' = sv_clients s \<and> (draining s' \<or> sv_pc s' = SvEnded)"
    "sv_clients s = 0 \<longrightarrow> drain_steps s' < drain_steps s"
    "sv_permits s \<le> sv_permits s'"
    "sv_pc s = SvWait \<longrightarrow> sv_permits s' = sv_permits s + sv_clients s"
  using assms
  by (induction rule: server_own.induct) (auto simp: draining_def drain_steps_def server_defs)

text \<open>With no client left, whatever the loop does, it has returned after at most four steps of its own.\<close>

lemma drain_run:
  assumes "draining (f 0)" "sv_clients (f 0) = 0" "\<And>i. i < n \<Longrightarrow> server_own (f i) (f (Suc i))"
  shows "n \<le> 4 \<and> (draining (f n) \<or> sv_pc (f n) = SvEnded)"
proof -
  have run: "sv_clients (f k) = 0 \<and> (draining (f k) \<or> sv_pc (f k) = SvEnded)
      \<and> drain_steps (f k) + k \<le> drain_steps (f 0)" if "k \<le> n" for k
    using that
  proof (induction k)
    case 0
    show ?case using assms(1,2) by simp
  next
    case (Suc k)
    then have own: "server_own (f k) (f (Suc k))" using assms(3) by simp
    have ih: "sv_clients (f k) = 0" "draining (f k) \<or> sv_pc (f k) = SvEnded"
      "drain_steps (f k) + k \<le> drain_steps (f 0)" using Suc by simp_all
    have "sv_pc (f k) \<noteq> SvEnded" using own by (cases rule: server_own.cases) auto
    then have d: "draining (f k)" using ih(2) by blast
    from drain_own [OF own d] ih(1,3) show ?case by auto
  qed
  have "drain_steps (f 0) \<le> 4" by (simp add: drain_steps_def split: server_pc.split)
  then show ?thesis using run [of n] by auto
qed

text \<open>While clients are open, the timer gives every reader a permit, also those that came late.\<close>

lemma timer_permits: "sv_pc s = SvWait \<Longrightarrow> 0 < sv_clients s \<Longrightarrow> 0 < sv_permits (server_timer s)"
  by (simp add: server_timer_def)

section \<open>A silent peer\<close>

text \<open>During a TLS handshake nothing but the peer moves the loop: no connection is accepted and a shutdown
  is not noticed.\<close>

lemma handshake_blocks:
  assumes "sv_pc s = SvHandshake" "server_own s s'"
  obtains ok where "s' = server_handshake ok s"
  using assms(2,1) by (cases rule: server_own.cases) auto

lemma handshake_env:
  assumes "sv_pc s = SvHandshake" "server_env s s'"
  shows "sv_pc s' = SvHandshake"
  using assms(2,1) by (cases rule: server_env.cases) (auto simp: client_ended_def)

lemma handshake_reach:
  "server_reach (\<lparr>sv_pc = SvHandshake, sv_tls = True, sv_startup = Some StartupStart, sv_notify = True,
     sv_conns = 0, sv_clients = 0, sv_permits = 0\<rparr>)"
proof -
  let ?s0 = "server_init True False"
  let ?s1 = "server_bind True ?s0"
  let ?s2 = "server_accept True ?s1"
  have "server_own ?s0 ?s1" by (rule server_own.Bind) (simp add: server_init_def)
  then have "server_reach ?s1" by (rule server_reach.Own [OF server_reach.Init])
  moreover have "server_own ?s1 ?s2" by (rule server_own.Accept) (simp add: server_bind_def)
  ultimately have "server_reach ?s2" by (rule server_reach.Own)
  then have "server_reach (?s2\<lparr>sv_notify := True\<rparr>)" by (rule server_reach.Env) (rule server_env.Notify)
  then show ?thesis by (simp add: server_init_def server_bind_def server_accept_def)
qed

end
