(* ===== verification/TlsSetup.thy ===== *)
theory TlsSetup
  imports Prelude
begin

text \<open>
  The certificate files of \<open>crates/rylus-server/src/tls.rs\<close> (\<open>load_or_generate_cert\<close>) over a file system
  with permission bits.  Key generation and the construction of the \<open>rustls\<close> configuration are
  parameters; which system calls fail for other reasons than a missing path is the record \<open>tls_io\<close>.
\<close>

section \<open>Files\<close>

text \<open>A path is absolute or relative, with its components; the empty relative path is \<open>Path::new(\"\")\<close>.\<close>

datatype path = Path (path_absolute: bool) (path_names: "string list")

definition path_parent :: "path \<Rightarrow> path option" where
  "path_parent p = (if path_names p = [] then None
                    else Some (Path (path_absolute p) (butlast (path_names p))))"

definition path_empty :: "path \<Rightarrow> bool" where
  "path_empty p \<longleftrightarrow> \<not> path_absolute p \<and> path_names p = []"

record disk =
  dk_files :: "path \<Rightarrow> (byte list \<times> nat) option"
  dk_dirs :: "path \<Rightarrow> nat option"

record tls_io =
  ti_read :: "path \<Rightarrow> bool"
  ti_mkdir :: bool
  ti_chmod :: bool
  ti_write :: "path \<Rightarrow> bool"

definition disk_exists :: "disk \<Rightarrow> path \<Rightarrow> bool" where
  "disk_exists d p \<longleftrightarrow> \<not> path_empty p \<and> (dk_files d p \<noteq> None \<or> dk_dirs d p \<noteq> None)"

definition disk_read :: "tls_io \<Rightarrow> disk \<Rightarrow> path \<Rightarrow> string + byte list" where
  "disk_read io d p = (case dk_files d p of
      Some (b, _) \<Rightarrow> if ti_read io p then Inr b else Inl ''read''
    | None \<Rightarrow> Inl ''read'')"

text \<open>\<open>create_dir_all\<close>: nothing to do for the empty path; otherwise the path and its ancestors exist
  afterwards, new ones with the default bits.\<close>

definition ancestor :: "path \<Rightarrow> path \<Rightarrow> bool" where
  "ancestor q p \<longleftrightarrow> path_absolute q = path_absolute p
     \<and> take (length (path_names q)) (path_names p) = path_names q \<and> \<not> path_empty q"

definition create_dir_all :: "tls_io \<Rightarrow> path \<Rightarrow> disk \<Rightarrow> string + disk" where
  "create_dir_all io p d =
     (if path_empty p then Inr d
      else if \<not> ti_mkdir io then Inl ''mkdir''
      else Inr (d\<lparr>dk_dirs := (\<lambda>q. if ancestor q p \<and> dk_dirs d q = None then Some 493 else dk_dirs d q)\<rparr>))"

text \<open>\<open>set_permissions\<close> fails on a path that does not exist, the empty one among them.\<close>

definition set_permissions :: "tls_io \<Rightarrow> path \<Rightarrow> nat \<Rightarrow> disk \<Rightarrow> string + disk" where
  "set_permissions io p mode d =
     (if \<not> disk_exists d p \<or> \<not> ti_chmod io then Inl ''chmod''
      else case dk_dirs d p of
             Some _ \<Rightarrow> Inr (d\<lparr>dk_dirs := (dk_dirs d)(p \<mapsto> mode)\<rparr>)
           | None \<Rightarrow> Inr (d\<lparr>dk_files := (dk_files d)(p \<mapsto> (case dk_files d p of Some (b, _) \<Rightarrow> (b, mode)
                                                              | None \<Rightarrow> ([], mode)))\<rparr>))"

text \<open>Opening for writing with truncation: \<open>mode\<close> is only used for a file that does not exist yet.\<close>

definition write_file :: "tls_io \<Rightarrow> nat \<Rightarrow> path \<Rightarrow> byte list \<Rightarrow> disk \<Rightarrow> string + disk" where
  "write_file io mode p b d =
     (if \<not> ti_write io p then Inl ''write''
      else Inr (d\<lparr>dk_files := (dk_files d)(p \<mapsto>
             (b, case dk_files d p of Some (_, m) \<Rightarrow> m | None \<Rightarrow> mode))\<rparr>))"

section \<open>Loading and generating\<close>

definition tls_generate ::
  "tls_io \<Rightarrow> string + byte list \<times> byte list \<Rightarrow> path \<Rightarrow> path \<Rightarrow> disk
     \<Rightarrow> (string + byte list \<times> byte list) \<times> disk" where
  "tls_generate io generated cert_path key_path d = (case generated of
      Inl e \<Rightarrow> (Inl e, d)
    | Inr (cert, key) \<Rightarrow>
        (case (case path_parent cert_path of
                 None \<Rightarrow> Inr d
               | Some parent \<Rightarrow>
                   (case create_dir_all io parent d of
                      Inl e \<Rightarrow> Inl (e, d)
                    | Inr d \<Rightarrow> (case set_permissions io parent 448 d of
                          Inl e \<Rightarrow> Inl (e, d) | Inr d \<Rightarrow> Inr d))) of
           Inl (e, d) \<Rightarrow> (Inl e, d)
         | Inr d \<Rightarrow>
             (case write_file io 420 cert_path cert d of
                Inl e \<Rightarrow> (Inl e, d)
              | Inr d \<Rightarrow> (case write_file io 384 key_path key d of
                    Inl e \<Rightarrow> (Inl e, d)
                  | Inr d \<Rightarrow> (Inr (cert, key), d)))))"

definition load_or_generate_cert ::
  "tls_io \<Rightarrow> string + byte list \<times> byte list \<Rightarrow> (byte list \<Rightarrow> byte list \<Rightarrow> string + 'cfg)
     \<Rightarrow> path \<Rightarrow> path \<Rightarrow> disk \<Rightarrow> (string + 'cfg) \<times> disk" where
  "load_or_generate_cert io generated build_server_config cert_path key_path d =
     (let (pair, d) =
        (if disk_exists d cert_path \<and> disk_exists d key_path
         then (case disk_read io d cert_path of
                 Inl e \<Rightarrow> (Inl e, d)
               | Inr cert \<Rightarrow> (case disk_read io d key_path of
                     Inl e \<Rightarrow> (Inl e, d) | Inr key \<Rightarrow> (Inr (cert, key), d)))
         else tls_generate io generated cert_path key_path d)
      in case pair of
           Inl e \<Rightarrow> (Inl e, d)
         | Inr (cert, key) \<Rightarrow> (build_server_config cert key, d))"

section \<open>Facts\<close>

lemma write_file_at:
  "write_file io mode p b d = Inr d' \<Longrightarrow> dk_dirs d' = dk_dirs d
     \<and> dk_files d' p = Some (b, case dk_files d p of Some (_, m) \<Rightarrow> m | None \<Rightarrow> mode)
     \<and> (\<forall>q. q \<noteq> p \<longrightarrow> dk_files d' q = dk_files d q)"
  by (auto simp: write_file_def split: if_splits)

lemma create_dir_all_dir:
  "create_dir_all io p d = Inr d' \<Longrightarrow> dk_files d' = dk_files d \<and> (path_empty p \<or> dk_dirs d' p \<noteq> None)"
  by (auto simp: create_dir_all_def ancestor_def split: if_splits)

lemma set_permissions_dir:
  "set_permissions io p mode d = Inr d' \<Longrightarrow> dk_dirs d p \<noteq> None \<Longrightarrow>
     dk_files d' = dk_files d \<and> dk_dirs d' = (dk_dirs d)(p \<mapsto> mode)"
  by (auto simp: set_permissions_def split: if_splits option.splits)

text \<open>A successful generation: both files hold the new pair, the directory is private, and each file keeps
  the permissions it had if it existed.\<close>

lemma tls_generate_ok:
  assumes "tls_generate io (Inr (cert, key)) cert_path key_path d = (Inr r, d')"
    and "cert_path \<noteq> key_path" "path_parent cert_path = Some parent"
  shows "r = (cert, key) \<and> dk_dirs d' parent = Some 448
     \<and> dk_files d' cert_path = Some (cert, case dk_files d cert_path of Some (_, m) \<Rightarrow> m | None \<Rightarrow> 420)
     \<and> dk_files d' key_path = Some (key, case dk_files d key_path of Some (_, m) \<Rightarrow> m | None \<Rightarrow> 384)"
proof -
  obtain d1 where d1: "create_dir_all io parent d = Inr d1"
    using assms(1,3) by (auto simp: tls_generate_def split: sum.splits)
  obtain d2 where d2: "set_permissions io parent 448 d1 = Inr d2"
    using assms(1,3) d1 by (auto simp: tls_generate_def split: sum.splits)
  obtain d3 where d3: "write_file io 420 cert_path cert d2 = Inr d3"
    using assms(1,3) d1 d2 by (auto simp: tls_generate_def split: sum.splits)
  have d4: "write_file io 384 key_path key d3 = Inr d'" and r: "r = (cert, key)"
    using assms(1,3) d1 d2 d3 by (auto simp: tls_generate_def split: sum.splits)
  have "\<not> path_empty parent" using d2 by (auto simp: set_permissions_def disk_exists_def split: if_splits)
  then have f1: "dk_files d1 = dk_files d" "dk_dirs d1 parent \<noteq> None"
    using create_dir_all_dir [OF d1] by auto
  have f2: "dk_files d2 = dk_files d" "dk_dirs d2 parent = Some 448"
    using set_permissions_dir [OF d2 f1(2)] f1(1) by simp_all
  note f3 = write_file_at [OF d3] and f4 = write_file_at [OF d4]
  show ?thesis using f2 f3 f4 r assms(2) by simp
qed

text \<open>An existing pair is loaded and nothing is changed.\<close>

lemma load_existing:
  assumes "dk_files d cert_path = Some (cert, m)" "dk_files d key_path = Some (key, m')"
    and "ti_read io cert_path" "ti_read io key_path" "\<not> path_empty cert_path" "\<not> path_empty key_path"
  shows "load_or_generate_cert io g build cert_path key_path d = (build cert key, d)"
  using assms by (simp add: load_or_generate_cert_def disk_exists_def disk_read_def)

lemma load_generated:
  assumes "\<not> (disk_exists d cert_path \<and> disk_exists d key_path)"
    and "load_or_generate_cert io (Inr (cert, key)) build cert_path key_path d = (Inr cfg, d')"
  shows "tls_generate io (Inr (cert, key)) cert_path key_path d = (Inr (cert, key), d')
     \<and> build cert key = Inr cfg"
proof -
  obtain r d1 where t: "tls_generate io (Inr (cert, key)) cert_path key_path d = (r, d1)" by fastforce
  then have "r = Inr (cert, key) \<or> (\<exists>e. r = Inl e)"
    by (auto simp: tls_generate_def split: sum.splits option.splits)
  then show ?thesis using assms t by (auto simp: load_or_generate_cert_def simp del: de_Morgan_conj)
qed

text \<open>A certificate named without a directory cannot be generated: the parent is the empty path, which
  cannot be given permissions.\<close>

lemma bare_name_fails:
  assumes "\<not> disk_exists d (Path False [n])"
  shows "\<exists>e. fst (load_or_generate_cert io g build (Path False [n]) key_path d) = Inl e"
  using assms
  by (cases g) (auto simp: load_or_generate_cert_def tls_generate_def path_parent_def create_dir_all_def
      path_empty_def set_permissions_def disk_exists_def split: prod.splits)

section \<open>The certificate\<close>

text \<open>What \<open>generate_self_signed_cert\<close> asks \<open>rcgen\<close> for; times are seconds.\<close>

record cert_request =
  cr_names :: "string list"
  cr_addresses :: "string list"
  cr_common_name :: string
  cr_not_before :: int
  cr_not_after :: int

definition days :: "int \<Rightarrow> int" where "days n = n * 86400"

definition cert_request_of :: "string option \<Rightarrow> string list option \<Rightarrow> int \<Rightarrow> cert_request" where
  "cert_request_of hostname ifaces now =
     \<lparr>cr_names = ''localhost'' # (case hostname of Some h \<Rightarrow> [h @ ''.local'', h] | None \<Rightarrow> []),
      cr_addresses = (case ifaces of Some ips \<Rightarrow> ips | None \<Rightarrow> []), cr_common_name = ''Rylus'',
      cr_not_before = now - days 1, cr_not_after = now + days 730\<rparr>"

text \<open>\<open>create\<close> stands for \<open>rcgen\<close>: the key pair, the parameters and the signature.\<close>

definition generate_self_signed_cert ::
  "(cert_request \<Rightarrow> string + byte list \<times> byte list) \<Rightarrow> string option \<Rightarrow> string list option \<Rightarrow> int
     \<Rightarrow> string + byte list \<times> byte list" where
  "generate_self_signed_cert create hostname ifaces now = create (cert_request_of hostname ifaces now)"

lemma cert_validity:
  "cr_not_after (cert_request_of h i now) - cr_not_before (cert_request_of h i now) \<le> days 825"
  by (simp add: cert_request_of_def days_def)

end
