(* ===== verification/Mdns.thy ===== *)
theory Mdns
  imports RustString SessionStore
begin

text \<open>
  The service announcement of \<open>crates/rylus-server/src/mdns.rs\<close>: the publisher with the calls it makes
  to \<open>mdns-sd\<close>, and the process-wide instance suffix with the compare-and-swap that settles it among
  threads.  What the library answers is the record \<open>mdns_env\<close>.
\<close>

section \<open>The suffix\<close>

text \<open>\<open>format_suffix\<close>: four base-36 digits, the lowest first.\<close>

fun suffix_digits :: "nat \<Rightarrow> u32 \<Rightarrow> string" where
  "suffix_digits 0 n = []"
| "suffix_digits (Suc k) n =
     (let d = n mod 36;
          c = (if d < 10 then char_of (48 + d) else char_of (97 + (d - 10)))
      in c # suffix_digits k (n div 36))"

definition format_suffix :: "u32 \<Rightarrow> string" where
  "format_suffix mixed = suffix_digits 4 mixed"

text \<open>\<open>pid.wrapping_mul(0x9E37_79B1).wrapping_add(jitter) | 1\<close>.\<close>

definition mixed_suffix :: "u32 \<Rightarrow> u32 \<Rightarrow> u32" where
  "mixed_suffix pid jitter =
     (let m = ((pid * 2654435761) mod 2 ^ 32 + jitter) mod 2 ^ 32 in m - m mod 2 + 1)"

text \<open>\<open>collision_suffix\<close> in the steps other threads can come between: the load, which may already answer,
  and the exchange with the value mixed in between.\<close>

definition suffix_load :: "u32 \<Rightarrow> string option" where
  "suffix_load cached = (if cached \<noteq> 0 then Some (format_suffix cached) else None)"

definition suffix_exchange :: "u32 \<Rightarrow> u32 \<Rightarrow> string \<times> u32" where
  "suffix_exchange mixed cached =
     (if cached = 0 then (format_suffix mixed, mixed) else (format_suffix cached, cached))"

definition collision_suffix :: "u32 \<Rightarrow> u32 \<Rightarrow> u32 \<Rightarrow> string \<times> u32" where
  "collision_suffix pid jitter cached = (case suffix_load cached of
      Some s \<Rightarrow> (s, cached)
    | None \<Rightarrow> suffix_exchange (mixed_suffix pid jitter) cached)"

section \<open>The publisher\<close>

datatype mdns_call =
    DaemonNew
  | DaemonRegister string string string nat "(string \<times> string) list"
  | DaemonUnregister string
  | DaemonShutdown

record mdns_env =
  me_daemon_new :: "string + unit"
  me_service_info :: "string \<Rightarrow> string \<Rightarrow> string \<Rightarrow> nat \<Rightarrow> string + string"
  me_register :: "string + unit"
  me_hostname :: "string option"

text \<open>\<open>mp_daemon\<close>: a daemon is held; \<open>mp_calls\<close> is what the library was asked, in order.\<close>

record mdns_publisher =
  mp_daemon :: bool
  mp_fullname :: "string option"
  mp_calls :: "mdns_call list"

definition publisher_new :: mdns_publisher where
  "publisher_new = \<lparr>mp_daemon = False, mp_fullname = None, mp_calls = []\<rparr>"

definition is_registered :: "mdns_publisher \<Rightarrow> bool" where
  "is_registered p \<longleftrightarrow> mp_daemon p \<and> mp_fullname p \<noteq> None"

definition mdns_call :: "mdns_call \<Rightarrow> mdns_publisher \<Rightarrow> mdns_publisher" where
  "mdns_call c p = p\<lparr>mp_calls := mp_calls p @ [c]\<rparr>"

text \<open>Both fields are taken before the pattern is matched.\<close>

definition mdns_unregister :: "mdns_publisher \<Rightarrow> mdns_publisher" where
  "mdns_unregister p =
     (let p' = p\<lparr>mp_daemon := False, mp_fullname := None\<rparr>
      in case mp_fullname p of
           Some fullname \<Rightarrow>
             if mp_daemon p then mdns_call DaemonShutdown (mdns_call (DaemonUnregister fullname) p') else p'
         | None \<Rightarrow> p')"

definition SERVICE_TYPE :: string where "SERVICE_TYPE = ''_rylus._tcp.local.''"

definition get_hostname :: "mdns_env \<Rightarrow> string" where
  "get_hostname env = (case me_hostname env of Some h \<Rightarrow> h | None \<Rightarrow> ''unknown'')"

definition instance_name :: "mdns_env \<Rightarrow> string option \<Rightarrow> string \<Rightarrow> string" where
  "instance_name env hostname suffix = (case hostname of
      Some h \<Rightarrow> ''Rylus '' @ h @ '' '' @ suffix
    | None \<Rightarrow> ''Rylus '' @ get_hostname env @ '' '' @ suffix)"

definition mdns_register ::
  "mdns_env \<Rightarrow> string \<Rightarrow> nat \<Rightarrow> string option \<Rightarrow> mdns_publisher \<Rightarrow> (string + unit) \<times> mdns_publisher" where
  "mdns_register env suffix port hostname p =
     (let p = (if is_registered p then mdns_unregister p else p);
          p = mdns_call DaemonNew p
      in case me_daemon_new env of
           Inl e \<Rightarrow> (Inl e, p)
         | Inr _ \<Rightarrow>
             let inst = instance_name env hostname suffix;
                 host_name = get_hostname env @ ''.local.''
             in (case me_service_info env SERVICE_TYPE inst host_name port of
                   Inl e \<Rightarrow> (Inl e, p)
                 | Inr fullname \<Rightarrow>
                     let p = mdns_call (DaemonRegister SERVICE_TYPE inst host_name port
                               [(''version'', ''3'')]) p
                     in (case me_register env of
                           Inl e \<Rightarrow> (Inl e, p)
                         | Inr _ \<Rightarrow> (Inr (), p\<lparr>mp_daemon := True, mp_fullname := Some fullname\<rparr>))))"

section \<open>Facts about the suffix\<close>

lemma suffix_char: "(if d < 10 then char_of (48 + d) else char_of (97 + (d - 10))) = token_char d"
  by (simp add: token_char_def)

lemma suffix_digits_eq:
  "suffix_digits k m = suffix_digits k n \<longleftrightarrow> m mod 36 ^ k = n mod (36 :: nat) ^ k"
proof (induction k arbitrary: m n)
  case 0
  then show ?case by simp
next
  case (Suc k)
  have split: "x mod 36 ^ Suc k = 36 * (x div 36 mod 36 ^ k) + x mod 36" for x :: nat
    by (simp add: mod_mult2_eq)
  have inj: "36 * a + b = 36 * c + d \<longleftrightarrow> a = c \<and> b = d" if "b < 36" "d < 36" for a b c d :: nat
  proof
    assume e: "36 * a + b = 36 * c + d"
    have "a = (36 * a + b) div 36" "c = (36 * c + d) div 36" using that by simp_all
    then have "a = c" using e by simp
    then show "a = c \<and> b = d" using e by simp
  qed simp
  have "suffix_digits (Suc k) m = suffix_digits (Suc k) n
      \<longleftrightarrow> token_char (m mod 36) = token_char (n mod 36) \<and> m div 36 mod 36 ^ k = n div 36 mod 36 ^ k"
    by (simp only: suffix_digits.simps Let_def suffix_char list.inject Suc.IH)
  also have "token_char (m mod 36) = token_char (n mod 36) \<longleftrightarrow> m mod 36 = n mod 36"
    using token_char_inj [of "m mod 36" "n mod 36"] by auto
  finally show ?case
    by (auto simp only: split inj [OF mod_less_divisor mod_less_divisor] zero_less_numeral)
qed

lemma format_suffix_eq: "format_suffix m = format_suffix n \<longleftrightarrow> m mod 1679616 = n mod 1679616"
  by (simp add: format_suffix_def suffix_digits_eq)

lemma length_suffix [simp]: "length (suffix_digits k n) = k"
  by (induction k arbitrary: n) (simp_all add: Let_def)

lemma mixed_nonzero: "0 < mixed_suffix pid jitter"
  by (simp add: mixed_suffix_def Let_def)

lemma mixed_u32: "mixed_suffix pid jitter < 2 ^ 32"
proof -
  define m where "m = ((pid * 2654435761) mod 2 ^ 32 + jitter) mod (2 ^ 32 :: nat)"
  have "m < 2 ^ 32" by (simp add: m_def)
  moreover have "m - m mod 2 + 1 < 2 ^ 32" if "m < (2 ^ 32 :: nat)"
    using that by (simp, presburger)
  ultimately show ?thesis unfolding mixed_suffix_def Let_def m_def [symmetric] by blast
qed

text \<open>Calls of several threads in any interleaving: each load and each exchange is a step, and a step that
  answers adds its answer.\<close>

datatype suffix_step = Load | Exchange u32 u32

fun suffix_step_run :: "suffix_step \<Rightarrow> u32 \<times> string list \<Rightarrow> u32 \<times> string list" where
  "suffix_step_run Load (cached, answers) =
     (cached, answers @ (case suffix_load cached of Some s \<Rightarrow> [s] | None \<Rightarrow> []))"
| "suffix_step_run (Exchange pid jitter) (cached, answers) =
     (let (s, cached) = suffix_exchange (mixed_suffix pid jitter) cached in (cached, answers @ [s]))"

definition agreed :: "u32 \<times> string list \<Rightarrow> bool" where
  "agreed st \<longleftrightarrow> (\<forall>s \<in> set (snd st). s = format_suffix (fst st)) \<and> (fst st = 0 \<longrightarrow> snd st = [])"

lemma agreed_step: "agreed st \<Longrightarrow> agreed (suffix_step_run c st)"
proof (cases c)
  case Load
  then show "agreed st \<Longrightarrow> ?thesis" by (cases st) (auto simp: agreed_def suffix_load_def)
next
  case (Exchange pid jitter)
  then show "agreed st \<Longrightarrow> ?thesis"
    using mixed_nonzero [of pid jitter]
    by (cases st) (auto simp: agreed_def suffix_exchange_def)
qed

lemma agreed_run: "agreed (fold suffix_step_run cs (0, []))"
proof -
  have "agreed (fold suffix_step_run cs st)" if "agreed st" for st
    using that by (induction cs arbitrary: st) (simp_all add: agreed_step)
  then show ?thesis by (simp add: agreed_def)
qed

section \<open>Facts about the publisher\<close>

text \<open>The daemons that were told to shut down, among those the publisher took over.\<close>

definition announced :: "mdns_publisher \<Rightarrow> string list" where
  "announced p = (case mp_fullname p of Some n \<Rightarrow> if mp_daemon p then [n] else [] | None \<Rightarrow> [])"

lemma unregister_idle: "\<not> is_registered p \<Longrightarrow> mp_calls (mdns_unregister p) = mp_calls p"
  by (auto simp: mdns_unregister_def is_registered_def Let_def split: option.split)

lemma unregister_twice: "mdns_unregister (mdns_unregister p) = mdns_unregister p"
  by (auto simp: mdns_unregister_def mdns_call_def Let_def split: option.split)

lemma register_then_unregister:
  assumes "mdns_register env suffix port hostname p = (Inr (), p')"
  obtains name where "me_service_info env SERVICE_TYPE (instance_name env hostname suffix)
      (get_hostname env @ ''.local.'') port = Inr name"
    "is_registered p'" "mp_fullname p' = Some name"
    "mp_calls (mdns_unregister p') = mp_calls p' @ [DaemonUnregister name, DaemonShutdown]"
  using assms that
  by (auto simp: mdns_register_def mdns_unregister_def mdns_call_def is_registered_def Let_def
      split: sum.splits)

lemma register_failed:
  assumes "mdns_register env suffix port hostname p = (Inl e, p')"
  shows "\<not> is_registered p'"
  using assms
  by (auto simp: mdns_register_def mdns_unregister_def mdns_call_def is_registered_def Let_def
      split: sum.splits option.splits if_splits)

end
