(* ===== verification/Ffi.thy ===== *)
theory Ffi
  imports Prelude
begin

text \<open>
  The foreign interface of \<open>crates/rylus-encode/src/lib.rs\<close>: every call into FFmpeg and every store to
  an FFmpeg structure is an event of a trace, answered by an oracle.  A pointer is a natural number,
  0 is null; an allocating call returns a fresh pointer or null.  FFmpeg itself is not modelled:
  \<open>owned\<close> reads off a trace which pointers the program holds, from the documented pairs of
  allocating and releasing functions only.
\<close>

type_synonym ptr = nat

datatype pix_fmt = FmtBGR0 | FmtRGB0 | FmtRGB24 | FmtYUV420P | FmtNV12 | FmtCUDA | FmtVAAPI

datatype ffi_arg = P ptr | I int | S string | F pix_fmt

text \<open>A call by its C name: one that obtains a pointer, one that releases its argument, any other; a
  store to a structure is a call named after its fields.\<close>

datatype ffi_call =
    Obtain string "ffi_arg list"
  | Release string ptr
  | Call string "ffi_arg list"

record ffi =
  ffi_oracle :: "nat \<Rightarrow> ffi_call \<Rightarrow> int"
  ffi_trace :: "(ffi_call \<times> int) list"

definition record_call :: "ffi_call \<Rightarrow> int \<Rightarrow> ffi \<Rightarrow> ffi" where
  "record_call c r w = w\<lparr>ffi_trace := ffi_trace w @ [(c, r)]\<rparr>"

definition answer :: "ffi_call \<Rightarrow> ffi \<Rightarrow> int" where
  "answer c w = ffi_oracle w (length (ffi_trace w)) c"

text \<open>A call that returns an integer, one whose result is not used, and one that returns a pointer.\<close>

definition ask :: "ffi_call \<Rightarrow> ffi \<Rightarrow> int \<times> ffi" where
  "ask c w = (answer c w, record_call c (answer c w) w)"

definition call :: "ffi_call \<Rightarrow> ffi \<Rightarrow> ffi" where
  "call c w = record_call c 0 w"

definition alloc :: "ffi_call \<Rightarrow> ffi \<Rightarrow> ptr \<times> ffi" where
  "alloc c w = (let p = (if answer c w = 0 then 0 else length (ffi_trace w) + 1)
                in (p, record_call c (int p) w))"

definition calls :: "ffi_call list \<Rightarrow> ffi \<Rightarrow> ffi" where
  "calls cs w = fold call cs w"

section \<open>Ownership\<close>

fun obtains_ptr :: "ffi_call \<Rightarrow> bool" where
  "obtains_ptr (Obtain _ _) = True"
| "obtains_ptr _ = False"

fun releases :: "ffi_call \<Rightarrow> ptr set" where
  "releases (Release _ p) = {p}"
| "releases _ = {}"

definition own_step :: "ffi_call \<times> int \<Rightarrow> ptr set \<Rightarrow> ptr set" where
  "own_step e L = (case e of (c, r) \<Rightarrow>
     (if obtains_ptr c \<and> 0 < r then insert (nat r) (L - releases c) else L - releases c))"

definition owned :: "ffi \<Rightarrow> ptr set" where
  "owned w = fold own_step (ffi_trace w) {}"

text \<open>Pointers are drawn below the length of the trace.\<close>

definition ffi_ok :: "ffi \<Rightarrow> bool" where
  "ffi_ok w \<longleftrightarrow> (\<forall>p \<in> owned w. 0 < p \<and> p \<le> length (ffi_trace w))"

lemma owned_record: "owned (record_call c r w) = own_step (c, r) (owned w)"
  by (simp add: owned_def record_call_def)

lemma owned_call [simp]: "owned (call c w) = owned w - releases c"
  by (simp add: call_def owned_record own_step_def)

lemma owned_ask [simp]:
  "\<not> obtains_ptr c \<Longrightarrow> owned (snd (ask c w)) = owned w - releases c"
  by (simp add: ask_def owned_record own_step_def)

lemma releases_obtains: "obtains_ptr c \<Longrightarrow> releases c = {}"
  by (cases c) simp_all

lemma owned_alloc:
  "obtains_ptr c \<Longrightarrow> alloc c w = (p, w') \<Longrightarrow>
     owned w' = (if p = 0 then owned w else insert p (owned w))"
  by (auto simp: alloc_def Let_def owned_record own_step_def releases_obtains split: if_splits)

lemma trace_length [simp]:
  "length (ffi_trace (call c w)) = Suc (length (ffi_trace w))"
  "length (ffi_trace (snd (ask c w))) = Suc (length (ffi_trace w))"
  by (simp_all add: call_def ask_def record_call_def)

lemma ffi_ok_call [simp]: "ffi_ok w \<Longrightarrow> ffi_ok (call c w)"
  by (auto simp: ffi_ok_def intro: le_SucI)

lemma ffi_ok_ask [simp]: "ffi_ok w \<Longrightarrow> \<not> obtains_ptr c \<Longrightarrow> ffi_ok (snd (ask c w))"
  by (auto simp: ffi_ok_def intro: le_SucI)

lemma alloc_fresh:
  assumes "ffi_ok w" "obtains_ptr c" "alloc c w = (p, w')"
  shows "ffi_ok w' \<and> (p \<noteq> 0 \<longrightarrow> p \<notin> owned w)
     \<and> owned w' = (if p = 0 then owned w else insert p (owned w))"
proof -
  have p: "p = 0 \<or> p = Suc (length (ffi_trace w))"
    using assms(3) by (auto simp: alloc_def Let_def split: if_splits)
  have l: "length (ffi_trace w') = Suc (length (ffi_trace w))"
    using assms(3) by (auto simp: alloc_def Let_def record_call_def)
  note o = owned_alloc [OF assms(2,3)]
  show ?thesis using assms(1) p l o by (auto simp: ffi_ok_def intro: le_SucI)
qed

lemma owned_calls: "owned (calls cs w) = owned w - \<Union> (set (map releases cs))"
  unfolding calls_def by (induction cs arbitrary: w) auto

lemma ffi_ok_calls [simp]: "ffi_ok w \<Longrightarrow> ffi_ok (calls cs w)"
  unfolding calls_def by (induction cs arbitrary: w) simp_all

section \<open>Specifications of fallible constructors\<close>

text \<open>\<open>transfers w r w' own\<close>: a run from \<open>w\<close> to \<open>w'\<close> that failed released everything it had
  obtained, and one that succeeded obtained exactly the pointers \<open>own\<close>, all new.\<close>

definition transfers :: "ffi \<Rightarrow> ('e + 'a) \<Rightarrow> ffi \<Rightarrow> ('a \<Rightarrow> ptr set) \<Rightarrow> bool" where
  "transfers w r w' own \<longleftrightarrow> ffi_ok w' \<and> (case r of
      Inl _ \<Rightarrow> owned w' = owned w
    | Inr a \<Rightarrow> owned w' = owned w \<union> own a \<and> own a \<inter> owned w = {})"

lemma transfers_Inl: "ffi_ok w' \<Longrightarrow> owned w' = owned w \<Longrightarrow> transfers w (Inl e) w' own"
  by (simp add: transfers_def)

lemma transfers_Inr:
  "ffi_ok w' \<Longrightarrow> owned w' = owned w \<union> own a \<Longrightarrow> own a \<inter> owned w = {} \<Longrightarrow>
     transfers w (Inr a) w' own"
  by (simp add: transfers_def)

end
