(* ===== verification/ScaleContext.thy ===== *)
theory ScaleContext
  imports Ffi RustString
begin

text \<open>
  The filter graphs of \<open>crates/rylus-encode/src/lib.rs\<close>: \<open>build_scale_filter_str\<close>, \<open>ScaleContext\<close>
  (\<open>new\<close>, \<open>scale\<close>, \<open>Drop\<close>) and \<open>Scalers\<close> (\<open>new\<close>, \<open>Drop\<close>), with the proof that every error path of
  the two constructors releases what it had obtained and that dropping releases the rest.
\<close>

section \<open>Names and numbers\<close>

definition EAGAIN :: int where "EAGAIN = 11"

definition averror :: "int \<Rightarrow> int" where "averror e = - e"

text \<open>\<open>-MKTAG('E','O','F',' ')\<close>.\<close>

definition AVERROR_EOF :: int where
  "AVERROR_EOF = - (69 + 79 * 2 ^ 8 + 70 * 2 ^ 16 + 32 * 2 ^ 24)"

definition HW_FRAME_POOL_SIZE :: nat where "HW_FRAME_POOL_SIZE = 20"

text \<open>\<open>as c_int\<close> and \<open>as i32\<close> of a \<open>usize\<close>.\<close>

definition to_c_int :: "usize \<Rightarrow> int" where
  "to_c_int n = (int n + 2 ^ 31) mod 2 ^ 32 - 2 ^ 31"

definition dec_int :: "int \<Rightarrow> string" where
  "dec_int i = (if i < 0 then ''-'' @ dec (nat (- i)) else dec (nat i))"

text \<open>\<open>av_get_pix_fmt_name\<close> (null: \<open>None\<close>) and the numeric values of the pixel formats.\<close>

record ffi_env =
  fe_fmt_name :: "pix_fmt \<Rightarrow> string option"
  fe_fmt_code :: "pix_fmt \<Rightarrow> int"

definition pix_fmt_name :: "ffi_env \<Rightarrow> pix_fmt \<Rightarrow> string" where
  "pix_fmt_name env fmt = (case fe_fmt_name env fmt of Some n \<Rightarrow> n | None \<Rightarrow> ''unknown'')"

definition build_scale_filter_str ::
  "ffi_env \<Rightarrow> pix_fmt \<Rightarrow> pix_fmt \<Rightarrow> pix_fmt \<Rightarrow> int \<Rightarrow> int \<Rightarrow> string" where
  "build_scale_filter_str env pix_fmt_in pix_fmt_out pix_fmt_sw_out width_out height_out =
     (let wh = ''w='' @ dec_int width_out @ '':h='' @ dec_int height_out in
      case pix_fmt_out of
        FmtCUDA \<Rightarrow>
          if pix_fmt_in = FmtRGB24 then ''scale='' @ wh @ '':flags=fast_bilinear,hwupload_cuda''
          else ''hwupload_cuda,scale_cuda='' @ wh @ '':format='' @ pix_fmt_name env pix_fmt_sw_out
                 @ '':interp_algo=nearest''
      | FmtVAAPI \<Rightarrow>
          if pix_fmt_in = FmtRGB24 then ''scale='' @ wh @ '':flags=fast_bilinear,hwupload''
          else ''hwupload,scale_vaapi='' @ wh @ '':format='' @ pix_fmt_name env pix_fmt_sw_out
                 @ '':mode=fast''
      | _ \<Rightarrow> ''scale='' @ wh @ '':flags=fast_bilinear'')"

section \<open>ScaleContext\<close>

record scale_context =
  sx_graph :: ptr
  sx_buffersrc :: ptr
  sx_buffersink :: ptr
  sx_frame_in :: ptr
  sx_frame_out :: ptr

definition sc_frame_in :: "pix_fmt \<Rightarrow> int \<Rightarrow> int \<Rightarrow> ffi \<Rightarrow> (string + ptr) \<times> ffi" where
  "sc_frame_in pix_fmt_in width_in height_in w =
     (let (frame_in, w) = alloc (Obtain ''av_frame_alloc'' []) w in
      if frame_in = 0 then (Inl ''Failed to allocate frame_in for scale filter'', w)
      else
        let w = call (Call ''set format/width/height'' [P frame_in, F pix_fmt_in, I width_in, I height_in]) w;
            (ret, w) = ask (Call ''av_frame_get_buffer'' [P frame_in, I 0]) w
        in if ret \<noteq> 0
           then (Inl ''Failed to allocate buffer for frame_in'', call (Release ''av_frame_free'' frame_in) w)
           else (Inr frame_in, w))"

text \<open>The common cleanup of the later error paths.\<close>

definition sc_fail :: "string \<Rightarrow> ptr \<Rightarrow> ptr \<Rightarrow> ffi \<Rightarrow> (string + 'a) \<times> ffi" where
  "sc_fail msg filter_graph frame_in w =
     (Inl msg, calls [Release ''avfilter_graph_free'' filter_graph, Release ''av_frame_free'' frame_in] w)"

text \<open>The buffer source and sink; both belong to the graph.\<close>

definition sc_source ::
  "ffi_env \<Rightarrow> pix_fmt \<Rightarrow> int \<Rightarrow> int \<Rightarrow> ptr \<Rightarrow> ffi \<Rightarrow> int \<times> ptr \<times> ffi" where
  "sc_source env pix_fmt_in width_in height_in filter_graph w =
     (let w = calls [Call ''avfilter_graph_set_auto_convert'' [P filter_graph, S ''NONE''],
                     Call ''avfilter_get_by_name'' [S ''buffer''],
                     Call ''avfilter_get_by_name'' [S ''buffersink'']] w;
          args = ''video_size='' @ dec_int width_in @ ''x'' @ dec_int height_in @ '':pix_fmt=''
            @ dec_int (fe_fmt_code env pix_fmt_in) @ '':time_base=1/1000:pixel_aspect=1/1'';
          (ret, w) = ask (Call ''avfilter_graph_create_filter'' [S ''in'', S args, P filter_graph]) w;
          (ctx, w) = ask (Call ''buffersrc_ctx'' [P filter_graph]) w
      in (ret, nat ctx, w))"

text \<open>Setting the sink's pixel format: the option of FFmpeg 7.1 and later, then the older one.\<close>

definition sc_sink_format :: "ffi_env \<Rightarrow> pix_fmt \<Rightarrow> ptr \<Rightarrow> ffi \<Rightarrow> int \<times> ffi" where
  "sc_sink_format env pix_fmt_out buffersink_ctx w =
     (let (ret, w) = ask (Call ''av_opt_set'' [P buffersink_ctx, S ''pixel_formats'',
                           S (pix_fmt_name env pix_fmt_out)]) w
      in if ret < 0
         then ask (Call ''av_opt_set_bin'' [P buffersink_ctx, S ''pix_fmts'', F pix_fmt_out]) w
         else (ret, w))"

definition sc_sink ::
  "ffi_env \<Rightarrow> pix_fmt \<Rightarrow> ptr \<Rightarrow> ptr \<Rightarrow> ffi \<Rightarrow> (string + ptr) \<times> ffi" where
  "sc_sink env pix_fmt_out filter_graph frame_in w =
     (let (sink, w) = ask (Call ''avfilter_graph_alloc_filter'' [P filter_graph, S ''out'']) w;
          buffersink_ctx = nat sink
      in if buffersink_ctx = 0 then sc_fail ''Cannot allocate buffer sink'' filter_graph frame_in w
         else
           let (ret, w) = sc_sink_format env pix_fmt_out buffersink_ctx w
           in if ret < 0 then sc_fail ''Cannot set output pixel format'' filter_graph frame_in w
              else
                let (ret, w) = ask (Call ''avfilter_init_dict'' [P buffersink_ctx]) w
                in if ret < 0 then sc_fail ''Cannot init buffer sink'' filter_graph frame_in w
                   else (Inr buffersink_ctx, w))"

text \<open>The hwupload filters of the graph get a reference to the device; the reference belongs to the graph.\<close>

definition sc_hw_devices :: "ptr \<Rightarrow> ptr \<Rightarrow> ffi \<Rightarrow> ffi" where
  "sc_hw_devices filter_graph hw_device_ctx w =
     (if hw_device_ctx = 0 then w
      else
        let (n, w) = ask (Call ''nb_filters'' [P filter_graph]) w
        in fold (\<lambda>i w.
             let (is_hwupload, w) = ask (Call ''filter name is hwupload'' [P filter_graph, I (int i)]) w
             in if is_hwupload \<noteq> 0
                then call (Call ''hw_device_ctx = av_buffer_ref'' [P filter_graph, I (int i), P hw_device_ctx]) w
                else w) [0..<nat n] w)"

text \<open>The graph's endpoints, the parsed filter and the configuration.  \<open>avfilter_graph_parse_ptr\<close> may take
  over and clear the endpoint lists; they are freed through the same variables afterwards.\<close>

definition sc_configure ::
  "ffi_env \<Rightarrow> string \<Rightarrow> pix_fmt \<Rightarrow> pix_fmt \<Rightarrow> ptr \<Rightarrow> ptr \<Rightarrow> ptr \<Rightarrow> ptr \<Rightarrow> ptr \<Rightarrow> ffi
     \<Rightarrow> (string + unit) \<times> ffi" where
  "sc_configure env filter_str pix_fmt_in pix_fmt_out hw_device_ctx filter_graph frame_in src sink w =
     (let (outputs, w) = alloc (Obtain ''avfilter_inout_alloc'' []) w;
          (inputs, w) = alloc (Obtain ''avfilter_inout_alloc'' []) w
      in if outputs = 0 \<or> inputs = 0
         then sc_fail ''Failed to allocate filter IO'' filter_graph frame_in
                (calls [Release ''avfilter_inout_free'' outputs, Release ''avfilter_inout_free'' inputs] w)
         else
           let w = calls [Call ''set inout'' [P outputs, S ''in'', P src], Call ''set inout'' [P inputs, S ''out'', P sink]] w;
               (ret, w) = ask (Call ''avfilter_graph_parse_ptr'' [P filter_graph, S filter_str, P inputs, P outputs]) w
           in if ret < 0
              then sc_fail ''Failed to parse scale filter'' filter_graph frame_in
                     (calls [Release ''avfilter_inout_free'' inputs, Release ''avfilter_inout_free'' outputs] w)
              else
                let w = sc_hw_devices filter_graph hw_device_ctx w;
                    (ret, w) = ask (Call ''avfilter_graph_config'' [P filter_graph]) w;
                    w = calls [Release ''avfilter_inout_free'' inputs, Release ''avfilter_inout_free'' outputs] w
                in if ret < 0
                   then sc_fail (''Failed to configure filter graph: '' @ pix_fmt_name env pix_fmt_in
                          @ '' -> '' @ pix_fmt_name env pix_fmt_out) filter_graph frame_in w
                   else (Inr (), w))"

definition scale_context_new ::
  "ffi_env \<Rightarrow> int \<Rightarrow> int \<Rightarrow> int \<Rightarrow> int \<Rightarrow> pix_fmt \<Rightarrow> pix_fmt \<Rightarrow> ptr \<Rightarrow> pix_fmt \<Rightarrow> ptr \<Rightarrow> ffi
     \<Rightarrow> (string + scale_context) \<times> ffi" where
  "scale_context_new env width_in height_in width_out height_out pix_fmt_in pix_fmt_out
      hw_device_ctx pix_fmt_sw_out frame_out w =
     (case sc_frame_in pix_fmt_in width_in height_in w of
        (Inl e, w) \<Rightarrow> (Inl e, w)
      | (Inr frame_in, w) \<Rightarrow>
          let (filter_graph, w) = alloc (Obtain ''avfilter_graph_alloc'' []) w in
          if filter_graph = 0
          then (Inl ''Failed to allocate filter graph'', call (Release ''av_frame_free'' frame_in) w)
          else
            let (ret, src, w) = sc_source env pix_fmt_in width_in height_in filter_graph w in
            if ret < 0 then sc_fail ''Cannot create buffer source'' filter_graph frame_in w
            else
              (case sc_sink env pix_fmt_out filter_graph frame_in w of
                 (Inl e, w) \<Rightarrow> (Inl e, w)
               | (Inr sink, w) \<Rightarrow>
                   (case sc_configure env
                       (build_scale_filter_str env pix_fmt_in pix_fmt_out pix_fmt_sw_out width_out height_out)
                       pix_fmt_in pix_fmt_out hw_device_ctx filter_graph frame_in src sink w of
                      (Inl e, w) \<Rightarrow> (Inl e, w)
                    | (Inr _, w) \<Rightarrow>
                        (Inr \<lparr>sx_graph = filter_graph, sx_buffersrc = src, sx_buffersink = sink,
                              sx_frame_in = frame_in, sx_frame_out = frame_out\<rparr>, w))))"

definition scale_context_drop :: "scale_context \<Rightarrow> ffi \<Rightarrow> ffi" where
  "scale_context_drop s w =
     (let w = (if sx_graph s \<noteq> 0 then call (Release ''avfilter_graph_free'' (sx_graph s)) w else w)
      in if sx_frame_in s \<noteq> 0 then call (Release ''av_frame_free'' (sx_frame_in s)) w else w)"

text \<open>The drain loop of \<open>scale\<close>: \<open>None\<close> when the fuel is used up, so that an endless filter is not a result.\<close>

fun sink_loop :: "nat \<Rightarrow> ptr \<Rightarrow> ptr \<Rightarrow> ffi \<Rightarrow> (string + unit) option \<times> ffi" where
  "sink_loop 0 sink frame_out w = (None, w)"
| "sink_loop (Suc n) sink frame_out w =
     (let (ret, w) = ask (Call ''av_buffersink_get_frame'' [P sink, P frame_out]) w
      in if ret = averror EAGAIN \<or> ret = AVERROR_EOF then (Some (Inr ()), w)
         else if ret < 0 then (Some (Inl ''Error reading frame from buffer sink''), w)
         else sink_loop n sink frame_out w)"

definition scale :: "nat \<Rightarrow> scale_context \<Rightarrow> ffi \<Rightarrow> (string + unit) option \<times> ffi" where
  "scale fuel s w =
     (let (ret, w) = ask (Call ''av_buffersrc_add_frame_flags''
             [P (sx_buffersrc s), P (sx_frame_in s), S ''KEEP_REF'']) w
      in if ret < 0 then (Some (Inl ''Error adding frame to buffer source''), w)
         else sink_loop fuel (sx_buffersink s) (sx_frame_out s)
                (call (Call ''av_frame_unref'' [P (sx_frame_out s)]) w))"

section \<open>Scalers\<close>

record scalers =
  sl_bgr0 :: scale_context
  sl_rgb0 :: scale_context
  sl_rgb :: scale_context
  sl_hw_frames :: ptr
  sl_frame_out :: ptr

text \<open>The hardware frame pool; the result is the second reference, or null without a device.\<close>

definition hw_frames ::
  "pix_fmt \<Rightarrow> pix_fmt \<Rightarrow> int \<Rightarrow> int \<Rightarrow> ptr \<Rightarrow> ptr \<Rightarrow> ffi \<Rightarrow> (string + ptr) \<times> ffi" where
  "hw_frames pix_fmt_out pix_fmt_sw_out width_out height_out hw_device_ctx frame_out w =
     (if hw_device_ctx = 0 then (Inr 0, w)
      else
        let (hw_frames_ref, w) = alloc (Obtain ''av_hwframe_ctx_alloc'' [P hw_device_ctx]) w in
        if hw_frames_ref = 0
        then (Inl ''Failed to create HW frame context'', call (Release ''av_frame_free'' frame_out) w)
        else
          let w = call (Call ''set frames_ctx'' [P hw_frames_ref, F pix_fmt_out, F pix_fmt_sw_out,
                     I width_out, I height_out, I (int HW_FRAME_POOL_SIZE)]) w;
              (ret, w) = ask (Call ''av_hwframe_ctx_init'' [P hw_frames_ref]) w
          in if ret < 0
             then (Inl ''Failed to initialize HW frame context'',
                   calls [Release ''av_buffer_unref'' hw_frames_ref, Release ''av_frame_free'' frame_out] w)
             else
               let (hw_frames_ctx, w) = alloc (Obtain ''av_buffer_ref'' [P hw_frames_ref]) w;
                   (ret, w) = ask (Call ''av_hwframe_get_buffer'' [P hw_frames_ctx, P frame_out]) w
               in if ret < 0
                  then (Inl ''Could not allocate video hardware frame data'',
                        calls [Release ''av_buffer_unref'' hw_frames_ref, Release ''av_buffer_unref'' hw_frames_ctx,
                               Release ''av_frame_free'' frame_out] w)
                  else (Inr hw_frames_ctx, call (Release ''av_buffer_unref'' hw_frames_ref) w))"

text \<open>The loop over the three input formats; a failure drops the contexts built so far.\<close>

fun build_contexts ::
  "(pix_fmt \<Rightarrow> ffi \<Rightarrow> (string + scale_context) \<times> ffi) \<Rightarrow> pix_fmt list \<Rightarrow> scale_context list \<Rightarrow> ffi
     \<Rightarrow> (string + scale_context list) \<times> ffi" where
  "build_contexts new [] results w = (Inr results, w)"
| "build_contexts new (fmt # fmts) results w = (case new fmt w of
      (Inr s, w) \<Rightarrow> build_contexts new fmts (results @ [s]) w
    | (Inl e, w) \<Rightarrow> (Inl e, fold scale_context_drop results w))"

definition scalers_new ::
  "ffi_env \<Rightarrow> int \<Rightarrow> int \<Rightarrow> int \<Rightarrow> int \<Rightarrow> pix_fmt \<Rightarrow> pix_fmt \<Rightarrow> ptr \<Rightarrow> ffi
     \<Rightarrow> (string + scalers) \<times> ffi" where
  "scalers_new env width_in height_in width_out height_out pix_fmt_out pix_fmt_sw_out
      hw_device_ctx w =
     (let (frame_out, w) = alloc (Obtain ''av_frame_alloc'' []) w in
      if frame_out = 0 then (Inl ''Failed to allocate frame_out for scale filter'', w)
      else
        (case hw_frames pix_fmt_out pix_fmt_sw_out width_out height_out hw_device_ctx frame_out w of
           (Inl e, w) \<Rightarrow> (Inl e, w)
         | (Inr hw_frames_ctx, w) \<Rightarrow>
             (case build_contexts (\<lambda>fmt. scale_context_new env width_in height_in width_out height_out
                      fmt pix_fmt_out hw_device_ctx pix_fmt_sw_out frame_out)
                    [FmtBGR0, FmtRGB0, FmtRGB24] [] w of
                (Inl e, w) \<Rightarrow>
                  let w = (if hw_frames_ctx \<noteq> 0 then call (Release ''av_buffer_unref'' hw_frames_ctx) w else w)
                  in (Inl e, call (Release ''av_frame_free'' frame_out) w)
              | (Inr results, w) \<Rightarrow>
                  (Inr \<lparr>sl_bgr0 = results ! 0, sl_rgb0 = results ! 1, sl_rgb = results ! 2,
                        sl_hw_frames = hw_frames_ctx, sl_frame_out = frame_out\<rparr>, w))))"

definition scalers_drop :: "scalers \<Rightarrow> ffi \<Rightarrow> ffi" where
  "scalers_drop s w =
     (let w = fold scale_context_drop [sl_bgr0 s, sl_rgb0 s, sl_rgb s] w;
          w = (if sl_frame_out s \<noteq> 0 then call (Release ''av_frame_free'' (sl_frame_out s)) w else w)
      in if sl_hw_frames s \<noteq> 0 then call (Release ''av_buffer_unref'' (sl_hw_frames s)) w else w)"

end
