(* ===== verification/VideoEncoder.thy ===== *)
theory VideoEncoder
  imports ScaleContext Pixel
begin

text \<open>
  \<open>VideoEncoder\<close> of \<open>crates/rylus-encode/src/lib.rs\<close> on Linux: construction (\<open>new\<close>, \<open>open_video\<close>, the
  VA-API, NVENC and software set-ups), encoding, the quality and keyframe controls and \<open>Drop\<close>, over
  the FFI trace of \<open>Ffi\<close>.  \<open>ve_pb\<close> is the field \<open>pb\<close> of FFmpeg's format context.  The loop over received
  packets has fuel; \<open>None\<close> is a loop that has not ended.
\<close>

section \<open>Options and state\<close>

datatype codec = H264 | Hevc

fun ffmpeg_codec_name :: "codec \<Rightarrow> string" where
  "ffmpeg_codec_name H264 = ''libx264''"
| "ffmpeg_codec_name Hevc = ''libx265''"

record encoder_options =
  op_try_vaapi :: bool
  op_try_nvenc :: bool
  op_try_videotoolbox :: bool
  op_try_mediafoundation :: bool
  op_codec :: codec
  op_avio_buffer_size :: usize
  op_all_intra :: bool

definition options_default :: encoder_options where
  "options_default = \<lparr>op_try_vaapi = False, op_try_nvenc = False, op_try_videotoolbox = False,
     op_try_mediafoundation = False, op_codec = H264, op_avio_buffer_size = 1024 * 1024,
     op_all_intra = False\<rparr>"

definition GOP_SIZE :: nat where "GOP_SIZE = 12"
definition MAX_B_FRAMES :: nat where "MAX_B_FRAMES = 0"

record video_encoder =
  ve_format_ctx :: ptr
  ve_pb :: ptr
  ve_codec_ctx :: ptr
  ve_frame :: ptr
  ve_scalers :: "scalers option"
  ve_hw_device :: ptr
  ve_packet :: ptr
  ve_width_in :: usize
  ve_height_in :: usize
  ve_width_out :: usize
  ve_height_out :: usize
  ve_start :: nanos
  ve_codec_string :: string
  ve_codec :: codec
  ve_pending_pts :: "int option"
  ve_force_keyframe :: bool
  ve_header_written :: bool

section \<open>The write callback\<close>

text \<open>What the callback returns and hands to \<open>write_data\<close>.\<close>

definition avio_write_callback :: "byte list \<Rightarrow> int \<Rightarrow> int \<times> byte list list" where
  "avio_write_callback buf buf_size =
     (if buf_size \<le> 0 then (buf_size, []) else (buf_size, [take (nat buf_size) buf]))"

section \<open>Codec set-up\<close>

definition set_codec_params ::
  "video_encoder \<Rightarrow> ptr \<Rightarrow> encoder_options \<Rightarrow> ffi \<Rightarrow> ffi" where
  "set_codec_params e c options w =
     call (Call ''set codec params'' [P c, I (to_c_int (ve_width_out e)), I (to_c_int (ve_height_out e)),
       I (int (if op_all_intra options then 1 else GOP_SIZE)), I (int MAX_B_FRAMES)]) w"

definition set_options :: "ptr \<Rightarrow> (string \<times> string) list \<Rightarrow> ffi \<Rightarrow> ffi" where
  "set_options c opts w =
     calls (map (\<lambda>(k, v). Call ''av_opt_set'' [P c, S k, S v]) opts) w"

definition unref_hw_device ::
  "bool \<Rightarrow> video_encoder \<Rightarrow> ffi \<Rightarrow> video_encoder \<times> ffi" where
  "unref_hw_device uses_hw_device e w =
     (if uses_hw_device
      then (e\<lparr>ve_hw_device := 0\<rparr>, call (Release ''av_buffer_unref'' (ve_hw_device e)) w)
      else (e, w))"

text \<open>The part of \<open>try_codec\<close> after the scalers exist.  On failure the scalers are dropped last.\<close>

definition open_codec ::
  "bool \<Rightarrow> pix_fmt \<Rightarrow> (string \<times> string) list \<Rightarrow> ptr \<Rightarrow> ptr \<Rightarrow> scalers \<Rightarrow> video_encoder \<Rightarrow> ffi
     \<Rightarrow> bool \<times> video_encoder \<times> ffi" where
  "open_codec uses_hw_device ctx_pix_fmt opts codec c s e w =
     (let w = call (Call ''set pix_fmt'' [P c, F ctx_pix_fmt]) w;
          w = (if uses_hw_device \<and> sl_hw_frames s \<noteq> 0
               then call (Call ''hw_frames_ctx = av_buffer_ref'' [P c, P (sl_hw_frames s)]) w else w);
          w = set_options c opts w;
          w = set_codec_params e c options_default w;
          (ret, w) = ask (Call ''avcodec_open2'' [P c, P codec]) w
      in if ret = 0 then (True, e\<lparr>ve_codec_ctx := c, ve_scalers := Some s\<rparr>, w)
         else
           let (e, w) = unref_hw_device uses_hw_device e (call (Release ''avcodec_free_context'' c) w)
           in (False, e, scalers_drop s w))"

definition try_codec ::
  "ffi_env \<Rightarrow> string \<Rightarrow> pix_fmt \<Rightarrow> pix_fmt \<Rightarrow> pix_fmt \<Rightarrow> bool \<Rightarrow> (string \<times> string) list
     \<Rightarrow> video_encoder \<Rightarrow> ffi \<Rightarrow> bool \<times> video_encoder \<times> ffi" where
  "try_codec env codec_name hw_pix_fmt sw_pix_fmt ctx_pix_fmt uses_hw_device opts e w =
     (let (codec, w) = ask (Call ''avcodec_find_encoder_by_name'' [S codec_name]) w in
      if codec = 0 then (False, unref_hw_device uses_hw_device e w)
      else
        let (c, w) = alloc (Obtain ''avcodec_alloc_context3'' [I codec]) w in
        if c = 0 then (False, unref_hw_device uses_hw_device e w)
        else
          (case scalers_new env (to_c_int (ve_width_in e)) (to_c_int (ve_height_in e))
                  (to_c_int (ve_width_out e)) (to_c_int (ve_height_out e))
                  hw_pix_fmt sw_pix_fmt (ve_hw_device e) w of
             (Inr s, w) \<Rightarrow> open_codec uses_hw_device ctx_pix_fmt opts (nat codec) c s e w
           | (Inl err, w) \<Rightarrow>
               (False, unref_hw_device uses_hw_device e (call (Release ''avcodec_free_context'' c) w))))"

text \<open>\<open>av_hwdevice_ctx_create\<close> stores a device and returns 0, or stores null.\<close>

definition with_device ::
  "string \<Rightarrow> string option \<Rightarrow> video_encoder \<Rightarrow> ffi \<Rightarrow> video_encoder \<times> ffi" where
  "with_device kind device e w =
     (let (p, w) = alloc (Obtain ''av_hwdevice_ctx_create'' (S kind # (case device of Some d \<Rightarrow> [S d] | None \<Rightarrow> []))) w
      in (e\<lparr>ve_hw_device := p\<rparr>, w))"

definition vaapi_options :: "(string \<times> string) list" where
  "vaapi_options = [(''quality'', ''7''), (''qp'', ''23''), (''async_depth'', ''1''), (''low_power'', ''1''),
     (''idr_interval'', ''0'')]"

definition nvenc_options :: "(string \<times> string) list" where
  "nvenc_options = [(''preset'', ''p1''), (''zerolatency'', ''1''), (''tune'', ''ull''), (''rc'', ''cbr''),
     (''cq'', ''21''), (''delay'', ''0''), (''rc-lookahead'', ''0''), (''no-scenecut'', ''1''),
     (''forced-idr'', ''1'')]"

text \<open>\<open>device\<close> is \<open>RYLUS_VAAPI_DEVICE\<close>.\<close>

definition try_vaapi ::
  "ffi_env \<Rightarrow> string option \<Rightarrow> video_encoder \<Rightarrow> ffi \<Rightarrow> bool \<times> video_encoder \<times> ffi" where
  "try_vaapi env device e w =
     (let (e, w) = with_device ''VAAPI'' device e w
      in if ve_hw_device e = 0 then (False, e, w)
         else try_codec env ''h264_vaapi'' FmtVAAPI FmtNV12 FmtVAAPI True vaapi_options e w)"

definition try_nvenc ::
  "ffi_env \<Rightarrow> video_encoder \<Rightarrow> ffi \<Rightarrow> bool \<times> video_encoder \<times> ffi" where
  "try_nvenc env e w =
     (let (e, w) = with_device ''CUDA'' None e w
      in if ve_hw_device e = 0 then (False, e, w)
         else try_codec env ''h264_nvenc'' FmtCUDA FmtBGR0 FmtCUDA True nvenc_options e w)"

definition setup_libx264 ::
  "ffi_env \<Rightarrow> encoder_options \<Rightarrow> video_encoder \<Rightarrow> ffi \<Rightarrow> (string + unit) \<times> video_encoder \<times> ffi" where
  "setup_libx264 env options e w =
     (let codec_name = ffmpeg_codec_name (op_codec options);
          (codec, w) = ask (Call ''avcodec_find_encoder_by_name'' [S codec_name]) w in
      if codec = 0 then (Inl (''Codec '' @ codec_name @ '' not found''), e, w)
      else
        let (c, w) = alloc (Obtain ''avcodec_alloc_context3'' [I codec]) w in
        if c = 0 then (Inl ''Could not allocate video codec context'', e, w)
        else
          (case scalers_new env (to_c_int (ve_width_in e)) (to_c_int (ve_height_in e))
                  (to_c_int (ve_width_out e)) (to_c_int (ve_height_out e))
                  FmtYUV420P FmtYUV420P 0 w of
             (Inr s, w) \<Rightarrow>
               let w = call (Call ''set pix_fmt'' [P c, F FmtYUV420P]) w;
                   w = set_options c [(''preset'', ''ultrafast''), (''tune'', ''zerolatency''), (''crf'', ''23'')] w;
                   w = set_codec_params e c options w;
                   (ret, w) = ask (Call ''avcodec_open2'' [P c, I codec]) w
               in if ret < 0
                  then (Inl ''Could not open libx264 codec'', e,
                        scalers_drop s (call (Release ''avcodec_free_context'' c) w))
                  else (Inr (), e\<lparr>ve_codec_ctx := c, ve_scalers := Some s\<rparr>, w)
           | (Inl err, w) \<Rightarrow> (Inl err, e, call (Release ''avcodec_free_context'' c) w)))"

section \<open>Opening the output\<close>

text \<open>\<open>{:02X}\<close>.\<close>

definition hex2 :: "nat \<Rightarrow> string" where
  "hex2 n = (if n < 16 then CHR ''0'' # hex n else hex n)"

definition codec_string_of :: "codec \<Rightarrow> int \<Rightarrow> int \<Rightarrow> string" where
  "codec_string_of codec profile level =
     (if profile \<ge> 0 \<and> level \<ge> 0 then
        (case codec of
           Hevc \<Rightarrow> ''hvc1.'' @ hex2 (nat profile) @ ''.0.L'' @ hex2 (nat level) @ ''.00''
         | H264 \<Rightarrow> ''avc1.'' @ hex2 (nat profile) @ ''00'' @ hex2 (nat level))
      else (case codec of
           Hevc \<Rightarrow> ''hvc1.0100.0.L93.00''
         | H264 \<Rightarrow> ''avc1.4D0028''))"

text \<open>The choice of the codec: VA-API, then NVENC, then software.\<close>

definition choose_codec ::
  "ffi_env \<Rightarrow> string option \<Rightarrow> encoder_options \<Rightarrow> video_encoder \<Rightarrow> ffi
     \<Rightarrow> (string + unit) \<times> video_encoder \<times> ffi" where
  "choose_codec env device options e w =
     (let (using_hw, e, w) = (if op_try_vaapi options then try_vaapi env device e w else (False, e, w));
          (using_hw, e, w) = (if op_try_nvenc options \<and> \<not> using_hw then try_nvenc env e w
                              else (using_hw, e, w))
      in if \<not> using_hw then setup_libx264 env options e w else (Inr (), e, w))"

text \<open>The stream and the packet.\<close>

definition open_stream :: "video_encoder \<Rightarrow> ffi \<Rightarrow> (string + unit) \<times> video_encoder \<times> ffi" where
  "open_stream e w =
     (let (st, w) = ask (Call ''avformat_new_stream'' [P (ve_format_ctx e)]) w in
      if st = 0 then (Inl ''Failed to create output stream'', e, w)
      else
        let w = call (Call ''avcodec_parameters_from_context'' [I st, P (ve_codec_ctx e)]) w;
            (p, w) = alloc (Obtain ''av_packet_alloc'' []) w;
            e = e\<lparr>ve_packet := p\<rparr>
        in if p = 0 then (Inl ''Failed to allocate packet'', e, w) else (Inr (), e, w))"

text \<open>The AVIO context on its own buffer.\<close>

definition open_avio :: "encoder_options \<Rightarrow> video_encoder \<Rightarrow> ffi \<Rightarrow> (string + unit) \<times> video_encoder \<times> ffi" where
  "open_avio options e w =
     (let buf_size = to_c_int (op_avio_buffer_size options);
          (avio_buf, w) = alloc (Obtain ''av_malloc'' [I buf_size]) w in
      if avio_buf = 0 then (Inl ''Failed to allocate AVIO buffer'', e, w)
      else
        let (avio, w) = alloc (Obtain ''avio_alloc_context'' [P avio_buf, I buf_size]) w in
        if avio = 0 then (Inl ''Failed to allocate avio context'', e, call (Release ''av_free'' avio_buf) w)
        else (Inr (), e\<lparr>ve_pb := avio\<rparr>, call (Call ''set pb'' [P (ve_format_ctx e), P avio]) w))"

definition write_header :: "video_encoder \<Rightarrow> ffi \<Rightarrow> (string + unit) \<times> video_encoder \<times> ffi" where
  "write_header e w =
     (let (opt, w) = alloc (Obtain ''av_dict_set'' [S ''movflags'', S ''frag_custom+empty_moov+default_base_moof'']) w;
          (ret, w) = ask (Call ''avformat_write_header'' [P (ve_format_ctx e), P opt]) w;
          w = call (Release ''av_dict_free'' opt) w
      in if ret < 0 then (Inl (''Video: failed to write header: '' @ dec_int ret), e, w)
         else
           let e = e\<lparr>ve_header_written := True\<rparr>;
               (profile, w) = ask (Call ''profile'' [P (ve_codec_ctx e)]) w;
               (level, w) = ask (Call ''level'' [P (ve_codec_ctx e)]) w
           in (Inr (), e\<lparr>ve_codec_string := codec_string_of (ve_codec e) profile level\<rparr>, w))"

text \<open>Sequencing of fallible stages on the encoder: the first error ends it.\<close>

definition and_then ::
  "(string + unit) \<times> video_encoder \<times> ffi \<Rightarrow> (video_encoder \<Rightarrow> ffi \<Rightarrow> (string + unit) \<times> video_encoder \<times> ffi)
     \<Rightarrow> (string + unit) \<times> video_encoder \<times> ffi" where
  "and_then r f = (case r of (Inl e, enc, w) \<Rightarrow> (Inl e, enc, w) | (Inr _, enc, w) \<Rightarrow> f enc w)"

definition alloc_output :: "video_encoder \<Rightarrow> ffi \<Rightarrow> (string + unit) \<times> video_encoder \<times> ffi" where
  "alloc_output e w =
     (let (p, w) = alloc (Obtain ''avformat_alloc_output_context2'' [S ''mp4'']) w;
          (ret, w) = ask (Call ''avformat_alloc_output_context2 result'' [P p]) w;
          e = e\<lparr>ve_format_ctx := p\<rparr>
      in if p = 0 \<or> ret < 0 then (Inl ''Could not find output format mp4'', e, w) else (Inr (), e, w))"

text \<open>The stages, over the choice of a codec, which depends on the platform.\<close>

definition open_video_with ::
  "(video_encoder \<Rightarrow> ffi \<Rightarrow> (string + unit) \<times> video_encoder \<times> ffi) \<Rightarrow> encoder_options \<Rightarrow> video_encoder \<Rightarrow> ffi
     \<Rightarrow> (string + unit) \<times> video_encoder \<times> ffi" where
  "open_video_with pick options e w =
     and_then (and_then (and_then (and_then (alloc_output e w) pick)
       open_stream) (open_avio options)) write_header"

definition open_video ::
  "ffi_env \<Rightarrow> string option \<Rightarrow> encoder_options \<Rightarrow> video_encoder \<Rightarrow> ffi
     \<Rightarrow> (string + unit) \<times> video_encoder \<times> ffi" where
  "open_video env device options = open_video_with (choose_codec env device options) options"

section \<open>Drop and new\<close>

text \<open>The fields drop after the body of \<open>Drop\<close>, the scalers among them.\<close>

definition encoder_drop :: "video_encoder \<Rightarrow> ffi \<Rightarrow> ffi" where
  "encoder_drop e w =
     (let w = (if ve_format_ctx e \<noteq> 0 then
                 let w = (if ve_header_written e then call (Call ''av_write_trailer'' [P (ve_format_ctx e)]) w else w);
                     w = (if ve_pb e \<noteq> 0 then call (Release ''avio_context_free'' (ve_pb e)) w else w)
                 in call (Release ''avformat_free_context'' (ve_format_ctx e)) w else w);
          w = (if ve_codec_ctx e \<noteq> 0 then call (Release ''avcodec_free_context'' (ve_codec_ctx e)) w else w);
          w = (if ve_packet e \<noteq> 0 then call (Release ''av_packet_free'' (ve_packet e)) w else w);
          w = (if ve_hw_device e \<noteq> 0 then call (Release ''av_buffer_unref'' (ve_hw_device e)) w else w)
      in case ve_scalers e of Some s \<Rightarrow> scalers_drop s w | None \<Rightarrow> w)"

definition encoder_blank ::
  "usize \<Rightarrow> usize \<Rightarrow> usize \<Rightarrow> usize \<Rightarrow> nanos \<Rightarrow> encoder_options \<Rightarrow> video_encoder" where
  "encoder_blank width_in height_in width_out height_out now options =
     \<lparr>ve_format_ctx = 0, ve_pb = 0, ve_codec_ctx = 0, ve_frame = 0, ve_scalers = None,
      ve_hw_device = 0, ve_packet = 0, ve_width_in = width_in, ve_height_in = height_in,
      ve_width_out = width_out, ve_height_out = height_out, ve_start = now,
      ve_codec_string = [], ve_codec = op_codec options, ve_pending_pts = None,
      ve_force_keyframe = True, ve_header_written = False\<rparr>"

definition encoder_new_with ::
  "(video_encoder \<Rightarrow> ffi \<Rightarrow> (string + unit) \<times> video_encoder \<times> ffi)
     \<Rightarrow> usize \<Rightarrow> usize \<Rightarrow> usize \<Rightarrow> usize \<Rightarrow> nanos \<Rightarrow> encoder_options \<Rightarrow> ffi
     \<Rightarrow> (string + video_encoder) \<times> ffi" where
  "encoder_new_with pick width_in height_in width_out height_out now options w =
     (let width_out = width_out - width_out mod 2;
          height_out = height_out - height_out mod 2
      in if width_out \<le> 1 \<or> height_out \<le> 1
         then (Inl (''Invalid size for video: width = '' @ dec width_out @ '', height = '' @ dec height_out), w)
         else (case open_video_with pick options
                 (encoder_blank width_in height_in width_out height_out now options) w of
                 (Inr _, e, w) \<Rightarrow> (Inr e, w)
               | (Inl err, e, w) \<Rightarrow> (Inl err, encoder_drop e w)))"

definition encoder_new ::
  "ffi_env \<Rightarrow> string option \<Rightarrow> usize \<Rightarrow> usize \<Rightarrow> usize \<Rightarrow> usize \<Rightarrow> nanos \<Rightarrow> encoder_options \<Rightarrow> ffi
     \<Rightarrow> (string + video_encoder) \<times> ffi" where
  "encoder_new env device width_in height_in width_out height_out now options =
     encoder_new_with (choose_codec env device options) width_in height_in width_out height_out now options"

lemmas open_video_defs = open_video_def open_video_with_def
lemmas encoder_new_defs = encoder_new_def encoder_new_with_def open_video_def [symmetric]

section \<open>Encoding\<close>

definition ve_codec_string_of :: "video_encoder \<Rightarrow> string" where
  "ve_codec_string_of e = ve_codec_string e"

definition ve_set_next_pts :: "int \<Rightarrow> video_encoder \<Rightarrow> video_encoder" where
  "ve_set_next_pts pts e = e\<lparr>ve_pending_pts := Some pts\<rparr>"

definition ve_request_keyframe :: "video_encoder \<Rightarrow> video_encoder" where
  "ve_request_keyframe e = e\<lparr>ve_force_keyframe := True\<rparr>"

definition check_size :: "video_encoder \<Rightarrow> usize \<Rightarrow> usize \<Rightarrow> usize \<Rightarrow> usize \<Rightarrow> bool" where
  "check_size e width_in height_in width_out height_out \<longleftrightarrow>
     ve_width_in e = width_in \<and> ve_height_in e = height_in
     \<and> ve_width_out e = width_out \<and> ve_height_out e = height_out"

text \<open>\<open>priv_data\<close> option and \<open>global_quality = qp * FF_QP2LAMBDA\<close>.\<close>

definition ve_set_quality :: "u32 \<Rightarrow> video_encoder \<Rightarrow> ffi \<Rightarrow> ffi" where
  "ve_set_quality qp e w =
     (let qp = min qp 51 in
      if ve_codec_ctx e = 0 then w
      else calls [Call ''av_opt_set'' [P (ve_codec_ctx e), S ''qp'', S (dec qp)],
                  Call ''set global_quality * FF_QP2LAMBDA'' [P (ve_codec_ctx e), I (int qp)]] w)"

text \<open>The size check of an arm of \<open>encode\<close>: the bytes it requires and the line size, both with the
  wrap-around of the release build, and the scaler it selects.\<close>

definition frame_layout :: "pixel_provider \<Rightarrow> usize \<times> usize \<times> (scalers \<Rightarrow> scale_context)" where
  "frame_layout p = (case p of
      BGR0 w h _ \<Rightarrow> (usize_mul (usize_mul w h) 4, usize_mul w 4, sl_bgr0)
    | BGR0S _ h stride _ \<Rightarrow> (usize_mul stride h, stride, sl_bgr0)
    | RGB w h _ \<Rightarrow> (usize_mul (usize_mul w h) 3, usize_mul w 3, sl_rgb)
    | RGB0 w h _ \<Rightarrow> (usize_mul (usize_mul w h) 4, usize_mul w 4, sl_rgb0))"

text \<open>The scaler with its input frame pointed at the caller's bytes, or \<open>None\<close> when there are too few.\<close>

definition place_frame :: "pixel_provider \<Rightarrow> scalers \<Rightarrow> ffi \<Rightarrow> (scale_context \<times> ffi) option" where
  "place_frame p s w =
     (let (expected, linesize, sel) = frame_layout p in
      if length (provider_bytes p) < expected then None
      else Some (sel s, call (Call ''set data/linesize'' [P (sx_frame_in (sel s)), I (to_c_int linesize),
                                I (int (length (provider_bytes p)))]) w))"

fun packet_loop :: "nat \<Rightarrow> video_encoder \<Rightarrow> ffi \<Rightarrow> (string + unit) option \<times> ffi" where
  "packet_loop 0 e w = (None, w)"
| "packet_loop (Suc n) e w =
     (let (ret, w) = ask (Call ''avcodec_receive_packet'' [P (ve_codec_ctx e), P (ve_packet e)]) w
      in if ret = averror EAGAIN \<or> ret = AVERROR_EOF then (Some (Inr ()), w)
         else if ret < 0 then (Some (Inl ''Error during encoding''), w)
         else packet_loop n e
                (calls [Call ''av_packet_rescale_ts'' [P (ve_packet e)],
                        Call ''av_write_frame'' [P (ve_format_ctx e), P (ve_packet e)],
                        Call ''av_packet_unref'' [P (ve_packet e)],
                        Call ''av_write_frame'' [P (ve_format_ctx e), P 0]] w))"

definition mark_frame :: "nanos \<Rightarrow> video_encoder \<Rightarrow> ffi \<Rightarrow> video_encoder \<times> ffi" where
  "mark_frame now e w =
     (let pts = (case ve_pending_pts e of Some p \<Rightarrow> p | None \<Rightarrow> int (as_millis (now - ve_start e)));
          pict = (if ve_force_keyframe e then ''I'' else ''NONE'')
      in (e\<lparr>ve_pending_pts := None, ve_force_keyframe := False\<rparr>,
          call (Call ''set pts/pict_type/key'' [P (ve_frame e), I pts, S pict]) w))"

definition ve_encode_frame ::
  "nat \<Rightarrow> nanos \<Rightarrow> video_encoder \<Rightarrow> ffi \<Rightarrow> (string + unit) option \<times> video_encoder \<times> ffi" where
  "ve_encode_frame fuel now e w =
     (if ve_frame e = 0 then (Some (Inl ''Frame not initialized''), e, w)
      else
        let (e, w) = mark_frame now e w;
            (ret, w) = ask (Call ''avcodec_send_frame'' [P (ve_codec_ctx e), P (ve_frame e)]) w
        in if ret < 0 then (Some (Inl ''Error sending frame for encoding''), e, w)
           else let (r, w) = packet_loop fuel e w in (r, e, w))"

text \<open>\<open>encode\<close>; errors are only logged.\<close>

definition ve_encode ::
  "nat \<Rightarrow> nanos \<Rightarrow> pixel_provider \<Rightarrow> video_encoder \<Rightarrow> ffi \<Rightarrow> video_encoder \<times> ffi" where
  "ve_encode fuel now p e w = (case ve_scalers e of
      None \<Rightarrow> (e, w)
    | Some s \<Rightarrow>
        (case place_frame p s w of
           None \<Rightarrow> (e, w)
         | Some (sx, w) \<Rightarrow>
             (case scale fuel sx w of
                (Some (Inr _), w) \<Rightarrow>
                  let (_, e, w) = ve_encode_frame fuel now (e\<lparr>ve_frame := sx_frame_out sx\<rparr>) w in (e, w)
              | (_, w) \<Rightarrow> (e, w))))"

end
