(* ===== verification/ServerLifecycle.thy ===== *)
theory ServerLifecycle
  imports ServerLoop TlsSetup Mdns ConfigModel VideoEncoder
begin

text \<open>
  Starting and stopping the server: \<open>Rylus\<close> of \<open>crates/rylus-server/src/rylus.rs\<close> (\<open>new\<close>, \<open>start\<close>,
  \<open>stop\<close>, \<open>wait\<close>), with the choice of the TLS configuration and the encoder options on Linux.  The web
  thread is the machine of \<open>ServerLoop\<close>; the permit of \<open>notify_shutdown\<close> lives in it while it exists and in
  \<open>ry_notify\<close> otherwise.
\<close>

section \<open>Options\<close>

definition start_encoder_options :: "config \<Rightarrow> encoder_options" where
  "start_encoder_options c = options_default\<lparr>op_try_vaapi := config.try_vaapi c, op_try_nvenc := config.try_nvenc c,
     op_try_videotoolbox := False, op_try_mediafoundation := False\<rparr>"

text \<open>\<open>Path::new\<close> and \<open>Path::components\<close>: empty components and dots after the first are dropped.\<close>

definition path_of :: "string \<Rightarrow> path" where
  "path_of s =
     (let absolute = (case s of c # _ \<Rightarrow> c = CHR ''/'' | [] \<Rightarrow> False)
      in Path absolute (case filter (\<lambda>c. c \<noteq> []) (split_on CHR ''/'' s) of
           [] \<Rightarrow> []
         | c # cs \<Rightarrow> (if c = ''.'' \<and> absolute then [] else [c]) @ filter (\<lambda>c. c \<noteq> ''.'') cs))"

definition path_join :: "path \<Rightarrow> string \<Rightarrow> path" where
  "path_join p name = Path (path_absolute p) (path_names p @ [name])"

text \<open>The match on \<open>config.resolve_tls_mode()\<close>; \<open>state_dir\<close> and \<open>config_dir\<close> are those of \<open>dirs\<close>.\<close>

definition start_tls ::
  "tls_io \<Rightarrow> string + byte list \<times> byte list \<Rightarrow> (byte list \<Rightarrow> byte list \<Rightarrow> string + 'cfg)
     \<Rightarrow> path option \<Rightarrow> path option \<Rightarrow> config \<Rightarrow> disk \<Rightarrow> 'cfg option \<times> disk" where
  "start_tls io generated build state_dir config_dir c d =
     (let load = (\<lambda>cert_path key_path.
            case load_or_generate_cert io generated build cert_path key_path d of
              (Inr cfg, d) \<Rightarrow> (Some cfg, d) | (Inl e, d) \<Rightarrow> (None, d))
      in case resolve_tls_mode c of
           TlsDisabled \<Rightarrow> (None, d)
         | TlsAuto \<Rightarrow>
             let base = (case state_dir of Some p \<Rightarrow> p | None \<Rightarrow>
                           (case config_dir of Some p \<Rightarrow> p | None \<Rightarrow> path_of ''.''));
                 cert_dir = path_join base ''rylus''
             in load (path_join cert_dir ''cert-v2.der'') (path_join cert_dir ''key-v2.der'')
         | TlsCertified \<Rightarrow>
             let cert_path = (case tls_cert_path c of Some p \<Rightarrow> p | None \<Rightarrow> []);
                 key_path = (case tls_key_path c of Some p \<Rightarrow> p | None \<Rightarrow> [])
             in if cert_path = [] \<or> key_path = [] then (None, d)
                else load (path_of cert_path) (path_of key_path))"

section \<open>The server value\<close>

record rylus =
  ry_notify :: bool
  ry_server :: "server option"
  ry_ui :: bool
  ry_mdns :: "mdns_publisher option"

definition rylus_new :: rylus where
  "rylus_new = \<lparr>ry_notify = False, ry_server = None, ry_ui = False, ry_mdns = None\<rparr>"

text \<open>\<open>start\<close> waits for the start-up message, so the machine has bound or failed when it returns; \<open>tls\<close> is
  whether \<open>start_tls\<close> gave a configuration.\<close>

definition rylus_start ::
  "bool \<Rightarrow> bool \<Rightarrow> mdns_env \<Rightarrow> string \<Rightarrow> config \<Rightarrow> rylus \<Rightarrow> bool \<times> rylus" where
  "rylus_start bind_ok tls env suffix c r =
     (let s = server_bind bind_ok (server_init tls (ry_notify r))
      in if sv_startup s \<noteq> Some StartupStart then (False, r)
         else
           let r = r\<lparr>ry_server := Some s, ry_notify := False, ry_ui := True\<rparr>
           in if no_mdns c then (True, r)
              else (case mdns_register env suffix (web_port c) None publisher_new of
                      (Inl e, p) \<Rightarrow> (True, r)
                    | (Inr _, p) \<Rightarrow> (True, r\<lparr>ry_mdns := Some p\<rparr>)))"

text \<open>\<open>stop\<close> up to \<open>wait\<close>: the announcement goes first, then the notification.\<close>

definition rylus_stop :: "rylus \<Rightarrow> rylus" where
  "rylus_stop r =
     (let r = r\<lparr>ry_mdns := None\<rparr>
      in case ry_server r of
           Some s \<Rightarrow> r\<lparr>ry_server := Some (s\<lparr>sv_notify := True\<rparr>)\<rparr>
         | None \<Rightarrow> r\<lparr>ry_notify := True\<rparr>)"

text \<open>The calls the publisher makes when it is taken and unregistered.\<close>

definition rylus_stop_mdns :: "rylus \<Rightarrow> mdns_call list" where
  "rylus_stop_mdns r = (case ry_mdns r of
      Some p \<Rightarrow> drop (length (mp_calls p)) (mp_calls (mdns_unregister p)) | None \<Rightarrow> [])"

text \<open>\<open>wait\<close>: \<open>None\<close> while a join blocks.  The interface thread ends with the last sender, which client
  handlers hold too.\<close>

definition rylus_wait :: "rylus \<Rightarrow> rylus option" where
  "rylus_wait r = (case ry_server r of
      None \<Rightarrow> Some (r\<lparr>ry_ui := False\<rparr>)
    | Some s \<Rightarrow>
        if sv_pc s = SvEnded \<and> sv_clients s = 0
        then Some (r\<lparr>ry_server := None, ry_notify := sv_notify s, ry_ui := False\<rparr>)
        else None)"

section \<open>Facts\<close>

lemma start_refused:
  "rylus_start bind_ok tls env suffix c r = (False, r') \<Longrightarrow> r' = r \<and> \<not> bind_ok"
  by (auto simp: rylus_start_def server_bind_def Let_def split: if_splits sum.splits prod.splits)

lemma start_accepted:
  assumes "rylus_start bind_ok tls env suffix c r = (True, r')"
  obtains s where "ry_server r' = Some s" "sv_pc s = SvAccept" "sv_tls s = tls" "server_reach s"
    "sv_notify s = ry_notify r" "ry_ui r'" "ry_mdns r' = ry_mdns r \<or> (\<exists>p. ry_mdns r' = Some p \<and> is_registered p)"
proof -
  let ?s = "server_bind True (server_init tls (ry_notify r))"
  have b: "bind_ok" using assms by (auto simp: rylus_start_def server_bind_def Let_def split: if_splits)
  have own: "server_own (server_init tls (ry_notify r)) ?s"
    by (rule server_own.Bind) (simp add: server_init_def)
  have reach: "server_reach ?s" by (rule server_reach.Own [OF server_reach.Init own])
  have reg: "is_registered p" if "mdns_register env suffix (web_port c) None publisher_new = (Inr u, p)" for u p
    using register_then_unregister [of env suffix "web_port c" None publisher_new p] that by auto
  have "ry_server r' = Some ?s" "ry_ui r'" "ry_mdns r' = ry_mdns r \<or> (\<exists>p. ry_mdns r' = Some p \<and> is_registered p)"
    using assms b reg by (auto simp: rylus_start_def Let_def server_bind_def split: if_splits sum.splits prod.splits)
  then show ?thesis using that reach by (simp add: server_bind_def server_init_def)
qed

text \<open>A server that was stopped while idle keeps the permit, and the next start shuts down by itself.\<close>

lemma idle_stop_poisons:
  assumes "ry_server r = None" "rylus_start True tls env suffix c (rylus_stop r) = (b, r')"
  obtains s where "ry_server r' = Some s" "server_own s (server_shutdown s)"
proof -
  have b: "b" using assms(2) by (auto simp: rylus_start_def server_bind_def Let_def split: sum.splits prod.splits if_splits)
  obtain s where s: "ry_server r' = Some s" "sv_pc s = SvAccept" "sv_notify s = ry_notify (rylus_stop r)"
    using start_accepted [of True tls env suffix c "rylus_stop r" r'] assms(2) b by metis
  have "ry_notify (rylus_stop r)" using assms(1) by (simp add: rylus_stop_def)
  then have "server_own s (server_shutdown s)" using s by (intro server_own.Shutdown) simp_all
  then show ?thesis using s that by blast
qed

lemma certified_without_paths:
  "resolve_tls_mode c = TlsCertified \<Longrightarrow> tls_cert_path c = None \<or> tls_key_path c = None \<Longrightarrow>
     start_tls io g build sd cd c d = (None, d)"
  by (auto simp: start_tls_def Let_def)

end
