(* ===== verification/EntryPoint.thy ===== *)
theory EntryPoint
  imports ServerLifecycle
begin

text \<open>
  The entry point \<open>crates/rylus-server/src/main.rs\<close>: which of its actions the configuration selects,
  and the reaction of the headless server to signals.
\<close>

section \<open>main\<close>

datatype main_action =
    PrintCompletions string
  | PrintManPage
  | PrintIndexHtml
  | PrintAccessHtml
  | PrintStyleCss
  | PrintLibJs
  | RunSelfTest
  | RunGui
  | RunHeadless

text \<open>\<open>gui\<close>: built with the feature \<open>gui\<close>.\<close>

definition select_action :: "bool \<Rightarrow> config \<Rightarrow> main_action" where
  "select_action gui conf = (case completions conf of
      Some shell \<Rightarrow> PrintCompletions shell
    | None \<Rightarrow>
        if print_man_page conf then PrintManPage
        else if print_index_html conf then PrintIndexHtml
        else if print_access_html conf then PrintAccessHtml
        else if print_style_css conf then PrintStyleCss
        else if print_lib_js conf then PrintLibJs
        else if self_test conf then RunSelfTest
        else if gui \<and> \<not> no_gui conf then RunGui
        else RunHeadless)"

section \<open>run_headless\<close>

text \<open>The main thread waits for a signal, then stops the server while a second thread waits for another
  one.  \<open>HlExit\<close> carries the exit status.\<close>

datatype headless = HlServing rylus | HlStopping rylus | HlExit nat

definition headless_start :: "bool \<times> rylus \<Rightarrow> headless" where
  "headless_start started = (if fst started then HlServing (snd started) else HlExit 1)"

definition headless_signal :: "headless \<Rightarrow> headless" where
  "headless_signal h = (case h of
      HlServing r \<Rightarrow> HlStopping (rylus_stop r)
    | HlStopping r \<Rightarrow> HlExit 1
    | HlExit n \<Rightarrow> HlExit n)"

text \<open>\<open>wait\<close> returning in \<open>stop\<close>, then the end of \<open>main\<close>.\<close>

definition headless_joined :: "headless \<Rightarrow> headless" where
  "headless_joined h = (case h of
      HlStopping r \<Rightarrow> (case rylus_wait r of Some _ \<Rightarrow> HlExit 0 | None \<Rightarrow> HlStopping r)
    | _ \<Rightarrow> h)"

text \<open>A clean exit follows only a server whose loop has returned with no client left; a second signal does
  not wait for that.\<close>

lemma clean_exit:
  assumes "headless_joined h = HlExit 0" "h \<noteq> HlExit 0"
  obtains r where "h = HlStopping r"
    "\<And>s. ry_server r = Some s \<Longrightarrow> sv_pc s = SvEnded \<and> sv_clients s = 0"
  using assms that
  by (cases h) (auto simp: headless_joined_def rylus_wait_def split: option.splits if_splits)

end
