(* ===== verification/CaptureLoop.thy ===== *)
theory CaptureLoop
  imports Quality Pixel Protocol
begin

text \<open>
  The capture thread of \<open>crates/rylus-server/src/session.rs\<close> (\<open>handle_video\<close>): its local variables
  as one record and one definition per stretch of the loop body.  What the thread observes, the
  clock, the result of creating or running a recorder, the encode thread's published duration,
  is an argument of the stretch that reads it; the channel to the encode thread and the
  interleaving with it are in \<open>Pipeline\<close>.  A recorder is a value of a type variable.

  Arithmetic is that of the release build: \<open>frames_passed + 1\<close> wraps at \<open>2 ^ 32\<close> (a debug build
  panics there), \<open>as u32\<close> saturates.
\<close>

section \<open>Commands\<close>

record 'c video_config =
  vc_capturable :: 'c
  vc_capture_cursor :: bool
  vc_max_width :: usize
  vc_max_height :: usize
  vc_frame_rate :: f64

datatype 'c video_command =
    VStart "'c video_config"
  | VPause
  | VResume
  | VRestart
  | VBufferHealth f64
  | VRequestKeyframe
  | VClientRtt u32

text \<open>\<open>Frame { pixel_data, capture_start, queued_at, keyframe, qp }\<close>.\<close>

datatype encode_command =
    EncFrame owned_pixel_data nanos nanos bool "u32 option"
  | EncRestart usize usize usize usize
  | EncStop

section \<open>State\<close>

definition EFFECTIVE_INFINITY :: nanos where
  "EFFECTIVE_INFINITY = secs (3600 * 24 * 365 * 200)"

definition MAX_CAPTURE_FAILURES :: u32 where "MAX_CAPTURE_FAILURES = 30"

record 'r capture_state =
  cs_recorder :: "'r option"
  cs_max_width :: usize
  cs_max_height :: usize
  cs_frame_duration :: nanos
  cs_last_frame :: nanos
  cs_paused :: bool
  cs_pending_keyframe :: bool
  cs_pending_qp :: "u32 option"
  cs_quality :: quality
  cs_enc_width_in :: usize
  cs_enc_height_in :: usize
  cs_enc_width_out :: usize
  cs_enc_height_out :: usize
  cs_frames_total :: u64
  cs_frames_dropped :: u64
  cs_failures :: u32
  cs_last_stats :: nanos
  cs_spare :: "byte list option"

definition cs_init :: "nanos \<Rightarrow> 'r capture_state" where
  "cs_init now = \<lparr>cs_recorder = None, cs_max_width = 1920, cs_max_height = 1080,
     cs_frame_duration = EFFECTIVE_INFINITY, cs_last_frame = now, cs_paused = False,
     cs_pending_keyframe = False, cs_pending_qp = None, cs_quality = q_new,
     cs_enc_width_in = 0, cs_enc_height_in = 0, cs_enc_width_out = 0, cs_enc_height_out = 0,
     cs_frames_total = 0, cs_frames_dropped = 0, cs_failures = 0, cs_last_stats = now,
     cs_spare = None\<rparr>"

section \<open>Pacing\<close>

definition frames_passed :: "nanos \<Rightarrow> nanos \<Rightarrow> nanos \<Rightarrow> u32" where
  "frames_passed now last_frame frame_duration =
     f_as_u32 (fdiv (as_secs_f64 (now - last_frame)) (as_secs_f64 frame_duration))"

definition next_frame :: "nanos \<Rightarrow> nanos \<Rightarrow> nanos \<Rightarrow> nanos" where
  "next_frame now last_frame frame_duration =
     last_frame + (frames_passed now last_frame frame_duration + 1) mod 2 ^ 32 * frame_duration"

text \<open>The head of the loop: the next deadline, the receive timeout and the pacing drops.\<close>

definition pacing :: "nanos \<Rightarrow> 'r capture_state \<Rightarrow> nanos \<times> nanos \<times> 'r capture_state" where
  "pacing now s =
     (let passed = frames_passed now (cs_last_frame s) (cs_frame_duration s);
          next = next_frame now (cs_last_frame s) (cs_frame_duration s);
          timeout = next - now;
          s = (if passed > 0
               then s\<lparr>cs_frames_dropped := cs_frames_dropped s + passed,
                      cs_frames_total := cs_frames_total s + passed\<rparr> else s)
      in (next, if cs_paused s then EFFECTIVE_INFINITY else timeout, s))"

section \<open>Commands from the client handler\<close>

text \<open>\<open>Duration::from_secs_f64\<close> panics on a value of \<open>2 ^ 64\<close> seconds or more, before the \<open>min\<close>:
  \<open>None\<close>.\<close>

definition frame_duration_of :: "f64 \<Rightarrow> nanos option" where
  "frame_duration_of frame_rate = (case fdiv (Fin 1) frame_rate of
      Fin d \<Rightarrow> if d > 0
                then if d \<ge> 2 ^ 64 then None else Some (min (from_secs_f64 d) EFFECTIVE_INFINITY)
                else Some EFFECTIVE_INFINITY
    | _ \<Rightarrow> Some EFFECTIVE_INFINITY)"

text \<open>\<open>created\<close> is the result of \<open>capturable.recorder(..)\<close>, \<open>now\<close> the clock after it.\<close>

definition on_start ::
  "'c video_config \<Rightarrow> string + 'r \<Rightarrow> nanos \<Rightarrow> 'r capture_state
     \<Rightarrow> message_outbound list \<times> 'r capture_state option" where
  "on_start config created now s =
     (let s = s\<lparr>cs_recorder := None\<rparr>;
          (msg, s) = (case created of
             Inr r \<Rightarrow> (ConfigOk, s\<lparr>cs_recorder := Some r, cs_max_width := vc_max_width config,
                                  cs_max_height := vc_max_height config\<rparr>)
           | Inl err \<Rightarrow> (Error ''Failed to init screen cast!'', s));
          s = s\<lparr>cs_last_frame := now, cs_enc_width_in := 0\<rparr>
      in ([msg], map_option (\<lambda>d. s\<lparr>cs_frame_duration := d\<rparr>)
                   (frame_duration_of (vc_frame_rate config))))"

text \<open>\<open>None\<close>: the thread has panicked.\<close>

fun on_command ::
  "'c video_command \<Rightarrow> string + 'r \<Rightarrow> nanos \<Rightarrow> 'r capture_state
     \<Rightarrow> message_outbound list \<times> 'r capture_state option" where
  "on_command (VStart config) created now s = on_start config created now s"
| "on_command VPause _ _ s = ([], Some (s\<lparr>cs_paused := True\<rparr>))"
| "on_command VResume _ _ s = ([], Some (s\<lparr>cs_paused := False\<rparr>))"
| "on_command VRestart _ _ s =
     ([], Some (s\<lparr>cs_enc_width_in := 0, cs_quality := q_reset (cs_quality s)\<rparr>))"
| "on_command (VBufferHealth b) _ _ s =
     ([], Some (s\<lparr>cs_quality := q_set_buffer_health (cs_quality s) b\<rparr>))"
| "on_command VRequestKeyframe _ _ s = ([], Some (s\<lparr>cs_pending_keyframe := True\<rparr>))"
| "on_command (VClientRtt rtt) _ _ s =
     ([], Some (s\<lparr>cs_quality := q_set_rtt_ms (cs_quality s) rtt\<rparr>))"

section \<open>A tick\<close>

text \<open>The capture itself: \<open>captured\<close> is the result of \<open>Recorder::capture\<close> and \<open>r'\<close> the recorder after it.
  \<open>None\<close> ends the iteration.  (The message text has an em dash where the model has a hyphen.)\<close>

definition on_capture ::
  "nanos \<Rightarrow> (string + pixel_provider) \<Rightarrow> 'r \<Rightarrow> 'r capture_state
     \<Rightarrow> message_outbound list \<times> pixel_provider option \<times> 'r capture_state" where
  "on_capture next captured r' s =
     (let s = s\<lparr>cs_last_frame := next\<rparr> in
      case cs_recorder s of
        None \<Rightarrow> ([], None, s)
      | Some _ \<Rightarrow>
          (case captured of
             Inr p \<Rightarrow> ([], Some p, s\<lparr>cs_recorder := Some r', cs_failures := 0\<rparr>)
           | Inl err \<Rightarrow>
               let s = s\<lparr>cs_failures := cs_failures s + 1\<rparr>
               in if cs_failures s \<ge> MAX_CAPTURE_FAILURES
                  then ([Error ''Screen capture lost - please reconnect.''], None,
                        s\<lparr>cs_recorder := None\<rparr>)
                  else ([], None, s\<lparr>cs_recorder := Some r'\<rparr>)))"

text \<open>The output size: fit into the client's maximum and into 3840x2160, never enlarge.\<close>

definition out_scale :: "usize \<Rightarrow> usize \<Rightarrow> usize \<Rightarrow> usize \<Rightarrow> f64" where
  "out_scale max_width max_height width_in height_in =
     fmin (fmin (fdiv (f_of_nat max_width) (f_of_nat width_in))
                (fdiv (f_of_nat max_height) (f_of_nat height_in)))
          (fmin (fdiv (Fin 3840) (f_of_nat width_in)) (fdiv (Fin 2160) (f_of_nat height_in)))"

definition out_size :: "usize \<Rightarrow> usize \<Rightarrow> usize \<Rightarrow> usize \<Rightarrow> usize \<times> usize" where
  "out_size max_width max_height width_in height_in =
     (let scale = out_scale max_width max_height width_in height_in
      in if flt scale (Fin 1)
         then (max (f_as_usize (fmul (f_of_nat width_in) scale)) 1,
               max (f_as_usize (fmul (f_of_nat height_in) scale)) 1)
         else (width_in, height_in))"

text \<open>The restart check; the command is sent blocking.\<close>

definition on_size ::
  "usize \<times> usize \<Rightarrow> 'r capture_state \<Rightarrow> encode_command option \<times> 'r capture_state" where
  "on_size dims s =
     (let (width_in, height_in) = dims;
          (width_out, height_out) = out_size (cs_max_width s) (cs_max_height s) width_in height_in;
          needs_restart = (cs_enc_width_in s \<noteq> width_in \<or> cs_enc_height_in s \<noteq> height_in
             \<or> cs_enc_width_out s \<noteq> width_out \<or> cs_enc_height_out s \<noteq> height_out)
      in if needs_restart
         then (Some (EncRestart width_in height_in width_out height_out),
               s\<lparr>cs_enc_width_in := width_in, cs_enc_height_in := height_in,
                 cs_enc_width_out := width_out, cs_enc_height_out := height_out\<rparr>)
         else (None, s))"

text \<open>The frame that is offered to the encoder; \<open>returned\<close> is \<open>buffer_return_rx.try_recv().ok()\<close>, read
  only when there is no spare buffer.\<close>

definition make_frame ::
  "pixel_provider \<Rightarrow> byte list option \<Rightarrow> nanos \<Rightarrow> nanos \<Rightarrow> 'r capture_state
     \<Rightarrow> encode_command \<times> 'r capture_state" where
  "make_frame p returned capture_start queued_at s =
     (let recycled = (case cs_spare s of
            Some b \<Rightarrow> b
          | None \<Rightarrow> (case returned of Some b \<Rightarrow> b | None \<Rightarrow> []));
          owned = to_owned_reusing p recycled
      in (EncFrame owned capture_start queued_at (cs_pending_keyframe s) (cs_pending_qp s),
          s\<lparr>cs_spare := None, cs_pending_qp := None,
            cs_frames_total := cs_frames_total s + 1\<rparr>))"

definition on_sent :: "u64 \<Rightarrow> 'r capture_state \<Rightarrow> 'r capture_state" where
  "on_sent last_encode_nanos s =
     (let s = s\<lparr>cs_pending_keyframe := False\<rparr>;
          encode_secs = fdiv (f_of_nat last_encode_nanos) (Fin 1000000000)
      in if flt (Fin 0) encode_secs
         then s\<lparr>cs_quality := q_record_encode_time (cs_quality s) encode_secs\<rparr> else s)"

text \<open>The encoder is busy: the command comes back and what it carried stays pending.\<close>

definition on_full :: "encode_command \<Rightarrow> 'r capture_state \<Rightarrow> 'r capture_state" where
  "on_full cmd s = (case cmd of
      EncFrame pixel_data _ _ keyframe qp \<Rightarrow>
        s\<lparr>cs_spare := Some (into_buffer pixel_data),
          cs_pending_keyframe := keyframe,
          cs_pending_qp := (if qp \<noteq> None then qp else cs_pending_qp s),
          cs_frames_dropped := cs_frames_dropped s + 1,
          cs_quality := q_record_encode_time (cs_quality s) (as_secs_f64 (cs_frame_duration s))\<rparr>
    | _ \<Rightarrow> s\<lparr>cs_frames_dropped := cs_frames_dropped s + 1\<rparr>)"

text \<open>The statistics every five seconds, then the quality decision.\<close>

definition on_stats :: "nanos \<Rightarrow> 'r capture_state \<Rightarrow> 'r capture_state" where
  "on_stats now s =
     (if now - cs_last_stats s \<ge> secs 5 \<and> cs_frames_total s > 0
      then s\<lparr>cs_frames_total := 0, cs_frames_dropped := 0, cs_last_stats := now\<rparr> else s)"

definition on_decide :: "'r capture_state \<Rightarrow> 'r capture_state" where
  "on_decide s =
     (case q_decide (cs_quality s) (as_secs_f64 (cs_frame_duration s)) of
        (q, Some new_qp) \<Rightarrow> s\<lparr>cs_quality := q, cs_pending_qp := Some new_qp\<rparr>
      | (q, None) \<Rightarrow> s\<lparr>cs_quality := q\<rparr>)"

section \<open>Pacing facts\<close>

lemma frames_passed_eq:
  "0 < d \<Longrightarrow> frames_passed now lst d = min 4294967295 ((now - lst) div d)"
  by (simp add: frames_passed_def f_as_u32_of_quotient)

text \<open>As long as fewer than \<open>2 ^ 32 - 1\<close> periods were missed, the deadline is the first frame time after
  now, at most one period away and on the grid of the last one.\<close>

lemma next_frame_grid:
  assumes "0 < d" "lst \<le> now" "(now - lst) div d < 4294967295"
  shows "now < next_frame now lst d \<and> next_frame now lst d \<le> now + d
     \<and> next_frame now lst d = lst + ((now - lst) div d + 1) * d"
proof -
  let ?e = "now - lst"
  have p: "frames_passed now lst d = ?e div d" using assms by (simp add: frames_passed_eq)
  have n: "next_frame now lst d = lst + (?e div d + 1) * d"
    using assms(3) by (simp add: next_frame_def p)
  have "?e div d * d + ?e mod d = ?e" by simp
  moreover have "?e mod d < d" using assms(1) by simp
  moreover have "(?e div d + 1) * d = ?e div d * d + d" by (simp only: add_mult_distrib mult_1)
  ultimately have "?e < (?e div d + 1) * d" "(?e div d + 1) * d \<le> ?e + d" by linarith+
  then show ?thesis using n assms(2) by linarith
qed

text \<open>A zero period (a frame rate of more than two per nanosecond) never advances the deadline and counts
  \<open>u32::MAX\<close> frames as dropped in every iteration.\<close>

lemma zero_period:
  assumes "lst < now"
  shows "frames_passed now lst 0 = 4294967295" "next_frame now lst 0 = lst"
proof -
  have "fdiv (as_secs_f64 (now - lst)) (as_secs_f64 0) = PInf"
    using assms by (simp add: as_secs_f64_def finf_def)
  then show p: "frames_passed now lst 0 = 4294967295"
    by (simp add: frames_passed_def f_as_u32_def)
  show "next_frame now lst 0 = lst" by (simp add: next_frame_def)
qed

section \<open>Output size\<close>

lemma fmin_Fin: "fmin (Fin a) (Fin b) = Fin (min a b)"
  by (simp add: fmin_def min_def)

lemma out_scale_Fin:
  assumes "0 < w" "0 < h"
  shows "out_scale mw mh w h = Fin (min (min (of_nat mw / of_nat w) (of_nat mh / of_nat h))
                                        (min (3840 / of_nat w) (2160 / of_nat h)))"
  using assms by (simp add: out_scale_def f_of_nat_def fmin_Fin)

lemma scaled_side:
  assumes "0 < w" "0 \<le> s" "s < 1" "s \<le> of_nat m / of_nat w" "s \<le> of_nat n / of_nat w"
    and "w < 2 ^ 64"
  shows "let w' = max (f_as_usize (fmul (f_of_nat w) (Fin s))) 1 in
           1 \<le> w' \<and> w' \<le> w \<and> w' \<le> max m 1 \<and> w' \<le> max n 1"
proof -
  let ?v = "of_nat w * s"
  have bound: "\<lfloor>?v\<rfloor> \<le> int k" if "s \<le> of_nat k / of_nat w" for k
  proof -
    have "?v \<le> of_nat k" using that assms(1) by (simp add: field_simps)
    then show ?thesis by (simp add: floor_le_iff)
  qed
  have w: "\<lfloor>?v\<rfloor> \<le> int w"
  proof -
    have "?v \<le> of_nat w * 1" using assms by (intro mult_left_mono) auto
    then show ?thesis by (simp add: floor_le_iff)
  qed
  have pos: "0 \<le> ?v" using assms(2) by simp
  have "f_as_usize (fmul (f_of_nat w) (Fin s)) = nat \<lfloor>?v\<rfloor>"
  proof -
    have f0: "0 \<le> \<lfloor>?v\<rfloor>" using pos by simp
    have "int w \<le> 18446744073709551615" using assms(6) by simp
    with w have "\<lfloor>?v\<rfloor> \<le> 18446744073709551615" by (rule order.trans)
    then have "max 0 (min 18446744073709551615 \<lfloor>?v\<rfloor>) = \<lfloor>?v\<rfloor>"
      by (simp only: min.absorb2 max.absorb2 [OF f0])
    then show ?thesis using pos by (simp only: f_as_usize_def f_of_nat_def fmul.simps f_as_int.simps
          trunc_rat_floor)
  qed
  moreover have "nat \<lfloor>?v\<rfloor> \<le> w" "nat \<lfloor>?v\<rfloor> \<le> m" "nat \<lfloor>?v\<rfloor> \<le> n"
    using w bound [OF assms(4)] bound [OF assms(5)] by simp_all
  ultimately show ?thesis using assms(1) unfolding Let_def by linarith
qed

lemma out_size_bounds:
  assumes "0 < w" "0 < h" "w < 2 ^ 64" "h < 2 ^ 64" "out_size mw mh w h = (wo, ho)"
  shows "1 \<le> wo \<and> wo \<le> w \<and> wo \<le> max mw 1 \<and> wo \<le> 3840
       \<and> 1 \<le> ho \<and> ho \<le> h \<and> ho \<le> max mh 1 \<and> ho \<le> 2160"
proof -
  let ?s = "min (min (of_nat mw / of_nat w) (of_nat mh / of_nat h))
                (min (3840 / of_nat w) (2160 / of_nat h)) :: rat"
  have sc: "out_scale mw mh w h = Fin ?s" by (rule out_scale_Fin [OF assms(1,2)])
  have s0: "0 \<le> ?s" by simp
  have le: "?s \<le> of_nat mw / of_nat w" "?s \<le> of_nat mh / of_nat h"
    "?s \<le> of_nat 3840 / of_nat w" "?s \<le> of_nat 2160 / of_nat h"
    by (simp_all add: min_le_iff_disj)
  show ?thesis
  proof (cases "?s < 1")
    case True
    then have o: "wo = max (f_as_usize (fmul (f_of_nat w) (Fin ?s))) 1"
      "ho = max (f_as_usize (fmul (f_of_nat h) (Fin ?s))) 1"
      using assms(5) by (simp_all add: out_size_def sc Let_def)
    show ?thesis
      using scaled_side [OF assms(1) s0 True le(1,3) assms(3)]
        scaled_side [OF assms(2) s0 True le(2,4) assms(4)]
      unfolding o Let_def by simp
  next
    case False
    then have o: "wo = w" "ho = h" using assms(5) by (simp_all add: out_size_def sc Let_def)
    have g: "1 \<le> ?s" using False by (simp only: not_less)
    have f: "k \<ge> n" if "?s \<le> of_nat k / of_nat n" "0 < n" for k n :: nat
    proof -
      have "1 \<le> of_nat k / (of_nat n :: rat)" using g that(1) by (rule order.trans)
      then have "(of_nat n :: rat) \<le> of_nat k" using that(2) by (simp add: field_simps)
      then show ?thesis by simp
    qed
    show ?thesis using assms(1,2) f [OF le(1)] f [OF le(2)] f [OF le(3)] f [OF le(4)]
      by (auto simp: o)
  qed
qed

end
