(* ===== verification/Pipeline.thy ===== *)
theory Pipeline
  imports CaptureLoop
begin

text \<open>
  The encode thread of \<open>crates/rylus-server/src/session.rs\<close> (\<open>encode_thread\<close>) and its interleaving
  with the capture thread: the command channel of capacity one, the buffer-return channel of
  capacity two, the published encode duration, and the two program counters.  The encoder is used
  through the record \<open>encoder_ops\<close>; \<open>VideoEncoder\<close> provides it.  Ghost fields remember the
  dimensions the current encoder was created for and every frame that was encoded.
\<close>

section \<open>State\<close>

record 'e encoder_ops =
  eo_new :: "usize \<Rightarrow> usize \<Rightarrow> usize \<Rightarrow> usize \<Rightarrow> string + 'e"
  eo_set_quality :: "u32 \<Rightarrow> 'e \<Rightarrow> 'e"
  eo_request_keyframe :: "'e \<Rightarrow> 'e"
  eo_encode :: "pixel_provider \<Rightarrow> 'e \<Rightarrow> 'e \<times> byte list list"
  eo_codec_string :: "'e \<Rightarrow> string"

type_synonym dims = "usize \<times> usize \<times> usize \<times> usize"

text \<open>\<open>CapRestart cmd p t\<close>: blocked in \<open>encode_tx.send(Restart)\<close>; \<open>CapFrame p t\<close>: about to offer frame \<open>p\<close>
  captured at \<open>t\<close>; \<open>CapStop\<close>: blocked in \<open>encode_tx.send(Stop)\<close>; \<open>CapEnded\<close>: returned or panicked, its
  channel ends are gone.\<close>

datatype cap_pc =
    CapLoop
  | CapRestart encode_command pixel_provider nanos
  | CapFrame pixel_provider nanos
  | CapStop
  | CapEnded

datatype enc_pc = EncWait | EncBusy encode_command | EncEnded

record ('r, 'e) pipeline =
  pl_cap :: "'r capture_state"
  pl_cap_pc :: cap_pc
  pl_chan :: "encode_command list"
  pl_enc_pc :: enc_pc
  pl_encoder :: "'e option"
  pl_returns :: "byte list list"
  pl_nanos :: u64
  pl_out :: "message_outbound list"
  pl_video :: "byte list list"
  pl_dims :: "dims option"
  pl_encoded :: "(dims option \<times> pixel_provider) list"

definition pl_init :: "nanos \<Rightarrow> ('r, 'e) pipeline" where
  "pl_init now = \<lparr>pl_cap = cs_init now, pl_cap_pc = CapLoop, pl_chan = [], pl_enc_pc = EncWait,
     pl_encoder = None, pl_returns = [], pl_nanos = 0, pl_out = [], pl_video = [], pl_dims = None,
     pl_encoded = []\<rparr>"

section \<open>The encode thread\<close>

text \<open>\<open>buffer_return_tx.try_send\<close>: dropped when two buffers wait or the capture thread is gone.\<close>

definition return_buffer :: "byte list \<Rightarrow> ('r, 'e) pipeline \<Rightarrow> ('r, 'e) pipeline" where
  "return_buffer b s =
     (if length (pl_returns s) < 2 \<and> pl_cap_pc s \<noteq> CapEnded
      then s\<lparr>pl_returns := pl_returns s @ [b]\<rparr> else s)"

definition encode_frame ::
  "'e encoder_ops \<Rightarrow> nanos \<Rightarrow> nanos \<Rightarrow> owned_pixel_data \<Rightarrow> bool \<Rightarrow> u32 option
     \<Rightarrow> ('r, 'e) pipeline \<Rightarrow> ('r, 'e) pipeline" where
  "encode_frame ops dequeued_at encode_done pixel_data keyframe qp s = (case pl_encoder s of
      None \<Rightarrow> return_buffer (into_buffer pixel_data) s
    | Some enc \<Rightarrow>
        let enc = (case qp of Some q \<Rightarrow> eo_set_quality ops q enc | None \<Rightarrow> enc);
            enc = (if keyframe then eo_request_keyframe ops enc else enc);
            (enc, sent) = eo_encode ops (as_provider pixel_data) enc
        in return_buffer (into_buffer pixel_data)
             (s\<lparr>pl_encoder := Some enc, pl_video := pl_video s @ sent,
                pl_nanos := (encode_done - dequeued_at) mod 2 ^ 64,
                pl_encoded := pl_encoded s @ [(pl_dims s, as_provider pixel_data)]\<rparr>))"

text \<open>The four numbers of the latency event, in microseconds.\<close>

definition latency_fields :: "nanos \<Rightarrow> nanos \<Rightarrow> nanos \<Rightarrow> nanos \<Rightarrow> u64 \<times> u64 \<times> u64 \<times> u64" where
  "latency_fields capture_start queued_at dequeued_at encode_done =
     ((queued_at - capture_start) div 1000, (dequeued_at - queued_at) div 1000,
      (encode_done - dequeued_at) div 1000, (encode_done - capture_start) div 1000)"

definition encode_restart ::
  "'e encoder_ops \<Rightarrow> usize \<Rightarrow> usize \<Rightarrow> usize \<Rightarrow> usize \<Rightarrow> ('r, 'e) pipeline \<Rightarrow> ('r, 'e) pipeline" where
  "encode_restart ops width_in height_in width_out height_out s =
     (let s = s\<lparr>pl_out := pl_out s @ [NewVideo],
                pl_dims := Some (width_in, height_in, width_out, height_out)\<rparr>
      in case eo_new ops width_in height_in width_out height_out of
           Inr enc \<Rightarrow> s\<lparr>pl_out := pl_out s @ [VideoInit (eo_codec_string ops enc)],
                        pl_encoder := Some enc\<rparr>
         | Inl e \<Rightarrow> s\<lparr>pl_encoder := None\<rparr>)"

definition encode_command_step ::
  "'e encoder_ops \<Rightarrow> nanos \<Rightarrow> nanos \<Rightarrow> encode_command \<Rightarrow> ('r, 'e) pipeline \<Rightarrow> ('r, 'e) pipeline" where
  "encode_command_step ops t0 t1 cmd s = (case cmd of
      EncFrame pixel_data _ _ keyframe qp \<Rightarrow>
        (encode_frame ops t0 t1 pixel_data keyframe qp s)\<lparr>pl_enc_pc := EncWait\<rparr>
    | EncRestart w h wo ho \<Rightarrow> (encode_restart ops w h wo ho s)\<lparr>pl_enc_pc := EncWait\<rparr>
    | EncStop \<Rightarrow> s\<lparr>pl_enc_pc := EncEnded\<rparr>)"

text \<open>\<open>encode_rx.recv()\<close>: the next command, or the end of the loop once the capture thread is gone.\<close>

definition encode_recv :: "('r, 'e) pipeline \<Rightarrow> ('r, 'e) pipeline option" where
  "encode_recv s = (case pl_chan s of
      c # cs \<Rightarrow> Some (s\<lparr>pl_chan := cs, pl_enc_pc := EncBusy c\<rparr>)
    | [] \<Rightarrow> if pl_cap_pc s = CapEnded then Some (s\<lparr>pl_enc_pc := EncEnded\<rparr>) else None)"

section \<open>The capture thread on the channels\<close>

definition cap_command ::
  "nanos \<Rightarrow> 'c video_command \<Rightarrow> string + 'r \<Rightarrow> nanos \<Rightarrow> ('r, 'e) pipeline \<Rightarrow> ('r, 'e) pipeline" where
  "cap_command now cmd created now2 s =
     (let (_, _, c) = pacing now (pl_cap s);
          (msgs, c') = on_command cmd created now2 c;
          s = s\<lparr>pl_out := pl_out s @ msgs\<rparr>
      in case c' of
           Some c \<Rightarrow> s\<lparr>pl_cap := c\<rparr>
         | None \<Rightarrow> s\<lparr>pl_cap_pc := CapEnded\<rparr>)"

definition cap_tick ::
  "nanos \<Rightarrow> string + pixel_provider \<Rightarrow> 'r \<Rightarrow> nanos \<Rightarrow> ('r, 'e) pipeline \<Rightarrow> ('r, 'e) pipeline" where
  "cap_tick now captured r' capture_start s =
     (let (next, _, c) = pacing now (pl_cap s);
          (msgs, p, c) = on_capture next captured r' c;
          s = s\<lparr>pl_out := pl_out s @ msgs\<rparr>
      in case p of
           None \<Rightarrow> s\<lparr>pl_cap := c\<rparr>
         | Some p \<Rightarrow>
             (case on_size (provider_size p) c of
                (Some cmd, c) \<Rightarrow> s\<lparr>pl_cap := c, pl_cap_pc := CapRestart cmd p capture_start\<rparr>
              | (None, c) \<Rightarrow> s\<lparr>pl_cap := c, pl_cap_pc := CapFrame p capture_start\<rparr>))"

text \<open>The blocking send: \<open>None\<close> while the channel is full; its error is ignored.\<close>

definition cap_send_restart :: "('r, 'e) pipeline \<Rightarrow> ('r, 'e) pipeline option" where
  "cap_send_restart s = (case pl_cap_pc s of
      CapRestart cmd p t \<Rightarrow>
        if pl_enc_pc s = EncEnded then Some (s\<lparr>pl_cap_pc := CapFrame p t\<rparr>)
        else if length (pl_chan s) < 1
        then Some (s\<lparr>pl_chan := pl_chan s @ [cmd], pl_cap_pc := CapFrame p t\<rparr>)
        else None
    | _ \<Rightarrow> None)"

definition take_returned :: "('r, 'e) pipeline \<Rightarrow> byte list option \<times> ('r, 'e) pipeline" where
  "take_returned s = (case (cs_spare (pl_cap s), pl_returns s) of
      (None, b # bs) \<Rightarrow> (Some b, s\<lparr>pl_returns := bs\<rparr>)
    | _ \<Rightarrow> (None, s))"

definition cap_send_frame ::
  "pixel_provider \<Rightarrow> nanos \<Rightarrow> nanos \<Rightarrow> nanos \<Rightarrow> ('r, 'e) pipeline \<Rightarrow> ('r, 'e) pipeline" where
  "cap_send_frame p capture_start queued_at now s =
     (let (returned, s) = take_returned s;
          (cmd, c) = make_frame p returned capture_start queued_at (pl_cap s)
      in if pl_enc_pc s = EncEnded then s\<lparr>pl_cap := c, pl_cap_pc := CapEnded\<rparr>
         else if length (pl_chan s) < 1
         then s\<lparr>pl_chan := pl_chan s @ [cmd],
                pl_cap := on_decide (on_stats now (on_sent (pl_nanos s) c)), pl_cap_pc := CapLoop\<rparr>
         else s\<lparr>pl_cap := on_decide (on_stats now (on_full cmd c)), pl_cap_pc := CapLoop\<rparr>)"

definition cap_send_stop :: "('r, 'e) pipeline \<Rightarrow> ('r, 'e) pipeline option" where
  "cap_send_stop s =
     (if pl_enc_pc s = EncEnded then Some (s\<lparr>pl_cap_pc := CapEnded\<rparr>)
      else if length (pl_chan s) < 1
      then Some (s\<lparr>pl_chan := pl_chan s @ [EncStop], pl_cap_pc := CapEnded\<rparr>)
      else None)"

section \<open>The interleaving\<close>

text \<open>The capturable of a start command only matters through the recorder it \<open>created\<close>, so it is \<open>unit\<close> here.\<close>

inductive pl_step :: "'e encoder_ops \<Rightarrow> ('r, 'e) pipeline \<Rightarrow> ('r, 'e) pipeline \<Rightarrow> bool"
  for ops where
  Command: "pl_cap_pc s = CapLoop \<Longrightarrow> pl_step ops s (cap_command now (cmd :: unit video_command) created now2 s)"
| Tick: "pl_cap_pc s = CapLoop \<Longrightarrow> pl_step ops s (cap_tick now captured r' t s)"
| Restart: "cap_send_restart s = Some s' \<Longrightarrow> pl_step ops s s'"
| Offer: "pl_cap_pc s = CapFrame p t \<Longrightarrow> pl_step ops s (cap_send_frame p t queued_at now s)"
| Disconnect: "pl_cap_pc s = CapLoop \<Longrightarrow> pl_step ops s (s\<lparr>pl_cap_pc := CapStop\<rparr>)"
| Stop: "pl_cap_pc s = CapStop \<Longrightarrow> cap_send_stop s = Some s' \<Longrightarrow> pl_step ops s s'"
| Recv: "pl_enc_pc s = EncWait \<Longrightarrow> encode_recv s = Some s' \<Longrightarrow> pl_step ops s s'"
| Encode: "pl_enc_pc s = EncBusy c \<Longrightarrow> pl_step ops s (encode_command_step ops t0 t1 c s)"

inductive pl_reach :: "'e encoder_ops \<Rightarrow> ('r, 'e) pipeline \<Rightarrow> bool" for ops where
  Init: "pl_reach ops (pl_init now)"
| Step: "pl_reach ops s \<Longrightarrow> pl_step ops s s' \<Longrightarrow> pl_reach ops s'"

inductive_cases pl_stepE: "pl_step ops s s'"

end
