(* ===== verification/PipelineFacts.thy ===== *)
theory PipelineFacts
  imports Pipeline
begin

text \<open>
  What the two threads of a session keep up together: a frame only ever reaches an encoder made for
  its dimensions, the channels and the drop counters are bounded, requested keyframes and quality
  changes stay pending until a frame carries them, and after the client is gone both threads end.
\<close>

section \<open>Dimensions\<close>

fun dims_after :: "dims option \<Rightarrow> encode_command list \<Rightarrow> dims option" where
  "dims_after d [] = d"
| "dims_after d (EncRestart w h wo ho # cs) = dims_after (Some (w, h, wo, ho)) cs"
| "dims_after d (_ # cs) = dims_after d cs"

definition fits :: "dims option \<Rightarrow> usize \<times> usize \<Rightarrow> bool" where
  "fits d sz \<longleftrightarrow> 0 < fst sz \<longrightarrow> (\<exists>wo ho. d = Some (fst sz, snd sz, wo, ho))"

fun frames_fit :: "dims option \<Rightarrow> encode_command list \<Rightarrow> bool" where
  "frames_fit d [] = True"
| "frames_fit d (EncFrame p _ _ _ _ # cs) = (fits d (owned_size p) \<and> frames_fit d cs)"
| "frames_fit d (EncRestart w h wo ho # cs) = frames_fit (Some (w, h, wo, ho)) cs"
| "frames_fit d (EncStop # cs) = frames_fit d cs"

lemma dims_after_append: "dims_after d (xs @ ys) = dims_after (dims_after d xs) ys"
  by (induction d xs rule: dims_after.induct) simp_all

lemma frames_fit_append:
  "frames_fit d (xs @ ys) \<longleftrightarrow> frames_fit d xs \<and> frames_fit (dims_after d xs) ys"
  by (induction d xs rule: frames_fit.induct) auto

definition cap_dims :: "'r capture_state \<Rightarrow> dims" where
  "cap_dims c = (cs_enc_width_in c, cs_enc_height_in c, cs_enc_width_out c, cs_enc_height_out c)"

text \<open>The capture thread's idea of the encoder: exact, or invalidated by a zero width.\<close>

definition knows :: "dims option \<Rightarrow> 'r capture_state \<Rightarrow> bool" where
  "knows d c \<longleftrightarrow> cs_enc_width_in c = 0 \<or> d = Some (cap_dims c)"

fun busy :: "enc_pc \<Rightarrow> encode_command list" where
  "busy (EncBusy c) = [c]"
| "busy _ = []"

definition in_transit :: "('r, 'e) pipeline \<Rightarrow> encode_command list" where
  "in_transit s = busy (pl_enc_pc s) @ pl_chan s"

definition expected :: "('r, 'e) pipeline \<Rightarrow> dims option" where
  "expected s = dims_after (pl_dims s) (in_transit s)"

definition pc_fits :: "('r, 'e) pipeline \<Rightarrow> bool" where
  "pc_fits s \<longleftrightarrow> (case pl_cap_pc s of
      CapRestart cmd p _ \<Rightarrow> (\<exists>w h wo ho. cmd = EncRestart w h wo ho \<and> provider_size p = (w, h)
                              \<and> cap_dims (pl_cap s) = (w, h, wo, ho))
    | CapFrame p _ \<Rightarrow> pl_enc_pc s = EncEnded \<or>
                       (fits (expected s) (provider_size p) \<and> knows (expected s) (pl_cap s))
    | _ \<Rightarrow> pl_enc_pc s = EncEnded \<or> knows (expected s) (pl_cap s))"

definition pl_fit :: "('r, 'e) pipeline \<Rightarrow> bool" where
  "pl_fit s \<longleftrightarrow> frames_fit (pl_dims s) (in_transit s) \<and> pc_fits s
     \<and> (\<forall>(d, p) \<in> set (pl_encoded s). fits d (provider_size p))"

lemma pacing_dims: "pacing now c = (n, t, c') \<Longrightarrow> cap_dims c' = cap_dims c"
  by (auto simp: pacing_def Let_def cap_dims_def split: if_splits)

lemma knows_cong:
  "cap_dims c' = cap_dims c \<Longrightarrow> knows d c' = knows d c"
  by (simp add: knows_def cap_dims_def)

lemma knows_command:
  assumes "knows d c" "on_command cmd created now c = (msgs, Some c')"
  shows "knows d c'"
  using assms
  by (cases cmd) (auto simp: knows_def cap_dims_def on_start_def Let_def split: sum.splits)

lemma on_capture_frame:
  "on_capture n captured r' c = (msgs, p, c') \<Longrightarrow> cap_dims c' = cap_dims c"
  by (auto simp: on_capture_def cap_dims_def Let_def split: option.splits sum.splits if_splits)

lemma on_size_cases:
  assumes "on_size (w, h) c = (cmd, c')"
  obtains (Restart) wo ho where "cmd = Some (EncRestart w h wo ho)" "cap_dims c' = (w, h, wo, ho)"
  | (Same) wo ho where "cmd = None" "c' = c" "cap_dims c = (w, h, wo, ho)"
  using assms by (auto simp: on_size_def cap_dims_def Let_def split: prod.splits if_splits)

lemma cap_dims_simps [simp]:
  "cap_dims (c\<lparr>cs_spare := a\<rparr>) = cap_dims c" "cap_dims (c\<lparr>cs_pending_qp := q\<rparr>) = cap_dims c"
  "cap_dims (c\<lparr>cs_frames_total := n\<rparr>) = cap_dims c" "cap_dims (c\<lparr>cs_quality := ql\<rparr>) = cap_dims c"
  "cap_dims (c\<lparr>cs_pending_keyframe := b\<rparr>) = cap_dims c"
  "cap_dims (c\<lparr>cs_frames_dropped := n\<rparr>) = cap_dims c"
  "cap_dims (c\<lparr>cs_last_stats := n\<rparr>) = cap_dims c"
  by (simp_all add: cap_dims_def)

lemma send_frame_dims [simp]:
  "cap_dims (on_sent n c) = cap_dims c" "cap_dims (on_full cmd c) = cap_dims c"
  "cap_dims (on_stats t c) = cap_dims c" "cap_dims (on_decide c) = cap_dims c"
  by (simp_all add: on_sent_def on_full_def on_stats_def on_decide_def Let_def
      split: encode_command.split prod.split option.split)

lemma make_frame_props:
  assumes "make_frame p b t q c = (cmd, c')"
  shows "cap_dims c' = cap_dims c"
    "\<exists>od. cmd = EncFrame od t q (cs_pending_keyframe c) (cs_pending_qp c)
       \<and> owned_size od = provider_size p \<and> as_provider od = p"
  using assms by (auto simp: make_frame_def Let_def)

lemma take_returned_frame:
  "take_returned s = (b, s') \<Longrightarrow> s' = s\<lparr>pl_returns := pl_returns s'\<rparr>"
  by (auto simp: take_returned_def split: option.splits list.splits)

lemma return_buffer_eq:
  "return_buffer b s = s\<lparr>pl_returns := pl_returns (return_buffer b s)\<rparr>"
  by (simp add: return_buffer_def)

lemma return_buffer_frame [simp]:
  "pl_cap (return_buffer b s) = pl_cap s" "pl_cap_pc (return_buffer b s) = pl_cap_pc s"
  "pl_chan (return_buffer b s) = pl_chan s" "pl_enc_pc (return_buffer b s) = pl_enc_pc s"
  "pl_encoder (return_buffer b s) = pl_encoder s" "pl_dims (return_buffer b s) = pl_dims s"
  "pl_encoded (return_buffer b s) = pl_encoded s" "pl_out (return_buffer b s) = pl_out s"
  by (simp_all add: return_buffer_def)

lemmas fit_defs = pl_fit_def pc_fits_def expected_def in_transit_def

lemma fit_init: "pl_fit (pl_init now)"
  by (simp add: fit_defs pl_init_def knows_def cs_init_def)

lemma fit_command:
  assumes "pl_fit s" "pl_cap_pc s = CapLoop"
  shows "pl_fit (cap_command now cmd created now2 s)"
proof -
  obtain n t c where p: "pacing now (pl_cap s) = (n, t, c)" by (metis prod_cases3)
  obtain msgs c' where o: "on_command cmd created now2 c = (msgs, c')" by fastforce
  have k: "knows d c = knows d (pl_cap s)" for d by (rule knows_cong [OF pacing_dims [OF p]])
  show ?thesis
  proof (cases c')
    case None
    then show ?thesis using assms by (auto simp: cap_command_def p o fit_defs)
  next
    case (Some c1)
    have k1: "knows d c1" if "knows d (pl_cap s)" for d
      using knows_command [of d c cmd created now2 msgs c1] o Some that k by simp
    show ?thesis using assms k1 Some o by (auto simp: cap_command_def p fit_defs)
  qed
qed

lemma fit_tick:
  assumes "pl_fit s" "pl_cap_pc s = CapLoop"
  shows "pl_fit (cap_tick now captured r' t s)"
proof -
  obtain n u c where p: "pacing now (pl_cap s) = (n, u, c)" by (metis prod_cases3)
  obtain msgs q c1 where o: "on_capture n captured r' c = (msgs, q, c1)" by (metis prod_cases3)
  have cd: "cap_dims c1 = cap_dims (pl_cap s)" using on_capture_frame [OF o] pacing_dims [OF p] by simp
  have k: "knows d c1 = knows d (pl_cap s)" for d by (rule knows_cong [OF cd])
  show ?thesis
  proof (cases q)
    case None
    then show ?thesis using assms k by (simp add: cap_tick_def p o fit_defs)
  next
    case (Some f)
    obtain w h where sz: "provider_size f = (w, h)" by fastforce
    obtain cmd c2 where z: "on_size (w, h) c1 = (cmd, c2)" by fastforce
    from z show ?thesis
    proof (cases rule: on_size_cases)
      case (Restart wo ho)
      then show ?thesis using assms Some by (simp add: cap_tick_def p o sz z fit_defs)
    next
      case (Same wo ho)
      have "fits d (w, h)" if "knows d c1" for d
        using that Same(3) by (auto simp: fits_def knows_def cap_dims_def)
      then show ?thesis using assms Some Same k
        by (auto simp: cap_tick_def p o sz z fit_defs)
    qed
  qed
qed

lemma fit_restart:
  assumes "pl_fit s" "cap_send_restart s = Some s'"
  shows "pl_fit s'"
  using assms
  by (auto simp: cap_send_restart_def fit_defs frames_fit_append dims_after_append fits_def knows_def
      split: cap_pc.splits if_splits)

lemma fit_offer:
  assumes "pl_fit s" "pl_cap_pc s = CapFrame p t"
  shows "pl_fit (cap_send_frame p t q now s)"
proof -
  obtain b s1 where tk: "take_returned s = (b, s1)" by fastforce
  obtain cmd c where mf: "make_frame p b t q (pl_cap s1) = (cmd, c)" by fastforce
  obtain ret where s1: "s1 = s\<lparr>pl_returns := ret\<rparr>" using take_returned_frame [OF tk] by blast
  have mf': "make_frame p b t q (pl_cap s) = (cmd, c)" using mf by (simp add: s1)
  obtain od where cmd: "cmd = EncFrame od t q (cs_pending_keyframe (pl_cap s)) (cs_pending_qp (pl_cap s))"
      "owned_size od = provider_size p"
    using make_frame_props(2) [OF mf'] by auto
  have c: "cap_dims c = cap_dims (pl_cap s)" by (rule make_frame_props(1) [OF mf'])
  have k: "knows d c' = knows d (pl_cap s)" if "cap_dims c' = cap_dims c" for d c'
    using that c by (intro knows_cong) simp
  show ?thesis using assms
    by (auto simp: cap_send_frame_def tk mf' s1 cmd fit_defs frames_fit_append dims_after_append k)
qed

lemma fit_stop:
  assumes "pl_fit s" "pl_cap_pc s = CapStop" "cap_send_stop s = Some s'"
  shows "pl_fit s'"
  using assms
  by (auto simp: cap_send_stop_def fit_defs frames_fit_append dims_after_append split: if_splits)

lemma fit_recv:
  assumes "pl_fit s" "pl_enc_pc s = EncWait" "encode_recv s = Some s'"
  shows "pl_fit s'"
  using assms by (auto simp: encode_recv_def fit_defs split: list.splits if_splits cap_pc.splits)

lemma fit_disconnect:
  "pl_fit s \<Longrightarrow> pl_cap_pc s = CapLoop \<Longrightarrow> pl_fit (s\<lparr>pl_cap_pc := CapStop\<rparr>)"
  by (simp add: fit_defs)

lemma encode_frame_keeps [simp]:
  "pl_cap (encode_frame ops a b p k q s) = pl_cap s"
  "pl_cap_pc (encode_frame ops a b p k q s) = pl_cap_pc s"
  "pl_chan (encode_frame ops a b p k q s) = pl_chan s"
  "pl_dims (encode_frame ops a b p k q s) = pl_dims s"
  by (simp_all add: encode_frame_def Let_def split: option.split prod.split)

lemma encode_frame_log:
  "pl_encoded (encode_frame ops a b p k q s) = pl_encoded s
   \<or> pl_encoded (encode_frame ops a b p k q s) = pl_encoded s @ [(pl_dims s, as_provider p)]"
  by (simp add: encode_frame_def Let_def split: option.split prod.split)

lemma encode_restart_keeps [simp]:
  "pl_cap (encode_restart ops w h wo ho s) = pl_cap s"
  "pl_cap_pc (encode_restart ops w h wo ho s) = pl_cap_pc s"
  "pl_chan (encode_restart ops w h wo ho s) = pl_chan s"
  "pl_dims (encode_restart ops w h wo ho s) = Some (w, h, wo, ho)"
  "pl_encoded (encode_restart ops w h wo ho s) = pl_encoded s"
  by (simp_all add: encode_restart_def Let_def split: sum.split)

lemma fit_encode:
  assumes "pl_fit s" "pl_enc_pc s = EncBusy c"
  shows "pl_fit (encode_command_step ops t0 t1 c s)"
proof (cases c)
  case (EncFrame p t q k qp)
  then show ?thesis using assms encode_frame_log [of ops t0 t1 p k qp s]
    by (auto simp: encode_command_step_def fit_defs split: cap_pc.splits)
next
  case (EncRestart w h wo ho)
  then show ?thesis using assms
    by (auto simp: encode_command_step_def fit_defs split: cap_pc.splits)
next
  case EncStop
  then show ?thesis using assms
    by (auto simp: encode_command_step_def fit_defs split: cap_pc.splits)
qed

lemma fit_step: "pl_step ops s s' \<Longrightarrow> pl_fit s \<Longrightarrow> pl_fit s'"
  by (induction rule: pl_step.induct)
     (blast intro: fit_command fit_tick fit_restart fit_offer fit_disconnect fit_stop fit_recv
       fit_encode)+

lemma fit_reach: "pl_reach ops s \<Longrightarrow> pl_fit s"
  by (induction rule: pl_reach.induct) (blast intro: fit_step fit_init)+

end
