(* ===== verification/PipelineLive.thy ===== *)
theory PipelineLive
  imports PipelineFacts
begin

text \<open>
  Bounds of a session: the channel capacities, the drop counters and the quantiser range, on every
  reachable state of the two threads.
\<close>

section \<open>Bounds\<close>

definition cap_bounded :: "'r capture_state \<Rightarrow> bool" where
  "cap_bounded c \<longleftrightarrow> qp_ok (cs_quality c)
     \<and> (\<forall>q. cs_pending_qp c = Some q \<longrightarrow> QP_MIN \<le> q \<and> q \<le> QP_MAX)
     \<and> cs_frames_dropped c \<le> cs_frames_total c"

definition cmd_qp_ok :: "encode_command \<Rightarrow> bool" where
  "cmd_qp_ok c \<longleftrightarrow> (case c of
      EncFrame _ _ _ _ (Some q) \<Rightarrow> QP_MIN \<le> q \<and> q \<le> QP_MAX | _ \<Rightarrow> True)"

definition pl_bounded :: "('r, 'e) pipeline \<Rightarrow> bool" where
  "pl_bounded s \<longleftrightarrow> cap_bounded (pl_cap s) \<and> length (pl_chan s) \<le> 1 \<and> length (pl_returns s) \<le> 2
     \<and> list_all cmd_qp_ok (in_transit s)
     \<and> (case pl_cap_pc s of CapRestart cmd _ _ \<Rightarrow> cmd_qp_ok cmd | _ \<Rightarrow> True)"

lemma bounded_pacing: "pacing now c = (n, t, c') \<Longrightarrow> cap_bounded c \<Longrightarrow> cap_bounded c'"
  by (auto simp: pacing_def cap_bounded_def Let_def split: if_splits)

lemma bounded_command:
  "on_command cmd created now c = (msgs, Some c') \<Longrightarrow> cap_bounded c \<Longrightarrow> cap_bounded c'"
  by (cases cmd) (auto simp: cap_bounded_def on_start_def Let_def rylus_inv split: sum.splits)

lemma bounded_capture: "on_capture n cp r' c = (msgs, p, c') \<Longrightarrow> cap_bounded c \<Longrightarrow> cap_bounded c'"
  by (auto simp: on_capture_def cap_bounded_def Let_def split: option.splits sum.splits if_splits)

lemma bounded_size: "on_size sz c = (cmd, c') \<Longrightarrow> cap_bounded c \<Longrightarrow> cap_bounded c'"
  by (auto simp: on_size_def cap_bounded_def Let_def split: prod.splits if_splits)

lemma size_cmd_ok: "on_size sz c = (Some cmd, c') \<Longrightarrow> cmd_qp_ok cmd"
  by (auto simp: on_size_def cmd_qp_ok_def Let_def split: prod.splits if_splits)

lemma bounded_sent: "cap_bounded c \<Longrightarrow> cap_bounded (on_sent n c)"
  by (simp add: on_sent_def cap_bounded_def Let_def rylus_inv)

lemma bounded_stats: "cap_bounded c \<Longrightarrow> cap_bounded (on_stats t c)"
  by (simp add: on_stats_def cap_bounded_def)

lemma decide_some: "q_decide q b = (q', Some n) \<Longrightarrow> QP_MIN \<le> n \<and> n \<le> QP_MAX"
  using clamp_qp_range by (auto simp: q_decide_def Let_def split: if_splits)

lemma bounded_decide: "cap_bounded c \<Longrightarrow> cap_bounded (on_decide c)"
proof -
  assume c: "cap_bounded c"
  obtain q n where d: "q_decide (cs_quality c) (as_secs_f64 (cs_frame_duration c)) = (q, n)" by fastforce
  have "qp_ok q" using qp_ok_decide [of "cs_quality c"] c d by (metis cap_bounded_def fst_conv)
  then show ?thesis using c decide_some [of "cs_quality c"] d
    by (cases n) (auto simp: on_decide_def cap_bounded_def)
qed

text \<open>\<open>make_frame\<close> counts the frame; only then may \<open>on_full\<close> count it as dropped.\<close>

lemma bounded_make:
  assumes "make_frame p b t q c = (cmd, c')" "cap_bounded c"
  shows "cap_bounded c'" "cmd_qp_ok cmd" "cap_bounded (on_full cmd c')"
  using assms
  by (cases "cs_pending_qp c";
      auto simp: make_frame_def Let_def cap_bounded_def cmd_qp_ok_def on_full_def rylus_inv)+

lemma bounded_init: "pl_bounded (pl_init now)"
  by (simp add: pl_bounded_def pl_init_def cap_bounded_def cs_init_def in_transit_def rylus_inv)

lemma bounded_cap_command:
  assumes "pl_bounded s" "pl_cap_pc s = CapLoop"
  shows "pl_bounded (cap_command now cmd created now2 s)"
proof -
  obtain n t c where p: "pacing now (pl_cap s) = (n, t, c)" by (metis prod_cases3)
  obtain msgs c' where o: "on_command cmd created now2 c = (msgs, c')" by fastforce
  have "cap_bounded c" using bounded_pacing [OF p] assms by (simp add: pl_bounded_def)
  then have "cap_bounded c1" if "c' = Some c1" for c1 using bounded_command o that by blast
  then show ?thesis using assms
    by (cases c') (auto simp: cap_command_def p o pl_bounded_def in_transit_def)
qed

lemma bounded_tick:
  assumes "pl_bounded s" "pl_cap_pc s = CapLoop"
  shows "pl_bounded (cap_tick now cp r' t s)"
proof -
  obtain n u c where p: "pacing now (pl_cap s) = (n, u, c)" by (metis prod_cases3)
  obtain msgs q c1 where o: "on_capture n cp r' c = (msgs, q, c1)" by (metis prod_cases3)
  have c1: "cap_bounded c1"
    using bounded_capture [OF o] bounded_pacing [OF p] assms by (simp add: pl_bounded_def)
  show ?thesis
  proof (cases q)
    case None
    then show ?thesis using assms c1 by (simp add: cap_tick_def p o pl_bounded_def in_transit_def)
  next
    case (Some f)
    obtain cmd c2 where z: "on_size (provider_size f) c1 = (cmd, c2)" by fastforce
    have "cap_bounded c2" by (rule bounded_size [OF z c1])
    then show ?thesis using assms Some size_cmd_ok [of "provider_size f" c1] z
      by (cases cmd) (auto simp: cap_tick_def p o pl_bounded_def in_transit_def)
  qed
qed

lemma bounded_offer:
  assumes "pl_bounded s" "pl_cap_pc s = CapFrame p t"
  shows "pl_bounded (cap_send_frame p t q now s)"
proof -
  obtain b s1 where tk: "take_returned s = (b, s1)" by fastforce
  obtain ret where s1: "s1 = s\<lparr>pl_returns := ret\<rparr>" using take_returned_frame [OF tk] by blast
  have ret: "length ret \<le> 2"
  proof -
    have "length (pl_returns s1) \<le> length (pl_returns s)"
      using tk by (auto simp: take_returned_def split: option.splits list.splits)
    then show ?thesis using assms by (simp add: s1 pl_bounded_def)
  qed
  obtain cmd c where mf: "make_frame p b t q (pl_cap s) = (cmd, c)" by fastforce
  have "cap_bounded (pl_cap s)" using assms by (simp add: pl_bounded_def)
  note b = bounded_make [OF mf this]
  have sent: "cap_bounded (on_decide (on_stats now (on_sent n c)))" for n
    by (intro bounded_decide bounded_stats bounded_sent b(1))
  have full: "cap_bounded (on_decide (on_stats now (on_full cmd c)))"
    by (intro bounded_decide bounded_stats b(3))
  show ?thesis using assms ret b sent full
    by (auto simp: cap_send_frame_def tk mf s1 pl_bounded_def in_transit_def)
qed

lemma bounded_return: "length (pl_returns s) \<le> 2 \<Longrightarrow> length (pl_returns (return_buffer b s)) \<le> 2"
  by (simp add: return_buffer_def)

lemma bounded_encode:
  assumes "pl_bounded s" "pl_enc_pc s = EncBusy c"
  shows "pl_bounded (encode_command_step ops t0 t1 c s)"
proof -
  have "length (pl_returns (encode_frame ops t0 t1 p k q s)) \<le> 2" for p k q
    using assms(1) by (simp add: encode_frame_def Let_def pl_bounded_def bounded_return
        split: option.split prod.split)
  moreover have "pl_returns (encode_restart ops w h wo ho s) = pl_returns s" for w h wo ho
    by (simp add: encode_restart_def Let_def split: sum.split)
  ultimately show ?thesis using assms
    by (cases c) (auto simp: encode_command_step_def pl_bounded_def in_transit_def)
qed

lemma bounded_rest:
  "pl_bounded s \<Longrightarrow> cap_send_restart s = Some s' \<Longrightarrow> pl_bounded s'"
  "pl_bounded s \<Longrightarrow> pl_cap_pc s = CapLoop \<Longrightarrow> pl_bounded (s\<lparr>pl_cap_pc := CapStop\<rparr>)"
  "pl_bounded s \<Longrightarrow> cap_send_stop s = Some s' \<Longrightarrow> pl_bounded s'"
  "pl_bounded s \<Longrightarrow> pl_enc_pc s = EncWait \<Longrightarrow> encode_recv s = Some s' \<Longrightarrow> pl_bounded s'"
  by (auto simp: cap_send_restart_def cap_send_stop_def encode_recv_def pl_bounded_def
      in_transit_def cmd_qp_ok_def split: cap_pc.splits if_splits list.splits)

lemma bounded_step: "pl_step ops s s' \<Longrightarrow> pl_bounded s \<Longrightarrow> pl_bounded s'"
  by (induction rule: pl_step.induct)
     (blast intro: bounded_cap_command bounded_tick bounded_offer bounded_rest bounded_encode)+

lemma bounded_reach: "pl_reach ops s \<Longrightarrow> pl_bounded s"
  by (induction rule: pl_reach.induct) (blast intro: bounded_step bounded_init)+

end
