(* ===== verification/PipelineEnd.thy ===== *)
theory PipelineEnd
  imports PipelineFacts
begin

text \<open>
  Requests and endings of a session: a requested keyframe or quality change stays pending until a
  queued frame carries it; once the client is gone both threads end, whatever the schedule; and the
  corners of the capture loop: the failure counter, the quantiser of a new encoder, an encoder that
  cannot be created, and the frame rates that stop the loop.
\<close>

section \<open>Pending requests\<close>

definition carries_keyframe :: "encode_command \<Rightarrow> bool" where
  "carries_keyframe c \<longleftrightarrow> (case c of EncFrame _ _ _ k _ \<Rightarrow> k | _ \<Rightarrow> False)"

definition carries_qp :: "encode_command \<Rightarrow> bool" where
  "carries_qp c \<longleftrightarrow> (case c of EncFrame _ _ _ _ q \<Rightarrow> q \<noteq> None | _ \<Rightarrow> False)"

text \<open>The command a step appended to the channel, if any.\<close>

definition queued :: "('r, 'e) pipeline \<Rightarrow> ('r, 'e) pipeline \<Rightarrow> encode_command list" where
  "queued s s' = drop (length (pl_chan s)) (pl_chan s')"

lemma pacing_pending:
  "pacing now c = (n, t, c') \<Longrightarrow>
     cs_pending_keyframe c' = cs_pending_keyframe c \<and> cs_pending_qp c' = cs_pending_qp c"
  by (auto simp: pacing_def Let_def split: if_splits)

lemma command_pending:
  assumes "on_command cmd created now c = (msgs, Some c')"
  shows "(cs_pending_keyframe c \<longrightarrow> cs_pending_keyframe c') \<and> cs_pending_qp c' = cs_pending_qp c"
  using assms by (cases cmd) (auto simp: on_start_def Let_def split: sum.splits)

lemma capture_pending:
  "on_capture n cp r' c = (msgs, p, c') \<Longrightarrow>
     cs_pending_keyframe c' = cs_pending_keyframe c \<and> cs_pending_qp c' = cs_pending_qp c"
  by (auto simp: on_capture_def Let_def split: option.splits sum.splits if_splits)

lemma size_pending:
  "on_size sz c = (cmd, c') \<Longrightarrow>
     cs_pending_keyframe c' = cs_pending_keyframe c \<and> cs_pending_qp c' = cs_pending_qp c"
  by (auto simp: on_size_def Let_def split: prod.splits if_splits)

lemma decide_pending:
  "cs_pending_keyframe (on_decide c) = cs_pending_keyframe c"
  "cs_pending_qp c \<noteq> None \<Longrightarrow> cs_pending_qp (on_decide c) \<noteq> None"
  by (auto simp: on_decide_def split: prod.splits option.splits)

lemma stats_pending [simp]:
  "cs_pending_keyframe (on_stats t c) = cs_pending_keyframe c"
  "cs_pending_qp (on_stats t c) = cs_pending_qp c"
  by (simp_all add: on_stats_def)

definition keeps_pending :: "('r, 'e) pipeline \<Rightarrow> ('r, 'e) pipeline \<Rightarrow> bool" where
  "keeps_pending s s' \<longleftrightarrow>
     (cs_pending_keyframe (pl_cap s) \<longrightarrow>
        cs_pending_keyframe (pl_cap s') \<or> (\<exists>c \<in> set (queued s s'). carries_keyframe c))
     \<and> (cs_pending_qp (pl_cap s) \<noteq> None \<longrightarrow>
        cs_pending_qp (pl_cap s') \<noteq> None \<or> (\<exists>c \<in> set (queued s s'). carries_qp c))"

lemma keeps_pending_same: "pl_cap s' = pl_cap s \<Longrightarrow> keeps_pending s s'"
  by (simp add: keeps_pending_def)

lemma pending_command: "keeps_pending s (cap_command now cmd created now2 s)"
proof -
  obtain n t c where p: "pacing now (pl_cap s) = (n, t, c)" by (metis prod_cases3)
  obtain msgs c' where o: "on_command cmd created now2 c = (msgs, c')" by fastforce
  show ?thesis
  proof (cases c')
    case None
    then show ?thesis by (intro keeps_pending_same) (simp add: cap_command_def p o)
  next
    case (Some c1)
    have "(cs_pending_keyframe c \<longrightarrow> cs_pending_keyframe c1) \<and> cs_pending_qp c1 = cs_pending_qp c"
      by (rule command_pending) (use o Some in simp)
    then show ?thesis using pacing_pending [OF p]
      by (simp add: keeps_pending_def cap_command_def p o Some)
  qed
qed

lemma pending_tick: "keeps_pending s (cap_tick now cp r' t s)"
proof -
  obtain n u c where p: "pacing now (pl_cap s) = (n, u, c)" by (metis prod_cases3)
  obtain msgs q c1 where o: "on_capture n cp r' c = (msgs, q, c1)" by (metis prod_cases3)
  note f = pacing_pending [OF p] capture_pending [OF o]
  show ?thesis
  proof (cases q)
    case None
    then show ?thesis using f by (simp add: keeps_pending_def cap_tick_def p o)
  next
    case (Some g)
    obtain cmd c2 where z: "on_size (provider_size g) c1 = (cmd, c2)" by fastforce
    show ?thesis using f size_pending [OF z] Some
      by (cases cmd) (simp_all add: keeps_pending_def cap_tick_def p o z)
  qed
qed

lemma pending_offer:
  assumes "pl_enc_pc s \<noteq> EncEnded"
  shows "keeps_pending s (cap_send_frame p t q now s)"
proof -
  obtain b s1 where tk: "take_returned s = (b, s1)" by fastforce
  obtain ret where s1: "s1 = s\<lparr>pl_returns := ret\<rparr>" using take_returned_frame [OF tk] by blast
  obtain cmd c where mf: "make_frame p b t q (pl_cap s) = (cmd, c)" by fastforce
  obtain od where cmd: "cmd = EncFrame od t q (cs_pending_keyframe (pl_cap s)) (cs_pending_qp (pl_cap s))"
    using make_frame_props(2) [OF mf] by blast
  show ?thesis
  proof (cases "length (pl_chan s) < 1")
    case True
    then have "pl_chan (cap_send_frame p t q now s) = [cmd]"
      using assms by (simp add: cap_send_frame_def tk mf s1)
    then show ?thesis using True
      by (simp add: keeps_pending_def queued_def cmd carries_keyframe_def carries_qp_def)
  next
    case False
    have qp: "cs_pending_qp (pl_cap s) \<noteq> None \<Longrightarrow> cs_pending_qp (on_full cmd c) \<noteq> None"
      by (simp add: on_full_def cmd)
    have "pl_cap (cap_send_frame p t q now s) = on_decide (on_stats now (on_full cmd c))"
      using assms False by (simp add: cap_send_frame_def tk mf s1)
    moreover have "cs_pending_keyframe (on_full cmd c) = cs_pending_keyframe (pl_cap s)"
      by (simp add: on_full_def cmd)
    ultimately show ?thesis using qp decide_pending(2) [of "on_stats now (on_full cmd c)"]
      by (auto simp: keeps_pending_def decide_pending(1))
  qed
qed

lemma encode_command_cap: "pl_cap (encode_command_step ops t0 t1 c s) = pl_cap s"
  by (cases c) (simp_all add: encode_command_step_def)

lemma pending_step:
  assumes "pl_step ops s s'" "pl_enc_pc s \<noteq> EncEnded"
  shows "keeps_pending s s'"
  using assms
proof (induction rule: pl_step.induct)
  case (Restart s s')
  then show ?case
    by (intro keeps_pending_same) (auto simp: cap_send_restart_def split: cap_pc.splits if_splits)
next
  case (Stop s s')
  then show ?case by (intro keeps_pending_same) (auto simp: cap_send_stop_def split: if_splits)
next
  case (Recv s s')
  then show ?case
    by (intro keeps_pending_same) (auto simp: encode_recv_def split: list.splits if_splits)
next
  case (Encode s c t0 t1)
  then show ?case by (intro keeps_pending_same) (rule encode_command_cap)
qed (simp_all add: pending_command pending_tick pending_offer keeps_pending_same)

section \<open>Both threads end\<close>

definition closing :: "('r, 'e) pipeline \<Rightarrow> bool" where
  "closing s \<longleftrightarrow> pl_cap_pc s = CapStop \<or> pl_cap_pc s = CapEnded"

definition closed :: "('r, 'e) pipeline \<Rightarrow> bool" where
  "closed s \<longleftrightarrow> pl_cap_pc s = CapEnded \<and> pl_enc_pc s = EncEnded"

definition work_left :: "('r, 'e) pipeline \<Rightarrow> nat" where
  "work_left s = (if pl_cap_pc s = CapEnded then 0 else 3) + 2 * length (pl_chan s)
     + (case pl_enc_pc s of EncWait \<Rightarrow> 1 | EncBusy _ \<Rightarrow> 2 | EncEnded \<Rightarrow> 0)"

lemma encode_command_step_keeps:
  "pl_cap_pc (encode_command_step ops t0 t1 c s) = pl_cap_pc s"
  "pl_chan (encode_command_step ops t0 t1 c s) = pl_chan s"
  "pl_enc_pc (encode_command_step ops t0 t1 c s) = (if c = EncStop then EncEnded else EncWait)"
  by (cases c; simp add: encode_command_step_def)+

lemma closing_step:
  assumes "pl_step ops s s'" "closing s"
  shows "closing s' \<and> work_left s' < work_left s"
  using assms
proof (induction rule: pl_step.induct)
  case (Encode s c t0 t1)
  then show ?case by (simp add: closing_def work_left_def encode_command_step_keeps)
qed (auto simp: closing_def work_left_def cap_send_restart_def cap_send_stop_def encode_recv_def
    split: cap_pc.splits if_splits list.splits)

lemma closing_progress:
  assumes "closing s" "\<not> closed s"
  shows "\<exists>s'. pl_step ops s s'"
proof (cases "pl_enc_pc s")
  case EncWait
  show ?thesis
  proof (cases "encode_recv s")
    case (Some s')
    then show ?thesis using pl_step.Recv EncWait by blast
  next
    case None
    then have "pl_chan s = []" "pl_cap_pc s = CapStop"
      using assms(1) by (auto simp: encode_recv_def closing_def split: list.splits if_splits)
    then have "cap_send_stop s \<noteq> None" using EncWait by (simp add: cap_send_stop_def)
    then show ?thesis using pl_step.Stop \<open>pl_cap_pc s = CapStop\<close> by blast
  qed
next
  case (EncBusy c)
  then show ?thesis using pl_step.Encode by blast
next
  case EncEnded
  then have "pl_cap_pc s = CapStop" using assms by (auto simp: closing_def closed_def)
  moreover have "cap_send_stop s \<noteq> None" using EncEnded by (simp add: cap_send_stop_def)
  ultimately show ?thesis using pl_step.Stop by blast
qed

text \<open>Every schedule ends, in at most \<open>work_left\<close> steps, with both threads ended.\<close>

lemma closing_run:
  assumes "closing s" "\<And>i. i < n \<Longrightarrow> pl_step ops (f i) (f (Suc i))" "f 0 = s"
  shows "closing (f n) \<and> work_left (f n) + n \<le> work_left s"
  using assms(2)
proof (induction n)
  case 0
  then show ?case using assms(1,3) by simp
next
  case (Suc n)
  then have "closing (f n)" "work_left (f n) + n \<le> work_left s" "pl_step ops (f n) (f (Suc n))" by auto
  then show ?case using closing_step [of ops "f n" "f (Suc n)"] by auto
qed

lemma closing_bounded:
  assumes "closing s" "length (pl_chan s) \<le> 1"
  shows "work_left s \<le> 7"
  using assms by (auto simp: work_left_def split: enc_pc.split)

section \<open>Corners\<close>

text \<open>The failure counter survives a new recorder: after giving up, the first failure of the next one gives
  up again.\<close>

lemma gives_up:
  assumes "cs_recorder c = Some r" "29 \<le> cs_failures c"
  shows "on_capture n (Inl err) r' c = ([Error ''Screen capture lost - please reconnect.''], None,
     c\<lparr>cs_last_frame := n, cs_failures := cs_failures c + 1, cs_recorder := None\<rparr>)"
  using assms by (simp add: on_capture_def MAX_CAPTURE_FAILURES_def)

lemma start_keeps_failures:
  "on_start config (Inr r) now c = (msgs, Some c') \<Longrightarrow>
     cs_recorder c' = Some r \<and> cs_failures c' = cs_failures c \<and> cs_quality c' = cs_quality c"
  by (auto simp: on_start_def Let_def)

text \<open>A restart caused by a new size or a new start leaves the controller's quantiser where it was; the new
  encoder has its own default.\<close>

lemma resize_keeps_quality: "on_size sz c = (cmd, c') \<Longrightarrow> cs_quality c' = cs_quality c"
  by (auto simp: on_size_def Let_def split: prod.splits if_splits)

text \<open>When the encoder cannot be created the client is told of a new video and nothing else.\<close>

lemma restart_failed:
  "eo_new ops w h wo ho = Inl e \<Longrightarrow>
     pl_out (encode_restart ops w h wo ho s) = pl_out s @ [NewVideo]
     \<and> pl_encoder (encode_restart ops w h wo ho s) = None"
  by (simp add: encode_restart_def)

lemma no_encoder_drops:
  "pl_encoder s = None \<Longrightarrow>
     pl_video (encode_frame ops t0 t1 p k q s) = pl_video s
     \<and> pl_out (encode_frame ops t0 t1 p k q s) = pl_out s
     \<and> pl_encoder (encode_frame ops t0 t1 p k q s) = None"
  by (simp add: encode_frame_def return_buffer_def)

text \<open>Frame rates below \<open>2 ^ -64\<close> panic the capture thread.\<close>

lemma slow_rate_panics:
  assumes "0 < r" "r \<le> 1 / 2 ^ 64"
  shows "frame_duration_of (Fin r) = None"
proof -
  have "2 ^ 64 \<le> 1 / r" using assms by (simp add: field_simps)
  then show ?thesis using assms(1) by (simp add: frame_duration_of_def)
qed

lemma start_panics:
  "frame_duration_of (vc_frame_rate config) = None \<Longrightarrow>
     snd (on_start config created now c) = None"
  by (simp add: on_start_def Let_def case_prod_beta)

end
