(* ===== verification/ScaleFacts.thy ===== *)
theory ScaleFacts
  imports ScaleContext
begin

text \<open>
  Ownership of the filter graphs: a failed constructor of \<open>ScaleContext\<close> or \<open>Scalers\<close> has released
  everything it obtained, a successful one owns exactly the pointers its \<open>Drop\<close> releases; and the
  drain loop of \<open>scale\<close> ends when the filter does.
\<close>

text \<open>A later stage that cleans up the pointers \<open>own\<close> of the earlier ones when it fails.\<close>

definition cleans :: "ffi \<Rightarrow> ('e + 'a) \<Rightarrow> ffi \<Rightarrow> ptr set \<Rightarrow> bool" where
  "cleans w r w' own \<longleftrightarrow> ffi_ok w' \<and> (case r of
      Inl _ \<Rightarrow> owned w' = owned w - own
    | Inr _ \<Rightarrow> owned w' = owned w)"

lemma ask_split: "ask c w = (r, w') \<Longrightarrow> ffi_ok w \<Longrightarrow> \<not> obtains_ptr c \<Longrightarrow>
     ffi_ok w' \<and> owned w' = owned w - releases c"
  by (metis ffi_ok_ask owned_ask snd_conv)

lemma ffi_ok_zero: "ffi_ok w \<Longrightarrow> 0 \<notin> owned w"
  by (auto simp: ffi_ok_def)

lemma ask_plain: "ask (Call n as) w = (r, w') \<Longrightarrow> ffi_ok w \<Longrightarrow> ffi_ok w' \<and> owned w' = owned w"
  using ask_split [of "Call n as" w r w'] by simp

lemma sc_fail_cleans:
  "ffi_ok w \<Longrightarrow> owned w = owned w0 \<Longrightarrow> sc_fail msg g f w = (r, w') \<Longrightarrow> cleans w0 r w' {g, f}"
  by (auto simp: sc_fail_def cleans_def owned_calls)

lemma sc_frame_in_transfers:
  assumes "ffi_ok w" "sc_frame_in fmt a b w = (r, w')"
  shows "transfers w r w' (\<lambda>p. {p}) \<and> (\<forall>p. r = Inr p \<longrightarrow> p \<noteq> 0)"
proof -
  obtain p w1 where a: "alloc (Obtain ''av_frame_alloc'' []) w = (p, w1)" by fastforce
  note f = alloc_fresh [OF assms(1) _ a]
  obtain ret w2 where q: "ask (Call ''av_frame_get_buffer'' [P p, I 0])
      (call (Call ''set format/width/height'' [P p, F fmt, I a, I b]) w1) = (ret, w2)" by fastforce
  have g: "ffi_ok w2 \<and> owned w2 = owned w1" using ask_plain [OF q] f by simp
  show ?thesis using assms(2) f g
    by (auto simp: sc_frame_in_def a q Let_def transfers_def split: if_splits)
qed

lemma sc_source_frame:
  assumes "ffi_ok w" "sc_source env fmt a b g w = (ret, ctx, w')"
  shows "ffi_ok w' \<and> owned w' = owned w"
proof -
  define v where "v = calls [Call ''avfilter_graph_set_auto_convert'' [P g, S ''NONE''],
      Call ''avfilter_get_by_name'' [S ''buffer''], Call ''avfilter_get_by_name'' [S ''buffersink'']] w"
  have v: "ffi_ok v" "owned v = owned w" using assms(1) by (simp_all add: v_def owned_calls)
  define args where "args = ''video_size='' @ dec_int a @ ''x'' @ dec_int b @ '':pix_fmt=''
      @ dec_int (fe_fmt_code env fmt) @ '':time_base=1/1000:pixel_aspect=1/1''"
  obtain r1 w1 where q1: "ask (Call ''avfilter_graph_create_filter'' [S ''in'', S args, P g]) v = (r1, w1)"
    by fastforce
  obtain r2 w2 where q2: "ask (Call ''buffersrc_ctx'' [P g]) w1 = (r2, w2)" by fastforce
  have "w' = w2" using assms(2) q1 q2
    by (simp only: sc_source_def Let_def v_def [symmetric] args_def [symmetric] prod.case prod.inject)
  then show ?thesis using ask_plain [OF q1 v(1)] ask_plain [OF q2] v by simp
qed

lemma sc_sink_format_frame:
  assumes "ffi_ok w" "sc_sink_format env fmt s w = (ret, w')"
  shows "ffi_ok w' \<and> owned w' = owned w"
proof -
  obtain r1 w1 where q: "ask (Call ''av_opt_set'' [P s, S ''pixel_formats'', S (pix_fmt_name env fmt)]) w
      = (r1, w1)" by fastforce
  have 1: "ffi_ok w1 \<and> owned w1 = owned w" by (rule ask_plain [OF q assms(1)])
  show ?thesis
  proof (cases "r1 < 0")
    case True
    then have "ask (Call ''av_opt_set_bin'' [P s, S ''pix_fmts'', F fmt]) w1 = (ret, w')"
      using assms(2) by (simp add: sc_sink_format_def q)
    then show ?thesis using ask_plain 1 by metis
  next
    case False
    then show ?thesis using assms(2) 1 by (simp add: sc_sink_format_def q)
  qed
qed

lemma sc_sink_cleans:
  assumes "ffi_ok w" "sc_sink env fmt g f w = (r, w')"
  shows "cleans w r w' {g, f}"
proof -
  obtain s w1 where a: "ask (Call ''avfilter_graph_alloc_filter'' [P g, S ''out'']) w = (s, w1)" by fastforce
  have 1: "ffi_ok w1 \<and> owned w1 = owned w" by (rule ask_plain [OF a assms(1)])
  obtain ret w2 where b: "sc_sink_format env fmt (nat s) w1 = (ret, w2)" by fastforce
  have 2: "ffi_ok w2 \<and> owned w2 = owned w" using sc_sink_format_frame [OF _ b] 1 by simp
  obtain ret3 w3 where c: "ask (Call ''avfilter_init_dict'' [P (nat s)]) w2 = (ret3, w3)" by fastforce
  have 3: "ffi_ok w3 \<and> owned w3 = owned w" using ask_plain [OF c] 2 by simp
  show ?thesis using assms(2) 1 2 3
    by (auto simp: sc_sink_def a b c Let_def split: if_splits
        intro: sc_fail_cleans simp: cleans_def [of w "Inr _"])
qed

lemma sc_hw_devices_frame: "ffi_ok w \<Longrightarrow> ffi_ok (sc_hw_devices g d w) \<and> owned (sc_hw_devices g d w) = owned w"
proof -
  assume ok: "ffi_ok w"
  have loop: "ffi_ok v \<Longrightarrow> ffi_ok (fold (\<lambda>i w.
      let (h, w) = ask (Call ''filter name is hwupload'' [P g, I (int i)]) w
      in if h \<noteq> 0 then call (Call ''hw_device_ctx = av_buffer_ref'' [P g, I (int i), P d]) w else w) is v)
    \<and> owned (fold (\<lambda>i w.
      let (h, w) = ask (Call ''filter name is hwupload'' [P g, I (int i)]) w
      in if h \<noteq> 0 then call (Call ''hw_device_ctx = av_buffer_ref'' [P g, I (int i), P d]) w else w) is v)
      = owned v" for "is" :: "nat list" and v
    by (induction "is" arbitrary: v) (simp_all add: case_prod_beta Let_def)
  obtain n w1 where a: "ask (Call ''nb_filters'' [P g]) w = (n, w1)" by fastforce
  show ?thesis using loop [of w1 "[0..<nat n]"] ask_plain [OF a ok] ok
    by (simp add: sc_hw_devices_def a)
qed

lemma sc_configure_cleans:
  assumes ok: "ffi_ok w" and s: "sc_configure env str fi fo d g f src sink w = (r, w')"
    and own: "g \<in> owned w" "f \<in> owned w"
  shows "cleans w r w' {g, f}"
proof -
  obtain o1 w1 where a: "alloc (Obtain ''avfilter_inout_alloc'' []) w = (o1, w1)" by fastforce
  note fa = alloc_fresh [OF ok _ a]
  then have ok1: "ffi_ok w1" by simp
  obtain i1 w2 where b: "alloc (Obtain ''avfilter_inout_alloc'' []) w1 = (i1, w2)" by fastforce
  note fb = alloc_fresh [OF ok1 _ b]
  have o2: "owned w2 - {o1, i1} = owned w" "ffi_ok w2"
    using fa fb ffi_ok_zero [OF ok] by (cases "o1 = 0"; cases "i1 = 0"; simp; blast)+
  define w3 where "w3 = calls [Call ''set inout'' [P o1, S ''in'', P src], Call ''set inout'' [P i1, S ''out'', P sink]] w2"
  obtain ret w4 where c: "ask (Call ''avfilter_graph_parse_ptr'' [P g, S str, P i1, P o1]) w3 = (ret, w4)"
    by fastforce
  have 3: "ffi_ok w3 \<and> owned w3 = owned w2" using o2 by (simp add: w3_def owned_calls)
  have 4: "ffi_ok w4 \<and> owned w4 = owned w2" using ask_plain [OF c] 3 by simp
  define w5 where "w5 = sc_hw_devices g d w4"
  have 5: "ffi_ok w5 \<and> owned w5 = owned w2" using sc_hw_devices_frame [of w4 g d] 4 by (simp add: w5_def)
  obtain ret6 w6 where e: "ask (Call ''avfilter_graph_config'' [P g]) w5 = (ret6, w6)" by fastforce
  have 6: "ffi_ok w6 \<and> owned w6 = owned w2" using ask_plain [OF e] 5 by simp
  have free: "owned (calls [Release ''avfilter_inout_free'' x, Release ''avfilter_inout_free'' y] v) = owned w"
    if "owned v = owned w2" "{x, y} = {o1, i1}" for v x y
    using that o2 by (auto simp: owned_calls)
  let ?free_oi = "calls [Release ''avfilter_inout_free'' o1, Release ''avfilter_inout_free'' i1]"
  let ?free_io = "calls [Release ''avfilter_inout_free'' i1, Release ''avfilter_inout_free'' o1]"
  show ?thesis
  proof (cases "o1 = 0 \<or> i1 = 0")
    case True
    then have "sc_fail ''Failed to allocate filter IO'' g f (?free_oi w2) = (r, w')"
      using s by (simp add: sc_configure_def a b)
    then show ?thesis by (rule sc_fail_cleans [rotated 2]) (simp_all add: o2 free)
  next
    case False
    show ?thesis
    proof (cases "ret < 0")
      case True
      then have "sc_fail ''Failed to parse scale filter'' g f (?free_io w4) = (r, w')"
        using s False by (simp add: sc_configure_def a b w3_def [symmetric] c)
      then show ?thesis by (rule sc_fail_cleans [rotated 2]) (simp_all add: 4 free insert_commute)
    next
      case ret: False
      show ?thesis
      proof (cases "ret6 < 0")
        case True
        then have "sc_fail (''Failed to configure filter graph: '' @ pix_fmt_name env fi
            @ '' -> '' @ pix_fmt_name env fo) g f (?free_io w6) = (r, w')"
          using s False ret
          by (simp add: sc_configure_def a b w3_def [symmetric] c w5_def [symmetric] e)
        then show ?thesis by (rule sc_fail_cleans [rotated 2]) (simp_all add: 6 free insert_commute)
      next
        case False6: False
        then have "r = Inr ()" "w' = ?free_io w6"
          using s False ret
          by (simp_all add: sc_configure_def a b w3_def [symmetric] c w5_def [symmetric] e)
        then show ?thesis by (simp add: cleans_def 6 free insert_commute)
      qed
    qed
  qed
qed

definition sx_own :: "scale_context \<Rightarrow> ptr set" where
  "sx_own s = {sx_graph s, sx_frame_in s}"

lemma scale_context_new_transfers:
  assumes ok: "ffi_ok w"
    and s: "scale_context_new env a b c d fi fo dev fs out w = (r, w')"
  shows "transfers w r w' sx_own \<and> (\<forall>x. r = Inr x \<longrightarrow> 0 \<notin> sx_own x)"
proof -
  obtain r1 w1 where A: "sc_frame_in fi a b w = (r1, w1)" by fastforce
  note t1 = sc_frame_in_transfers [OF ok A]
  show ?thesis
  proof (cases r1)
    case (Inl e)
    then have "r = Inl e" "w' = w1" using s by (simp_all add: scale_context_new_def A)
    then show ?thesis using t1 Inl by (simp add: transfers_def)
  next
    case (Inr f)
    have w1: "ffi_ok w1" "owned w1 = insert f (owned w)" "f \<notin> owned w" "f \<noteq> 0"
      using t1 Inr by (auto simp: transfers_def)
    obtain g w2 where B: "alloc (Obtain ''avfilter_graph_alloc'' []) w1 = (g, w2)" by fastforce
    note t2 = alloc_fresh [OF w1(1) _ B]
    show ?thesis
    proof (cases "g = 0")
      case True
      then show ?thesis using s t2 w1
        by (auto simp: scale_context_new_def A Inr B transfers_def)
    next
      case g: False
      have w2: "ffi_ok w2" "owned w2 = {g, f} \<union> owned w" "g \<notin> owned w" "g \<noteq> f"
        using t2 g w1 by auto
      obtain ret src w3 where C: "sc_source env fi a b g w2 = (ret, src, w3)" by (metis prod_cases3)
      have w3: "ffi_ok w3" "owned w3 = owned w2" using sc_source_frame [OF w2(1) C] by simp_all
      have done_: "transfers w (Inl e) v sx_own" if "ffi_ok v" "owned v = owned w2 - {g, f}" for e v
        using that w2 w1(3) by (intro transfers_Inl) auto
      show ?thesis
      proof (cases "ret < 0")
        case True
        let ?v = "calls [Release ''avfilter_graph_free'' g, Release ''av_frame_free'' f] w3"
        have "r = Inl ''Cannot create buffer source''" "w' = ?v"
          using s g True by (simp_all add: scale_context_new_def A Inr B C sc_fail_def)
        moreover have "ffi_ok ?v" "owned ?v = owned w2 - {g, f}"
          using w3 by (simp_all add: owned_calls insert_commute)
        ultimately show ?thesis using done_ by simp
      next
        case ret: False
        obtain r4 w4 where D: "sc_sink env fo g f w3 = (r4, w4)" by fastforce
        have t4: "cleans w3 r4 w4 {g, f}" by (rule sc_sink_cleans [OF w3(1) D])
        show ?thesis
        proof (cases r4)
          case (Inl e)
          have "r = Inl e" "w' = w4"
            using s g ret Inl by (simp_all add: scale_context_new_def A \<open>r1 = Inr f\<close> B C D)
          then show ?thesis using t4 w3 Inl done_ [of w4 e] by (simp add: cleans_def)
        next
          case sink: (Inr sink)
          have w4: "ffi_ok w4" "owned w4 = owned w2" using t4 sink w3 by (simp_all add: cleans_def)
          let ?str = "build_scale_filter_str env fi fo fs c d"
          obtain r5 w5 where E: "sc_configure env ?str fi fo dev g f src sink w4 = (r5, w5)" by fastforce
          have t5: "cleans w4 r5 w5 {g, f}"
            by (rule sc_configure_cleans [OF w4(1) E]) (simp_all add: w4 w2)
          show ?thesis
          proof (cases r5)
            case e: (Inl e)
            have "r = Inl e" "w' = w5"
              using s g ret sink e by (simp_all add: scale_context_new_def A Inr B C D E)
            then show ?thesis using t5 w4 e done_ [of w5 e] by (simp add: cleans_def)
          next
            case u: (Inr u)
            then have w5: "ffi_ok w5" "owned w5 = owned w2" using t5 w4 by (simp_all add: cleans_def)
            have "r = Inr \<lparr>sx_graph = g, sx_buffersrc = src, sx_buffersink = sink,
                sx_frame_in = f, sx_frame_out = out\<rparr>" "w' = w5"
              using s g ret sink u by (simp_all add: scale_context_new_def A Inr B C D E)
            then show ?thesis using w5 w2 w1 g by (auto simp: transfers_def sx_own_def)
          qed
        qed
      qed
    qed
  qed
qed

lemma scale_context_drop_owned:
  "ffi_ok w \<Longrightarrow> ffi_ok (scale_context_drop s w)
     \<and> owned (scale_context_drop s w) = owned w - sx_own s"
  by (auto simp: scale_context_drop_def sx_own_def Let_def) (auto simp: ffi_ok_def)

section \<open>Scalers\<close>

definition contexts_own :: "scale_context list \<Rightarrow> ptr set" where
  "contexts_own xs = \<Union> (sx_own ` set xs)"

lemma contexts_own_simps [simp]:
  "contexts_own [] = {}" "contexts_own (x # xs) = sx_own x \<union> contexts_own xs"
  "contexts_own (xs @ ys) = contexts_own xs \<union> contexts_own ys"
  by (simp_all add: contexts_own_def)

lemma drop_contexts:
  "ffi_ok w \<Longrightarrow> ffi_ok (fold scale_context_drop xs w)
     \<and> owned (fold scale_context_drop xs w) = owned w - contexts_own xs"
proof (induction xs arbitrary: w)
  case Nil
  then show ?case by simp
next
  case (Cons x xs)
  note d = scale_context_drop_owned [OF Cons.prems, of x]
  show ?case using Cons.IH [of "scale_context_drop x w"] d by auto
qed

lemma build_contexts_owned:
  assumes new: "\<And>fmt w r w'. ffi_ok w \<Longrightarrow> new fmt w = (r, w') \<Longrightarrow> transfers w r w' sx_own"
    and ok: "ffi_ok w" and b: "build_contexts new fmts results w = (r, w')"
  shows "ffi_ok w' \<and> (case r of
      Inl _ \<Rightarrow> owned w' = owned w - contexts_own results
    | Inr rs \<Rightarrow> \<exists>ext. rs = results @ ext \<and> length ext = length fmts
        \<and> owned w' = owned w \<union> contexts_own ext \<and> contexts_own ext \<inter> owned w = {})"
  using ok b
proof (induction fmts arbitrary: results w)
  case Nil
  then show ?case by auto
next
  case (Cons fmt fmts)
  obtain r1 w1 where n: "new fmt w = (r1, w1)" by fastforce
  have t: "transfers w r1 w1 sx_own" by (rule new [OF Cons.prems(1) n])
  show ?case
  proof (cases r1)
    case (Inl e)
    then have "r = Inl e" "w' = fold scale_context_drop results w1"
      using Cons.prems(2) n by simp_all
    then show ?thesis using t Inl drop_contexts [of w1 results] by (simp add: transfers_def)
  next
    case (Inr s)
    then have ok1: "ffi_ok w1" and w1: "owned w1 = owned w \<union> sx_own s" "sx_own s \<inter> owned w = {}"
      using t by (simp_all add: transfers_def)
    have "build_contexts new fmts (results @ [s]) w1 = (r, w')" using Cons.prems(2) n Inr by simp
    note ih = Cons.IH [OF ok1 this]
    show ?thesis
    proof (cases r)
      case (Inl e)
      then show ?thesis using ih w1 by auto
    next
      case r: (Inr rs)
      then obtain ext where "rs = results @ s # ext" "length ext = length fmts"
        "owned w' = owned w1 \<union> contexts_own ext" "contexts_own ext \<inter> owned w1 = {}"
        using ih by auto
      then show ?thesis using ih r w1 by (auto intro!: exI [of _ "s # ext"])
    qed
  qed
qed

lemma hw_frames_owned:
  assumes ok: "ffi_ok w" and own: "out \<in> owned w"
    and h: "hw_frames fo fs a b dev out w = (r, w')"
  shows "ffi_ok w' \<and> (case r of
      Inl _ \<Rightarrow> owned w' = owned w - {out}
    | Inr p \<Rightarrow> owned w' = (if p = 0 then owned w else insert p (owned w)) \<and> p \<notin> owned w)"
proof (cases "dev = 0")
  case True
  then have "r = Inr 0" "w' = w" using h by (simp_all add: hw_frames_def)
  then show ?thesis using ok ffi_ok_zero [OF ok] by simp
next
  case dev: False
  obtain q w1 where A: "alloc (Obtain ''av_hwframe_ctx_alloc'' [P dev]) w = (q, w1)" by fastforce
  note t1 = alloc_fresh [OF ok _ A]
  show ?thesis
  proof (cases "q = 0")
    case True
    then have "r = Inl ''Failed to create HW frame context''" "w' = call (Release ''av_frame_free'' out) w1"
      using h dev by (simp_all add: hw_frames_def A)
    then show ?thesis using t1 True by simp
  next
    case q: False
    have w1: "ffi_ok w1" "owned w1 = insert q (owned w)" "q \<notin> owned w" using t1 q by simp_all
    have qo: "q \<noteq> out" using own w1(3) by blast
    define w2 where "w2 = call (Call ''set frames_ctx'' [P q, F fo, F fs, I a, I b, I (int HW_FRAME_POOL_SIZE)]) w1"
    have w2: "ffi_ok w2" "owned w2 = owned w1" using w1 by (simp_all add: w2_def)
    obtain ret w3 where B: "ask (Call ''av_hwframe_ctx_init'' [P q]) w2 = (ret, w3)" by fastforce
    have w3: "ffi_ok w3" "owned w3 = owned w1" using ask_plain [OF B w2(1)] w2 by simp_all
    show ?thesis
    proof (cases "ret < 0")
      case True
      then have "r = Inl ''Failed to initialize HW frame context''"
        "w' = calls [Release ''av_buffer_unref'' q, Release ''av_frame_free'' out] w3"
        using h dev q by (simp_all add: hw_frames_def A w2_def [symmetric] B)
      then show ?thesis using w3 w1 by (auto simp: owned_calls)
    next
      case ret: False
      obtain p w4 where C: "alloc (Obtain ''av_buffer_ref'' [P q]) w3 = (p, w4)" by fastforce
      note t4 = alloc_fresh [OF w3(1) _ C]
      obtain ret5 w5 where D: "ask (Call ''av_hwframe_get_buffer'' [P p, P out]) w4 = (ret5, w5)" by fastforce
      have w5: "ffi_ok w5" "owned w5 = owned w4" using ask_plain [OF D] t4 by simp_all
      have p0: "p = 0 \<Longrightarrow> p \<notin> owned w" using ffi_ok_zero [OF ok] by simp
      show ?thesis
      proof (cases "ret5 < 0")
        case True
        then have "r = Inl ''Could not allocate video hardware frame data''"
          "w' = calls [Release ''av_buffer_unref'' q, Release ''av_buffer_unref'' p,
             Release ''av_frame_free'' out] w5"
          using h dev q ret by (simp_all add: hw_frames_def A w2_def [symmetric] B C D)
        then show ?thesis using w5 t4 w3 w1 p0 by (auto simp: owned_calls split: if_splits)
      next
        case False
        then have "r = Inr p" "w' = call (Release ''av_buffer_unref'' q) w5"
          using h dev q ret by (simp_all add: hw_frames_def A w2_def [symmetric] B C D)
        then show ?thesis using w5 t4 w3 w1 p0 by auto
      qed
    qed
  qed
qed

definition sl_own :: "scalers \<Rightarrow> ptr set" where
  "sl_own s = contexts_own [sl_bgr0 s, sl_rgb0 s, sl_rgb s] \<union> ({sl_frame_out s, sl_hw_frames s} - {0})"

lemma release_nonnull:
  assumes "ffi_ok w"
  shows "ffi_ok (if p \<noteq> 0 then call (Release n p) w else w)
     \<and> owned (if p \<noteq> 0 then call (Release n p) w else w) = owned w - {p}"
  using assms ffi_ok_zero [OF assms] by simp

lemma set_minus_nonzero: "0 \<notin> W \<Longrightarrow> W - A - {f} - {h} = W - (A \<union> ({f, h} - {0}))"
  by auto

lemma scalers_drop_owned:
  assumes "ffi_ok w"
  shows "ffi_ok (scalers_drop s w) \<and> owned (scalers_drop s w) = owned w - sl_own s"
proof -
  define w1 where "w1 = fold scale_context_drop [sl_bgr0 s, sl_rgb0 s, sl_rgb s] w"
  have 1: "ffi_ok w1" "owned w1 = owned w - contexts_own [sl_bgr0 s, sl_rgb0 s, sl_rgb s]"
    using drop_contexts [OF assms, of "[sl_bgr0 s, sl_rgb0 s, sl_rgb s]"] by (simp_all only: w1_def)
  define w2 where "w2 = (if sl_frame_out s \<noteq> 0 then call (Release ''av_frame_free'' (sl_frame_out s)) w1 else w1)"
  have 2: "ffi_ok w2" "owned w2 = owned w1 - {sl_frame_out s}"
    using release_nonnull [OF 1(1)] by (simp_all only: w2_def)
  have e: "scalers_drop s w = (if sl_hw_frames s \<noteq> 0
      then call (Release ''av_buffer_unref'' (sl_hw_frames s)) w2 else w2)"
    by (simp only: scalers_drop_def Let_def w1_def w2_def)
  have 3: "ffi_ok (scalers_drop s w)" "owned (scalers_drop s w) = owned w2 - {sl_hw_frames s}"
    using release_nonnull [OF 2(1)] by (simp_all only: e)
  have z: "0 \<notin> owned w" by (rule ffi_ok_zero [OF assms])
  show ?thesis using 3(1) unfolding 3(2) 2(2) 1(2) sl_own_def set_minus_nonzero [OF z] by simp
qed

lemma scalers_new_transfers:
  assumes ok: "ffi_ok w" and s: "scalers_new env a b c d fo fs dev w = (r, w')"
  shows "transfers w r w' sl_own"
proof -
  obtain out w1 where A: "alloc (Obtain ''av_frame_alloc'' []) w = (out, w1)" by fastforce
  note t1 = alloc_fresh [OF ok _ A]
  show ?thesis
  proof (cases "out = 0")
    case True
    then have "r = Inl ''Failed to allocate frame_out for scale filter''" "w' = w1"
      using s by (simp_all add: scalers_new_def A)
    then show ?thesis using t1 True by (simp add: transfers_def)
  next
    case out: False
    have w1: "ffi_ok w1" "owned w1 = insert out (owned w)" "out \<notin> owned w" using t1 out by simp_all
    obtain r2 w2 where B: "hw_frames fo fs c d dev out w1 = (r2, w2)" by fastforce
    have t2: "ffi_ok w2 \<and> (case r2 of Inl _ \<Rightarrow> owned w2 = owned w1 - {out}
      | Inr p \<Rightarrow> owned w2 = (if p = 0 then owned w1 else insert p (owned w1)) \<and> p \<notin> owned w1)"
      by (rule hw_frames_owned [OF w1(1) _ B]) (simp add: w1)
    show ?thesis
    proof (cases r2)
      case (Inl e)
      then have "r = Inl e" "w' = w2" using s out by (simp_all add: scalers_new_def A B)
      then show ?thesis using t2 Inl w1 by (auto simp: transfers_def)
    next
      case (Inr p)
      have w2: "ffi_ok w2" "owned w2 = (if p = 0 then owned w1 else insert p (owned w1))" "p \<notin> owned w1"
        using t2 Inr by simp_all
      let ?new = "\<lambda>fmt. scale_context_new env a b c d fmt fo dev fs out"
      obtain r3 w3 where C: "build_contexts ?new [FmtBGR0, FmtRGB0, FmtRGB24] [] w2 = (r3, w3)"
        by fastforce
      have new: "\<And>fmt w r w'. ffi_ok w \<Longrightarrow> ?new fmt w = (r, w') \<Longrightarrow> transfers w r w' sx_own"
        using scale_context_new_transfers by blast
      note t3 = build_contexts_owned [OF new w2(1) C]
      show ?thesis
      proof (cases r3)
        case e: (Inl e)
        have w3: "ffi_ok w3" "owned w3 = owned w2" using t3 e by simp_all
        have "r = Inl e" "w' = call (Release ''av_frame_free'' out)
            (if p \<noteq> 0 then call (Release ''av_buffer_unref'' p) w3 else w3)"
          using s out by (simp_all add: scalers_new_def A B Inr C e del: build_contexts.simps)
        then show ?thesis using w3 w2 w1 by (auto simp: transfers_def)
      next
        case rs: (Inr rs)
        then have w3: "ffi_ok w3" "length rs = 3" "owned w3 = owned w2 \<union> contexts_own rs"
          "contexts_own rs \<inter> owned w2 = {}"
          using t3 by auto
        obtain x y z where xyz: "rs = [x, y, z]"
          using w3(2) by (auto simp: numeral_3_eq_3 length_Suc_conv)
        have r: "r = Inr \<lparr>sl_bgr0 = x, sl_rgb0 = y, sl_rgb = z, sl_hw_frames = p, sl_frame_out = out\<rparr>"
          "w' = w3"
          using s out by (simp_all add: scalers_new_def A B Inr C rs xyz numeral_2_eq_2 del: build_contexts.simps)
        have "sl_own \<lparr>sl_bgr0 = x, sl_rgb0 = y, sl_rgb = z, sl_hw_frames = p, sl_frame_out = out\<rparr>
            = contexts_own rs \<union> {out} \<union> ({p} - {0})"
          using out by (auto simp: sl_own_def xyz)
        then show ?thesis using r w3 w2 w1 by (auto simp: transfers_def split: if_splits)
      qed
    qed
  qed
qed

section \<open>The drain loop\<close>

text \<open>It returns as soon as the filter answers with an error, \<open>EAGAIN\<close> or the end of the stream.\<close>

lemma sink_loop_ends:
  "k < n \<Longrightarrow> ffi_oracle w (length (ffi_trace w) + k) (Call ''av_buffersink_get_frame'' [P s, P f]) < 0 \<Longrightarrow>
     \<exists>r. fst (sink_loop n s f w) = Some r"
proof (induction k arbitrary: n w)
  case 0
  then obtain m where "n = Suc m" by (cases n) auto
  then show ?case using 0 by (simp add: ask_def answer_def Let_def)
next
  case (Suc k)
  then obtain m where m: "n = Suc m" "k < m" by (cases n) auto
  let ?c = "Call ''av_buffersink_get_frame'' [P s, P f]"
  obtain ret w1 where a: "ask ?c w = (ret, w1)" by fastforce
  have "ffi_oracle w1 = ffi_oracle w" "length (ffi_trace w1) = Suc (length (ffi_trace w))"
    using a by (auto simp: ask_def record_call_def)
  then have "\<exists>r. fst (sink_loop m s f w1) = Some r"
    using Suc.IH [OF m(2), of w1] Suc.prems(2) by simp
  then show ?case using a m by (simp add: Let_def)
qed

end
