(* ===== verification/EncoderFacts.thy ===== *)
theory EncoderFacts
  imports VideoEncoder ScaleFacts
begin

text \<open>
  Ownership over the life of a \<open>VideoEncoder\<close>: whatever FFmpeg answers, a failed \<open>new\<close> and a \<open>new\<close>
  followed by \<open>Drop\<close> leave nothing behind but the AVIO buffer.  Also the size check of \<open>encode\<close>, the
  keyframe mark, the quality bound and the codec strings.
\<close>

section \<open>What an encoder owns\<close>

definition ve_own :: "video_encoder \<Rightarrow> ptr set" where
  "ve_own e = ({ve_format_ctx e, ve_codec_ctx e, ve_hw_device e, ve_packet e}
       \<union> (if ve_format_ctx e = 0 then {} else {ve_pb e})
       \<union> (case ve_scalers e of Some s \<Rightarrow> sl_own s | None \<Rightarrow> {})) - {0}"

text \<open>\<open>holds L e w\<close>: beyond what \<open>L\<close> held before, the state owns what the encoder owns and the buffers
  \<open>B\<close>.\<close>

definition holds :: "ptr set \<Rightarrow> ptr set \<Rightarrow> video_encoder \<Rightarrow> ffi \<Rightarrow> bool" where
  "holds L B e w \<longleftrightarrow> ffi_ok w \<and> owned w = L \<union> ve_own e \<union> B \<and> ve_own e \<inter> L = {} \<and> B \<inter> L = {}
     \<and> ve_own e \<inter> B = {}"

lemma encoder_drop_owned:
  assumes "ffi_ok w"
  shows "ffi_ok (encoder_drop e w) \<and> owned (encoder_drop e w) = owned w - ve_own e"
proof -
  have z: "0 \<notin> owned w" by (rule ffi_ok_zero [OF assms])
  define w1 where "w1 = (if ve_format_ctx e \<noteq> 0 then
      let v = (if ve_header_written e then call (Call ''av_write_trailer'' [P (ve_format_ctx e)]) w else w);
          v = (if ve_pb e \<noteq> 0 then call (Release ''avio_context_free'' (ve_pb e)) v else v)
      in call (Release ''avformat_free_context'' (ve_format_ctx e)) v else w)"
  have 1: "ffi_ok w1" "owned w1 = owned w - ({ve_format_ctx e} \<union> (if ve_format_ctx e = 0 then {} else {ve_pb e}))"
    using assms z by (auto simp: w1_def Let_def)
  define w2 where "w2 = (if ve_codec_ctx e \<noteq> 0
      then call (Release ''avcodec_free_context'' (ve_codec_ctx e)) w1 else w1)"
  have 2: "ffi_ok w2" "owned w2 = owned w1 - {ve_codec_ctx e}" using 1 z by (auto simp: w2_def)
  define w3 where "w3 = (if ve_packet e \<noteq> 0 then call (Release ''av_packet_free'' (ve_packet e)) w2 else w2)"
  have 3: "ffi_ok w3" "owned w3 = owned w2 - {ve_packet e}" using 1 2 z by (auto simp: w3_def)
  define w4 where "w4 = (if ve_hw_device e \<noteq> 0
      then call (Release ''av_buffer_unref'' (ve_hw_device e)) w3 else w3)"
  have 4: "ffi_ok w4" "owned w4 = owned w3 - {ve_hw_device e}" using 1 2 3 z by (auto simp: w4_def)
  have d: "encoder_drop e w = (case ve_scalers e of Some s \<Rightarrow> scalers_drop s w4 | None \<Rightarrow> w4)"
    by (simp only: encoder_drop_def Let_def w1_def w2_def w3_def w4_def)
  have o: "owned w4 = owned w - ({ve_format_ctx e, ve_codec_ctx e, ve_hw_device e, ve_packet e}
       \<union> (if ve_format_ctx e = 0 then {} else {ve_pb e}))"
    using 1 2 3 4 by auto
  show ?thesis
  proof (cases "ve_scalers e")
    case None
    then show ?thesis using 4(1) o d z by (auto simp: ve_own_def)
  next
    case (Some s)
    then show ?thesis using scalers_drop_owned [OF 4(1), of s] o d z by (auto simp: ve_own_def)
  qed
qed

lemma holds_drop:
  "holds L B e w \<Longrightarrow> ffi_ok (encoder_drop e w) \<and> owned (encoder_drop e w) = L \<union> B"
  using encoder_drop_owned [of w e] by (auto simp: holds_def)

section \<open>Construction\<close>

text \<open>A failed hardware attempt gives back the device, the codec context and the scalers.\<close>

lemma unref_hw_True:
  "unref_hw_device True e w = (e\<lparr>ve_hw_device := 0\<rparr>, call (Release ''av_buffer_unref'' (ve_hw_device e)) w)"
  by (simp add: unref_hw_device_def)

lemma set_options_owned [simp]:
  "owned (set_options c opts w) = owned w" "ffi_ok w \<Longrightarrow> ffi_ok (set_options c opts w)"
  by (auto simp: set_options_def owned_calls)

lemma set_params_owned [simp]:
  "owned (set_codec_params e c opts w) = owned w" "ffi_ok w \<Longrightarrow> ffi_ok (set_codec_params e c opts w)"
  by (simp_all add: set_codec_params_def)

lemma open_codec_owned:
  assumes ok: "ffi_ok w" and r: "open_codec True f opts codec c s e w = (b, e', w')"
  shows "ffi_ok w' \<and> (if b then e' = e\<lparr>ve_codec_ctx := c, ve_scalers := Some s\<rparr> \<and> owned w' = owned w
    else e' = e\<lparr>ve_hw_device := 0\<rparr> \<and> owned w' = owned w - {c} - {ve_hw_device e} - sl_own s)"
proof -
  define w1 where "w1 = call (Call ''set pix_fmt'' [P c, F f]) w"
  define w2 where "w2 = (if True \<and> sl_hw_frames s \<noteq> 0
    then call (Call ''hw_frames_ctx = av_buffer_ref'' [P c, P (sl_hw_frames s)]) w1 else w1)"
  define w3 where "w3 = set_codec_params e c options_default (set_options c opts w2)"
  have w3: "ffi_ok w3" "owned w3 = owned w" using ok by (simp_all add: w1_def w2_def w3_def)
  obtain ret w4 where A: "ask (Call ''avcodec_open2'' [P c, P codec]) w3 = (ret, w4)" by fastforce
  have w4: "ffi_ok w4" "owned w4 = owned w" using ask_plain [OF A w3(1)] w3 by simp_all
  note e = r [unfolded open_codec_def Let_def, folded w1_def, folded w2_def, folded w3_def, unfolded A prod.case]
  show ?thesis
  proof (cases "ret = 0")
    case True
    then have "b" "e' = e\<lparr>ve_codec_ctx := c, ve_scalers := Some s\<rparr>" "w' = w4" using e by simp_all
    then show ?thesis using w4 by simp
  next
    case False
    define w5 where "w5 = call (Release ''av_buffer_unref'' (ve_hw_device e)) (call (Release ''avcodec_free_context'' c) w4)"
    have f: "\<not> b" "e' = e\<lparr>ve_hw_device := 0\<rparr>" "w' = scalers_drop s w5"
      using e False by (simp_all add: unref_hw_True w5_def)
    have "ffi_ok w5" "owned w5 = owned w - {c} - {ve_hw_device e}" using w4 by (simp_all add: w5_def)
    then show ?thesis using f scalers_drop_owned [of w5 s] by simp
  qed
qed

lemma try_codec_owned:
  assumes ok: "ffi_ok w" and hw: "ve_hw_device e \<in> owned w"
    and r: "try_codec env name hwf swf cf True opts e w = (b, e', w')"
  shows "ffi_ok w' \<and> (if b then \<exists>c s. e' = e\<lparr>ve_codec_ctx := c, ve_scalers := Some s\<rparr>
      \<and> owned w' = owned w \<union> insert c (sl_own s) \<and> insert c (sl_own s) \<inter> owned w = {}
    else e' = e\<lparr>ve_hw_device := 0\<rparr> \<and> owned w' = owned w - {ve_hw_device e})"
proof -
  obtain codec w1 where A: "ask (Call ''avcodec_find_encoder_by_name'' [S name]) w = (codec, w1)" by fastforce
  have w1: "ffi_ok w1" "owned w1 = owned w" using ask_plain [OF A ok] by simp_all
  show ?thesis
  proof (cases "codec = 0")
    case True
    then have "\<not> b" "e' = e\<lparr>ve_hw_device := 0\<rparr>" "w' = call (Release ''av_buffer_unref'' (ve_hw_device e)) w1"
      using r by (simp_all add: try_codec_def A unref_hw_True)
    then show ?thesis using w1 by simp
  next
    case codec: False
    obtain c w2 where B: "alloc (Obtain ''avcodec_alloc_context3'' [I codec]) w1 = (c, w2)" by fastforce
    note t2 = alloc_fresh [OF w1(1) _ B]
    show ?thesis
    proof (cases "c = 0")
      case True
      then have "\<not> b" "e' = e\<lparr>ve_hw_device := 0\<rparr>" "w' = call (Release ''av_buffer_unref'' (ve_hw_device e)) w2"
        using r codec by (simp_all add: try_codec_def A B unref_hw_True)
      then show ?thesis using w1 t2 True by simp
    next
      case c: False
      have w2: "ffi_ok w2" "owned w2 = insert c (owned w)" "c \<notin> owned w" using t2 c w1 by simp_all
      obtain r3 w3 where C: "scalers_new env (to_c_int (ve_width_in e)) (to_c_int (ve_height_in e))
          (to_c_int (ve_width_out e)) (to_c_int (ve_height_out e)) hwf swf (ve_hw_device e) w2 = (r3, w3)"
        by fastforce
      note t3 = scalers_new_transfers [OF w2(1) C, unfolded transfers_def]
      show ?thesis
      proof (cases r3)
        case (Inl err)
        then have "\<not> b" "e' = e\<lparr>ve_hw_device := 0\<rparr>"
          "w' = call (Release ''av_buffer_unref'' (ve_hw_device e)) (call (Release ''avcodec_free_context'' c) w3)"
          using r codec c by (simp_all add: try_codec_def A B C unref_hw_True)
        then show ?thesis using t3 Inl w2 by auto
      next
        case (Inr s)
        then have r4: "open_codec True cf opts (nat codec) c s e w3 = (b, e', w')"
          using r codec c by (simp add: try_codec_def A B C)
        have w3: "ffi_ok w3" "owned w3 = insert c (owned w) \<union> sl_own s" "sl_own s \<inter> insert c (owned w) = {}"
          using t3 Inr w2 by simp_all
        note t4 = open_codec_owned [OF w3(1) r4]
        show ?thesis
        proof (cases b)
          case True
          then have "e' = e\<lparr>ve_codec_ctx := c, ve_scalers := Some s\<rparr>" "ffi_ok w'"
            "owned w' = owned w \<union> insert c (sl_own s)" "insert c (sl_own s) \<inter> owned w = {}"
            using t4 w3 w2(3) by auto
          then show ?thesis using True by auto
        next
          case False
          have "insert c (owned w) \<union> sl_own s - {c} - {ve_hw_device e} - sl_own s = owned w - {ve_hw_device e}"
            using w3(3) w2(3) by auto
          then show ?thesis using False t4 w3(2) by simp
        qed
      qed
    qed
  qed
qed

lemma with_device_owned:
  assumes ok: "ffi_ok w" and d: "with_device kind dev e w = (e', w')"
  obtains h where "e' = e\<lparr>ve_hw_device := h\<rparr>" "ffi_ok w'" "h \<noteq> 0 \<longrightarrow> h \<notin> owned w"
    "owned w' = (if h = 0 then owned w else insert h (owned w))"
proof -
  obtain p v where A: "alloc (Obtain ''av_hwdevice_ctx_create''
      (S kind # (case dev of Some d \<Rightarrow> [S d] | None \<Rightarrow> []))) w = (p, v)" by fastforce
  have "e' = e\<lparr>ve_hw_device := p\<rparr>" "w' = v" using d by (simp_all add: with_device_def A)
  then show ?thesis using alloc_fresh [OF ok _ A] that by simp
qed

lemma with_device_null:
  assumes ok: "ffi_ok w" and d: "with_device kind dev e w = (e', w')" and z: "ve_hw_device e' = 0"
  shows "ffi_ok w' \<and> e' = e\<lparr>ve_hw_device := 0\<rparr> \<and> owned w' = owned w"
proof -
  obtain h where h: "e' = e\<lparr>ve_hw_device := h\<rparr>" "ffi_ok w'" "h \<noteq> 0 \<longrightarrow> h \<notin> owned w"
    "owned w' = (if h = 0 then owned w else insert h (owned w))" by (rule with_device_owned [OF ok d])
  then have "h = 0" using z by simp
  then show ?thesis using h by simp
qed

text \<open>What setting up a codec adds to an encoder without one: a device perhaps, a context, scalers.\<close>

definition set_up :: "video_encoder \<Rightarrow> ffi \<Rightarrow> video_encoder \<Rightarrow> ffi \<Rightarrow> bool" where
  "set_up e w e' w' \<longleftrightarrow> ffi_ok w' \<and> (\<exists>h c s. e' = e\<lparr>ve_hw_device := h, ve_codec_ctx := c, ve_scalers := Some s\<rparr>
     \<and> owned w' = owned w \<union> (({h} - {0}) \<union> insert c (sl_own s))
     \<and> (({h} - {0}) \<union> insert c (sl_own s)) \<inter> owned w = {})"

lemma set_up_cong: "owned v = owned w \<Longrightarrow> set_up e v e' w' = set_up e w e' w'"
  by (simp add: set_up_def)

lemma try_device_owned:
  assumes ok: "ffi_ok w" and d: "with_device kind dev e w = (e1, w1)" and h: "ve_hw_device e1 \<noteq> 0"
    and r: "try_codec env name hwf swf cf True opts e1 w1 = (b, e', w')"
  shows "if b then set_up e w e' w' else ffi_ok w' \<and> e' = e\<lparr>ve_hw_device := 0\<rparr> \<and> owned w' = owned w"
proof -
  obtain p where p: "e1 = e\<lparr>ve_hw_device := p\<rparr>" "ffi_ok w1" "p \<noteq> 0 \<longrightarrow> p \<notin> owned w"
    "owned w1 = (if p = 0 then owned w else insert p (owned w))" by (rule with_device_owned [OF ok d])
  have p0: "p \<noteq> 0" using p(1) h by simp
  have e1: "e1 = e\<lparr>ve_hw_device := p\<rparr>" "ffi_ok w1" "p \<notin> owned w" "owned w1 = insert p (owned w)" "p \<noteq> 0"
    using p p0 by simp_all
  have m: "ve_hw_device e1 = p" using e1 by simp
  note t = try_codec_owned [OF e1(2) _ r, unfolded m e1(4)]
  show ?thesis
  proof (cases b)
    case True
    then obtain c s where cs: "ffi_ok w'" "e' = e1\<lparr>ve_codec_ctx := c, ve_scalers := Some s\<rparr>"
      "owned w' = insert p (owned w) \<union> insert c (sl_own s)" "insert c (sl_own s) \<inter> insert p (owned w) = {}"
      using t by auto
    have "e' = e\<lparr>ve_hw_device := p, ve_codec_ctx := c, ve_scalers := Some s\<rparr>" using cs(2) e1(1) by simp
    moreover have "owned w' = owned w \<union> (({p} - {0}) \<union> insert c (sl_own s))" using cs(3) e1(5) by auto
    moreover have "(({p} - {0}) \<union> insert c (sl_own s)) \<inter> owned w = {}" using cs(4) e1(3) by auto
    ultimately have "set_up e w e' w'" unfolding set_up_def using cs(1) by blast
    then show ?thesis using True by simp
  next
    case False
    then show ?thesis using t e1 by simp
  qed
qed

lemma try_vaapi_owned:
  assumes "ffi_ok w" "try_vaapi env dev e w = (b, e', w')"
  shows "if b then set_up e w e' w' else ffi_ok w' \<and> e' = e\<lparr>ve_hw_device := 0\<rparr> \<and> owned w' = owned w"
proof -
  obtain e1 w1 where A: "with_device ''VAAPI'' dev e w = (e1, w1)" by fastforce
  show ?thesis
  proof (cases "ve_hw_device e1 = 0")
    case True
    then have "\<not> b" "e' = e1" "w' = w1" using assms(2) by (simp_all add: try_vaapi_def A)
    then show ?thesis using with_device_null [OF assms(1) A True] True by simp
  next
    case False
    then show ?thesis using try_device_owned [OF assms(1) A False] assms(2) by (simp add: try_vaapi_def A)
  qed
qed

lemma try_nvenc_owned:
  assumes "ffi_ok w" "try_nvenc env e w = (b, e', w')"
  shows "if b then set_up e w e' w' else ffi_ok w' \<and> e' = e\<lparr>ve_hw_device := 0\<rparr> \<and> owned w' = owned w"
proof -
  obtain e1 w1 where A: "with_device ''CUDA'' None e w = (e1, w1)" by fastforce
  show ?thesis
  proof (cases "ve_hw_device e1 = 0")
    case True
    then have "\<not> b" "e' = e1" "w' = w1" using assms(2) by (simp_all add: try_nvenc_def A)
    then show ?thesis using with_device_null [OF assms(1) A True] True by simp
  next
    case False
    then show ?thesis using try_device_owned [OF assms(1) A False] assms(2) by (simp add: try_nvenc_def A)
  qed
qed

lemma setup_libx264_owned:
  assumes ok: "ffi_ok w" and h: "ve_hw_device e = 0" and r: "setup_libx264 env options e w = (r, e', w')"
  shows "case r of Inr _ \<Rightarrow> set_up e w e' w' | Inl _ \<Rightarrow> ffi_ok w' \<and> e' = e \<and> owned w' = owned w"
proof -
  let ?name = "ffmpeg_codec_name (op_codec options)"
  obtain codec w1 where A: "ask (Call ''avcodec_find_encoder_by_name'' [S ?name]) w = (codec, w1)" by fastforce
  have w1: "ffi_ok w1" "owned w1 = owned w" using ask_plain [OF A ok] by simp_all
  obtain c w2 where B: "alloc (Obtain ''avcodec_alloc_context3'' [I codec]) w1 = (c, w2)" by fastforce
  note t2 = alloc_fresh [OF w1(1) _ B]
  obtain r3 w3 where C: "scalers_new env (to_c_int (ve_width_in e)) (to_c_int (ve_height_in e))
      (to_c_int (ve_width_out e)) (to_c_int (ve_height_out e)) FmtYUV420P FmtYUV420P 0 w2 = (r3, w3)"
    by fastforce
  consider "codec = 0" | "codec \<noteq> 0" "c = 0" | "codec \<noteq> 0" "c \<noteq> 0" by blast
  then show ?thesis
  proof cases
    case 1
    then show ?thesis using r w1 by (auto simp: setup_libx264_def A)
  next
    case 2
    then show ?thesis using r w1 t2 by (auto simp: setup_libx264_def A B)
  next
    case 3
    have w2: "ffi_ok w2" "owned w2 = insert c (owned w)" "c \<notin> owned w" using t2 3 w1 by simp_all
    note t3 = scalers_new_transfers [OF w2(1) C, unfolded transfers_def]
    show ?thesis
    proof (cases r3)
      case (Inl err)
      then show ?thesis using r 3 t3 w2 by (auto simp: setup_libx264_def A B C)
    next
      case (Inr s)
      have w3: "ffi_ok w3" "owned w3 = insert c (owned w) \<union> sl_own s" "sl_own s \<inter> insert c (owned w) = {}"
        using t3 Inr w2 by simp_all
      define w4 where "w4 = set_codec_params e c options (set_options c
        [(''preset'', ''ultrafast''), (''tune'', ''zerolatency''), (''crf'', ''23'')]
        (call (Call ''set pix_fmt'' [P c, F FmtYUV420P]) w3))"
      have w4: "ffi_ok w4" "owned w4 = owned w3" using w3 by (simp_all add: w4_def)
      obtain ret w5 where D: "ask (Call ''avcodec_open2'' [P c, I codec]) w4 = (ret, w5)" by fastforce
      have w5: "ffi_ok w5" "owned w5 = owned w3" using ask_plain [OF D w4(1)] w4 by simp_all
      show ?thesis
      proof (cases "ret < 0")
        case True
        then have f: "r = Inl ''Could not open libx264 codec''" "e' = e"
          "w' = scalers_drop s (call (Release ''avcodec_free_context'' c) w5)"
          using r 3 by (simp_all add: setup_libx264_def A B C Inr w4_def [symmetric] D)
        have "insert c (owned w) \<union> sl_own s - {c} - sl_own s = owned w" using w3(3) w2(3) by auto
        then show ?thesis
          using f w5 w3(2) scalers_drop_owned [of "call (Release ''avcodec_free_context'' c) w5" s] by simp
      next
        case False
        then have f: "r = Inr ()" "e' = e\<lparr>ve_codec_ctx := c, ve_scalers := Some s\<rparr>" "w' = w5"
          using r 3 by (simp_all add: setup_libx264_def A B C Inr w4_def [symmetric] D)
        have "e' = e\<lparr>ve_hw_device := 0, ve_codec_ctx := c, ve_scalers := Some s\<rparr>" using f(2) h by simp
        moreover have "owned w' = owned w \<union> (({0} - {0}) \<union> insert c (sl_own s))" using w5 w3 f(3) by auto
        moreover have "(({0} - {0}) \<union> insert c (sl_own s)) \<inter> owned w = {}" using w3(3) w2(3) by auto
        ultimately have "set_up e w e' w'" unfolding set_up_def using f(3) w5(1) by blast
        then show ?thesis using f by simp
      qed
    qed
  qed
qed

lemma choose_codec_owned:
  assumes ok: "ffi_ok w" and h: "ve_hw_device e = 0" and r: "choose_codec env dev options e w = (r, e', w')"
  shows "case r of Inr _ \<Rightarrow> set_up e w e' w' | Inl _ \<Rightarrow> ffi_ok w' \<and> e' = e \<and> owned w' = owned w"
proof -
  obtain b1 e1 w1 where A: "(if op_try_vaapi options then try_vaapi env dev e w else (False, e, w)) = (b1, e1, w1)"
    by (metis prod.exhaust)
  have 1: "if b1 then set_up e w e1 w1 else ffi_ok w1 \<and> e1 = e \<and> owned w1 = owned w"
  proof (cases "op_try_vaapi options")
    case True
    have "e\<lparr>ve_hw_device := 0\<rparr> = e" using h by simp
    then show ?thesis using try_vaapi_owned [OF ok] A True by (simp only: if_True) metis
  next
    case False
    then show ?thesis using A ok by auto
  qed
  obtain b2 e2 w2 where B: "(if op_try_nvenc options \<and> \<not> b1 then try_nvenc env e1 w1 else (b1, e1, w1)) = (b2, e2, w2)"
    by (metis prod.exhaust)
  have 2: "if b2 then set_up e w e2 w2 else ffi_ok w2 \<and> e2 = e \<and> owned w2 = owned w"
  proof (cases "op_try_nvenc options \<and> \<not> b1")
    case True
    then have s: "ffi_ok w1" "e1 = e" "owned w1 = owned w" using 1 by simp_all
    have t: "try_nvenc env e w1 = (b2, e2, w2)" using B True s by simp
    have e0: "e\<lparr>ve_hw_device := 0\<rparr> = e" using h by simp
    show ?thesis using try_nvenc_owned [OF s(1) t] unfolding set_up_cong [OF s(3)] e0 s(3) .
  next
    case False
    then have "b2 = b1" "e2 = e1" "w2 = w1" using B by auto
    then show ?thesis using 1 by simp
  qed
  note c = r [unfolded choose_codec_def Let_def A prod.case B]
  show ?thesis
  proof (cases b2)
    case True
    then show ?thesis using c 2 by auto
  next
    case False
    then have s: "ffi_ok w2" "e2 = e" "owned w2 = owned w" using 2 by simp_all
    have t: "setup_libx264 env options e w2 = (r, e', w')" using c False s by simp
    show ?thesis using setup_libx264_owned [OF s(1) h t] unfolding set_up_cong [OF s(3)] s(3) .
  qed
qed

lemma sl_own_pos: "0 \<notin> owned w \<Longrightarrow> sl_own s \<subseteq> owned w \<Longrightarrow> sl_own s - {0} = sl_own s"
  by auto

lemma set_up_holds:
  assumes e: "ve_hw_device e = 0" "ve_codec_ctx e = 0" "ve_scalers e = None"
    and l: "holds L {} e w" and u: "set_up e w e' w'"
  shows "holds L {} e' w'"
proof -
  obtain h c s where s: "ffi_ok w'" "e' = e\<lparr>ve_hw_device := h, ve_codec_ctx := c, ve_scalers := Some s\<rparr>"
    "owned w' = owned w \<union> (({h} - {0}) \<union> insert c (sl_own s))"
    "(({h} - {0}) \<union> insert c (sl_own s)) \<inter> owned w = {}" using u unfolding set_up_def by blast
  have z: "0 \<notin> owned w'" by (rule ffi_ok_zero [OF s(1)])
  have c0: "c \<noteq> 0" "0 \<notin> sl_own s" using z s(3) by auto
  define F where "F = (if ve_format_ctx e = 0 then {} else {ve_pb e})"
  have 1: "ve_own e = ({ve_format_ctx e, ve_packet e} \<union> F) - {0}"
    using e by (auto simp: ve_own_def F_def)
  have 2: "ve_own e' = ({ve_format_ctx e, c, h, ve_packet e} \<union> F \<union> sl_own s) - {0}"
    by (auto simp: s(2) ve_own_def F_def)
  have o: "ve_own e' = ve_own e \<union> (({h} - {0}) \<union> insert c (sl_own s))"
    unfolding 1 2 using c0 by auto
  show ?thesis using l s(1,4) unfolding holds_def o s(3) by auto
qed

lemma open_stream_holds:
  assumes e: "ve_packet e = 0" and l: "holds L {} e w" and r: "open_stream e w = (r, e', w')"
  shows "holds L {} e' w' \<and> ve_format_ctx e' = ve_format_ctx e \<and> ve_pb e' = ve_pb e"
proof -
  obtain st w1 where A: "ask (Call ''avformat_new_stream'' [P (ve_format_ctx e)]) w = (st, w1)" by fastforce
  have ok: "ffi_ok w" using l by (simp add: holds_def)
  have w1: "ffi_ok w1" "owned w1 = owned w" using ask_plain [OF A ok] by simp_all
  define w2 where "w2 = call (Call ''avcodec_parameters_from_context'' [I st, P (ve_codec_ctx e)]) w1"
  have w2: "ffi_ok w2" "owned w2 = owned w" using w1 by (simp_all add: w2_def)
  obtain p w3 where B: "alloc (Obtain ''av_packet_alloc'' []) w2 = (p, w3)" by fastforce
  note t = alloc_fresh [OF w2(1) _ B]
  show ?thesis
  proof (cases "st = 0")
    case True
    then have "e' = e" "w' = w1" using r by (simp_all add: open_stream_def A)
    then show ?thesis using l w1 by (simp add: holds_def)
  next
    case False
    then have f: "e' = e\<lparr>ve_packet := p\<rparr>" "w' = w3"
      using r by (auto simp: open_stream_def A w2_def [symmetric] B Let_def split: if_splits)
    have "ve_own e' = ve_own e \<union> ({p} - {0})" using e unfolding f ve_own_def by auto
    then show ?thesis using l t w2 f unfolding holds_def by (auto split: if_splits)
  qed
qed

text \<open>The pointer is the buffer that \<open>open_video\<close> allocates for the AVIO context.\<close>

definition is_avio_buffer :: "encoder_options \<Rightarrow> ptr \<Rightarrow> ffi \<Rightarrow> bool" where
  "is_avio_buffer options b w \<longleftrightarrow>
     (Obtain ''av_malloc'' [I (to_c_int (op_avio_buffer_size options))], int b) \<in> set (ffi_trace w)"

lemma alloc_trace: "alloc c w = (p, w') \<Longrightarrow> ffi_trace w' = ffi_trace w @ [(c, int p)]"
  by (auto simp: alloc_def Let_def record_call_def)

lemma call_trace: "ffi_trace (call c w) = ffi_trace w @ [(c, 0)]"
  by (simp add: call_def record_call_def)

lemma ask_trace: "ask c w = (r, w') \<Longrightarrow> ffi_trace w' = ffi_trace w @ [(c, r)]"
  by (auto simp: ask_def record_call_def)

lemma open_avio_holds:
  assumes e: "ve_pb e = 0" "ve_format_ctx e \<noteq> 0" and l: "holds L {} e w"
    and r: "open_avio options e w = (r, e', w')"
  shows "(case r of Inl _ \<Rightarrow> holds L {} e' w' | Inr _ \<Rightarrow> \<exists>b. holds L {b} e' w' \<and> is_avio_buffer options b w')"
proof -
  define bs where "bs = to_c_int (op_avio_buffer_size options)"
  have ok: "ffi_ok w" using l by (simp add: holds_def)
  obtain b w1 where A: "alloc (Obtain ''av_malloc'' [I bs]) w = (b, w1)" by fastforce
  note t1 = alloc_fresh [OF ok _ A]
  have t1': "ffi_ok w1" using t1 by simp
  obtain p w2 where B: "alloc (Obtain ''avio_alloc_context'' [P b, I bs]) w1 = (p, w2)" by fastforce
  note t2 = alloc_fresh [OF t1' _ B]
  consider "b = 0" | "b \<noteq> 0" "p = 0" | "b \<noteq> 0" "p \<noteq> 0" by blast
  then show ?thesis
  proof cases
    case 1
    then have "r = Inl ''Failed to allocate AVIO buffer''" "e' = e" "w' = w1"
      using r by (simp_all add: open_avio_def bs_def [symmetric] A)
    then show ?thesis using l t1 1 by (simp add: holds_def)
  next
    case 2
    then have "r = Inl ''Failed to allocate avio context''" "e' = e" "w' = call (Release ''av_free'' b) w2"
      using r by (simp_all add: open_avio_def bs_def [symmetric] A B)
    then show ?thesis using l t1 t2 2 by (auto simp: holds_def)
  next
    case 3
    then have f: "r = Inr ()" "e' = e\<lparr>ve_pb := p\<rparr>" "w' = call (Call ''set pb'' [P (ve_format_ctx e), P p]) w2"
      using r by (simp_all add: open_avio_def bs_def [symmetric] A B)
    have o: "ve_own e' = insert p (ve_own e)" using e 3 unfolding f ve_own_def by auto
    have w2: "ffi_ok w2" "owned w2 = insert p (insert b (owned w))" "p \<notin> insert b (owned w)" "b \<notin> owned w"
      using t1 t2 3 by simp_all
    have "holds L {b} e' w'" using l w2 o f(3) unfolding holds_def by auto
    moreover have "is_avio_buffer options b w'"
      by (simp add: is_avio_buffer_def f(3) alloc_trace [OF B] alloc_trace [OF A] call_trace bs_def)
    ultimately show ?thesis using f(1) by auto
  qed
qed

lemma write_header_holds:
  assumes l: "holds L B e w" and r: "write_header e w = (r, e', w')"
  shows "holds L B e' w' \<and> set (ffi_trace w) \<subseteq> set (ffi_trace w')"
proof -
  have ok: "ffi_ok w" using l by (simp add: holds_def)
  obtain opt w1 where A: "alloc (Obtain ''av_dict_set'' [S ''movflags'', S ''frag_custom+empty_moov+default_base_moof'']) w = (opt, w1)"
    by fastforce
  note t1 = alloc_fresh [OF ok _ A]
  have t1': "ffi_ok w1" using t1 by simp
  obtain ret w2 where B: "ask (Call ''avformat_write_header'' [P (ve_format_ctx e), P opt]) w1 = (ret, w2)" by fastforce
  have w2: "ffi_ok w2" "owned w2 = owned w1" using ask_plain [OF B t1'] by simp_all
  define w3 where "w3 = call (Release ''av_dict_free'' opt) w2"
  have w3: "ffi_ok w3" "owned w3 = owned w"
    using w2 t1 ffi_ok_zero [OF ok] by (auto simp: w3_def split: if_splits)
  obtain pr w4 where C: "ask (Call ''profile'' [P (ve_codec_ctx e)]) w3 = (pr, w4)" by fastforce
  have w4: "ffi_ok w4" "owned w4 = owned w" using ask_plain [OF C w3(1)] w3 by simp_all
  obtain lv w5 where D: "ask (Call ''level'' [P (ve_codec_ctx e)]) w4 = (lv, w5)" by fastforce
  have w5: "ffi_ok w5" "owned w5 = owned w" using ask_plain [OF D w4(1)] w4 by simp_all
  have tr: "set (ffi_trace w) \<subseteq> set (ffi_trace w3)" "set (ffi_trace w) \<subseteq> set (ffi_trace w5)"
    by (auto simp: ask_trace [OF D] ask_trace [OF C] w3_def call_trace ask_trace [OF B] alloc_trace [OF A])
  show ?thesis
  proof (cases "ret < 0")
    case True
    then have "e' = e" "w' = w3" using r by (simp_all add: write_header_def A B w3_def)
    then show ?thesis using l w3 tr by (simp add: holds_def)
  next
    case False
    then have f: "e' = e\<lparr>ve_header_written := True, ve_codec_string := codec_string_of (ve_codec e) pr lv\<rparr>"
      "w' = w5" using r by (simp_all add: write_header_def A B w3_def [symmetric] C D)
    have "ve_own e' = ve_own e" by (simp add: f ve_own_def)
    then show ?thesis using l w5 f(2) tr by (simp add: holds_def)
  qed
qed

lemma alloc_output_holds:
  assumes ok: "ffi_ok w" and e: "ve_own e = {}" "ve_format_ctx e = 0" "ve_pb e = 0"
    and r: "alloc_output e w = (r, e', w')"
  obtains p where "e' = e\<lparr>ve_format_ctx := p\<rparr>" "holds (owned w) {} e' w'" "\<forall>u. r = Inr u \<longrightarrow> p \<noteq> 0"
proof -
  obtain p w1 where A: "alloc (Obtain ''avformat_alloc_output_context2'' [S ''mp4'']) w = (p, w1)" by fastforce
  note t = alloc_fresh [OF ok _ A]
  have t': "ffi_ok w1" using t by simp
  obtain ret w2 where B: "ask (Call ''avformat_alloc_output_context2 result'' [P p]) w1 = (ret, w2)" by fastforce
  have w2: "ffi_ok w2" "owned w2 = owned w1" using ask_plain [OF B t'] by simp_all
  have f: "e' = e\<lparr>ve_format_ctx := p\<rparr>" "w' = w2" "\<forall>u. r = Inr u \<longrightarrow> p \<noteq> 0"
    using r by (auto simp: alloc_output_def A B Let_def split: if_splits)
  have o: "ve_own e' = {p} - {0}" using e unfolding f ve_own_def by (auto split: option.splits if_splits)
  have "holds (owned w) {} e' w'" using w2 t unfolding holds_def o f(2) by (auto split: if_splits)
  then show ?thesis using that f by blast
qed

lemma blank_own: "ve_own (encoder_blank a b c d now options) = {}"
  by (simp add: encoder_blank_def ve_own_def)

lemma and_then_Inl: "and_then (Inl err, e, w) f = (Inl err, e, w)"
  and and_then_Inr: "and_then (Inr u, e, w) f = f e w"
  by (simp_all add: and_then_def)

text \<open>What the construction relies on when it chooses a codec: a choice that succeeds has set up what it adds,
  one that fails has given everything back.\<close>

locale codec_choice =
  fixes pick :: "video_encoder \<Rightarrow> ffi \<Rightarrow> (string + unit) \<times> video_encoder \<times> ffi"
  assumes pick_owned: "ffi_ok w \<Longrightarrow> ve_hw_device e = 0 \<Longrightarrow> pick e w = (r, e', w') \<Longrightarrow>
    (case r of Inr _ \<Rightarrow> set_up e w e' w' | Inl _ \<Rightarrow> ffi_ok w' \<and> e' = e \<and> owned w' = owned w)"
begin

lemma open_video_holds:
  assumes ok: "ffi_ok w" and b: "e = encoder_blank wi hi wo ho now options"
    and r: "open_video_with pick options e w = (r, e', w')"
  shows "case r of Inl _ \<Rightarrow> \<exists>B. holds (owned w) B e' w' \<and> (\<exists>x. B \<subseteq> {x})
     | Inr _ \<Rightarrow> \<exists>x. holds (owned w) {x} e' w' \<and> is_avio_buffer options x w'"
proof -
  obtain r1 e1 w1 where A: "alloc_output e w = (r1, e1, w1)" by (metis prod.exhaust)
  obtain p where p: "e1 = e\<lparr>ve_format_ctx := p\<rparr>" "holds (owned w) {} e1 w1" "\<forall>u. r1 = Inr u \<longrightarrow> p \<noteq> 0"
    by (rule alloc_output_holds [OF ok _ _ _ A]) (simp_all add: b blank_own, simp_all add: encoder_blank_def)
  have z: "ve_hw_device e1 = 0" "ve_codec_ctx e1 = 0" "ve_scalers e1 = None" "ve_pb e1 = 0"
    "ve_packet e1 = 0" "ve_format_ctx e1 = p" by (simp_all add: p b encoder_blank_def)
  note o = r [unfolded open_video_with_def A]
  show ?thesis
  proof (cases r1)
    case (Inl err)
    then have "r = Inl err" "e' = e1" "w' = w1" using o by (simp_all add: and_then_Inl)
    then show ?thesis using p by auto
  next
    case (Inr u1)
    have ok1: "ffi_ok w1" using p(2) by (simp add: holds_def)
    obtain r2 e2 w2 where B: "pick e1 w1 = (r2, e2, w2)" by (metis prod.exhaust)
    note c = pick_owned [OF ok1 z(1) B]
    show ?thesis
    proof (cases r2)
      case (Inl err)
      then have "r = Inl err" "e' = e1" "w' = w2" using o c \<open>r1 = Inr u1\<close> Inl by (auto simp: and_then_Inl and_then_Inr B)
      then show ?thesis using p c Inl unfolding holds_def by auto
    next
      case (Inr u2)
      then have u: "set_up e1 w1 e2 w2" using c by simp
      have h2: "holds (owned w) {} e2 w2" by (rule set_up_holds [OF z(1-3) p(2) u])
      have z2: "ve_pb e2 = 0" "ve_packet e2 = 0" "ve_format_ctx e2 = p"
        using u z unfolding set_up_def by auto
      obtain r3 e3 w3 where C: "open_stream e2 w2 = (r3, e3, w3)" by (metis prod.exhaust)
      note h3 = open_stream_holds [OF z2(2) h2 C]
      show ?thesis
      proof (cases r3)
        case (Inl err)
        then have "r = Inl err" "e' = e3" "w' = w3"
          using o \<open>r1 = Inr u1\<close> Inr by (simp_all add: and_then_Inl and_then_Inr B C)
        then show ?thesis using h3 by auto
      next
        case (Inr u3)
        have p0: "p \<noteq> 0" using p(3) \<open>r1 = Inr u1\<close> by simp
        obtain r4 e4 w4 where D: "open_avio options e3 w3 = (r4, e4, w4)" by (metis prod.exhaust)
        have h4: "case r4 of Inl _ \<Rightarrow> holds (owned w) {} e4 w4
            | Inr _ \<Rightarrow> \<exists>x. holds (owned w) {x} e4 w4 \<and> is_avio_buffer options x w4"
          by (rule open_avio_holds [OF _ _ _ D]) (use h3 z2 p0 in simp_all)
        note o4 = o [unfolded \<open>r1 = Inr u1\<close> and_then_Inr B \<open>r2 = Inr u2\<close> C Inr D]
        show ?thesis
        proof (cases r4)
          case (Inl err)
          have "(r, e', w') = (Inl err, e4, w4)" using o4 unfolding Inl and_then_Inl by simp
          then have "r = Inl err" "holds (owned w) {} e' w'" using h4 unfolding Inl by simp_all
          then show ?thesis by (auto intro: exI [of _ "{}"])
        next
          case (Inr u4)
          then obtain x where x: "holds (owned w) {x} e4 w4" "is_avio_buffer options x w4" using h4 by auto
          have E: "write_header e4 w4 = (r, e', w')" using o4 Inr by (simp add: and_then_Inr)
          note h5 = write_header_holds [OF x(1) E]
          have "is_avio_buffer options x w'" using h5 x(2) by (auto simp: is_avio_buffer_def)
          then show ?thesis using h5 by (auto split: sum.splits)
        qed
      qed
    qed
  qed
qed

text \<open>A failed \<open>new\<close> gives back all but at most one pointer, the AVIO buffer.\<close>

lemma encoder_new_failed:
  assumes ok: "ffi_ok w" and r: "encoder_new_with pick wi hi wo ho now options w = (Inl err, w')"
  shows "\<exists>x. owned w' \<subseteq> insert x (owned w) \<and> owned w \<subseteq> owned w'"
proof (cases "wo - wo mod 2 \<le> 1 \<or> ho - ho mod 2 \<le> 1")
  case True
  then show ?thesis using r by (auto simp: encoder_new_with_def Let_def)
next
  case False
  let ?b = "encoder_blank wi hi (wo - wo mod 2) (ho - ho mod 2) now options"
  obtain r1 e1 w1 where A: "open_video_with pick options ?b w = (r1, e1, w1)" by (metis prod.exhaust)
  note n = r [unfolded encoder_new_with_def Let_def if_not_P [OF False] A prod.case]
  from n obtain e' where r1: "r1 = Inl e'" "w' = encoder_drop e1 w1" by (cases r1) auto
  obtain B x where B: "holds (owned w) B e1 w1" "B \<subseteq> {x}"
    using open_video_holds [OF ok refl A] r1 by auto
  show ?thesis using holds_drop [OF B(1)] r1(2) B(2) by blast
qed

text \<open>A \<open>new\<close> followed by \<open>Drop\<close> gives back everything but the AVIO buffer.\<close>

lemma encoder_new_dropped:
  assumes ok: "ffi_ok w" and r: "encoder_new_with pick wi hi wo ho now options w = (Inr e, w')"
  shows "\<exists>x. owned (encoder_drop e w') = insert x (owned w) \<and> x \<notin> owned w \<and> is_avio_buffer options x w'"
proof -
  have F: "\<not> (wo - wo mod 2 \<le> 1 \<or> ho - ho mod 2 \<le> 1)" using r by (auto simp: encoder_new_with_def Let_def)
  let ?b = "encoder_blank wi hi (wo - wo mod 2) (ho - ho mod 2) now options"
  obtain r1 e1 w1 where A: "open_video_with pick options ?b w = (r1, e1, w1)" by (metis prod.exhaust)
  note n = r [unfolded encoder_new_with_def Let_def if_not_P [OF F] A prod.case]
  from n obtain u where r1: "r1 = Inr u" "e = e1" "w' = w1" by (cases r1) auto
  obtain x where x: "holds (owned w) {x} e1 w1" "is_avio_buffer options x w1"
    using open_video_holds [OF ok refl A] r1 by auto
  then have "owned (encoder_drop e w') = insert x (owned w)" "x \<notin> owned w"
    using holds_drop [OF x(1)] r1 by (auto simp: holds_def)
  then show ?thesis using x(2) r1 by blast
qed

end

interpretation linux_codec: codec_choice "choose_codec env dev options"
  by unfold_locales (rule choose_codec_owned)

lemma encoder_new_even:
  assumes "encoder_new env dev wi hi wo ho now options w = (Inr e, w')"
  shows "2 \<le> wo \<and> 2 \<le> ho"
  using assms by (auto simp: encoder_new_defs Let_def split: if_splits)

section \<open>Encoding\<close>

text \<open>The size check is sound as long as the products do not wrap: the frame's rows lie within the
  bytes handed to FFmpeg.\<close>

definition frame_rows :: "pixel_provider \<Rightarrow> nat \<times> nat" where
  "frame_rows p = (case p of
      BGR0 w h _ \<Rightarrow> (h, w * 4) | BGR0S w h stride _ \<Rightarrow> (h, stride)
    | RGB w h _ \<Rightarrow> (h, w * 3) | RGB0 w h _ \<Rightarrow> (h, w * 4))"

lemma place_frame_in_bounds:
  assumes fit: "fst (frame_rows p) * snd (frame_rows p) < 2 ^ 64" "0 < fst (frame_rows p)"
    and r: "place_frame p s w = Some (sx, w')"
  shows "fst (snd (frame_layout p)) = snd (frame_rows p)
     \<and> fst (frame_rows p) * fst (snd (frame_layout p)) \<le> length (provider_bytes p)"
proof -
  have le: "length (provider_bytes p) \<ge> fst (frame_layout p)"
    using r by (auto simp: place_frame_def split: prod.splits if_splits)
  have m: "a * b < 2 ^ 64 \<Longrightarrow> 0 < a \<Longrightarrow> b < (2::nat) ^ 64" for a b :: nat
    by (rule le_less_trans [of b "a * b"]) simp_all
  have n: "h * (w * k) < 2 ^ 64 \<Longrightarrow> 0 < k \<Longrightarrow> w * h < (2::nat) ^ 64" for h w k :: nat
    by (rule le_less_trans [of "w * h" "h * (w * k)"]) simp_all
  show ?thesis
  proof (cases p)
    case (BGR0 w h b)
    then have a: "h * (w * 4) < 2 ^ 64" "0 < h" using fit by (simp_all add: frame_rows_def)
    have "usize_mul w 4 = w * 4" "usize_mul (usize_mul w h) 4 = h * (w * 4)"
      using usize_mul_exact [OF m [OF a]] usize_mul_exact [OF n [OF a(1)]] usize_mul_exact [of "w * h" 4] a(1)
      by (simp_all add: mult.commute mult.left_commute)
    then show ?thesis using le BGR0 by (simp add: frame_layout_def frame_rows_def)
  next
    case (BGR0S w h st b)
    then have a: "h * st < 2 ^ 64" using fit by (simp add: frame_rows_def)
    then show ?thesis using le BGR0S usize_mul_exact [of st h]
      by (simp add: frame_layout_def frame_rows_def mult.commute)
  next
    case (RGB w h b)
    then have a: "h * (w * 3) < 2 ^ 64" "0 < h" using fit by (simp_all add: frame_rows_def)
    have "usize_mul w 3 = w * 3" "usize_mul (usize_mul w h) 3 = h * (w * 3)"
      using usize_mul_exact [OF m [OF a]] usize_mul_exact [OF n [OF a(1)]] usize_mul_exact [of "w * h" 3] a(1)
      by (simp_all add: mult.commute mult.left_commute)
    then show ?thesis using le RGB by (simp add: frame_layout_def frame_rows_def)
  next
    case (RGB0 w h b)
    then have a: "h * (w * 4) < 2 ^ 64" "0 < h" using fit by (simp_all add: frame_rows_def)
    have "usize_mul w 4 = w * 4" "usize_mul (usize_mul w h) 4 = h * (w * 4)"
      using usize_mul_exact [OF m [OF a]] usize_mul_exact [OF n [OF a(1)]] usize_mul_exact [of "w * h" 4] a(1)
      by (simp_all add: mult.commute mult.left_commute)
    then show ?thesis using le RGB0 by (simp add: frame_layout_def frame_rows_def)
  qed
qed

text \<open>Too few bytes: nothing reaches FFmpeg.\<close>

lemma ve_encode_short:
  assumes "ve_scalers e = Some s" "length (provider_bytes p) < fst (frame_layout p)"
  shows "ve_encode fuel now p e w = (e, w)"
proof -
  obtain n l f where "frame_layout p = (n, l, f)" by (metis prod.exhaust)
  then show ?thesis using assms by (simp add: ve_encode_def place_frame_def)
qed

text \<open>A key frame is marked exactly on request, and the request is used up.\<close>

lemma mark_frame_keyframe:
  "mark_frame now e w = (e', w') \<Longrightarrow>
     \<not> ve_force_keyframe e' \<and> ve_pending_pts e' = None
   \<and> (\<exists>pts. ffi_trace w' = ffi_trace w
        @ [(Call ''set pts/pict_type/key'' [P (ve_frame e), I pts,
             S (if ve_force_keyframe e then ''I'' else ''NONE'')], 0)])"
  by (auto simp: mark_frame_def Let_def call_trace)

text \<open>A provider whose size check fails keeps the request pending.\<close>

lemma short_frame_keeps_request:
  assumes "ve_scalers e = Some s" "length (provider_bytes p) < fst (frame_layout p)"
  shows "ve_force_keyframe (fst (ve_encode fuel now p (ve_request_keyframe e) w))"
  using ve_encode_short [of "ve_request_keyframe e" s p] assms
  by (simp add: ve_request_keyframe_def)

text \<open>The receive loop ends with the first answer that is not a packet.\<close>

lemma packet_loop_ends:
  assumes "k < n" "ffi_oracle w = orc"
    and neg: "\<And>i. length (ffi_trace w) + 5 * k \<le> i \<Longrightarrow>
       orc i (Call ''avcodec_receive_packet'' [P (ve_codec_ctx e), P (ve_packet e)]) < 0"
  shows "fst (packet_loop n e w) \<noteq> None"
  using assms
proof (induction n arbitrary: k w)
  case 0
  then show ?case by simp
next
  case (Suc n)
  let ?c = "Call ''avcodec_receive_packet'' [P (ve_codec_ctx e), P (ve_packet e)]"
  obtain ret v where A: "ask ?c w = (ret, v)" by fastforce
  have v: "ffi_oracle v = orc" "length (ffi_trace v) = Suc (length (ffi_trace w))"
    "ret = orc (length (ffi_trace w)) ?c"
    using A Suc.prems(2) by (auto simp: ask_def record_call_def answer_def)
  show ?case
  proof (cases "ret < 0")
    case True
    then show ?thesis by (simp add: A)
  next
    case False
    then have k: "k \<noteq> 0" using Suc.prems(3) [of "length (ffi_trace w)"] v(3) by (cases k) simp_all
    define u where "u = calls [Call ''av_packet_rescale_ts'' [P (ve_packet e)],
        Call ''av_write_frame'' [P (ve_format_ctx e), P (ve_packet e)],
        Call ''av_packet_unref'' [P (ve_packet e)],
        Call ''av_write_frame'' [P (ve_format_ctx e), P 0]] v"
    have u: "ffi_oracle u = orc" "length (ffi_trace u) = length (ffi_trace w) + 5"
      using v by (simp_all add: u_def calls_def call_def record_call_def)
    have "fst (packet_loop n e u) \<noteq> None"
    proof (rule Suc.IH)
      show "k - 1 < n" using Suc.prems(1) k by simp
      show "ffi_oracle u = orc" by (rule u)
      fix i assume "length (ffi_trace u) + 5 * (k - 1) \<le> i"
      then show "orc i ?c < 0" using Suc.prems(3) [of i] u(2) k by simp
    qed
    then show ?thesis by (simp add: A u_def)
  qed
qed

lemma codec_string_level:
  "codec_string_of Hevc 1 93 = ''hvc1.01.0.L5D.00''" "codec_string_of Hevc (- 1) (- 1) = ''hvc1.0100.0.L93.00''"
  by code_simp+

end
