(* ===== verification/EncodeSession.thy ===== *)
theory EncodeSession
  imports PipelineLive EncoderFacts
begin

text \<open>
  The encode thread with the encoder of \<open>crates/rylus-encode\<close> in place of the record of operations that
  \<open>Pipeline\<close> leaves open.  The interface \<open>sized_encoder\<close> says what the session relies on: an encoder
  keeps the input size it was made for.  Inside it, every frame that reaches the encoder in place has
  exactly that size; \<open>VideoEncoder\<close> provides the interface.
\<close>

section \<open>The interface\<close>

locale sized_encoder =
  fixes ops :: "'e encoder_ops" and sized :: "'e \<Rightarrow> usize \<times> usize"
  assumes new_sized: "eo_new ops w h wo ho = Inr e \<Longrightarrow> sized e = (w, h)"
    and quality_sized: "sized (eo_set_quality ops q e) = sized e"
    and keyframe_sized: "sized (eo_request_keyframe ops e) = sized e"
    and encode_sized: "sized (fst (eo_encode ops p e)) = sized e"
begin

definition in_place :: "('r, 'e) pipeline \<Rightarrow> bool" where
  "in_place s \<longleftrightarrow> (\<forall>e. pl_encoder s = Some e \<longrightarrow>
     (\<exists>wo ho. pl_dims s = Some (fst (sized e), snd (sized e), wo, ho)))"

lemma in_place_same:
  "pl_encoder s' = pl_encoder s \<Longrightarrow> pl_dims s' = pl_dims s \<Longrightarrow> in_place s \<Longrightarrow> in_place s'"
  by (simp add: in_place_def)

lemma return_fields [simp]:
  "pl_encoder (return_buffer b s) = pl_encoder s" "pl_dims (return_buffer b s) = pl_dims s"
  by (simp_all add: return_buffer_def)

lemma in_place_frame: "in_place s \<Longrightarrow> in_place (encode_frame ops t0 t1 p k q s)"
proof (cases "pl_encoder s")
  case None
  then show "in_place s \<Longrightarrow> ?thesis" by (simp add: encode_frame_def in_place_def)
next
  case (Some e)
  define e1 where "e1 = (case q of Some q \<Rightarrow> eo_set_quality ops q e | None \<Rightarrow> e)"
  define e2 where "e2 = (if k then eo_request_keyframe ops e1 else e1)"
  obtain e3 sent where e3: "eo_encode ops (as_provider p) e2 = (e3, sent)" by fastforce
  have "sized e3 = sized e"
    using encode_sized [of "as_provider p" e2] e3
    by (simp add: e2_def e1_def keyframe_sized quality_sized split: option.split)
  moreover assume "in_place s"
  ultimately show ?thesis
    using Some e3 by (simp add: encode_frame_def in_place_def flip: e1_def e2_def)
qed

lemma in_place_restart: "in_place (encode_restart ops w h wo ho s)"
  using new_sized by (auto simp: encode_restart_def in_place_def Let_def split: sum.split)

lemma in_place_encode: "in_place s \<Longrightarrow> in_place (encode_command_step ops t0 t1 c s)"
proof (cases c)
  case (EncFrame p a b k q)
  assume "in_place s"
  from in_place_frame [OF this, of t0 t1 p k q] show ?thesis
    by (simp add: EncFrame encode_command_step_def in_place_def)
next
  case (EncRestart w h wo ho)
  then show ?thesis using in_place_restart [of w h wo ho s]
    by (simp add: encode_command_step_def in_place_def)
qed (simp add: encode_command_step_def in_place_def)

lemma in_place_step: "pl_step ops s s' \<Longrightarrow> in_place s \<Longrightarrow> in_place s'"
proof (induction rule: pl_step.induct)
  case (Encode s c t0 t1)
  then show ?case by (simp add: in_place_encode)
qed (auto elim!: in_place_same [rotated 2] simp: cap_command_def cap_tick_def cap_send_restart_def
    cap_send_frame_def take_returned_def cap_send_stop_def encode_recv_def Let_def
    split: option.splits prod.splits cap_pc.splits if_splits list.splits)

lemma in_place_reach: "pl_reach ops s \<Longrightarrow> in_place s"
proof (induction rule: pl_reach.induct)
  case (Init now)
  show ?case by (simp add: in_place_def pl_init_def)
qed (rule in_place_step)

lemma busy_frame_sized:
  assumes "pl_reach ops s" "pl_enc_pc s = EncBusy (EncFrame p t t' k q)" "pl_encoder s = Some e"
    and "0 < fst (owned_size p)"
  shows "owned_size p = sized e"
proof -
  have "fits (pl_dims s) (owned_size p)"
    using fit_reach [OF assms(1)] assms(2) by (simp add: pl_fit_def in_transit_def)
  moreover obtain wo ho where "pl_dims s = Some (fst (sized e), snd (sized e), wo, ho)"
    using in_place_reach [OF assms(1)] assms(3) by (auto simp: in_place_def)
  ultimately show ?thesis using assms(4) by (auto simp: fits_def prod_eq_iff)
qed

end
section \<open>The encoder of the code\<close>

definition input_size :: "video_encoder \<Rightarrow> usize \<times> usize" where
  "input_size e = (ve_width_in e, ve_height_in e)"

lemma input_size_updates [simp]:
  "input_size (e\<lparr>ve_format_ctx := p\<rparr>) = input_size e" "input_size (e\<lparr>ve_pb := p\<rparr>) = input_size e"
  "input_size (e\<lparr>ve_codec_ctx := p\<rparr>) = input_size e" "input_size (e\<lparr>ve_frame := p\<rparr>) = input_size e"
  "input_size (e\<lparr>ve_scalers := s\<rparr>) = input_size e" "input_size (e\<lparr>ve_hw_device := p\<rparr>) = input_size e"
  "input_size (e\<lparr>ve_packet := p\<rparr>) = input_size e" "input_size (e\<lparr>ve_codec_string := t\<rparr>) = input_size e"
  "input_size (e\<lparr>ve_pending_pts := i\<rparr>) = input_size e" "input_size (e\<lparr>ve_force_keyframe := b\<rparr>) = input_size e"
  "input_size (e\<lparr>ve_header_written := b\<rparr>) = input_size e"
  by (simp_all add: input_size_def)

lemma device_size [simp]: "input_size (fst (with_device kind dev e w)) = input_size e"
  by (simp add: with_device_def Let_def split: prod.split)

lemma unref_size [simp]: "input_size (fst (unref_hw_device b e w)) = input_size e"
  by (simp add: unref_hw_device_def)

lemma unref_size' [simp]: "unref_hw_device b e w = (e', w') \<Longrightarrow> input_size e' = input_size e"
  using unref_size [of b e w] by simp

lemma open_codec_size [simp]:
  "input_size (fst (snd (open_codec b f opts codec c s e w))) = input_size e"
  by (simp add: open_codec_def Let_def split: prod.split)

lemma try_codec_size [simp]:
  "input_size (fst (snd (try_codec env name f g h b opts e w))) = input_size e"
  by (simp add: try_codec_def Let_def split: prod.split sum.split)

lemma try_vaapi_size [simp]: "input_size (fst (snd (try_vaapi env dev e w))) = input_size e"
  using device_size [of "''VAAPI''" dev e w]
  by (cases "with_device ''VAAPI'' dev e w") (simp add: try_vaapi_def)

lemma try_nvenc_size [simp]: "input_size (fst (snd (try_nvenc env e w))) = input_size e"
  using device_size [of "''CUDA''" None e w]
  by (cases "with_device ''CUDA'' None e w") (simp add: try_nvenc_def)

lemma setup_size [simp]: "input_size (fst (snd (setup_libx264 env options e w))) = input_size e"
  by (simp add: setup_libx264_def Let_def split: prod.split sum.split)

lemma choose_codec_size [simp]: "input_size (fst (snd (choose_codec env dev options e w))) = input_size e"
proof -
  obtain b1 e1 w1 where v: "(if op_try_vaapi options then try_vaapi env dev e w else (False, e, w)) = (b1, e1, w1)"
    by (metis prod.exhaust)
  obtain b2 e2 w2 where n: "(if op_try_nvenc options \<and> \<not> b1 then try_nvenc env e1 w1 else (b1, e1, w1)) = (b2, e2, w2)"
    by (metis prod.exhaust)
  have "input_size (fst (snd (if op_try_vaapi options then try_vaapi env dev e w else (False, e, w))))
      = input_size e" by simp
  then have "input_size e1 = input_size e" unfolding v by simp
  moreover have "input_size (fst (snd (if op_try_nvenc options \<and> \<not> b1 then try_nvenc env e1 w1
      else (b1, e1, w1)))) = input_size e1" by simp
  then have "input_size e2 = input_size e1" unfolding n by simp
  ultimately show ?thesis by (simp add: choose_codec_def v n)
qed

lemma stage_sizes [simp]:
  "input_size (fst (snd (alloc_output e w))) = input_size e"
  "input_size (fst (snd (open_stream e w))) = input_size e"
  "input_size (fst (snd (open_avio options e w))) = input_size e"
  "input_size (fst (snd (write_header e w))) = input_size e"
  by (simp_all add: alloc_output_def open_stream_def open_avio_def write_header_def Let_def split: prod.split)

lemma and_then_size:
  "(\<And>e w. input_size (fst (snd (f e w))) = input_size e) \<Longrightarrow>
     input_size (fst (snd (and_then r f))) = input_size (fst (snd r))"
  by (simp add: and_then_def split: sum.split prod.split)

lemma open_video_size: "input_size (fst (snd (open_video env dev options e w))) = input_size e"
  by (simp add: open_video_defs and_then_size)

lemma encoder_new_size:
  assumes "encoder_new env dev wi hi wo ho now options w = (Inr e, w')"
  shows "input_size e = (wi, hi)"
proof -
  let ?b = "encoder_blank wi hi (wo - wo mod 2) (ho - ho mod 2) now options"
  obtain r1 e1 w1 where A: "open_video env dev options ?b w = (r1, e1, w1)" by (metis prod.exhaust)
  have "e = e1" using assms A by (auto simp: encoder_new_defs Let_def split: if_splits sum.splits)
  moreover have "input_size ?b = (wi, hi)" by (simp add: input_size_def encoder_blank_def)
  ultimately show ?thesis using open_video_size [of env dev options ?b w] A by simp
qed

lemma ve_encode_frame_size [simp]:
  "input_size (fst (snd (ve_encode_frame fuel now e w))) = input_size e"
  by (simp add: ve_encode_frame_def mark_frame_def Let_def split: prod.split)

lemma ve_encode_size [simp]: "input_size (fst (ve_encode fuel now p e w)) = input_size e"
proof (cases "ve_scalers e")
  case (Some s)
  show ?thesis
  proof (cases "place_frame p s w")
    case None
    then show ?thesis using Some by (simp add: ve_encode_def)
  next
    case (Some q)
    obtain sx w1 where q: "q = (sx, w1)" by fastforce
    obtain r w2 where sc: "scale fuel sx w1 = (r, w2)" by fastforce
    obtain r3 e3 w3 where en: "ve_encode_frame fuel now (e\<lparr>ve_frame := sx_frame_out sx\<rparr>) w2 = (r3, e3, w3)"
      by (metis prod.exhaust)
    have "input_size e3 = input_size e"
      using ve_encode_frame_size [of fuel now "e\<lparr>ve_frame := sx_frame_out sx\<rparr>" w2] en by simp
    then show ?thesis using \<open>ve_scalers e = Some s\<close> Some q sc en
      by (simp add: ve_encode_def split: option.split sum.split)
  qed
qed (simp add: ve_encode_def)

text \<open>The closure of \<open>encode_thread\<close> sends every chunk FFmpeg writes to the client; which chunks are
  written between two states of the FFmpeg side is the parameter \<open>written\<close>, \<open>clock\<close> the time read
  there.  An encoder carries the FFmpeg state it lives in, which starts as \<open>w0\<close>.\<close>

definition session_encoder ::
  "ffi_env \<Rightarrow> string option \<Rightarrow> encoder_options \<Rightarrow> nat \<Rightarrow> (ffi \<Rightarrow> nanos)
     \<Rightarrow> (ffi \<Rightarrow> ffi \<Rightarrow> (byte list \<times> int) list) \<Rightarrow> ffi \<Rightarrow> (video_encoder \<times> ffi) encoder_ops" where
  "session_encoder env device options fuel clock written w0 = \<lparr>
     eo_new = (\<lambda>width_in height_in width_out height_out.
       case encoder_new env device width_in height_in width_out height_out (clock w0) options w0 of
         (Inr e, w) \<Rightarrow> Inr (e, w) | (Inl err, _) \<Rightarrow> Inl err),
     eo_set_quality = (\<lambda>qp (e, w). (e, ve_set_quality qp e w)),
     eo_request_keyframe = (\<lambda>(e, w). (ve_request_keyframe e, w)),
     eo_encode = (\<lambda>p (e, w). let (e', w') = ve_encode fuel (clock w) p e w
       in ((e', w'), concat (map (\<lambda>(b, n). snd (avio_write_callback b n)) (written w w')))),
     eo_codec_string = (\<lambda>(e, _). ve_codec_string_of e)\<rparr>"

interpretation session: sized_encoder "session_encoder env device options fuel clock written w0" "input_size \<circ> fst"
proof unfold_locales
  show "eo_new (session_encoder env device options fuel clock written w0) w h wo ho = Inr e \<Longrightarrow>
      (input_size \<circ> fst) e = (w, h)" for w h wo ho e
    by (auto simp: session_encoder_def encoder_new_size split: prod.splits sum.splits)
  show "(input_size \<circ> fst) (eo_set_quality (session_encoder env device options fuel clock written w0) q e)
      = (input_size \<circ> fst) e" for q e
    by (simp add: session_encoder_def split: prod.split)
  show "(input_size \<circ> fst) (eo_request_keyframe (session_encoder env device options fuel clock written w0) e)
      = (input_size \<circ> fst) e" for e
    by (simp add: session_encoder_def ve_request_keyframe_def split: prod.split)
  show "(input_size \<circ> fst) (fst (eo_encode (session_encoder env device options fuel clock written w0) p e))
      = (input_size \<circ> fst) e" for p e
    by (simp add: session_encoder_def Let_def case_prod_beta)
qed


end
