(* ===== verification/EncoderDemo.thy ===== *)
theory EncoderDemo
  imports EncoderFacts
begin

text \<open>
  A concrete FFmpeg side on which the encoder's constructor succeeds: every allocation yields a
  pointer, every status is a success, and the codec has nothing to hand out.  The theorems about
  constructed encoders are applied to it.
\<close>

definition demo_answers :: "nat \<Rightarrow> ffi_call \<Rightarrow> int" where
  "demo_answers i c = (case c of
      Call n as \<Rightarrow> if n = ''av_frame_get_buffer'' then 0
                   else if n \<in> {''avcodec_receive_packet'', ''av_buffersink_get_frame''} then - 11 else 1
    | _ \<Rightarrow> 1)"

definition demo_ffi :: ffi where
  "demo_ffi = \<lparr>ffi_oracle = demo_answers, ffi_trace = []\<rparr>"

definition demo_ffi_env :: ffi_env where
  "demo_ffi_env = \<lparr>fe_fmt_name = (\<lambda>_. None), fe_fmt_code = (\<lambda>_. 0)\<rparr>"

definition willing :: "ffi \<Rightarrow> bool" where
  "willing w \<longleftrightarrow> ffi_oracle w = demo_answers"

lemma willing_demo: "willing demo_ffi" "ffi_ok demo_ffi" "owned demo_ffi = {}"
  by (simp_all add: willing_def demo_ffi_def ffi_ok_def owned_def)

lemma willing_record [simp]: "willing (record_call c r w) = willing w"
  by (simp add: willing_def record_call_def)

lemma willing_call [simp]: "willing (call c w) = willing w"
  by (simp add: call_def)

lemma willing_calls [simp]: "willing (calls cs w) = willing w"
  by (induction cs arbitrary: w) (simp_all add: calls_def)

lemma ask_willing: "willing w \<Longrightarrow> ask c w = (demo_answers 0 c, record_call c (demo_answers 0 c) w)"
  by (simp add: ask_def answer_def willing_def demo_answers_def)

lemma alloc_willing:
  assumes "willing w"
  obtains p w' where "alloc (Obtain n as) w = (p, w')" "p \<noteq> 0" "willing w'"
  using assms by (simp add: alloc_def Let_def willing_def answer_def demo_answers_def record_call_def)

lemma frame_in_willing:
  assumes "willing w"
  obtains p w' where "sc_frame_in f a b w = (Inr p, w')" "willing w'"
proof -
  obtain p w1 where A: "alloc (Obtain ''av_frame_alloc'' []) w = (p, w1)" "p \<noteq> 0" "willing w1"
    by (rule alloc_willing [OF assms])
  then show ?thesis using that by (simp add: sc_frame_in_def ask_willing demo_answers_def)
qed

lemma source_willing:
  assumes "willing w"
  obtains r w' where "sc_source env f a b g w = (1, r, w')" "willing w'"
  using assms that by (simp add: sc_source_def ask_willing demo_answers_def Let_def)

lemma sink_willing:
  assumes "willing w"
  obtains p w' where "sc_sink env f g fr w = (Inr p, w')" "willing w'"
  using assms that by (simp add: sc_sink_def sc_sink_format_def ask_willing demo_answers_def Let_def)

lemma configure_willing:
  assumes "willing w"
  obtains w' where "sc_configure env s f f' 0 g fr src snk w = (Inr (), w')" "willing w'"
proof -
  obtain p w1 where A: "alloc (Obtain ''avfilter_inout_alloc'' []) w = (p, w1)" "p \<noteq> 0" "willing w1"
    by (rule alloc_willing [OF assms])
  obtain q w2 where B: "alloc (Obtain ''avfilter_inout_alloc'' []) w1 = (q, w2)" "q \<noteq> 0" "willing w2"
    by (rule alloc_willing [OF A(3)])
  show ?thesis
    using that A B by (simp add: sc_configure_def sc_hw_devices_def ask_willing demo_answers_def Let_def)
qed

lemma context_willing:
  assumes "willing w"
  obtains s w' where "scale_context_new env wi hi wo ho f f' 0 f'' fo w = (Inr s, w')" "willing w'"
proof -
  obtain fi w1 where A: "sc_frame_in f wi hi w = (Inr fi, w1)" "willing w1"
    by (rule frame_in_willing [OF assms])
  obtain g w2 where B: "alloc (Obtain ''avfilter_graph_alloc'' []) w1 = (g, w2)" "g \<noteq> 0" "willing w2"
    by (rule alloc_willing [OF A(2)])
  obtain src w3 where C: "sc_source env f wi hi g w2 = (1, src, w3)" "willing w3"
    by (rule source_willing [OF B(3)])
  obtain snk w4 where D: "sc_sink env f' g fi w3 = (Inr snk, w4)" "willing w4"
    by (rule sink_willing [OF C(2)])
  obtain w5 where E: "sc_configure env (build_scale_filter_str env f f' f'' wo ho) f f' 0 g fi src snk w4
      = (Inr (), w5)" "willing w5" by (rule configure_willing [OF D(2)])
  show ?thesis using that A B C D E by (simp add: scale_context_new_def)
qed

lemma scalers_willing:
  assumes "willing w"
  obtains s w' where "scalers_new env wi hi wo ho f f' 0 w = (Inr s, w')" "willing w'"
proof -
  obtain fo w1 where A: "alloc (Obtain ''av_frame_alloc'' []) w = (fo, w1)" "fo \<noteq> 0" "willing w1"
    by (rule alloc_willing [OF assms])
  let ?n = "\<lambda>fmt. scale_context_new env wi hi wo ho fmt f 0 f' fo"
  obtain s1 w2 where B: "?n FmtBGR0 w1 = (Inr s1, w2)" "willing w2" by (rule context_willing [OF A(3)])
  obtain s2 w3 where C: "?n FmtRGB0 w2 = (Inr s2, w3)" "willing w3" by (rule context_willing [OF B(2)])
  obtain s3 w4 where D: "?n FmtRGB24 w3 = (Inr s3, w4)" "willing w4" by (rule context_willing [OF C(2)])
  show ?thesis using that A B C D by (simp add: scalers_new_def hw_frames_def)
qed

lemma setup_willing:
  assumes "willing w"
  obtains c s w' where "setup_libx264 env options e w = (Inr (), e\<lparr>ve_codec_ctx := c, ve_scalers := Some s\<rparr>, w')"
    "willing w'"
proof -
  let ?n = "ffmpeg_codec_name (op_codec options)"
  obtain w1 where A: "ask (Call ''avcodec_find_encoder_by_name'' [S ?n]) w = (1, w1)" "willing w1"
    using assms by (simp add: ask_willing demo_answers_def)
  obtain c w2 where B: "alloc (Obtain ''avcodec_alloc_context3'' [I 1]) w1 = (c, w2)" "c \<noteq> 0" "willing w2"
    by (rule alloc_willing [OF A(2)])
  obtain s w3 where C: "scalers_new env (to_c_int (ve_width_in e)) (to_c_int (ve_height_in e))
      (to_c_int (ve_width_out e)) (to_c_int (ve_height_out e)) FmtYUV420P FmtYUV420P 0 w2 = (Inr s, w3)"
    "willing w3" by (rule scalers_willing [OF B(3)])
  show ?thesis
    using that A B C
    by (simp add: setup_libx264_def Let_def ask_willing demo_answers_def set_options_def set_codec_params_def)
qed

lemma open_video_willing:
  assumes "willing w" "\<not> op_try_vaapi options" "\<not> op_try_nvenc options"
  obtains e' w' where "open_video env dev options e w = (Inr (), e', w')"
proof -
  obtain p w1 where A: "alloc (Obtain ''avformat_alloc_output_context2'' [S ''mp4'']) w = (p, w1)" "p \<noteq> 0"
    "willing w1" by (rule alloc_willing [OF assms(1)])
  obtain w2 where a: "alloc_output e w = (Inr (), e\<lparr>ve_format_ctx := p\<rparr>, w2)" "willing w2"
    using A by (simp add: alloc_output_def ask_willing demo_answers_def)
  obtain c s w3 where B: "setup_libx264 env options (e\<lparr>ve_format_ctx := p\<rparr>) w2
      = (Inr (), e\<lparr>ve_format_ctx := p, ve_codec_ctx := c, ve_scalers := Some s\<rparr>, w3)" "willing w3"
    using setup_willing [OF a(2)] by metis
  let ?e = "e\<lparr>ve_format_ctx := p, ve_codec_ctx := c, ve_scalers := Some s\<rparr>"
  have b: "choose_codec env dev options (e\<lparr>ve_format_ctx := p\<rparr>) w2 = (Inr (), ?e, w3)"
    using B assms by (simp add: choose_codec_def)
  let ?w4 = "call (Call ''avcodec_parameters_from_context'' [I 1, P c])
    (record_call (Call ''avformat_new_stream'' [P p]) 1 w3)"
  have "willing ?w4" using B(2) by simp
  from alloc_willing [OF this] obtain q w5 where C: "alloc (Obtain ''av_packet_alloc'' []) ?w4 = (q, w5)"
    "q \<noteq> 0" "willing w5" by blast
  have c: "open_stream ?e w3 = (Inr (), ?e\<lparr>ve_packet := q\<rparr>, w5)"
    using C B(2) by (simp add: open_stream_def ask_willing demo_answers_def)
  let ?sz = "to_c_int (op_avio_buffer_size options)"
  obtain r w6 where D: "alloc (Obtain ''av_malloc'' [I ?sz]) w5 = (r, w6)" "r \<noteq> 0" "willing w6"
    by (rule alloc_willing [OF C(3)])
  obtain t w7 where E: "alloc (Obtain ''avio_alloc_context'' [P r, I ?sz]) w6 = (t, w7)" "t \<noteq> 0" "willing w7"
    by (rule alloc_willing [OF D(3)])
  let ?w8 = "call (Call ''set pb'' [P p, P t]) w7"
  have d: "open_avio options (?e\<lparr>ve_packet := q\<rparr>) w5 = (Inr (), ?e\<lparr>ve_packet := q, ve_pb := t\<rparr>, ?w8)"
    using D E by (simp add: open_avio_def)
  have "willing ?w8" using E(3) by simp
  from alloc_willing [OF this] obtain o1 w9 where F: "alloc (Obtain ''av_dict_set''
      [S ''movflags'', S ''frag_custom+empty_moov+default_base_moof'']) ?w8 = (o1, w9)" "willing w9" by blast
  have "fst (write_header (?e\<lparr>ve_packet := q, ve_pb := t\<rparr>) ?w8) = Inr ()"
    using F by (simp add: write_header_def ask_willing demo_answers_def Let_def)
  then obtain e' w' where "write_header (?e\<lparr>ve_packet := q, ve_pb := t\<rparr>) ?w8 = (Inr (), e', w')"
    by (metis prod.exhaust fst_conv)
  then show ?thesis using that a b c d by (simp add: open_video_defs and_then_def)
qed

lemma encoder_willing:
  assumes "willing w" "2 \<le> wo" "2 \<le> ho" "\<not> op_try_vaapi options" "\<not> op_try_nvenc options"
  obtains e w' where "encoder_new env dev wi hi wo ho now options w = (Inr e, w')"
proof -
  have F: "\<not> (wo - wo mod 2 \<le> 1 \<or> ho - ho mod 2 \<le> 1)" using assms(2,3) by presburger
  obtain e' w' where "open_video env dev options
      (encoder_blank wi hi (wo - wo mod 2) (ho - ho mod 2) now options) w = (Inr (), e', w')"
    by (rule open_video_willing [OF assms(1,4,5)])
  then show ?thesis using that F by (simp add: encoder_new_defs Let_def)
qed

lemma demo_encoder:
  "\<exists>e w. encoder_new demo_ffi_env None 4 2 4 2 0 options_default demo_ffi = (Inr e, w)"
proof -
  have o: "\<not> op_try_vaapi options_default" "\<not> op_try_nvenc options_default"
    by (simp_all add: options_default_def)
  have s: "2 \<le> (4::nat)" "2 \<le> (2::nat)" by simp_all
  show ?thesis by (rule encoder_willing [OF willing_demo(1) s o]) blast
qed

end
