(* ===== verification/SessionDemo.thy ===== *)
theory SessionDemo
  imports PipelineLive
begin

text \<open>
  A concrete session for the theorems about reachable states: the client starts a video, one 4x2
  frame is captured, the encoder is restarted for it and encodes it.  \<open>demo_ops\<close> is an encoder that
  counts its frames; the states are defined for any encoder.
\<close>

definition demo_ops :: "nat encoder_ops" where
  "demo_ops = \<lparr>eo_new = (\<lambda>_ _ _ _. Inr 0), eo_set_quality = (\<lambda>_ e. e), eo_request_keyframe = id,
     eo_encode = (\<lambda>_ e. (e + 1, [[1, 2]])), eo_codec_string = (\<lambda>_. ''avc1'')\<rparr>"

definition demo_frame :: pixel_provider where
  "demo_frame = RGB 4 2 (replicate 24 0)"

definition demo_start :: "unit video_command" where
  "demo_start = VStart \<lparr>vc_capturable = (), vc_capture_cursor = False, vc_max_width = 1920,
     vc_max_height = 1080, vc_frame_rate = Fin 0\<rparr>"

definition demo_1 :: "(unit, 'e) pipeline" where
  "demo_1 = cap_command 0 demo_start (Inr ()) 0 (pl_init 0)"
definition demo_2 :: "(unit, 'e) pipeline" where
  "demo_2 = the (cap_send_restart (cap_tick 0 (Inr demo_frame) () 0 demo_1))"
definition demo_3 :: "'e encoder_ops \<Rightarrow> (unit, 'e) pipeline" where
  "demo_3 ops = encode_command_step ops 0 0 (EncRestart 4 2 4 2) (the (encode_recv demo_2))"
definition demo_4 :: "'e encoder_ops \<Rightarrow> (unit, 'e) pipeline" where
  "demo_4 ops = cap_send_frame demo_frame 0 0 0 (demo_3 ops)"
lemma inf_pos: "0 < EFFECTIVE_INFINITY"
  by (simp add: EFFECTIVE_INFINITY_def secs_def)

lemma demo_1_eq: "demo_1 = (pl_init 0)\<lparr>pl_out := [ConfigOk],
    pl_cap := (cs_init 0)\<lparr>cs_recorder := Some ()\<rparr>\<rparr>"
  by (simp add: demo_1_def cap_command_def pacing_def Let_def demo_start_def on_start_def
      frame_duration_of_def pl_init_def cs_init_def frames_passed_eq inf_pos finf_def)

lemma demo_size: "out_size 1920 1080 4 2 = (4, 2)"
  by (simp add: out_size_def out_scale_Fin Let_def)

definition demo_cap :: "unit capture_state" where
  "demo_cap = (cs_init 0)\<lparr>cs_recorder := Some (), cs_last_frame := EFFECTIVE_INFINITY,
     cs_enc_width_in := 4, cs_enc_height_in := 2, cs_enc_width_out := 4, cs_enc_height_out := 2\<rparr>"

lemma demo_tick_eq: "cap_tick 0 (Inr demo_frame) () 0 demo_1
    = (pl_init 0)\<lparr>pl_out := [ConfigOk], pl_cap := demo_cap,
        pl_cap_pc := CapRestart (EncRestart 4 2 4 2) demo_frame 0\<rparr>"
  by (simp add: cap_tick_def pacing_def Let_def demo_1_eq on_capture_def on_size_def demo_cap_def
      demo_frame_def pl_init_def cs_init_def frames_passed_eq next_frame_def inf_pos demo_size)

lemma demo_2_eq: "demo_2 = (pl_init 0)\<lparr>pl_out := [ConfigOk], pl_cap := demo_cap,
     pl_chan := [EncRestart 4 2 4 2], pl_cap_pc := CapFrame demo_frame 0\<rparr>"
  by (simp add: demo_2_def demo_tick_eq cap_send_restart_def pl_init_def)

lemma demo_3_eq:
  assumes "eo_new ops 4 2 4 2 = Inr e"
  shows "demo_3 ops = (pl_init 0)\<lparr>pl_out := [ConfigOk, NewVideo, VideoInit (eo_codec_string ops e)],
     pl_cap := demo_cap, pl_cap_pc := CapFrame demo_frame 0, pl_encoder := Some e,
     pl_dims := Some (4, 2, 4, 2)\<rparr>"
  using assms by (simp add: demo_3_def demo_2_eq encode_recv_def encode_command_step_def
      encode_restart_def pl_init_def Let_def)

definition demo_command :: encode_command where
  "demo_command = EncFrame (to_owned_reusing demo_frame []) 0 0 False None"

lemma demo_4_eq:
  assumes "eo_new ops 4 2 4 2 = Inr e"
  shows "\<exists>c. demo_4 ops = (demo_3 ops)\<lparr>pl_cap := c, pl_cap_pc := CapLoop, pl_chan := [demo_command]\<rparr>"
  by (simp add: demo_4_def demo_3_eq [OF assms] cap_send_frame_def take_returned_def make_frame_def
      pl_init_def demo_cap_def cs_init_def demo_command_def Let_def)

definition demo_5 :: "'e encoder_ops \<Rightarrow> (unit, 'e) pipeline" where
  "demo_5 ops = the (encode_recv (demo_4 ops))"

definition demo_6 :: "'e encoder_ops \<Rightarrow> (unit, 'e) pipeline" where
  "demo_6 ops = encode_command_step ops 0 0 demo_command (demo_5 ops)"

lemma demo_5_fields:
  assumes "eo_new ops 4 2 4 2 = Inr e"
  shows "pl_enc_pc (demo_5 ops) = EncBusy demo_command" "pl_encoder (demo_5 ops) = Some e"
    "pl_dims (demo_5 ops) = Some (4, 2, 4, 2)" "pl_encoded (demo_5 ops) = []" "pl_returns (demo_5 ops) = []"
    "pl_cap_pc (demo_5 ops) = CapLoop"
proof -
  obtain c where d4: "demo_4 ops = (demo_3 ops)\<lparr>pl_cap := c, pl_cap_pc := CapLoop, pl_chan := [demo_command]\<rparr>"
    using demo_4_eq [OF assms] by blast
  show "pl_enc_pc (demo_5 ops) = EncBusy demo_command" "pl_encoder (demo_5 ops) = Some e"
    "pl_dims (demo_5 ops) = Some (4, 2, 4, 2)" "pl_encoded (demo_5 ops) = []" "pl_returns (demo_5 ops) = []"
    "pl_cap_pc (demo_5 ops) = CapLoop"
    unfolding demo_5_def d4 demo_3_eq [OF assms] by (simp_all add: encode_recv_def pl_init_def)
qed

lemma demo_6_fields:
  assumes "eo_new ops 4 2 4 2 = Inr e"
  shows "pl_encoded (demo_6 ops) = [(Some (4, 2, 4, 2), demo_frame)]"
    "pl_returns (demo_6 ops) = [replicate 24 0]"
  using demo_5_fields [OF assms]
  by (simp_all add: demo_6_def demo_command_def encode_command_step_def encode_frame_def
      return_buffer_def Let_def case_prod_beta demo_frame_def refill_def)

text \<open>All of these states are reachable.\<close>

lemma demo_reach:
  assumes "eo_new ops 4 2 4 2 = Inr e"
  shows "pl_reach ops (demo_3 ops)" "pl_reach ops (demo_5 ops)" "pl_reach ops (demo_6 ops)"
proof -
  have i: "pl_cap_pc (pl_init 0 :: (unit, 'a) pipeline) = CapLoop"
    "pl_cap_pc (demo_1 :: (unit, 'a) pipeline) = CapLoop"
    by (simp_all add: pl_init_def demo_1_eq)
  have "pl_reach ops demo_1"
    unfolding demo_1_def by (rule pl_reach.Step [OF pl_reach.Init pl_step.Command]) (rule i)
  then have "pl_reach ops (cap_tick 0 (Inr demo_frame) () 0 demo_1)"
    by (rule pl_reach.Step) (rule pl_step.Tick [OF i(2)])
  then have r2: "pl_reach ops demo_2"
    by (rule pl_reach.Step) (rule pl_step.Restart, simp add: demo_2_eq demo_tick_eq cap_send_restart_def pl_init_def)
  have "encode_recv (demo_2 :: (unit, 'a) pipeline) \<noteq> None"
    "pl_enc_pc (demo_2 :: (unit, 'a) pipeline) = EncWait"
    "pl_enc_pc (the (encode_recv (demo_2 :: (unit, 'a) pipeline))) = EncBusy (EncRestart 4 2 4 2)"
    by (simp_all add: demo_2_eq pl_init_def encode_recv_def)
  then have "pl_step ops demo_2 (the (encode_recv demo_2))"
    "pl_step ops (the (encode_recv demo_2)) (demo_3 ops)"
    unfolding demo_3_def by (auto intro: pl_step.Recv pl_step.Encode)
  then show r3: "pl_reach ops (demo_3 ops)" using r2 pl_reach.Step by blast
  have "pl_step ops (demo_3 ops) (demo_4 ops)"
    unfolding demo_4_def by (rule pl_step.Offer) (simp add: demo_3_eq [OF assms] pl_init_def)
  then have r4: "pl_reach ops (demo_4 ops)" by (rule pl_reach.Step [OF r3])
  obtain c where d4: "demo_4 ops = (demo_3 ops)\<lparr>pl_cap := c, pl_cap_pc := CapLoop, pl_chan := [demo_command]\<rparr>"
    using demo_4_eq [OF assms] by blast
  have "encode_recv (demo_4 ops) \<noteq> None" "pl_enc_pc (demo_4 ops) = EncWait"
    unfolding d4 demo_3_eq [OF assms] by (simp_all add: pl_init_def encode_recv_def)
  then have "pl_step ops (demo_4 ops) (demo_5 ops)"
    unfolding demo_5_def by (auto intro: pl_step.Recv)
  then show r5: "pl_reach ops (demo_5 ops)" by (rule pl_reach.Step [OF r4])
  have "pl_step ops (demo_5 ops) (demo_6 ops)"
    unfolding demo_6_def by (rule pl_step.Encode) (rule demo_5_fields [OF assms])
  then show "pl_reach ops (demo_6 ops)" by (rule pl_reach.Step [OF r5])
qed

lemma demo_ops_new: "eo_new demo_ops 4 2 4 2 = Inr 0"
  by (simp add: demo_ops_def)

end
