(* ===== verification/Capturables.thy ===== *)
theory Capturables
  imports TestSource RustString
begin

text \<open>
  \<open>crates/rylus-capture/src/lib.rs\<close> (\<open>get_capturables\<close> on Linux), the trait types of
  \<open>crates/rylus-core/src/lib.rs\<close> (\<open>Geometry\<close>) and the names and geometry of the test source.  What
  PipeWire and X11 enumerate are arguments.
\<close>

datatype ('p, 'x) capturable = PipeWireCap 'p | X11Cap 'x | TestCap test_capturable

text \<open>\<open>Geometry::Relative(x, y, w, h)\<close> over the type of coordinates.\<close>

datatype 'f geometry = Relative 'f 'f 'f 'f

fun format_name :: "pixel_format \<Rightarrow> string" where
  "format_name FBGR0 = ''BGR0''"
| "format_name FRGB0 = ''RGB0''"
| "format_name FRGB = ''RGB''"

definition test_name :: "test_capturable \<Rightarrow> string" where
  "test_name c = ''Test Source '' @ dec (tc_width c) @ ''x'' @ dec (tc_height c) @ ''@''
     @ format_name (tc_format c)"

definition test_sizes :: "(usize \<times> usize) list" where
  "test_sizes = [(200, 200), (800, 600), (1080, 720), (1920, 1080), (3840, 2160), (15360, 2160)]"

definition test_capturables :: "test_capturable list" where
  "test_capturables = concat (map (\<lambda>(w, h).
     map (\<lambda>f. \<lparr>tc_width = w, tc_height = h, tc_format = f\<rparr>) [FBGR0, FRGB0, FRGB]) test_sizes)"

text \<open>\<open>pipewire capture_cursor\<close> and \<open>x11\<close> are the enumerations (\<open>None\<close>: the feature is not built in or no
  display can be opened); \<open>debug\<close>: the log level is at least \<open>DEBUG\<close>.\<close>

definition get_capturables ::
  "(bool \<Rightarrow> string + 'p list) \<Rightarrow> (string + 'x list) option \<Rightarrow> bool \<Rightarrow> bool \<Rightarrow> bool
     \<Rightarrow> ('p, 'x) capturable list" where
  "get_capturables pipewire x11 debug wayland_support capture_cursor =
     (if wayland_support then (case pipewire capture_cursor of
         Inr captrs \<Rightarrow> map PipeWireCap captrs | Inl err \<Rightarrow> []) else [])
     @ (case x11 of
          Some (Inr captrs) \<Rightarrow> map X11Cap captrs
        | _ \<Rightarrow> [])
     @ (if debug then map TestCap test_capturables else [])"

lemma test_capturables_length: "length test_capturables = 18"
  by (simp add: test_capturables_def test_sizes_def)

lemma test_names_distinct: "distinct (map test_name test_capturables)"
proof -
  have "map test_name test_capturables = concat (map (\<lambda>(w, h). map (\<lambda>f.
      ''Test Source '' @ dec w @ ''x'' @ dec h @ ''@'' @ format_name f) [FBGR0, FRGB0, FRGB]) test_sizes)"
    by (simp add: test_capturables_def test_sizes_def test_name_def)
  then show ?thesis by (simp add: test_sizes_def dec.simps)
qed

end
