(* ===== verification/UInputKeys.thy ===== *)
theory UInputKeys
  imports RustString Protocol
begin

text \<open>
  The key codes of \<open>crates/rylus-input/src/uinput_keys.rs\<close> that the key map of
  \<open>send_keyboard_event\<close> (\<open>uinput_device.rs\<close>) uses, and that map: two tables in the order of its arms.
\<close>

section \<open>Key codes\<close>

definition KEY_ESC :: int where "KEY_ESC = 1"
definition KEY_1 :: int where "KEY_1 = 2"
definition KEY_2 :: int where "KEY_2 = 3"
definition KEY_3 :: int where "KEY_3 = 4"
definition KEY_4 :: int where "KEY_4 = 5"
definition KEY_5 :: int where "KEY_5 = 6"
definition KEY_6 :: int where "KEY_6 = 7"
definition KEY_7 :: int where "KEY_7 = 8"
definition KEY_8 :: int where "KEY_8 = 9"
definition KEY_9 :: int where "KEY_9 = 10"
definition KEY_0 :: int where "KEY_0 = 11"
definition KEY_MINUS :: int where "KEY_MINUS = 12"
definition KEY_EQUAL :: int where "KEY_EQUAL = 13"
definition KEY_BACKSPACE :: int where "KEY_BACKSPACE = 14"
definition KEY_TAB :: int where "KEY_TAB = 15"
definition KEY_Q :: int where "KEY_Q = 16"
definition KEY_W :: int where "KEY_W = 17"
definition KEY_E :: int where "KEY_E = 18"
definition KEY_R :: int where "KEY_R = 19"
definition KEY_T :: int where "KEY_T = 20"
definition KEY_Y :: int where "KEY_Y = 21"
definition KEY_U :: int where "KEY_U = 22"
definition KEY_I :: int where "KEY_I = 23"
definition KEY_O :: int where "KEY_O = 24"
definition KEY_P :: int where "KEY_P = 25"
definition KEY_LEFTBRACE :: int where "KEY_LEFTBRACE = 26"
definition KEY_RIGHTBRACE :: int where "KEY_RIGHTBRACE = 27"
definition KEY_ENTER :: int where "KEY_ENTER = 28"
definition KEY_LEFTCTRL :: int where "KEY_LEFTCTRL = 29"
definition KEY_A :: int where "KEY_A = 30"
definition KEY_S :: int where "KEY_S = 31"
definition KEY_D :: int where "KEY_D = 32"
definition KEY_F :: int where "KEY_F = 33"
definition KEY_G :: int where "KEY_G = 34"
definition KEY_H :: int where "KEY_H = 35"
definition KEY_J :: int where "KEY_J = 36"
definition KEY_K :: int where "KEY_K = 37"
definition KEY_L :: int where "KEY_L = 38"
definition KEY_SEMICOLON :: int where "KEY_SEMICOLON = 39"
definition KEY_APOSTROPHE :: int where "KEY_APOSTROPHE = 40"
definition KEY_GRAVE :: int where "KEY_GRAVE = 41"
definition KEY_LEFTSHIFT :: int where "KEY_LEFTSHIFT = 42"
definition KEY_BACKSLASH :: int where "KEY_BACKSLASH = 43"
definition KEY_Z :: int where "KEY_Z = 44"
definition KEY_X :: int where "KEY_X = 45"
definition KEY_C :: int where "KEY_C = 46"
definition KEY_V :: int where "KEY_V = 47"
definition KEY_B :: int where "KEY_B = 48"
definition KEY_N :: int where "KEY_N = 49"
definition KEY_M :: int where "KEY_M = 50"
definition KEY_COMMA :: int where "KEY_COMMA = 51"
definition KEY_DOT :: int where "KEY_DOT = 52"
definition KEY_SLASH :: int where "KEY_SLASH = 53"
definition KEY_RIGHTSHIFT :: int where "KEY_RIGHTSHIFT = 54"
definition KEY_KPASTERISK :: int where "KEY_KPASTERISK = 55"
definition KEY_LEFTALT :: int where "KEY_LEFTALT = 56"
definition KEY_SPACE :: int where "KEY_SPACE = 57"
definition KEY_CAPSLOCK :: int where "KEY_CAPSLOCK = 58"
definition KEY_F1 :: int where "KEY_F1 = 59"
definition KEY_F2 :: int where "KEY_F2 = 60"
definition KEY_F3 :: int where "KEY_F3 = 61"
definition KEY_F4 :: int where "KEY_F4 = 62"
definition KEY_F5 :: int where "KEY_F5 = 63"
definition KEY_F6 :: int where "KEY_F6 = 64"
definition KEY_F7 :: int where "KEY_F7 = 65"
definition KEY_F8 :: int where "KEY_F8 = 66"
definition KEY_F9 :: int where "KEY_F9 = 67"
definition KEY_F10 :: int where "KEY_F10 = 68"
definition KEY_NUMLOCK :: int where "KEY_NUMLOCK = 69"
definition KEY_SCROLLLOCK :: int where "KEY_SCROLLLOCK = 70"
definition KEY_KP7 :: int where "KEY_KP7 = 71"
definition KEY_KP8 :: int where "KEY_KP8 = 72"
definition KEY_KP9 :: int where "KEY_KP9 = 73"
definition KEY_KPMINUS :: int where "KEY_KPMINUS = 74"
definition KEY_KP4 :: int where "KEY_KP4 = 75"
definition KEY_KP5 :: int where "KEY_KP5 = 76"
definition KEY_KP6 :: int where "KEY_KP6 = 77"
definition KEY_KPPLUS :: int where "KEY_KPPLUS = 78"
definition KEY_KP1 :: int where "KEY_KP1 = 79"
definition KEY_KP2 :: int where "KEY_KP2 = 80"
definition KEY_KP3 :: int where "KEY_KP3 = 81"
definition KEY_KP0 :: int where "KEY_KP0 = 82"
definition KEY_102ND :: int where "KEY_102ND = 86"
definition KEY_F11 :: int where "KEY_F11 = 87"
definition KEY_F12 :: int where "KEY_F12 = 88"
definition KEY_RO :: int where "KEY_RO = 89"
definition KEY_KATAKANA :: int where "KEY_KATAKANA = 90"
definition KEY_KPENTER :: int where "KEY_KPENTER = 96"
definition KEY_RIGHTCTRL :: int where "KEY_RIGHTCTRL = 97"
definition KEY_KPSLASH :: int where "KEY_KPSLASH = 98"
definition KEY_SYSRQ :: int where "KEY_SYSRQ = 99"
definition KEY_RIGHTALT :: int where "KEY_RIGHTALT = 100"
definition KEY_HOME :: int where "KEY_HOME = 102"
definition KEY_UP :: int where "KEY_UP = 103"
definition KEY_PAGEUP :: int where "KEY_PAGEUP = 104"
definition KEY_LEFT :: int where "KEY_LEFT = 105"
definition KEY_RIGHT :: int where "KEY_RIGHT = 106"
definition KEY_END :: int where "KEY_END = 107"
definition KEY_DOWN :: int where "KEY_DOWN = 108"
definition KEY_PAGEDOWN :: int where "KEY_PAGEDOWN = 109"
definition KEY_INSERT :: int where "KEY_INSERT = 110"
definition KEY_DELETE :: int where "KEY_DELETE = 111"
definition KEY_MUTE :: int where "KEY_MUTE = 113"
definition KEY_VOLUMEDOWN :: int where "KEY_VOLUMEDOWN = 114"
definition KEY_VOLUMEUP :: int where "KEY_VOLUMEUP = 115"
definition KEY_POWER :: int where "KEY_POWER = 116"
definition KEY_KPEQUAL :: int where "KEY_KPEQUAL = 117"
definition KEY_PAUSE :: int where "KEY_PAUSE = 119"
definition KEY_KPCOMMA :: int where "KEY_KPCOMMA = 121"
definition KEY_HANGEUL :: int where "KEY_HANGEUL = 122"
definition KEY_HANGUEL :: int where "KEY_HANGUEL = KEY_HANGEUL"
definition KEY_HANJA :: int where "KEY_HANJA = 123"
definition KEY_YEN :: int where "KEY_YEN = 124"
definition KEY_LEFTMETA :: int where "KEY_LEFTMETA = 125"
definition KEY_RIGHTMETA :: int where "KEY_RIGHTMETA = 126"
definition KEY_AGAIN :: int where "KEY_AGAIN = 129"
definition KEY_PROPS :: int where "KEY_PROPS = 130"
definition KEY_UNDO :: int where "KEY_UNDO = 131"
definition KEY_COPY :: int where "KEY_COPY = 133"
definition KEY_OPEN :: int where "KEY_OPEN = 134"
definition KEY_PASTE :: int where "KEY_PASTE = 135"
definition KEY_FIND :: int where "KEY_FIND = 136"
definition KEY_CUT :: int where "KEY_CUT = 137"
definition KEY_HELP :: int where "KEY_HELP = 138"
definition KEY_MENU :: int where "KEY_MENU = 139"
definition KEY_SLEEP :: int where "KEY_SLEEP = 142"
definition KEY_WAKEUP :: int where "KEY_WAKEUP = 143"
definition KEY_MAIL :: int where "KEY_MAIL = 155"
definition KEY_EJECTCD :: int where "KEY_EJECTCD = 161"
definition KEY_NEXTSONG :: int where "KEY_NEXTSONG = 163"
definition KEY_PLAYPAUSE :: int where "KEY_PLAYPAUSE = 164"
definition KEY_PREVIOUSSONG :: int where "KEY_PREVIOUSSONG = 165"
definition KEY_STOPCD :: int where "KEY_STOPCD = 166"
definition KEY_KPLEFTPAREN :: int where "KEY_KPLEFTPAREN = 179"
definition KEY_KPRIGHTPAREN :: int where "KEY_KPRIGHTPAREN = 180"
definition KEY_F13 :: int where "KEY_F13 = 183"
definition KEY_F14 :: int where "KEY_F14 = 184"
definition KEY_F15 :: int where "KEY_F15 = 185"
definition KEY_F16 :: int where "KEY_F16 = 186"
definition KEY_F17 :: int where "KEY_F17 = 187"
definition KEY_F18 :: int where "KEY_F18 = 188"
definition KEY_F19 :: int where "KEY_F19 = 189"
definition KEY_F20 :: int where "KEY_F20 = 190"
definition KEY_F21 :: int where "KEY_F21 = 191"
definition KEY_F22 :: int where "KEY_F22 = 192"
definition KEY_F23 :: int where "KEY_F23 = 193"
definition KEY_F24 :: int where "KEY_F24 = 194"
definition KEY_CANCEL :: int where "KEY_CANCEL = 223"
definition KEY_MEDIA :: int where "KEY_MEDIA = 226"
definition KEY_UNKNOWN :: int where "KEY_UNKNOWN = 240"

lemmas key_defs =
  KEY_ESC_def KEY_1_def KEY_2_def KEY_3_def KEY_4_def KEY_5_def
  KEY_6_def KEY_7_def KEY_8_def KEY_9_def KEY_0_def KEY_MINUS_def
  KEY_EQUAL_def KEY_BACKSPACE_def KEY_TAB_def KEY_Q_def KEY_W_def KEY_E_def
  KEY_R_def KEY_T_def KEY_Y_def KEY_U_def KEY_I_def KEY_O_def
  KEY_P_def KEY_LEFTBRACE_def KEY_RIGHTBRACE_def KEY_ENTER_def KEY_LEFTCTRL_def KEY_A_def
  KEY_S_def KEY_D_def KEY_F_def KEY_G_def KEY_H_def KEY_J_def
  KEY_K_def KEY_L_def KEY_SEMICOLON_def KEY_APOSTROPHE_def KEY_GRAVE_def KEY_LEFTSHIFT_def
  KEY_BACKSLASH_def KEY_Z_def KEY_X_def KEY_C_def KEY_V_def KEY_B_def
  KEY_N_def KEY_M_def KEY_COMMA_def KEY_DOT_def KEY_SLASH_def KEY_RIGHTSHIFT_def
  KEY_KPASTERISK_def KEY_LEFTALT_def KEY_SPACE_def KEY_CAPSLOCK_def KEY_F1_def KEY_F2_def
  KEY_F3_def KEY_F4_def KEY_F5_def KEY_F6_def KEY_F7_def KEY_F8_def
  KEY_F9_def KEY_F10_def KEY_NUMLOCK_def KEY_SCROLLLOCK_def KEY_KP7_def KEY_KP8_def
  KEY_KP9_def KEY_KPMINUS_def KEY_KP4_def KEY_KP5_def KEY_KP6_def KEY_KPPLUS_def
  KEY_KP1_def KEY_KP2_def KEY_KP3_def KEY_KP0_def KEY_102ND_def KEY_F11_def
  KEY_F12_def KEY_RO_def KEY_KATAKANA_def KEY_KPENTER_def KEY_RIGHTCTRL_def KEY_KPSLASH_def
  KEY_SYSRQ_def KEY_RIGHTALT_def KEY_HOME_def KEY_UP_def KEY_PAGEUP_def KEY_LEFT_def
  KEY_RIGHT_def KEY_END_def KEY_DOWN_def KEY_PAGEDOWN_def KEY_INSERT_def KEY_DELETE_def
  KEY_MUTE_def KEY_VOLUMEDOWN_def KEY_VOLUMEUP_def KEY_POWER_def KEY_KPEQUAL_def KEY_PAUSE_def
  KEY_KPCOMMA_def KEY_HANGEUL_def KEY_HANGUEL_def KEY_HANJA_def KEY_YEN_def KEY_LEFTMETA_def
  KEY_RIGHTMETA_def KEY_AGAIN_def KEY_PROPS_def KEY_UNDO_def KEY_COPY_def KEY_OPEN_def
  KEY_PASTE_def KEY_FIND_def KEY_CUT_def KEY_HELP_def KEY_MENU_def KEY_SLEEP_def
  KEY_WAKEUP_def KEY_MAIL_def KEY_EJECTCD_def KEY_NEXTSONG_def KEY_PLAYPAUSE_def KEY_PREVIOUSSONG_def
  KEY_STOPCD_def KEY_KPLEFTPAREN_def KEY_KPRIGHTPAREN_def KEY_F13_def KEY_F14_def KEY_F15_def
  KEY_F16_def KEY_F17_def KEY_F18_def KEY_F19_def KEY_F20_def KEY_F21_def
  KEY_F22_def KEY_F23_def KEY_F24_def KEY_CANCEL_def KEY_MEDIA_def KEY_UNKNOWN_def

section \<open>The key map\<close>

text \<open>The arms for \<open>KeyboardLocation::NUMPAD\<close>, which come before the general ones for the same codes, and
  the arms for any location.\<close>

definition numpad_arms :: "(string \<times> int) list" where
  "numpad_arms = [
    (''Digit0'', KEY_KP0), (''Digit1'', KEY_KP1), (''Digit2'', KEY_KP2), (''Digit3'', KEY_KP3),
    (''Digit4'', KEY_KP4), (''Digit5'', KEY_KP5), (''Digit6'', KEY_KP6), (''Digit7'', KEY_KP7),
    (''Digit8'', KEY_KP8), (''Digit9'', KEY_KP9), (''Minus'', KEY_KPMINUS),
    (''Equal'', KEY_KPEQUAL), (''Enter'', KEY_KPENTER)]"

definition any_arms :: "(string \<times> int) list" where
  "any_arms = [
    (''Escape'', KEY_ESC), (''Digit0'', KEY_0), (''Digit1'', KEY_1), (''Digit2'', KEY_2),
    (''Digit3'', KEY_3), (''Digit4'', KEY_4), (''Digit5'', KEY_5), (''Digit6'', KEY_6),
    (''Digit7'', KEY_7), (''Digit8'', KEY_8), (''Digit9'', KEY_9), (''Minus'', KEY_MINUS),
    (''Equal'', KEY_EQUAL), (''Enter'', KEY_ENTER), (''Backspace'', KEY_BACKSPACE),
    (''Tab'', KEY_TAB), (''KeyA'', KEY_A), (''KeyB'', KEY_B), (''KeyC'', KEY_C), (''KeyD'', KEY_D),
    (''KeyE'', KEY_E), (''KeyF'', KEY_F), (''KeyG'', KEY_G), (''KeyH'', KEY_H), (''KeyI'', KEY_I),
    (''KeyJ'', KEY_J), (''KeyK'', KEY_K), (''KeyL'', KEY_L), (''KeyM'', KEY_M), (''KeyN'', KEY_N),
    (''KeyO'', KEY_O), (''KeyP'', KEY_P), (''KeyQ'', KEY_Q), (''KeyR'', KEY_R), (''KeyS'', KEY_S),
    (''KeyT'', KEY_T), (''KeyU'', KEY_U), (''KeyV'', KEY_V), (''KeyW'', KEY_W), (''KeyX'', KEY_X),
    (''KeyY'', KEY_Y), (''KeyZ'', KEY_Z), (''BracketLeft'', KEY_LEFTBRACE),
    (''BracketRight'', KEY_RIGHTBRACE), (''Semicolon'', KEY_SEMICOLON), (''Quote'', KEY_APOSTROPHE),
    (''Backquote'', KEY_GRAVE), (''Backslash'', KEY_BACKSLASH), (''Comma'', KEY_COMMA),
    (''Period'', KEY_DOT), (''Slash'', KEY_SLASH), (''Space'', KEY_SPACE),
    (''CapsLock'', KEY_CAPSLOCK), (''NumpadMultiply'', KEY_KPASTERISK), (''F1'', KEY_F1),
    (''F2'', KEY_F2), (''F3'', KEY_F3), (''F4'', KEY_F4), (''F5'', KEY_F5), (''F6'', KEY_F6),
    (''F7'', KEY_F7), (''F8'', KEY_F8), (''F9'', KEY_F9), (''F10'', KEY_F10), (''F11'', KEY_F11),
    (''F12'', KEY_F12), (''F13'', KEY_F13), (''F14'', KEY_F14), (''F15'', KEY_F15),
    (''F16'', KEY_F16), (''F17'', KEY_F17), (''F18'', KEY_F18), (''F19'', KEY_F19),
    (''F20'', KEY_F20), (''F21'', KEY_F21), (''F22'', KEY_F22), (''F23'', KEY_F23),
    (''F24'', KEY_F24), (''NumLock'', KEY_NUMLOCK), (''ScrollLock'', KEY_SCROLLLOCK),
    (''Numpad0'', KEY_KP0), (''Numpad1'', KEY_KP1), (''Numpad2'', KEY_KP2), (''Numpad3'', KEY_KP3),
    (''Numpad4'', KEY_KP4), (''Numpad5'', KEY_KP5), (''Numpad6'', KEY_KP6), (''Numpad7'', KEY_KP7),
    (''Numpad8'', KEY_KP8), (''Numpad9'', KEY_KP9), (''NumpadSubtract'', KEY_KPMINUS),
    (''NumpadAdd'', KEY_KPPLUS), (''IntlBackslash'', KEY_102ND), (''IntlRo'', KEY_RO),
    (''NumpadEnter'', KEY_KPENTER), (''NumpadDivide'', KEY_KPSLASH), (''NumpadEqual'', KEY_KPEQUAL),
    (''NumpadComma'', KEY_KPCOMMA), (''NumpadParenLeft'', KEY_KPLEFTPAREN),
    (''NumpadParenRight'', KEY_KPRIGHTPAREN), (''KanaMode'', KEY_KATAKANA),
    (''PrintScreen'', KEY_SYSRQ), (''Home'', KEY_HOME), (''ArrowUp'', KEY_UP),
    (''PageUp'', KEY_PAGEUP), (''ArrowLeft'', KEY_LEFT), (''ArrowRight'', KEY_RIGHT),
    (''End'', KEY_END), (''ArrowDown'', KEY_DOWN), (''PageDown'', KEY_PAGEDOWN),
    (''Insert'', KEY_INSERT), (''Delete'', KEY_DELETE), (''VolumeMute'', KEY_MUTE),
    (''AudioVolumeMute'', KEY_MUTE), (''VolumeDown'', KEY_VOLUMEDOWN),
    (''AudioVolumeDown'', KEY_VOLUMEDOWN), (''VolumeUp'', KEY_VOLUMEUP),
    (''AudioVolumeUp'', KEY_VOLUMEUP), (''Pause'', KEY_PAUSE), (''Lang1'', KEY_HANGUEL),
    (''Lang2'', KEY_HANJA), (''IntlYen'', KEY_YEN), (''OSLeft'', KEY_LEFTMETA),
    (''OSRight'', KEY_RIGHTMETA), (''ContextMenu'', KEY_MENU), (''Cancel'', KEY_CANCEL),
    (''Again'', KEY_AGAIN), (''Props'', KEY_PROPS), (''Undo'', KEY_UNDO), (''Copy'', KEY_COPY),
    (''Open'', KEY_OPEN), (''Paste'', KEY_PASTE), (''Find'', KEY_FIND), (''Cut'', KEY_CUT),
    (''Help'', KEY_HELP), (''LaunchMail'', KEY_MAIL), (''Eject'', KEY_EJECTCD),
    (''MediaTrackNext'', KEY_NEXTSONG), (''MediaPlayPause'', KEY_PLAYPAUSE),
    (''MediaTrackPrevious'', KEY_PREVIOUSSONG), (''MediaStop'', KEY_STOPCD),
    (''MediaSelect'', KEY_MEDIA), (''LaunchMediaPlayer'', KEY_MEDIA), (''Power'', KEY_POWER),
    (''Sleep'', KEY_SLEEP), (''WakeUp'', KEY_WAKEUP), (''ControlLeft'', KEY_LEFTCTRL),
    (''ControlRight'', KEY_RIGHTCTRL), (''AltLeft'', KEY_LEFTALT), (''AltRight'', KEY_RIGHTALT),
    (''MetaLeft'', KEY_LEFTMETA), (''MetaRight'', KEY_RIGHTMETA), (''ShiftLeft'', KEY_LEFTSHIFT),
    (''ShiftRight'', KEY_RIGHTSHIFT)]"

definition map_key :: "string \<Rightarrow> keyboard_location \<Rightarrow> int" where
  "map_key code loc =
     (case (if loc = NUMPAD then map_of numpad_arms code else None) of
        Some k \<Rightarrow> k
      | None \<Rightarrow> (case map_of any_arms code of Some k \<Rightarrow> k | None \<Rightarrow> KEY_UNKNOWN))"

section \<open>Facts\<close>

lemma arms_in_range: "list_all (\<lambda>(c, k). 1 \<le> k \<and> k \<le> 248 \<and> k \<noteq> KEY_UNKNOWN) (numpad_arms @ any_arms)"
  unfolding numpad_arms_def any_arms_def by (simp add: key_defs)

lemma map_key_range: "1 \<le> map_key code loc \<and> map_key code loc \<le> 248"
proof -
  have a: "map_of xs code = Some k \<Longrightarrow> set xs \<subseteq> set (numpad_arms @ any_arms) \<Longrightarrow> 1 \<le> k \<and> k \<le> 248" for xs k
    using arms_in_range map_of_SomeD [of xs code k] by (fastforce simp: list_all_iff simp del: set_append)
  have u: "1 \<le> KEY_UNKNOWN \<and> KEY_UNKNOWN \<le> 248" by (simp add: KEY_UNKNOWN_def)
  show ?thesis
    unfolding map_key_def using a [of numpad_arms] a [of any_arms] u by (simp split: option.split)
qed

end
