(* ===== verification/UInputDevice.thy ===== *)
theory UInputDevice
  imports UInputKeys Capturables CoreError
begin

text \<open>
  \<open>UInputDevice\<close> of \<open>crates/rylus-input/src/uinput_device.rs\<close>: its four virtual devices with the
  capabilities they declare, its state as a record and a definition per operation.  What it emits is
  appended to \<open>ud_out\<close> in order (a failing write is only logged, so it changes nothing), as are the X11
  calls that map a device to the screen.  The capturable, the clock, X11 and the kernel's answer to the
  creation of a device are the record \<open>uinput_env\<close>; the \<open>n\<close>-th reading of the clock is \<open>ue_now env n\<close>.
\<close>

section \<open>Events and devices\<close>

datatype event_type = KEY | RELATIVE | ABSOLUTE

datatype dev = Keyboard | Stylus | MouseDev | TouchDev

type_synonym input_event = "event_type \<times> int \<times> int"

text \<open>\<open>code as u16\<close>.\<close>

definition ev :: "event_type \<Rightarrow> int \<Rightarrow> int \<Rightarrow> input_event" where
  "ev typ code v = (typ, code mod 65536, v)"

datatype uinput_out = Emit dev "input_event list" | MapToScreen string bool

definition ABS_MAXVAL :: int where "ABS_MAXVAL = 65535"

definition EC_KEY_MOUSE_LEFT :: int where "EC_KEY_MOUSE_LEFT = 272"
definition EC_KEY_MOUSE_RIGHT :: int where "EC_KEY_MOUSE_RIGHT = 273"
definition EC_KEY_MOUSE_MIDDLE :: int where "EC_KEY_MOUSE_MIDDLE = 274"
definition EC_KEY_TOOL_PEN :: int where "EC_KEY_TOOL_PEN = 320"
definition EC_KEY_TOOL_RUBBER :: int where "EC_KEY_TOOL_RUBBER = 321"
definition EC_KEY_TOUCH :: int where "EC_KEY_TOUCH = 330"
definition EC_KEY_TOOL_FINGER :: int where "EC_KEY_TOOL_FINGER = 325"
definition EC_KEY_TOOL_DOUBLETAP :: int where "EC_KEY_TOOL_DOUBLETAP = 333"
definition EC_KEY_TOOL_TRIPLETAP :: int where "EC_KEY_TOOL_TRIPLETAP = 334"
definition EC_KEY_TOOL_QUADTAP :: int where "EC_KEY_TOOL_QUADTAP = 335"
definition EC_KEY_TOOL_QUINTTAP :: int where "EC_KEY_TOOL_QUINTTAP = 328"
definition EC_REL_HWHEEL :: int where "EC_REL_HWHEEL = 6"
definition EC_REL_WHEEL :: int where "EC_REL_WHEEL = 8"
definition EC_REL_WHEEL_HI_RES :: int where "EC_REL_WHEEL_HI_RES = 11"
definition EC_REL_HWHEEL_HI_RES :: int where "EC_REL_HWHEEL_HI_RES = 12"
definition EC_ABSOLUTE_X :: int where "EC_ABSOLUTE_X = 0"
definition EC_ABSOLUTE_Y :: int where "EC_ABSOLUTE_Y = 1"
definition EC_ABSOLUTE_PRESSURE :: int where "EC_ABSOLUTE_PRESSURE = 24"
definition EC_ABSOLUTE_DISTANCE :: int where "EC_ABSOLUTE_DISTANCE = 25"
definition EC_ABSOLUTE_TILT_X :: int where "EC_ABSOLUTE_TILT_X = 26"
definition EC_ABSOLUTE_TILT_Y :: int where "EC_ABSOLUTE_TILT_Y = 27"
definition EC_ABS_MT_SLOT :: int where "EC_ABS_MT_SLOT = 47"
definition EC_ABS_MT_TOUCH_MAJOR :: int where "EC_ABS_MT_TOUCH_MAJOR = 48"
definition EC_ABS_MT_TOUCH_MINOR :: int where "EC_ABS_MT_TOUCH_MINOR = 49"
definition EC_ABS_MT_ORIENTATION :: int where "EC_ABS_MT_ORIENTATION = 52"
definition EC_ABS_MT_POSITION_X :: int where "EC_ABS_MT_POSITION_X = 53"
definition EC_ABS_MT_POSITION_Y :: int where "EC_ABS_MT_POSITION_Y = 54"
definition EC_ABS_MT_TRACKING_ID :: int where "EC_ABS_MT_TRACKING_ID = 57"
definition EC_ABS_MT_PRESSURE :: int where "EC_ABS_MT_PRESSURE = 58"

lemmas ec_defs = EC_KEY_MOUSE_LEFT_def EC_KEY_MOUSE_RIGHT_def EC_KEY_MOUSE_MIDDLE_def
  EC_KEY_TOOL_PEN_def EC_KEY_TOOL_RUBBER_def EC_KEY_TOUCH_def EC_KEY_TOOL_FINGER_def
  EC_KEY_TOOL_DOUBLETAP_def EC_KEY_TOOL_TRIPLETAP_def EC_KEY_TOOL_QUADTAP_def EC_KEY_TOOL_QUINTTAP_def
  EC_REL_HWHEEL_def EC_REL_WHEEL_def EC_REL_WHEEL_HI_RES_def EC_REL_HWHEEL_HI_RES_def
  EC_ABSOLUTE_X_def EC_ABSOLUTE_Y_def EC_ABSOLUTE_PRESSURE_def EC_ABSOLUTE_DISTANCE_def
  EC_ABSOLUTE_TILT_X_def EC_ABSOLUTE_TILT_Y_def EC_ABS_MT_SLOT_def EC_ABS_MT_TOUCH_MAJOR_def
  EC_ABS_MT_TOUCH_MINOR_def EC_ABS_MT_ORIENTATION_def EC_ABS_MT_POSITION_X_def
  EC_ABS_MT_POSITION_Y_def EC_ABS_MT_TRACKING_ID_def EC_ABS_MT_PRESSURE_def

definition tool_key_for_touch_count :: "usize \<Rightarrow> int" where
  "tool_key_for_touch_count count =
     (if count = 1 then EC_KEY_TOOL_FINGER
      else if count = 2 then EC_KEY_TOOL_DOUBLETAP
      else if count = 3 then EC_KEY_TOOL_TRIPLETAP
      else if count = 4 then EC_KEY_TOOL_QUADTAP
      else EC_KEY_TOOL_QUINTTAP)"

section \<open>Capabilities\<close>

text \<open>An absolute axis is its code with minimum, maximum and resolution.  \<open>caps_direct\<close>: \<open>INPUT_PROP_DIRECT\<close>.\<close>

record caps =
  caps_name :: string
  caps_keys :: "int list"
  caps_rel :: "int list"
  caps_abs :: "(int \<times> int \<times> int \<times> int) list"
  caps_direct :: bool

definition create_keyboard :: "string \<Rightarrow> caps" where
  "create_keyboard name = \<lparr>caps_name = name, caps_keys = map int [1..<249], caps_rel = [], caps_abs = [],
     caps_direct = False\<rparr>"

definition create_mouse :: "string \<Rightarrow> caps" where
  "create_mouse name = \<lparr>caps_name = name,
     caps_keys = [EC_KEY_MOUSE_LEFT, EC_KEY_MOUSE_RIGHT, EC_KEY_MOUSE_MIDDLE],
     caps_rel = [EC_REL_WHEEL, EC_REL_HWHEEL, EC_REL_WHEEL_HI_RES, EC_REL_HWHEEL_HI_RES],
     caps_abs = [(EC_ABSOLUTE_X, 0, ABS_MAXVAL, 0), (EC_ABSOLUTE_Y, 0, ABS_MAXVAL, 0)],
     caps_direct = True\<rparr>"

definition create_stylus :: "string \<Rightarrow> caps" where
  "create_stylus name = \<lparr>caps_name = name,
     caps_keys = [EC_KEY_TOOL_PEN, EC_KEY_TOOL_RUBBER, EC_KEY_TOUCH],
     caps_rel = [],
     caps_abs = [(EC_ABSOLUTE_X, 0, ABS_MAXVAL, 12), (EC_ABSOLUTE_Y, 0, ABS_MAXVAL, 12),
       (EC_ABSOLUTE_PRESSURE, 0, ABS_MAXVAL, 12), (EC_ABSOLUTE_TILT_X, - 90, 90, 12),
       (EC_ABSOLUTE_TILT_Y, - 90, 90, 12), (EC_ABSOLUTE_DISTANCE, 0, ABS_MAXVAL, 12)],
     caps_direct = True\<rparr>"

definition create_touch :: "string \<Rightarrow> caps" where
  "create_touch name = \<lparr>caps_name = name,
     caps_keys = [EC_KEY_TOUCH, EC_KEY_TOOL_FINGER, EC_KEY_TOOL_DOUBLETAP, EC_KEY_TOOL_TRIPLETAP,
       EC_KEY_TOOL_QUADTAP, EC_KEY_TOOL_QUINTTAP],
     caps_rel = [],
     caps_abs = [(EC_ABSOLUTE_X, 0, ABS_MAXVAL, 200), (EC_ABSOLUTE_Y, 0, ABS_MAXVAL, 200),
       (EC_ABS_MT_SLOT, 0, 4, 0), (EC_ABS_MT_TRACKING_ID, 0, 4, 0),
       (EC_ABS_MT_POSITION_X, 0, ABS_MAXVAL, 200), (EC_ABS_MT_POSITION_Y, 0, ABS_MAXVAL, 200),
       (EC_ABS_MT_PRESSURE, 0, ABS_MAXVAL, 0), (EC_ABS_MT_TOUCH_MAJOR, 0, ABS_MAXVAL, 12),
       (EC_ABS_MT_TOUCH_MINOR, 0, ABS_MAXVAL, 12), (EC_ABS_MT_ORIENTATION, 0, 1, 0)],
     caps_direct = True\<rparr>"

section \<open>State\<close>

datatype io_error_kind = PermissionDenied | NotFound | OtherKind

record 'c uinput_env =
  ue_before_input :: "'c \<Rightarrow> string option \<times> 'c"
  ue_geometry :: "'c \<Rightarrow> string + f64 geometry"
  ue_now :: "nat \<Rightarrow> nanos"
  ue_xdg_session_type :: "string option"
  ue_x11ctx :: bool
  ue_build :: "caps \<Rightarrow> (io_error_kind \<times> string) option"

record 'c uinput =
  ud_touches :: "int option list"
  ud_tool_pen_active :: bool
  ud_pen_touching :: bool
  ud_last_pen_event :: nanos
  ud_capturable :: 'c
  ud_geometry :: rect
  ud_name_mouse :: string
  ud_name_stylus :: string
  ud_name_touch :: string
  ud_mouse_tries :: usize
  ud_stylus_tries :: usize
  ud_touch_tries :: usize
  ud_x11ctx :: bool
  ud_clock_reads :: nat
  ud_out :: "uinput_out list"

text \<open>The message of the error is ASCII text, as bytes.\<close>

definition ascii_bytes :: "string \<Rightarrow> byte list" where
  "ascii_bytes s = map of_char s"

definition map_io_error :: "io_error_kind \<times> string \<Rightarrow> string \<Rightarrow> cerror" where
  "map_io_error e ctx =
     cerror_with_code (if fst e = PermissionDenied \<or> fst e = NotFound then 101 else 1)
       (ascii_bytes (ctx @ '': '' @ snd e))"

definition uinput_new :: "'c uinput_env \<Rightarrow> 'c \<Rightarrow> string option \<Rightarrow> cerror + 'c uinput" where
  "uinput_new env capturable client =
     (let suffix = (case client of Some i \<Rightarrow> '' - '' @ i | None \<Rightarrow> []);
          name_stylus = ''Rylus Stylus'' @ suffix;
          name_mouse = ''Rylus Mouse'' @ suffix;
          name_touch = ''Rylus Touch'' @ suffix;
          name_keyboard = ''Rylus Keyboard'' @ suffix
      in case ue_build env (create_stylus name_stylus) of
           Some e \<Rightarrow> Inl (map_io_error e ''error creating stylus device'')
         | None \<Rightarrow> (case ue_build env (create_mouse name_mouse) of
             Some e \<Rightarrow> Inl (map_io_error e ''error creating mouse device'')
           | None \<Rightarrow> (case ue_build env (create_touch name_touch) of
               Some e \<Rightarrow> Inl (map_io_error e ''error creating touch device'')
             | None \<Rightarrow> (case ue_build env (create_keyboard name_keyboard) of
                 Some e \<Rightarrow> Inl (map_io_error e ''error creating keyboard device'')
               | None \<Rightarrow> Inr \<lparr>ud_touches = replicate 5 None, ud_tool_pen_active = False,
                   ud_pen_touching = False, ud_last_pen_event = ue_now env 0,
                   ud_capturable = capturable, ud_geometry = rect_default,
                   ud_name_mouse = name_mouse, ud_name_stylus = name_stylus,
                   ud_name_touch = name_touch, ud_mouse_tries = 0, ud_stylus_tries = 0,
                   ud_touch_tries = 0, ud_x11ctx = ue_x11ctx env, ud_clock_reads = 1, ud_out = []\<rparr>))))"

definition ud_emit :: "dev \<Rightarrow> input_event list \<Rightarrow> 'c uinput \<Rightarrow> 'c uinput" where
  "ud_emit dv events d = d\<lparr>ud_out := ud_out d @ [Emit dv events]\<rparr>"

definition read_clock :: "'c uinput_env \<Rightarrow> 'c uinput \<Rightarrow> nanos \<times> 'c uinput" where
  "read_clock env d = (ue_now env (ud_clock_reads d), d\<lparr>ud_clock_reads := ud_clock_reads d + 1\<rparr>)"

section \<open>Coordinates\<close>

definition ABS_MAX :: f64 where "ABS_MAX = Fin 65535"

definition compute_transform :: "f64 \<Rightarrow> f64 \<Rightarrow> f64 \<Rightarrow> int" where
  "compute_transform x geom_x geom_w =
     f_as_i32 (fmul (fclamp (fadd (fmul x geom_w) geom_x) (Fin 0) (Fin 1)) ABS_MAX)"

definition transform_x :: "'c uinput \<Rightarrow> f64 \<Rightarrow> int" where
  "transform_x d x = compute_transform x (rx (ud_geometry d)) (rw (ud_geometry d))"

definition transform_y :: "'c uinput \<Rightarrow> f64 \<Rightarrow> int" where
  "transform_y d y = compute_transform y (ry (ud_geometry d)) (rh (ud_geometry d))"

text \<open>\<open>transform_pressure\<close> and \<open>transform_touch_size\<close>.\<close>

definition transform_unclamped :: "f64 \<Rightarrow> int" where
  "transform_unclamped p = f_as_i32 (fmul p ABS_MAX)"

text \<open>The conversion to \<open>f32\<close> keeps the sign.\<close>

definition compute_hover_distance :: "f64 \<Rightarrow> int" where
  "compute_hover_distance pressure = (if flt (Fin 0) pressure then 0 else ABS_MAXVAL)"

section \<open>Pointer events\<close>

definition find_slot :: "int \<Rightarrow> 'c uinput \<Rightarrow> usize option" where
  "find_slot pid d = position (\<lambda>t. t = Some pid) (ud_touches d)"

definition free_slot :: "'c uinput \<Rightarrow> usize option" where
  "free_slot d = position (\<lambda>t. t = None) (ud_touches d)"

definition active_count :: "'c uinput \<Rightarrow> usize" where
  "active_count d = count_if (\<lambda>t. t \<noteq> None) (ud_touches d)"

definition clear_stale_pen_hover :: "'c uinput_env \<Rightarrow> 'c uinput \<Rightarrow> 'c uinput" where
  "clear_stale_pen_hover env d =
     (if ud_tool_pen_active d \<and> \<not> ud_pen_touching d then
        let (now, d) = read_clock env d
        in if now - ud_last_pen_event d > millis 50 then
             ud_emit Stylus [ev KEY EC_KEY_TOUCH 0, ev KEY EC_KEY_TOOL_PEN 0, ev KEY EC_KEY_TOOL_RUBBER 0,
                 ev ABSOLUTE EC_ABSOLUTE_PRESSURE 0]
               (d\<lparr>ud_tool_pen_active := False\<rparr>)
           else d
      else d)"

definition MAX_SCREEN_MAPPING_TRIES :: usize where "MAX_SCREEN_MAPPING_TRIES = 100"

text \<open>The X11 mapping of the device \<open>name\<close> at its \<open>n\<close>-th try; the count is advanced by the caller.\<close>

definition map_to_screen :: "'c uinput_env \<Rightarrow> usize \<Rightarrow> string \<Rightarrow> bool \<Rightarrow> 'c uinput \<Rightarrow> 'c uinput" where
  "map_to_screen env tries name pen d =
     (if tries < MAX_SCREEN_MAPPING_TRIES \<and> ud_x11ctx d \<and> ue_xdg_session_type env \<noteq> Some ''wayland''
      then d\<lparr>ud_out := ud_out d @ [MapToScreen name pen]\<rparr> else d)"

definition next_try :: "usize \<Rightarrow> usize" where
  "next_try tries = (if tries < MAX_SCREEN_MAPPING_TRIES then tries + 1 else tries)"

text \<open>The events that put a finger down, move it or let it hover.\<close>

fun is_down_like :: "pointer_event_type \<Rightarrow> bool" where
  "is_down_like DOWN = True"
| "is_down_like MOVE = True"
| "is_down_like OVER = True"
| "is_down_like ENTER = True"
| "is_down_like _ = False"

text \<open>The slot of a finger, claimed if it has none: \<open>None\<close> when all five are taken.\<close>

definition claim_slot :: "int \<Rightarrow> 'c uinput \<Rightarrow> (usize \<times> 'c uinput) option" where
  "claim_slot pid d = (case find_slot pid d of
      Some s \<Rightarrow> Some (s, d)
    | None \<Rightarrow> (case free_slot d of
        Some s \<Rightarrow> Some (s, d\<lparr>ud_touches := (ud_touches d)[s := Some pid]\<rparr>)
      | None \<Rightarrow> None))"

definition touch_keys :: "pointer_event_type \<Rightarrow> 'c uinput \<Rightarrow> input_event list" where
  "touch_keys t d =
     (if t = DOWN then
        [ev KEY EC_KEY_TOUCH 1]
        @ (if active_count d > 1 then [ev KEY (tool_key_for_touch_count (active_count d - 1)) 0] else [])
        @ [ev KEY (tool_key_for_touch_count (active_count d)) 1]
      else [])"

definition touch_axes :: "pointer_event \<Rightarrow> 'c uinput \<Rightarrow> input_event list" where
  "touch_axes e d =
     (let tx = transform_x d (pe_x e); ty = transform_y d (pe_y e);
          tp = transform_unclamped (pe_pressure e);
          tall = fle (pe_width e) (pe_height e);
          major = transform_unclamped (if tall then pe_height e else pe_width e);
          minor = transform_unclamped (if tall then pe_width e else pe_height e);
          orientation = (if tall then 0 else 1)
      in [ev ABSOLUTE EC_ABS_MT_PRESSURE tp, ev ABSOLUTE EC_ABS_MT_TOUCH_MAJOR major,
          ev ABSOLUTE EC_ABS_MT_TOUCH_MINOR minor, ev ABSOLUTE EC_ABS_MT_ORIENTATION orientation,
          ev ABSOLUTE EC_ABS_MT_POSITION_X tx, ev ABSOLUTE EC_ABS_MT_POSITION_Y ty,
          ev ABSOLUTE EC_ABSOLUTE_X tx, ev ABSOLUTE EC_ABSOLUTE_Y ty])"

definition touch_down :: "pointer_event \<Rightarrow> 'c uinput \<Rightarrow> 'c uinput" where
  "touch_down e d = (case claim_slot (pe_pointer_id e) d of
      None \<Rightarrow> d
    | Some (slot, d) \<Rightarrow>
        ud_emit TouchDev
          ([ev ABSOLUTE EC_ABS_MT_SLOT (int slot), ev ABSOLUTE EC_ABS_MT_TRACKING_ID (int slot)]
           @ touch_keys (pe_event_type e) d @ touch_axes e d) d)"

definition touch_up :: "pointer_event \<Rightarrow> 'c uinput \<Rightarrow> 'c uinput" where
  "touch_up e d = (case find_slot (pe_pointer_id e) d of
      None \<Rightarrow> d
    | Some slot \<Rightarrow>
        let count_before = active_count d;
            count_after = count_before - 1;
            d = ud_emit TouchDev
              ([ev ABSOLUTE EC_ABS_MT_SLOT (int slot), ev ABSOLUTE EC_ABS_MT_TRACKING_ID (- 1),
                ev KEY EC_KEY_TOUCH 0, ev KEY (tool_key_for_touch_count count_before) 0]
               @ (if count_after \<ge> 1 then [ev KEY (tool_key_for_touch_count count_after) 1] else [])) d
        in d\<lparr>ud_touches := (ud_touches d)[slot := None]\<rparr>)"

definition send_touch :: "'c uinput_env \<Rightarrow> pointer_event \<Rightarrow> 'c uinput \<Rightarrow> 'c uinput" where
  "send_touch env e d =
     (let d = map_to_screen env (ud_touch_tries d) (ud_name_touch d) False d;
          d = d\<lparr>ud_touch_tries := next_try (ud_touch_tries d)\<rparr>
      in if is_down_like (pe_event_type e) then touch_down e d else touch_up e d)"

text \<open>The tool keys of a pen event and the state after them.\<close>

definition pen_keys :: "pointer_event \<Rightarrow> 'c uinput \<Rightarrow> input_event list \<times> 'c uinput" where
  "pen_keys e d =
     (let (evs, d) = (if pe_event_type e = DOWN
                      then ([ev KEY EC_KEY_TOUCH 1], d\<lparr>ud_pen_touching := True\<rparr>) else ([], d));
          (evs, d) = (if \<not> ud_tool_pen_active d \<and> \<not> button_contains (pe_buttons e) ERASER
                      then (evs @ [ev KEY EC_KEY_TOOL_PEN 1, ev KEY EC_KEY_TOOL_RUBBER 0],
                            d\<lparr>ud_tool_pen_active := True\<rparr>)
                      else (evs, d))
      in if pe_button e = ERASER
         then (evs @ [ev KEY EC_KEY_TOOL_PEN 0, ev KEY EC_KEY_TOOL_RUBBER 1],
               d\<lparr>ud_tool_pen_active := False\<rparr>)
         else (evs, d))"

definition pen_axes :: "pointer_event \<Rightarrow> 'c uinput \<Rightarrow> input_event list" where
  "pen_axes e d =
     [ev ABSOLUTE EC_ABSOLUTE_X (transform_x d (pe_x e)),
      ev ABSOLUTE EC_ABSOLUTE_Y (transform_y d (pe_y e)),
      ev ABSOLUTE EC_ABSOLUTE_PRESSURE
        (if ud_pen_touching d then transform_unclamped (pe_pressure e) else 0),
      ev ABSOLUTE EC_ABSOLUTE_TILT_X (pe_tilt_x e),
      ev ABSOLUTE EC_ABSOLUTE_TILT_Y (pe_tilt_y e),
      ev ABSOLUTE EC_ABSOLUTE_DISTANCE (compute_hover_distance (pe_pressure e))]"

definition pen_leave_events :: "input_event list" where
  "pen_leave_events = [ev KEY EC_KEY_TOUCH 0, ev KEY EC_KEY_TOOL_PEN 0, ev KEY EC_KEY_TOOL_RUBBER 0,
     ev ABSOLUTE EC_ABSOLUTE_PRESSURE 0, ev ABSOLUTE EC_ABSOLUTE_DISTANCE ABS_MAXVAL]"

definition send_pen :: "'c uinput_env \<Rightarrow> pointer_event \<Rightarrow> 'c uinput \<Rightarrow> 'c uinput" where
  "send_pen env e d =
     (let (now, d) = read_clock env d;
          d = d\<lparr>ud_last_pen_event := now\<rparr>;
          d = map_to_screen env (ud_stylus_tries d) (ud_name_stylus d) True d;
          d = d\<lparr>ud_stylus_tries := next_try (ud_stylus_tries d)\<rparr>
      in if is_down_like (pe_event_type e) then
           let (evs, d) = pen_keys e d in ud_emit Stylus (evs @ pen_axes e d) d
         else (ud_emit Stylus pen_leave_events d)\<lparr>ud_tool_pen_active := False, ud_pen_touching := False\<rparr>)"

definition mouse_button :: "button \<Rightarrow> int \<Rightarrow> input_event list" where
  "mouse_button b v =
     (if b = PRIMARY then [ev KEY EC_KEY_MOUSE_LEFT v]
      else if b = SECONDARY then [ev KEY EC_KEY_MOUSE_RIGHT v]
      else if b = AUXILARY then [ev KEY EC_KEY_MOUSE_MIDDLE v]
      else [])"

definition send_mouse :: "'c uinput_env \<Rightarrow> pointer_event \<Rightarrow> 'c uinput \<Rightarrow> 'c uinput" where
  "send_mouse env e d =
     (let d = map_to_screen env (ud_mouse_tries d) (ud_name_mouse d) False d;
          d = d\<lparr>ud_mouse_tries := next_try (ud_mouse_tries d)\<rparr>
      in if is_down_like (pe_event_type e) then
           ud_emit MouseDev
             ((if pe_event_type e = DOWN then mouse_button (pe_button e) 1 else [])
              @ [ev ABSOLUTE EC_ABSOLUTE_X (transform_x d (pe_x e)),
                 ev ABSOLUTE EC_ABSOLUTE_Y (transform_y d (pe_y e))]) d
         else
           let evs = mouse_button (pe_button e) 0
           in if evs \<noteq> [] then ud_emit MouseDev evs d else d)"

definition send_pointer_event :: "'c uinput_env \<Rightarrow> pointer_event \<Rightarrow> 'c uinput \<Rightarrow> 'c uinput" where
  "send_pointer_event env e d = (case ue_before_input env (ud_capturable d) of
      (Some err, c) \<Rightarrow> d\<lparr>ud_capturable := c\<rparr>
    | (None, c) \<Rightarrow>
        (case ue_geometry env c of
           Inl err \<Rightarrow> d\<lparr>ud_capturable := c\<rparr>
         | Inr (Relative x y width height) \<Rightarrow>
             let d = d\<lparr>ud_capturable := c, ud_geometry := \<lparr>rx = x, ry = y, rw = width, rh = height\<rparr>\<rparr>;
                 d = clear_stale_pen_hover env d
             in (case pe_pointer_type e of
                   Touch \<Rightarrow> send_touch env e d
                 | Pen \<Rightarrow> send_pen env e d
                 | _ \<Rightarrow> send_mouse env e d)))"

section \<open>Wheel and keyboard\<close>

text \<open>\<open>direction\<close>: the sign.\<close>

definition wheel_direction :: "int \<Rightarrow> int" where
  "wheel_direction d = (if d = 0 then 0 else if d < 0 then - 1 else 1)"

definition send_wheel_event :: "'c uinput_env \<Rightarrow> wheel_event \<Rightarrow> 'c uinput \<Rightarrow> 'c uinput" where
  "send_wheel_event env e d = (case ue_before_input env (ud_capturable d) of
      (Some err, c) \<Rightarrow> d\<lparr>ud_capturable := c\<rparr>
    | (None, c) \<Rightarrow>
        ud_emit MouseDev
          [ev RELATIVE EC_REL_WHEEL (wheel_direction (we_dy e)),
           ev RELATIVE EC_REL_HWHEEL (wheel_direction (we_dx e)),
           ev RELATIVE EC_REL_WHEEL_HI_RES (we_dy e),
           ev RELATIVE EC_REL_HWHEEL_HI_RES (we_dx e)] (d\<lparr>ud_capturable := c\<rparr>))"

fun key_state :: "keyboard_event_type \<Rightarrow> int" where
  "key_state KUp = 0"
| "key_state KDown = 1"
| "key_state KRepeat = 2"

text \<open>\<open>encode_utf16\<close> on code points.\<close>

definition utf16_units :: "nat \<Rightarrow> nat list" where
  "utf16_units c = (if c < 65536 then [c]
     else [55296 + (c - 65536) div 1024, 56320 + (c - 65536) mod 1024])"

definition unicode_keys :: "nat list \<Rightarrow> string" where
  "unicode_keys key = concat (map hex (concat (map utf16_units key)))"

text \<open>\<open>is_alphabetic\<close> on ASCII, which is all that a hexadecimal number holds.\<close>

definition is_alphabetic :: "char \<Rightarrow> bool" where
  "is_alphabetic c = (let n = of_char c :: nat in 65 \<le> n \<and> n \<le> 90 \<or> 97 \<le> n \<and> n \<le> 122)"

definition hex_key :: "char \<Rightarrow> int" where
  "hex_key c = (if is_alphabetic c then map_key (''Key'' @ [c]) STANDARD
                else map_key (''Digit'' @ [c]) STANDARD)"

definition type_unicode :: "nat list \<Rightarrow> 'c uinput \<Rightarrow> 'c uinput" where
  "type_unicode key d =
     (let d = ud_emit Keyboard [ev KEY KEY_LEFTCTRL 1, ev KEY KEY_LEFTSHIFT 1, ev KEY KEY_U 1] d;
          d = fold (\<lambda>c d. ud_emit Keyboard [ev KEY (hex_key c) 0]
                            (ud_emit Keyboard [ev KEY (hex_key c) 1] d)) (unicode_keys key) d
      in ud_emit Keyboard [ev KEY KEY_LEFTCTRL 0, ev KEY KEY_LEFTSHIFT 0, ev KEY KEY_U 0] d)"

text \<open>The modifiers in the order they are sent.\<close>

definition modifier_keys :: "keyboard_event \<Rightarrow> int list" where
  "modifier_keys e = (if ke_ctrl e then [KEY_LEFTCTRL] else []) @ (if ke_alt e then [KEY_LEFTALT] else [])
     @ (if ke_meta e then [KEY_LEFTMETA] else []) @ (if ke_shift e then [KEY_LEFTSHIFT] else [])"

definition send_keyboard_event :: "'c uinput_env \<Rightarrow> keyboard_event \<Rightarrow> 'c uinput \<Rightarrow> 'c uinput" where
  "send_keyboard_event env e d = (case ue_before_input env (ud_capturable d) of
      (Some err, c) \<Rightarrow> d\<lparr>ud_capturable := c\<rparr>
    | (None, c) \<Rightarrow>
        let d = d\<lparr>ud_capturable := c\<rparr>;
            key_code = map_key (ke_code e) (ke_location e);
            state = key_state (ke_event_type e)
        in if key_code = KEY_UNKNOWN then
             (if ke_event_type e = KDown \<and> ke_key e \<noteq> [] then type_unicode (ke_key e) d else d)
           else
             fold (\<lambda>k. ud_emit Keyboard [ev KEY k state]) (modifier_keys e @ [key_code]) d)"

definition set_capturable :: "'c \<Rightarrow> 'c uinput \<Rightarrow> 'c uinput" where
  "set_capturable c d = d\<lparr>ud_capturable := c\<rparr>"

end
