(* ===== verification/InputFacts.thy ===== *)
theory InputFacts
  imports UInputDevice
begin

text \<open>
  Facts about \<open>UInputDevice\<close>: what a run of input events leaves pressed on the virtual devices (the key
  state a kernel derives from the emitted events), the touch slots, the declared ranges, and the
  hexadecimal input of characters.
\<close>

section \<open>Runs\<close>

datatype 'c input_op =
    DoWheel wheel_event
  | DoPointer pointer_event
  | DoKeyboard keyboard_event
  | DoCapturable 'c

fun input_step :: "'c uinput_env \<Rightarrow> 'c input_op \<Rightarrow> 'c uinput \<Rightarrow> 'c uinput" where
  "input_step env (DoWheel e) d = send_wheel_event env e d"
| "input_step env (DoPointer e) d = send_pointer_event env e d"
| "input_step env (DoKeyboard e) d = send_keyboard_event env e d"
| "input_step env (DoCapturable c) d = set_capturable c d"

definition input_run :: "'c uinput_env \<Rightarrow> 'c input_op list \<Rightarrow> 'c uinput \<Rightarrow> 'c uinput" where
  "input_run env ops d = fold (input_step env) ops d"

text \<open>A predicate kept by every step holds after a run from a fresh device.\<close>

lemma run_invariant:
  assumes step: "\<And>op d. I d \<Longrightarrow> I (input_step env op d)" and d: "I d"
  shows "I (input_run env ops d)"
  unfolding input_run_def using d by (induction ops arbitrary: d) (simp_all add: step)

section \<open>Key states\<close>

fun key_after :: "int \<Rightarrow> input_event \<Rightarrow> bool \<Rightarrow> bool" where
  "key_after code (KEY, c, v) b = (if c = code then v \<noteq> 0 else b)"
| "key_after code _ b = b"

fun out_after :: "dev \<Rightarrow> int \<Rightarrow> uinput_out \<Rightarrow> bool \<Rightarrow> bool" where
  "out_after dv code (Emit dv' evs) b = (if dv' = dv then fold (key_after code) evs b else b)"
| "out_after dv code (MapToScreen n p) b = b"

definition pressed :: "dev \<Rightarrow> int \<Rightarrow> 'c uinput \<Rightarrow> bool" where
  "pressed dv code d = fold (out_after dv code) (ud_out d) False"

lemma pressed_emit [simp]:
  "pressed dv code (ud_emit dv' evs d)
     = (if dv' = dv then fold (key_after code) evs (pressed dv code d) else pressed dv code d)"
  by (simp add: pressed_def ud_emit_def)

lemma pressed_map [simp]: "pressed dv code (map_to_screen env n name p d) = pressed dv code d"
  by (simp add: pressed_def map_to_screen_def)

lemma pressed_updates [simp]:
  "pressed dv code (d\<lparr>ud_touches := a\<rparr>) = pressed dv code d"
  "pressed dv code (d\<lparr>ud_tool_pen_active := b\<rparr>) = pressed dv code d"
  "pressed dv code (d\<lparr>ud_pen_touching := b\<rparr>) = pressed dv code d"
  "pressed dv code (d\<lparr>ud_last_pen_event := t\<rparr>) = pressed dv code d"
  "pressed dv code (d\<lparr>ud_capturable := c\<rparr>) = pressed dv code d"
  "pressed dv code (d\<lparr>ud_geometry := g\<rparr>) = pressed dv code d"
  "pressed dv code (d\<lparr>ud_mouse_tries := n\<rparr>) = pressed dv code d"
  "pressed dv code (d\<lparr>ud_stylus_tries := n\<rparr>) = pressed dv code d"
  "pressed dv code (d\<lparr>ud_touch_tries := n\<rparr>) = pressed dv code d"
  "pressed dv code (d\<lparr>ud_clock_reads := n\<rparr>) = pressed dv code d"
  by (simp_all add: pressed_def)

lemma key_after_abs [simp]: "key_after code (ev ABSOLUTE c v) b = b" "key_after code (ev RELATIVE c v) b = b"
  by (simp_all add: ev_def)

lemma key_after_key [simp]: "key_after code (ev KEY c v) b = (if c mod 65536 = code then v \<noteq> 0 else b)"
  by (simp add: ev_def)

lemma touch_axes_keys [simp]: "fold (key_after code) (touch_axes e d) b = b"
  by (simp add: touch_axes_def Let_def)

lemma pen_axes_keys [simp]: "fold (key_after code) (pen_axes e d) b = b"
  by (simp add: pen_axes_def)

text \<open>The fields no emission changes.\<close>

lemma emit_fields [simp]:
  "ud_touches (ud_emit dv evs d) = ud_touches d"
  "ud_tool_pen_active (ud_emit dv evs d) = ud_tool_pen_active d"
  "ud_pen_touching (ud_emit dv evs d) = ud_pen_touching d"
  "ud_capturable (ud_emit dv evs d) = ud_capturable d"
  "ud_geometry (ud_emit dv evs d) = ud_geometry d"
  "ud_touches (map_to_screen env n name p d) = ud_touches d"
  "ud_tool_pen_active (map_to_screen env n name p d) = ud_tool_pen_active d"
  "ud_pen_touching (map_to_screen env n name p d) = ud_pen_touching d"
  "ud_capturable (map_to_screen env n name p d) = ud_capturable d"
  by (simp_all add: ud_emit_def map_to_screen_def)

section \<open>Invariants and their components\<close>

text \<open>An invariant that depends on the pen fields, the slots and the emitted events only, and is kept by
  the devices' handlers, is kept by every step.\<close>

definition ignores_rest :: "('c uinput \<Rightarrow> bool) \<Rightarrow> bool" where
  "ignores_rest I \<longleftrightarrow> (\<forall>d c. I d \<longrightarrow> I (d\<lparr>ud_capturable := c\<rparr>)) \<and> (\<forall>d g. I d \<longrightarrow> I (d\<lparr>ud_geometry := g\<rparr>))
     \<and> (\<forall>d n. I d \<longrightarrow> I (d\<lparr>ud_clock_reads := n\<rparr>)) \<and> (\<forall>d n. I d \<longrightarrow> I (d\<lparr>ud_last_pen_event := n\<rparr>))
     \<and> (\<forall>d n. I d \<longrightarrow> I (d\<lparr>ud_mouse_tries := n\<rparr>)) \<and> (\<forall>d n. I d \<longrightarrow> I (d\<lparr>ud_stylus_tries := n\<rparr>))
     \<and> (\<forall>d n. I d \<longrightarrow> I (d\<lparr>ud_touch_tries := n\<rparr>))
     \<and> (\<forall>d env n name p. I d \<longrightarrow> I (map_to_screen env n name p d))"

lemma pointer_step:
  assumes r: "ignores_rest I" and d: "I d"
    and stale: "\<And>d. I d \<Longrightarrow> I (clear_stale_pen_hover env d)"
    and touch: "\<And>d. I d \<Longrightarrow> I (touch_down e d)" "\<And>d. I d \<Longrightarrow> I (touch_up e d)"
    and pen: "\<And>d. I d \<Longrightarrow> I (send_pen env e d)" and mouse: "\<And>d. I d \<Longrightarrow> I (send_mouse env e d)"
  shows "I (send_pointer_event env e d)"
proof -
  have t: "I (send_touch env e x)" if "I x" for x
    using r that touch by (simp add: send_touch_def Let_def ignores_rest_def)
  obtain o' c where b: "ue_before_input env (ud_capturable d) = (o', c)" by fastforce
  show ?thesis
  proof (cases o')
    case (Some err)
    then show ?thesis using r d b by (simp add: send_pointer_event_def ignores_rest_def)
  next
    case None
    show ?thesis
    proof (cases "ue_geometry env c")
      case (Inl err)
      then show ?thesis using r d b None by (simp add: send_pointer_event_def ignores_rest_def)
    next
      case (Inr g)
      obtain x y w h where g: "g = Relative x y w h" by (cases g)
      let ?d = "clear_stale_pen_hover env
        (d\<lparr>ud_capturable := c, ud_geometry := \<lparr>rx = x, ry = y, rw = w, rh = h\<rparr>\<rparr>)"
      have "I ?d" using r d by (intro stale) (simp add: ignores_rest_def)
      then show ?thesis using b None Inr g t pen mouse
        by (cases "pe_pointer_type e") (simp_all add: send_pointer_event_def Let_def)
    qed
  qed
qed

lemma modifier_range: "k \<in> set (modifier_keys e) \<Longrightarrow> 1 \<le> k \<and> k \<le> 248"
  by (auto simp: modifier_keys_def key_defs split: if_splits)

lemma hex_key_range: "1 \<le> hex_key c \<and> hex_key c \<le> 248"
  by (simp add: hex_key_def map_key_range)

lemma keyboard_step:
  assumes r: "ignores_rest I" and d: "I d"
    and k: "\<And>c v d. 1 \<le> c \<Longrightarrow> c \<le> 248 \<Longrightarrow> I d \<Longrightarrow> I (ud_emit Keyboard [ev KEY c v] d)"
    and m: "\<And>v d. I d \<Longrightarrow> I (ud_emit Keyboard [ev KEY KEY_LEFTCTRL v, ev KEY KEY_LEFTSHIFT v, ev KEY KEY_U v] d)"
  shows "I (send_keyboard_event env e d)"
proof -
  have f: "I (fold (\<lambda>k. ud_emit Keyboard [ev KEY k v]) ks x)"
    if "\<forall>k \<in> set ks. 1 \<le> k \<and> k \<le> 248" "I x" for ks v x
    using that by (induction ks arbitrary: x) (simp_all add: k)
  have g: "I (fold (\<lambda>c d. ud_emit Keyboard [ev KEY (hex_key c) 0]
      (ud_emit Keyboard [ev KEY (hex_key c) 1] d)) cs x)" if "I x" for cs x
    using that by (induction cs arbitrary: x) (simp_all add: k hex_key_range)
  have u: "I (type_unicode key x)" if "I x" for key x
    unfolding type_unicode_def Let_def by (intro m g that)
  let ?ks = "modifier_keys e @ [map_key (ke_code e) (ke_location e)]"
  have ks: "\<forall>k \<in> set ?ks. 1 \<le> k \<and> k \<le> 248" using modifier_range map_key_range by auto
  obtain o' c where b: "ue_before_input env (ud_capturable d) = (o', c)" by fastforce
  show ?thesis
  proof (cases o')
    case (Some err)
    then show ?thesis using r d b by (simp add: send_keyboard_event_def ignores_rest_def)
  next
    case None
    let ?d = "d\<lparr>ud_capturable := c\<rparr>"
    have "I ?d" using r d by (simp add: ignores_rest_def)
    moreover have "send_keyboard_event env e d \<in> {?d, type_unicode (ke_key e) ?d,
        fold (\<lambda>k. ud_emit Keyboard [ev KEY k (key_state (ke_event_type e))]) ?ks ?d}"
      unfolding send_keyboard_event_def b None by (simp add: Let_def del: fold_append)
    ultimately show ?thesis using f [OF ks] u by auto
  qed
qed

definition wheel_events :: "wheel_event \<Rightarrow> input_event list" where
  "wheel_events e = [ev RELATIVE EC_REL_WHEEL (wheel_direction (we_dy e)),
     ev RELATIVE EC_REL_HWHEEL (wheel_direction (we_dx e)),
     ev RELATIVE EC_REL_WHEEL_HI_RES (we_dy e), ev RELATIVE EC_REL_HWHEEL_HI_RES (we_dx e)]"

lemma wheel_step:
  assumes r: "ignores_rest I" and d: "I d" and m: "\<And>d. I d \<Longrightarrow> I (ud_emit MouseDev (wheel_events e) d)"
  shows "I (send_wheel_event env e d)"
  using r d m [unfolded wheel_events_def]
  by (simp add: send_wheel_event_def ignores_rest_def split: prod.split option.split)

section \<open>Touch slots\<close>

text \<open>Five slots, no finger in two of them.\<close>

definition slots_wf :: "int option list \<Rightarrow> bool" where
  "slots_wf ts \<longleftrightarrow> length ts = 5 \<and> (\<forall>i < 5. \<forall>j < 5. ts ! i \<noteq> None \<longrightarrow> ts ! i = ts ! j \<longrightarrow> i = j)"

definition slots_ok :: "'c uinput \<Rightarrow> bool" where
  "slots_ok d \<longleftrightarrow> slots_wf (ud_touches d)"

lemma slots_wf_claim:
  assumes ts: "slots_wf ts" and s: "s < length ts" "Some pid \<notin> set ts"
  shows "slots_wf (ts[s := Some pid])"
proof -
  have n: "\<And>i. i < 5 \<Longrightarrow> ts ! i \<noteq> Some pid" using s(2) ts by (metis nth_mem slots_wf_def)
  have u: "ts[s := Some pid] ! i = (if i = s then Some pid else ts ! i)" for i
    using s(1) by (simp add: nth_list_update)
  have "i = j" if "i < 5" "j < 5" "ts[s := Some pid] ! i \<noteq> None"
      "ts[s := Some pid] ! i = ts[s := Some pid] ! j" for i j
    using that ts n [OF that(1)] n [OF that(2)] unfolding u slots_wf_def by (auto split: if_splits)
  then show ?thesis using ts unfolding slots_wf_def length_list_update by blast
qed

lemma slots_wf_clear:
  assumes "slots_wf ts"
  shows "slots_wf (ts[s := None])"
proof (cases "s < length ts")
  case True
  have "ts[s := None] ! i = (if i = s then None else ts ! i)" for i
    using True by (simp add: nth_list_update)
  then show ?thesis using assms unfolding slots_wf_def by auto
next
  case False
  then show ?thesis using assms by (simp add: list_update_beyond)
qed

lemma slots_ok_rest: "ignores_rest slots_ok"
  by (simp add: ignores_rest_def slots_ok_def)

lemma slots_ok_emit [simp]: "slots_ok (ud_emit dv evs d) = slots_ok d"
  by (simp add: slots_ok_def)

lemma slots_ok_pen [simp]:
  "slots_ok (d\<lparr>ud_tool_pen_active := b\<rparr>) = slots_ok d" "slots_ok (d\<lparr>ud_pen_touching := b\<rparr>) = slots_ok d"
  by (simp_all add: slots_ok_def)

lemma stale_touches [simp]: "ud_touches (clear_stale_pen_hover env d) = ud_touches d"
  by (simp add: clear_stale_pen_hover_def read_clock_def Let_def)

lemma pen_keys_touches: "pen_keys e d = (evs, d') \<Longrightarrow> ud_touches d' = ud_touches d"
  by (auto simp: pen_keys_def Let_def split: if_splits)

lemma pen_touches [simp]: "ud_touches (send_pen env e d) = ud_touches d"
  by (auto simp: send_pen_def read_clock_def Let_def dest: pen_keys_touches split: prod.splits)

lemma mouse_touches [simp]: "ud_touches (send_mouse env e d) = ud_touches d"
  by (simp add: send_mouse_def Let_def)

text \<open>A claimed slot holds the finger, in the first free place if it had none.\<close>

lemma claim_slot_cases:
  assumes "claim_slot pid d = Some (s, d')"
  obtains (known) "find_slot pid d = Some s" "d' = d"
  | (fresh) "find_slot pid d = None" "free_slot d = Some s" "d' = d\<lparr>ud_touches := (ud_touches d)[s := Some pid]\<rparr>"
  using assms by (auto simp: claim_slot_def split: option.splits)

lemma claim_slot_ok:
  assumes ok: "slots_ok d" and c: "claim_slot pid d = Some (s, d')"
  shows "slots_ok d' \<and> s < 5 \<and> ud_touches d' ! s = Some pid"
  using c
proof (cases rule: claim_slot_cases)
  case known
  then show ?thesis using ok by (auto simp: find_slot_def slots_ok_def slots_wf_def dest: position_SomeD)
next
  case fresh
  have s: "s < length (ud_touches d)" "ud_touches d ! s = None" "length (ud_touches d) = 5"
    using fresh(2) ok by (auto simp: free_slot_def slots_ok_def slots_wf_def dest: position_SomeD)
  have "Some pid \<notin> set (ud_touches d)" using fresh(1) by (auto simp: find_slot_def position_None_iff)
  then show ?thesis using slots_wf_claim [of "ud_touches d" s pid] ok s by (simp add: fresh(3) slots_ok_def)
qed

lemma slots_ok_down: "slots_ok d \<Longrightarrow> slots_ok (touch_down e d)"
  using claim_slot_ok [of d "pe_pointer_id e"]
  by (auto simp: touch_down_def split: option.split)

lemma slots_ok_up: "slots_ok d \<Longrightarrow> slots_ok (touch_up e d)"
  by (simp add: touch_up_def slots_ok_def Let_def slots_wf_clear split: option.split)

lemma slots_ok_same: "ud_touches d' = ud_touches d \<Longrightarrow> slots_ok d \<Longrightarrow> slots_ok d'"
  by (simp add: slots_ok_def)

lemma slots_ok_step: "slots_ok d \<Longrightarrow> slots_ok (input_step env op d)"
proof (cases op)
  case (DoPointer e)
  assume "slots_ok d"
  then show ?thesis unfolding DoPointer input_step.simps
    by (rule pointer_step [OF slots_ok_rest])
      (simp_all add: slots_ok_down slots_ok_up slots_ok_same [OF stale_touches]
        slots_ok_same [OF pen_touches] slots_ok_same [OF mouse_touches])
next
  case (DoKeyboard e)
  assume "slots_ok d"
  then show ?thesis unfolding DoKeyboard input_step.simps by (rule keyboard_step [OF slots_ok_rest]) simp_all
next
  case (DoWheel e)
  assume "slots_ok d"
  then show ?thesis unfolding DoWheel input_step.simps by (rule wheel_step [OF slots_ok_rest]) simp_all
next
  case (DoCapturable c)
  assume "slots_ok d"
  then show ?thesis by (simp add: DoCapturable set_capturable_def slots_ok_def)
qed

section \<open>The pen\<close>

text \<open>The pen fields are what the kernel sees; the pen and the rubber are never both in range.\<close>

definition pen_ok :: "'c uinput \<Rightarrow> bool" where
  "pen_ok d \<longleftrightarrow> pressed Stylus EC_KEY_TOOL_PEN d = ud_tool_pen_active d
     \<and> pressed Stylus EC_KEY_TOUCH d = ud_pen_touching d
     \<and> \<not> (pressed Stylus EC_KEY_TOOL_PEN d \<and> pressed Stylus EC_KEY_TOOL_RUBBER d)"

lemma pen_ok_rest: "ignores_rest pen_ok"
  by (simp add: ignores_rest_def pen_ok_def)

lemma pen_ok_other [simp]: "dv \<noteq> Stylus \<Longrightarrow> pen_ok (ud_emit dv evs d) = pen_ok d"
  "pen_ok (d\<lparr>ud_touches := t\<rparr>) = pen_ok d"
  by (simp_all add: pen_ok_def)

lemma pen_ok_stale: "pen_ok d \<Longrightarrow> pen_ok (clear_stale_pen_hover env d)"
  by (auto simp: clear_stale_pen_hover_def read_clock_def Let_def pen_ok_def ec_defs)

text \<open>The tool keys of an event in one line: \<open>A\<close> brings the pen into range, \<open>R\<close> the rubber.\<close>

lemma pen_keys_eq:
  defines "A d e \<equiv> \<not> ud_tool_pen_active d \<and> \<not> button_contains (pe_buttons e) ERASER"
  shows "pen_keys e d =
    ((if pe_event_type e = DOWN then [ev KEY EC_KEY_TOUCH 1] else [])
      @ (if A d e then [ev KEY EC_KEY_TOOL_PEN 1, ev KEY EC_KEY_TOOL_RUBBER 0] else [])
      @ (if pe_button e = ERASER then [ev KEY EC_KEY_TOOL_PEN 0, ev KEY EC_KEY_TOOL_RUBBER 1] else []),
     d\<lparr>ud_pen_touching := (pe_event_type e = DOWN \<or> ud_pen_touching d),
       ud_tool_pen_active := (pe_button e \<noteq> ERASER \<and> (A d e \<or> ud_tool_pen_active d))\<rparr>)"
  by (cases d; cases "pe_event_type e = DOWN"; cases "ud_tool_pen_active d";
      cases "button_contains (pe_buttons e) ERASER"; cases "pe_button e = ERASER")
    (simp_all add: pen_keys_def A_def)

lemma pen_keys_effect:
  assumes "pen_ok d" and k: "pen_keys e d = (evs, d')"
  shows "pen_ok (ud_emit Stylus (evs @ pen_axes e d') d')"
proof -
  define A where "A = (\<not> ud_tool_pen_active d \<and> \<not> button_contains (pe_buttons e) ERASER)"
  note k' = k [unfolded pen_keys_eq, folded A_def, unfolded prod.inject]
  have p: "pressed Stylus code d' = pressed Stylus code d" for code
    unfolding conjunct2 [OF k', symmetric] by simp
  have f: "ud_pen_touching d' = (pe_event_type e = DOWN \<or> ud_pen_touching d)"
    "ud_tool_pen_active d' = (pe_button e \<noteq> ERASER \<and> (A \<or> ud_tool_pen_active d))"
    unfolding conjunct2 [OF k', symmetric] by simp_all
  have "A \<longrightarrow> \<not> ud_tool_pen_active d" by (simp add: A_def)
  then show ?thesis
    using assms(1) unfolding pen_ok_def conjunct1 [OF k', symmetric]
    by (cases "pe_event_type e = DOWN"; cases A; cases "pe_button e = ERASER") (simp_all add: p f ec_defs)
qed

lemma pen_ok_send_pen:
  assumes ok: "pen_ok d"
  shows "pen_ok (send_pen env e d)"
proof -
  define d1 where "d1 = (map_to_screen env (ud_stylus_tries d) (ud_name_stylus d) True
      (d\<lparr>ud_clock_reads := ud_clock_reads d + 1, ud_last_pen_event := ue_now env (ud_clock_reads d)\<rparr>))
      \<lparr>ud_stylus_tries := next_try (ud_stylus_tries d)\<rparr>"
  have d1: "pen_ok d1" using ok by (simp add: d1_def pen_ok_def)
  have e: "send_pen env e d = (if is_down_like (pe_event_type e) then
        let (evs, d) = pen_keys e d1 in ud_emit Stylus (evs @ pen_axes e d) d
      else (ud_emit Stylus pen_leave_events d1)\<lparr>ud_tool_pen_active := False, ud_pen_touching := False\<rparr>)"
    by (simp add: send_pen_def read_clock_def Let_def d1_def map_to_screen_def)
  obtain evs d2 where k: "pen_keys e d1 = (evs, d2)" by fastforce
  show ?thesis
  proof (cases "is_down_like (pe_event_type e)")
    case True
    then show ?thesis using pen_keys_effect [OF d1 k] by (simp add: e k)
  next
    case False
    then show ?thesis by (simp add: e pen_ok_def pen_leave_events_def ec_defs)
  qed
qed

lemma touch_stylus [simp]:
  "pressed Stylus code (touch_down e d) = pressed Stylus code d"
  "ud_tool_pen_active (touch_down e d) = ud_tool_pen_active d"
  "ud_pen_touching (touch_down e d) = ud_pen_touching d"
  "pressed Stylus code (touch_up e d) = pressed Stylus code d"
  "ud_tool_pen_active (touch_up e d) = ud_tool_pen_active d"
  "ud_pen_touching (touch_up e d) = ud_pen_touching d"
  by (auto simp: touch_down_def touch_up_def Let_def split: option.split elim: claim_slot_cases)

lemma mouse_stylus [simp]:
  "pressed Stylus code (send_mouse env e d) = pressed Stylus code d"
  "ud_tool_pen_active (send_mouse env e d) = ud_tool_pen_active d"
  "ud_pen_touching (send_mouse env e d) = ud_pen_touching d"
  by (auto simp: send_mouse_def Let_def)

lemma pen_ok_step: "pen_ok d \<Longrightarrow> pen_ok (input_step env op d)"
proof (cases op)
  case (DoPointer e)
  assume "pen_ok d"
  then show ?thesis unfolding DoPointer input_step.simps
    by (rule pointer_step [OF pen_ok_rest])
      (assumption | erule pen_ok_stale | erule pen_ok_send_pen | simp add: pen_ok_def)+
next
  case (DoKeyboard e)
  assume "pen_ok d"
  then show ?thesis unfolding DoKeyboard input_step.simps by (rule keyboard_step [OF pen_ok_rest]) simp_all
next
  case (DoWheel e)
  assume "pen_ok d"
  then show ?thesis unfolding DoWheel input_step.simps by (rule wheel_step [OF pen_ok_rest]) simp_all
next
  case (DoCapturable c)
  assume "pen_ok d"
  then show ?thesis by (simp add: DoCapturable set_capturable_def pen_ok_def)
qed

end
