(* ===== verification/ClientHandler.thy ===== *)
theory ClientHandler
  imports CaptureLoop CoreError
begin

text \<open>
  \<open>RylusClientHandler\<close> of \<open>crates/rylus-server/src/session.rs\<close> on Linux, one per WebSocket client: its
  fields as a record, a definition per handler method and the loop over the inbound messages.  The
  input devices are used through the interface \<open>input_device\<close> (the trait \<open>InputDevice\<close>), their
  constructors and the capturable enumeration through the record \<open>handler_env\<close>.  Everything the
  handler sends is appended to the record: to the client (\<open>ch_out\<close>) and to the capture thread
  (\<open>ch_video\<close>); \<open>ch_video_alive\<close> is whether that thread still holds its receiver.
\<close>

section \<open>The input device interface\<close>

datatype input_device_type = EnigoDevice | UInputDevice

record ('d, 'c) device_ops =
  do_wheel :: "wheel_event \<Rightarrow> 'd \<Rightarrow> 'd"
  do_pointer :: "pointer_event \<Rightarrow> 'd \<Rightarrow> 'd"
  do_keyboard :: "keyboard_event \<Rightarrow> 'd \<Rightarrow> 'd"
  do_set_capturable :: "'c \<Rightarrow> 'd \<Rightarrow> 'd"
  do_type :: "'d \<Rightarrow> input_device_type"

locale input_device =
  fixes ops :: "('d, 'c) device_ops"
    and capturable_of :: "'d \<Rightarrow> 'c"
  assumes type_events:
      "do_type ops (do_wheel ops w d) = do_type ops d"
      "do_type ops (do_pointer ops p d) = do_type ops d"
      "do_type ops (do_keyboard ops k d) = do_type ops d"
      "do_type ops (do_set_capturable ops c d) = do_type ops d"
    and capturable_set: "capturable_of (do_set_capturable ops c d) = c"
begin

lemma type_events_fold:
  "do_type ops (fold (do_pointer ops) ps d) = do_type ops d"
  by (induction ps arbitrary: d) (simp_all add: type_events)

end

section \<open>State\<close>

record ('d, 'c) handler_env =
  he_ops :: "('d, 'c) device_ops"
  he_uinput_new :: "'c \<Rightarrow> string option \<Rightarrow> cerror + 'd"
  he_enigo_new :: "'c \<Rightarrow> 'd"
  he_capturables :: "bool \<Rightarrow> bool \<Rightarrow> 'c list"
  he_name :: "'c \<Rightarrow> string"
  he_now_ms :: "u64 option"

record ('d, 'c) handler =
  ch_device :: "'d option"
  ch_capturables :: "'c list"
  ch_wayland_support :: bool
  ch_capture_cursor :: bool
  ch_client_name :: "string option"
  ch_out :: "message_outbound list"
  ch_video :: "'c video_command list"
  ch_video_alive :: bool
  ch_ui_calls :: nat

definition handler_new :: "bool \<Rightarrow> ('d, 'c) handler" where
  "handler_new wayland = \<lparr>ch_device = None, ch_capturables = [], ch_wayland_support = wayland,
     ch_capture_cursor = False, ch_client_name = None, ch_out = [], ch_video = [],
     ch_video_alive = True, ch_ui_calls = 0\<rparr>"

section \<open>Sending\<close>

definition h_send :: "message_outbound \<Rightarrow> ('d, 'c) handler \<Rightarrow> ('d, 'c) handler" where
  "h_send m s = s\<lparr>ch_out := ch_out s @ [m]\<rparr>"

text \<open>\<open>self.video_sender.send(..)\<close>: an error only when the capture thread has gone.\<close>

definition h_video :: "'c video_command \<Rightarrow> ('d, 'c) handler \<Rightarrow> ('d, 'c) handler" where
  "h_video v s = (if ch_video_alive s then s\<lparr>ch_video := ch_video s @ [v]\<rparr> else s)"

section \<open>Handlers\<close>

definition process_wheel_event ::
  "('d, 'c) handler_env \<Rightarrow> wheel_event \<Rightarrow> ('d, 'c) handler \<Rightarrow> ('d, 'c) handler" where
  "process_wheel_event env e s = (case ch_device s of
      Some d \<Rightarrow> s\<lparr>ch_device := Some (do_wheel (he_ops env) e d)\<rparr>
    | None \<Rightarrow> s)"

definition process_pointer_event ::
  "('d, 'c) handler_env \<Rightarrow> pointer_event \<Rightarrow> ('d, 'c) handler \<Rightarrow> ('d, 'c) handler" where
  "process_pointer_event env e s = (case ch_device s of
      Some d \<Rightarrow> s\<lparr>ch_device := Some (do_pointer (he_ops env) e d)\<rparr>
    | None \<Rightarrow> s)"

definition process_keyboard_event ::
  "('d, 'c) handler_env \<Rightarrow> keyboard_event \<Rightarrow> ('d, 'c) handler \<Rightarrow> ('d, 'c) handler" where
  "process_keyboard_event env e s = (case ch_device s of
      Some d \<Rightarrow> s\<lparr>ch_device := Some (do_keyboard (he_ops env) e d)\<rparr>
    | None \<Rightarrow> s)"

text \<open>The reason's dash is an em dash in the source.\<close>

definition handle_hello :: "u32 \<Rightarrow> ('d, 'c) handler \<Rightarrow> ('d, 'c) handler" where
  "handle_hello version s =
     (if version < MIN_CLIENT_PROTOCOL_VERSION
      then h_send (HelloNack PROTOCOL_VERSION MIN_CLIENT_PROTOCOL_VERSION
             ''Client is too old - reload the page to pick up the new bundle.'') s
      else h_send (OutHello PROTOCOL_VERSION) s)"

definition send_capturable_list ::
  "('d, 'c) handler_env \<Rightarrow> ('d, 'c) handler \<Rightarrow> ('d, 'c) handler" where
  "send_capturable_list env s =
     (let cs = he_capturables env (ch_wayland_support s) (ch_capture_cursor s);
          s = s\<lparr>ch_capturables := cs\<rparr>
      in h_send (CapturableList (map (he_name env) cs)) s)"

text \<open>The input device part of \<open>update_config\<close>; \<open>Inl\<close> is its early return.\<close>

definition update_device ::
  "('d, 'c) handler_env \<Rightarrow> bool \<Rightarrow> bool \<Rightarrow> 'c \<Rightarrow> ('d, 'c) handler
     \<Rightarrow> ('d, 'c) handler + ('d, 'c) handler" where
  "update_device env uinput_support client_name_changed capturable s =
     (let is_type = (\<lambda>t. case ch_device s of Some d \<Rightarrow> do_type (he_ops env) d = t | None \<Rightarrow> False)
      in if uinput_support then
           if \<not> (\<not> client_name_changed \<and> is_type UInputDevice) then
             (case he_uinput_new env capturable (ch_client_name s) of
                Inr d \<Rightarrow> Inr (s\<lparr>ch_device := Some d\<rparr>)
              | Inl e \<Rightarrow>
                  let s = (if cerror_to_enum e = UInputNotAccessible
                           then s\<lparr>ch_ui_calls := ch_ui_calls s + 1\<rparr> else s)
                  in Inl (h_send (ConfigError ''Failed to create uinput device!'') s))
           else Inr (s\<lparr>ch_device := map_option (do_set_capturable (he_ops env) capturable) (ch_device s)\<rparr>)
         else if \<not> is_type EnigoDevice then Inr (s\<lparr>ch_device := Some (he_enigo_new env capturable)\<rparr>)
         else Inr (s\<lparr>ch_device := map_option (do_set_capturable (he_ops env) capturable) (ch_device s)\<rparr>))"

definition start_video ::
  "client_configuration \<Rightarrow> 'c \<Rightarrow> ('d, 'c) handler \<Rightarrow> ('d, 'c) handler" where
  "start_video config capturable s =
     (if ch_video_alive s
      then h_video (VStart \<lparr>vc_capturable = capturable, vc_capture_cursor = cc_capture_cursor config,
             vc_max_width = cc_max_width config, vc_max_height = cc_max_height config,
             vc_frame_rate = cc_frame_rate config\<rparr>) s
      else h_send (Error ''Failed to start video capture.'') s)"

definition no_capturable_error :: message_outbound where
  "no_capturable_error =
     ConfigError ''No capturable selected. Click \"Refresh List\" to request screen access.''"

definition update_config ::
  "('d, 'c) handler_env \<Rightarrow> client_configuration \<Rightarrow> ('d, 'c) handler \<Rightarrow> ('d, 'c) handler" where
  "update_config env config s =
     (let client_name_changed = (ch_client_name s \<noteq> cc_client_name config);
          s = (if client_name_changed then s\<lparr>ch_client_name := cc_client_name config\<rparr> else s)
      in if cc_capturable_id config < length (ch_capturables s) then
           let capturable = ch_capturables s ! cc_capturable_id config;
               s = s\<lparr>ch_capture_cursor := cc_capture_cursor config\<rparr>
           in (case update_device env (cc_uinput_support config) client_name_changed capturable s of
                 Inl s \<Rightarrow> s
               | Inr s \<Rightarrow> start_video config capturable s)
         else h_send no_capturable_error s)"

section \<open>The message loop\<close>

fun handle_message ::
  "('d, 'c) handler_env \<Rightarrow> message_inbound \<Rightarrow> ('d, 'c) handler \<Rightarrow> ('d, 'c) handler" where
  "handle_message env (InHello v) s = handle_hello v s"
| "handle_message env (InPointerEvent e) s = process_pointer_event env e s"
| "handle_message env (BatchedPointerEvents es) s = fold (process_pointer_event env) es s"
| "handle_message env (InWheelEvent e) s = process_wheel_event env e s"
| "handle_message env (InKeyboardEvent e) s = process_keyboard_event env e s"
| "handle_message env GetCapturableList s = send_capturable_list env s"
| "handle_message env (Config c) s = update_config env c s"
| "handle_message env PauseVideo s = h_video VPause s"
| "handle_message env ResumeVideo s = h_video VResume s"
| "handle_message env RestartVideo s = h_video VRestart s"
| "handle_message env (InBufferHealth b) s = h_video (VBufferHealth b) s"
| "handle_message env RequestKeyframe s = h_video VRequestKeyframe s"
| "handle_message env (ClientRtt rtt) s = h_video (VClientRtt rtt) s"
| "handle_message env Heartbeat s =
     h_send (HeartbeatAck (case he_now_ms env of Some t \<Rightarrow> t | None \<Rightarrow> 0)) s"
| "handle_message env ChooseCustomInputAreas s =
     h_send (ConfigError ''Custom input areas are not available in this version.'') s"

text \<open>\<open>Inl\<close> is an error of the receiver.\<close>

definition handle_item ::
  "('d, 'c) handler_env \<Rightarrow> string + message_inbound \<Rightarrow> ('d, 'c) handler \<Rightarrow> ('d, 'c) handler" where
  "handle_item env m s = (case m of
      Inr m \<Rightarrow> handle_message env m s
    | Inl err \<Rightarrow> h_send (Error ''Failed to read message!'') s)"

definition handler_run ::
  "('d, 'c) handler_env \<Rightarrow> (string + message_inbound) list \<Rightarrow> ('d, 'c) handler \<Rightarrow> ('d, 'c) handler" where
  "handler_run env ms s = fold (handle_item env) ms s"

end
