(* ===== verification/EnigoDevice.thy ===== *)
theory EnigoDevice
  imports InputFacts ClientHandler
begin

text \<open>
  \<open>EnigoDevice\<close> of \<open>crates/rylus-input/src/enigo_device.rs\<close> on Linux and the trait object
  \<open>Box<dyn InputDevice>\<close> of \<open>device.rs\<close> over both devices, with the interpretation of the interface
  \<open>input_device\<close> the client handler uses.  The calls to Enigo are recorded in \<open>en_calls\<close>; their errors are
  only logged or ignored.  A key of Enigo is its variant's name or a character.
\<close>

section \<open>Enigo\<close>

datatype enigo_key = Key string | Unicode nat

datatype enigo_direction = Press | Release

datatype enigo_button = ELeft | EMiddle | ERight

datatype enigo_call =
    ScrollVertical int
  | ScrollHorizontal int
  | MoveMouse int int
  | EButton enigo_button enigo_direction
  | EKey enigo_key enigo_direction

record 'c enigo_env =
  ee_before_input :: "'c \<Rightarrow> string option \<times> 'c"
  ee_geometry :: "'c \<Rightarrow> string + f64 geometry"
  ee_main_display :: "string + int \<times> int"

record 'c enigo =
  en_capturable :: 'c
  en_calls :: "enigo_call list"

definition enigo_new :: "'c \<Rightarrow> 'c enigo" where
  "enigo_new c = \<lparr>en_capturable = c, en_calls = []\<rparr>"

definition en_do :: "enigo_call list \<Rightarrow> 'c enigo \<Rightarrow> 'c enigo" where
  "en_do cs d = d\<lparr>en_calls := en_calls d @ cs\<rparr>"

text \<open>\<open>-event.dy\<close> wraps at the least \<open>i32\<close>.\<close>

definition enigo_wheel :: "wheel_event \<Rightarrow> 'c enigo \<Rightarrow> 'c enigo" where
  "enigo_wheel e d =
     (let d = (if we_dy e \<noteq> 0
               then en_do [ScrollVertical (if we_dy e = - 2147483648 then we_dy e else - we_dy e)] d else d)
      in if we_dx e \<noteq> 0 then en_do [ScrollHorizontal (we_dx e)] d else d)"

definition enigo_coordinate :: "f64 \<Rightarrow> f64 \<Rightarrow> f64 \<Rightarrow> int \<Rightarrow> int" where
  "enigo_coordinate x rel_size rel_origin extent =
     f_as_i32 (fclamp (fmul (fadd (fmul x rel_size) rel_origin) (Fin (of_int extent)))
       (Fin 0) (Fin (of_int extent)))"

definition enigo_button_of :: "button \<Rightarrow> enigo_button option" where
  "enigo_button_of b =
     (if b = PRIMARY then Some ELeft else if b = AUXILARY then Some EMiddle
      else if b = SECONDARY then Some ERight else None)"

definition enigo_pointer :: "'c enigo_env \<Rightarrow> pointer_event \<Rightarrow> 'c enigo \<Rightarrow> 'c enigo" where
  "enigo_pointer env e d =
     (if \<not> pe_is_primary e then d
      else (case ee_before_input env (en_capturable d) of
          (Some err, c) \<Rightarrow> d\<lparr>en_capturable := c\<rparr>
        | (None, c) \<Rightarrow>
            let d = d\<lparr>en_capturable := c\<rparr>
            in (case ee_geometry env c of
                  Inl err \<Rightarrow> d
                | Inr (Relative x y w h) \<Rightarrow>
                    (case ee_main_display env of
                       Inl err \<Rightarrow> d
                     | Inr (width, height) \<Rightarrow>
                         let d = en_do [MoveMouse (enigo_coordinate (pe_x e) w x width)
                                          (enigo_coordinate (pe_y e) h y height)] d;
                             dir = (if button_contains (pe_buttons e) (pe_button e) then Press else Release)
                         in (case enigo_button_of (pe_button e) of
                               Some b \<Rightarrow> en_do [EButton b dir] d
                             | None \<Rightarrow> d)))))"

definition enigo_keys :: "(string \<times> string) list" where
  "enigo_keys = [
    (''Escape'', ''Escape''), (''Enter'', ''Return''), (''Backspace'', ''Backspace''),
    (''Tab'', ''Tab''), (''Space'', ''Space''), (''CapsLock'', ''CapsLock''), (''F1'', ''F1''),
    (''F2'', ''F2''), (''F3'', ''F3''), (''F4'', ''F4''), (''F5'', ''F5''), (''F6'', ''F6''),
    (''F7'', ''F7''), (''F8'', ''F8''), (''F9'', ''F9''), (''F10'', ''F10''), (''F11'', ''F11''),
    (''F12'', ''F12''), (''F13'', ''F13''), (''F14'', ''F14''), (''F15'', ''F15''),
    (''F16'', ''F16''), (''F17'', ''F17''), (''F18'', ''F18''), (''F19'', ''F19''),
    (''F20'', ''F20''), (''F21'', ''F21''), (''F22'', ''F22''), (''F23'', ''F23''),
    (''F24'', ''F24''), (''Home'', ''Home''), (''ArrowUp'', ''UpArrow''), (''PageUp'', ''PageUp''),
    (''ArrowLeft'', ''LeftArrow''), (''ArrowRight'', ''RightArrow''), (''End'', ''End''),
    (''ArrowDown'', ''DownArrow''), (''PageDown'', ''PageDown''), (''Delete'', ''Delete''),
    (''Insert'', ''Insert''), (''PrintScreen'', ''PrintScr''), (''Pause'', ''Pause''),
    (''NumLock'', ''Numlock''), (''ScrollLock'', ''ScrollLock''), (''Numpad0'', ''Numpad0''),
    (''Numpad1'', ''Numpad1''), (''Numpad2'', ''Numpad2''), (''Numpad3'', ''Numpad3''),
    (''Numpad4'', ''Numpad4''), (''Numpad5'', ''Numpad5''), (''Numpad6'', ''Numpad6''),
    (''Numpad7'', ''Numpad7''), (''Numpad8'', ''Numpad8''), (''Numpad9'', ''Numpad9''),
    (''NumpadAdd'', ''Add''), (''NumpadSubtract'', ''Subtract''),
    (''NumpadMultiply'', ''Multiply''), (''NumpadDivide'', ''Divide''),
    (''NumpadDecimal'', ''Decimal''), (''NumpadEnter'', ''Return''),
    (''ControlLeft'', ''LControl''), (''ControlRight'', ''RControl''), (''AltLeft'', ''Alt''),
    (''AltRight'', ''Alt''), (''MetaLeft'', ''Meta''), (''MetaRight'', ''Meta''),
    (''ShiftLeft'', ''LShift''), (''ShiftRight'', ''RShift''), (''VolumeMute'', ''VolumeMute''),
    (''AudioVolumeMute'', ''VolumeMute''), (''VolumeDown'', ''VolumeDown''),
    (''AudioVolumeDown'', ''VolumeDown''), (''VolumeUp'', ''VolumeUp''),
    (''AudioVolumeUp'', ''VolumeUp''), (''MediaTrackNext'', ''MediaNextTrack''),
    (''MediaPlayPause'', ''MediaPlayPause''), (''MediaTrackPrevious'', ''MediaPrevTrack'')]"

fun enigo_direction_of :: "keyboard_event_type \<Rightarrow> enigo_direction" where
  "enigo_direction_of KUp = Release"
| "enigo_direction_of KDown = Press"
| "enigo_direction_of KRepeat = Press"

definition enigo_keyboard :: "keyboard_event \<Rightarrow> 'c enigo \<Rightarrow> 'c enigo" where
  "enigo_keyboard e d =
     (let dir = enigo_direction_of (ke_event_type e)
      in case map_of enigo_keys (ke_code e) of
           Some k \<Rightarrow>
             en_do (map (\<lambda>k. EKey (Key k) dir)
               ((if ke_ctrl e then [''Control''] else []) @ (if ke_alt e then [''Alt''] else [])
                @ (if ke_meta e then [''Meta''] else []) @ (if ke_shift e then [''Shift''] else []) @ [k])) d
         | None \<Rightarrow>
             if ke_event_type e = KDown then en_do (map (\<lambda>c. EKey (Unicode c) dir) (ke_key e)) d else d)"

definition enigo_set_capturable :: "'c \<Rightarrow> 'c enigo \<Rightarrow> 'c enigo" where
  "enigo_set_capturable c d = d\<lparr>en_capturable := c\<rparr>"

section \<open>The trait object\<close>

datatype 'c dyn_device = DUInput "'c uinput" | DEnigo "'c enigo"

fun dyn_wheel :: "'c uinput_env \<Rightarrow> wheel_event \<Rightarrow> 'c dyn_device \<Rightarrow> 'c dyn_device" where
  "dyn_wheel env e (DUInput d) = DUInput (send_wheel_event env e d)"
| "dyn_wheel env e (DEnigo d) = DEnigo (enigo_wheel e d)"

fun dyn_pointer :: "'c uinput_env \<Rightarrow> 'c enigo_env \<Rightarrow> pointer_event \<Rightarrow> 'c dyn_device \<Rightarrow> 'c dyn_device" where
  "dyn_pointer env env' e (DUInput d) = DUInput (send_pointer_event env e d)"
| "dyn_pointer env env' e (DEnigo d) = DEnigo (enigo_pointer env' e d)"

fun dyn_keyboard :: "'c uinput_env \<Rightarrow> keyboard_event \<Rightarrow> 'c dyn_device \<Rightarrow> 'c dyn_device" where
  "dyn_keyboard env e (DUInput d) = DUInput (send_keyboard_event env e d)"
| "dyn_keyboard env e (DEnigo d) = DEnigo (enigo_keyboard e d)"

fun dyn_set_capturable :: "'c \<Rightarrow> 'c dyn_device \<Rightarrow> 'c dyn_device" where
  "dyn_set_capturable c (DUInput d) = DUInput (set_capturable c d)"
| "dyn_set_capturable c (DEnigo d) = DEnigo (enigo_set_capturable c d)"

fun dyn_type :: "'c dyn_device \<Rightarrow> input_device_type" where
  "dyn_type (DUInput d) = UInputDevice"
| "dyn_type (DEnigo d) = EnigoDevice"

fun dyn_capturable :: "'c dyn_device \<Rightarrow> 'c" where
  "dyn_capturable (DUInput d) = ud_capturable d"
| "dyn_capturable (DEnigo d) = en_capturable d"

definition dyn_ops :: "'c uinput_env \<Rightarrow> 'c enigo_env \<Rightarrow> ('c dyn_device, 'c) device_ops" where
  "dyn_ops env env' = \<lparr>do_wheel = dyn_wheel env, do_pointer = dyn_pointer env env',
     do_keyboard = dyn_keyboard env, do_set_capturable = dyn_set_capturable, do_type = dyn_type\<rparr>"

lemma dyn_type_kept:
  "dyn_type (dyn_wheel env w d) = dyn_type d" "dyn_type (dyn_pointer env env' p d) = dyn_type d"
  "dyn_type (dyn_keyboard env k d) = dyn_type d" "dyn_type (dyn_set_capturable c d) = dyn_type d"
  "dyn_capturable (dyn_set_capturable c d) = c"
  by (cases d; simp add: set_capturable_def enigo_set_capturable_def)+

interpretation dyn: input_device "dyn_ops env env'" dyn_capturable
  by unfold_locales (simp_all add: dyn_ops_def dyn_type_kept)

section \<open>Facts\<close>

text \<open>Whatever the client sends, the pointer stays on a display of a size a screen can have.\<close>

lemma clamp_extent:
  assumes "0 \<le> n" "n \<le> 2147483647"
  shows "0 \<le> f_as_i32 (fclamp x (Fin 0) (Fin (of_int n))) \<and> f_as_i32 (fclamp x (Fin 0) (Fin (of_int n))) \<le> n"
proof (cases x)
  case (Fin r)
  then consider "fclamp x (Fin 0) (Fin (of_int n)) = Fin 0" | "fclamp x (Fin 0) (Fin (of_int n)) = Fin (of_int n)"
    | "fclamp x (Fin 0) (Fin (of_int n)) = Fin r" "0 \<le> r" "r \<le> of_int n"
    unfolding fclamp_def Fin by (cases "r < 0"; cases "of_int n < r") auto
  then show ?thesis
  proof cases
    case 3
    then have "0 \<le> trunc_rat r" "trunc_rat r \<le> n" by (simp_all add: trunc_rat_nonneg trunc_rat_le)
    then show ?thesis using assms 3 by (simp add: f_as_i32_def)
  qed (use assms in \<open>simp_all add: f_as_i32_def trunc_rat_def\<close>)
qed (use assms in \<open>simp_all add: fclamp_def f_as_i32_def trunc_rat_def\<close>)

lemma enigo_coordinate_range:
  "0 \<le> n \<Longrightarrow> n \<le> 2147483647 \<Longrightarrow> 0 \<le> enigo_coordinate x s r n \<and> enigo_coordinate x s r n \<le> n"
  unfolding enigo_coordinate_def by (rule clamp_extent)

lemma enigo_pointer_cases:
  assumes "ee_main_display env = Inr (w, h)" "0 \<le> w" "w \<le> 2147483647" "0 \<le> h" "h \<le> 2147483647"
  shows "\<exists>cs. en_calls (enigo_pointer env e d) = en_calls d @ cs
    \<and> (\<forall>x y. MoveMouse x y \<in> set cs \<longrightarrow> 0 \<le> x \<and> x \<le> w \<and> 0 \<le> y \<and> y \<le> h)"
  using assms enigo_coordinate_range
  by (auto simp: enigo_pointer_def en_do_def Let_def split: prod.splits option.splits sum.splits geometry.splits)

end
