(* ===== verification/TouchFacts.thy ===== *)
theory TouchFacts
  imports InputFacts
begin

text \<open>
  The \<open>BTN_TOOL_*\<close> keys of the touch device, the ranges declared for its axes and those of the other
  virtual devices, and the hexadecimal input of characters.
\<close>

section \<open>Tool keys\<close>

text \<open>No tool key stands for more fingers than are active, and \<open>BTN_TOUCH\<close> needs a finger.\<close>

definition tools_ok :: "'c uinput \<Rightarrow> bool" where
  "tools_ok d \<longleftrightarrow> length (ud_touches d) = 5
     \<and> (\<forall>k \<in> {1..5}. pressed TouchDev (tool_key_for_touch_count k) d \<longrightarrow> k \<le> active_count d)
     \<and> (pressed TouchDev EC_KEY_TOUCH d \<longrightarrow> 0 < active_count d)"

lemma tools_ok_rest: "ignores_rest tools_ok"
  by (simp add: ignores_rest_def tools_ok_def active_count_def)

lemma tools_ok_cong:
  "ud_touches d' = ud_touches d \<Longrightarrow> (\<And>c. pressed TouchDev c d' = pressed TouchDev c d) \<Longrightarrow>
     tools_ok d \<Longrightarrow> tools_ok d'"
  by (simp add: tools_ok_def active_count_def)

lemma tool_key_inj:
  "k \<in> {1..5} \<Longrightarrow> n \<in> {1..5} \<Longrightarrow>
     tool_key_for_touch_count n mod 65536 = tool_key_for_touch_count k \<longleftrightarrow> n = k"
  by (auto simp: tool_key_for_touch_count_def ec_defs)

lemma touch_not_tool:
  "EC_KEY_TOUCH mod 65536 = EC_KEY_TOUCH" "tool_key_for_touch_count n mod 65536 \<noteq> EC_KEY_TOUCH"
  "EC_KEY_TOUCH mod 65536 \<noteq> tool_key_for_touch_count n" "EC_KEY_TOUCH \<noteq> tool_key_for_touch_count n"
  by (simp_all add: tool_key_for_touch_count_def ec_defs)

lemma active_count_range: "length (ud_touches d) = 5 \<Longrightarrow> active_count d \<le> 5"
  using count_if_le [of "\<lambda>t. t \<noteq> None" "ud_touches d"] by (simp add: active_count_def)

lemma active_count_emit [simp]: "active_count (ud_emit dv evs d) = active_count d"
  by (simp add: active_count_def)

text \<open>Claiming a slot: the count does not shrink, and there is a finger.\<close>

lemma claim_slot_count:
  assumes l: "length (ud_touches d) = 5" and c: "claim_slot pid d = Some (s, d')"
  shows "length (ud_touches d') = 5 \<and> active_count d \<le> active_count d' \<and> 0 < active_count d'
    \<and> pressed dv code d' = pressed dv code d"
  using c
proof (cases rule: claim_slot_cases)
  case known
  then have "s < length (ud_touches d)" "ud_touches d ! s = Some pid"
    by (auto simp: find_slot_def dest: position_SomeD)
  then show ?thesis using l known count_if_pos [of s "ud_touches d" "\<lambda>t. t \<noteq> None"]
    by (simp add: active_count_def)
next
  case fresh
  then have s: "s < length (ud_touches d)" "ud_touches d ! s = None"
    by (auto simp: free_slot_def dest: position_SomeD)
  then show ?thesis using l fresh count_if_update [OF s(1), of "\<lambda>t. t \<noteq> None" "Some pid"]
    by (simp add: active_count_def)
qed

lemma tools_ok_down: "tools_ok d \<Longrightarrow> tools_ok (touch_down e d)"
proof (cases "claim_slot (pe_pointer_id e) d")
  case None
  assume "tools_ok d"
  then show ?thesis by (simp add: touch_down_def None)
next
  case (Some sd)
  assume ok: "tools_ok d"
  obtain s d' where sd: "sd = (s, d')" by (cases sd)
  have l: "length (ud_touches d) = 5" using ok by (simp add: tools_ok_def)
  have c: "length (ud_touches d') = 5" "active_count d \<le> active_count d'" "0 < active_count d'"
    "pressed TouchDev code d' = pressed TouchDev code d" for code
    using claim_slot_count [OF l Some [unfolded sd], of TouchDev code] by simp_all
  have n: "1 \<le> active_count d'" "active_count d' \<le> 5" using c(3) active_count_range [OF c(1)] by simp_all
  have ok': "tools_ok d'" using ok c(2,3) unfolding tools_ok_def c(4) by (auto simp: c(1) intro: le_trans)
  let ?d = "touch_down e d"
  have d: "?d = ud_emit TouchDev ([ev ABSOLUTE EC_ABS_MT_SLOT (int s), ev ABSOLUTE EC_ABS_MT_TRACKING_ID (int s)]
      @ touch_keys (pe_event_type e) d' @ touch_axes e d') d'"
    by (simp add: touch_down_def Some sd)
  have p: "pressed TouchDev code ?d = fold (key_after code) (touch_keys (pe_event_type e) d') (pressed TouchDev code d')"
    for code by (simp add: d)
  have t: "pressed TouchDev (tool_key_for_touch_count k) ?d \<longrightarrow> k \<le> active_count d'" if k: "k \<in> {1..5}" for k
  proof (cases "pe_event_type e = DOWN")
    case True
    have m: "active_count d' \<in> {1..5}" using n by simp
    show ?thesis using ok' k by (simp add: p True touch_keys_def touch_not_tool tool_key_inj [OF k m] tools_ok_def)
  next
    case False
    then show ?thesis using ok' k by (simp add: p touch_keys_def tools_ok_def)
  qed
  show ?thesis using t n c(1) by (simp add: tools_ok_def d)
qed

lemma tools_ok_up: "tools_ok d \<Longrightarrow> tools_ok (touch_up e d)"
proof (cases "find_slot (pe_pointer_id e) d")
  case None
  assume "tools_ok d"
  then show ?thesis by (simp add: touch_up_def None)
next
  case (Some s)
  assume ok: "tools_ok d"
  let ?n = "active_count d"
  have l: "length (ud_touches d) = 5" using ok by (simp add: tools_ok_def)
  have s: "s < length (ud_touches d)" "ud_touches d ! s \<noteq> None"
    using Some by (auto simp: find_slot_def dest: position_SomeD)
  have n: "1 \<le> ?n" "?n \<le> 5"
    using count_if_pos [OF s(1), of "\<lambda>t. t \<noteq> None"] s(2) active_count_range [OF l] by (auto simp: active_count_def)
  let ?d = "touch_up e d"
  have c: "active_count ?d = ?n - 1" "length (ud_touches ?d) = 5"
    using count_if_update [OF s(1), of "\<lambda>t. t \<noteq> None" None] s(2) l
    by (simp_all add: touch_up_def Some Let_def active_count_def)
  have p: "pressed TouchDev code ?d = fold (key_after code)
      ([ev KEY EC_KEY_TOUCH 0, ev KEY (tool_key_for_touch_count ?n) 0]
       @ (if ?n - 1 \<ge> 1 then [ev KEY (tool_key_for_touch_count (?n - 1)) 1] else [])) (pressed TouchDev code d)"
    for code by (simp add: touch_up_def Some Let_def)
  have t: "pressed TouchDev (tool_key_for_touch_count k) ?d \<longrightarrow> k \<le> ?n - 1" if k: "k \<in> {1..5}" for k
  proof -
    have m: "?n \<in> {1..5}" using n by simp
    have b: "pressed TouchDev (tool_key_for_touch_count k) d \<longrightarrow> k \<le> ?n" using ok k by (simp add: tools_ok_def)
    show ?thesis
    proof (cases "?n - 1 \<ge> 1")
      case True
      define m1 where "m1 = ?n - 1"
      have m1: "m1 \<in> {1..5}" "1 \<le> m1" "?n = Suc m1" using n True by (simp_all add: m1_def)
      have "pressed TouchDev (tool_key_for_touch_count k) ?d = (if m1 = k then True else if ?n = k then False
          else pressed TouchDev (tool_key_for_touch_count k) d)"
        unfolding p m1_def [symmetric] using m1(2)
        by (simp add: touch_not_tool tool_key_inj [OF k m] tool_key_inj [OF k m1(1)])
      then show ?thesis using b m1 by (auto split: if_splits)
    next
      case False
      then show ?thesis using b by (auto simp: p touch_not_tool tool_key_inj [OF k m] split: if_splits)
    qed
  qed
  have u: "\<not> pressed TouchDev EC_KEY_TOUCH ?d" by (simp add: p touch_not_tool)
  show ?thesis using t u c by (simp add: tools_ok_def)
qed

lemma other_touch [simp]:
  "pressed TouchDev code (clear_stale_pen_hover env d) = pressed TouchDev code d"
  "pressed TouchDev code (send_mouse env e d) = pressed TouchDev code d"
  by (auto simp: clear_stale_pen_hover_def send_mouse_def read_clock_def Let_def)

lemma pen_touch_keys [simp]: "pressed TouchDev code (send_pen env e d) = pressed TouchDev code d"
proof -
  have "pen_keys x y = (evs, z) \<Longrightarrow> pressed TouchDev code z = pressed TouchDev code y" for x evs and y z :: "'a uinput"
    by (auto simp: pen_keys_def Let_def split: if_splits)
  then show ?thesis by (auto simp: send_pen_def read_clock_def Let_def split: prod.splits)
qed

lemma tools_ok_step: "tools_ok d \<Longrightarrow> tools_ok (input_step env op d)"
proof (cases op)
  case (DoPointer e)
  assume "tools_ok d"
  then show ?thesis unfolding DoPointer input_step.simps
    by (rule pointer_step [OF tools_ok_rest])
      (assumption | erule tools_ok_down | erule tools_ok_up | erule tools_ok_cong [rotated 2]; simp)+
next
  case (DoKeyboard e)
  assume "tools_ok d"
  then show ?thesis unfolding DoKeyboard input_step.simps
    by (rule keyboard_step [OF tools_ok_rest]) (erule tools_ok_cong [rotated 2]; simp)+
next
  case (DoWheel e)
  assume "tools_ok d"
  then show ?thesis unfolding DoWheel input_step.simps
    by (rule wheel_step [OF tools_ok_rest]) (erule tools_ok_cong [rotated 2]; simp)
next
  case (DoCapturable c)
  assume "tools_ok d"
  then show ?thesis by (simp add: DoCapturable set_capturable_def tools_ok_def active_count_def)
qed

section \<open>A fresh device\<close>

lemma fresh_ok:
  assumes "uinput_new env c name = Inr d"
  shows "slots_ok d \<and> pen_ok d \<and> tools_ok d \<and> ud_out d = []"
proof -
  have "ud_touches d = replicate 5 None" "ud_out d = []" "\<not> ud_tool_pen_active d" "\<not> ud_pen_touching d"
    using assms by (auto simp: uinput_new_def Let_def split: option.splits)
  then show ?thesis
    by (simp add: slots_ok_def slots_wf_def pen_ok_def tools_ok_def pressed_def)
qed

section \<open>Hexadecimal input\<close>

definition hex_keys :: "int list" where
  "hex_keys = [KEY_0, KEY_1, KEY_2, KEY_3, KEY_4, KEY_5, KEY_6, KEY_7, KEY_8, KEY_9,
     KEY_A, KEY_B, KEY_C, KEY_D, KEY_E, KEY_F]"

lemma hex_digits:
  "hex_digit 0 = CHR ''0''"
  "hex_digit (Suc 0) = CHR ''1''"
  "hex_digit 2 = CHR ''2''"
  "hex_digit 3 = CHR ''3''"
  "hex_digit 4 = CHR ''4''"
  "hex_digit 5 = CHR ''5''"
  "hex_digit 6 = CHR ''6''"
  "hex_digit 7 = CHR ''7''"
  "hex_digit 8 = CHR ''8''"
  "hex_digit 9 = CHR ''9''"
  "hex_digit 10 = CHR ''A''"
  "hex_digit 11 = CHR ''B''"
  "hex_digit 12 = CHR ''C''"
  "hex_digit 13 = CHR ''D''"
  "hex_digit 14 = CHR ''E''"
  "hex_digit 15 = CHR ''F''"
  by code_simp+

lemma hex_key_chars:
  "hex_key CHR ''0'' = KEY_0"
  "hex_key CHR ''1'' = KEY_1"
  "hex_key CHR ''2'' = KEY_2"
  "hex_key CHR ''3'' = KEY_3"
  "hex_key CHR ''4'' = KEY_4"
  "hex_key CHR ''5'' = KEY_5"
  "hex_key CHR ''6'' = KEY_6"
  "hex_key CHR ''7'' = KEY_7"
  "hex_key CHR ''8'' = KEY_8"
  "hex_key CHR ''9'' = KEY_9"
  "hex_key CHR ''A'' = KEY_A"
  "hex_key CHR ''B'' = KEY_B"
  "hex_key CHR ''C'' = KEY_C"
  "hex_key CHR ''D'' = KEY_D"
  "hex_key CHR ''E'' = KEY_E"
  "hex_key CHR ''F'' = KEY_F"
  by (simp_all add: hex_key_def is_alphabetic_def map_key_def any_arms_def)

lemma below_16:
  assumes "n < (16::nat)"
  shows "n \<in> {0, Suc 0, 2, 3, 4, 5, 6, 7, 8, 9, 10, 11, 12, 13, 14, 15}"
  unfolding insert_iff empty_iff using assms by presburger

lemma hex_key_digit: "n < 16 \<Longrightarrow> hex_key (hex_digit n) = hex_keys ! n"
proof -
  assume "n < 16"
  from below_16 [OF this] show ?thesis
    by (elim insertE) (simp_all add: hex_digits hex_key_chars hex_keys_def)
qed

text \<open>The number a sequence of hexadecimal keys stands for.\<close>

definition key_digit :: "int \<Rightarrow> nat" where
  "key_digit k = (case position (\<lambda>h. h = k) hex_keys of Some i \<Rightarrow> i | None \<Rightarrow> 0)"

definition typed_number :: "int list \<Rightarrow> nat" where
  "typed_number ks = fold (\<lambda>k n. 16 * n + key_digit k) ks 0"

lemma key_digit_hex: "n < 16 \<Longrightarrow> key_digit (hex_keys ! n) = n"
proof -
  assume "n < 16"
  from below_16 [OF this] show ?thesis by (elim insertE) (simp_all add: key_digit_def hex_keys_def key_defs)
qed

lemma typed_hex: "typed_number (map hex_key (hex n)) = n"
proof (induction n rule: hex.induct)
  case (1 n)
  show ?case
  proof (cases "n < 16")
    case True
    then show ?thesis by (simp add: typed_number_def hex.simps [of n] hex_key_digit key_digit_hex)
  next
    case False
    then show ?thesis using 1
      by (simp add: typed_number_def hex.simps [of n] hex_key_digit key_digit_hex)
  qed
qed

text \<open>The keys of the digits that \<open>send_keyboard_event\<close> presses for a key text.\<close>

definition typed_keys :: "nat list \<Rightarrow> int list" where
  "typed_keys key = map hex_key (unicode_keys key)"

lemma typed_bmp: "c < 65536 \<Longrightarrow> typed_number (typed_keys [c]) = c"
  by (simp add: typed_keys_def unicode_keys_def utf16_units_def typed_hex)

lemma typed_out:
  "ud_out (fold (\<lambda>c d. ud_emit Keyboard [ev KEY (hex_key c) 0] (ud_emit Keyboard [ev KEY (hex_key c) 1] d)) cs d)
     = ud_out d @ concat (map (\<lambda>k. [Emit Keyboard [ev KEY k 1], Emit Keyboard [ev KEY k 0]]) (map hex_key cs))"
  by (induction cs arbitrary: d) (simp_all add: ud_emit_def)

lemma emit_out [simp]: "ud_out (ud_emit dv evs d) = ud_out d @ [Emit dv evs]"
  by (simp add: ud_emit_def)

lemma type_unicode_out:
  "ud_out (type_unicode key d) = ud_out d
     @ [Emit Keyboard [ev KEY KEY_LEFTCTRL 1, ev KEY KEY_LEFTSHIFT 1, ev KEY KEY_U 1]]
     @ concat (map (\<lambda>k. [Emit Keyboard [ev KEY k 1], Emit Keyboard [ev KEY k 0]]) (typed_keys key))
     @ [Emit Keyboard [ev KEY KEY_LEFTCTRL 0, ev KEY KEY_LEFTSHIFT 0, ev KEY KEY_U 0]]"
  unfolding type_unicode_def Let_def typed_keys_def emit_out typed_out by simp

text \<open>A character above the basic plane is typed as its two surrogates in one number.\<close>

lemma typed_surrogates: "typed_number (typed_keys [128512]) = 3627933184"
proof -
  have "hex 55357 = map hex_digit [13, 8, 3, 13]" "hex 56832 = map hex_digit [13, 14, 0, 0]"
    by (simp_all add: hex.simps)
  then have "typed_keys [128512] = map ((!) hex_keys) [13, 8, 3, 13, 13, 14, 0, 0]"
    by (simp add: typed_keys_def unicode_keys_def utf16_units_def hex_key_digit)
  then show ?thesis by (simp add: typed_number_def key_digit_hex)
qed

section \<open>Declared capabilities\<close>

text \<open>\<open>compute_transform\<close> stays in the range declared for the axes.\<close>

lemma compute_transform_range:
  "0 \<le> compute_transform x g w \<and> compute_transform x g w \<le> ABS_MAXVAL"
proof (cases "fadd (fmul x w) g = NaN")
  case True
  then show ?thesis by (simp add: compute_transform_def f_as_i32_def ABS_MAXVAL_def)
next
  case False
  then obtain r where r: "fclamp (fadd (fmul x w) g) (Fin 0) (Fin 1) = Fin r" "0 \<le> r" "r \<le> 1"
    using fclamp_unit by blast
  have "0 \<le> trunc_rat (r * 65535)" "trunc_rat (r * 65535) \<le> 65535"
    using r by (simp_all add: trunc_rat_nonneg trunc_rat_le)
  then show ?thesis by (simp add: compute_transform_def r(1) ABS_MAX_def f_as_i32_def ABS_MAXVAL_def)
qed

definition caps_of :: "dev \<Rightarrow> caps" where
  "caps_of dv = (case dv of Keyboard \<Rightarrow> create_keyboard [] | Stylus \<Rightarrow> create_stylus []
     | MouseDev \<Rightarrow> create_mouse [] | TouchDev \<Rightarrow> create_touch [])"

text \<open>The axes whose values come from the client unclamped.\<close>

definition raw_axes :: "int list" where
  "raw_axes = [EC_ABSOLUTE_PRESSURE, EC_ABSOLUTE_TILT_X, EC_ABSOLUTE_TILT_Y, EC_ABS_MT_PRESSURE,
     EC_ABS_MT_TOUCH_MAJOR, EC_ABS_MT_TOUCH_MINOR]"

text \<open>An event its device declares: the code is known and, but for the raw axes, the value is in the
  axis' range; the tracking id \<open>-1\<close> is the protocol's end of a contact.\<close>

fun event_declared :: "dev \<Rightarrow> input_event \<Rightarrow> bool" where
  "event_declared dv (KEY, c, v) = (c \<in> set (caps_keys (caps_of dv)))"
| "event_declared dv (RELATIVE, c, v) = (c \<in> set (caps_rel (caps_of dv)))"
| "event_declared dv (ABSOLUTE, c, v) = list_ex (\<lambda>(a, lo, hi, res). a = c \<and>
     (c \<in> set raw_axes \<or> lo \<le> v \<and> v \<le> hi \<or> c = EC_ABS_MT_TRACKING_ID \<and> v = - 1)) (caps_abs (caps_of dv))"

fun out_declared :: "uinput_out \<Rightarrow> bool" where
  "out_declared (Emit dv evs) = list_all (event_declared dv) evs"
| "out_declared (MapToScreen n p) = True"

definition declared_ok :: "'c uinput \<Rightarrow> bool" where
  "declared_ok d \<longleftrightarrow> slots_ok d \<and> list_all out_declared (ud_out d)"

lemmas caps_defs = caps_of_def create_keyboard_def create_stylus_def create_mouse_def create_touch_def
  raw_axes_def ec_defs ev_def

lemma keyboard_declared: "1 \<le> c \<Longrightarrow> c \<le> 248 \<Longrightarrow> event_declared Keyboard (ev KEY c v)"
  by (auto simp: caps_of_def create_keyboard_def ev_def intro!: image_eqI [of _ _ "nat c"])

lemma declared_ok_rest: "ignores_rest declared_ok"
  by (simp add: ignores_rest_def declared_ok_def slots_ok_def map_to_screen_def)

lemma declared_emit [simp]:
  "declared_ok (ud_emit dv evs d) \<longleftrightarrow> declared_ok d \<and> list_all (event_declared dv) evs"
  by (auto simp: declared_ok_def)

lemma declared_fields [simp]:
  "declared_ok (d\<lparr>ud_tool_pen_active := b\<rparr>) = declared_ok d"
  "declared_ok (d\<lparr>ud_pen_touching := b\<rparr>) = declared_ok d"
  "declared_ok (d\<lparr>ud_clock_reads := n\<rparr>) = declared_ok d"
  "declared_ok (d\<lparr>ud_last_pen_event := t\<rparr>) = declared_ok d"
  "declared_ok (d\<lparr>ud_mouse_tries := n\<rparr>) = declared_ok d"
  "declared_ok (d\<lparr>ud_stylus_tries := n\<rparr>) = declared_ok d"
  "declared_ok (map_to_screen env n name p d) = declared_ok d"
  by (simp_all add: declared_ok_def slots_ok_def map_to_screen_def)

lemma axes_declared:
  "list_all (event_declared TouchDev) (touch_axes e d)"
  "list_all (event_declared Stylus) (pen_axes e d)"
  "list_all (event_declared Stylus) pen_leave_events"
  "list_all (event_declared MouseDev) (mouse_button b v)"
  "list_all (event_declared MouseDev) (wheel_events w)"
  "list_all (event_declared TouchDev) (touch_keys t d)"
  using compute_transform_range
  by (simp_all add: touch_axes_def pen_axes_def pen_leave_events_def mouse_button_def wheel_events_def
      touch_keys_def Let_def transform_x_def transform_y_def compute_hover_distance_def
      tool_key_for_touch_count_def ABS_MAXVAL_def caps_defs)

lemma pen_tools_declared:
  "event_declared Stylus (ev KEY EC_KEY_TOUCH v)" "event_declared Stylus (ev KEY EC_KEY_TOOL_PEN v)"
  "event_declared Stylus (ev KEY EC_KEY_TOOL_RUBBER v)"
  by (simp_all add: caps_defs)

lemma declared_down: "declared_ok d \<Longrightarrow> declared_ok (touch_down e d)"
proof (cases "claim_slot (pe_pointer_id e) d")
  case None
  assume "declared_ok d"
  then show ?thesis by (simp add: touch_down_def None)
next
  case (Some sd)
  assume ok: "declared_ok d"
  obtain s d' where sd: "sd = (s, d')" by (cases sd)
  have c: "slots_ok d'" "s < 5"
    using claim_slot_ok [OF _ Some [unfolded sd]] ok by (simp_all add: declared_ok_def)
  have o: "ud_out d' = ud_out d" using Some sd by (auto elim: claim_slot_cases)
  have e: "event_declared TouchDev (ev ABSOLUTE EC_ABS_MT_SLOT (int s))"
    "event_declared TouchDev (ev ABSOLUTE EC_ABS_MT_TRACKING_ID (int s))"
    using c(2) by (simp_all add: caps_defs)
  have "declared_ok d'" using ok c(1) o by (simp add: declared_ok_def)
  then show ?thesis using e by (simp add: touch_down_def Some sd axes_declared)
qed

lemma declared_up: "declared_ok d \<Longrightarrow> declared_ok (touch_up e d)"
proof (cases "find_slot (pe_pointer_id e) d")
  case None
  assume "declared_ok d"
  then show ?thesis by (simp add: touch_up_def None)
next
  case (Some s)
  assume ok: "declared_ok d"
  have s: "s < 5" using Some ok
    by (auto simp: find_slot_def declared_ok_def slots_ok_def slots_wf_def dest: position_SomeD)
  have "list_all out_declared (ud_out (touch_up e d))"
    using ok s by (simp add: touch_up_def Some Let_def declared_ok_def tool_key_for_touch_count_def caps_defs)
  then show ?thesis using ok by (simp add: declared_ok_def slots_ok_up)
qed

lemma declared_stale: "declared_ok d \<Longrightarrow> declared_ok (clear_stale_pen_hover env d)"
  by (simp add: clear_stale_pen_hover_def read_clock_def Let_def ABS_MAXVAL_def caps_defs)

lemma mouse_axes_declared:
  "event_declared MouseDev (ev ABSOLUTE EC_ABSOLUTE_X (transform_x d x))"
  "event_declared MouseDev (ev ABSOLUTE EC_ABSOLUTE_Y (transform_y d y))"
  using compute_transform_range by (simp_all add: transform_x_def transform_y_def ABS_MAXVAL_def caps_defs)

lemma declared_mouse: "declared_ok d \<Longrightarrow> declared_ok (send_mouse env e d)"
  by (simp add: send_mouse_def Let_def axes_declared mouse_axes_declared)

lemma declared_pen: "declared_ok d \<Longrightarrow> declared_ok (send_pen env e d)"
proof -
  assume ok: "declared_ok d"
  have "declared_ok (let (evs, y) = pen_keys e x in ud_emit Stylus (evs @ pen_axes e y) y)"
    if "declared_ok x" for x :: "'a uinput"
    using that by (simp add: pen_keys_eq axes_declared pen_tools_declared)
  then show ?thesis using ok by (simp add: send_pen_def read_clock_def Let_def axes_declared)
qed

lemma declared_step: "declared_ok d \<Longrightarrow> declared_ok (input_step env op d)"
proof (cases op)
  case (DoPointer e)
  assume "declared_ok d"
  then show ?thesis unfolding DoPointer input_step.simps
    by (rule pointer_step [OF declared_ok_rest])
      (simp_all add: declared_down declared_up declared_stale declared_pen declared_mouse)
next
  case (DoKeyboard e)
  assume "declared_ok d"
  then show ?thesis unfolding DoKeyboard input_step.simps
    by (rule keyboard_step [OF declared_ok_rest]) (simp_all add: keyboard_declared key_defs)
next
  case (DoWheel e)
  assume "declared_ok d"
  then show ?thesis unfolding DoWheel input_step.simps
    by (rule wheel_step [OF declared_ok_rest]) (simp add: axes_declared)
next
  case (DoCapturable c)
  assume "declared_ok d"
  then show ?thesis by (simp add: DoCapturable set_capturable_def declared_ok_def slots_ok_def)
qed

end
