(* ===== verification/HandlerFacts.thy ===== *)
theory HandlerFacts
  imports ClientHandler
begin

text \<open>
  What the client handler answers and forwards: at most one reply and at most one command per
  message, exactly one of the two for a configuration, commands in the order of the messages, and
  what happens to the input device and the client's name when a configuration fails.
\<close>

section \<open>Replies\<close>

fun always_replies :: "message_inbound \<Rightarrow> bool" where
  "always_replies (InHello _) = True"
| "always_replies GetCapturableList = True"
| "always_replies Heartbeat = True"
| "always_replies ChooseCustomInputAreas = True"
| "always_replies _ = False"

fun is_config :: "message_inbound \<Rightarrow> bool" where
  "is_config (Config _) = True"
| "is_config _ = False"

text \<open>The command a message other than a configuration stands for.\<close>

fun forwarded :: "message_inbound \<Rightarrow> 'c video_command option" where
  "forwarded PauseVideo = Some VPause"
| "forwarded ResumeVideo = Some VResume"
| "forwarded RestartVideo = Some VRestart"
| "forwarded (InBufferHealth b) = Some (VBufferHealth b)"
| "forwarded RequestKeyframe = Some VRequestKeyframe"
| "forwarded (ClientRtt r) = Some (VClientRtt r)"
| "forwarded _ = None"

lemma h_send_simps [simp]:
  "ch_out (h_send m s) = ch_out s @ [m]" "ch_video (h_send m s) = ch_video s"
  "ch_video_alive (h_send m s) = ch_video_alive s" "ch_device (h_send m s) = ch_device s"
  "ch_capturables (h_send m s) = ch_capturables s" "ch_client_name (h_send m s) = ch_client_name s"
  by (simp_all add: h_send_def)

lemma h_video_simps [simp]:
  "ch_out (h_video v s) = ch_out s"
  "ch_video (h_video v s) = (if ch_video_alive s then ch_video s @ [v] else ch_video s)"
  "ch_video_alive (h_video v s) = ch_video_alive s" "ch_device (h_video v s) = ch_device s"
  "ch_capturables (h_video v s) = ch_capturables s" "ch_client_name (h_video v s) = ch_client_name s"
  by (simp_all add: h_video_def)

lemma events_frame [simp]:
  "ch_out (process_pointer_event env e s) = ch_out s"
  "ch_video (process_pointer_event env e s) = ch_video s"
  "ch_video_alive (process_pointer_event env e s) = ch_video_alive s"
  "ch_out (process_wheel_event env w s) = ch_out s"
  "ch_video (process_wheel_event env w s) = ch_video s"
  "ch_video_alive (process_wheel_event env w s) = ch_video_alive s"
  "ch_out (process_keyboard_event env k s) = ch_out s"
  "ch_video (process_keyboard_event env k s) = ch_video s"
  "ch_video_alive (process_keyboard_event env k s) = ch_video_alive s"
  by (simp_all add: process_pointer_event_def process_wheel_event_def process_keyboard_event_def
      split: option.split)

lemma batch_frame [simp]:
  "ch_out (fold (process_pointer_event env) es s) = ch_out s"
  "ch_video (fold (process_pointer_event env) es s) = ch_video s"
  "ch_video_alive (fold (process_pointer_event env) es s) = ch_video_alive s"
  by (induction es arbitrary: s) simp_all

lemma hello_frame [simp]:
  "ch_video (handle_hello v s) = ch_video s" "ch_video_alive (handle_hello v s) = ch_video_alive s"
  "\<exists>m. ch_out (handle_hello v s) = ch_out s @ [m]"
  by (simp_all add: handle_hello_def)

lemma list_frame [simp]:
  "ch_video (send_capturable_list env s) = ch_video s"
  "ch_video_alive (send_capturable_list env s) = ch_video_alive s"
  "ch_out (send_capturable_list env s) = ch_out s
     @ [CapturableList (map (he_name env) (he_capturables env (ch_wayland_support s) (ch_capture_cursor s)))]"
  by (simp_all add: send_capturable_list_def Let_def)

lemma other_message:
  assumes "\<not> is_config m"
  shows "ch_video (handle_message env m s)
       = ch_video s @ (if ch_video_alive s then (case forwarded m of Some v \<Rightarrow> [v] | None \<Rightarrow> []) else [])"
    "ch_video_alive (handle_message env m s) = ch_video_alive s"
    "\<exists>r. ch_out (handle_message env m s) = ch_out s @ r
         \<and> length r = (if always_replies m then 1 else 0)"
  using assms by (cases m; simp add: handle_hello_def)+

lemma commands_in_order:
  assumes "list_all (\<lambda>m. case m of Inr m \<Rightarrow> \<not> is_config m | Inl _ \<Rightarrow> True) ms" "ch_video_alive s"
  shows "ch_video (handler_run env ms s) = ch_video s
     @ List.map_filter (\<lambda>m. case m of Inr m \<Rightarrow> forwarded m | Inl _ \<Rightarrow> None) ms"
  using assms
proof (induction ms arbitrary: s)
  case Nil
  then show ?case by (simp add: handler_run_def map_filter_simps)
next
  case (Cons m ms)
  have step: "ch_video_alive (handle_item env m s)"
    "ch_video (handle_item env m s) = ch_video s
       @ (case (case m of Inr m \<Rightarrow> forwarded m | Inl _ \<Rightarrow> None) of Some v \<Rightarrow> [v] | None \<Rightarrow> [])"
    using Cons.prems by (cases m; simp add: handle_item_def other_message)+
  have "ch_video (handler_run env (m # ms) s) = ch_video (handler_run env ms (handle_item env m s))"
    by (simp add: handler_run_def)
  then show ?case using Cons step
    by (simp add: map_filter_simps split: option.split)
qed

section \<open>Configurations\<close>

lemma update_device_frame:
  "update_device env u n c s = Inr s' \<Longrightarrow> ch_out s' = ch_out s \<and> ch_video s' = ch_video s
     \<and> ch_video_alive s' = ch_video_alive s \<and> ch_device s' \<noteq> None"
  "update_device env u n c s = Inl s' \<Longrightarrow> ch_device s' = ch_device s \<and> ch_video s' = ch_video s
     \<and> ch_out s' = ch_out s @ [ConfigError ''Failed to create uinput device!'']"
  by (auto simp: update_device_def Let_def split: if_splits sum.splits option.splits)

definition video_config_of :: "client_configuration \<Rightarrow> 'c \<Rightarrow> 'c video_config" where
  "video_config_of config c = \<lparr>vc_capturable = c, vc_capture_cursor = cc_capture_cursor config,
     vc_max_width = cc_max_width config, vc_max_height = cc_max_height config,
     vc_frame_rate = cc_frame_rate config\<rparr>"

text \<open>A configuration starts the selected capturable or is answered with one error, never both.\<close>

lemma config_outcome:
  assumes "s' = update_config env config s"
  shows "(ch_out s' = ch_out s \<and> cc_capturable_id config < length (ch_capturables s)
      \<and> ch_video s' = ch_video s
          @ [VStart (video_config_of config (ch_capturables s ! cc_capturable_id config))]
      \<and> ch_device s' \<noteq> None)
   \<or> (ch_video s' = ch_video s \<and> (\<exists>e. ch_out s' = ch_out s @ [e]
      \<and> (e = no_capturable_error \<longleftrightarrow> length (ch_capturables s) \<le> cc_capturable_id config)))"
proof -
  let ?changed = "ch_client_name s \<noteq> cc_client_name config"
  let ?s = "if ?changed then s\<lparr>ch_client_name := cc_client_name config\<rparr> else s"
  show ?thesis
  proof (cases "cc_capturable_id config < length (ch_capturables s)")
    case False
    have "s' = h_send no_capturable_error ?s"
      using False by (simp add: assms update_config_def Let_def)
    then show ?thesis using False by auto
  next
    case True
    let ?c = "ch_capturables s ! cc_capturable_id config"
    let ?s1 = "?s\<lparr>ch_capture_cursor := cc_capture_cursor config\<rparr>"
    have s1: "ch_out ?s1 = ch_out s" "ch_video ?s1 = ch_video s" "ch_capturables ?s = ch_capturables s"
      by simp_all
    have s': "s' = (case update_device env (cc_uinput_support config) ?changed ?c ?s1 of
        Inl s \<Rightarrow> s | Inr s \<Rightarrow> start_video config ?c s)"
      using True by (simp add: assms update_config_def Let_def split: sum.split)
    show ?thesis
    proof (cases "update_device env (cc_uinput_support config) ?changed ?c ?s1")
      case (Inl t)
      then show ?thesis using s' s1 True update_device_frame(2) [OF Inl]
        by (auto simp: no_capturable_error_def)
    next
      case (Inr t)
      then show ?thesis using s' s1 True update_device_frame(1) [OF Inr]
        by (auto simp: start_video_def video_config_of_def no_capturable_error_def)
    qed
  qed
qed

text \<open>A refused client is not disconnected: its input still reaches the device.\<close>

lemma nack_keeps_processing:
  assumes "v < MIN_CLIENT_PROTOCOL_VERSION" "ch_device s = Some d"
  shows "ch_device (handler_run env [Inr (InHello v), Inr (InPointerEvent e)] s)
     = Some (do_pointer (he_ops env) e d)"
  using assms by (simp add: handler_run_def handle_item_def handle_hello_def process_pointer_event_def)

text \<open>The changed name is stored before the configuration is known to be usable, so that a later, usable
  one no longer sees a change and keeps the device made for the old name.\<close>

lemma stale_device_name:
  assumes "length (ch_capturables s) \<le> cc_capturable_id bad" "cc_client_name bad = name"
    and "ch_device s = Some d" "do_type (he_ops env) d = UInputDevice"
    and "cc_capturable_id good < length (ch_capturables s)" "cc_client_name good = name"
    and "cc_uinput_support good"
  shows "ch_device (handler_run env [Inr (Config bad), Inr (Config good)] s)
     = Some (do_set_capturable (he_ops env) (ch_capturables s ! cc_capturable_id good) d)"
proof -
  let ?s = "update_config env bad s"
  have s: "ch_client_name ?s = name" "ch_device ?s = Some d" "ch_capturables ?s = ch_capturables s"
    using assms(1-3) by (simp_all add: update_config_def Let_def)
  have "ch_device (update_config env good ?s)
     = Some (do_set_capturable (he_ops env) (ch_capturables s ! cc_capturable_id good) d)"
    using assms(4-7) s
    by (simp add: update_config_def [of env good] Let_def update_device_def start_video_def)
  then show ?thesis by (simp add: handler_run_def handle_item_def)
qed

end
