(* ===== verification/DeviceSession.thy ===== *)
theory DeviceSession
  imports EnigoDevice TouchFacts HandlerFacts
begin

text \<open>
  The client handler with the two input devices of the code: an invariant that every device operation
  keeps and every new device satisfies holds for the device in place after any messages of a client.
  The interface \<open>device_invariant\<close> extends \<open>input_device\<close>; the trait object over both devices is its
  instance, with the invariants of \<open>InputFacts\<close> and \<open>TouchFacts\<close>.
\<close>

section \<open>The interface\<close>

locale device_invariant = input_device +
  fixes I
  assumes wheel_kept: "I d \<Longrightarrow> I (do_wheel ops w d)"
    and pointer_kept: "I d \<Longrightarrow> I (do_pointer ops p d)"
    and keyboard_kept: "I d \<Longrightarrow> I (do_keyboard ops k d)"
    and capturable_kept: "I d \<Longrightarrow> I (do_set_capturable ops c d)"
begin

definition held where
  "held s \<longleftrightarrow> (\<forall>d. ch_device s = Some d \<longrightarrow> I d)"

definition provides where
  "provides env \<longleftrightarrow> he_ops env = ops \<and> (\<forall>c name d. he_uinput_new env c name = Inr d \<longrightarrow> I d)
     \<and> (\<forall>c. I (he_enigo_new env c))"

lemma held_same: "ch_device s' = ch_device s \<Longrightarrow> held s \<Longrightarrow> held s'"
  by (simp add: held_def)

lemma held_set: "I d \<Longrightarrow> held (s\<lparr>ch_device := Some d\<rparr>)"
  by (simp add: held_def)

lemma held_events:
  assumes "provides env" "held s"
  shows "held (process_pointer_event env e s)" "held (process_wheel_event env w s)"
    "held (process_keyboard_event env k s)"
  using assms wheel_kept pointer_kept keyboard_kept
  by (auto simp: held_def provides_def process_pointer_event_def process_wheel_event_def
      process_keyboard_event_def split: option.splits)

lemma held_batch: "provides env \<Longrightarrow> held s \<Longrightarrow> held (fold (process_pointer_event env) es s)"
  by (induction es arbitrary: s) (simp_all add: held_events)

lemma held_device:
  assumes "provides env" "held s"
  shows "update_device env u n c s = Inr s' \<Longrightarrow> held s'" "update_device env u n c s = Inl s' \<Longrightarrow> held s'"
  using assms capturable_kept update_device_frame(2) [of env u n c s s']
  by (auto simp: update_device_def held_def provides_def Let_def split: if_splits sum.splits option.splits)

lemma held_config:
  assumes "provides env" "held s"
  shows "held (update_config env config s)"
proof -
  let ?n = "ch_client_name s \<noteq> cc_client_name config"
  define s1 where "s1 = (if ?n then s\<lparr>ch_client_name := cc_client_name config\<rparr> else s)"
  have h1: "held s1" by (rule held_same [OF _ assms(2)]) (simp add: s1_def)
  show ?thesis
  proof (cases "cc_capturable_id config < length (ch_capturables s1)")
    case False
    have e: "update_config env config s = h_send no_capturable_error s1"
      using False by (simp add: update_config_def Let_def flip: s1_def)
    show ?thesis unfolding e by (rule held_same [OF _ h1]) simp
  next
    case True
    let ?c = "ch_capturables s1 ! cc_capturable_id config"
    let ?s = "s1\<lparr>ch_capture_cursor := cc_capture_cursor config\<rparr>"
    have h: "held ?s" by (rule held_same [OF _ h1]) simp
    have e: "update_config env config s =
        (case update_device env (cc_uinput_support config) ?n ?c ?s of
           Inl s \<Rightarrow> s | Inr s \<Rightarrow> start_video config ?c s)"
      using True by (simp add: update_config_def Let_def flip: s1_def)
    show ?thesis
    proof (cases "update_device env (cc_uinput_support config) ?n ?c ?s")
      case (Inl s2)
      then show ?thesis using held_device(2) [OF assms(1) h Inl] by (simp add: e)
    next
      case (Inr s2)
      have "held (start_video config ?c s2)"
        by (rule held_same [OF _ held_device(1) [OF assms(1) h Inr]]) (simp add: start_video_def)
      then show ?thesis by (simp add: e Inr)
    qed
  qed
qed

lemma held_message: "provides env \<Longrightarrow> held s \<Longrightarrow> held (handle_message env m s)"
proof (cases m)
  case (Config c)
  then show "provides env \<Longrightarrow> held s \<Longrightarrow> ?thesis" by (simp add: held_config)
qed (auto simp: held_events held_batch handle_hello_def send_capturable_list_def Let_def
      elim!: held_same [rotated])

lemma held_run: "provides env \<Longrightarrow> held s \<Longrightarrow> held (handler_run env ms s)"
proof (induction ms arbitrary: s)
  case Nil
  then show ?case by (simp add: handler_run_def)
next
  case (Cons m ms)
  have "held (handle_item env m s)"
    using Cons.prems held_message held_same [of "h_send _ s" s] by (auto simp: handle_item_def split: sum.split)
  then show ?case using Cons by (simp add: handler_run_def)
qed

lemma device_after_run:
  "provides env \<Longrightarrow> ch_device (handler_run env ms (handler_new w)) = Some d \<Longrightarrow> I d"
  using held_run [of env "handler_new w" ms] by (simp add: held_def handler_new_def)

end

section \<open>The devices of the code\<close>

definition device_sound :: "'c dyn_device \<Rightarrow> bool" where
  "device_sound d \<longleftrightarrow> (case d of
      DUInput d \<Rightarrow> slots_ok d \<and> pen_ok d \<and> tools_ok d \<and> declared_ok d
    | DEnigo _ \<Rightarrow> True)"

lemma sound_step: "device_sound (DUInput d) \<Longrightarrow> device_sound (DUInput (input_step env op d))"
  by (simp add: device_sound_def slots_ok_step pen_ok_step tools_ok_step declared_step)

interpretation sound: device_invariant "dyn_ops env env'" dyn_capturable device_sound
proof unfold_locales
  fix d :: "'a dyn_device"
  assume d: "device_sound d"
  show "device_sound (do_wheel (dyn_ops env env') w d)" for w
    using d sound_step [of _ env "DoWheel w"] by (cases d) (simp_all add: dyn_ops_def device_sound_def)
  show "device_sound (do_pointer (dyn_ops env env') p d)" for p
    using d sound_step [of _ env "DoPointer p"] by (cases d) (simp_all add: dyn_ops_def device_sound_def)
  show "device_sound (do_keyboard (dyn_ops env env') k d)" for k
    using d sound_step [of _ env "DoKeyboard k"] by (cases d) (simp_all add: dyn_ops_def device_sound_def)
  show "device_sound (do_set_capturable (dyn_ops env env') c d)" for c
    using d sound_step [of _ undefined "DoCapturable c"] by (cases d) (simp_all add: dyn_ops_def device_sound_def)
qed

text \<open>The handler of a session on Linux.\<close>

definition session_handler ::
  "'c uinput_env \<Rightarrow> 'c enigo_env \<Rightarrow> (bool \<Rightarrow> bool \<Rightarrow> 'c list) \<Rightarrow> ('c \<Rightarrow> string) \<Rightarrow> u64 option
     \<Rightarrow> ('c dyn_device, 'c) handler_env" where
  "session_handler env env' capturables name now_ms = \<lparr>he_ops = dyn_ops env env',
     he_uinput_new = (\<lambda>c client. case uinput_new env c client of
        Inr d \<Rightarrow> Inr (DUInput d) | Inl e \<Rightarrow> Inl e),
     he_enigo_new = (\<lambda>c. DEnigo (enigo_new c)), he_capturables = capturables, he_name = name,
     he_now_ms = now_ms\<rparr>"

lemma session_provides: "sound.provides env env' (session_handler env env' cs name t)"
  using fresh_ok [of env]
  by (auto simp: sound.provides_def session_handler_def device_sound_def declared_ok_def
      split: sum.splits)

end
