(* ===== verification/X11Window.thy ===== *)
theory X11Window
  imports RustString RustNum CoreError Capturables "HOL-Library.List_Lexorder" "HOL-Library.Char_ord"
begin

text \<open>
  \<open>crates/rylus-capture/src/x11.rs\<close>: what can be captured from an X server (\<open>X11Context::capturables\<close>), its
  geometry, the window properties the program reads, the activation of a window and the mapping of an
  input device to the screen.  The X server's replies are the record \<open>x11_env\<close>; requests that change
  its state are recorded.
\<close>

section \<open>The server's replies\<close>

type_synonym window = nat
type_synonym atom = nat

record monitor =
  mo_name :: atom
  mo_x :: int
  mo_y :: int
  mo_width :: nat
  mo_height :: nat

text \<open>A property has a type and a value in units of 32 or 8 bits.\<close>

datatype property_value = Words "nat list" | Bytes string

text \<open>\<open>None\<close>: the request or its reply failed.  \<open>xe_property\<close>: \<open>Some None\<close> if the window has no such
  property.  \<open>xe_send\<close>: requests without a reply can be written.\<close>

record x11_env =
  xe_root :: window
  xe_screen :: "nat \<times> nat"
  xe_geometry :: "window \<Rightarrow> (nat \<times> nat) option"
  xe_translate :: "window \<Rightarrow> (int \<times> int) option"
  xe_monitors :: "monitor list option"
  xe_atom_name :: "atom \<Rightarrow> string option"
  xe_intern :: "string \<Rightarrow> atom option"
  xe_property :: "window \<Rightarrow> string \<Rightarrow> (string \<times> property_value) option option"
  xe_devices :: "(nat \<times> string) list option"
  xe_send :: bool

section \<open>Properties\<close>

text \<open>\<open>get_property\<close> of at most \<open>n\<close> 32-bit units; another type than the property's gives an empty value.\<close>

definition get_property :: "x11_env \<Rightarrow> window \<Rightarrow> string \<Rightarrow> string \<Rightarrow> nat \<Rightarrow> property_value option" where
  "get_property env win prop_name prop_type n =
     (if xe_intern env prop_name = None then None
      else case xe_property env win prop_name of
             None \<Rightarrow> None
           | Some None \<Rightarrow> Some (Bytes [])
           | Some (Some (ty, Words ws)) \<Rightarrow> Some (Words (if ty = prop_type then take n ws else []))
           | Some (Some (ty, Bytes bs)) \<Rightarrow> Some (Bytes (if ty = prop_type then take (4 * n) bs else [])))"

definition value32 :: "property_value \<Rightarrow> nat list option" where
  "value32 v = (case v of Words ws \<Rightarrow> Some ws | Bytes _ \<Rightarrow> None)"

definition value_len :: "property_value \<Rightarrow> nat" where
  "value_len v = (case v of Words ws \<Rightarrow> length ws | Bytes bs \<Rightarrow> length bs)"

definition first_of :: "'a list \<Rightarrow> 'a option" where
  "first_of xs = (case xs of x # _ \<Rightarrow> Some x | [] \<Rightarrow> None)"

definition get_active_window :: "x11_env \<Rightarrow> window option" where
  "get_active_window env =
     (case get_property env (xe_root env) ''_NET_ACTIVE_WINDOW'' ''WINDOW'' 1 of
        None \<Rightarrow> None
      | Some prop \<Rightarrow> if value_len prop = 0 then None
                     else (case value32 prop of None \<Rightarrow> None | Some values \<Rightarrow> first_of values))"

definition get_window_list_property :: "x11_env \<Rightarrow> string \<Rightarrow> string \<Rightarrow> window list option" where
  "get_window_list_property env prop_name prop_type =
     (case get_property env (xe_root env) prop_name prop_type 1024 of
        None \<Rightarrow> None
      | Some prop \<Rightarrow> (case value32 prop of
            None \<Rightarrow> None | Some values \<Rightarrow> if values = [] then None else Some values))"

definition get_client_list :: "x11_env \<Rightarrow> window list" where
  "get_client_list env =
     (case get_window_list_property env ''_NET_CLIENT_LIST'' ''WINDOW'' of
        Some xs \<Rightarrow> xs
      | None \<Rightarrow> (case get_window_list_property env ''_WIN_CLIENT_LIST'' ''CARDINAL'' of
            Some xs \<Rightarrow> xs | None \<Rightarrow> []))"

definition get_cardinal_property :: "x11_env \<Rightarrow> window \<Rightarrow> string \<Rightarrow> nat option" where
  "get_cardinal_property env win prop_name =
     (case get_property env win prop_name ''CARDINAL'' 1 of
        None \<Rightarrow> None
      | Some prop \<Rightarrow> (case value32 prop of None \<Rightarrow> None | Some values \<Rightarrow> first_of values))"

text \<open>\<open>prop.value\<close> as text; 32-bit units are taken byte by byte, the lowest first.\<close>

definition text_property :: "property_value \<Rightarrow> string option" where
  "text_property prop = (case prop of Bytes bs \<Rightarrow> if bs = [] then None else Some bs
     | Words ws \<Rightarrow> if ws = [] then None
         else Some (concat (map (\<lambda>w. [char_of (w mod 256), char_of (w div 256 mod 256),
                char_of (w div 65536 mod 256), char_of (w div 16777216 mod 256)]) ws)))"

definition get_utf8_property :: "x11_env \<Rightarrow> window \<Rightarrow> string \<Rightarrow> string option" where
  "get_utf8_property env win prop_name =
     (if xe_intern env prop_name = None \<or> xe_intern env ''UTF8_STRING'' = None then None
      else case get_property env win prop_name ''UTF8_STRING'' 1024 of
             None \<Rightarrow> None | Some prop \<Rightarrow> text_property prop)"

definition get_string_property :: "x11_env \<Rightarrow> window \<Rightarrow> string \<Rightarrow> string option" where
  "get_string_property env win prop_name =
     (case get_property env win prop_name ''STRING'' 1024 of
        None \<Rightarrow> None | Some prop \<Rightarrow> text_property prop)"

definition get_window_title :: "x11_env \<Rightarrow> window \<Rightarrow> string" where
  "get_window_title env win =
     (case get_utf8_property env win ''_NET_WM_NAME'' of
        Some title \<Rightarrow> if title \<noteq> [] then title else
          (case get_string_property env win ''WM_NAME'' of
             Some title \<Rightarrow> if title \<noteq> [] then title else ''UNKNOWN 0x'' @ lowercase (hex win)
           | None \<Rightarrow> ''UNKNOWN 0x'' @ lowercase (hex win))
      | None \<Rightarrow>
          (case get_string_property env win ''WM_NAME'' of
             Some title \<Rightarrow> if title \<noteq> [] then title else ''UNKNOWN 0x'' @ lowercase (hex win)
           | None \<Rightarrow> ''UNKNOWN 0x'' @ lowercase (hex win)))"

section \<open>Capture targets\<close>

datatype capture_target =
    Window_Target (target_window: window) (target_regular: bool)
  | Rect_Target int int nat nat (target_monitor: atom)

record x11_capturable =
  xc_target :: capture_target
  xc_name :: string

text \<open>\<open>Capturable::geometry\<close>, relative to the screen.\<close>

definition f_of_int :: "int \<Rightarrow> f64" where
  "f_of_int k = Fin (of_int k)"

definition relative_geometry :: "x11_env \<Rightarrow> int \<Rightarrow> int \<Rightarrow> nat \<Rightarrow> nat \<Rightarrow> f64 geometry" where
  "relative_geometry env x y w h =
     (let sw = f_of_nat (fst (xe_screen env)); sh = f_of_nat (snd (xe_screen env))
      in Relative (fdiv (f_of_int x) sw) (fdiv (f_of_int y) sh) (fdiv (f_of_nat w) sw) (fdiv (f_of_nat h) sh))"

definition x11_geometry :: "x11_env \<Rightarrow> x11_capturable \<Rightarrow> string + f64 geometry" where
  "x11_geometry env c = (case xc_target c of
      Window_Target win _ \<Rightarrow>
        (case xe_geometry env win of
           None \<Rightarrow> Inl ''get_geometry''
         | Some (w, h) \<Rightarrow> (case xe_translate env win of
               None \<Rightarrow> Inl ''translate_coordinates''
             | Some (x, y) \<Rightarrow> Inr (relative_geometry env x y w h)))
    | Rect_Target x y w h _ \<Rightarrow> Inr (relative_geometry env x y w h))"

text \<open>\<open>get_target_geometry\<close>: a monitor is looked up again by its name.\<close>

definition get_target_geometry :: "x11_env \<Rightarrow> capture_target \<Rightarrow> string + int \<times> int \<times> nat \<times> nat" where
  "get_target_geometry env target = (case target of
      Window_Target win _ \<Rightarrow>
        (case xe_geometry env win of
           None \<Rightarrow> Inl ''Failed to get window geometry''
         | Some (w, h) \<Rightarrow> (case xe_translate env win of
               None \<Rightarrow> Inl ''translate_coordinates failed''
             | Some (x, y) \<Rightarrow> Inr (x, y, w, h)))
    | Rect_Target _ _ _ _ name \<Rightarrow>
        (case xe_monitors env of
           None \<Rightarrow> Inl ''randr_get_monitors failed''
         | Some ms \<Rightarrow> (case find (\<lambda>m. mo_name m = name) ms of
               Some m \<Rightarrow> Inr (mo_x m, mo_y m, mo_width m, mo_height m)
             | None \<Rightarrow> Inl ''Monitor is no longer present (unplugged or RandR layout changed)'')))"

section \<open>Enumeration\<close>

definition monitor_capturable :: "x11_env \<Rightarrow> monitor \<Rightarrow> x11_capturable" where
  "monitor_capturable env m =
     \<lparr>xc_target = Rect_Target (mo_x m) (mo_y m) (mo_width m) (mo_height m) (mo_name m),
      xc_name = ''Monitor: '' @ (case xe_atom_name env (mo_name m) of Some n \<Rightarrow> n | None \<Rightarrow> ''Unknown'')\<rparr>"

definition window_capturable :: "x11_env \<Rightarrow> window \<Rightarrow> x11_capturable" where
  "window_capturable env win =
     \<lparr>xc_target = Window_Target win True, xc_name = get_window_title env win\<rparr>"

definition x11_capturables :: "x11_env \<Rightarrow> x11_capturable list" where
  "x11_capturables env =
     [\<lparr>xc_target = Window_Target (xe_root env) False, xc_name = ''Desktop''\<rparr>]
     @ (case xe_monitors env of Some ms \<Rightarrow> map (monitor_capturable env) ms | None \<Rightarrow> [])
     @ sort_key (\<lambda>c. lowercase (xc_name c)) (map (window_capturable env) (get_client_list env))"

section \<open>Activation\<close>

datatype x11_request =
    ClientMessage window string "nat list"
  | RaiseWindow window
  | MapWindow window
  | SetIdentityMatrix nat

text \<open>A sequence of requests that stops at the first error, with the requests made.\<close>

fun x11_try :: "(x11_env \<Rightarrow> (string + unit) \<times> x11_request list) list \<Rightarrow> x11_env \<Rightarrow> (string + unit) \<times> x11_request list" where
  "x11_try [] env = (Inr (), [])"
| "x11_try (f # fs) env = (case f env of
     (Inl e, rs) \<Rightarrow> (Inl e, rs)
   | (Inr _, rs) \<Rightarrow> (let (res, rs') = x11_try fs env in (res, rs @ rs')))"

definition x11_send :: "x11_request \<Rightarrow> x11_env \<Rightarrow> (string + unit) \<times> x11_request list" where
  "x11_send r env = (if xe_send env then (Inr (), [r]) else (Inl ''connection'', []))"

definition send_client_message ::
  "window \<Rightarrow> string \<Rightarrow> nat list \<Rightarrow> x11_env \<Rightarrow> (string + unit) \<times> x11_request list" where
  "send_client_message target msg_name data env =
     (if xe_intern env msg_name = None then (Inl ''intern_atom'', [])
      else x11_send (ClientMessage target msg_name data) env)"

definition activate_window :: "x11_env \<Rightarrow> window \<Rightarrow> (string + unit) \<times> x11_request list" where
  "activate_window env win =
     (if get_active_window env = Some win then (Inr (), [])
      else
        let desktop = (case get_cardinal_property env win ''_NET_WM_DESKTOP'' of
              Some d \<Rightarrow> Some d | None \<Rightarrow> get_cardinal_property env win ''_WIN_WORKSPACE'')
        in x11_try
             ((case desktop of
                 Some d \<Rightarrow> [send_client_message (xe_root env) ''_NET_CURRENT_DESKTOP'' [d, 0, 0, 0, 0]]
               | None \<Rightarrow> [])
              @ [send_client_message win ''_NET_ACTIVE_WINDOW'' [0, 0, 0, 0, 0],
                 x11_send (RaiseWindow win), x11_send (MapWindow win)]) env)"

text \<open>\<open>Capturable::before_input\<close>.\<close>

definition x11_before_input :: "x11_env \<Rightarrow> x11_capturable \<Rightarrow> (string + unit) \<times> x11_request list" where
  "x11_before_input env c = (case xc_target c of
      Window_Target win True \<Rightarrow> activate_window env win
    | _ \<Rightarrow> (Inr (), []))"

section \<open>Mapping an input device to the screen\<close>

definition device_matches :: "string \<Rightarrow> bool \<Rightarrow> string \<Rightarrow> bool" where
  "device_matches device_name pen name =
     (if pen then strip_prefix (device_name @ '' Pen'') name \<noteq> None else name = device_name)"

definition map_input_device :: "x11_env \<Rightarrow> string \<Rightarrow> bool \<Rightarrow> (string + unit) \<times> x11_request list" where
  "map_input_device env device_name pen = (case xe_devices env of
      None \<Rightarrow> (Inl ''list_input_devices'', [])
    | Some devices \<Rightarrow>
        (case find (\<lambda>(id, name). device_matches device_name pen name) devices of
           None \<Rightarrow> (Inl (''Device with name: '' @ device_name @ '' not found!''), [])
         | Some (device_id, _) \<Rightarrow>
             if xe_intern env ''FLOAT'' = None \<or> xe_intern env ''Coordinate Transformation Matrix'' = None
             then (Inl ''intern_atom'', [])
             else if xe_intern env ''FLOAT'' = Some 0
                   \<or> xe_intern env ''Coordinate Transformation Matrix'' = Some 0
             then (Inl ''Float or Coordinate Transformation Matrix atom not found'', [])
             else x11_send (SetIdentityMatrix device_id) env))"

text \<open>\<open>map_input_device_to_entire_screen\<close>: an error becomes a \<open>CError\<close> with code 1.\<close>

definition map_input_device_to_entire_screen :: "x11_env \<Rightarrow> string \<Rightarrow> bool \<Rightarrow> cerror \<times> x11_request list" where
  "map_input_device_to_entire_screen env device_name pen = (case map_input_device env device_name pen of
      (Inr _, rs) \<Rightarrow> (cerror_new, rs)
    | (Inl e, rs) \<Rightarrow> (cerror_with_code 1 (map of_char e), rs))"

end
