(* ===== verification/CursorOverlay.thy ===== *)
theory CursorOverlay
  imports RustNum "HOL-Library.Word"
begin

unbundle bit_operations_syntax

text \<open>
  Drawing the mouse cursor into a captured X11 frame: \<open>composite_cursor\<close> of
  \<open>crates/rylus-capture/src/x11.rs\<close>.  Pixels are 32-bit words, indices are \<open>i32\<close> values cast to \<open>usize\<close>; an
  access out of range panics, which is \<open>None\<close>.
\<close>

section \<open>Pixels\<close>

type_synonym pixel = "32 word"

text \<open>\<open>(p >> k) & 0xff\<close>.\<close>

definition channel :: "nat \<Rightarrow> pixel \<Rightarrow> pixel" where
  "channel k p = drop_bit k p AND 0xFF"

text \<open>A cursor pixel, premultiplied with its alpha, over a pixel of the frame.\<close>

definition blend :: "pixel \<Rightarrow> pixel \<Rightarrow> pixel" where
  "blend c d =
     (let a = channel 24 c;
          f = (\<lambda>k. channel k c + channel k d * (255 - a) div 255)
      in push_bit 16 (f 16) OR push_bit 8 (f 8) OR f 0)"

section \<open>The overlay\<close>

record cursor_image =
  ci_x :: int
  ci_y :: int
  ci_xhot :: int
  ci_yhot :: int
  ci_width :: nat
  ci_height :: nat
  ci_pixels :: "pixel list"

text \<open>\<open>xs[k as usize]\<close>.\<close>

definition checked_nth :: "'a list \<Rightarrow> int \<Rightarrow> 'a option" where
  "checked_nth xs k = (if 0 \<le> k \<and> k < int (length xs) then Some (xs ! nat k) else None)"

text \<open>The range of cursor rows or columns to draw, for a cursor at \<open>pos\<close> of \<open>extent\<close> in a frame of \<open>limit\<close>.\<close>

definition cursor_range :: "int \<Rightarrow> int \<Rightarrow> int \<Rightarrow> int \<times> int" where
  "cursor_range pos extent limit =
     (min (min (max 0 (- pos)) (limit - pos)) extent, max (min extent (limit - pos)) 0)"

text \<open>The body of the loops, for cursor row \<open>j\<close> and column \<open>i\<close>.\<close>

definition draw_pixel ::
  "pixel list \<Rightarrow> int \<Rightarrow> int \<Rightarrow> int \<Rightarrow> int \<Rightarrow> int \<times> int \<Rightarrow> pixel list \<Rightarrow> pixel list option" where
  "draw_pixel cursor_pixels cw w cursor_x cursor_y ji data =
     (case checked_nth cursor_pixels (wrap_i32 (fst ji * cw + snd ji)) of
        None \<Rightarrow> None
      | Some c_pixel \<Rightarrow>
          if channel 24 c_pixel > 0 then
            (let dst_idx = wrap_i32 ((fst ji + cursor_y) * w + (snd ji + cursor_x))
             in case checked_nth data dst_idx of
                  None \<Rightarrow> None
                | Some d_pixel \<Rightarrow> Some (data[nat dst_idx := blend c_pixel d_pixel]))
          else Some data)"

fun draw_pixels ::
  "(int \<times> int \<Rightarrow> pixel list \<Rightarrow> pixel list option) \<Rightarrow> (int \<times> int) list \<Rightarrow> pixel list \<Rightarrow> pixel list option" where
  "draw_pixels draw [] data = Some data"
| "draw_pixels draw (p # ps) data = (case draw p data of
     None \<Rightarrow> None | Some data \<Rightarrow> draw_pixels draw ps data)"

text \<open>\<open>None\<close> for the image: the cursor could not be queried.\<close>

definition composite_cursor ::
  "cursor_image option \<Rightarrow> int \<Rightarrow> int \<Rightarrow> nat \<Rightarrow> nat \<Rightarrow> pixel list \<Rightarrow> pixel list option" where
  "composite_cursor img cap_x cap_y cap_width cap_height data = (case img of
      None \<Rightarrow> Some data
    | Some img \<Rightarrow>
        let cursor_x = ci_x img - ci_xhot img - cap_x;
            cursor_y = ci_y img - ci_yhot img - cap_y;
            cw = int (ci_width img); w = int cap_width; h = int cap_height;
            (i0, i1) = cursor_range cursor_x cw w;
            (j0, j1) = cursor_range cursor_y (int (ci_height img)) h
        in if i0 \<ge> i1 \<or> j0 \<ge> j1 then Some data
           else draw_pixels (draw_pixel (ci_pixels img) cw w cursor_x cursor_y)
                  (concat (map (\<lambda>j. map (Pair j) [i0..i1 - 1]) [j0..j1 - 1])) data)"

section \<open>The reference\<close>

text \<open>Row by row: the cursor's pixel over the frame's where the cursor covers it, else the frame's.\<close>

definition overlay ::
  "pixel list \<Rightarrow> int \<Rightarrow> int \<Rightarrow> int \<Rightarrow> int \<Rightarrow> nat \<Rightarrow> nat \<Rightarrow> pixel list \<Rightarrow> pixel list" where
  "overlay px cw ch cursor_x cursor_y w h data =
     map (\<lambda>k. let j = int (k div w) - cursor_y; i = int (k mod w) - cursor_x
              in if 0 \<le> j \<and> j < ch \<and> 0 \<le> i \<and> i < cw \<and> channel 24 (px ! nat (j * cw + i)) > 0
                 then blend (px ! nat (j * cw + i)) (data ! k) else data ! k) [0..<w * h]"

section \<open>The loop\<close>

text \<open>What \<open>draw_pixel\<close> does to the pixel it hits.\<close>

definition over :: "pixel \<Rightarrow> pixel \<Rightarrow> pixel" where
  "over c d = (if channel 24 c > 0 then blend c d else d)"

lemma draw_pixel_in_range:
  assumes "src = fst ji * cw + snd ji" "0 \<le> src" "src < int (length px)" "int (length px) < 2 ^ 31"
    and "dst = (fst ji + cy) * w + (snd ji + cx)" "0 \<le> dst" "dst < int (length data)" "int (length data) < 2 ^ 31"
  shows "draw_pixel px cw w cx cy ji data = Some (data[nat dst := over (px ! nat src) (data ! nat dst)])"
proof -
  have "wrap_i32 src = src" "wrap_i32 dst = dst"
    using assms(2-4,6-8) by (auto intro!: wrap_i32_id)
  then show ?thesis
    using assms by (auto simp: draw_pixel_def checked_nth_def over_def Let_def)
qed

text \<open>Drawing at distinct positions, each of which hits its own pixel.\<close>

lemma draw_pixels_at:
  fixes at_of :: "int \<times> int \<Rightarrow> nat"
  assumes "\<And>p d. p \<in> set ps \<Longrightarrow> length d = n \<Longrightarrow> draw p d = Some (d[at_of p := f p (d ! at_of p)])"
    and "inj_on at_of (set ps)" "distinct ps" "\<forall>p \<in> set ps. at_of p < n" "length data = n"
  shows "\<exists>data'. draw_pixels draw ps data = Some data' \<and> length data' = n
    \<and> (\<forall>p \<in> set ps. data' ! at_of p = f p (data ! at_of p)) \<and> (\<forall>k. k \<notin> at_of ` set ps \<longrightarrow> data' ! k = data ! k)"
  using assms
proof (induction ps arbitrary: data)
  case Nil
  then show ?case by simp
next
  case (Cons p ps)
  let ?d = "data[at_of p := f p (data ! at_of p)]"
  have "\<exists>data'. draw_pixels draw ps ?d = Some data' \<and> length data' = n
    \<and> (\<forall>q \<in> set ps. data' ! at_of q = f q (?d ! at_of q)) \<and> (\<forall>k. k \<notin> at_of ` set ps \<longrightarrow> data' ! k = ?d ! k)"
    using Cons.prems by (intro Cons.IH) auto
  then obtain data' where d: "draw_pixels draw ps ?d = Some data'" "length data' = n"
    "\<forall>q \<in> set ps. data' ! at_of q = f q (?d ! at_of q)" "\<forall>k. k \<notin> at_of ` set ps \<longrightarrow> data' ! k = ?d ! k" by blast
  have p: "at_of p \<notin> at_of ` set ps" using Cons.prems(2,3) by (simp add: inj_on_insert)
  then have "?d ! at_of q = data ! at_of q" if "q \<in> set ps" for q using that by (metis image_eqI nth_list_update_neq)
  moreover have "draw_pixels draw (p # ps) data = Some data'" using Cons.prems(1,5) d(1) by simp
  moreover have "data' ! at_of p = f p (data ! at_of p)" using d(4) p Cons.prems(4,5) by simp
  moreover have "\<forall>k. k \<notin> at_of ` set (p # ps) \<longrightarrow> data' ! k = data ! k" using d(4) by simp
  ultimately show ?case using d(2,3) by (intro exI [of _ data']) simp
qed

text \<open>A frame position has one row and one column.\<close>

lemma row_column:
  assumes "0 \<le> c" "c < (w :: int)" "0 \<le> c'" "c' < w" "r * w + c = r' * w + c'"
  shows "r = r' \<and> c = c'"
proof -
  have "(c + r * w) div w = r" "(c' + r' * w) div w = r'" using assms by simp_all
  moreover have "c + r * w = c' + r' * w" using assms(5) by (simp add: add.commute)
  ultimately have "r = r'" by simp
  then show ?thesis using assms(5) by simp
qed

lemma row_in_frame:
  assumes "0 \<le> r" "r < (h :: int)" "0 \<le> c" "c < w"
  shows "0 \<le> r * w + c" "r * w + c < w * h"
proof -
  show "0 \<le> r * w + c" using assms by simp
  have "r * w + c < (r + 1) * w" using assms by (simp add: algebra_simps)
  also have "\<dots> \<le> h * w" using assms by (intro mult_right_mono) auto
  finally show "r * w + c < w * h" by (simp add: algebra_simps)
qed

text \<open>The positions visited when the cursor does not lie wholly to the right of or below the frame.\<close>

lemma cursor_range_inside:
  assumes "cursor_range pos extent limit = (lo, hi)" "pos \<le> limit" "0 \<le> extent" "0 \<le> limit"
  shows "lo \<le> k \<and> k < hi \<longleftrightarrow> 0 \<le> k \<and> k < extent \<and> 0 \<le> k + pos \<and> k + pos < limit"
  using assms by (auto simp: cursor_range_def)

lemma cursor_range_low:
  assumes "cursor_range pos extent limit = (lo, hi)" "0 \<le> extent" "0 \<le> limit" "pos < n" "0 < n"
  shows "- n \<le> lo"
proof -
  have "lo = min (min (max 0 (- pos)) (limit - pos)) extent" using assms(1) by (simp add: cursor_range_def)
  then show ?thesis using assms(2-5) by linarith
qed

lemma set_positions:
  "set (concat (map (\<lambda>j. map (Pair j) [i0..i1 - 1]) [j0..j1 - 1])) = {j0..<j1} \<times> {i0..<(i1 :: int)}"
  by auto

lemma distinct_positions:
  "distinct (concat (map (\<lambda>j :: int. map (Pair j) [i0..i1 - 1 :: int]) js)) \<longleftrightarrow> distinct js \<or> i1 \<le> i0"
  if "distinct js"
  using that by (induction js) (auto simp: distinct_map inj_on_def)

section \<open>The cursor over the frame\<close>

text \<open>The cursor positions inside the frame, and where they are in the two pixel lists.\<close>

definition covered :: "int \<Rightarrow> int \<Rightarrow> int \<Rightarrow> int \<Rightarrow> int \<Rightarrow> int \<Rightarrow> (int \<times> int) set" where
  "covered cw ch cx cy w h =
     {p. 0 \<le> snd p \<and> snd p < cw \<and> 0 \<le> snd p + cx \<and> snd p + cx < w
       \<and> 0 \<le> fst p \<and> fst p < ch \<and> 0 \<le> fst p + cy \<and> fst p + cy < h}"

definition frame_index :: "int \<Rightarrow> int \<Rightarrow> int \<Rightarrow> int \<times> int \<Rightarrow> nat" where
  "frame_index cx cy w p = nat ((fst p + cy) * w + (snd p + cx))"

definition cursor_index :: "int \<Rightarrow> int \<times> int \<Rightarrow> nat" where
  "cursor_index cw p = nat (fst p * cw + snd p)"

lemma frame_index_in:
  assumes "p \<in> covered cw ch cx cy (int w) (int h)"
  shows "int (frame_index cx cy (int w) p) = (fst p + cy) * int w + (snd p + cx)"
    "frame_index cx cy (int w) p < w * h"
proof -
  have "0 \<le> fst p + cy" "fst p + cy < int h" "0 \<le> snd p + cx" "snd p + cx < int w"
    using assms by (simp_all add: covered_def)
  note row_in_frame [OF this]
  then show "int (frame_index cx cy (int w) p) = (fst p + cy) * int w + (snd p + cx)"
    "frame_index cx cy (int w) p < w * h"
    by (simp_all add: frame_index_def nat_less_iff)
qed

lemma cursor_index_in:
  assumes "p \<in> covered (int cw) (int ch) cx cy w h"
  shows "int (cursor_index (int cw) p) = fst p * int cw + snd p" "cursor_index (int cw) p < cw * ch"
proof -
  have "0 \<le> fst p" "fst p < int ch" "0 \<le> snd p" "snd p < int cw" using assms by (simp_all add: covered_def)
  note row_in_frame [OF this]
  then show "int (cursor_index (int cw) p) = fst p * int cw + snd p" "cursor_index (int cw) p < cw * ch"
    by (simp_all add: cursor_index_def nat_less_iff)
qed

text \<open>The position that is drawn at frame index \<open>k\<close>.\<close>

lemma frame_index_at:
  assumes "p \<in> covered cw ch cx cy (int w) (int h)" "frame_index cx cy (int w) p = k"
  shows "p = (int (k div w) - cy, int (k mod w) - cx)"
proof -
  have w: "0 \<le> snd p + cx" "snd p + cx < int w" using assms(1) by (simp_all add: covered_def)
  then have m: "int (k mod w) < int w" by simp
  have "int k = int (k div w) * int w + int (k mod w)" by (metis div_mult_mod_eq of_nat_add of_nat_mult)
  then have "(fst p + cy) * int w + (snd p + cx) = int (k div w) * int w + int (k mod w)"
    using frame_index_in(1) [OF assms(1)] assms(2) by simp
  from row_column [OF w _ m this] show ?thesis by (simp add: prod_eq_iff)
qed

lemma frame_index_inj: "inj_on (frame_index cx cy (int w)) (covered cw ch cx cy (int w) (int h))"
proof (rule inj_onI)
  fix p q
  assume pq: "p \<in> covered cw ch cx cy (int w) (int h)" "q \<in> covered cw ch cx cy (int w) (int h)"
    and same: "frame_index cx cy (int w) p = frame_index cx cy (int w) q"
  show "p = q" using frame_index_at [OF pq(1) same] frame_index_at [OF pq(2) refl] by (rule trans [OF _ sym])
qed

lemma frame_index_back: "frame_index cx cy (int w) (int (k div w) - cy, int (k mod w) - cx) = k"
proof -
  have "int (k div w) * int w + int (k mod w) = int k" by (metis div_mult_mod_eq of_nat_add of_nat_mult)
  then show ?thesis by (simp add: frame_index_def)
qed

lemma draw_covered:
  assumes "p \<in> covered (int cw) (int ch) cx cy (int w) (int h)"
    and "length px = cw * ch" "length d = w * h" "int (cw * ch) < 2 ^ 31" "int (w * h) < 2 ^ 31"
  shows "draw_pixel px (int cw) (int w) cx cy p d = Some (d[frame_index cx cy (int w) p :=
    over (px ! cursor_index (int cw) p) (d ! frame_index cx cy (int w) p)])"
proof -
  note f = frame_index_in [OF assms(1)] and c = cursor_index_in [OF assms(1)]
  have b: "int (length px) < 2 ^ 31" "int (length d) < 2 ^ 31" using assms(2-5) by simp_all
  have "draw_pixel px (int cw) (int w) cx cy p d = Some (d[nat (int (frame_index cx cy (int w) p)) :=
      over (px ! nat (int (cursor_index (int cw) p))) (d ! nat (int (frame_index cx cy (int w) p)))])"
    by (rule draw_pixel_in_range [OF c(1) _ _ b(1) f(1) _ _ b(2)])
      (use c(2) f(2) assms(2,3) in \<open>simp_all flip: of_nat_mult\<close>)
  then show ?thesis by simp
qed

text \<open>Drawing at all positions inside the frame is the reference.\<close>

lemma draw_all_overlay:
  assumes "set ps = covered (int cw) (int ch) cx cy (int w) (int h)" "distinct ps"
    and "length px = cw * ch" "length data = w * h" "int (cw * ch) < 2 ^ 31" "int (w * h) < 2 ^ 31"
  shows "draw_pixels (draw_pixel px (int cw) (int w) cx cy) ps data
    = Some (overlay px (int cw) (int ch) cx cy w h data)"
proof -
  let ?at = "frame_index cx cy (int w)" and ?f = "\<lambda>p. over (px ! cursor_index (int cw) p)"
  have draw: "draw_pixel px (int cw) (int w) cx cy p d = Some (d[?at p := ?f p (d ! ?at p)])"
    if "p \<in> set ps" "length d = w * h" for p d
    using draw_covered [of p cw ch cx cy w h px d] that assms by simp
  have "\<forall>p \<in> set ps. ?at p < w * h" using assms(1) frame_index_in(2) by blast
  from draw_pixels_at [of ps "w * h", OF draw frame_index_inj [of cx cy w "int cw" "int ch" h, folded assms(1)]
      assms(2) this assms(4)]
  obtain data' where run: "draw_pixels (draw_pixel px (int cw) (int w) cx cy) ps data = Some data'"
    and len: "length data' = w * h"
    and hit: "\<And>p. p \<in> set ps \<Longrightarrow> data' ! ?at p = ?f p (data ! ?at p)"
    and miss: "\<And>k. k \<notin> ?at ` set ps \<Longrightarrow> data' ! k = data ! k" by metis
  have "data' ! k = overlay px (int cw) (int ch) cx cy w h data ! k" if k: "k < w * h" for k
  proof -
    let ?p = "(int (k div w) - cy, int (k mod w) - cx)"
    have w: "0 < w" using k by (cases w) auto
    then have "k div w < h" "k mod w < w" using k by (simp_all add: less_mult_imp_div_less mult.commute)
    then have mem: "?p \<in> set ps \<longleftrightarrow> 0 \<le> fst ?p \<and> fst ?p < int ch \<and> 0 \<le> snd ?p \<and> snd ?p < int cw"
      by (auto simp: assms(1) covered_def)
    show ?thesis
    proof (cases "?p \<in> set ps")
      case True
      from hit [OF True] show ?thesis
        using mem True k by (simp add: frame_index_back overlay_def over_def cursor_index_def Let_def)
    next
      case False
      have "k \<notin> ?at ` set ps"
      proof
        assume "k \<in> ?at ` set ps"
        then obtain q where q: "q \<in> set ps" "?at q = k" by auto
        have "q = ?p" by (rule frame_index_at [OF q(1) [unfolded assms(1)] q(2)])
        then show False using q(1) False by simp
      qed
      then have "data' ! k = data ! k" by (rule miss)
      moreover have "\<not> (0 \<le> fst ?p \<and> fst ?p < int ch \<and> 0 \<le> snd ?p \<and> snd ?p < int cw)" using mem False by blast
      ultimately show ?thesis using k by (simp add: overlay_def Let_def) blast
    qed
  qed
  then have "data' = overlay px (int cw) (int ch) cx cy w h data"
    using len by (intro nth_equalityI) (simp_all add: overlay_def)
  then show ?thesis using run by simp
qed

lemma composite_cursor_overlay:
  assumes "ci_x img - ci_xhot img - cap_x = cx" "ci_y img - ci_yhot img - cap_y = cy"
    and "cx \<le> int w" "cy \<le> int h"
    and "length (ci_pixels img) = ci_width img * ci_height img" "length data = w * h"
    and "int (ci_width img * ci_height img) < 2 ^ 31" "int (w * h) < 2 ^ 31"
  shows "composite_cursor (Some img) cap_x cap_y w h data
     = Some (overlay (ci_pixels img) (int (ci_width img)) (int (ci_height img)) cx cy w h data)"
proof -
  let ?cw = "int (ci_width img)" and ?ch = "int (ci_height img)"
  obtain i0 i1 where ir: "cursor_range cx ?cw (int w) = (i0, i1)" by fastforce
  obtain j0 j1 where jr: "cursor_range cy ?ch (int h) = (j0, j1)" by fastforce
  define ps where "ps = concat (map (\<lambda>j. map (Pair j) [i0..i1 - 1]) [j0..j1 - 1])"
  have ps: "set ps = covered ?cw ?ch cx cy (int w) (int h)"
  proof (rule set_eqI)
    fix p :: "int \<times> int"
    show "p \<in> set ps \<longleftrightarrow> p \<in> covered ?cw ?ch cx cy (int w) (int h)"
      using cursor_range_inside [OF ir, of "snd p"] cursor_range_inside [OF jr, of "fst p"] assms(3,4)
      by (cases p) (simp only: ps_def set_positions, simp add: covered_def conj_ac)
  qed
  have empty: "set ps = {}" if "i0 \<ge> i1 \<or> j0 \<ge> j1" using that by (auto simp: ps_def)
  have "composite_cursor (Some img) cap_x cap_y w h data
      = draw_pixels (draw_pixel (ci_pixels img) ?cw (int w) cx cy) ps data"
  proof (cases "i0 \<ge> i1 \<or> j0 \<ge> j1")
    case True
    then show ?thesis using empty assms(1,2) ir jr by (simp add: composite_cursor_def Let_def)
  next
    case False
    then show ?thesis using assms(1,2) ir jr by (simp add: composite_cursor_def Let_def ps_def)
  qed
  also have "\<dots> = Some (overlay (ci_pixels img) ?cw ?ch cx cy w h data)"
    using ps assms(5-8) by (intro draw_all_overlay) (simp_all add: ps_def distinct_positions)
  finally show ?thesis .
qed

text \<open>A cursor that starts to the right of the frame, or below it, makes a range start below zero, and the
  first access to the cursor's pixels is out of range.\<close>

lemma composite_cursor_beside:
  assumes "ci_x img - ci_xhot img - cap_x = cx" "ci_y img - ci_yhot img - cap_y = cy"
    and "int w < cx \<and> 0 \<le> cy \<and> cy < int h \<or> int h < cy \<and> cx < int w \<and> - int (ci_width img) < cx"
    and "0 < ci_width img" "0 < ci_height img" "0 < w" "ci_width img \<le> 4096" "cx < 2 ^ 17" "cy < 2 ^ 17"
  shows "composite_cursor (Some img) cap_x cap_y w h data = None"
proof -
  let ?cw = "int (ci_width img)" and ?ch = "int (ci_height img)"
  obtain i0 i1 where ir: "cursor_range cx ?cw (int w) = (i0, i1)" by fastforce
  obtain j0 j1 where jr: "cursor_range cy ?ch (int h) = (j0, j1)" by fastforce
  have run: "i0 < i1" "j0 < j1" using ir jr assms(3-6) by (auto simp: cursor_range_def)
  have first: "[i0..i1 - 1] = i0 # [i0 + 1..i1 - 1]" "[j0..j1 - 1] = j0 # [j0 + 1..j1 - 1]"
    using run by (simp_all add: upto_rec1)
  have neg: "j0 * ?cw + i0 < 0"
  proof (cases "int w < cx \<and> 0 \<le> cy \<and> cy < int h")
    case True
    then have "j0 = 0" "i0 < 0" using ir jr assms(4,5) by (auto simp: cursor_range_def)
    then show ?thesis by simp
  next
    case False
    then have c: "int h < cy" "cx < int w" "- ?cw < cx" using assms(3) by auto
    then have "j0 \<le> - 1" "i0 < ?cw" using ir jr assms(4,5) by (auto simp: cursor_range_def)
    moreover have "j0 * ?cw \<le> - 1 * ?cw" using \<open>j0 \<le> - 1\<close> by (intro mult_right_mono) simp_all
    ultimately show ?thesis by simp
  qed
  have low: "- (2 ^ 31) \<le> j0 * ?cw + i0"
  proof -
    have low: "- 131072 \<le> j0" "- 131072 \<le> i0" 
      using cursor_range_low [OF ir, of 131072] cursor_range_low [OF jr, of 131072] assms(8,9) by simp_all
    have "- 131072 * ?cw \<le> j0 * ?cw" using low(1) by (rule mult_right_mono) simp
    moreover have "?cw \<le> 4096" using assms(7) by simp
    ultimately have "- (2147483648 :: int) \<le> j0 * ?cw + i0" using low(2) by linarith
    then show ?thesis by simp
  qed
  have "checked_nth (ci_pixels img) (wrap_i32 (j0 * ?cw + i0)) = None"
    using neg low by (simp add: wrap_i32_id checked_nth_def)
  then show ?thesis
    using assms(1,2) ir jr run first by (simp add: composite_cursor_def draw_pixel_def Let_def)
qed

end
