(* ===== verification/X11Recorder.thy ===== *)
theory X11Recorder
  imports X11Window CursorOverlay
begin

text \<open>
  The X11 recorder of \<open>crates/rylus-capture/src/x11.rs\<close> (\<open>sysv_shm\<close>, \<open>RecorderX11\<close>): System V segments
  shared with the X server, their growth, the choice of what to capture and the release of
  everything.  Segments and their attachment are the record \<open>shm_world\<close>; which calls succeed and what
  the server draws are the replies of one call, the record \<open>shm_replies\<close>.
\<close>

section \<open>Segments\<close>

record shm_world =
  sw_next :: nat
  sw_segs :: "nat \<Rightarrow> nat option"
  sw_next_xid :: nat
  sw_attached :: "nat \<Rightarrow> nat option"
  sw_redirected :: "window list"

record shm_replies =
  sr_shmget :: bool
  sr_shmat :: bool
  sr_generate_id :: bool
  sr_attach :: bool
  sr_image :: "window option \<Rightarrow> int \<Rightarrow> int \<Rightarrow> nat \<Rightarrow> nat \<Rightarrow> pixel list option"
  sr_pixmap :: bool
  sr_cursor :: "cursor_image option"

text \<open>\<open>sysv_shm::alloc\<close>: the kernel refuses a segment of no bytes; one that cannot be mapped is removed.\<close>

definition shm_alloc :: "shm_replies \<Rightarrow> nat \<Rightarrow> shm_world \<Rightarrow> (string + nat) \<times> shm_world" where
  "shm_alloc a bytes w =
     (if \<not> sr_shmget a \<or> bytes = 0 then (Inl ''shmget failed'', w)
      else if \<not> sr_shmat a then (Inl ''shmat failed'', w\<lparr>sw_next := sw_next w + 1\<rparr>)
      else (Inr (sw_next w),
            w\<lparr>sw_next := sw_next w + 1, sw_segs := (sw_segs w)(sw_next w \<mapsto> bytes)\<rparr>))"

definition shm_free :: "nat \<Rightarrow> shm_world \<Rightarrow> shm_world" where
  "shm_free shm_id w = w\<lparr>sw_segs := (sw_segs w)(shm_id := None)\<rparr>"

text \<open>\<open>conn.generate_id()\<close>, \<open>shm_attach\<close>, \<open>shm_detach\<close>.\<close>

definition generate_id :: "shm_replies \<Rightarrow> shm_world \<Rightarrow> (string + nat) \<times> shm_world" where
  "generate_id a w =
     (if sr_generate_id a then (Inr (sw_next_xid w), w\<lparr>sw_next_xid := sw_next_xid w + 1\<rparr>)
      else (Inl ''generate_id'', w))"

definition shm_attach :: "shm_replies \<Rightarrow> nat \<Rightarrow> nat \<Rightarrow> shm_world \<Rightarrow> (string + unit) \<times> shm_world" where
  "shm_attach a seg shm_id w =
     (if sr_attach a then (Inr (), w\<lparr>sw_attached := (sw_attached w)(seg \<mapsto> shm_id)\<rparr>)
      else (Inl ''ShmAttach failed'', w))"

definition shm_detach :: "nat \<Rightarrow> shm_world \<Rightarrow> shm_world" where
  "shm_detach seg w = w\<lparr>sw_attached := (sw_attached w)(seg := None)\<rparr>"

section \<open>The recorder\<close>

record x11_recorder =
  xr_target :: capture_target
  xr_capture_cursor :: bool
  xr_has_xfixes :: bool
  xr_has_composite :: bool
  xr_is_wayland :: bool
  xr_seg :: nat
  xr_id :: nat
  xr_capacity :: nat
  xr_width :: nat
  xr_height :: nat
  xr_last_ok :: bool

text \<open>The extensions and the session type found at start.\<close>

record x11_features =
  xf_shm :: bool
  xf_xfixes :: bool
  xf_composite :: bool
  xf_wayland :: bool

definition composite_redirect :: "capture_target \<Rightarrow> bool \<Rightarrow> shm_world \<Rightarrow> shm_world" where
  "composite_redirect target has_composite w = (case target of
      Window_Target win True \<Rightarrow> if has_composite then w\<lparr>sw_redirected := win # sw_redirected w\<rparr> else w
    | _ \<Rightarrow> w)"

definition composite_unredirect :: "capture_target \<Rightarrow> bool \<Rightarrow> shm_world \<Rightarrow> shm_world" where
  "composite_unredirect target has_composite w = (case target of
      Window_Target win True \<Rightarrow> if has_composite then w\<lparr>sw_redirected := remove1 win (sw_redirected w)\<rparr> else w
    | _ \<Rightarrow> w)"

text \<open>\<open>width as u32 * height as u32 * bytes_per_pixel\<close> wraps at 32 bits.\<close>

definition recorder_x11_new ::
  "x11_features \<Rightarrow> x11_env \<Rightarrow> shm_replies \<Rightarrow> capture_target \<Rightarrow> bool \<Rightarrow> shm_world
     \<Rightarrow> (string + x11_recorder) \<times> shm_world" where
  "recorder_x11_new f env a target capture_cursor w =
     (if \<not> xf_shm f then (Inl ''XShmExtension is not available but required!'', w)
      else case get_target_geometry env target of
        Inl e \<Rightarrow> (Inl e, w)
      | Inr (_, _, width, height) \<Rightarrow>
          let w = composite_redirect target (xf_composite f) w;
              seg_size = (width * height * 4) mod 2 ^ 32
          in (case shm_alloc a seg_size w of
                (Inl e, w) \<Rightarrow> (Inl e, w)
              | (Inr shm_id, w) \<Rightarrow>
                  (case generate_id a w of
                     (Inl e, w) \<Rightarrow> (Inl e, w)
                   | (Inr seg, w) \<Rightarrow>
                       (case shm_attach a seg shm_id w of
                          (Inl e, w) \<Rightarrow> (Inl e, w)
                        | (Inr _, w) \<Rightarrow>
                            (Inr \<lparr>xr_target = target, xr_capture_cursor = capture_cursor,
                               xr_has_xfixes = xf_xfixes f, xr_has_composite = xf_composite f,
                               xr_is_wayland = xf_wayland f, xr_seg = seg, xr_id = shm_id,
                               xr_capacity = seg_size, xr_width = width, xr_height = height,
                               xr_last_ok = True\<rparr>, w)))))"

text \<open>\<open>ensure_shm_capacity\<close>: the new segment is there before the old one goes.  The sizes are \<open>u16\<close>, so the
  product of \<open>usize\<close> values is exact.\<close>

definition ensure_shm_capacity ::
  "shm_replies \<Rightarrow> nat \<Rightarrow> nat \<Rightarrow> x11_recorder \<Rightarrow> shm_world \<Rightarrow> (string + unit) \<times> x11_recorder \<times> shm_world" where
  "ensure_shm_capacity a new_width new_height r w =
     (let needed = new_width * new_height * 4
      in if needed \<le> xr_capacity r then (Inr (), r\<lparr>xr_width := new_width, xr_height := new_height\<rparr>, w)
         else case shm_alloc a needed w of
           (Inl e, w) \<Rightarrow> (Inl e, r, w)
         | (Inr new_id, w) \<Rightarrow>
             (case generate_id a w of
                (Inl e, w) \<Rightarrow> (Inl e, r, w)
              | (Inr new_seg, w) \<Rightarrow>
                  (case shm_attach a new_seg new_id w of
                     (Inl e, w) \<Rightarrow> (Inl e, r, shm_free new_id w)
                   | (Inr _, w) \<Rightarrow>
                       (Inr (), r\<lparr>xr_seg := new_seg, xr_id := new_id, xr_capacity := needed,
                          xr_width := new_width, xr_height := new_height\<rparr>,
                        shm_free (xr_id r) (shm_detach (xr_seg r) w)))))"

text \<open>\<open>Drop\<close>.\<close>

definition recorder_x11_drop :: "x11_recorder \<Rightarrow> shm_world \<Rightarrow> shm_world" where
  "recorder_x11_drop r w =
     shm_free (xr_id r) (shm_detach (xr_seg r) (composite_unredirect (xr_target r) (xr_has_composite r) w))"

section \<open>Capture\<close>

text \<open>What is drawn into the segment: the root or a window at a position, or a window's own pixmap.\<close>

datatype image_request = FromDrawable window int int | FromPixmap window

definition as_i16 :: "int \<Rightarrow> int" where
  "as_i16 k = (k + 2 ^ 15) mod 2 ^ 16 - 2 ^ 15"

definition is_offscreen :: "x11_env \<Rightarrow> bool \<Rightarrow> int \<Rightarrow> int \<Rightarrow> nat \<Rightarrow> nat \<Rightarrow> bool" where
  "is_offscreen env is_regular x y width height \<longleftrightarrow> is_regular
     \<and> (x < 0 \<or> y < 0 \<or> x + int width > int (fst (xe_screen env))
        \<or> y + int height > int (snd (xe_screen env)))"

definition choose_image ::
  "x11_env \<Rightarrow> capture_target \<Rightarrow> bool \<Rightarrow> int \<Rightarrow> int \<Rightarrow> nat \<Rightarrow> nat \<Rightarrow> image_request" where
  "choose_image env target is_wayland x y width height = (case target of
      Window_Target win is_regular \<Rightarrow>
        let offscreen = is_offscreen env is_regular x y width height
        in if \<not> is_wayland \<and> \<not> offscreen then
             (if get_active_window env = Some win then FromDrawable (xe_root env) (as_i16 x) (as_i16 y)
              else if offscreen then FromPixmap win
              else FromDrawable win 0 0)
           else if offscreen then FromPixmap win
           else FromDrawable win 0 0
    | Rect_Target _ _ _ _ _ \<Rightarrow> FromDrawable (xe_root env) (as_i16 x) (as_i16 y))"

text \<open>\<open>shm_get_image\<close> and \<open>capture_offscreen\<close>: the pixels the server writes, if it does.\<close>

definition take_image :: "shm_replies \<Rightarrow> bool \<Rightarrow> nat \<Rightarrow> nat \<Rightarrow> image_request \<Rightarrow> pixel list option" where
  "take_image a has_composite w h req = (case req of
      FromDrawable d x y \<Rightarrow> sr_image a (Some d) x y w h
    | FromPixmap win \<Rightarrow>
        if has_composite \<and> sr_generate_id a \<and> sr_pixmap a then sr_image a None 0 0 w h else None)"

text \<open>The outcome of \<open>capture\<close>: an error with its code, a frame with its size and pixels, or a panic.\<close>

datatype capture_outcome = CaptureErr int | CaptureFrame nat nat "pixel list" | CapturePanic

text \<open>Resizing when the target has changed, and drawing: the outcome and the new \<open>last_capture_ok\<close>.\<close>

definition capture_resize ::
  "shm_replies \<Rightarrow> nat \<Rightarrow> nat \<Rightarrow> x11_recorder \<Rightarrow> shm_world \<Rightarrow> (string + unit) \<times> x11_recorder \<times> shm_world" where
  "capture_resize a width height r w =
     (if width \<noteq> xr_width r \<or> height \<noteq> xr_height r then ensure_shm_capacity a width height r w
      else (Inr (), r, w))"

definition capture_draw ::
  "x11_env \<Rightarrow> shm_replies \<Rightarrow> int \<times> int \<times> nat \<times> nat \<Rightarrow> x11_recorder \<Rightarrow> capture_outcome \<times> bool" where
  "capture_draw env a geometry r =
     (let (x, y, width, height) = geometry
      in case take_image a (xr_has_composite r) (xr_width r) (xr_height r)
           (choose_image env (xr_target r) (xr_is_wayland r) x y width height) of
         None \<Rightarrow> (CaptureErr (if xr_last_ok r then 1 else 2), False)
       | Some img \<Rightarrow>
           if xr_capture_cursor r \<and> xr_has_xfixes r then
             (case composite_cursor (sr_cursor a) x y (xr_width r) (xr_height r) img of
                None \<Rightarrow> (CapturePanic, True)
              | Some img \<Rightarrow> (CaptureFrame (xr_width r) (xr_height r) img, True))
           else (CaptureFrame (xr_width r) (xr_height r) img, True))"

definition recorder_x11_capture ::
  "x11_env \<Rightarrow> shm_replies \<Rightarrow> x11_recorder \<Rightarrow> shm_world \<Rightarrow> capture_outcome \<times> x11_recorder \<times> shm_world" where
  "recorder_x11_capture env a r w = (case get_target_geometry env (xr_target r) of
      Inl e \<Rightarrow> (CaptureErr 1, r, w)
    | Inr (x, y, width, height) \<Rightarrow>
        (case capture_resize a width height r w of
           (Inl e, r, w) \<Rightarrow> (CaptureErr 1, r, w)
         | (Inr _, r, w) \<Rightarrow>
             (case capture_draw env a (x, y, width, height) r of
                (out, ok) \<Rightarrow> (out, r\<lparr>xr_last_ok := ok\<rparr>, w))))"

text \<open>Captures one after the other; a panic ends them.\<close>

fun recorder_run ::
  "(x11_env \<times> shm_replies) list \<Rightarrow> x11_recorder \<Rightarrow> shm_world
     \<Rightarrow> capture_outcome list \<times> x11_recorder \<times> shm_world" where
  "recorder_run [] r w = ([], r, w)"
| "recorder_run ((env, a) # steps) r w =
     (let (out, r, w) = recorder_x11_capture env a r w
      in if out = CapturePanic then ([out], r, w)
         else let (outs, r, w) = recorder_run steps r w in (out # outs, r, w))"

section \<open>The invariant\<close>

definition shm_fresh :: "shm_world \<Rightarrow> bool" where
  "shm_fresh w \<longleftrightarrow> (\<forall>i \<ge> sw_next w. sw_segs w i = None) \<and> (\<forall>i \<ge> sw_next_xid w. sw_attached w i = None)"

text \<open>The recorder's segment is there, is the one the server writes to, and holds a frame; \<open>others\<close> are the
  segments that are not its own.\<close>

definition recorder_ok :: "x11_recorder \<Rightarrow> shm_world \<Rightarrow> bool" where
  "recorder_ok r w \<longleftrightarrow> shm_fresh w \<and> sw_segs w (xr_id r) = Some (xr_capacity r)
     \<and> sw_attached w (xr_seg r) = Some (xr_id r) \<and> xr_width r * xr_height r * 4 \<le> xr_capacity r"

definition others :: "x11_recorder \<Rightarrow> shm_world \<Rightarrow> nat \<Rightarrow> nat option" where
  "others r w = (sw_segs w)(xr_id r := None)"

lemmas shm_defs = shm_alloc_def generate_id_def shm_attach_def shm_free_def shm_detach_def
  composite_redirect_def composite_unredirect_def

lemma redirect_keeps:
  "sw_segs (composite_redirect t b w) = sw_segs w" "sw_attached (composite_redirect t b w) = sw_attached w"
  "sw_next (composite_redirect t b w) = sw_next w" "sw_next_xid (composite_redirect t b w) = sw_next_xid w"
  "sw_segs (composite_unredirect t b w) = sw_segs w"
  by (simp_all add: composite_redirect_def composite_unredirect_def split: capture_target.split bool.split)

lemma recorder_new_ok:
  assumes "recorder_x11_new f env a target cc w = (Inr r, w')" "shm_fresh w"
    and "xr_width r * xr_height r * 4 < 2 ^ 32"
  shows "recorder_ok r w'" "others r w' = sw_segs w"
proof -
  have w': "xr_id r = sw_next w" "xr_seg r = sw_next_xid w"
      "xr_capacity r = (xr_width r * xr_height r * 4) mod 2 ^ 32"
      "sw_segs w' = (sw_segs w)(sw_next w \<mapsto> xr_capacity r)"
      "sw_attached w' = (sw_attached w)(sw_next_xid w \<mapsto> sw_next w)"
      "sw_next w' = sw_next w + 1" "sw_next_xid w' = sw_next_xid w + 1"
    using assms(1)
    by (auto simp: recorder_x11_new_def shm_alloc_def generate_id_def shm_attach_def redirect_keeps Let_def
        split: if_splits sum.splits prod.splits)
  have "xr_capacity r = xr_width r * xr_height r * 4" using w'(3) assms(3) by (simp only: mod_less)
  then show "recorder_ok r w'" "others r w' = sw_segs w"
    using w' assms(2) by (auto simp: recorder_ok_def others_def shm_fresh_def)
qed

text \<open>Growing: the invariant holds in every case, and no segment is left over if an identifier was given.\<close>

lemma ensure_ok:
  assumes "ensure_shm_capacity a nw nh r w = (res, r', w')" "recorder_ok r w"
  shows "recorder_ok r' w'" "sr_generate_id a \<Longrightarrow> others r' w' = others r w"
    "res = Inr () \<Longrightarrow> xr_width r' = nw \<and> xr_height r' = nh"
proof -
  have id: "xr_id r < sw_next w" "xr_seg r < sw_next_xid w" "sw_segs w (sw_next w) = None"
    using assms(2) by (auto simp: recorder_ok_def shm_fresh_def) (metis leI option.distinct(1))+
  show "recorder_ok r' w'" "res = Inr () \<Longrightarrow> xr_width r' = nw \<and> xr_height r' = nh"
    using assms id
    by (auto simp: ensure_shm_capacity_def recorder_ok_def shm_fresh_def shm_alloc_def generate_id_def
        shm_attach_def shm_free_def shm_detach_def Let_def split: if_splits)
  show "others r' w' = others r w" if "sr_generate_id a"
    using assms id that
    by (auto simp: ensure_shm_capacity_def others_def shm_alloc_def generate_id_def
        shm_attach_def shm_free_def shm_detach_def Let_def fun_eq_iff split: if_splits)
qed

lemma recorder_ok_flag [simp]: "recorder_ok (r\<lparr>xr_last_ok := b\<rparr>) w = recorder_ok r w"
  "others (r\<lparr>xr_last_ok := b\<rparr>) w = others r w"
  by (simp_all add: recorder_ok_def others_def)

lemma resize_ok:
  assumes "capture_resize a nw nh r w = (res, r', w')" "recorder_ok r w"
  shows "recorder_ok r' w'" "sr_generate_id a \<Longrightarrow> others r' w' = others r w"
    "res = Inr () \<Longrightarrow> xr_width r' = nw \<and> xr_height r' = nh"
proof -
  consider "ensure_shm_capacity a nw nh r w = (res, r', w')"
    | "nw = xr_width r" "nh = xr_height r" "r' = r" "w' = w"
    using assms(1) unfolding capture_resize_def by (metis prod.inject)
  then show "recorder_ok r' w'" "sr_generate_id a \<Longrightarrow> others r' w' = others r w"
    "res = Inr () \<Longrightarrow> xr_width r' = nw \<and> xr_height r' = nh"
    by (cases; use ensure_ok [OF _ assms(2)] assms(2) in metis)+
qed

lemma draw_frame:
  "capture_draw env a g r = (CaptureFrame w h px, ok) \<Longrightarrow> w = xr_width r \<and> h = xr_height r \<and> ok"
  by (auto simp: capture_draw_def Let_def split: prod.splits option.splits if_splits)

lemma capture_ok:
  assumes "recorder_x11_capture env a r w = (out, r', w')" "recorder_ok r w"
  shows "recorder_ok r' w'" "sr_generate_id a \<Longrightarrow> others r' w' = others r w"
    "out = CaptureFrame fw fh px \<Longrightarrow> fw = xr_width r' \<and> fh = xr_height r'"
proof -
  consider e where "get_target_geometry env (xr_target r) = Inl e"
    | x y nw nh where "get_target_geometry env (xr_target r) = Inr (x, y, nw, nh)"
    by (metis obj_sumE prod_cases4)
  then have "recorder_ok r' w' \<and> (sr_generate_id a \<longrightarrow> others r' w' = others r w)
      \<and> (out = CaptureFrame fw fh px \<longrightarrow> fw = xr_width r' \<and> fh = xr_height r')"
  proof cases
    case 1
    then show ?thesis using assms by (auto simp: recorder_x11_capture_def)
  next
    case (2 x y nw nh)
    obtain res r1 w1 where rs: "capture_resize a nw nh r w = (res, r1, w1)" using prod_cases3 by blast
    obtain out1 ok where dr: "capture_draw env a (x, y, nw, nh) r1 = (out1, ok)" by fastforce
    show ?thesis
      using assms(1) 2 rs dr resize_ok [OF rs assms(2)] draw_frame [of env a "(x, y, nw, nh)" r1 fw fh px ok]
      by (auto simp: recorder_x11_capture_def split: sum.splits)
  qed
  then show "recorder_ok r' w'" "sr_generate_id a \<Longrightarrow> others r' w' = others r w"
    "out = CaptureFrame fw fh px \<Longrightarrow> fw = xr_width r' \<and> fh = xr_height r'" by auto
qed

lemma run_ok:
  assumes "recorder_run steps r w = (outs, r', w')" "recorder_ok r w"
  shows "recorder_ok r' w' \<and> ((\<forall>(env, a) \<in> set steps. sr_generate_id a) \<longrightarrow> others r' w' = others r w)
    \<and> (outs \<noteq> [] \<longrightarrow> last outs = CaptureFrame fw fh px \<longrightarrow> fw = xr_width r' \<and> fh = xr_height r')"
  using assms
proof (induction steps r w arbitrary: outs r' w' rule: recorder_run.induct)
  case (1 r w)
  then show ?case by simp
next
  case (2 env a steps r w)
  obtain out r1 w1 where c: "recorder_x11_capture env a r w = (out, r1, w1)" using prod_cases3 by blast
  note ok = capture_ok [OF c 2(3)]
  show ?case
  proof (cases "out = CapturePanic")
    case True
    then show ?thesis using 2(2) c ok by auto
  next
    case False
    obtain outs2 r2 w2 where rest: "recorder_run steps r1 w1 = (outs2, r2, w2)" using prod_cases3 by blast
    have ih: "recorder_ok r2 w2 \<and> ((\<forall>(env, a) \<in> set steps. sr_generate_id a) \<longrightarrow> others r2 w2 = others r1 w1)
      \<and> (outs2 \<noteq> [] \<longrightarrow> last outs2 = CaptureFrame fw fh px \<longrightarrow> fw = xr_width r2 \<and> fh = xr_height r2)"
      using 2(1) [OF c [symmetric] refl refl False rest ok(1)] .
    have res: "outs = out # outs2" "r' = r2" "w' = w2" using 2(2) c rest False by auto
    have "outs2 = [] \<longrightarrow> r2 = r1" using rest by (cases steps) (auto split: prod.splits if_splits)
    then show ?thesis using ih ok res by (cases "outs2 = []") auto
  qed
qed

section \<open>Release\<close>

lemma drop_releases: "sw_segs (recorder_x11_drop r w) = others r w"
  by (simp add: recorder_x11_drop_def shm_free_def shm_detach_def others_def redirect_keeps)

text \<open>Without an identifier for it, a segment that was just allocated is left behind, when growing as when
  starting; starting also leaves it when the attach request cannot be sent.\<close>

lemma grow_leaks:
  assumes "recorder_ok r w" "xr_capacity r < nw * nh * 4"
    and "sr_shmget a" "sr_shmat a" "\<not> sr_generate_id a"
  shows "\<exists>e w'. ensure_shm_capacity a nw nh r w = (Inl e, r, w')
    \<and> others r w (sw_next w) = None \<and> others r w' (sw_next w) = Some (nw * nh * 4)"
proof -
  have id: "xr_id r < sw_next w" "sw_segs w (sw_next w) = None"
    using assms(1) by (auto simp: recorder_ok_def shm_fresh_def) (metis leI option.distinct(1))
  moreover have "nw * nh * 4 \<noteq> 0" using assms(2) by linarith
  ultimately show ?thesis
    using assms(2-5) by (simp add: ensure_shm_capacity_def shm_alloc_def generate_id_def others_def Let_def)
qed

lemma start_leaks:
  assumes "shm_fresh w" "xf_shm f" "get_target_geometry env target = Inr (x, y, nw, nh)"
    and "0 < (nw * nh * 4) mod 2 ^ 32" "sr_shmget a" "sr_shmat a" "sr_generate_id a" "\<not> sr_attach a"
  shows "\<exists>e w'. recorder_x11_new f env a target cc w = (Inl e, w')
    \<and> sw_segs w (sw_next w) = None \<and> sw_segs w' (sw_next w) \<noteq> None"
  using assms
  by (auto simp: recorder_x11_new_def shm_alloc_def generate_id_def shm_attach_def redirect_keeps
      shm_fresh_def Let_def)

text \<open>A mouse cursor to the right of the captured monitor ends the capture thread.\<close>

lemma cursor_beside_ends_capture:
  assumes "capture_draw env a (x, y, width, height) (r\<lparr>xr_capture_cursor := False\<rparr>) = (CaptureFrame fw fh img, ok)"
    and "xr_capture_cursor r" "xr_has_xfixes r" "sr_cursor a = Some cur"
    and "composite_cursor (Some cur) x y (xr_width r) (xr_height r) img = None"
  shows "capture_draw env a (x, y, width, height) r = (CapturePanic, True)"
  using assms by (auto simp: capture_draw_def split: option.splits)

end
