(* ===== verification/PipeWireStream.thy ===== *)
theory PipeWireStream
  imports Pixel
begin

text \<open>
  The PipeWire recorder of \<open>crates/rylus-capture/src/pipewire.rs\<close>: the stream's callbacks, the state they
  share with the recorder, the copy out of a buffer, the removal of row padding and \<open>capture\<close>.  A round
  of the main loop is the list of callbacks it dispatches.
\<close>

section \<open>Formats\<close>

datatype video_format = UnknownFormat | BGRx | RGBx | BGRA | RGBA | OtherFormat nat

definition bytes_per_pixel :: "video_format \<Rightarrow> usize" where
  "bytes_per_pixel f = (case f of BGRx \<Rightarrow> 4 | RGBx \<Rightarrow> 4 | BGRA \<Rightarrow> 4 | RGBA \<Rightarrow> 4 | _ \<Rightarrow> 0)"

text \<open>The formats offered in the negotiation, the default first.\<close>

definition offered_formats :: "video_format list" where
  "offered_formats = [BGRx, BGRx, RGBx, BGRA, RGBA]"

section \<open>State\<close>

text \<open>\<open>StreamUserData\<close> of the callbacks and \<open>SharedFrameState\<close>.\<close>

record user_data =
  us_format :: video_format
  us_width :: usize
  us_height :: usize
  us_valid :: bool

record shared_frame =
  sf_frame :: "byte list"
  sf_width :: usize
  sf_height :: usize
  sf_stride :: usize
  sf_format :: video_format
  sf_format_valid :: bool
  sf_new_frame :: bool
  sf_error :: bool

record pw_stream =
  ps_user :: user_data
  ps_shared :: shared_frame

definition pw_stream_new :: pw_stream where
  "pw_stream_new =
     \<lparr>ps_user = \<lparr>us_format = UnknownFormat, us_width = 0, us_height = 0, us_valid = False\<rparr>,
      ps_shared = \<lparr>sf_frame = [], sf_width = 0, sf_height = 0, sf_stride = 0, sf_format = UnknownFormat,
        sf_format_valid = False, sf_new_frame = False, sf_error = False\<rparr>\<rparr>"

section \<open>Copying a buffer\<close>

datatype dma_call = SyncStart int | Mmap int nat nat | Munmap nat | SyncEnd int

text \<open>\<open>mmap_buffer_data\<close>; \<open>mapped offset size\<close>: the bytes at a successful mapping.\<close>

definition mmap_buffer_data ::
  "int \<Rightarrow> nat \<Rightarrow> nat \<Rightarrow> bool \<Rightarrow> (nat \<Rightarrow> nat \<Rightarrow> byte list option) \<Rightarrow> byte list option \<times> dma_call list" where
  "mmap_buffer_data fd offset size_of is_dmabuf mapped =
     (if size_of = 0 then (None, [])
      else
        let start = (if is_dmabuf then [SyncStart fd] else []);
            finish = (if is_dmabuf then [SyncEnd fd] else [])
        in case mapped offset size_of of
             None \<Rightarrow> (None, start @ [Mmap fd offset size_of] @ finish)
           | Some data \<Rightarrow> (Some data, start @ [Mmap fd offset size_of, Munmap size_of] @ finish))"

datatype data_type = MemPtr | DmaBuf | MemFd | OtherData

text \<open>The first data block of a dequeued buffer; \<open>bd_stride\<close> is an \<open>i32\<close>.\<close>

record buffer_data =
  bd_type :: data_type
  bd_size :: nat
  bd_offset :: nat
  bd_stride :: int
  bd_slice :: "byte list option"
  bd_fd :: int
  bd_mapped :: "nat \<Rightarrow> nat \<Rightarrow> byte list option"

definition as_usize :: "int \<Rightarrow> usize" where
  "as_usize k = nat (k mod 2 ^ 64)"

definition frame_data :: "buffer_data \<Rightarrow> byte list option" where
  "frame_data d = (case bd_type d of
      MemPtr \<Rightarrow> (case bd_slice d of
          Some slice \<Rightarrow>
            let last = bd_offset d + bd_size d
            in if last \<le> length slice then Some (take (bd_size d) (drop (bd_offset d) slice)) else None
        | None \<Rightarrow> None)
    | OtherData \<Rightarrow> None
    | ty \<Rightarrow> if bd_fd d < 0 then None
            else fst (mmap_buffer_data (bd_fd d) (bd_offset d) (bd_size d) (ty = DmaBuf) (bd_mapped d)))"

section \<open>The callbacks\<close>

text \<open>What \<open>param_changed\<close> makes of a parameter: nothing it uses, or a raw video format with its size.\<close>

datatype pw_event =
    StateChanged bool
  | ParamChanged "(video_format \<times> usize \<times> usize) option"
  | Process "buffer_data list option"

definition on_state_changed :: "bool \<Rightarrow> pw_stream \<Rightarrow> pw_stream" where
  "on_state_changed terminal s =
     (if terminal then s\<lparr>ps_shared := (ps_shared s)\<lparr>sf_error := True\<rparr>\<rparr> else s)"

definition on_param_changed :: "(video_format \<times> usize \<times> usize) option \<Rightarrow> pw_stream \<Rightarrow> pw_stream" where
  "on_param_changed param s = (case param of
      None \<Rightarrow> s
    | Some (f, w, h) \<Rightarrow>
        s\<lparr>ps_user := \<lparr>us_format = f, us_width = w, us_height = h, us_valid = True\<rparr>,
          ps_shared := (ps_shared s)\<lparr>sf_format := f, sf_width := w, sf_height := h, sf_format_valid := True\<rparr>\<rparr>)"

text \<open>\<open>process\<close>: \<open>None\<close> for no buffer, \<open>[]\<close> for a buffer without data.\<close>

definition on_process :: "buffer_data list option \<Rightarrow> pw_stream \<Rightarrow> pw_stream" where
  "on_process buffer s =
     (let u = ps_user s
      in case buffer of
           None \<Rightarrow> s
         | Some [] \<Rightarrow> s
         | Some (d # _) \<Rightarrow>
             if \<not> us_valid u \<or> bd_size d = 0 \<or> bytes_per_pixel (us_format u) = 0 then s
             else
               let stride = as_usize (bd_stride d);
                   expected_stride = (if stride > 0 then stride
                                      else usize_mul (us_width u) (bytes_per_pixel (us_format u)));
                   expected_size = usize_mul expected_stride (us_height u)
               in if bd_size d < expected_size then s
                  else case frame_data d of
                         None \<Rightarrow> s
                       | Some frame \<Rightarrow>
                           s\<lparr>ps_shared := (ps_shared s)\<lparr>sf_frame := frame, sf_width := us_width u,
                              sf_height := us_height u, sf_stride := expected_stride,
                              sf_format := us_format u, sf_new_frame := True\<rparr>\<rparr>)"

fun pw_dispatch :: "pw_event \<Rightarrow> pw_stream \<Rightarrow> pw_stream" where
  "pw_dispatch (StateChanged t) s = on_state_changed t s"
| "pw_dispatch (ParamChanged p) s = on_param_changed p s"
| "pw_dispatch (Process b) s = on_process b s"

definition pw_iterate :: "pw_event list \<Rightarrow> pw_stream \<Rightarrow> pw_stream" where
  "pw_iterate events s = fold pw_dispatch events s"

text \<open>The loop at the end of \<open>new\<close>: rounds until a format is negotiated or the two seconds are over.\<close>

fun negotiate :: "pw_event list list \<Rightarrow> pw_stream \<Rightarrow> pw_stream" where
  "negotiate [] s = s"
| "negotiate (events # rounds) s =
     (let s = pw_iterate events s
      in if sf_format_valid (ps_shared s) then s else negotiate rounds s)"

section \<open>Removing row padding\<close>

text \<open>\<open>copy_within\<close> panics (\<open>None\<close>) when source or destination leave the buffer.\<close>

definition copy_within :: "nat \<Rightarrow> nat \<Rightarrow> nat \<Rightarrow> 'a list \<Rightarrow> 'a list option" where
  "copy_within src n dst buf =
     (if src + n > length buf \<or> dst + n > length buf then None
      else Some (take dst buf @ take n (drop src buf) @ drop (dst + n) buf))"

text \<open>Rows \<open>row\<close> to \<open>row + k - 1\<close>.\<close>

fun depad_rows :: "nat \<Rightarrow> nat \<Rightarrow> usize \<Rightarrow> usize \<Rightarrow> 'a list \<Rightarrow> 'a list option" where
  "depad_rows 0 row stride tight buf = Some buf"
| "depad_rows (Suc k) row stride tight buf =
     (case copy_within (usize_mul row stride) tight (usize_mul row tight) buf of
        None \<Rightarrow> None | Some buf \<Rightarrow> depad_rows k (row + 1) stride tight buf)"

definition depad_rows_in_place :: "usize \<Rightarrow> usize \<Rightarrow> usize \<Rightarrow> 'a list \<Rightarrow> 'a list option" where
  "depad_rows_in_place h stride tight_stride buf =
     (if stride = tight_stride then Some buf
      else map_option (take (usize_mul h tight_stride)) (depad_rows (h - 1) 1 stride tight_stride buf))"

section \<open>The recorder\<close>

record pw_recorder =
  pr_buffer :: "byte list"
  pr_width :: usize
  pr_height :: usize
  pr_stride :: usize
  pr_format :: video_format
  pr_has_frame :: bool
  pr_stream :: pw_stream

definition pw_recorder_new :: "pw_event list list \<Rightarrow> pw_recorder" where
  "pw_recorder_new rounds =
     \<lparr>pr_buffer = [], pr_width = 0, pr_height = 0, pr_stride = 0, pr_format = UnknownFormat,
      pr_has_frame = False, pr_stream = negotiate rounds pw_stream_new\<rparr>"

text \<open>The polling loop; the rounds are those before the deadline.  It ends on an error, on a new frame or at
  the deadline.\<close>

fun pw_poll :: "pw_event list list \<Rightarrow> pw_stream \<Rightarrow> pw_stream" where
  "pw_poll [] s = s"
| "pw_poll (events # rounds) s =
     (if sf_error (ps_shared s) \<or> sf_new_frame (ps_shared s) then s
      else pw_poll rounds (pw_iterate events s))"

text \<open>Taking the delivered frame.\<close>

definition pw_swap :: "pw_recorder \<Rightarrow> pw_recorder" where
  "pw_swap r =
     (let sf = ps_shared (pr_stream r)
      in if sf_new_frame sf then
           r\<lparr>pr_buffer := sf_frame sf, pr_width := sf_width sf, pr_height := sf_height sf,
             pr_stride := sf_stride sf, pr_format := sf_format sf, pr_has_frame := True,
             pr_stream := (pr_stream r)\<lparr>ps_shared := sf\<lparr>sf_frame := [], sf_new_frame := False\<rparr>\<rparr>\<rparr>
         else r)"

datatype pw_outcome = PwErr string | PwFrame pixel_provider | PwPanic

definition pw_serve :: "pw_recorder \<Rightarrow> pw_outcome \<times> pw_recorder" where
  "pw_serve r =
     (if \<not> pr_has_frame r then (PwErr ''No buffer available!'', r)
      else
        let w = pr_width r; h = pr_height r; stride = pr_stride r;
            tight_stride = usize_mul w (bytes_per_pixel (pr_format r))
        in if pr_format r = BGRx \<or> pr_format r = BGRA then
             (if stride = tight_stride then (PwFrame (BGR0 w h (pr_buffer r)), r)
              else (PwFrame (BGR0S w h stride (pr_buffer r)), r))
           else if pr_format r = RGBx \<or> pr_format r = RGBA then
             (case depad_rows_in_place h stride tight_stride (pr_buffer r) of
                None \<Rightarrow> (PwPanic, r)
              | Some buf \<Rightarrow>
                  let r = r\<lparr>pr_buffer := buf, pr_stride := tight_stride\<rparr>
                  in (PwFrame (RGB0 w h (pr_buffer r)), r))
           else (PwErr ''Unsupported pixel format'', r))"

definition pw_capture :: "pw_event list list \<Rightarrow> pw_recorder \<Rightarrow> pw_outcome \<times> pw_recorder" where
  "pw_capture rounds r =
     (let r = r\<lparr>pr_stream := pw_poll rounds (pr_stream r)\<rparr>
      in if sf_error (ps_shared (pr_stream r)) then (PwErr ''PipeWire stream is in an error state'', r)
         else pw_serve (pw_swap r))"

section \<open>Padding is removed\<close>

text \<open>The first \<open>t\<close> bytes of each of \<open>n\<close> rows.\<close>

definition packed_rows :: "nat \<Rightarrow> nat \<Rightarrow> nat \<Rightarrow> 'a list \<Rightarrow> 'a list" where
  "packed_rows n stride t buf = concat (map (\<lambda>r. take t (drop (r * stride) buf)) [0..<n])"

lemma packed_rows_Suc: "packed_rows (Suc n) stride t buf = packed_rows n stride t buf @ take t (drop (n * stride) buf)"
  by (simp add: packed_rows_def)

lemma length_packed_rows:
  "n * stride \<le> length buf \<Longrightarrow> t \<le> stride \<Longrightarrow> length (packed_rows n stride t buf) = n * t"
proof (induction n)
  case 0
  then show ?case by (simp add: packed_rows_def)
next
  case (Suc n)
  then have "n * stride + t \<le> length buf" by simp
  then have "length (take t (drop (n * stride) buf)) = t" by simp
  then show ?case using Suc by (simp add: packed_rows_Suc)
qed

lemma depad_rows_packed:
  assumes "t \<le> stride" "(row + k) * stride \<le> length buf" "(row + k) * stride < 2 ^ 64"
  shows "depad_rows k row stride t (packed_rows row stride t buf @ drop (row * t) buf)
    = Some (packed_rows (row + k) stride t buf @ drop ((row + k) * t) buf)"
  using assms(2,3)
proof (induction k arbitrary: row)
  case 0
  then show ?case by simp
next
  case (Suc k)
  let ?b = "packed_rows row stride t buf @ drop (row * t) buf"
  have le: "row * t \<le> row * stride" using assms(1) by simp
  have row: "row * stride + stride \<le> length buf" "row * stride + stride < 2 ^ 64"
    using Suc.prems by (simp_all add: algebra_simps)
  have len: "length (packed_rows row stride t buf) = row * t"
    using row(1) assms(1) by (intro length_packed_rows) simp_all
  have mul: "usize_mul row stride = row * stride" "usize_mul row t = row * t"
    by (rule usize_mul_exact, use row le in linarith)+
  have "take t (drop (row * stride) ?b) = take t (drop (row * stride) buf)"
    using le by (simp add: len)
  moreover have lb: "length ?b = length buf"
  proof -
    have "row * t \<le> length buf" using le row(1) by linarith
    then show ?thesis using len by simp
  qed
  moreover have "row * stride + t \<le> length buf" "row * t + t \<le> length buf"
    using le row(1) assms(1) by linarith+
  ultimately have "copy_within (row * stride) t (row * t) ?b
      = Some (packed_rows (Suc row) stride t buf @ drop (Suc row * t) buf)"
    unfolding copy_within_def lb by (simp add: len packed_rows_Suc add.commute)
  then have "depad_rows (Suc k) row stride t ?b
      = depad_rows k (Suc row) stride t (packed_rows (Suc row) stride t buf @ drop (Suc row * t) buf)"
    by (simp add: mul del: mult_Suc)
  then show ?case using Suc.IH [of "Suc row"] Suc.prems by (simp del: mult_Suc)
qed

lemma depad_in_place:
  assumes "t < stride" "h * stride \<le> length buf" "h * stride < 2 ^ 64"
  shows "depad_rows_in_place h stride t buf = Some (packed_rows h stride t buf)"
proof (cases h)
  case 0
  then show ?thesis using assms(1) by (simp add: depad_rows_in_place_def usize_mul_def packed_rows_def)
next
  case (Suc k)
  have "stride \<le> length buf" using assms(2) Suc by simp
  then have "packed_rows 1 stride t buf @ drop (1 * t) buf = buf" by (simp add: packed_rows_def)
  then have "depad_rows k 1 stride t buf = Some (packed_rows h stride t buf @ drop (h * t) buf)"
    using depad_rows_packed [of t stride 1 k buf] assms Suc by simp
  moreover have "h * t \<le> h * stride" using assms(1) by simp
  then have "usize_mul h t = h * t" using assms(3) by (intro usize_mul_exact) linarith
  moreover have "length (packed_rows h stride t buf) = h * t" using assms by (intro length_packed_rows) simp_all
  ultimately show ?thesis using assms(1) Suc by (simp add: depad_rows_in_place_def)
qed

section \<open>Frames fit their size\<close>

text \<open>What a reader of a frame touches: \<open>linesize\<close> times the rows, the last row up to its width.\<close>

definition provider_fits :: "pixel_provider \<Rightarrow> bool" where
  "provider_fits p \<longleftrightarrow> (case p of
      RGB w h d \<Rightarrow> w * h * 3 \<le> length d
    | RGB0 w h d \<Rightarrow> w * h * 4 \<le> length d
    | BGR0 w h d \<Rightarrow> w * h * 4 \<le> length d
    | BGR0S w h stride d \<Rightarrow> w * 4 \<le> stride \<and> stride * h \<le> length d)"

definition held_fits :: "usize \<Rightarrow> usize \<Rightarrow> usize \<Rightarrow> video_format \<Rightarrow> byte list \<Rightarrow> bool" where
  "held_fits w h stride f buf \<longleftrightarrow> bytes_per_pixel f = 4 \<and> w * 4 \<le> stride \<and> w * 4 < 2 ^ 64
     \<and> h * stride \<le> length buf \<and> h * stride < 2 ^ 64"

text \<open>The invariant: the frame the recorder holds and a frame that waits for it have the size recorded with
  them.\<close>

definition pending_ok :: "shared_frame \<Rightarrow> bool" where
  "pending_ok sf \<longleftrightarrow> (sf_new_frame sf \<longrightarrow>
     held_fits (sf_width sf) (sf_height sf) (sf_stride sf) (sf_format sf) (sf_frame sf))"

definition pw_ok :: "pw_recorder \<Rightarrow> bool" where
  "pw_ok r \<longleftrightarrow> pending_ok (ps_shared (pr_stream r))
     \<and> (pr_has_frame r \<longrightarrow> held_fits (pr_width r) (pr_height r) (pr_stride r) (pr_format r) (pr_buffer r))"

text \<open>A buffer as the compositor promises it: a row holds the width, a mapping has the size asked for, and
  the size is within the offered range.\<close>

definition good_buffer :: "user_data \<Rightarrow> buffer_data \<Rightarrow> bool" where
  "good_buffer u d \<longleftrightarrow> us_width u \<le> 16384 \<and> us_height u \<le> 16384 \<and> 0 \<le> bd_stride d \<and> bd_stride d < 2 ^ 31
     \<and> (bd_stride d = 0 \<or> int (us_width u) * 4 \<le> bd_stride d)
     \<and> (\<forall>a n b. bd_mapped d a n = Some b \<longrightarrow> length b = n)"

text \<open>No change of the format, and good buffers.\<close>

definition good_event :: "user_data \<Rightarrow> pw_event \<Rightarrow> bool" where
  "good_event u e = (case e of
      ParamChanged p \<Rightarrow> p = None
    | Process (Some (d # _)) \<Rightarrow> good_buffer u d
    | _ \<Rightarrow> True)"

lemma frame_data_length:
  "good_buffer u d \<Longrightarrow> frame_data d = Some b \<Longrightarrow> length b = bd_size d"
  by (auto simp: frame_data_def mmap_buffer_data_def good_buffer_def Let_def
      split: data_type.splits option.splits if_splits)

lemma good_stride:
  assumes "good_buffer u d" "bytes_per_pixel (us_format u) = 4"
  defines "st \<equiv> (if as_usize (bd_stride d) > 0 then as_usize (bd_stride d) else usize_mul (us_width u) 4)"
  shows "us_width u * 4 \<le> st" "us_height u * st < 2 ^ 64" "usize_mul st (us_height u) = us_height u * st"
    "us_width u * 4 < 2 ^ 64"
proof -
  have b: "us_width u \<le> 16384" "us_height u \<le> 16384" "0 \<le> bd_stride d" "bd_stride d < 2 ^ 31"
    "bd_stride d = 0 \<or> int (us_width u) * 4 \<le> bd_stride d"
    using assms(1) by (simp_all add: good_buffer_def)
  have st: "as_usize (bd_stride d) = nat (bd_stride d)" using b(3,4) by (simp add: as_usize_def)
  have m: "usize_mul (us_width u) 4 = us_width u * 4" using b(1) by (intro usize_mul_exact) simp
  show w: "us_width u * 4 \<le> st" using b(5) by (auto simp: st_def st m)
  have "nat (bd_stride d) \<le> 2147483648" using b(4) by simp
  then have "st \<le> 2147483648" using b(1) by (simp add: st_def st m)
  then have "us_height u * st \<le> 16384 * 2147483648" using b(2) by (intro mult_le_mono)
  then show "us_height u * st < 2 ^ 64" by simp
  then show "usize_mul st (us_height u) = us_height u * st" by (simp add: usize_mul_def mult.commute)
  show "us_width u * 4 < 2 ^ 64" using b(1) by simp
qed

lemma bpp_4: "bytes_per_pixel f = 0 \<or> bytes_per_pixel f = 4"
  by (simp add: bytes_per_pixel_def split: video_format.split)

lemma process_ok:
  assumes "good_buffer (ps_user s) d" "pending_ok (ps_shared s)"
  shows "pending_ok (ps_shared (on_process (Some (d # ds)) s))"
proof -
  let ?u = "ps_user s"
  let ?st = "if as_usize (bd_stride d) > 0 then as_usize (bd_stride d) else usize_mul (us_width ?u) 4"
  show ?thesis
  proof (cases "bytes_per_pixel (us_format ?u) = 4")
    case False
    then show ?thesis using bpp_4 [of "us_format ?u"] assms(2) by (simp add: on_process_def Let_def)
  next
    case True
    note st = good_stride [OF assms(1) True]
    have "held_fits (us_width ?u) (us_height ?u) ?st (us_format ?u) b"
      if "frame_data d = Some b" "\<not> bd_size d < us_height ?u * ?st" for b
      using st that frame_data_length [OF assms(1) that(1)] True unfolding held_fits_def by simp
    then show ?thesis
      using assms(2) True st(3) by (auto simp: on_process_def pending_ok_def Let_def split: option.split)
  qed
qed

lemma event_ok:
  assumes "good_event (ps_user s) e" "pending_ok (ps_shared s)"
  shows "pending_ok (ps_shared (pw_dispatch e s)) \<and> ps_user (pw_dispatch e s) = ps_user s"
proof (cases e)
  case (StateChanged t)
  then show ?thesis using assms by (simp add: on_state_changed_def pending_ok_def)
next
  case (ParamChanged p)
  then show ?thesis using assms by (simp add: on_param_changed_def good_event_def)
next
  case (Process b)
  consider "b = None \<or> b = Some []" | d ds where "b = Some (d # ds)" by (metis list.exhaust option.exhaust)
  then show ?thesis
  proof cases
    case 1
    then show ?thesis using assms(2) Process by (auto simp: on_process_def)
  next
    case (2 d ds)
    then have "good_buffer (ps_user s) d" using assms(1) Process by (simp add: good_event_def)
    from process_ok [OF this assms(2)] show ?thesis
      by (simp add: Process 2 on_process_def Let_def split: option.split)
  qed
qed

lemma iterate_ok:
  assumes "\<forall>e \<in> set es. good_event (ps_user s) e" "pending_ok (ps_shared s)"
  shows "pending_ok (ps_shared (pw_iterate es s)) \<and> ps_user (pw_iterate es s) = ps_user s"
  using assms
proof (induction es arbitrary: s)
  case Nil
  then show ?case by (simp add: pw_iterate_def)
next
  case (Cons e es)
  have "pending_ok (ps_shared (pw_dispatch e s)) \<and> ps_user (pw_dispatch e s) = ps_user s"
    using Cons.prems by (intro event_ok) simp_all
  then show ?case using Cons.IH [of "pw_dispatch e s"] Cons.prems(1) by (simp add: pw_iterate_def)
qed

lemma poll_ok:
  assumes "\<forall>es \<in> set rounds. \<forall>e \<in> set es. good_event (ps_user s) e" "pending_ok (ps_shared s)"
  shows "pending_ok (ps_shared (pw_poll rounds s)) \<and> ps_user (pw_poll rounds s) = ps_user s"
  using assms
proof (induction rounds arbitrary: s)
  case Nil
  then show ?case by simp
next
  case (Cons es rounds)
  have "pending_ok (ps_shared (pw_iterate es s)) \<and> ps_user (pw_iterate es s) = ps_user s"
    using Cons.prems by (intro iterate_ok) simp_all
  then show ?case using Cons.IH [of "pw_iterate es s"] Cons.prems by simp
qed

text \<open>Serving a held frame: it fits, and serving it again gives the same frame.\<close>

lemma held_depad:
  assumes "held_fits w h stride f buf"
  obtains buf' where "depad_rows_in_place h stride (w * 4) buf = Some buf'" "h * (w * 4) \<le> length buf'"
proof (cases "stride = w * 4")
  case True
  then show ?thesis using assms that by (simp add: depad_rows_in_place_def held_fits_def)
next
  case False
  then have st: "w * 4 < stride" "h * stride \<le> length buf" "h * stride < 2 ^ 64"
    using assms by (auto simp: held_fits_def)
  have "length (packed_rows h stride (w * 4) buf) = h * (w * 4)"
    using st by (intro length_packed_rows) simp_all
  then show ?thesis by (intro that [OF depad_in_place [OF st]]) simp
qed

lemma serve_ok:
  assumes "pw_ok r" "pw_serve r = (out, r')"
  shows "pw_ok r' \<and> out \<noteq> PwPanic \<and> (\<forall>p. out = PwFrame p \<longrightarrow> provider_fits p \<and> pw_serve r' = (out, r'))"
proof (cases "pr_has_frame r")
  case False
  then show ?thesis using assms by (auto simp: pw_serve_def)
next
  case True
  let ?w = "pr_width r" and ?h = "pr_height r" and ?s = "pr_stride r" and ?f = "pr_format r" and ?b = "pr_buffer r"
  have held: "held_fits ?w ?h ?s ?f ?b" using assms(1) True by (simp add: pw_ok_def)
  then have tight: "usize_mul ?w (bytes_per_pixel ?f) = ?w * 4" "?w * 4 \<le> ?s" "?h * ?s \<le> length ?b"
    by (simp_all add: held_fits_def usize_mul_exact)
  show ?thesis
  proof (cases "?f = BGRx \<or> ?f = BGRA")
    case bgr: True
    then have out: "out = PwFrame (if ?s = ?w * 4 then BGR0 ?w ?h ?b else BGR0S ?w ?h ?s ?b)" "r' = r"
      using assms(2) True tight(1) by (auto simp: pw_serve_def Let_def split: if_splits)
    have "?w * ?h * 4 \<le> length ?b" if "?s = ?w * 4"
      using tight(3) that by (simp add: mult.commute mult.left_commute)
    then have "provider_fits (if ?s = ?w * 4 then BGR0 ?w ?h ?b else BGR0S ?w ?h ?s ?b)"
      using tight(2,3) by (simp add: provider_fits_def mult.commute)
    then show ?thesis using out assms by simp
  next
    case False
    then have rgb: "?f = RGBx \<or> ?f = RGBA"
      using held by (auto simp: held_fits_def bytes_per_pixel_def split: video_format.splits)
    obtain buf' where buf': "depad_rows_in_place ?h ?s (?w * 4) ?b = Some buf'" "?h * (?w * 4) \<le> length buf'"
      using held_depad [OF held] by blast
    have out: "out = PwFrame (RGB0 ?w ?h buf')" "r' = r\<lparr>pr_buffer := buf', pr_stride := ?w * 4\<rparr>"
      using assms(2) True False rgb tight(1) buf'(1) by (auto simp: pw_serve_def Let_def)
    have "?h * (?w * 4) \<le> ?h * ?s" using tight(2) by (rule mult_le_mono2)
    then have "?h * (?w * 4) < 2 ^ 64" using held unfolding held_fits_def by linarith
    then have "pw_ok r'" using assms(1) held buf'(2) out(2) by (simp add: pw_ok_def held_fits_def)
    moreover have "pw_serve r' = (out, r')"
      using True False rgb tight(1) out by (auto simp: pw_serve_def Let_def depad_rows_in_place_def)
    ultimately show ?thesis
      using out(1) buf'(2) by (auto simp: provider_fits_def mult.commute mult.left_commute)
  qed
qed

lemma pw_capture_ok:
  assumes "pw_ok r" "\<forall>es \<in> set rounds. \<forall>e \<in> set es. good_event (ps_user (pr_stream r)) e"
    and "pw_capture rounds r = (out, r')"
  shows "pw_ok r' \<and> out \<noteq> PwPanic \<and> (\<forall>p. out = PwFrame p \<longrightarrow> provider_fits p \<and> pw_serve r' = (out, r'))"
proof -
  let ?r = "r\<lparr>pr_stream := pw_poll rounds (pr_stream r)\<rparr>"
  have ok: "pw_ok ?r" using poll_ok [OF assms(2)] assms(1) by (simp add: pw_ok_def)
  then have "pw_ok (pw_swap ?r)" by (auto simp: pw_ok_def pw_swap_def pending_ok_def Let_def)
  note served = serve_ok [OF this]
  show ?thesis
  proof (cases "sf_error (ps_shared (pr_stream ?r))")
    case True
    then show ?thesis using assms(3) ok by (auto simp: pw_capture_def Let_def)
  next
    case False
    then show ?thesis using assms(3) served [of out r'] by (simp add: pw_capture_def Let_def)
  qed
qed

text \<open>Captures one after the other.\<close>

fun pw_run :: "pw_event list list list \<Rightarrow> pw_recorder \<Rightarrow> pw_outcome list \<times> pw_recorder" where
  "pw_run [] r = ([], r)"
| "pw_run (rounds # captures) r =
     (let (out, r) = pw_capture rounds r; (outs, r) = pw_run captures r in (out # outs, r))"

lemma serve_stream: "pr_stream (snd (pw_serve r)) = pr_stream r"
  by (simp add: pw_serve_def Let_def split: option.split)

lemma swap_user: "ps_user (pr_stream (pw_swap r)) = ps_user (pr_stream r)"
  by (simp add: pw_swap_def Let_def)

lemma capture_user:
  assumes "pw_ok r" "\<forall>es \<in> set rounds. \<forall>e \<in> set es. good_event (ps_user (pr_stream r)) e"
  shows "ps_user (pr_stream (snd (pw_capture rounds r))) = ps_user (pr_stream r)"
proof -
  have "ps_user (pw_poll rounds (pr_stream r)) = ps_user (pr_stream r)"
    using poll_ok [OF assms(2)] assms(1) by (simp add: pw_ok_def)
  then show ?thesis by (simp add: pw_capture_def serve_stream swap_user Let_def)
qed

lemma pw_run_ok:
  assumes "pw_run captures r = (outs, r')" "pw_ok r"
    and "\<forall>rounds \<in> set captures. \<forall>es \<in> set rounds. \<forall>e \<in> set es. good_event (ps_user (pr_stream r)) e"
  shows "pw_ok r' \<and> PwPanic \<notin> set outs \<and> (\<forall>p. PwFrame p \<in> set outs \<longrightarrow> provider_fits p)"
  using assms
proof (induction captures arbitrary: r outs r')
  case Nil
  then show ?case by simp
next
  case (Cons rounds captures)
  obtain out r1 where c: "pw_capture rounds r = (out, r1)" by fastforce
  obtain outs1 r2 where rest: "pw_run captures r1 = (outs1, r2)" by fastforce
  have good: "\<forall>es \<in> set rounds. \<forall>e \<in> set es. good_event (ps_user (pr_stream r)) e" using Cons.prems(3) by simp
  note ok = pw_capture_ok [OF Cons.prems(2) good c]
  have "ps_user (pr_stream r1) = ps_user (pr_stream r)" using capture_user [OF Cons.prems(2) good] c by simp
  with Cons.IH [OF rest] ok Cons.prems(3)
  have "pw_ok r2 \<and> PwPanic \<notin> set outs1 \<and> (\<forall>p. PwFrame p \<in> set outs1 \<longrightarrow> provider_fits p)" by simp
  moreover have "outs = out # outs1" "r' = r2" using Cons.prems(1) c rest by simp_all
  ultimately show ?case using ok by auto
qed

section \<open>A format change between frame and capture\<close>

text \<open>The callback for a new format overwrites the size of a frame that still waits: the row length stays the
  old one, so rows are shorter than the width says.\<close>

lemma stale_frame:
  assumes "frame_data d = Some b" "us_valid u" "us_format u = BGRx" "0 < bd_size d"
    and "bd_stride d = 0" "us_height u * (us_width u * 4) \<le> bd_size d"
    and "us_width u < 2 ^ 16" "us_height u < 2 ^ 16" "us_width u < w" "w < 2 ^ 16"
    and "ps_user s = u" "\<not> sf_error (ps_shared s)" "\<not> sf_new_frame (ps_shared s)" "pr_stream r = s"
  shows "fst (pw_capture [[Process (Some [d]), ParamChanged (Some (BGRx, w, us_height u))]] r)
    = PwFrame (BGR0S w (us_height u) (us_width u * 4) b)"
proof -
  have m: "usize_mul (us_width u) 4 = us_width u * 4" "usize_mul w 4 = w * 4"
    using assms(7,10) by (simp_all add: usize_mul_exact)
  have "us_width u * us_height u \<le> 65536 * 65536" using assms(7,8) by (intro mult_le_mono) simp_all
  then have m2: "usize_mul (us_width u * 4) (us_height u) = us_height u * (us_width u * 4)"
    by (subst usize_mul_exact) (simp_all add: mult.commute)
  show ?thesis
    using assms m m2
    by (simp add: pw_capture_def pw_iterate_def on_process_def on_param_changed_def pw_swap_def pw_serve_def
        bytes_per_pixel_def as_usize_def Let_def)
qed

end
