(* ===== verification/PortalSession.thy ===== *)
theory PortalSession
  imports RustString
begin

text \<open>
  The negotiation with the desktop portal in \<open>crates/rylus-capture/src/pipewire.rs\<close>
  (\<open>request_remote_desktop\<close> and its response handlers) as operations on the shared \<open>CallBackContext\<close>, the
  registered handlers and a trace of what was asked of D-Bus.  What the portal answers is the record
  \<open>portal_env\<close>; what \<open>conn.process\<close> delivers is a list of ticks.
\<close>

section \<open>Responses\<close>

text \<open>D-Bus values: a variant delegates its number and string, and iterates over its content; structures,
  arrays and dictionaries (key, value, key, value, \<dots>) iterate over their members.\<close>

datatype ref_arg = RUint nat | RStr string | RList "ref_arg list" | RVariant ref_arg

fun as_u64 :: "ref_arg \<Rightarrow> nat option" where
  "as_u64 (RUint n) = Some n"
| "as_u64 (RVariant v) = as_u64 v"
| "as_u64 _ = None"

fun as_str :: "ref_arg \<Rightarrow> string option" where
  "as_str (RStr s) = Some s"
| "as_str (RVariant v) = as_str v"
| "as_str _ = None"

fun as_iter :: "ref_arg \<Rightarrow> ref_arg list option" where
  "as_iter (RList xs) = Some xs"
| "as_iter (RVariant v) = Some [v]"
| "as_iter _ = None"

record pw_stream_info =
  si_path :: nat
  si_source_type :: nat

text \<open>Splitting an alternating list; \<open>zip\<close> and the later of equal keys make the map.\<close>

fun evens :: "'a list \<Rightarrow> 'a list" where
  "evens [] = []"
| "evens [x] = [x]"
| "evens (x # _ # xs) = x # evens xs"

definition odds :: "'a list \<Rightarrow> 'a list" where
  "odds xs = evens (drop 1 xs)"

definition stream_info :: "ref_arg \<Rightarrow> pw_stream_info option" where
  "stream_info stream = (case as_iter stream of
      Some (p # a # _) \<Rightarrow>
        (case (as_u64 p, as_iter a) of
           (Some path, Some entries) \<Rightarrow>
             let keys = List.map_filter as_str (evens entries);
                 attributes = map_of (rev (zip keys (odds entries)))
             in (case (case attributes ''source_type'' of None \<Rightarrow> Some 0 | Some v \<Rightarrow> as_u64 v) of
                   Some t \<Rightarrow> Some \<lparr>si_path = path, si_source_type = t\<rparr>
                 | None \<Rightarrow> None)
         | _ \<Rightarrow> None)
    | _ \<Rightarrow> None)"

definition streams_from_response :: "(string \<Rightarrow> ref_arg option) \<Rightarrow> pw_stream_info list" where
  "streams_from_response results = (case results ''streams'' of
      None \<Rightarrow> []
    | Some v \<Rightarrow> (case as_iter v of
          Some (x # _) \<Rightarrow> (case as_iter x of Some streams \<Rightarrow> List.map_filter stream_info streams | None \<Rightarrow> [])
        | _ \<Rightarrow> []))"

text \<open>A response signal: the path of its request, the code and the results.\<close>

record portal_signal =
  sg_path :: string
  sg_code :: nat
  sg_results :: "string \<Rightarrow> ref_arg option"

section \<open>State\<close>

datatype portal_handler = OnCreateSession | OnSelectDevices | OnSelectSources | OnStart

datatype portal_call =
    CreateSession bool string string
  | SelectDevices string string nat
  | SelectSources string string nat nat
  | StartCast bool string string
  | OpenRemote string

text \<open>\<open>CreateSession\<close> has the token of the session before that of the request.\<close>

datatype portal_event = Registered string portal_handler | Called portal_call

record portal_env =
  pv_sender :: string
  pv_random :: "nat \<Rightarrow> nat"
  pv_gnome :: bool
  pv_device_types :: "nat option"
  pv_source_types :: "nat option"
  pv_cursor_modes :: "nat option"
  pv_match_ok :: bool
  pv_call_ok :: "portal_call \<Rightarrow> bool"
  pv_fd :: "string \<Rightarrow> nat"

text \<open>\<open>CallBackContext\<close> with the handlers, the random draws made and the trace.\<close>

record portal =
  pt_capture_cursor :: bool
  pt_session :: string
  pt_streams :: "pw_stream_info list"
  pt_fd :: "nat option"
  pt_restore_token :: "string option"
  pt_remote_desktop :: bool
  pt_failure :: bool
  pt_handlers :: "(string \<times> portal_handler) list"
  pt_draws :: nat
  pt_trace :: "portal_event list"

type_synonym portal_result = "(string + unit) \<times> portal"

section \<open>Requests\<close>

text \<open>\<open>request_path\<close>: the unique name without its leading colons and with dots replaced.\<close>

definition request_path :: "string \<Rightarrow> string \<Rightarrow> string" where
  "request_path sender token =
     ''/org/freedesktop/portal/desktop/request/''
     @ map (\<lambda>c. if c = CHR ''.'' then CHR ''_'' else c) (dropWhile (\<lambda>c. c = CHR '':'') sender)
     @ ''/'' @ token"

definition draw_token :: "portal_env \<Rightarrow> portal \<Rightarrow> string \<times> portal" where
  "draw_token env s = (''rylus'' @ dec (pv_random env (pt_draws s)), s\<lparr>pt_draws := pt_draws s + 1\<rparr>)"

definition register_response_handler :: "portal_env \<Rightarrow> string \<Rightarrow> portal_handler \<Rightarrow> portal \<Rightarrow> portal_result" where
  "register_response_handler env token h s =
     (let path = request_path (pv_sender env) token
      in if pv_match_ok env
         then (Inr (), s\<lparr>pt_handlers := pt_handlers s @ [(path, h)], pt_trace := pt_trace s @ [Registered path h]\<rparr>)
         else (Inl ''add_match'', s))"

definition portal_do :: "portal_env \<Rightarrow> portal_call \<Rightarrow> portal \<Rightarrow> portal_result" where
  "portal_do env c s =
     (if pv_call_ok env c then Inr () else Inl ''call'', s\<lparr>pt_trace := pt_trace s @ [Called c]\<rparr>)"

text \<open>A handler is registered before the call it belongs to.\<close>

definition register_and_call :: "portal_env \<Rightarrow> string \<Rightarrow> portal_handler \<Rightarrow> portal_call \<Rightarrow> portal \<Rightarrow> portal_result" where
  "register_and_call env token h c s = (case register_response_handler env token h s of
      (Inl e, s) \<Rightarrow> (Inl e, s)
    | (Inr _, s) \<Rightarrow> portal_do env c s)"

text \<open>The cursor mode: metadata before embedded before hidden, and hidden if no cursor is wanted.\<close>

definition bit_set :: "nat \<Rightarrow> nat \<Rightarrow> bool" where
  "bit_set k n \<longleftrightarrow> (n div 2 ^ k) mod 2 = 1"

definition cursor_mode :: "portal_env \<Rightarrow> bool \<Rightarrow> nat" where
  "cursor_mode env capture_cursor =
     (if capture_cursor then
        (let available = (case pv_cursor_modes env of Some m \<Rightarrow> m | None \<Rightarrow> 0)
         in if bit_set 2 available then 4 else if bit_set 1 available then 2 else 1)
      else 1)"

section \<open>The handlers\<close>

definition select_devices :: "portal_env \<Rightarrow> portal \<Rightarrow> portal_result" where
  "select_devices env s =
     (let (token, s) = draw_token env s
      in case pv_device_types env of
           None \<Rightarrow> (Inl ''available_device_types'', s)
         | Some types \<Rightarrow>
             register_and_call env token OnSelectDevices (SelectDevices (pt_session s) token types) s)"

definition select_sources :: "portal_env \<Rightarrow> portal \<Rightarrow> portal_result" where
  "select_sources env s =
     (let (token, s) = draw_token env s
      in case pv_source_types env of
           None \<Rightarrow> (Inl ''available_source_types'', s)
         | Some types \<Rightarrow>
             register_and_call env token OnSelectSources
               (SelectSources (pt_session s) token types (cursor_mode env (pt_capture_cursor s))) s)"

definition on_create_session_response :: "portal_env \<Rightarrow> portal_signal \<Rightarrow> portal \<Rightarrow> portal_result" where
  "on_create_session_response env r s = (case sg_results r ''session_handle'' of
      None \<Rightarrow> (Inl ''Failed to obtain session_handle from response'', s)
    | Some v \<Rightarrow> (case as_str v of
          None \<Rightarrow> (Inl ''Failed to convert session_handle to string.'', s)
        | Some session \<Rightarrow>
            let s = s\<lparr>pt_session := session\<rparr>
            in if pt_remote_desktop s then select_devices env s else select_sources env s))"

definition on_select_sources_response :: "portal_env \<Rightarrow> portal \<Rightarrow> portal_result" where
  "on_select_sources_response env s =
     (let (token, s) = draw_token env s
      in register_and_call env token OnStart (StartCast (pt_remote_desktop s) (pt_session s) token) s)"

text \<open>The streams are appended before \<open>OpenPipeWireRemote\<close> is asked for.\<close>

definition on_start_response :: "portal_env \<Rightarrow> portal_signal \<Rightarrow> portal \<Rightarrow> portal_result" where
  "on_start_response env r s =
     (case portal_do env (OpenRemote (pt_session s))
         (s\<lparr>pt_streams := pt_streams s @ streams_from_response (sg_results r)\<rparr>) of
        (Inl e, s) \<Rightarrow> (Inl e, s)
      | (Inr _, s) \<Rightarrow>
          (Inr (), s\<lparr>pt_fd := Some (pv_fd env (pt_session s)),
             pt_restore_token := (case sg_results r ''restore_token'' of
                 Some v \<Rightarrow> (case as_str v of Some t \<Rightarrow> Some t | None \<Rightarrow> pt_restore_token s)
               | None \<Rightarrow> pt_restore_token s)\<rparr>))"

definition run_handler :: "portal_env \<Rightarrow> portal_handler \<Rightarrow> portal_signal \<Rightarrow> portal \<Rightarrow> portal_result" where
  "run_handler env h r s = (case h of
      OnCreateSession \<Rightarrow> on_create_session_response env r s
    | OnSelectDevices \<Rightarrow> select_sources env s
    | OnSelectSources \<Rightarrow> on_select_sources_response env s
    | OnStart \<Rightarrow> on_start_response env r s)"

text \<open>The closure given to \<open>add_match\<close>: another code than success, or an error of the handler, is a failure.\<close>

definition on_signal :: "portal_env \<Rightarrow> portal_signal \<Rightarrow> portal \<Rightarrow> portal" where
  "on_signal env r s = (case map_of (pt_handlers s) (sg_path r) of
      None \<Rightarrow> s
    | Some h \<Rightarrow>
        if sg_code r \<noteq> 0 then s\<lparr>pt_failure := True\<rparr>
        else case run_handler env h r s of
               (Inl e, s) \<Rightarrow> s\<lparr>pt_failure := True\<rparr>
             | (Inr _, s) \<Rightarrow> s)"

section \<open>The request\<close>

definition portal_new :: "portal_env \<Rightarrow> bool \<Rightarrow> portal" where
  "portal_new env capture_cursor =
     \<lparr>pt_capture_cursor = capture_cursor, pt_session = [], pt_streams = [], pt_fd = None,
      pt_restore_token = None, pt_remote_desktop = pv_gnome env, pt_failure = False, pt_handlers = [],
      pt_draws = 0, pt_trace = []\<rparr>"

text \<open>One \<open>conn.process\<close> of 100 ms: an error of the connection, nothing, or a signal.\<close>

datatype tick = Broken | Quiet | Signal portal_signal

fun await_portal :: "portal_env \<Rightarrow> tick list \<Rightarrow> portal \<Rightarrow> (string + unit) \<times> portal" where
  "await_portal env [] s = (Inr (), s)"
| "await_portal env (t # ts) s = (case t of
     Broken \<Rightarrow> (Inl ''process'', s)
   | _ \<Rightarrow>
       let s = (case t of Signal r \<Rightarrow> on_signal env r s | _ \<Rightarrow> s)
       in if pt_fd s \<noteq> None \<or> pt_failure s then (Inr (), s) else await_portal env ts s)"

text \<open>Only the first 300 ticks are awaited.\<close>

definition request_remote_desktop ::
  "portal_env \<Rightarrow> bool \<Rightarrow> tick list \<Rightarrow> (string + string \<times> nat \<times> pw_stream_info list) \<times> portal" where
  "request_remote_desktop env capture_cursor ticks =
     (let s = portal_new env capture_cursor;
          (session_token, s) = draw_token env s;
          (token, s) = draw_token env s
      in case register_and_call env token OnCreateSession (CreateSession (pt_remote_desktop s) session_token token) s of
           (Inl e, s) \<Rightarrow> (Inl e, s)
         | (Inr _, s) \<Rightarrow>
             (case await_portal env (take 300 ticks) s of
                (Inl e, s) \<Rightarrow> (Inl e, s)
              | (Inr _, s) \<Rightarrow>
                  if pt_failure s then (Inl ''Portal request failed'', s)
                  else (case pt_fd s of
                      Some fd \<Rightarrow>
                        if pt_streams s = [] then (Inl ''no PipeWire streams'', s)
                        else (Inr (pt_session s, fd, pt_streams s), s)
                    | None \<Rightarrow> (Inl ''Timed out (30s)'', s))))"

section \<open>The invariant\<close>

text \<open>The token and handler of a call that is answered by a signal.\<close>

definition awaits :: "portal_call \<Rightarrow> (string \<times> portal_handler) option" where
  "awaits c = (case c of
      CreateSession _ _ t \<Rightarrow> Some (t, OnCreateSession)
    | SelectDevices _ t _ \<Rightarrow> Some (t, OnSelectDevices)
    | SelectSources _ t _ _ \<Rightarrow> Some (t, OnSelectSources)
    | StartCast _ _ t \<Rightarrow> Some (t, OnStart)
    | OpenRemote _ \<Rightarrow> None)"

definition registered_before :: "portal_env \<Rightarrow> portal_event list \<Rightarrow> bool" where
  "registered_before env tr \<longleftrightarrow> (\<forall>ys c zs t h. tr = ys @ Called c # zs \<longrightarrow> awaits c = Some (t, h)
     \<longrightarrow> Registered (request_path (pv_sender env) t) h \<in> set ys)"

text \<open>Calls of the remote desktop interface are made on GNOME only.\<close>

definition uses_remote_desktop :: "portal_call \<Rightarrow> bool" where
  "uses_remote_desktop c \<longleftrightarrow> (case c of
      CreateSession g _ _ \<Rightarrow> g
    | SelectDevices _ _ _ \<Rightarrow> True
    | SelectSources _ _ _ _ \<Rightarrow> False
    | StartCast g _ _ \<Rightarrow> g
    | OpenRemote _ \<Rightarrow> False)"

lemma uses_remote_desktop_simps [simp]:
  "uses_remote_desktop (CreateSession g st t) = g" "uses_remote_desktop (SelectDevices x t ty)"
  "\<not> uses_remote_desktop (SelectSources x t ty m)" "uses_remote_desktop (StartCast g x t) = g"
  "\<not> uses_remote_desktop (OpenRemote x)"
  by (simp_all add: uses_remote_desktop_def)

text \<open>The file descriptor comes from a call that succeeded.\<close>

definition calls_ok :: "portal_env \<Rightarrow> portal \<Rightarrow> bool" where
  "calls_ok env s \<longleftrightarrow> pt_remote_desktop s = pv_gnome env
     \<and> (\<forall>c. Called c \<in> set (pt_trace s) \<longrightarrow> uses_remote_desktop c \<longrightarrow> pv_gnome env)
     \<and> (\<forall>fd. pt_fd s = Some fd \<longrightarrow> (\<exists>x. Called (OpenRemote x) \<in> set (pt_trace s)
          \<and> pv_call_ok env (OpenRemote x) \<and> fd = pv_fd env x))"

text \<open>\<open>R\<close>: the signals delivered.  Every stream came with a successful response to a start request.\<close>

definition portal_ok :: "portal_env \<Rightarrow> portal_signal set \<Rightarrow> portal \<Rightarrow> bool" where
  "portal_ok env R s \<longleftrightarrow> registered_before env (pt_trace s)
     \<and> (\<forall>a t ty m. Called (SelectSources a t ty m) \<in> set (pt_trace s) \<longrightarrow> m = cursor_mode env (pt_capture_cursor s))
     \<and> (\<forall>(p, h) \<in> set (pt_handlers s). Registered p h \<in> set (pt_trace s))
     \<and> (\<forall>x \<in> set (pt_streams s). \<exists>r \<in> R. sg_code r = 0 \<and> Registered (sg_path r) OnStart \<in> set (pt_trace s)
          \<and> x \<in> set (streams_from_response (sg_results r)))
     \<and> calls_ok env s"

lemma registered_before_snoc:
  "registered_before env tr \<Longrightarrow> (\<And>c t h. e = Called c \<Longrightarrow> awaits c = Some (t, h) \<Longrightarrow>
     Registered (request_path (pv_sender env) t) h \<in> set tr) \<Longrightarrow> registered_before env (tr @ [e])"
  unfolding registered_before_def by (auto simp: append_eq_append_conv2 append_eq_Cons_conv Cons_eq_append_conv)

lemma calls_ok_simps [simp]:
  "calls_ok env (s\<lparr>pt_draws := n\<rparr>) = calls_ok env s"
  "calls_ok env (s\<lparr>pt_session := x\<rparr>) = calls_ok env s"
  "calls_ok env (s\<lparr>pt_streams := xs\<rparr>) = calls_ok env s"
  "calls_ok env (s\<lparr>pt_failure := b\<rparr>) = calls_ok env s"
  "calls_ok env (s\<lparr>pt_handlers := hs, pt_trace := pt_trace s @ [Registered p h]\<rparr>) = calls_ok env s"
  by (auto simp: calls_ok_def)

lemma calls_ok_call:
  "calls_ok env s \<Longrightarrow> (uses_remote_desktop c \<Longrightarrow> pt_remote_desktop s) \<Longrightarrow>
     calls_ok env (s\<lparr>pt_trace := pt_trace s @ [Called c]\<rparr>)"
  unfolding calls_ok_def by auto

lemma calls_ok_fd:
  "calls_ok env s \<Longrightarrow> Called (OpenRemote x) \<in> set (pt_trace s) \<Longrightarrow> pv_call_ok env (OpenRemote x) \<Longrightarrow>
     calls_ok env (s\<lparr>pt_fd := Some (pv_fd env x), pt_restore_token := t\<rparr>)"
  unfolding calls_ok_def by auto

lemma draw_ok: "draw_token env s = (t, s') \<Longrightarrow> portal_ok env R s \<Longrightarrow>
    portal_ok env R s' \<and> pt_capture_cursor s' = pt_capture_cursor s"
  by (auto simp: draw_token_def portal_ok_def)

lemma do_ok:
  assumes "portal_do env c s = (res, s')" "portal_ok env R s"
    and "\<And>t h. awaits c = Some (t, h) \<Longrightarrow> Registered (request_path (pv_sender env) t) h \<in> set (pt_trace s)"
    and "\<And>a t ty m. c = SelectSources a t ty m \<Longrightarrow> m = cursor_mode env (pt_capture_cursor s)"
    and "uses_remote_desktop c \<Longrightarrow> pt_remote_desktop s"
  shows "portal_ok env R s' \<and> pt_capture_cursor s' = pt_capture_cursor s"
proof -
  have s': "s' = s\<lparr>pt_trace := pt_trace s @ [Called c]\<rparr>" using assms(1) by (simp add: portal_do_def)
  have "registered_before env (pt_trace s @ [Called c])"
    using assms(2,3) by (intro registered_before_snoc) (auto simp: portal_ok_def)
  then show ?thesis using assms(2,4,5) calls_ok_call [of env s c] unfolding s' portal_ok_def by fastforce
qed

lemma register_and_call_ok:
  assumes "register_and_call env token h c s = (res, s')" "portal_ok env R s" "awaits c = Some (token, h)"
    and "\<And>a t ty m. c = SelectSources a t ty m \<Longrightarrow> m = cursor_mode env (pt_capture_cursor s)"
    and "uses_remote_desktop c \<Longrightarrow> pt_remote_desktop s"
  shows "portal_ok env R s' \<and> pt_capture_cursor s' = pt_capture_cursor s"
proof (cases "pv_match_ok env")
  case False
  then show ?thesis using assms(1,2) by (simp add: register_and_call_def register_response_handler_def Let_def)
next
  case True
  let ?p = "request_path (pv_sender env) token"
  let ?s = "s\<lparr>pt_handlers := pt_handlers s @ [(?p, h)], pt_trace := pt_trace s @ [Registered ?p h]\<rparr>"
  have call: "portal_do env c ?s = (res, s')"
    using assms(1) True by (simp add: register_and_call_def register_response_handler_def Let_def)
  have "registered_before env (pt_trace s @ [Registered ?p h])"
    using assms(2) by (intro registered_before_snoc) (auto simp: portal_ok_def)
  then have "portal_ok env R ?s" using assms(2) unfolding portal_ok_def by fastforce
  from do_ok [OF call this] assms(3-5) show ?thesis by simp
qed

lemma select_devices_ok:
  assumes "select_devices env s = (res, s')" "portal_ok env R s" "pt_remote_desktop s"
  shows "portal_ok env R s' \<and> pt_capture_cursor s' = pt_capture_cursor s"
proof -
  obtain t s1 where d: "draw_token env s = (t, s1)" by fastforce
  note ok = draw_ok [OF d assms(2)]
  show ?thesis
  proof (cases "pv_device_types env")
    case None
    then show ?thesis using assms(1) d ok by (simp add: select_devices_def)
  next
    case (Some ty)
    then have call: "register_and_call env t OnSelectDevices (SelectDevices (pt_session s1) t ty) s1 = (res, s')"
      using assms(1) d by (simp add: select_devices_def)
    have "pt_remote_desktop s1" using d assms(3) by (auto simp: draw_token_def)
    then show ?thesis using ok register_and_call_ok [OF call, of R] by (simp add: awaits_def)
  qed
qed

lemma select_sources_ok:
  assumes "select_sources env s = (res, s')" "portal_ok env R s"
  shows "portal_ok env R s' \<and> pt_capture_cursor s' = pt_capture_cursor s"
proof -
  obtain t s1 where d: "draw_token env s = (t, s1)" by fastforce
  note ok = draw_ok [OF d assms(2)]
  show ?thesis
  proof (cases "pv_source_types env")
    case None
    then show ?thesis using assms(1) d ok by (simp add: select_sources_def)
  next
    case (Some ty)
    then have "register_and_call env t OnSelectSources
        (SelectSources (pt_session s1) t ty (cursor_mode env (pt_capture_cursor s1))) s1 = (res, s')"
      using assms(1) d by (simp add: select_sources_def)
    from register_and_call_ok [OF this, of R] show ?thesis using ok by (simp add: awaits_def)
  qed
qed

lemma start_cast_ok:
  assumes "on_select_sources_response env s = (res, s')" "portal_ok env R s"
  shows "portal_ok env R s' \<and> pt_capture_cursor s' = pt_capture_cursor s"
proof -
  obtain t s1 where d: "draw_token env s = (t, s1)" by fastforce
  note ok = draw_ok [OF d assms(2)]
  have "register_and_call env t OnStart (StartCast (pt_remote_desktop s1) (pt_session s1) t) s1 = (res, s')"
    using assms(1) d by (simp add: on_select_sources_response_def)
  from register_and_call_ok [OF this, of R] show ?thesis using ok by (simp add: awaits_def)
qed

lemma on_start_ok:
  assumes "on_start_response env r s = (res, s')" "portal_ok env R s"
    and "r \<in> R" "sg_code r = 0" "Registered (sg_path r) OnStart \<in> set (pt_trace s)"
  shows "portal_ok env R s' \<and> pt_capture_cursor s' = pt_capture_cursor s"
proof -
  let ?s = "s\<lparr>pt_streams := pt_streams s @ streams_from_response (sg_results r)\<rparr>"
  obtain res1 s1 where d: "portal_do env (OpenRemote (pt_session s)) ?s = (res1, s1)" by fastforce
  have "portal_ok env R ?s" using assms(2-5) unfolding portal_ok_def by auto
  from do_ok [OF d this] have ok: "portal_ok env R s1 \<and> pt_capture_cursor s1 = pt_capture_cursor s"
    by (simp add: awaits_def)
  have tr: "pt_trace s1 = pt_trace s @ [Called (OpenRemote (pt_session s))]" "pt_session s1 = pt_session s"
    and ret: "res1 = Inr () \<longrightarrow> pv_call_ok env (OpenRemote (pt_session s))"
    using d by (auto simp: portal_do_def split: if_splits)
  have fd: "portal_ok env R (s1\<lparr>pt_fd := Some (pv_fd env (pt_session s)), pt_restore_token := t\<rparr>)"
    if "res1 = Inr ()" for t
    using ok calls_ok_fd [of env s1 "pt_session s" t] that ret tr by (auto simp: portal_ok_def)
  show ?thesis
  proof (cases res1)
    case (Inl e)
    then show ?thesis using assms(1) d ok by (simp add: on_start_response_def)
  next
    case (Inr u)
    then show ?thesis using assms(1) d ok fd tr(2) by (auto simp: on_start_response_def)
  qed
qed

lemma on_create_ok:
  assumes "on_create_session_response env r s = (res, s')" "portal_ok env R s"
  shows "portal_ok env R s' \<and> pt_capture_cursor s' = pt_capture_cursor s"
proof -
  have ok: "portal_ok env R (s\<lparr>pt_session := x\<rparr>)" for x using assms(2) by (simp add: portal_ok_def)
  show ?thesis
    using assms select_devices_ok [OF _ ok] select_sources_ok [OF _ ok]
    by (auto simp: on_create_session_response_def Let_def split: option.splits if_splits)
qed

lemma on_signal_ok:
  assumes "portal_ok env R s" "r \<in> R"
  shows "portal_ok env R (on_signal env r s) \<and> pt_capture_cursor (on_signal env r s) = pt_capture_cursor s"
proof (cases "map_of (pt_handlers s) (sg_path r)")
  case None
  then show ?thesis using assms(1) by (simp add: on_signal_def)
next
  case (Some h)
  have flag: "portal_ok env R (s\<lparr>pt_failure := b\<rparr>) = portal_ok env R s" for s b by (simp add: portal_ok_def)
  show ?thesis
  proof (cases "sg_code r = 0")
    case False
    then show ?thesis using assms(1) Some by (simp add: on_signal_def flag)
  next
    case True
    obtain res s1 where run: "run_handler env h r s = (res, s1)" by fastforce
    have reg: "Registered (sg_path r) h \<in> set (pt_trace s)"
      using assms(1) map_of_SomeD [OF Some] by (auto simp: portal_ok_def)
    have "portal_ok env R s1 \<and> pt_capture_cursor s1 = pt_capture_cursor s"
    proof (cases h)
      case OnCreateSession
      then have "on_create_session_response env r s = (res, s1)" using run by (simp add: run_handler_def)
      then show ?thesis using assms(1) by (rule on_create_ok)
    next
      case OnSelectDevices
      then have "select_sources env s = (res, s1)" using run by (simp add: run_handler_def)
      then show ?thesis using assms(1) by (rule select_sources_ok)
    next
      case OnSelectSources
      then have "on_select_sources_response env s = (res, s1)" using run by (simp add: run_handler_def)
      then show ?thesis using assms(1) by (rule start_cast_ok)
    next
      case OnStart
      then have "on_start_response env r s = (res, s1)" using run by (simp add: run_handler_def)
      then show ?thesis using assms True reg OnStart by (intro on_start_ok) simp_all
    qed
    then show ?thesis using Some True run by (simp add: on_signal_def flag split: sum.split)
  qed
qed

lemma await_ok:
  assumes "await_portal env ts s = (res, s')" "portal_ok env R s" "\<forall>r. Signal r \<in> set ts \<longrightarrow> r \<in> R"
  shows "portal_ok env R s' \<and> pt_capture_cursor s' = pt_capture_cursor s"
  using assms
proof (induction ts arbitrary: s)
  case Nil
  then show ?case by simp
next
  case (Cons t ts)
  define s1 where "s1 = (case t of Signal r \<Rightarrow> on_signal env r s | _ \<Rightarrow> s)"
  have s1: "portal_ok env R s1 \<and> pt_capture_cursor s1 = pt_capture_cursor s"
    using Cons.prems(2,3) on_signal_ok [of env R s] by (auto simp: s1_def split: tick.split)
  have "await_portal env (t # ts) s = (if t = Broken then (Inl ''process'', s)
      else if pt_fd s1 \<noteq> None \<or> pt_failure s1 then (Inr (), s1) else await_portal env ts s1)"
    by (simp add: s1_def split: tick.split)
  then show ?case
    using Cons.prems Cons.IH [of s1] s1 by (auto split: if_splits)
qed

text \<open>The whole request: the order of registrations and calls and the cursor mode, in every case; and what a
  session rests on when there is one.\<close>

lemma request_ok:
  assumes "request_remote_desktop env cursor ticks = (res, s)"
  shows "portal_ok env {r. Signal r \<in> set (take 300 ticks)} s \<and> pt_capture_cursor s = cursor"
    "res = Inr (session, fd, streams) \<Longrightarrow> \<not> pt_failure s \<and> streams \<noteq> [] \<and> streams = pt_streams s"
proof -
  let ?R = "{r. Signal r \<in> set (take 300 ticks)}"
  obtain t0 s0 where d0: "draw_token env (portal_new env cursor) = (t0, s0)" by fastforce
  obtain t1 s1 where d1: "draw_token env s0 = (t1, s1)" by fastforce
  obtain r2 s2 where c: "register_and_call env t1 OnCreateSession (CreateSession (pt_remote_desktop s1) t0 t1) s1 = (r2, s2)"
    by fastforce
  obtain r3 s3 where a: "await_portal env (take 300 ticks) s2 = (r3, s3)" by fastforce
  have "portal_ok env ?R (portal_new env cursor)" by (simp add: portal_ok_def portal_new_def registered_before_def calls_ok_def)
  note ok0 = draw_ok [OF d0 this]
  note ok1 = draw_ok [OF d1 conjunct1 [OF ok0]]
  have ok2: "portal_ok env ?R s2 \<and> pt_capture_cursor s2 = pt_capture_cursor s1"
    using register_and_call_ok [OF c conjunct1 [OF ok1]] by (simp add: awaits_def)
  note ok3 = await_ok [OF a conjunct1 [OF ok2]]
  have new: "pt_capture_cursor (portal_new env cursor) = cursor" by (simp add: portal_new_def)
  have "s = s2 \<or> s = s3"
    using assms d0 d1 c a by (auto simp: request_remote_desktop_def split: sum.splits option.splits if_splits)
  then show "portal_ok env ?R s \<and> pt_capture_cursor s = cursor"
    using ok0 ok1 ok2 ok3 new by auto
  show "\<not> pt_failure s \<and> streams \<noteq> [] \<and> streams = pt_streams s" if "res = Inr (session, fd, streams)"
    using assms d0 d1 c a that
    by (auto simp: request_remote_desktop_def split: sum.splits option.splits if_splits)
qed

text \<open>Metadata is preferred to an embedded cursor, although the recorder reads no metadata.\<close>

lemma metadata_preferred: "pv_cursor_modes env = Some m \<Longrightarrow> bit_set 2 m \<Longrightarrow> cursor_mode env True = 4"
  by (simp add: cursor_mode_def)

end
