(* ===== verification/PortalCache.thy ===== *)
theory PortalCache
  imports PortalSession
begin

text \<open>
  Sharing of portal sessions in \<open>crates/rylus-capture/src/pipewire.rs\<close> (\<open>acquire_portal_session\<close>,
  \<open>PortalSession\<close> with its \<open>Drop\<close>, \<open>get_capturables\<close>) as a step relation over threads: the cache with its
  weak reference, the acquisition lock and the counted references.  A session is closed when its last
  reference goes.
\<close>

section \<open>State\<close>

text \<open>A thread that wants a session for a cursor mode: before the first look at the cache, waiting for the
  lock, before the second look, negotiating, holding a new session not yet stored, done or failed.\<close>

datatype acquire_pc = AcIdle | AcFast bool | AcLock bool | AcRecheck bool | AcNegotiate bool | AcStore nat
  | AcDone nat | AcFailed

text \<open>\<open>cp_arcs\<close>: the references callers hold; \<open>cp_cursor\<close>: the mode a session was made with; \<open>cp_closed\<close>: the
  \<open>Close\<close> calls made, in order.\<close>

record portal_cache =
  cp_cache :: "nat option"
  cp_lock :: "nat option"
  cp_pc :: "nat \<Rightarrow> acquire_pc"
  cp_next :: nat
  cp_arcs :: "nat \<Rightarrow> nat"
  cp_cursor :: "nat \<Rightarrow> bool"
  cp_closed :: "nat list"

definition cache_init :: portal_cache where
  "cache_init = \<lparr>cp_cache = None, cp_lock = None, cp_pc = (\<lambda>_. AcIdle), cp_next = 0, cp_arcs = (\<lambda>_. 0),
     cp_cursor = (\<lambda>_. False), cp_closed = []\<rparr>"

section \<open>Steps\<close>

definition set_pc :: "nat \<Rightarrow> acquire_pc \<Rightarrow> portal_cache \<Rightarrow> portal_cache" where
  "set_pc t pc s = s\<lparr>cp_pc := (cp_pc s)(t := pc)\<rparr>"

text \<open>\<open>weak.upgrade()\<close> and the comparison of the cursor mode.\<close>

definition cache_hit :: "bool \<Rightarrow> portal_cache \<Rightarrow> nat option" where
  "cache_hit capture_cursor s = (case cp_cache s of
      None \<Rightarrow> None
    | Some i \<Rightarrow> if 0 < cp_arcs s i \<and> cp_cursor s i = capture_cursor then Some i else None)"

definition take_arc :: "nat \<Rightarrow> portal_cache \<Rightarrow> portal_cache" where
  "take_arc i s = s\<lparr>cp_arcs := (cp_arcs s)(i := cp_arcs s i + 1)\<rparr>"

definition drop_arc :: "nat \<Rightarrow> portal_cache \<Rightarrow> portal_cache" where
  "drop_arc i s =
     s\<lparr>cp_arcs := (cp_arcs s)(i := cp_arcs s i - 1),
       cp_closed := (if cp_arcs s i = 1 then cp_closed s @ [i] else cp_closed s)\<rparr>"

definition acquire_fast :: "nat \<Rightarrow> bool \<Rightarrow> portal_cache \<Rightarrow> portal_cache" where
  "acquire_fast t c s = (case cache_hit c s of
      Some i \<Rightarrow> set_pc t (AcDone i) (take_arc i s)
    | None \<Rightarrow> set_pc t (AcLock c) s)"

definition acquire_lock :: "nat \<Rightarrow> bool \<Rightarrow> portal_cache \<Rightarrow> portal_cache" where
  "acquire_lock t c s = set_pc t (AcRecheck c) (s\<lparr>cp_lock := Some t\<rparr>)"

definition acquire_recheck :: "nat \<Rightarrow> bool \<Rightarrow> portal_cache \<Rightarrow> portal_cache" where
  "acquire_recheck t c s = (case cache_hit c s of
      Some i \<Rightarrow> set_pc t (AcDone i) ((take_arc i s)\<lparr>cp_lock := None\<rparr>)
    | None \<Rightarrow> set_pc t (AcNegotiate c) s)"

definition acquire_negotiate :: "nat \<Rightarrow> bool \<Rightarrow> bool \<Rightarrow> portal_cache \<Rightarrow> portal_cache" where
  "acquire_negotiate t c ok s =
     (if ok then set_pc t (AcStore (cp_next s))
               (s\<lparr>cp_next := cp_next s + 1, cp_cursor := (cp_cursor s)(cp_next s := c)\<rparr>)
      else set_pc t AcFailed (s\<lparr>cp_lock := None\<rparr>))"

definition acquire_store :: "nat \<Rightarrow> nat \<Rightarrow> portal_cache \<Rightarrow> portal_cache" where
  "acquire_store t i s =
     set_pc t (AcDone i) ((take_arc i s)\<lparr>cp_cache := Some i, cp_lock := None\<rparr>)"

inductive cache_step :: "portal_cache \<Rightarrow> portal_cache \<Rightarrow> bool" where
  Call: "cp_pc s t \<in> {AcIdle, AcFailed} \<union> range AcDone \<Longrightarrow> cache_step s (set_pc t (AcFast c) s)"
| Fast: "cp_pc s t = AcFast c \<Longrightarrow> cache_step s (acquire_fast t c s)"
| Lock: "cp_pc s t = AcLock c \<Longrightarrow> cp_lock s = None \<Longrightarrow> cache_step s (acquire_lock t c s)"
| Recheck: "cp_pc s t = AcRecheck c \<Longrightarrow> cache_step s (acquire_recheck t c s)"
| Negotiate: "cp_pc s t = AcNegotiate c \<Longrightarrow> cache_step s (acquire_negotiate t c ok s)"
| Store: "cp_pc s t = AcStore i \<Longrightarrow> cache_step s (acquire_store t i s)"
| Clone: "0 < cp_arcs s i \<Longrightarrow> cache_step s (take_arc i s)"
| Release: "0 < cp_arcs s i \<Longrightarrow> cache_step s (drop_arc i s)"

inductive cache_reach :: "portal_cache \<Rightarrow> bool" where
  Init: "cache_reach cache_init"
| Step: "cache_reach s \<Longrightarrow> cache_step s s' \<Longrightarrow> cache_reach s'"

lemmas cache_defs = set_pc_def take_arc_def drop_arc_def acquire_fast_def acquire_lock_def
  acquire_recheck_def acquire_negotiate_def acquire_store_def

section \<open>Invariant\<close>

definition in_section :: "acquire_pc \<Rightarrow> bool" where
  "in_section pc \<longleftrightarrow> (case pc of AcRecheck _ \<Rightarrow> True | AcNegotiate _ \<Rightarrow> True | AcStore _ \<Rightarrow> True | _ \<Rightarrow> False)"

text \<open>The lock is held by the one thread in the critical section.\<close>

definition lock_ok :: "portal_cache \<Rightarrow> bool" where
  "lock_ok s \<longleftrightarrow> (\<forall>t. in_section (cp_pc s t) \<longleftrightarrow> cp_lock s = Some t)"

text \<open>The session that is made but not yet stored.\<close>

definition storing :: "portal_cache \<Rightarrow> nat option" where
  "storing s = (case cp_lock s of
      Some t \<Rightarrow> (case cp_pc s t of AcStore i \<Rightarrow> Some i | _ \<Rightarrow> None)
    | None \<Rightarrow> None)"

text \<open>A session that exists is being stored, referenced or closed, and only one of these; it is closed once;
  the cache names a session that was stored.\<close>

definition sessions_ok ::
  "nat option \<Rightarrow> (nat \<Rightarrow> nat) \<Rightarrow> nat \<Rightarrow> nat list \<Rightarrow> nat option \<Rightarrow> bool" where
  "sessions_ok st arcs n cl cache \<longleftrightarrow>
     (\<forall>i. st = Some i \<longrightarrow> i < n \<and> arcs i = 0 \<and> i \<notin> set cl)
     \<and> (\<forall>i < n. st = Some i \<or> 0 < arcs i \<or> i \<in> set cl)
     \<and> (\<forall>i. 0 < arcs i \<longrightarrow> i < n \<and> i \<notin> set cl)
     \<and> set cl \<subseteq> {..<n} \<and> distinct cl
     \<and> (\<forall>i. cache = Some i \<longrightarrow> i < n \<and> st \<noteq> Some i)"

definition cache_ok :: "portal_cache \<Rightarrow> bool" where
  "cache_ok s \<longleftrightarrow> lock_ok s \<and> sessions_ok (storing s) (cp_arcs s) (cp_next s) (cp_closed s) (cp_cache s)"

lemma cache_hit_live: "cache_hit c s = Some i \<Longrightarrow> 0 < cp_arcs s i \<and> cp_cursor s i = c \<and> cp_cache s = Some i"
  by (auto simp: cache_hit_def split: option.splits if_splits)

lemma sessions_take: "sessions_ok st arcs n cl c \<Longrightarrow> 0 < arcs i \<Longrightarrow> sessions_ok st (arcs(i := arcs i + 1)) n cl c"
  by (auto simp: sessions_ok_def)

lemma sessions_drop:
  "sessions_ok st arcs n cl c \<Longrightarrow> 0 < arcs i \<Longrightarrow>
     sessions_ok st (arcs(i := arcs i - 1)) n (if arcs i = 1 then cl @ [i] else cl) c"
  unfolding sessions_ok_def by (auto split: if_splits)

lemma sessions_new: "sessions_ok None arcs n cl c \<Longrightarrow> sessions_ok (Some n) arcs (n + 1) cl c"
  by (force simp: sessions_ok_def less_Suc_eq)

lemma sessions_store: "sessions_ok (Some i) arcs n cl c \<Longrightarrow> sessions_ok None (arcs(i := arcs i + 1)) n cl (Some i)"
  by (auto simp: sessions_ok_def)

text \<open>Which thread is where.\<close>

lemma set_pc_fields [simp]:
  "cp_cache (set_pc t pc s) = cp_cache s" "cp_lock (set_pc t pc s) = cp_lock s"
  "cp_arcs (set_pc t pc s) = cp_arcs s" "cp_next (set_pc t pc s) = cp_next s"
  "cp_closed (set_pc t pc s) = cp_closed s" "cp_cursor (set_pc t pc s) = cp_cursor s"
  "cp_pc (set_pc t pc s) = (cp_pc s)(t := pc)"
  by (simp_all add: set_pc_def)

lemma outside_ok:
  assumes "cache_ok s" "\<not> in_section (cp_pc s t)" "\<not> in_section pc"
  shows "cache_ok (set_pc t pc s)"
proof -
  have "cp_lock s \<noteq> Some t" using assms(1,2) by (simp add: cache_ok_def lock_ok_def)
  then have "storing (set_pc t pc s) = storing s" by (simp add: storing_def split: option.split)
  then show ?thesis using assms by (simp add: cache_ok_def lock_ok_def)
qed

lemma storing_arcs [simp]: "storing (take_arc i s) = storing s" "storing (drop_arc i s) = storing s"
  by (simp_all add: storing_def take_arc_def drop_arc_def split: option.split)

lemma take_ok: "cache_ok s \<Longrightarrow> 0 < cp_arcs s i \<Longrightarrow> cache_ok (take_arc i s)"
  using sessions_take by (simp add: cache_ok_def) (simp add: lock_ok_def take_arc_def)

lemma drop_ok: "cache_ok s \<Longrightarrow> 0 < cp_arcs s i \<Longrightarrow> cache_ok (drop_arc i s)"
  using sessions_drop [of "storing s" "cp_arcs s"] by (simp add: cache_ok_def) (simp add: lock_ok_def drop_arc_def)

text \<open>The thread in the critical section moves on, or leaves it.\<close>

lemma holder:
  assumes "cache_ok s" "in_section (cp_pc s t)"
  shows "cp_lock s = Some t" "\<And>t'. t' \<noteq> t \<Longrightarrow> \<not> in_section (cp_pc s t')"
    "storing s = (case cp_pc s t of AcStore i \<Rightarrow> Some i | _ \<Rightarrow> None)"
  using assms by (auto simp: cache_ok_def lock_ok_def storing_def)

lemma leave_ok:
  assumes "cache_ok s" "in_section (cp_pc s t)" "\<not> in_section pc"
    and "sessions_ok None (cp_arcs s') (cp_next s') (cp_closed s') (cp_cache s')"
    and "cp_pc s' = (cp_pc s)(t := pc)" "cp_lock s' = None"
  shows "cache_ok s'"
  using holder [OF assms(1,2)] assms(3-6) by (simp add: cache_ok_def lock_ok_def storing_def)

lemma recheck_ok:
  assumes "cache_ok s" "cp_pc s t = AcRecheck c"
  shows "cache_ok (acquire_recheck t c s)"
proof -
  have sec: "in_section (cp_pc s t)" using assms(2) by (simp add: in_section_def)
  note h = holder [OF assms(1) sec]
  have ok: "sessions_ok None (cp_arcs s) (cp_next s) (cp_closed s) (cp_cache s)"
    using assms h(3) by (simp add: cache_ok_def)
  show ?thesis
  proof (cases "cache_hit c s")
    case None
    then show ?thesis
      using assms h ok by (auto simp: acquire_recheck_def cache_ok_def lock_ok_def storing_def in_section_def)
  next
    case (Some i)
    show ?thesis
      by (rule leave_ok [OF assms(1) sec, of "AcDone i"])
        (use Some sessions_take [OF ok] cache_hit_live [OF Some] in
          \<open>simp_all add: acquire_recheck_def take_arc_def in_section_def\<close>)
  qed
qed

lemma negotiate_ok:
  assumes "cache_ok s" "cp_pc s t = AcNegotiate c"
  shows "cache_ok (acquire_negotiate t c ok s)"
proof -
  have sec: "in_section (cp_pc s t)" using assms(2) by (simp add: in_section_def)
  note h = holder [OF assms(1) sec]
  have ok: "sessions_ok None (cp_arcs s) (cp_next s) (cp_closed s) (cp_cache s)"
    using assms h(3) by (simp add: cache_ok_def)
  show ?thesis
  proof (cases ok)
    case True
    then show ?thesis
      using assms h sessions_new [OF ok]
      by (auto simp: acquire_negotiate_def cache_ok_def lock_ok_def storing_def in_section_def)
  next
    case False
    show ?thesis
      by (rule leave_ok [OF assms(1) sec, of AcFailed])
        (use False ok in \<open>simp_all add: acquire_negotiate_def in_section_def\<close>)
  qed
qed

lemma store_ok:
  assumes "cache_ok s" "cp_pc s t = AcStore i"
  shows "cache_ok (acquire_store t i s)"
proof -
  have sec: "in_section (cp_pc s t)" using assms(2) by (simp add: in_section_def)
  have "sessions_ok (Some i) (cp_arcs s) (cp_next s) (cp_closed s) (cp_cache s)"
    using assms holder(3) [OF assms(1) sec] by (simp add: cache_ok_def)
  note ok = sessions_store [OF this]
  show ?thesis
    by (rule leave_ok [OF assms(1) sec, of "AcDone i"])
      (use ok in \<open>simp_all add: acquire_store_def take_arc_def in_section_def\<close>)
qed

lemma cache_ok_step: "cache_step s s' \<Longrightarrow> cache_ok s \<Longrightarrow> cache_ok s'"
proof (induction rule: cache_step.induct)
  case (Call s t c)
  then show ?case by (intro outside_ok) (auto simp: in_section_def)
next
  case (Fast s t c)
  show ?case
  proof (cases "cache_hit c s")
    case None
    then show ?thesis using Fast by (auto simp: acquire_fast_def in_section_def intro!: outside_ok)
  next
    case (Some i)
    have "cache_ok (take_arc i s)" using Fast cache_hit_live [OF Some] by (intro take_ok) simp_all
    moreover have "cp_pc (take_arc i s) t = AcFast c" using Fast by (simp add: take_arc_def)
    ultimately show ?thesis using Some by (auto simp: acquire_fast_def in_section_def intro!: outside_ok)
  qed
next
  case (Lock s t c)
  then show ?case
    by (auto simp: acquire_lock_def cache_ok_def lock_ok_def storing_def in_section_def)
qed (simp_all add: recheck_ok negotiate_ok store_ok take_ok drop_ok)

lemma cache_ok_reach: "cache_reach s \<Longrightarrow> cache_ok s"
proof (induction rule: cache_reach.induct)
  case Init
  show ?case by (simp add: cache_ok_def lock_ok_def sessions_ok_def storing_def cache_init_def in_section_def)
qed (simp add: cache_ok_step)

section \<open>Sharing\<close>

text \<open>One negotiation at a time; no session is closed twice or while it is referenced; and a thread that gets
  the lock while a live session of its mode is cached takes that one.\<close>

lemma cache_sharing:
  assumes "cache_reach s"
  shows "cp_pc s t = AcNegotiate c \<Longrightarrow> cp_pc s u = AcNegotiate d \<Longrightarrow> t = u"
    "distinct (cp_closed s)" "i \<in> set (cp_closed s) \<Longrightarrow> cp_arcs s i = 0"
    "i < cp_next s \<Longrightarrow> cp_arcs s i = 0 \<Longrightarrow> (\<forall>t. cp_pc s t \<noteq> AcStore i) \<Longrightarrow> i \<in> set (cp_closed s)"
proof -
  note ok = cache_ok_reach [OF assms]
  show "t = u" if "cp_pc s t = AcNegotiate c" "cp_pc s u = AcNegotiate d"
    using holder(1) [OF ok, of t] holder(1) [OF ok, of u] that by (simp add: in_section_def)
  show "distinct (cp_closed s)" "i \<in> set (cp_closed s) \<Longrightarrow> cp_arcs s i = 0"
    using ok by (auto simp: cache_ok_def sessions_ok_def)
  show "i \<in> set (cp_closed s)" if "i < cp_next s" "cp_arcs s i = 0" "\<forall>t. cp_pc s t \<noteq> AcStore i"
  proof -
    have "storing s \<noteq> Some i" using that(3) by (auto simp: storing_def split: option.splits acquire_pc.splits)
    then show ?thesis using ok that(1,2) unfolding cache_ok_def sessions_ok_def by (metis less_nat_zero_code)
  qed
qed

lemma recheck_reuses:
  "cp_cache s = Some i \<Longrightarrow> 0 < cp_arcs s i \<Longrightarrow> cp_cursor s i = c \<Longrightarrow>
     cp_pc (acquire_recheck t c s) t = AcDone i \<and> cp_lock (acquire_recheck t c s) = None"
  by (simp add: acquire_recheck_def cache_hit_def)

section \<open>Capturables\<close>

text \<open>\<open>PipeWireCapturable\<close>: the session it keeps alive and its stream.\<close>

record pw_capturable =
  pc_session :: nat
  pc_path :: nat
  pc_source_type :: nat

definition pw_capturable_new :: "nat \<Rightarrow> pw_stream_info \<Rightarrow> pw_capturable" where
  "pw_capturable_new session stream =
     \<lparr>pc_session = session, pc_path = si_path stream, pc_source_type = si_source_type stream\<rparr>"

definition pw_name :: "pw_capturable \<Rightarrow> string" where
  "pw_name c =
     (let type_str = (if pc_source_type c = 1 then ''Desktop''
                      else if pc_source_type c = 2 then ''Window'' else ''Unknown'')
      in ''Pipewire '' @ type_str @ '', path: '' @ dec (pc_path c))"

definition pw_get_capturables :: "string + nat \<times> pw_stream_info list \<Rightarrow> string + pw_capturable list" where
  "pw_get_capturables acquired = (case acquired of
      Inl e \<Rightarrow> Inl e
    | Inr (session, streams) \<Rightarrow> Inr (map (pw_capturable_new session) streams))"

end
