(* ===== verification/PlatformCodecs.thy ===== *)
theory PlatformCodecs
  imports EncoderFacts
begin

text \<open>
  The hardware encoders of the other platforms in \<open>crates/rylus-encode/src/lib.rs\<close>
  (\<open>try_mediafoundation\<close> on Windows, \<open>try_videotoolbox\<close> on macOS) and the choice of a codec there.  Both
  provide the interface \<open>codec_choice\<close>, so what is shown of construction and release on Linux holds on
  them.
\<close>

section \<open>Windows and macOS\<close>

text \<open>The flag \<open>AV_CODEC_FLAG_LOW_DELAY\<close> is set as an option of its own name.\<close>

definition mediafoundation_options :: "(string \<times> string) list" where
  "mediafoundation_options = [(''AV_CODEC_FLAG_LOW_DELAY'', ''1''), (''rate_control'', ''ld_vbr''),
     (''scenario'', ''display_remoting''), (''quality'', ''100'')]"

definition try_mediafoundation :: "ffi_env \<Rightarrow> video_encoder \<Rightarrow> ffi \<Rightarrow> bool \<times> video_encoder \<times> ffi" where
  "try_mediafoundation env e w =
     try_codec env ''h264_mf'' FmtNV12 FmtNV12 FmtNV12 False mediafoundation_options e w"

definition videotoolbox_options :: "(string \<times> string) list" where
  "videotoolbox_options = [(''realtime'', ''true''), (''allow_sw'', ''true''), (''profile'', ''main''),
     (''level'', ''5.2'')]"

definition try_videotoolbox :: "ffi_env \<Rightarrow> video_encoder \<Rightarrow> ffi \<Rightarrow> bool \<times> video_encoder \<times> ffi" where
  "try_videotoolbox env e w =
     try_codec env ''h264_videotoolbox'' FmtYUV420P FmtYUV420P FmtYUV420P False videotoolbox_options e w"

definition choose_codec_windows ::
  "ffi_env \<Rightarrow> encoder_options \<Rightarrow> video_encoder \<Rightarrow> ffi \<Rightarrow> (string + unit) \<times> video_encoder \<times> ffi" where
  "choose_codec_windows env options e w =
     (let (using_hw, e, w) = (if op_try_mediafoundation options then try_mediafoundation env e w
                              else (False, e, w));
          (using_hw, e, w) = (if op_try_nvenc options \<and> \<not> using_hw then try_nvenc env e w
                              else (using_hw, e, w))
      in if \<not> using_hw then setup_libx264 env options e w else (Inr (), e, w))"

definition choose_codec_macos ::
  "ffi_env \<Rightarrow> encoder_options \<Rightarrow> video_encoder \<Rightarrow> ffi \<Rightarrow> (string + unit) \<times> video_encoder \<times> ffi" where
  "choose_codec_macos env options e w =
     (let (using_hw, e, w) = (if op_try_videotoolbox options then try_videotoolbox env e w else (False, e, w))
      in if \<not> using_hw then setup_libx264 env options e w else (Inr (), e, w))"

section \<open>Ownership without a device\<close>

lemma unref_hw_False: "unref_hw_device False e w = (e, w)"
  by (simp add: unref_hw_device_def)

lemma open_codec_plain:
  assumes ok: "ffi_ok w" and r: "open_codec False f opts codec c s e w = (b, e', w')"
  shows "ffi_ok w' \<and> (if b then e' = e\<lparr>ve_codec_ctx := c, ve_scalers := Some s\<rparr> \<and> owned w' = owned w
    else e' = e \<and> owned w' = owned w - {c} - sl_own s)"
proof -
  define w3 where "w3 = set_codec_params e c options_default (set_options c opts (call (Call ''set pix_fmt'' [P c, F f]) w))"
  have w3: "ffi_ok w3" "owned w3 = owned w" using ok by (simp_all add: w3_def)
  obtain ret w4 where A: "ask (Call ''avcodec_open2'' [P c, P codec]) w3 = (ret, w4)" by fastforce
  have w4: "ffi_ok w4" "owned w4 = owned w" using ask_plain [OF A w3(1)] w3 by simp_all
  have e: "(b, e', w') = (if ret = 0 then (True, e\<lparr>ve_codec_ctx := c, ve_scalers := Some s\<rparr>, w4)
      else (False, e, scalers_drop s (call (Release ''avcodec_free_context'' c) w4)))"
    using r A unfolding open_codec_def w3_def Let_def unref_hw_False by (simp only: simp_thms if_False prod.case)
  show ?thesis
    using e w4 scalers_drop_owned [of "call (Release ''avcodec_free_context'' c) w4" s] by (auto split: if_splits)
qed

lemma try_codec_plain:
  assumes ok: "ffi_ok w" and h: "ve_hw_device e = 0"
    and r: "try_codec env name hwf swf cf False opts e w = (b, e', w')"
  shows "if b then set_up e w e' w' else ffi_ok w' \<and> e' = e \<and> owned w' = owned w"
proof -
  obtain codec w1 where A: "ask (Call ''avcodec_find_encoder_by_name'' [S name]) w = (codec, w1)" by fastforce
  have w1: "ffi_ok w1" "owned w1 = owned w" using ask_plain [OF A ok] by simp_all
  obtain c w2 where B: "alloc (Obtain ''avcodec_alloc_context3'' [I codec]) w1 = (c, w2)" by fastforce
  note t2 = alloc_fresh [OF w1(1) _ B]
  obtain r3 w3 where C: "scalers_new env (to_c_int (ve_width_in e)) (to_c_int (ve_height_in e))
      (to_c_int (ve_width_out e)) (to_c_int (ve_height_out e)) hwf swf (ve_hw_device e) w2 = (r3, w3)"
    by fastforce
  consider "codec = 0" | "codec \<noteq> 0" "c = 0" | "codec \<noteq> 0" "c \<noteq> 0" by blast
  then show ?thesis
  proof cases
    case 1
    then show ?thesis using r w1 by (auto simp: try_codec_def A unref_hw_False)
  next
    case 2
    then show ?thesis using r w1 t2 by (auto simp: try_codec_def A B unref_hw_False)
  next
    case 3
    have w2: "ffi_ok w2" "owned w2 = insert c (owned w)" "c \<notin> owned w" using t2 3 w1 by simp_all
    note t3 = scalers_new_transfers [OF w2(1) C, unfolded transfers_def]
    show ?thesis
    proof (cases r3)
      case (Inl err)
      then show ?thesis using r 3 t3 w2 by (auto simp: try_codec_def A B C unref_hw_False)
    next
      case (Inr s)
      have w3: "ffi_ok w3" "owned w3 = insert c (owned w) \<union> sl_own s" "sl_own s \<inter> insert c (owned w) = {}"
        using t3 Inr w2 by simp_all
      have "open_codec False cf opts (nat codec) c s e w3 = (b, e', w')"
        using r 3 Inr by (simp add: try_codec_def A B C)
      note t4 = open_codec_plain [OF w3(1) this]
      show ?thesis
      proof (cases b)
        case True
        then have "e' = e\<lparr>ve_hw_device := 0, ve_codec_ctx := c, ve_scalers := Some s\<rparr>" "ffi_ok w'"
          "owned w' = owned w \<union> (({0} - {0}) \<union> insert c (sl_own s))"
          "(({0} - {0}) \<union> insert c (sl_own s)) \<inter> owned w = {}"
          using t4 h w3 w2(3) by auto
        then have "set_up e w e' w'" unfolding set_up_def by blast
        then show ?thesis using True by simp
      next
        case False
        have "insert c (owned w) \<union> sl_own s - {c} - sl_own s = owned w" using w3(3) w2(3) by auto
        then show ?thesis using False t4 w3(2) by simp
      qed
    qed
  qed
qed

text \<open>The last stage of every choice: software if no hardware was set up.\<close>

lemma software_last:
  assumes ok: "if b then set_up e w e1 w1 else ffi_ok w1 \<and> e1 = e \<and> owned w1 = owned w"
    and h: "ve_hw_device e = 0"
    and r: "(if \<not> b then setup_libx264 env options e1 w1 else (Inr (), e1, w1)) = (r, e', w')"
  shows "case r of Inr _ \<Rightarrow> set_up e w e' w' | Inl _ \<Rightarrow> ffi_ok w' \<and> e' = e \<and> owned w' = owned w"
proof (cases b)
  case True
  then show ?thesis using ok r by auto
next
  case False
  then have s: "ffi_ok w1" "e1 = e" "owned w1 = owned w" using ok by simp_all
  have "setup_libx264 env options e w1 = (r, e', w')" using r False s by simp
  from setup_libx264_owned [OF s(1) h this] show ?thesis unfolding set_up_cong [OF s(3)] s(3) .
qed

lemma choose_macos_owned:
  assumes ok: "ffi_ok w" and h: "ve_hw_device e = 0" and r: "choose_codec_macos env options e w = (r, e', w')"
  shows "case r of Inr _ \<Rightarrow> set_up e w e' w' | Inl _ \<Rightarrow> ffi_ok w' \<and> e' = e \<and> owned w' = owned w"
proof -
  obtain b e1 w1 where A: "(if op_try_videotoolbox options then try_videotoolbox env e w else (False, e, w)) = (b, e1, w1)"
    by (metis prod.exhaust)
  have "if b then set_up e w e1 w1 else ffi_ok w1 \<and> e1 = e \<and> owned w1 = owned w"
    using A try_codec_plain [OF ok h] ok by (cases "op_try_videotoolbox options") (auto simp: try_videotoolbox_def)
  then show ?thesis by (rule software_last [OF _ h]) (use r A in \<open>simp add: choose_codec_macos_def Let_def\<close>)
qed

lemma choose_windows_owned:
  assumes ok: "ffi_ok w" and h: "ve_hw_device e = 0" and r: "choose_codec_windows env options e w = (r, e', w')"
  shows "case r of Inr _ \<Rightarrow> set_up e w e' w' | Inl _ \<Rightarrow> ffi_ok w' \<and> e' = e \<and> owned w' = owned w"
proof -
  obtain b1 e1 w1 where A: "(if op_try_mediafoundation options then try_mediafoundation env e w else (False, e, w)) = (b1, e1, w1)"
    by (metis prod.exhaust)
  have 1: "if b1 then set_up e w e1 w1 else ffi_ok w1 \<and> e1 = e \<and> owned w1 = owned w"
    using A try_codec_plain [OF ok h] ok by (cases "op_try_mediafoundation options") (auto simp: try_mediafoundation_def)
  obtain b2 e2 w2 where B: "(if op_try_nvenc options \<and> \<not> b1 then try_nvenc env e1 w1 else (b1, e1, w1)) = (b2, e2, w2)"
    by (metis prod.exhaust)
  have "if b2 then set_up e w e2 w2 else ffi_ok w2 \<and> e2 = e \<and> owned w2 = owned w"
  proof (cases "op_try_nvenc options \<and> \<not> b1")
    case True
    then have s: "ffi_ok w1" "e1 = e" "owned w1 = owned w" using 1 by simp_all
    have t: "try_nvenc env e w1 = (b2, e2, w2)" using B True s by simp
    have e0: "e\<lparr>ve_hw_device := 0\<rparr> = e" using h by simp
    show ?thesis using try_nvenc_owned [OF s(1) t] unfolding set_up_cong [OF s(3)] e0 s(3) .
  next
    case False
    then have "b2 = b1" "e2 = e1" "w2 = w1" using B by auto
    then show ?thesis using 1 by simp
  qed
  then show ?thesis by (rule software_last [OF _ h]) (use r A B in \<open>simp add: choose_codec_windows_def Let_def\<close>)
qed

interpretation windows_codec: codec_choice "choose_codec_windows env options"
  by unfold_locales (rule choose_windows_owned)

interpretation macos_codec: codec_choice "choose_codec_macos env options"
  by unfold_locales (rule choose_macos_owned)

end
