(* ===== verification/MacCapture.thy ===== *)
theory MacCapture
  imports Capturables RustNum Pixel "HOL-Library.List_Lexorder" "HOL-Library.Char_ord"
begin

text \<open>
  Screen capture on macOS, \<open>crates/rylus-capture/src/core_graphics.rs\<close>: the coordinate system of all
  displays, the geometry of displays and windows with its refresh, and the two recorders.  What
  CoreGraphics answers at one moment is the record \<open>cg_env\<close>.  Instants are nanoseconds; their difference
  saturates at zero, as Rust's does.
\<close>

section \<open>CoreGraphics\<close>

record cg_rect =
  cg_x :: f64
  cg_y :: f64
  cg_w :: f64
  cg_h :: f64

record cg_image =
  im_bits_per_pixel :: nat
  im_bits_per_component :: nat
  im_width :: usize
  im_height :: usize
  im_bytes_per_row :: usize
  im_data :: "byte list"

text \<open>An entry of the window list; a value that is missing or cannot be converted is \<open>None\<close>.\<close>

record raw_window =
  rw_id :: "int option"
  rw_bounds :: "cg_rect option"
  rw_name :: "string option"

datatype cg_request =
    ScreenshotArea cg_rect
  | DisplayImage nat
  | ScreenshotWindows cg_rect "nat list"

record cg_env =
  ce_displays :: "string + nat list"
  ce_bounds :: "nat \<Rightarrow> cg_rect"
  ce_pixels :: "nat \<Rightarrow> nat \<times> nat"
  ce_windows :: "raw_window list option"
  ce_image :: "cg_request \<Rightarrow> cg_image option"

section \<open>The coordinate system\<close>

fun fneg :: "f64 \<Rightarrow> f64" where
  "fneg (Fin a) = Fin (- a)"
| "fneg PInf = NInf"
| "fneg NInf = PInf"
| "fneg NaN = NaN"

definition fminus :: "f64 \<Rightarrow> f64 \<Rightarrow> f64" where
  "fminus x y = fadd x (fneg y)"

text \<open>Left, right, upper and lower edge of the area so far.\<close>

definition extend_area :: "cg_rect \<Rightarrow> f64 \<times> f64 \<times> f64 \<times> f64 \<Rightarrow> f64 \<times> f64 \<times> f64 \<times> f64" where
  "extend_area r area = (case area of (x0, x1, y0, y1) \<Rightarrow>
     (fmin x0 (cg_x r), fmax x1 (fadd (cg_x r) (cg_w r)), fmin y0 (cg_y r), fmax y1 (fadd (cg_y r) (cg_h r))))"

definition screen_coordsys :: "cg_env \<Rightarrow> string + f64 \<times> f64 \<times> f64 \<times> f64" where
  "screen_coordsys env = (case ce_displays env of
      Inl err \<Rightarrow> Inl (''Failed to obtain displays, CGError code: '' @ err)
    | Inr ids \<Rightarrow>
        (case fold extend_area (map (ce_bounds env) ids) (Fin 0, Fin 0, Fin 0, Fin 0) of
           (x0, x1, y0, y1) \<Rightarrow> Inr (x0, y0, fminus x1 x0, fminus y1 y0)))"

definition relative_to :: "f64 \<times> f64 \<times> f64 \<times> f64 \<Rightarrow> cg_rect \<Rightarrow> f64 \<times> f64 \<times> f64 \<times> f64" where
  "relative_to area r = (case area of (x0, y0, w, h) \<Rightarrow>
     (fdiv (fminus (cg_x r) x0) w, fdiv (fminus (cg_y r) y0) h, fdiv (cg_w r) w, fdiv (cg_h r) h))"

section \<open>Displays\<close>

definition cg_display_name :: "cg_env \<Rightarrow> nat \<Rightarrow> string" where
  "cg_display_name env d =
     ''Monitor (CG, '' @ dec (fst (ce_pixels env d)) @ ''x'' @ dec (snd (ce_pixels env d)) @ '')''"

definition cg_display_geometry :: "cg_env \<Rightarrow> nat \<Rightarrow> string + f64 geometry" where
  "cg_display_geometry env d = (case screen_coordsys env of
      Inl e \<Rightarrow> Inl e
    | Inr area \<Rightarrow> (case relative_to area (ce_bounds env d) of (x, y, w, h) \<Rightarrow> Inr (Relative x y w h)))"

definition get_displays :: "cg_env \<Rightarrow> string + nat list" where
  "get_displays env = (case ce_displays env of
      Inl err \<Rightarrow> Inl (''Failed to obtain displays, CGError code: '' @ err) | Inr ids \<Rightarrow> Inr ids)"

definition check_pixelformat :: "cg_image \<Rightarrow> string + unit" where
  "check_pixelformat img =
     (if im_bits_per_pixel img \<noteq> 32
      then Inl (''Only BGR0 with 32 bits per pixel is supported, not '' @ dec (im_bits_per_pixel img) @ '' bits!'')
      else if im_bits_per_component img \<noteq> 8
      then Inl (''Only BGR0 with 8 bits per component is supported, not '' @ dec (im_bits_per_component img) @ '' bits!'')
      else Inr ())"

text \<open>The frame made of an image.\<close>

definition cg_frame :: "string \<Rightarrow> cg_image option \<Rightarrow> string + pixel_provider" where
  "cg_frame failed img = (case img of
      None \<Rightarrow> Inl failed
    | Some img \<Rightarrow> (case check_pixelformat img of
          Inl e \<Rightarrow> Inl e
        | Inr _ \<Rightarrow> Inr (BGR0S (im_width img) (im_height img) (im_bytes_per_row img) (im_data img))))"

definition cg_display_capture :: "cg_env \<Rightarrow> bool \<Rightarrow> nat \<Rightarrow> string + pixel_provider" where
  "cg_display_capture env capture_cursor d =
     cg_frame ''Failed to capture screen using CoreGraphics.''
       (ce_image env (if capture_cursor then ScreenshotArea (ce_bounds env d) else DisplayImage d))"

text \<open>A display needs no preparation for input; its recorder is made for one wish about the cursor.\<close>

definition cg_display_before_input :: "nat \<Rightarrow> (string + unit) \<times> nat" where
  "cg_display_before_input d = (Inr (), d)"

record cg_display_recorder =
  dr_img_data :: "byte list option"
  dr_display :: nat
  dr_capture_cursor :: bool

definition cg_display_recorder_new :: "nat \<Rightarrow> bool \<Rightarrow> cg_display_recorder" where
  "cg_display_recorder_new d capture_cursor =
     \<lparr>dr_img_data = None, dr_display = d, dr_capture_cursor = capture_cursor\<rparr>"

definition cg_display_recorder_of :: "nat \<Rightarrow> bool \<Rightarrow> string + cg_display_recorder" where
  "cg_display_recorder_of d capture_cursor = Inr (cg_display_recorder_new d capture_cursor)"

section \<open>Windows\<close>

record window_info =
  wf_id :: nat
  wf_name :: string
  wf_bounds :: cg_rect

text \<open>\<open>id as CGWindowID\<close> is a cast to \<open>u32\<close>; entries without identifier, bounds or name are skipped.\<close>

definition window_info_of :: "raw_window \<Rightarrow> window_info option" where
  "window_info_of w = (case (rw_id w, rw_bounds w, rw_name w) of
      (Some i, Some b, Some n) \<Rightarrow> Some \<lparr>wf_id = nat (i mod 2 ^ 32), wf_name = n, wf_bounds = b\<rparr>
    | _ \<Rightarrow> None)"

definition get_window_infos :: "cg_env \<Rightarrow> window_info list" where
  "get_window_infos env = (case ce_windows env of None \<Rightarrow> [] | Some ws \<Rightarrow> List.map_filter window_info_of ws)"

record cg_window =
  cw_id :: nat
  cw_name :: string
  cw_cursor_id :: nat
  cw_bounds :: cg_rect
  cw_relative :: "f64 \<times> f64 \<times> f64 \<times> f64"
  cw_last_update :: nanos

definition get_windows :: "cg_env \<Rightarrow> nanos \<Rightarrow> string + cg_window list" where
  "get_windows env now =
     (let infos = get_window_infos env
      in case find (\<lambda>w. wf_name w = ''Cursor'') infos of
           None \<Rightarrow> Inl ''No Cursor found!''
         | Some cursor \<Rightarrow>
             Inr (map (\<lambda>w. \<lparr>cw_id = wf_id w, cw_name = wf_name w, cw_cursor_id = wf_id cursor,
                 cw_bounds = wf_bounds w, cw_relative = (Fin 0, Fin 0, Fin 1, Fin 1),
                 cw_last_update = now - secs 2\<rparr>)
               (filter (\<lambda>w. wf_id w \<noteq> wf_id cursor) infos)))"

text \<open>\<open>update_geometry\<close>, with the readings of the clock before and after; an error of \<open>screen_coordsys\<close> comes
  after the bounds are replaced.\<close>

definition update_geometry :: "cg_env \<Rightarrow> nanos \<Rightarrow> nanos \<Rightarrow> cg_window \<Rightarrow> (string + unit) \<times> cg_window" where
  "update_geometry env now later c =
     (if now - cw_last_update c > millis 50 then
        (case find (\<lambda>w. wf_id w = cw_id c) (get_window_infos env) of
           None \<Rightarrow> (Inl (''Could not find information for current window '' @ dec (cw_id c) @ ''.''), c)
         | Some w \<Rightarrow>
             let c = c\<lparr>cw_bounds := wf_bounds w\<rparr>
             in (case screen_coordsys env of
                   Inl e \<Rightarrow> (Inl e, c)
                 | Inr area \<Rightarrow>
                     (Inr (), c\<lparr>cw_relative := relative_to area (cw_bounds c), cw_last_update := later\<rparr>)))
      else (Inr (), c))"

definition cg_window_geometry :: "cg_window \<Rightarrow> f64 geometry" where
  "cg_window_geometry c = (case cw_relative c of (x, y, w, h) \<Rightarrow> Relative x y w h)"

definition cg_window_capture ::
  "cg_env \<Rightarrow> nanos \<Rightarrow> nanos \<Rightarrow> bool \<Rightarrow> cg_window \<Rightarrow> (string + pixel_provider) \<times> cg_window" where
  "cg_window_capture env now later capture_cursor c = (case update_geometry env now later c of
      (Inl e, c) \<Rightarrow> (Inl e, c)
    | (Inr _, c) \<Rightarrow>
        (cg_frame ''Failed to capture window using CoreGraphics.''
           (ce_image env (ScreenshotWindows (cw_bounds c)
              (if capture_cursor then [cw_cursor_id c, cw_id c] else [cw_id c]))), c))"

definition cg_window_name :: "cg_window \<Rightarrow> string" where
  "cg_window_name c = cw_name c"

definition cg_window_before_input :: "cg_env \<Rightarrow> nanos \<Rightarrow> nanos \<Rightarrow> cg_window \<Rightarrow> (string + unit) \<times> cg_window" where
  "cg_window_before_input env now later c = update_geometry env now later c"

record cg_window_recorder =
  wrc_img_data :: "byte list option"
  wrc_capture_cursor :: bool
  wrc_win :: cg_window

text \<open>The recorder has a window of its own, refreshed apart from that of the input.\<close>

definition cg_window_recorder_of :: "cg_window \<Rightarrow> bool \<Rightarrow> string + cg_window_recorder" where
  "cg_window_recorder_of c capture_cursor =
     Inr \<lparr>wrc_img_data = None, wrc_capture_cursor = capture_cursor, wrc_win = c\<rparr>"

text \<open>\<open>get_capturables\<close> on macOS: displays, then windows by name.\<close>

datatype mac_capturable = MacDisplay nat | MacWindow cg_window | MacTest test_capturable

definition mac_get_capturables :: "cg_env \<Rightarrow> nanos \<Rightarrow> bool \<Rightarrow> mac_capturable list" where
  "mac_get_capturables env now debug =
     (case get_displays env of Inr ds \<Rightarrow> map MacDisplay ds | Inl _ \<Rightarrow> [])
     @ (case get_windows env now of
          Inr ws \<Rightarrow> map MacWindow (sort_key (\<lambda>w. lowercase (cw_name w)) ws) | Inl _ \<Rightarrow> [])
     @ (if debug then map MacTest test_capturables else [])"

section \<open>Every display lies in the coordinate system\<close>

text \<open>A display with finite bounds and a size that is not negative.\<close>

definition finite_rect :: "cg_rect \<Rightarrow> bool" where
  "finite_rect r \<longleftrightarrow> (\<exists>x y w h. r = \<lparr>cg_x = Fin x, cg_y = Fin y, cg_w = Fin w, cg_h = Fin h\<rparr> \<and> 0 \<le> w \<and> 0 \<le> h)"

definition in_area :: "cg_rect \<Rightarrow> rat \<Rightarrow> rat \<Rightarrow> rat \<Rightarrow> rat \<Rightarrow> bool" where
  "in_area r x0 x1 y0 y1 \<longleftrightarrow> (\<exists>x y w h. r = \<lparr>cg_x = Fin x, cg_y = Fin y, cg_w = Fin w, cg_h = Fin h\<rparr>
     \<and> 0 \<le> w \<and> 0 \<le> h \<and> x0 \<le> x \<and> x + w \<le> x1 \<and> y0 \<le> y \<and> y + h \<le> y1)"

lemma fmin_fmax_Fin: "fmin (Fin a) (Fin b) = Fin (min a b)" "fmax (Fin a) (Fin b) = Fin (max a b)"
  by (simp_all add: fmin_def fmax_def min_def max_def)

lemma area_encloses:
  assumes "\<forall>r \<in> set rs. finite_rect r"
  shows "\<exists>a0 a1 b0 b1. fold extend_area rs (Fin x0, Fin x1, Fin y0, Fin y1) = (Fin a0, Fin a1, Fin b0, Fin b1)
    \<and> a0 \<le> x0 \<and> x1 \<le> a1 \<and> b0 \<le> y0 \<and> y1 \<le> b1 \<and> (\<forall>r \<in> set rs. in_area r a0 a1 b0 b1)"
  using assms
proof (induction rs arbitrary: x0 x1 y0 y1)
  case Nil
  then show ?case by simp
next
  case (Cons r rs)
  obtain x y w h where r: "r = \<lparr>cg_x = Fin x, cg_y = Fin y, cg_w = Fin w, cg_h = Fin h\<rparr>" "0 \<le> w" "0 \<le> h"
    using Cons.prems by (auto simp: finite_rect_def)
  obtain a0 a1 b0 b1 where ih: "fold extend_area rs (Fin (min x0 x), Fin (max x1 (x + w)), Fin (min y0 y), Fin (max y1 (y + h)))
      = (Fin a0, Fin a1, Fin b0, Fin b1)" "a0 \<le> min x0 x" "max x1 (x + w) \<le> a1" "b0 \<le> min y0 y" "max y1 (y + h) \<le> b1"
      "\<forall>r \<in> set rs. in_area r a0 a1 b0 b1"
    using Cons.IH [of "min x0 x" "max x1 (x + w)" "min y0 y" "max y1 (y + h)"] Cons.prems by auto
  have "in_area r a0 a1 b0 b1" using r ih(2-5) by (auto simp: in_area_def)
  moreover have "fold extend_area (r # rs) (Fin x0, Fin x1, Fin y0, Fin y1) = (Fin a0, Fin a1, Fin b0, Fin b1)"
    using ih(1) by (simp add: r(1) extend_area_def [of "\<lparr>cg_x = _, cg_y = _, cg_w = _, cg_h = _\<rparr>"] fmin_fmax_Fin)
  ultimately show ?case using ih(2-6) by auto
qed

text \<open>A display's geometry is a part of the unit square.\<close>

lemma display_geometry_unit:
  assumes "ce_displays env = Inr ids" "d \<in> set ids" "\<forall>i \<in> set ids. finite_rect (ce_bounds env i)"
    and "cg_w (ce_bounds env d) \<noteq> Fin 0" "cg_h (ce_bounds env d) \<noteq> Fin 0"
  shows "\<exists>x y w h. cg_display_geometry env d = Inr (Relative (Fin x) (Fin y) (Fin w) (Fin h))
    \<and> 0 \<le> x \<and> 0 \<le> y \<and> 0 < w \<and> 0 < h \<and> x + w \<le> 1 \<and> y + h \<le> 1"
proof -
  obtain a0 a1 b0 b1 where f: "fold extend_area (map (ce_bounds env) ids) (Fin 0, Fin 0, Fin 0, Fin 0)
      = (Fin a0, Fin a1, Fin b0, Fin b1)" "\<forall>r \<in> set (map (ce_bounds env) ids). in_area r a0 a1 b0 b1"
    using area_encloses [of "map (ce_bounds env) ids" 0 0 0 0] assms(3) by auto
  then have "in_area (ce_bounds env d) a0 a1 b0 b1" using assms(2) by simp
  then obtain x y w h where r: "ce_bounds env d = \<lparr>cg_x = Fin x, cg_y = Fin y, cg_w = Fin w, cg_h = Fin h\<rparr>"
    "0 \<le> w" "0 \<le> h" "a0 \<le> x" "x + w \<le> a1" "b0 \<le> y" "y + h \<le> b1"
    by (auto simp: in_area_def)
  have pos: "0 < w" "0 < h" using r(1-3) assms(4,5) by auto
  have unit: "0 \<le> (x - a0) / (a1 - a0) \<and> (x - a0) / (a1 - a0) + w / (a1 - a0) \<le> 1"
    "0 \<le> (y - b0) / (b1 - b0) \<and> (y - b0) / (b1 - b0) + h / (b1 - b0) \<le> 1"
    using r pos by (simp_all add: add_divide_distrib [symmetric])
  show ?thesis
    using assms(1) f(1) r pos unit
    by (simp add: cg_display_geometry_def screen_coordsys_def relative_to_def fminus_def)
qed

section \<open>Freshness of a window's geometry\<close>

text \<open>After a successful refresh the bounds are at most 50 ms old, and from the current window list if they
  were older before; a window that is gone is an error.\<close>

lemma geometry_fresh:
  assumes "update_geometry env now later c = (Inr (), c')" "now \<le> later"
  shows "now - cw_last_update c' \<le> millis 50 \<and> (c' = c \<or>
     (\<exists>w \<in> set (get_window_infos env). wf_id w = cw_id c \<and> cw_bounds c' = wf_bounds w
        \<and> cw_last_update c' = later))"
proof (cases "now - cw_last_update c > millis 50")
  case False
  then show ?thesis using assms(1) by (simp add: update_geometry_def)
next
  case True
  then obtain w area where w: "find (\<lambda>w. wf_id w = cw_id c) (get_window_infos env) = Some w"
      "screen_coordsys env = Inr area"
      "c' = c\<lparr>cw_bounds := wf_bounds w, cw_relative := relative_to area (wf_bounds w), cw_last_update := later\<rparr>"
    using assms(1) by (auto simp: update_geometry_def Let_def split: option.splits sum.splits)
  then have "w \<in> set (get_window_infos env)" "wf_id w = cw_id c" by (auto simp: find_Some_iff in_set_conv_nth)
  then show ?thesis using w(3) assms(2) by auto
qed

lemma gone_window:
  assumes "now - cw_last_update c > millis 50" "\<forall>w \<in> set (get_window_infos env). wf_id w \<noteq> cw_id c"
  shows "\<exists>e. update_geometry env now later c = (Inl e, c)"
proof -
  have "find (\<lambda>w. wf_id w = cw_id c) (get_window_infos env) = None" using assms(2) by (simp add: find_None_iff)
  then show ?thesis using assms(1) by (simp add: update_geometry_def)
qed

text \<open>Before the first refresh a window claims the whole screen.\<close>

lemma windows_unplaced:
  "get_windows env now = Inr ws \<Longrightarrow> c \<in> set ws \<Longrightarrow>
     cg_window_geometry c = Relative (Fin 0) (Fin 0) (Fin 1) (Fin 1) \<and> cw_id c \<noteq> cw_cursor_id c"
  by (auto simp: get_windows_def cg_window_geometry_def Let_def split: option.splits)

text \<open>Windows are offered only if the window list has one called \<open>Cursor\<close>, wanted or not.\<close>

lemma no_cursor_no_windows:
  "\<forall>w \<in> set (get_window_infos env). wf_name w \<noteq> ''Cursor'' \<Longrightarrow> get_windows env now = Inl ''No Cursor found!''"
  by (simp add: get_windows_def find_None_iff Let_def split: option.split)

text \<open>A frame has what the image says of itself, with 32 bits per pixel.\<close>

lemma cg_frame_image:
  "cg_frame failed img = Inr p \<Longrightarrow> \<exists>i. img = Some i \<and> im_bits_per_pixel i = 32 \<and> im_bits_per_component i = 8
     \<and> p = BGR0S (im_width i) (im_height i) (im_bytes_per_row i) (im_data i)"
  by (auto simp: cg_frame_def check_pixelformat_def split: option.splits if_splits)

end
