(* ===== verification/WindowsInput.thy ===== *)
theory WindowsInput
  imports EnigoDevice
begin

text \<open>
  \<open>WindowsInput\<close> of \<open>crates/rylus-input/src/enigo_device_win.rs\<close>: pen and touch by synthetic pointer
  devices, mouse by \<open>SetCursorPos\<close> and \<open>mouse_event\<close>, keys by the Enigo device.  The calls to Windows are
  recorded in \<open>wi_calls\<close>; their errors are ignored by the code.  The flags are the \<open>POINTER_FLAG_\<close> and
  \<open>MOUSEEVENTF_\<close> constants of the \<open>windows\<close> crate, as sets.  An \<open>unreachable!\<close> is \<open>None\<close>.
\<close>

section \<open>Data\<close>

text \<open>\<open>Geometry\<close> on Windows: offset in the virtual screen, size, position on the screen.\<close>

datatype win_geometry =
    WinRelative f64 f64 f64 f64
  | VirtualScreen int int nat nat int int

datatype pointer_flag = FlagInRange | FlagInContact | FlagDown | FlagUpdate | FlagUp | FlagCanceled | FlagPrimary

datatype button_change = ChangeNone | FirstDown | SecondDown | ThirdDown

datatype mouse_flag = LeftDown | LeftUp | RightDown | RightUp | MiddleDown | MiddleUp | WheelFlag

record pointer_info =
  pi_id :: u32
  pi_flags :: "pointer_flag set"
  pi_x :: int
  pi_y :: int
  pi_change :: button_change
  pi_pressure :: u32
  pi_rotation :: u32
  pi_tilt_x :: int
  pi_tilt_y :: int

text \<open>A touch frame is the list of the map's values in the map's order, which is not specified: it is the
  map itself.\<close>

datatype win_call =
    InitializeTouch nat
  | CreatePen nat
  | CreateTouch nat
  | InjectPen pointer_info
  | InjectTouch "int \<rightharpoonup> pointer_info"
  | SetCursorPos int int
  | MouseEvent "mouse_flag set" int
  | DestroyPen
  | DestroyTouch

record 'c win_env =
  wn_before_input :: "'c \<Rightarrow> string option \<times> 'c"
  wn_geometry :: "'c \<Rightarrow> string + win_geometry"

record 'c windows_input =
  wi_capturable :: 'c
  wi_enigo :: "'c enigo"
  wi_touches :: "int \<rightharpoonup> pointer_info"
  wi_calls :: "win_call list"

section \<open>Operations\<close>

definition win_new :: "'c \<Rightarrow> 'c windows_input" where
  "win_new c = \<lparr>wi_capturable = c, wi_enigo = enigo_new c, wi_touches = Map.empty,
     wi_calls = [InitializeTouch 5, CreatePen 1, CreateTouch 5]\<rparr>"

definition win_do :: "win_call list \<Rightarrow> 'c windows_input \<Rightarrow> 'c windows_input" where
  "win_do cs d = d\<lparr>wi_calls := wi_calls d @ cs\<rparr>"

definition win_wheel :: "wheel_event \<Rightarrow> 'c windows_input \<Rightarrow> 'c windows_input" where
  "win_wheel e d = win_do [MouseEvent {WheelFlag} (we_dy e)] d"

text \<open>\<open>(v * extent as f64) as i32 + offset\<close>.\<close>

definition win_coordinate :: "f64 \<Rightarrow> nat \<Rightarrow> int \<Rightarrow> int" where
  "win_coordinate v extent offset = wrap_i32 (f_as_i32 (fmul v (f_of_nat extent)) + offset)"

fun event_flags :: "pointer_event_type \<Rightarrow> pointer_flag set" where
  "event_flags DOWN = {FlagInRange, FlagInContact, FlagDown}"
| "event_flags MOVE = {FlagInRange, FlagUpdate}"
| "event_flags OVER = {FlagInRange, FlagUpdate}"
| "event_flags ENTER = {FlagInRange, FlagUpdate}"
| "event_flags UP = {FlagUp}"
| "event_flags CANCEL = {FlagInRange, FlagUpdate, FlagCanceled}"
| "event_flags LEAVE = {FlagInRange, FlagUpdate, FlagCanceled}"
| "event_flags OUT = {FlagInRange, FlagUpdate, FlagCanceled}"

definition pointer_flags :: "pointer_event \<Rightarrow> pointer_flag set" where
  "pointer_flags e = event_flags (pe_event_type e)
     \<union> (if pe_buttons e = PRIMARY then {FlagInContact} else {})
     \<union> (if pe_is_primary e then {FlagPrimary} else {})"

definition button_change_of :: "button \<Rightarrow> button_change" where
  "button_change_of b =
     (if b = PRIMARY then FirstDown else if b = SECONDARY then SecondDown
      else if b = AUXILARY then ThirdDown else ChangeNone)"

definition pen_info :: "pointer_event \<Rightarrow> int \<Rightarrow> int \<Rightarrow> pointer_info" where
  "pen_info e x y = \<lparr>pi_id = nat (pe_pointer_id e mod 2 ^ 32), pi_flags = pointer_flags e, pi_x = x, pi_y = y,
     pi_change = button_change_of (pe_buttons e), pi_pressure = f_as_u32 (fmul (pe_pressure e) (Fin 1024)),
     pi_rotation = nat (pe_twist e mod 2 ^ 32), pi_tilt_x = pe_tilt_x e, pi_tilt_y = pe_tilt_y e\<rparr>"

text \<open>The remaining fields of a touch are zero.\<close>

definition touch_info :: "pointer_event \<Rightarrow> int \<Rightarrow> int \<Rightarrow> pointer_info" where
  "touch_info e x y = (pen_info e x y)\<lparr>pi_rotation := 0, pi_tilt_x := 0, pi_tilt_y := 0\<rparr>"

text \<open>A pointer stays in the map until an event that ends it, which is injected first.\<close>

definition touch_stays :: "pointer_event_type \<Rightarrow> bool" where
  "touch_stays t \<longleftrightarrow> t = DOWN \<or> t = MOVE \<or> t = OVER \<or> t = ENTER"

definition win_touch :: "pointer_event \<Rightarrow> int \<Rightarrow> int \<Rightarrow> 'c windows_input \<Rightarrow> 'c windows_input" where
  "win_touch e x y d =
     (let frame = (wi_touches d)(pe_pointer_id e \<mapsto> touch_info e x y);
          d = win_do [InjectTouch frame] d
      in d\<lparr>wi_touches := (if touch_stays (pe_event_type e) then frame
                            else frame(pe_pointer_id e := None))\<rparr>)"

fun press_flags :: "button \<Rightarrow> mouse_flag set" where
  "press_flags b = (if b = PRIMARY then {LeftDown} else if b = SECONDARY then {RightDown}
     else if b = AUXILARY then {MiddleDown} else {})"

fun release_flags :: "button \<Rightarrow> mouse_flag set" where
  "release_flags b = (if b = PRIMARY then {LeftUp} else if b = SECONDARY then {RightUp}
     else if b = AUXILARY then {MiddleUp} else {})"

definition win_mouse :: "pointer_event \<Rightarrow> int \<Rightarrow> int \<Rightarrow> 'c windows_input \<Rightarrow> 'c windows_input" where
  "win_mouse e screen_x screen_y d = (case pe_event_type e of
      DOWN \<Rightarrow> win_do [MouseEvent (press_flags (pe_buttons e)) 0] d
    | UP \<Rightarrow> win_do [MouseEvent (release_flags (pe_button e)) 0] d
    | t \<Rightarrow> if t = MOVE \<or> t = OVER \<or> t = ENTER
           then win_do [SetCursorPos screen_x screen_y, MouseEvent {} 0] d
           else win_do [MouseEvent {LeftUp} 0] d)"

definition win_pointer :: "'c win_env \<Rightarrow> pointer_event \<Rightarrow> 'c windows_input \<Rightarrow> 'c windows_input option" where
  "win_pointer env e d = (case wn_before_input env (wi_capturable d) of
      (Some err, c) \<Rightarrow> Some (d\<lparr>wi_capturable := c\<rparr>)
    | (None, c) \<Rightarrow>
        let d = d\<lparr>wi_capturable := c\<rparr>
        in (case wn_geometry env c of
              Inl err \<Rightarrow> Some d
            | Inr (WinRelative _ _ _ _) \<Rightarrow> None
            | Inr (VirtualScreen offset_x offset_y width height left_x top_y) \<Rightarrow>
                let x = win_coordinate (pe_x e) width offset_x; y = win_coordinate (pe_y e) height offset_y
                in Some (case pe_pointer_type e of
                     Pen \<Rightarrow> win_do [InjectPen (pen_info e x y)] d
                   | Touch \<Rightarrow> win_touch e x y d
                   | Mouse \<Rightarrow> win_mouse e (win_coordinate (pe_x e) width left_x)
                                 (win_coordinate (pe_y e) height top_y) d
                   | PUnknown \<Rightarrow> d)))"

definition win_keyboard :: "keyboard_event \<Rightarrow> 'c windows_input \<Rightarrow> 'c windows_input" where
  "win_keyboard e d = d\<lparr>wi_enigo := enigo_keyboard e (wi_enigo d)\<rparr>"

definition win_set_capturable :: "'c \<Rightarrow> 'c windows_input \<Rightarrow> 'c windows_input" where
  "win_set_capturable c d = d\<lparr>wi_capturable := c\<rparr>"

definition win_drop :: "'c windows_input \<Rightarrow> 'c windows_input" where
  "win_drop d = win_do [DestroyPen, DestroyTouch] d"

text \<open>Events one after the other.\<close>

fun win_run :: "'c win_env \<Rightarrow> pointer_event list \<Rightarrow> 'c windows_input \<Rightarrow> 'c windows_input option" where
  "win_run env [] d = Some d"
| "win_run env (e # es) d = Option.bind (win_pointer env e d) (win_run env es)"

section \<open>Touches\<close>

text \<open>The touches held are those of pointers that have not ended, each with its own identifier.\<close>

definition touches_ok :: "'c windows_input \<Rightarrow> bool" where
  "touches_ok d \<longleftrightarrow> (\<forall>p i. wi_touches d p = Some i \<longrightarrow> pi_id i = nat (p mod 2 ^ 32)
     \<and> FlagUp \<notin> pi_flags i \<and> FlagCanceled \<notin> pi_flags i)"

text \<open>A frame ends at most one pointer, the event's own.\<close>

definition frame_ends_one :: "win_call \<Rightarrow> bool" where
  "frame_ends_one c \<longleftrightarrow> (\<forall>m. c = InjectTouch m \<longrightarrow> (\<exists>p. \<forall>q i. q \<noteq> p \<longrightarrow> m q = Some i \<longrightarrow>
     FlagUp \<notin> pi_flags i \<and> FlagCanceled \<notin> pi_flags i))"

lemma stays_flags: "touch_stays (pe_event_type e) \<Longrightarrow>
    FlagUp \<notin> pointer_flags e \<and> FlagCanceled \<notin> pointer_flags e"
  by (auto simp: touch_stays_def pointer_flags_def)

lemma touch_step:
  assumes "touches_ok d" "list_all frame_ends_one (wi_calls d)"
  shows "touches_ok (win_touch e x y d) \<and> list_all frame_ends_one (wi_calls (win_touch e x y d))"
proof -
  let ?frame = "(wi_touches d)(pe_pointer_id e \<mapsto> touch_info e x y)"
  have "touches_ok (win_touch e x y d)"
    using assms(1) stays_flags [of e]
    by (auto simp: touches_ok_def win_touch_def win_do_def touch_info_def pen_info_def Let_def)
  moreover have "frame_ends_one (InjectTouch ?frame)"
    using assms(1) unfolding frame_ends_one_def touches_ok_def by (auto intro!: exI [of _ "pe_pointer_id e"])
  then have "list_all frame_ends_one (wi_calls (win_touch e x y d))"
    using assms(2) by (simp add: win_touch_def win_do_def Let_def)
  ultimately show ?thesis by blast
qed

lemma win_pointer_ok:
  assumes "win_pointer env e d = Some d'" "touches_ok d" "list_all frame_ends_one (wi_calls d)"
  shows "touches_ok d' \<and> list_all frame_ends_one (wi_calls d')"
proof -
  obtain err c where b: "wn_before_input env (wi_capturable d) = (err, c)" by fastforce
  let ?d = "d\<lparr>wi_capturable := c\<rparr>"
  have same: "touches_ok ?d" "list_all frame_ends_one (wi_calls ?d)" using assms(2,3) by (simp_all add: touches_ok_def)
  have other: "touches_ok (win_do cs ?d) \<and> list_all frame_ends_one (wi_calls (win_do cs ?d))"
    if "list_all frame_ends_one cs" for cs
    using same that by (simp add: win_do_def touches_ok_def)
  have calls: "frame_ends_one (InjectPen i)" "frame_ends_one (MouseEvent fs n)" "frame_ends_one (SetCursorPos a b')"
    for i fs n a b' by (simp_all add: frame_ends_one_def)
  show ?thesis
    using assms(1) b same touch_step [OF same, of e] other calls
    by (auto simp: win_pointer_def win_mouse_def Let_def simp del: press_flags.simps release_flags.simps
        split: option.splits sum.splits win_geometry.splits pointer_type.splits pointer_event_type.splits)
qed

lemma win_run_ok:
  "win_run env es d = Some d' \<Longrightarrow> touches_ok d \<Longrightarrow> list_all frame_ends_one (wi_calls d) \<Longrightarrow>
     touches_ok d' \<and> list_all frame_ends_one (wi_calls d')"
proof (induction es arbitrary: d)
  case (Cons e es)
  from Cons.prems(1) obtain d1 where s: "win_pointer env e d = Some d1" "win_run env es d1 = Some d'"
    by (auto simp: bind_eq_Some_conv)
  from win_pointer_ok [OF s(1) Cons.prems(2,3)] Cons.IH [OF s(2)] show ?case by blast
qed simp

lemma win_new_ok: "touches_ok (win_new c) \<and> list_all frame_ends_one (wi_calls (win_new c))"
  by (simp add: touches_ok_def win_new_def frame_ends_one_def)

text \<open>A frame repeats what was last said of the other pointers, a \<open>DOWN\<close> included.\<close>

lemma down_repeated:
  assumes "pe_event_type e1 = DOWN" "pe_pointer_id e1 \<noteq> pe_pointer_id e2"
  shows "\<exists>m i. wi_calls (win_touch e2 x2 y2 (win_touch e1 x1 y1 d))
      = wi_calls d @ [InjectTouch ((wi_touches d)(pe_pointer_id e1 \<mapsto> touch_info e1 x1 y1)), InjectTouch m]
    \<and> m (pe_pointer_id e1) = Some i \<and> FlagDown \<in> pi_flags i"
  using assms by (auto simp: win_touch_def win_do_def touch_info_def pen_info_def pointer_flags_def touch_stays_def Let_def)

section \<open>Other facts\<close>

text \<open>Only a virtual screen geometry is expected; the test source's ends the thread.\<close>

lemma relative_panics:
  "wn_before_input env (wi_capturable d) = (None, c) \<Longrightarrow> wn_geometry env c = Inr (WinRelative x y w h) \<Longrightarrow>
     win_pointer env e d = None"
  by (simp add: win_pointer_def)

text \<open>A pointer inside the capturable is mapped into its area.\<close>

lemma win_coordinate_inside:
  assumes "0 \<le> r" "r \<le> 1" "extent < 2 ^ 31" "- (2 ^ 31) \<le> offset" "offset + int extent < 2 ^ 31"
  shows "offset \<le> win_coordinate (Fin r) extent offset \<and> win_coordinate (Fin r) extent offset \<le> offset + int extent"
proof -
  let ?t = "trunc_rat (r * of_nat extent)"
  have "r * of_nat extent \<le> of_nat extent" using assms(2) by (simp add: mult_left_le_one_le assms(1))
  then have t: "0 \<le> ?t" "?t \<le> int extent"
    using assms(1) by (auto intro!: trunc_rat_nonneg trunc_rat_le)
  then have "f_as_i32 (fmul (Fin r) (f_of_nat extent)) = ?t"
    using assms(3) by (simp add: f_as_i32_def f_of_nat_def)
  moreover have "wrap_i32 (?t + offset) = ?t + offset" using t assms(4,5) by (intro wrap_i32_id) linarith+
  ultimately show ?thesis using t by (simp add: win_coordinate_def)
qed

text \<open>When the mouse leaves, the left button is released and no other.\<close>

lemma leave_releases_left:
  "pe_event_type e \<in> {CANCEL, LEAVE, OUT} \<Longrightarrow> wi_calls (win_mouse e x y d) = wi_calls d @ [MouseEvent {LeftUp} 0]"
  by (auto simp: win_mouse_def win_do_def)

end
