(* ===== verification/WindowsCapture.thy ===== *)
theory WindowsCapture
  imports Capturables WindowsInput
begin

text \<open>
  Screen capture on Windows: the outputs of the first adapter and their union
  (\<open>crates/rylus-capture/src/win_ctx.rs\<close>), the capturables made of them and their recorder
  (\<open>captrs_capture.rs\<close>).  What DXGI enumerates is an argument, \<open>UnionRect\<close> a parameter with the law
  \<open>union_law\<close>.
\<close>

section \<open>Rectangles\<close>

record win_rect =
  wr_left :: int
  wr_top :: int
  wr_right :: int
  wr_bottom :: int

definition rect_zero :: win_rect where
  "rect_zero = \<lparr>wr_left = 0, wr_top = 0, wr_right = 0, wr_bottom = 0\<rparr>"

definition rect_within :: "win_rect \<Rightarrow> win_rect \<Rightarrow> bool" where
  "rect_within a b \<longleftrightarrow> wr_left b \<le> wr_left a \<and> wr_top b \<le> wr_top a \<and> wr_right a \<le> wr_right b
     \<and> wr_bottom a \<le> wr_bottom b"

definition rect_proper :: "win_rect \<Rightarrow> bool" where
  "rect_proper r \<longleftrightarrow> wr_left r < wr_right r \<and> wr_top r < wr_bottom r"

text \<open>The documented behaviour of \<open>UnionRect\<close>: the smallest rectangle around both, where an empty one does
  not count.\<close>

definition union_law :: "(win_rect \<Rightarrow> win_rect \<Rightarrow> win_rect) \<Rightarrow> bool" where
  "union_law uni \<longleftrightarrow> (\<forall>a b. rect_proper b \<longrightarrow> rect_proper (uni a b) \<and> rect_within b (uni a b)
     \<and> (rect_proper a \<longrightarrow> rect_within a (uni a b)) \<and> (\<not> rect_proper a \<longrightarrow> uni a b = b))"

section \<open>Outputs\<close>

text \<open>An output: what \<open>GetDesc\<close> says while the outputs are listed, and when they are collected.\<close>

record output_desc =
  od_name :: "nat list"
  od_rect :: win_rect
  od_attached :: bool

record dxgi_output =
  do_first :: "output_desc option"
  do_second :: "output_desc option"

text \<open>The loop ends at the first output that cannot be described or is not attached.\<close>

definition get_adapter_outputs :: "dxgi_output list \<Rightarrow> dxgi_output list" where
  "get_adapter_outputs outputs =
     takeWhile (\<lambda>x. case do_first x of Some d \<Rightarrow> od_attached d | None \<Rightarrow> False) outputs"

record win_ctx =
  wx_outputs :: "output_desc list"
  wx_union :: win_rect

text \<open>\<open>adapter\<close>: \<open>Inl\<close> if there is no factory, \<open>Inr None\<close> if it has no adapter.\<close>

definition win_ctx_new ::
  "(win_rect \<Rightarrow> win_rect \<Rightarrow> win_rect) \<Rightarrow> string + dxgi_output list option \<Rightarrow> win_ctx" where
  "win_ctx_new uni adapter =
     (let empty = \<lparr>wx_outputs = [], wx_union = rect_zero\<rparr>
      in case adapter of
           Inl e \<Rightarrow> empty
         | Inr None \<Rightarrow> empty
         | Inr (Some outputs) \<Rightarrow>
             fold (\<lambda>x c. case do_second x of
                 Some d \<Rightarrow> c\<lparr>wx_outputs := wx_outputs c @ [d], wx_union := uni (wx_union c) (od_rect d)\<rparr>
               | None \<Rightarrow> c) (get_adapter_outputs outputs) empty)"

section \<open>Capturables\<close>

record captrs_capturable =
  ct_id :: nat
  ct_name :: string
  ct_screen :: win_rect
  ct_virtual :: win_rect

definition captrs_new :: "nat \<Rightarrow> string \<Rightarrow> win_rect \<Rightarrow> win_rect \<Rightarrow> captrs_capturable" where
  "captrs_new i name screen virtual_screen =
     \<lparr>ct_id = i, ct_name = name, ct_screen = screen, ct_virtual = virtual_screen\<rparr>"

definition captrs_before_input :: "captrs_capturable \<Rightarrow> (string + unit) \<times> captrs_capturable" where
  "captrs_before_input c = (Inr (), c)"

definition captrs_name :: "captrs_capturable \<Rightarrow> string" where
  "captrs_name c = ''Desktop '' @ ct_name c @ '' (captrs)''"

text \<open>\<open>(a - b) as u32\<close>.\<close>

definition as_u32 :: "int \<Rightarrow> nat" where
  "as_u32 k = nat (k mod 2 ^ 32)"

definition captrs_geometry :: "captrs_capturable \<Rightarrow> win_geometry" where
  "captrs_geometry c = VirtualScreen
     (wrap_i32 (wr_left (ct_screen c) - wr_left (ct_virtual c)))
     (wrap_i32 (wr_top (ct_screen c) - wr_top (ct_virtual c)))
     (as_u32 (wrap_i32 (wr_right (ct_screen c) - wr_left (ct_screen c))))
     (as_u32 (wrap_i32 (wr_bottom (ct_screen c) - wr_top (ct_screen c))))
     (wr_left (ct_screen c)) (wr_top (ct_screen c))"

text \<open>\<open>get_capturables\<close> on Windows; \<open>utf16\<close> is \<open>String::from_utf16_lossy\<close>.\<close>

datatype windows_capturable = WinDesktop captrs_capturable | WinTest test_capturable

definition windows_desktops :: "(nat list \<Rightarrow> string) \<Rightarrow> win_ctx \<Rightarrow> captrs_capturable list" where
  "windows_desktops utf16 ctx =
     map (\<lambda>(i, d). captrs_new (i mod 256) (utf16 (od_name d)) (od_rect d) (wx_union ctx))
       (enumerate 0 (wx_outputs ctx))"

definition windows_get_capturables ::
  "(nat list \<Rightarrow> string) \<Rightarrow> win_ctx \<Rightarrow> bool \<Rightarrow> windows_capturable list" where
  "windows_get_capturables utf16 ctx debug =
     map WinDesktop (windows_desktops utf16 ctx) @ (if debug then map WinTest test_capturables else [])"

text \<open>The geometry of a capturable on Windows.\<close>

definition windows_geometry :: "windows_capturable \<Rightarrow> win_geometry" where
  "windows_geometry c = (case c of
      WinDesktop c \<Rightarrow> captrs_geometry c | WinTest _ \<Rightarrow> WinRelative (Fin 0) (Fin 0) (Fin 1) (Fin 1))"

section \<open>Recorder\<close>

text \<open>What the capturer answers: whether it stored a frame, its size, and the stored pixels.\<close>

record capturer =
  cp_stores :: bool
  cp_size :: "nat \<times> nat"
  cp_frame :: "(byte \<times> byte \<times> byte \<times> byte) list option"

text \<open>\<open>CaptrsRecorder::new\<close>: \<open>Capturer::new\<close> may refuse the output.\<close>

record captrs_recorder =
  cr_capturer :: capturer
  cr_byte_view :: "byte list"

definition captrs_recorder_new :: "(nat \<Rightarrow> string + capturer) \<Rightarrow> nat \<Rightarrow> string + captrs_recorder" where
  "captrs_recorder_new capturer_new i = (case capturer_new i of
      Inl e \<Rightarrow> Inl e | Inr c \<Rightarrow> Inr \<lparr>cr_capturer = c, cr_byte_view = []\<rparr>)"

definition captrs_recorder_of :: "(nat \<Rightarrow> string + capturer) \<Rightarrow> captrs_capturable \<Rightarrow> bool \<Rightarrow> string + captrs_recorder" where
  "captrs_recorder_of capturer_new c capture_cursor = captrs_recorder_new capturer_new (ct_id c)"

definition captrs_capture :: "capturer \<Rightarrow> string + pixel_provider" where
  "captrs_capture c =
     (if \<not> cp_stores c then Inl ''Captrs failed to capture frame''
      else case cp_frame c of
             None \<Rightarrow> Inl ''No frame available after capture''
           | Some frame \<Rightarrow> Inr (BGR0 (fst (cp_size c)) (snd (cp_size c))
               (concat (map (\<lambda>(b, g, r, a). [b, g, r, a]) frame))))"

lemma captrs_frame_fits:
  assumes "captrs_capture c = Inr (BGR0 w h d)" "cp_frame c = Some frame" "length frame = w * h"
  shows "length d = w * h * 4"
proof -
  have "length (concat (map (\<lambda>(b, g, r, a). [b, g, r, a]) frame)) = length frame * 4"
    by (induction frame) (auto split: prod.split)
  then show ?thesis using assms by (auto simp: captrs_capture_def split: if_splits)
qed

section \<open>Desktops lie in the virtual screen\<close>

lemma rect_within_trans: "rect_within a b \<Longrightarrow> rect_within b c \<Longrightarrow> rect_within a c"
  by (auto simp: rect_within_def)

definition collect :: "(win_rect \<Rightarrow> win_rect \<Rightarrow> win_rect) \<Rightarrow> output_desc list \<Rightarrow> win_rect \<Rightarrow> win_rect" where
  "collect uni ds u = fold (\<lambda>d u. uni u (od_rect d)) ds u"

lemma collect_within:
  assumes "union_law uni" "\<forall>d \<in> set ds. rect_proper (od_rect d)"
  shows "(\<forall>d \<in> set ds. rect_within (od_rect d) (collect uni ds u))
    \<and> (rect_proper u \<longrightarrow> rect_within u (collect uni ds u))"
  using assms(2)
proof (induction ds arbitrary: u)
  case Nil
  then show ?case by (simp add: collect_def rect_within_def)
next
  case (Cons d ds)
  let ?u = "uni u (od_rect d)"
  have u: "rect_proper ?u" "rect_within (od_rect d) ?u" "rect_proper u \<longrightarrow> rect_within u ?u"
    using assms(1) Cons.prems unfolding union_law_def by auto
  have "(\<forall>d \<in> set ds. rect_within (od_rect d) (collect uni ds ?u)) \<and> rect_within ?u (collect uni ds ?u)"
    using Cons.IH [of ?u] Cons.prems u(1) by simp
  then show ?case using u(2,3) rect_within_trans by (auto simp: collect_def)
qed

lemma ctx_collects:
  "\<exists>ds. win_ctx_new uni adapter = \<lparr>wx_outputs = ds, wx_union = collect uni ds rect_zero\<rparr>"
proof -
  let ?f = "\<lambda>x c. case do_second x of
      Some d \<Rightarrow> c\<lparr>wx_outputs := wx_outputs c @ [d], wx_union := uni (wx_union c) (od_rect d)\<rparr> | None \<Rightarrow> c"
  have "\<exists>ds'. fold ?f os \<lparr>wx_outputs = ds, wx_union = collect uni ds rect_zero\<rparr>
      = \<lparr>wx_outputs = ds', wx_union = collect uni ds' rect_zero\<rparr>" for os ds
  proof (induction os arbitrary: ds)
    case (Cons x os)
    show ?case using Cons.IH [of ds] Cons.IH [of "ds @ [the (do_second x)]"]
      by (cases "do_second x") (simp_all add: collect_def)
  qed simp
  from this [of _ "[]"] show ?thesis
    by (auto simp: win_ctx_new_def collect_def Let_def split: sum.split option.split)
qed

text \<open>On a desktop of less than \<open>2 ^ 31\<close> pixels in each direction, the offsets and sizes are exact and a
  pointer inside a capturable is injected inside the virtual screen.\<close>

lemma desktop_geometry:
  assumes "union_law uni" "ctx = win_ctx_new uni adapter" "\<forall>d \<in> set (wx_outputs ctx). rect_proper (od_rect d)"
    and "c \<in> set (windows_desktops utf16 ctx)"
    and "wr_right (wx_union ctx) - wr_left (wx_union ctx) < 2 ^ 31"
    and "wr_bottom (wx_union ctx) - wr_top (wx_union ctx) < 2 ^ 31"
  shows "\<exists>ox oy w h. captrs_geometry c = VirtualScreen ox oy w h (wr_left (ct_screen c)) (wr_top (ct_screen c))
    \<and> 0 \<le> ox \<and> ox + int w \<le> wr_right (wx_union ctx) - wr_left (wx_union ctx)
    \<and> 0 \<le> oy \<and> oy + int h \<le> wr_bottom (wx_union ctx) - wr_top (wx_union ctx)
    \<and> int w = wr_right (ct_screen c) - wr_left (ct_screen c) \<and> int h = wr_bottom (ct_screen c) - wr_top (ct_screen c)"
proof -
  obtain ds where ctx: "ctx = \<lparr>wx_outputs = ds, wx_union = collect uni ds rect_zero\<rparr>"
    using ctx_collects assms(2) by blast
  from assms(4) obtain i d where "(i, d) \<in> set (enumerate 0 ds)" and c: "ct_screen c = od_rect d" "ct_virtual c = wx_union ctx"
    by (auto simp: windows_desktops_def captrs_new_def ctx)
  then have d: "d \<in> set ds" "ct_screen c = od_rect d" "ct_virtual c = wx_union ctx"
    by (auto simp: in_set_enumerate_eq)
  let ?s = "od_rect d" and ?u = "wx_union ctx"
  have in_u: "rect_within ?s ?u" and pr: "rect_proper ?s"
    using collect_within [OF assms(1), of ds rect_zero] assms(3) d(1) by (simp_all add: ctx)
  have w: "wrap_i32 (wr_left ?s - wr_left ?u) = wr_left ?s - wr_left ?u"
    "wrap_i32 (wr_top ?s - wr_top ?u) = wr_top ?s - wr_top ?u"
    "wrap_i32 (wr_right ?s - wr_left ?s) = wr_right ?s - wr_left ?s"
    "wrap_i32 (wr_bottom ?s - wr_top ?s) = wr_bottom ?s - wr_top ?s"
    using in_u pr assms(5,6) unfolding rect_within_def rect_proper_def by (intro wrap_i32_id; linarith)+
  have n: "int (as_u32 (wr_right ?s - wr_left ?s)) = wr_right ?s - wr_left ?s"
    "int (as_u32 (wr_bottom ?s - wr_top ?s)) = wr_bottom ?s - wr_top ?s"
    using in_u pr assms(5,6) unfolding rect_within_def rect_proper_def as_u32_def by simp_all
  show ?thesis
    using in_u by (simp add: captrs_geometry_def d w n rect_within_def)
qed

text \<open>The first output that is detached hides the ones after it.\<close>

lemma detached_hides:
  "do_first x = Some d \<Longrightarrow> \<not> od_attached d \<Longrightarrow> get_adapter_outputs (xs @ x # ys) = get_adapter_outputs xs"
  by (simp add: get_adapter_outputs_def takeWhile_tail)

text \<open>The test source, offered at the debug level, ends the input thread at the first pointer event.\<close>

lemma test_source_panics:
  "wn_before_input env (wi_capturable d) = (None, c) \<Longrightarrow> wn_geometry env c = Inr (windows_geometry (WinTest t)) \<Longrightarrow>
     win_pointer env e d = None"
  by (simp add: windows_geometry_def relative_panics)

end
