(* ===== verification/GuiApp.thy ===== *)
theory GuiApp
  imports ServerLifecycle RustString
begin

text \<open>
  The state and actions behind the window of \<open>crates/rylus-gui/src/lib.rs\<close> on Linux: \<open>RylusApp\<close> with
  \<open>new\<close>, \<open>build_config\<close>, \<open>start_server\<close>, \<open>stop_server\<close>, the log buffer and what \<open>update\<close> does on each input.
  Layout and colours are not modelled; the server behind the trait \<open>RylusServer\<close> is an interface.
\<close>

section \<open>Text and log buffer\<close>

text \<open>\<open>str::contains\<close>.\<close>

definition contains :: "string \<Rightarrow> string \<Rightarrow> bool" where
  "contains s t \<longleftrightarrow> split_once t s \<noteq> None"

definition LOG_RING_CAPACITY :: nat where "LOG_RING_CAPACITY = 2000"

definition log_push :: "string \<Rightarrow> string list \<Rightarrow> string list" where
  "log_push msg lines =
     (let lines = (if length lines \<ge> LOG_RING_CAPACITY
                   then drop (length lines - LOG_RING_CAPACITY + 1) lines else lines)
      in lines @ [msg])"

text \<open>However many messages arrive, the buffer holds the latest ones.\<close>

lemma log_push_lastn: "log_push msg (lastn LOG_RING_CAPACITY xs) = lastn LOG_RING_CAPACITY (xs @ [msg])"
proof (cases "length xs < LOG_RING_CAPACITY")
  case True
  then show ?thesis by (simp add: log_push_def lastn_short)
next
  case False
  then have "length (lastn LOG_RING_CAPACITY xs) = LOG_RING_CAPACITY" by simp
  then have "log_push msg (lastn LOG_RING_CAPACITY xs) = drop 1 (lastn LOG_RING_CAPACITY xs) @ [msg]"
    by (simp add: log_push_def)
  also have "drop 1 (lastn LOG_RING_CAPACITY xs) = drop (length xs - LOG_RING_CAPACITY + 1) xs"
    by (simp add: lastn_def)
  also have "length xs - LOG_RING_CAPACITY + 1 = length (xs @ [msg]) - LOG_RING_CAPACITY"
    using False by simp
  finally show ?thesis
    using False by (simp add: lastn_def LOG_RING_CAPACITY_def)
qed

lemma log_latest: "fold log_push msgs [] = lastn LOG_RING_CAPACITY msgs"
proof (induction msgs rule: rev_induct)
  case Nil
  then show ?case by (simp add: lastn_def)
qed (simp add: log_push_lastn)

section \<open>Addresses and ports\<close>

datatype ip_addr = V4 (ip_text: string) | V6 (ip_text: string)

definition is_unspecified :: "ip_addr \<Rightarrow> bool" where
  "is_unspecified a \<longleftrightarrow> a = V4 ''0.0.0.0'' \<or> a = V6 ''::''"

definition same_family :: "ip_addr \<Rightarrow> ip_addr \<Rightarrow> bool" where
  "same_family a b = (case a of V4 _ \<Rightarrow> (case b of V4 _ \<Rightarrow> True | V6 _ \<Rightarrow> False)
                              | V6 _ \<Rightarrow> (case b of V6 _ \<Rightarrow> True | V4 _ \<Rightarrow> False))"

text \<open>\<open>SocketAddr\<close>'s text.\<close>

definition socket_text :: "ip_addr \<Rightarrow> nat \<Rightarrow> string" where
  "socket_text a port = (case a of V4 s \<Rightarrow> s | V6 s \<Rightarrow> ''['' @ s @ '']'') @ '':'' @ dec port"

text \<open>\<open>str::parse::<u16>\<close>: an optional plus sign and decimal digits, read from the left; the error is its text.\<close>

definition NO_DIGITS :: string where "NO_DIGITS = ''cannot parse integer from empty string''"
definition BAD_DIGIT :: string where "BAD_DIGIT = ''invalid digit found in string''"
definition TOO_LARGE :: string where "TOO_LARGE = ''number too large to fit in target type''"

fun parse_digits :: "nat \<Rightarrow> string \<Rightarrow> string + nat" where
  "parse_digits acc [] = Inr acc"
| "parse_digits acc (c # cs) =
     (if \<not> is_digit c then Inl BAD_DIGIT
      else let r = 10 * acc + (of_char c - 48)
           in if r > 65535 then Inl TOO_LARGE else parse_digits r cs)"

definition parse_u16 :: "string \<Rightarrow> string + nat" where
  "parse_u16 s =
     (if s = [] then Inl NO_DIGITS
      else if s = ''+'' \<or> s = ''-'' then Inl BAD_DIGIT
      else parse_digits 0 (if hd s = CHR ''+'' then tl s else s))"

lemma undec_grows: "acc \<le> undec acc cs"
proof (induction cs arbitrary: acc)
  case (Cons c cs)
  have "acc \<le> 10 * acc + (of_char c - 48)" by simp
  also have "\<dots> \<le> undec acc (c # cs)" using Cons.IH by simp
  finally show ?case .
qed simp

lemma parse_digits_Inr: "list_all is_digit cs \<Longrightarrow> undec acc cs \<le> 65535 \<Longrightarrow> parse_digits acc cs = Inr (undec acc cs)"
proof (induction cs arbitrary: acc)
  case (Cons c cs)
  then show ?case using undec_grows [of "10 * acc + (of_char c - 48)" cs] by (simp add: Let_def)
qed simp

lemma parse_dec: "port \<le> 65535 \<Longrightarrow> parse_u16 (dec port) = Inr port"
proof -
  assume p: "port \<le> 65535"
  obtain c cs where d: "dec port = c # cs" using dec_not_Nil by (metis list.exhaust)
  then have "is_digit c" using dec_digits [of port] by simp
  then have "c \<noteq> CHR ''+''" "c \<noteq> CHR ''-''" by (auto simp: is_digit_def)
  then have "parse_u16 (dec port) = parse_digits 0 (dec port)"
    using d by (simp add: parse_u16_def del: parse_digits.simps)
  also have "\<dots> = Inr port" using p parse_digits_Inr [OF dec_digits, of 0 port] by (simp add: undec_dec)
  finally show ?thesis .
qed

section \<open>State\<close>

datatype server_state = Stopped | Starting | Running | ErrorState string

record 'r app =
  ap_rylus :: 'r
  ap_state :: server_state
  ap_addr :: string
  ap_access_code :: string
  ap_bind_address :: string
  ap_port :: string
  ap_auto_start :: bool
  ap_wayland :: bool
  ap_vaapi :: bool
  ap_nvenc :: bool
  ap_bind_error :: "string option"
  ap_port_error :: "string option"
  ap_start_error :: "string option"
  ap_log :: "string list"
  ap_qr_texture :: bool
  ap_qr_url :: string
  ap_uinput_warning :: bool
  ap_first_run :: bool
  ap_has_started :: bool
  ap_config :: config
  ap_show_code :: bool
  ap_written :: "config list"

text \<open>The trait \<open>RylusServer\<close>, address parsing, the network interfaces with their flags, percent encoding and
  the QR encoder.  \<open>ap_written\<close> are the calls of \<open>write_config\<close>.\<close>

record net_interface =
  ni_up :: bool
  ni_loopback :: bool
  ni_ips :: "ip_addr list"

record 'r gui_env =
  ge_start :: "config \<Rightarrow> 'r \<Rightarrow> bool \<times> 'r"
  ge_stop :: "'r \<Rightarrow> 'r"
  ge_parse_ip :: "string \<Rightarrow> string + ip_addr"
  ge_interfaces :: "net_interface list"
  ge_percent :: "string \<Rightarrow> string"
  ge_qr_ok :: "string \<Rightarrow> bool"

section \<open>Starting\<close>

definition build_config :: "'r gui_env \<Rightarrow> 'r app \<Rightarrow> config option" where
  "build_config env a = (case ge_parse_ip env (ap_bind_address a) of
      Inl _ \<Rightarrow> None
    | Inr ip \<Rightarrow> (case parse_u16 (ap_port a) of
          Inl _ \<Rightarrow> None
        | Inr port \<Rightarrow>
            Some ((ap_config a)\<lparr>access_code := (if ap_access_code a = [] then None else Some (ap_access_code a)),
              bind_address := ip_text ip, web_port := port, auto_start := ap_auto_start a,
              try_vaapi := ap_vaapi a, wayland_support := ap_wayland a, try_nvenc := ap_nvenc a\<rparr>)))"

text \<open>An unspecified address is replaced by the first address of its family on an interface that is up.\<close>

definition public_ip :: "'r gui_env \<Rightarrow> ip_addr \<Rightarrow> ip_addr" where
  "public_ip env ip =
     (if is_unspecified ip then
        (let ips = concat (map (\<lambda>i. filter (\<lambda>a. same_family a ip) (ni_ips i))
               (filter (\<lambda>i. ni_up i \<and> \<not> ni_loopback i) (ge_interfaces env)))
         in case ips of first # _ \<Rightarrow> first | [] \<Rightarrow> ip)
      else ip)"

definition START_FAILED :: string where
  "START_FAILED = ''Failed to start server. Common causes: port already in use, bind address not reachable, or ''
     @ ''the previous server didn't shut down cleanly. See the log for details.''"

definition start_server :: "'r gui_env \<Rightarrow> 'r app \<Rightarrow> 'r app" where
  "start_server env a =
     (let a = a\<lparr>ap_bind_error := None, ap_port_error := None, ap_start_error := None\<rparr>
      in case ge_parse_ip env (ap_bind_address a) of
           Inl e \<Rightarrow> a\<lparr>ap_bind_error := Some (''Invalid bind address: '' @ e)\<rparr>
         | Inr bind_addr \<Rightarrow>
             (case parse_u16 (ap_port a) of
                Inl e \<Rightarrow> a\<lparr>ap_port_error := Some (''Invalid port: '' @ e)\<rparr>
              | Inr port \<Rightarrow>
                  let a = a\<lparr>ap_state := Starting\<rparr>
                  in (case build_config env a of
                        None \<Rightarrow> a\<lparr>ap_start_error := Some ''Invalid configuration'', ap_state := Stopped\<rparr>
                      | Some config \<Rightarrow>
                          let a = a\<lparr>ap_config := config, ap_written := ap_written a @ [config]\<rparr>;
                              (ok, r) = ge_start env config (ap_rylus a);
                              a = a\<lparr>ap_rylus := r\<rparr>
                          in if \<not> ok then a\<lparr>ap_start_error := Some START_FAILED, ap_state := Stopped\<rparr>
                             else
                               let addr = ''http://'' @ socket_text (public_ip env bind_addr) port
                               in a\<lparr>ap_state := Running, ap_has_started := True, ap_addr := addr,
                                    ap_qr_url := addr @ (case access_code config of
                                        Some code \<Rightarrow> ''?access_code='' @ ge_percent env code | None \<Rightarrow> []),
                                    ap_qr_texture := False\<rparr>)))"

definition stop_server :: "'r gui_env \<Rightarrow> 'r app \<Rightarrow> 'r app" where
  "stop_server env a =
     a\<lparr>ap_rylus := ge_stop env (ap_rylus a), ap_state := Stopped, ap_addr := [], ap_qr_url := [],
       ap_qr_texture := False, ap_start_error := None\<rparr>"

text \<open>The texture is made once for an address.\<close>

definition generate_qr_texture :: "'r gui_env \<Rightarrow> 'r app \<Rightarrow> 'r app" where
  "generate_qr_texture env a =
     (if ap_qr_url a = [] \<or> ap_qr_texture a then a
      else if ge_qr_ok env (ap_qr_url a) then a\<lparr>ap_qr_texture := True\<rparr> else a)"

text \<open>\<open>RylusApp::new\<close>; \<open>stored\<close>: a configuration file exists.\<close>

definition app_new :: "'r gui_env \<Rightarrow> bool \<Rightarrow> config \<Rightarrow> 'r \<Rightarrow> 'r app" where
  "app_new env stored c r =
     (let a = \<lparr>ap_rylus = r, ap_state = Stopped, ap_addr = [],
         ap_access_code = (case access_code c of Some s \<Rightarrow> s | None \<Rightarrow> []),
         ap_bind_address = bind_address c, ap_port = dec (web_port c), ap_auto_start = auto_start c,
         ap_wayland = wayland_support c, ap_vaapi = config.try_vaapi c, ap_nvenc = config.try_nvenc c,
         ap_bind_error = None, ap_port_error = None, ap_start_error = None, ap_log = [],
         ap_qr_texture = False, ap_qr_url = [], ap_uinput_warning = False, ap_first_run = \<not> stored,
         ap_has_started = False, ap_config = c, ap_show_code = False, ap_written = []\<rparr>
      in if auto_start c then start_server env a else a)"

section \<open>Inputs of a frame\<close>

datatype gui_input =
    UInputInaccessible
  | CloseWarning
  | MainButton
  | ShowQr
  | EditAccessCode string
  | EditBindAddress string
  | EditPort string
  | ToggleShowCode
  | SetAutoStart bool
  | SetWayland bool
  | SetVaapi bool
  | SetNvenc bool
  | LogLine string
  | ClearLog

text \<open>The button is disabled while starting; the code is drawn only while running with an address.\<close>

fun gui_step :: "'r gui_env \<Rightarrow> gui_input \<Rightarrow> 'r app \<Rightarrow> 'r app" where
  "gui_step env UInputInaccessible a = a\<lparr>ap_uinput_warning := True\<rparr>"
| "gui_step env CloseWarning a = a\<lparr>ap_uinput_warning := False\<rparr>"
| "gui_step env MainButton a =
     (if ap_state a = Starting then a
      else if ap_state a = Running then stop_server env a else start_server env a)"
| "gui_step env ShowQr a =
     (if ap_state a = Running \<and> ap_addr a \<noteq> [] then generate_qr_texture env a else a)"
| "gui_step env (EditAccessCode s) a = a\<lparr>ap_access_code := s\<rparr>"
| "gui_step env (EditBindAddress s) a = a\<lparr>ap_bind_address := s\<rparr>"
| "gui_step env (EditPort s) a = a\<lparr>ap_port := s\<rparr>"
| "gui_step env ToggleShowCode a = a\<lparr>ap_show_code := \<not> ap_show_code a\<rparr>"
| "gui_step env (SetAutoStart b) a = a\<lparr>ap_auto_start := b\<rparr>"
| "gui_step env (SetWayland b) a = a\<lparr>ap_wayland := b\<rparr>"
| "gui_step env (SetVaapi b) a = a\<lparr>ap_vaapi := b\<rparr>"
| "gui_step env (SetNvenc b) a = a\<lparr>ap_nvenc := b\<rparr>"
| "gui_step env (LogLine s) a = a\<lparr>ap_log := log_push s (ap_log a)\<rparr>"
| "gui_step env ClearLog a = a\<lparr>ap_log := []\<rparr>"

section \<open>What is shown and what runs\<close>

text \<open>What the window relies on: a server that does not run starts exactly if it says so, and is stopped
  after \<open>stop\<close>.\<close>

locale rylus_server =
  fixes env :: "'r gui_env" and running :: "'r \<Rightarrow> bool"
  assumes start_runs: "\<not> running r \<Longrightarrow> ge_start env c r = (b, r') \<Longrightarrow> running r' = b"
    and stop_stops: "\<not> running (ge_stop env r)"
begin

text \<open>The window shows an address exactly while the server runs, and is never seen starting.\<close>

definition consistent :: "'r app \<Rightarrow> bool" where
  "consistent a \<longleftrightarrow> (ap_state a = Running \<longleftrightarrow> running (ap_rylus a)) \<and> ap_state a \<noteq> Starting
     \<and> (ap_addr a \<noteq> [] \<longleftrightarrow> ap_state a = Running) \<and> (ap_qr_url a \<noteq> [] \<longleftrightarrow> ap_state a = Running)
     \<and> (ap_qr_texture a \<longrightarrow> ap_state a = Running) \<and> (ap_state a = Running \<longrightarrow> ap_has_started a)"

lemma start_consistent:
  assumes "consistent a" "ap_state a \<noteq> Running"
  shows "consistent (start_server env a)"
proof -
  have "\<not> running (ap_rylus a)" using assms by (simp add: consistent_def)
  from start_runs [OF this] assms show ?thesis
    by (auto simp: start_server_def consistent_def build_config_def Let_def split: sum.split option.split prod.split)
qed

lemma stop_consistent: "consistent (stop_server env a)"
  using stop_stops by (simp add: consistent_def stop_server_def)

lemma step_consistent: "consistent a \<Longrightarrow> consistent (gui_step env i a)"
proof (cases i)
  case MainButton
  then show "consistent a \<Longrightarrow> ?thesis"
    using start_consistent [of a] stop_consistent [of a] by auto
qed (auto simp: consistent_def generate_qr_texture_def)

lemma run_consistent: "consistent a \<Longrightarrow> consistent (fold (gui_step env) is a)"
  by (induction "is" arbitrary: a) (simp_all add: step_consistent)

lemma new_consistent:
  assumes "\<not> running r"
  shows "consistent (app_new env stored c r)"
  using assms start_consistent by (auto simp: app_new_def consistent_def Let_def)

end

section \<open>The server of \<open>rylus-server\<close>\<close>

text \<open>\<open>stop\<close> at the moment \<open>wait\<close> returns: the accept loop has used the notification and ended without clients.\<close>

definition rylus_stop_joined :: "rylus \<Rightarrow> rylus" where
  "rylus_stop_joined r =
     (let r = rylus_stop r;
          r = (case ry_server r of
                 Some s \<Rightarrow> r\<lparr>ry_server := Some (s\<lparr>sv_pc := SvEnded, sv_clients := 0, sv_notify := False\<rparr>)\<rparr>
               | None \<Rightarrow> r)
      in case rylus_wait r of Some r \<Rightarrow> r | None \<Rightarrow> r)"

definition rylus_gui ::
  "bool \<Rightarrow> bool \<Rightarrow> mdns_env \<Rightarrow> string \<Rightarrow> rylus gui_env \<Rightarrow> rylus gui_env" where
  "rylus_gui bind_ok tls env suffix ge =
     ge\<lparr>ge_start := rylus_start bind_ok tls env suffix, ge_stop := rylus_stop_joined\<rparr>"

definition rylus_running :: "rylus \<Rightarrow> bool" where
  "rylus_running r \<longleftrightarrow> ry_server r \<noteq> None"

lemma rylus_joined: "ry_server (rylus_stop_joined r) = None"
  by (auto simp: rylus_stop_joined_def rylus_stop_def rylus_wait_def Let_def split: option.split)

lemma rylus_start_running:
  assumes "ry_server r = None" "rylus_start bind_ok tls env suffix c r = (b, r')"
  shows "rylus_running r' = b"
proof (cases b)
  case True
  then show ?thesis
    using start_accepted [of bind_ok tls env suffix c r r'] assms(2) by (metis option.distinct(1) rylus_running_def)
next
  case False
  then show ?thesis
    using start_refused [of bind_ok tls env suffix c r r'] assms by (simp add: rylus_running_def)
qed

interpretation gui: rylus_server "rylus_gui bind_ok tls env suffix ge" rylus_running
  by unfold_locales
    (auto simp: rylus_gui_def rylus_joined rylus_running_def [of "rylus_stop_joined _"]
      rylus_running_def [of r for r] dest: rylus_start_running)

text \<open>From the start of the program, through any inputs.\<close>

lemma window_consistent:
  "gui.consistent (fold (gui_step (rylus_gui bind_ok tls env suffix ge)) inputs
     (app_new (rylus_gui bind_ok tls env suffix ge) stored c rylus_new))"
  by (intro gui.run_consistent gui.new_consistent) (simp add: rylus_running_def rylus_new_def)

section \<open>Settings\<close>

text \<open>Fields that were not edited give back the configuration they came from.\<close>

lemma unedited_config:
  assumes "ge_parse_ip env (bind_address c) = Inr ip" "ip_text ip = bind_address c" "web_port c \<le> 65535"
    and "access_code c \<noteq> Some []"
  shows "build_config env (app_new env stored (c\<lparr>auto_start := False\<rparr>) r) = Some (c\<lparr>auto_start := False\<rparr>)"
  using assms by (simp add: build_config_def app_new_def parse_dec Let_def split: option.split)

text \<open>The choice of Wayland support lasts until the program ends: the next start detects it again.\<close>

lemma wayland_choice_lost:
  assumes "\<not> list_ex (\<lambda>a. a = ''--wayland-support'') args" "length args \<le> 1"
  shows "wayland_support (get_config args (Some (c\<lparr>wayland_support := b\<rparr>)) update_from parse xdg)
     = default_wayland_support xdg"
  using assms by (simp add: get_config_def Let_def)

text \<open>The address shown is plain HTTP whatever the TLS mode.\<close>

lemma address_http:
  assumes "ap_state (start_server env a) = Running" "ap_state a = Stopped"
  shows "\<exists>rest. ap_addr (start_server env a) = ''http://'' @ rest"
  using assms
  by (auto simp: start_server_def Let_def split: sum.splits option.splits prod.splits if_splits)

end
