(* ===== verification/Logging.thy ===== *)
theory Logging
  imports GuiApp "HOL-Library.Sublist"
begin

text \<open>
  Logging: \<open>get_log_level\<close> of \<open>crates/rylus-core/src/lib.rs\<close>, \<open>crates/rylus-server/src/log.rs\<close> and the thread
  that \<open>RylusApp::new\<close> starts to read the log channel.  The formatters of \<open>tracing-subscriber\<close> are parameters:
  an event reaches each layer as the line its formatter makes of it.
\<close>

section \<open>Levels\<close>

datatype log_level = LvError | LvWarn | LvInfo | LvDebug | LvTrace

primrec verbosity :: "log_level \<Rightarrow> nat" where
  "verbosity LvError = 0"
| "verbosity LvWarn = 1"
| "verbosity LvInfo = 2"
| "verbosity LvDebug = 3"
| "verbosity LvTrace = 4"

lemma verbosity_inject [simp]: "verbosity a = verbosity b \<longleftrightarrow> a = b"
  by (cases a; cases b) simp_all

text \<open>A more verbose level is the greater one, so that the maximum level admits what lies below it.\<close>

instantiation log_level :: linorder
begin

definition less_eq_log_level :: "log_level \<Rightarrow> log_level \<Rightarrow> bool" where
  "less_eq_log_level a b \<longleftrightarrow> verbosity a \<le> verbosity b"

definition less_log_level :: "log_level \<Rightarrow> log_level \<Rightarrow> bool" where
  "less_log_level a b \<longleftrightarrow> verbosity a < verbosity b"

instance
  by standard (auto simp: less_eq_log_level_def less_log_level_def)

end

text \<open>\<open>debug\<close>: built with debug assertions; \<open>parse\<close> is \<open>Level::from_str\<close>.\<close>

definition get_log_level :: "bool \<Rightarrow> (string \<Rightarrow> log_level option) \<Rightarrow> string option \<Rightarrow> log_level" where
  "get_log_level debug parse var =
     (let level = (if debug then LvDebug else LvInfo)
      in case var of None \<Rightarrow> level
         | Some v \<Rightarrow> (case parse v of Some l \<Rightarrow> l | None \<Rightarrow> level))"

section \<open>The writer of the window\<close>

text \<open>\<open>mpsc::sync_channel(100)\<close> of \<open>main\<close>; \<open>ch_open\<close> is false once the receiver is dropped.\<close>

definition LOG_CHANNEL_CAPACITY :: nat where "LOG_CHANNEL_CAPACITY = 100"

record log_channel =
  ch_queue :: "string list"
  ch_open :: bool

definition try_send :: "string \<Rightarrow> log_channel \<Rightarrow> log_channel" where
  "try_send s c = (if ch_open c \<and> length (ch_queue c) < LOG_CHANNEL_CAPACITY
                   then c\<lparr>ch_queue := ch_queue c @ [s]\<rparr> else c)"

definition trim_start :: "string \<Rightarrow> string" where
  "trim_start s = dropWhile is_space s"

text \<open>\<open>write\<close>: the number of bytes it reports and the channel; it succeeds whether or not the line was sent.\<close>

definition gui_write :: "string \<Rightarrow> log_channel \<Rightarrow> nat \<times> log_channel" where
  "gui_write buf c = (length buf, try_send (trim_start buf) c)"

section \<open>The subscriber\<close>

datatype log_output = JsonStdout | TextStderr

record subscriber =
  su_output :: log_output
  su_max :: log_level

text \<open>\<open>None\<close>: the panic when a subscriber is already installed.\<close>

definition setup_logging ::
  "bool \<Rightarrow> (string \<Rightarrow> log_level option) \<Rightarrow> string option \<Rightarrow> string option \<Rightarrow> bool \<Rightarrow> subscriber option" where
  "setup_logging debug parse json_var level_var installed =
     (if installed then None
      else Some \<lparr>su_output = (case json_var of Some _ \<Rightarrow> JsonStdout | None \<Rightarrow> TextStderr),
                 su_max = get_log_level debug parse level_var\<rparr>)"

text \<open>\<open>lg_printed\<close> are the lines on the output, \<open>lg_lines\<close> the buffer of the window.  \<open>lg_sent\<close> (the lines
  offered to the channel) and \<open>lg_received\<close> are histories.\<close>

record logging =
  lg_sub :: subscriber
  lg_chan :: log_channel
  lg_lines :: "string list"
  lg_printed :: "string list"
  lg_sent :: "string list"
  lg_received :: "string list"

definition logging_init :: "subscriber \<Rightarrow> logging" where
  "logging_init su = \<lparr>lg_sub = su, lg_chan = \<lparr>ch_queue = [], ch_open = True\<rparr>, lg_lines = [],
     lg_printed = [], lg_sent = [], lg_received = []\<rparr>"

text \<open>An event: both layers lie behind the level filter.  \<open>out\<close> and \<open>short\<close> are its two formats.\<close>

definition log_event :: "log_level \<Rightarrow> string \<Rightarrow> string \<Rightarrow> logging \<Rightarrow> logging" where
  "log_event level out short l =
     (if level \<le> su_max (lg_sub l)
      then l\<lparr>lg_printed := lg_printed l @ [out], lg_chan := snd (gui_write short (lg_chan l)),
             lg_sent := lg_sent l @ [trim_start short]\<rparr>
      else l)"

text \<open>One round of the reader thread, and the receiver dropped by \<open>main\<close> without a window.\<close>

definition log_receive :: "logging \<Rightarrow> logging option" where
  "log_receive l = (case ch_queue (lg_chan l) of
      [] \<Rightarrow> None
    | msg # rest \<Rightarrow> Some (l\<lparr>lg_chan := (lg_chan l)\<lparr>ch_queue := rest\<rparr>, lg_lines := log_push msg (lg_lines l),
                           lg_received := lg_received l @ [msg]\<rparr>))"

definition log_hang_up :: "logging \<Rightarrow> logging" where
  "log_hang_up l = l\<lparr>lg_chan := \<lparr>ch_queue = [], ch_open = False\<rparr>\<rparr>"

inductive log_step :: "logging \<Rightarrow> logging \<Rightarrow> bool" where
  Event: "log_step l (log_event level out short l)"
| Receive: "log_receive l = Some l' \<Longrightarrow> log_step l l'"
| HangUp: "log_step l (log_hang_up l)"

inductive log_reach :: "subscriber \<Rightarrow> logging \<Rightarrow> bool" for su where
  Init: "log_reach su (logging_init su)"
| Step: "log_reach su l \<Longrightarrow> log_step l l' \<Longrightarrow> log_reach su l'"

inductive_cases log_stepE: "log_step l l'"

section \<open>Facts\<close>

text \<open>The queue is bounded; what was received and is queued is a subsequence of what was logged, in order; the
  window shows the latest 2000 of the lines received; the output misses nothing.\<close>

definition log_ok :: "logging \<Rightarrow> bool" where
  "log_ok l \<longleftrightarrow> length (ch_queue (lg_chan l)) \<le> LOG_CHANNEL_CAPACITY
     \<and> subseq (lg_received l @ ch_queue (lg_chan l)) (lg_sent l)
     \<and> lg_lines l = lastn LOG_RING_CAPACITY (lg_received l)
     \<and> length (lg_printed l) = length (lg_sent l)"

lemma log_ok_init [simp]: "log_ok (logging_init su)"
  by (simp add: log_ok_def logging_init_def lastn_def)

lemma log_ok_event: "log_ok l \<Longrightarrow> log_ok (log_event level out short l)"
  by (auto simp: log_ok_def log_event_def gui_write_def try_send_def subseq_append_iff
      intro: list_emb_append_mono simp flip: append_assoc)

lemma log_ok_receive: "log_ok l \<Longrightarrow> log_receive l = Some l' \<Longrightarrow> log_ok l'"
  by (auto simp: log_ok_def log_receive_def log_push_lastn split: list.splits)

lemma log_ok_hang_up: "log_ok l \<Longrightarrow> log_ok (log_hang_up l)"
  by (auto simp: log_ok_def log_hang_up_def dest: list_emb_appendD intro: subseq_order.trans [OF list_emb_prefix])

lemma log_ok_step: "log_step l l' \<Longrightarrow> log_ok l \<Longrightarrow> log_ok l'"
  by (auto elim!: log_stepE intro: log_ok_event log_ok_receive log_ok_hang_up)

lemma log_reach_ok: "log_reach su l \<Longrightarrow> log_ok l"
  by (induction rule: log_reach.induct) (auto intro: log_ok_step)

lemma log_step_level: "log_step l l' \<Longrightarrow> lg_sub l' = lg_sub l"
  by (auto elim!: log_stepE simp: log_event_def log_receive_def log_hang_up_def split: list.splits)

text \<open>While the reader keeps up, no line is lost.\<close>

lemma event_not_lost:
  "ch_open (lg_chan l) \<Longrightarrow> length (ch_queue (lg_chan l)) < LOG_CHANNEL_CAPACITY \<Longrightarrow> level \<le> su_max (lg_sub l)
     \<Longrightarrow> lg_received l @ ch_queue (lg_chan l) = lg_sent l
     \<Longrightarrow> lg_received (log_event level out short l) @ ch_queue (lg_chan (log_event level out short l))
         = lg_sent (log_event level out short l)"
  by (simp add: log_event_def gui_write_def try_send_def)

text \<open>A line beyond the hundred that wait is lost, and its writer is told it was written.\<close>

lemma line_lost:
  "length (ch_queue c) = LOG_CHANNEL_CAPACITY \<Longrightarrow> gui_write buf c = (length buf, c)"
  by (simp add: gui_write_def try_send_def)

end
