(* ===== verification/Benchmark.thy ===== *)
theory Benchmark
  imports EncoderFacts Protocol "HOL-Library.Multiset"
begin

text \<open>
  The latency benchmark \<open>crates/rylus-encode/src/bin/bench.rs\<close> and the frame of \<open>benches/encode.rs\<close>.  The
  encoder is that of \<open>VideoEncoder\<close>; \<open>serde_json\<close> and what the clock says of each round are parameters.
\<close>

section \<open>Statistics\<close>

definition ENCODER_INIT_US :: nat where "ENCODER_INIT_US = 15000"
definition ENCODE_FRAME_US :: nat where "ENCODE_FRAME_US = 2000"
definition PROTO_SER_US :: nat where "PROTO_SER_US = 100"
definition PROTO_DE_US :: nat where "PROTO_DE_US = 100"

definition median_us :: "u64 list \<Rightarrow> u64" where
  "median_us samples =
     (let s = sort samples; n = length s
      in if n = 0 then 0
         else if n mod 2 = 1 then s ! (n div 2)
         else (s ! (n div 2 - 1) + s ! (n div 2)) mod 2 ^ 64 div 2)"

definition mean_us :: "u64 list \<Rightarrow> u64" where
  "mean_us samples = (if samples = [] then 0 else sum_list samples mod 2 ^ 64 div length samples)"

text \<open>\<open>report\<close>: its value, and the fields of the line it prints.\<close>

record bench_line =
  bl_name :: string
  bl_median :: u64
  bl_mean :: u64
  bl_budget :: u64
  bl_status :: string

definition report :: "string \<Rightarrow> u64 \<Rightarrow> u64 \<Rightarrow> u64 \<Rightarrow> bool \<times> bench_line" where
  "report name median mean budget =
     (let pass = median \<le> budget
      in (pass, \<lparr>bl_name = name, bl_median = median, bl_mean = mean, bl_budget = budget,
                 bl_status = (if pass then ''PASS'' else ''FAIL'')\<rparr>))"

section \<open>Frames\<close>

text \<open>\<open>as_chunks_mut::<4>\<close> visits the complete groups of four bytes; \<open>f\<close> fills the group of an index.\<close>

fun fill_chunks :: "(nat \<Rightarrow> byte list) \<Rightarrow> nat \<Rightarrow> byte list \<Rightarrow> byte list" where
  "fill_chunks f i (a # b # c # d # rest) = f i @ fill_chunks f (i + 1) rest"
| "fill_chunks f i rest = rest"

definition make_bgr0_frame :: "nat \<Rightarrow> nat \<Rightarrow> byte list" where
  "make_bgr0_frame width height = fill_chunks (\<lambda>_. [64, 128, 32, 255]) 0 (replicate (width * height * 4) 0)"

text \<open>The gradient of \<open>benches/encode.rs\<close>.\<close>

definition make_gradient_frame :: "nat \<Rightarrow> nat \<Rightarrow> byte list" where
  "make_gradient_frame width height =
     fill_chunks (\<lambda>i. let x = i mod width mod 256 in [x, x * 3 mod 256, x * 7 mod 256, 255]) 0
       (replicate (width * height * 4) 0)"

section \<open>Encoder\<close>

definition as_micros :: "nanos \<Rightarrow> u64" where
  "as_micros d = d div 1000 mod 2 ^ 64"

text \<open>A construction whose result is dropped, failed or not.\<close>

definition encoder_round :: "ffi_env \<Rightarrow> string option \<Rightarrow> nanos \<Rightarrow> ffi \<Rightarrow> ffi" where
  "encoder_round env dev now w = (case encoder_new env dev 64 64 64 64 now options_default w of
      (Inr e, w) \<Rightarrow> encoder_drop e w
    | (Inl _, w) \<Rightarrow> w)"

text \<open>\<open>now i\<close> is the time of round \<open>i\<close>, \<open>elapsed i\<close> what the clock says of measured round \<open>i\<close>.\<close>

definition bench_encoder_init ::
  "ffi_env \<Rightarrow> string option \<Rightarrow> (nat \<Rightarrow> nanos) \<Rightarrow> (nat \<Rightarrow> nanos) \<Rightarrow> nat \<Rightarrow> nat \<Rightarrow> ffi \<Rightarrow> u64 list \<times> ffi" where
  "bench_encoder_init env dev now elapsed warmup iters w =
     (map (as_micros \<circ> elapsed) [0..<iters],
      fold (\<lambda>i. encoder_round env dev (now i)) [0..<warmup + iters] w)"

text \<open>\<open>Inl\<close> is a panic.\<close>

definition bench_encode_frame ::
  "nat \<Rightarrow> ffi_env \<Rightarrow> string option \<Rightarrow> (nat \<Rightarrow> nanos) \<Rightarrow> (nat \<Rightarrow> nanos) \<Rightarrow> nat \<Rightarrow> ffi \<Rightarrow> (string + u64 list) \<times> ffi" where
  "bench_encode_frame fuel env dev now elapsed frames w =
     (if frames < 30 then (Inl ''bench_encode_frame needs frames >= 30 to isolate steady state'', w)
      else case encoder_new env dev 64 64 64 64 (now 0) options_default w of
        (Inl e, w) \<Rightarrow> (Inl (''encoder should init for steady-state encode bench: '' @ e), w)
      | (Inr e, w) \<Rightarrow>
          let frame = make_bgr0_frame 64 64;
              (e, w) = fold (\<lambda>i (e, w). ve_encode fuel (now i) (BGR0 64 64 frame) e w) [0..<frames] (e, w)
          in (Inr (map (as_micros \<circ> elapsed) (filter (\<lambda>i. 2 \<le> i) [0..<frames])), encoder_drop e w))"

section \<open>Messages\<close>

definition make_outbound_messages :: "message_outbound list" where
  "make_outbound_messages =
     [OutHello PROTOCOL_VERSION, HeartbeatAck 1700000000000,
      CapturableList [''Display :0'', ''Firefox '' @ [CHR 0xE2, CHR 0x80, CHR 0x94] @ '' rylus''],
      VideoInit ''avc1.4D0028'', ConfigOk, Error ''connection refused'']"

definition inbound_messages :: "message_inbound list" where
  "inbound_messages =
     [Heartbeat, GetCapturableList, InHello PROTOCOL_VERSION,
      InWheelEvent \<lparr>we_dx = -3, we_dy = 120, we_timestamp = 999\<rparr>,
      InPointerEvent \<lparr>pe_event_type = MOVE, pe_pointer_id = 1, pe_timestamp = 12345, pe_is_primary = True,
        pe_pointer_type = Pen, pe_button = PRIMARY, pe_buttons = PRIMARY, pe_x = Fin (1 / 2), pe_y = Fin (1 / 2),
        pe_pressure = Fin (4 / 5), pe_tilt_x = 30, pe_tilt_y = -15, pe_twist = 0, pe_width = Fin (1 / 100),
        pe_height = Fin (1 / 100), pe_altitude_angle = Some (Fin (785 / 1000)),
        pe_azimuth_angle = Some (Fin (157 / 100))\<rparr>]"

fun all_some :: "('a \<Rightarrow> 'b option) \<Rightarrow> 'a list \<Rightarrow> 'b list option" where
  "all_some f [] = Some []"
| "all_some f (x # xs) = (case f x of None \<Rightarrow> None
     | Some y \<Rightarrow> (case all_some f xs of None \<Rightarrow> None | Some ys \<Rightarrow> Some (y # ys)))"

definition make_inbound_json_messages :: "(message_inbound \<Rightarrow> string option) \<Rightarrow> string list option" where
  "make_inbound_json_messages to_json = all_some to_json inbound_messages"

text \<open>\<open>None\<close>: \<open>unwrap\<close> or \<open>expect\<close> of a failure panics; the rounds only differ in the clock.\<close>

definition bench_proto_ser ::
  "(message_outbound \<Rightarrow> string option) \<Rightarrow> (nat \<Rightarrow> nanos) \<Rightarrow> nat \<Rightarrow> nat \<Rightarrow> u64 list option" where
  "bench_proto_ser to_json elapsed warmup iters =
     (if warmup + iters = 0 \<or> all_some to_json make_outbound_messages \<noteq> None
      then Some (map (\<lambda>i. as_micros (elapsed i) div length make_outbound_messages) [0..<iters]) else None)"

definition bench_proto_de ::
  "(message_inbound \<Rightarrow> string option) \<Rightarrow> (string \<Rightarrow> message_inbound option) \<Rightarrow> (nat \<Rightarrow> nanos) \<Rightarrow> nat \<Rightarrow> nat
     \<Rightarrow> u64 list option" where
  "bench_proto_de to_json parse elapsed warmup iters = (case make_inbound_json_messages to_json of
      None \<Rightarrow> None
    | Some json \<Rightarrow>
        if warmup + iters = 0 \<or> all_some parse json \<noteq> None
        then Some (map (\<lambda>i. as_micros (elapsed i) div length json) [0..<iters]) else None)"

section \<open>The gate\<close>

text \<open>One target after the other, each reported; the exit status says whether all passed.\<close>

definition bench_gate :: "u64 list \<Rightarrow> u64 list \<Rightarrow> u64 list \<Rightarrow> u64 list \<Rightarrow> nat \<times> bench_line list" where
  "bench_gate init encode ser de =
     (let r1 = report ''encoder_init'' (median_us init) (mean_us init) ENCODER_INIT_US;
          r2 = report ''encode_frame'' (median_us encode) (mean_us encode) ENCODE_FRAME_US;
          r3 = report ''proto_message_ser'' (median_us ser) (mean_us ser) PROTO_SER_US;
          r4 = report ''proto_message_de'' (median_us de) (mean_us de) PROTO_DE_US;
          all_pass = True;
          all_pass = (if \<not> fst r1 then False else all_pass);
          all_pass = (if \<not> fst r2 then False else all_pass);
          all_pass = (if \<not> fst r3 then False else all_pass);
          all_pass = (if \<not> fst r4 then False else all_pass)
      in (if all_pass then 0 else 1, [snd r1, snd r2, snd r3, snd r4]))"

definition init_ffmpeg_logger :: "ffi \<Rightarrow> ffi" where
  "init_ffmpeg_logger w = call (Call ''av_log_set_level'' [S ''AV_LOG_WARNING'']) w"

record bench_clock =
  bk_now :: "nat \<Rightarrow> nat \<Rightarrow> nanos"
  bk_elapsed :: "nat \<Rightarrow> nat \<Rightarrow> nanos"

text \<open>\<open>main\<close>: \<open>None\<close> is a panic, else the exit status and the lines.\<close>

definition bench_main ::
  "nat \<Rightarrow> ffi_env \<Rightarrow> string option \<Rightarrow> (message_outbound \<Rightarrow> string option) \<Rightarrow> (message_inbound \<Rightarrow> string option)
     \<Rightarrow> (string \<Rightarrow> message_inbound option) \<Rightarrow> bench_clock \<Rightarrow> ffi \<Rightarrow> (nat \<times> bench_line list) option \<times> ffi" where
  "bench_main fuel env dev out_json in_json parse clk w =
     (let w = init_ffmpeg_logger w;
          (init, w) = bench_encoder_init env dev (bk_now clk 0) (bk_elapsed clk 0) 3 20 w
      in case bench_encode_frame fuel env dev (bk_now clk 1) (bk_elapsed clk 1) 32 w of
           (Inl _, w) \<Rightarrow> (None, w)
         | (Inr encode, w) \<Rightarrow>
             (case bench_proto_ser out_json (bk_elapsed clk 2) 3 200 of
                None \<Rightarrow> (None, w)
              | Some ser \<Rightarrow>
                  (case bench_proto_de in_json parse (bk_elapsed clk 3) 3 200 of
                     None \<Rightarrow> (None, w)
                   | Some de \<Rightarrow> (Some (bench_gate init encode ser de), w))))"

section \<open>Facts about the median\<close>

lemma sorted_nth_le_iff:
  "sorted s \<Longrightarrow> i < length s \<Longrightarrow> s ! i \<le> b \<longleftrightarrow> i < count_if (\<lambda>x. x \<le> b) (s :: nat list)"
proof (induction s arbitrary: i)
  case Nil
  then show ?case by simp
next
  case (Cons x s)
  show ?case
  proof (cases "x \<le> b")
    case True
    with Cons show ?thesis by (cases i) simp_all
  next
    case False
    then have "\<forall>y \<in> set (x # s). \<not> y \<le> b" using Cons.prems(1) by auto
    then have "count_if (\<lambda>y. y \<le> b) (x # s) = 0" "\<not> (x # s) ! i \<le> b"
      using nth_mem [OF Cons.prems(2)] by (auto simp: count_if_def filter_empty_conv simp del: nth_mem)
    then show ?thesis by simp
  qed
qed

lemma count_if_sort: "count_if p (sort xs) = count_if p xs"
  by (simp add: count_if_def filter_sort)

lemma sort_Nil_iff: "sort xs = [] \<longleftrightarrow> xs = []"
  by (metis length_0_conv length_sort)

text \<open>If more than half of the samples meet a budget, the median does.\<close>

lemma median_majority:
  assumes "length xs < 2 * count_if (\<lambda>x. x \<le> b) xs"
  shows "median_us xs \<le> b"
proof -
  let ?n = "length xs" and ?s = "sort xs"
  have n: "0 < ?n" using assms by (cases xs) simp_all
  have le: "?s ! i \<le> b" if "i \<le> ?n div 2" for i
  proof -
    have "i < ?n" "i < count_if (\<lambda>x. x \<le> b) xs" using that assms n by presburger+
    then show ?thesis using sorted_nth_le_iff [of ?s i b] by (simp add: count_if_sort)
  qed
  have "(?s ! (?n div 2 - 1) + ?s ! (?n div 2)) mod 2 ^ 64 div 2 \<le> (b + b) div 2"
    by (intro div_le_mono order_trans [OF mod_less_eq_dividend add_mono] le) simp_all
  then show ?thesis using le [of "?n div 2"] n by (simp add: median_us_def Let_def)
qed

text \<open>If more than half of them exceed it, the median does too, as long as no sum of two wraps.\<close>

lemma median_majority_over:
  assumes "length xs < 2 * count_if (\<lambda>x. b < x) xs" "\<forall>x \<in> set xs. x < 2 ^ 63"
  shows "b < median_us xs"
proof -
  let ?n = "length xs" and ?s = "sort xs" and ?c = "count_if (\<lambda>x. x \<le> b) xs"
  have c: "?c + count_if (\<lambda>x. b < x) xs = ?n"
    using sum_length_filter_compl [of "\<lambda>x. x \<le> b" xs] by (simp add: count_if_def not_le)
  then have n: "0 < ?n" using assms(1) by (cases xs) simp_all
  have gt: "b < ?s ! i" if "?c \<le> i" "i < ?n" for i
    using that sorted_nth_le_iff [of ?s i b] by (simp add: count_if_sort flip: not_le)
  have lt: "?s ! i < 2 ^ 63" if "i < ?n" for i
    using that assms(2) nth_mem [of i ?s] by simp
  show ?thesis
  proof (cases "?n mod 2 = 1")
    case True
    then have "?c \<le> ?n div 2" using assms(1) c by presburger
    then have "b < ?s ! (?n div 2)" using gt n by simp
    with True n show ?thesis by (simp add: median_us_def Let_def sort_Nil_iff)
  next
    case False
    let ?i = "?n div 2 - 1" and ?j = "?n div 2"
    have m: "?n mod 2 = 0" "?c \<le> ?i" "?i < ?n" "?j < ?n"
      using False assms(1) c n by presburger+
    then have g: "b < ?s ! ?i" "b < ?s ! ?j" "?s ! ?i < 2 ^ 63" "?s ! ?j < 2 ^ 63"
      using gt lt by simp_all
    then have "(?s ! ?i + ?s ! ?j) mod 2 ^ 64 = ?s ! ?i + ?s ! ?j" by simp
    moreover have "b < (?s ! ?i + ?s ! ?j) div 2" using g(1,2) by presburger
    ultimately show ?thesis using m(1) n by (simp add: median_us_def Let_def sort_Nil_iff)
  qed
qed

lemma median_order: "mset xs = mset ys \<Longrightarrow> median_us xs = median_us ys"
  by (metis median_us_def sorted_list_of_multiset_mset)

section \<open>Facts about the gate\<close>

lemma gate_exit:
  "fst (bench_gate init encode ser de) = 0 \<longleftrightarrow>
     median_us init \<le> ENCODER_INIT_US \<and> median_us encode \<le> ENCODE_FRAME_US
     \<and> median_us ser \<le> PROTO_SER_US \<and> median_us de \<le> PROTO_DE_US"
  by (simp add: bench_gate_def report_def Let_def)

lemma fill_chunks_length:
  "(\<And>i. length (f i) = 4) \<Longrightarrow> length (fill_chunks f i buf) = length buf"
  by (induction f i buf rule: fill_chunks.induct) simp_all

text \<open>Both frames have the size the encoder asks for, so that encoding is not skipped.\<close>

lemma frame_size:
  "length (make_bgr0_frame w h) = w * h * 4" "length (make_gradient_frame w h) = w * h * 4"
  by (simp_all add: make_bgr0_frame_def make_gradient_frame_def fill_chunks_length Let_def)

lemma bench_frame_placed: "place_frame (BGR0 64 64 (make_bgr0_frame 64 64)) s w \<noteq> None"
  by (simp add: place_frame_def frame_layout_def usize_mul_def frame_size)

lemma bench_frame_samples:
  "bench_encode_frame fuel env dev now elapsed frames w = (Inr samples, w') \<Longrightarrow> length samples = frames - 2 \<and> 30 \<le> frames"
proof -
  have "filter (\<lambda>i. 2 \<le> i) [0..<n] = [2..<n]" for n :: nat
    by (induction n) simp_all
  then show "bench_encode_frame fuel env dev now elapsed frames w = (Inr samples, w') \<Longrightarrow> ?thesis"
    by (auto simp: bench_encode_frame_def Let_def split: if_splits prod.splits sum.splits)
qed

text \<open>Every construction of the benchmark adds at most one pointer that is never freed.\<close>

lemma encoder_round_owned:
  assumes "ffi_ok w"
  shows "\<exists>x. owned (encoder_round env dev now w) \<subseteq> insert x (owned w)"
proof (cases "encoder_new env dev 64 64 64 64 now options_default w")
  case (Pair r w')
  note n = Pair [unfolded encoder_new_def]
  show ?thesis
  proof (cases r)
    case (Inl err)
    then show ?thesis using linux_codec.encoder_new_failed [OF assms n [unfolded Inl]] Pair
      by (auto simp: encoder_round_def)
  next
    case (Inr e)
    then show ?thesis using linux_codec.encoder_new_dropped [OF assms n [unfolded Inr]] Pair
      by (auto simp: encoder_round_def)
  qed
qed

end
