(* ===== verification/SelfTest.thy ===== *)
theory SelfTest
  imports GuiApp TestSource EncoderFacts WebServer
begin

text \<open>
  The self test \<open>crates/rylus-server/src/self_test.rs\<close>: its three steps over the test source, the encoder and
  the server of the other theories, and its exit status.  What the sockets answer is the record \<open>socket_env\<close>.
\<close>

section \<open>Results\<close>

text \<open>\<open>StBlocked\<close>: still waiting when the watchdog ends the process.\<close>

datatype 'a step_result = StOk 'a | StErr string | StPanic | StBlocked

definition st_bind :: "'a step_result \<Rightarrow> ('a \<Rightarrow> 'b step_result) \<Rightarrow> 'b step_result" where
  "st_bind r f = (case r of StOk x \<Rightarrow> f x | StErr e \<Rightarrow> StErr e | StPanic \<Rightarrow> StPanic | StBlocked \<Rightarrow> StBlocked)"

lemma st_bind_StOk: "st_bind r f = StOk y \<longleftrightarrow> (\<exists>x. r = StOk x \<and> f x = StOk y)"
  by (cases r) (simp_all add: st_bind_def)

lemma st_bind_simps [simp]:
  "st_bind (StOk x) f = f x" "st_bind (StErr e) f = StErr e" "st_bind StPanic f = StPanic" "st_bind StBlocked f = StBlocked"
  by (simp_all add: st_bind_def)

section \<open>Capture and encode\<close>

definition first_frame :: "test_capturable \<Rightarrow> pixel_provider step_result" where
  "first_frame c = (case test_recorder_new c of None \<Rightarrow> StPanic
     | Some r \<Rightarrow> (case test_capture r of None \<Rightarrow> StPanic | Some (_, p) \<Rightarrow> StOk p))"

definition step_capture :: "(usize \<times> usize) step_result" where
  "step_capture = st_bind (first_frame \<lparr>tc_width = 320, tc_height = 240, tc_format = FBGR0\<rparr>) (\<lambda>p. StOk (provider_size p))"

definition step_encode ::
  "nat \<Rightarrow> ffi_env \<Rightarrow> string option \<Rightarrow> nanos \<Rightarrow> usize \<Rightarrow> usize \<Rightarrow> ffi \<Rightarrow> unit step_result \<times> ffi" where
  "step_encode fuel env dev now width height w =
     (case first_frame \<lparr>tc_width = width, tc_height = height, tc_format = FBGR0\<rparr> of
        StOk p \<Rightarrow>
          (case encoder_new env dev width height width height now options_default w of
             (Inl e, w) \<Rightarrow> (StErr (''VideoEncoder::new failed: '' @ e), w)
           | (Inr e, w) \<Rightarrow> let (e, w) = ve_encode fuel now p e w in (StOk (), encoder_drop e w))
      | StErr e \<Rightarrow> (StErr e, w) | StPanic \<Rightarrow> (StPanic, w) | StBlocked \<Rightarrow> (StBlocked, w))"

section \<open>WebSocket\<close>

text \<open>The results of the socket calls; \<open>so_reads\<close> are those of \<open>read\<close>, the empty text being the end of the
  stream.\<close>

record socket_env =
  so_bind :: "string + unit"
  so_port :: "string + nat"
  so_connect :: "string + unit"
  so_timeout :: "string + unit"
  so_write :: "string + unit"
  so_reads :: "(string + string) list"

definition CRLF :: string where "CRLF = [CHR 0x0D, CHR 0x0A]"

definition self_test_args :: "nat \<Rightarrow> string list" where
  "self_test_args port = [''rylus'', ''--no-gui'', ''--no-mdns'', ''--tls-mode'', ''disabled'',
     ''--bind-address'', ''127.0.0.1'', ''--web-port'', dec port]"

definition upgrade_request :: "nat \<Rightarrow> string" where
  "upgrade_request port = concat (map (\<lambda>l. l @ CRLF)
     [''GET /ws HTTP/1.1'', ''Host: 127.0.0.1:'' @ dec port, ''Upgrade: websocket'', ''Connection: Upgrade'',
      ''Sec-WebSocket-Key: dGhlIHNhbXBsZSBub25jZQ=='', ''Sec-WebSocket-Version: 13'', ''''])"

fun read_response :: "(string + string) list \<Rightarrow> string \<Rightarrow> string step_result" where
  "read_response [] response = StBlocked"
| "read_response (Inl e # _) response = StErr (''read: '' @ e)"
| "read_response (Inr chunk # rest) response =
     (if chunk = [] then StOk response
      else if contains (response @ chunk) (CRLF @ CRLF) then StOk (response @ chunk)
      else read_response rest (response @ chunk))"

definition accept_value :: string where
  "accept_value = ''s3pPLMBiTxaQ9kYGzzhZRbK+xOo=''"

definition first_line :: "string \<Rightarrow> string" where
  "first_line s = (if s = [] then ''(empty response)'' else
     (let l = takeWhile (\<lambda>c. c \<noteq> CHR 0x0A) s
      in if l \<noteq> s \<and> l \<noteq> [] \<and> last l = CHR 0x0D then butlast l else l))"

text \<open>The checks after the client side is closed; \<open>quote\<close> is the text of \<open>{:?}\<close>.\<close>

definition check_response :: "(string \<Rightarrow> string) \<Rightarrow> string \<Rightarrow> unit step_result" where
  "check_response quote response =
     (if \<not> contains response ''101'' then StErr (''expected 101 Switching Protocols, got: '' @ quote (first_line response))
      else if \<not> contains response accept_value
      then StErr (''response missing/incorrect Sec-WebSocket-Accept header (browsers reject this): '' @ quote response)
      else if \<not> contains (lowercase response) ''upgrade: websocket''
      then StErr (''response missing 'Upgrade: websocket' header'')
      else StOk ())"

definition of_io :: "string \<Rightarrow> string + 'a \<Rightarrow> 'a step_result" where
  "of_io msg r = (case r of Inl e \<Rightarrow> StErr (msg @ e) | Inr x \<Rightarrow> StOk x)"

text \<open>What the client sees once the server runs, up to closing the stream.\<close>

definition exchange :: "socket_env \<Rightarrow> string step_result" where
  "exchange so = st_bind (of_io ''connect: '' (so_connect so)) (\<lambda>_.
     st_bind (of_io ''set_read_timeout: '' (so_timeout so)) (\<lambda>_.
     st_bind (of_io ''write request: '' (so_write so)) (\<lambda>_.
     read_response (so_reads so) '''')))"

text \<open>\<open>Drop\<close> of \<open>Rylus\<close> is \<open>stop\<close>.  A \<open>?\<close> leaves the function with the server still running, and dropping it
  stops it; the checks stop it explicitly, and dropping stops it once more.\<close>

definition rylus_drop :: "rylus \<Rightarrow> rylus" where
  "rylus_drop r = rylus_stop_joined r"

definition step_websocket ::
  "(string list \<Rightarrow> config) \<Rightarrow> bool \<Rightarrow> mdns_env \<Rightarrow> string \<Rightarrow> (string \<Rightarrow> string) \<Rightarrow> socket_env \<Rightarrow> nat
     \<Rightarrow> unit step_result \<times> rylus" where
  "step_websocket parse_from bind_ok mdns suffix quote so port =
     (let conf = parse_from (self_test_args port);
          tls = resolve_tls_mode conf \<noteq> TlsDisabled;
          (started, server) = rylus_start bind_ok tls mdns suffix conf rylus_new
      in if \<not> started then (StErr ''Rylus::start() returned false'', rylus_drop server)
         else (case exchange so of
             StOk response \<Rightarrow> (check_response quote response, rylus_drop (rylus_stop_joined server))
           | StErr e \<Rightarrow> (StErr e, rylus_drop server)
           | StPanic \<Rightarrow> (StPanic, rylus_drop server)
           | StBlocked \<Rightarrow> (StBlocked, server)))"

section \<open>The whole test\<close>

definition find_free_port :: "socket_env \<Rightarrow> nat step_result" where
  "find_free_port so = st_bind (of_io ''failed to bind for port discovery: '' (so_bind so)) (\<lambda>_.
     of_io ''failed to get local addr: '' (so_port so))"

definition run_self_test ::
  "nat \<Rightarrow> ffi_env \<Rightarrow> string option \<Rightarrow> nanos \<Rightarrow> (string list \<Rightarrow> config) \<Rightarrow> bool \<Rightarrow> mdns_env \<Rightarrow> string
     \<Rightarrow> (string \<Rightarrow> string) \<Rightarrow> socket_env \<Rightarrow> ffi \<Rightarrow> unit step_result" where
  "run_self_test fuel env dev now parse_from bind_ok mdns suffix quote so w =
     st_bind step_capture (\<lambda>(width, height).
       st_bind (fst (step_encode fuel env dev now width height w)) (\<lambda>_.
         st_bind (find_free_port so) (\<lambda>port.
           fst (step_websocket parse_from bind_ok mdns suffix quote so port))))"

text \<open>\<open>run\<close>: the exit status and the line printed.\<close>

definition self_test_exit :: "unit step_result \<Rightarrow> nat \<times> string" where
  "self_test_exit r = (case r of
      StOk _ \<Rightarrow> (0, ''PASS: rylus-server --self-test'')
    | StErr e \<Rightarrow> (1, ''FAIL: rylus-server --self-test: '' @ e)
    | StPanic \<Rightarrow> (101, '''')
    | StBlocked \<Rightarrow> (1, ''FAIL: rylus-server --self-test timed out after 30s''))"

section \<open>Facts\<close>

lemma first_frame_ok: "\<exists>p. first_frame c = StOk p \<and> provider_size p = (tc_width c, tc_height c)
   \<and> length (provider_bytes p) = frame_bytes c"
proof -
  obtain r where r: "test_recorder_new c = Some r" "recorder_ok r" "tr_capturable r = c"
    using test_recorder_new_ok by blast
  then show ?thesis using test_capture_ok [OF r(2)] by (auto simp: first_frame_def)
qed

text \<open>The first step cannot fail, and the second only by the encoder.\<close>

lemma step_capture_ok: "step_capture = StOk (320, 240)"
  using first_frame_ok [of "\<lparr>tc_width = 320, tc_height = 240, tc_format = FBGR0\<rparr>"]
  by (auto simp: step_capture_def)

lemma step_encode_result:
  "fst (step_encode fuel env dev now width height w) =
     (case fst (encoder_new env dev width height width height now options_default w) of
        Inl e \<Rightarrow> StErr (''VideoEncoder::new failed: '' @ e) | Inr _ \<Rightarrow> StOk ())"
proof -
  obtain p where "first_frame \<lparr>tc_width = width, tc_height = height, tc_format = FBGR0\<rparr> = StOk p"
    using first_frame_ok by blast
  then show ?thesis by (simp add: step_encode_def split: prod.split sum.split)
qed

text \<open>However the third step ends, no server is left, unless the watchdog has to end it.\<close>

lemma no_server_left:
  assumes "step_websocket parse_from bind_ok mdns suffix quote so port = (r, server)" "r \<noteq> StBlocked"
  shows "ry_server server = None"
  using assms rylus_joined
  by (auto simp: step_websocket_def rylus_drop_def Let_def split: prod.splits if_splits step_result.splits)

text \<open>The response ends with the chunk that completes the headers, however it was cut.\<close>

lemma read_response_headers:
  assumes "\<forall>k < length cs. cs ! k \<noteq> []" "contains (response @ concat cs) (CRLF @ CRLF)" "cs \<noteq> []"
  shows "\<exists>k. read_response (map Inr cs @ rest) response = StOk (response @ concat (take k cs))
    \<and> contains (response @ concat (take k cs)) (CRLF @ CRLF)"
  using assms
proof (induction cs arbitrary: response)
  case Nil
  then show ?case by simp
next
  case (Cons c cs)
  then have c: "c \<noteq> []" by (auto dest: spec [of _ 0])
  show ?case
  proof (cases "contains (response @ c) (CRLF @ CRLF)")
    case True
    with c show ?thesis by (intro exI [of _ 1]) simp
  next
    case False
    have "cs \<noteq> []" using False Cons.prems(2) by auto
    moreover have "\<forall>k < length cs. cs ! k \<noteq> []" using Cons.prems(1) by (auto dest: spec [of _ "Suc _"])
    ultimately obtain k where "read_response (map Inr cs @ rest) (response @ c) = StOk (response @ c @ concat (take k cs))"
      "contains (response @ c @ concat (take k cs)) (CRLF @ CRLF)"
      using Cons.IH [of "response @ c"] Cons.prems(2) by auto
    with c False show ?thesis by (intro exI [of _ "Suc k"]) simp
  qed
qed

lemma exit_zero: "fst (self_test_exit r) = 0 \<longleftrightarrow> r = StOk ()"
  by (cases r) (simp_all add: self_test_exit_def)

text \<open>The handshake against the server of \<open>WebServer\<close>: the request the bytes of \<open>upgrade_request\<close> stand for is
  upgraded, and the answer passes, if its text holds the status and one line per header and the accept key is
  computed as RFC 6455 says.\<close>

definition parsed_upgrade :: "nat \<Rightarrow> request" where
  "parsed_upgrade port = \<lparr>req_method = GET, req_path = ''/ws'', req_headers =
     [''host'' \<mapsto> ''127.0.0.1:'' @ dec port, ''upgrade'' \<mapsto> ''websocket'', ''connection'' \<mapsto> ''Upgrade'',
      ''sec-websocket-key'' \<mapsto> ''dGhlIHNhbXBsZSBub25jZQ=='', ''sec-websocket-version'' \<mapsto> ''13''],
     req_body = Inr ''''\<rparr>"

lemma contains_iff: "contains s t \<longleftrightarrow> (\<exists>a b. s = a @ t @ b)"
proof (induction t s rule: split_once.induct)
  case (1 p)
  then show ?case by (simp add: contains_def)
next
  case (2 p x xs)
  show ?case
  proof (cases "strip_prefix p (x # xs)")
    case None
    then have n: "x # xs \<noteq> p @ b" for b using strip_prefix_Some [of p "x # xs" b] by simp
    have "(\<exists>a b. x # xs = a @ p @ b) \<longleftrightarrow> (\<exists>a b. xs = a @ p @ b)"
    proof
      assume "\<exists>a b. x # xs = a @ p @ b"
      then obtain a b where a: "x # xs = a @ p @ b" by blast
      then obtain a' where "a = x # a'" using n [of b] by (cases a) auto
      with a show "\<exists>a b. xs = a @ p @ b" by auto
    next
      assume "\<exists>a b. xs = a @ p @ b"
      then show "\<exists>a b. x # xs = a @ p @ b" by (metis append_Cons)
    qed
    then show ?thesis using 2 None by (simp add: contains_def)
  next
    case (Some r)
    then have "x # xs = [] @ p @ r" by (simp add: strip_prefix_Some)
    moreover have "contains (x # xs) p" using Some by (simp add: contains_def)
    ultimately show ?thesis by blast
  qed
qed

lemma contains_trans: "contains s t \<Longrightarrow> contains t u \<Longrightarrow> contains s u"
  unfolding contains_iff by (metis append.assoc)

lemma contains_lowercase: "contains s t \<Longrightarrow> contains (lowercase s) (lowercase t)"
  unfolding contains_iff lowercase_def by (metis map_append)

lemma self_test_upgraded:
  assumes "sc_hash c = None" "env_to_str env ''13'' = Some ''13''"
  shows "\<exists>r c'. serve env d ip (parsed_upgrade port) c = (r, c', True) \<and> sc_num_clients c' = sc_num_clients c + 1
    \<and> status r = 101 \<and> set (resp_headers r) = {(''upgrade'', ''websocket''), (''connection'', ''Upgrade''),
        (''sec-websocket-accept'', env_accept_key env ''dGhlIHNhbXBsZSBub25jZQ=='')}"
proof -
  have v: "trim ''13'' = ''13''" "split_on (CHR '','') ''13'' = [''13'']"
    by (simp_all add: trim_def is_space_def)
  have h: "header_str env (parsed_upgrade port) ''sec-websocket-version'' = Some ''13''"
    "header_str env (parsed_upgrade port) ''origin'' = None"
    "req_headers (parsed_upgrade port) ''sec-websocket-key'' = Some ''dGhlIHNhbXBsZSBub25jZQ==''"
    by (simp_all add: header_str_def parsed_upgrade_def assms(2))
  have "serve_ws env True (parsed_upgrade port)
      = (\<lparr>status = 101, resp_headers = [(''upgrade'', ''websocket''), (''connection'', ''Upgrade''),
          (''sec-websocket-accept'', env_accept_key env ''dGhlIHNhbXBsZSBub25jZQ=='')], body = ''''\<rparr>, True)"
    by (simp add: serve_ws_def ws_origin_matches_host_def ws_handshake_response_def h v)
  then show ?thesis
    by (simp add: serve_def is_authed_def assms(1) serve_settings_def serve_auth_def serve_page_def parsed_upgrade_def)
qed

definition text_of_response :: "response \<Rightarrow> string \<Rightarrow> bool" where
  "text_of_response r text \<longleftrightarrow> contains text (dec (status r))
     \<and> (\<forall>(n, v) \<in> set (resp_headers r). contains text (n @ '': '' @ v))"

lemma handshake_passes:
  assumes "sc_hash c = None" "env_to_str env ''13'' = Some ''13''"
    and "env_accept_key env ''dGhlIHNhbXBsZSBub25jZQ=='' = accept_value"
    and "serve env d ip (parsed_upgrade port) c = (r, c', up)" "text_of_response r text"
  shows "up \<and> check_response quote text = StOk ()"
proof -
  have r: "up" "status r = 101" "(''upgrade'', ''websocket'') \<in> set (resp_headers r)"
    "(''sec-websocket-accept'', accept_value) \<in> set (resp_headers r)"
    using self_test_upgraded [OF assms(1,2), of d ip port] assms(3,4) by auto
  have h: "contains text (n @ '': '' @ v)" if "(n, v) \<in> set (resp_headers r)" for n v
    using assms(5) that by (auto simp: text_of_response_def)
  have "contains (''sec-websocket-accept'' @ '': '' @ accept_value) accept_value"
    unfolding contains_iff by (metis append_Nil2 append.assoc)
  then have "contains text accept_value" using contains_trans h [OF r(4)] by blast
  moreover have "contains (lowercase text) ''upgrade: websocket''"
    using contains_lowercase [OF h [OF r(3)]] by (simp add: lowercase_def lower_char_def)
  moreover have "dec 101 = ''101''" by code_simp
  then have "contains text ''101''" using assms(5) r(2) by (simp add: text_of_response_def)
  ultimately show ?thesis using r(1) by (simp add: check_response_def)
qed

text \<open>The client reads exactly the headers when the server sends nothing after them.\<close>

lemma read_response_whole:
  assumes "\<forall>k < length cs. cs ! k \<noteq> []" "contains (concat cs) (CRLF @ CRLF)"
    and "\<forall>k < length cs. \<not> contains (concat (take k cs)) (CRLF @ CRLF)"
  shows "read_response (map Inr cs @ rest) '''' = StOk (concat cs)"
proof -
  have "cs \<noteq> []" using assms(2) by (auto simp: contains_iff CRLF_def)
  then obtain k where k: "read_response (map Inr cs @ rest) '''' = StOk (concat (take k cs))"
    "contains (concat (take k cs)) (CRLF @ CRLF)"
    using read_response_headers [of cs "''''"] assms(1,2) by auto
  then have "length cs \<le> k" using assms(3) by (meson not_less)
  with k(1) show ?thesis by simp
qed

lemma started: "fst (rylus_start True tls mdns suffix c r)"
  by (simp add: rylus_start_def server_bind_def Let_def split: sum.split prod.split)

lemma accepted_step:
  assumes "exchange so = StOk response" "check_response quote response = StOk ()"
  shows "fst (step_websocket parse_from True mdns suffix quote so port) = StOk ()"
  using assms started [of "resolve_tls_mode (parse_from (self_test_args port)) \<noteq> TlsDisabled" mdns suffix
      "parse_from (self_test_args port)" rylus_new]
  by (auto simp: step_websocket_def Let_def split: prod.split)

text \<open>A pass means that an encoder was made and a server answered the handshake with the right key.\<close>

lemma pass_means:
  assumes "run_self_test fuel env dev now parse_from bind_ok mdns suffix quote so w = StOk ()"
  obtains e w' port response where "encoder_new env dev 320 240 320 240 now options_default w = (Inr e, w')"
    "so_port so = Inr port" "bind_ok" "exchange so = StOk response" "contains response ''101''"
    "contains response accept_value" "contains (lowercase response) ''upgrade: websocket''"
proof -
  from assms obtain port where a: "fst (step_encode fuel env dev now 320 240 w) = StOk ()" "so_port so = Inr port"
    "fst (step_websocket parse_from bind_ok mdns suffix quote so port) = StOk ()"
    by (auto simp: run_self_test_def step_capture_ok st_bind_StOk find_free_port_def of_io_def split: sum.splits)
  obtain e w' where e: "encoder_new env dev 320 240 320 240 now options_default w = (Inr e, w')"
    using a(1) by (cases "encoder_new env dev 320 240 320 240 now options_default w")
      (auto simp: step_encode_result split: sum.splits)
  have "bind_ok"
    using a(3) by (cases bind_ok) (simp_all add: step_websocket_def Let_def rylus_start_def server_bind_def)
  moreover obtain response where "exchange so = StOk response" "check_response quote response = StOk ()"
    using a(3) by (auto simp: step_websocket_def Let_def split: prod.splits if_splits step_result.splits)
  ultimately show ?thesis using that [OF e a(2)] by (auto simp: check_response_def split: if_splits)
qed

end
