(* ===== verification/PipeWireSetup.thy ===== *)
theory PipeWireSetup
  imports PipeWireStream RustString
begin

text \<open>
  The set-up in \<open>PipeWireRecorder::new\<close> of \<open>crates/rylus-capture/src/pipewire.rs\<close> and the end of a recorder: the
  objects obtained from the PipeWire library, what is offered in the negotiation, and the order in which the
  handles are dropped when a call fails and when the recorder goes.  What each call answers is \<open>setup_env\<close>.
\<close>

section \<open>The offer\<close>

text \<open>The pod \<open>EnumFormat\<close>: raw video, a choice of formats (the default first), and ranges (default, least,
  greatest) of the size and of the frame rate as a fraction.\<close>

record format_offer =
  of_media :: "string \<times> string"
  of_formats :: "video_format list"
  of_size :: "(nat \<times> nat) \<times> (nat \<times> nat) \<times> (nat \<times> nat)"
  of_rate :: "(nat \<times> nat) \<times> (nat \<times> nat) \<times> (nat \<times> nat)"

definition pw_offer :: format_offer where
  "pw_offer = \<lparr>of_media = (''Video'', ''Raw''), of_formats = offered_formats,
     of_size = ((1920, 1080), (1, 1), (16384, 16384)), of_rate = ((60, 1), (0, 1), (1000, 1))\<rparr>"

text \<open>What a negotiation within an offer can end with.\<close>

definition within_offer :: "format_offer \<Rightarrow> video_format \<Rightarrow> nat \<Rightarrow> nat \<Rightarrow> bool" where
  "within_offer o1 f w h \<longleftrightarrow> f \<in> set (of_formats o1)
     \<and> (case of_size o1 of (_, (w0, h0), (w1, h1)) \<Rightarrow> w0 \<le> w \<and> w \<le> w1 \<and> h0 \<le> h \<and> h \<le> h1)"

lemma offer_bounds: "within_offer pw_offer f w h \<Longrightarrow> bytes_per_pixel f = 4 \<and> 0 < w \<and> w \<le> 16384 \<and> 0 < h \<and> h \<le> 16384"
  by (auto simp: within_offer_def pw_offer_def offered_formats_def bytes_per_pixel_def)

section \<open>Handles\<close>

datatype pw_handle = DupFd | MainLoop | Context | Core | Stream | Listener

text \<open>\<open>Moved\<close>: the handle is passed by value to a library call, which drops or keeps it.\<close>

datatype pw_life = Made pw_handle | Moved pw_handle | Dropped pw_handle | Connected nat format_offer

text \<open>The handles in the local variables, the latest first, and what has happened.\<close>

record pw_world =
  pu_held :: "pw_handle list"
  pu_trace :: "pw_life list"

definition pu_make :: "pw_handle \<Rightarrow> pw_world \<Rightarrow> pw_world" where
  "pu_make h u = \<lparr>pu_held = h # pu_held u, pu_trace = pu_trace u @ [Made h]\<rparr>"

definition pu_move :: "pw_handle \<Rightarrow> pw_world \<Rightarrow> pw_world" where
  "pu_move h u = \<lparr>pu_held = remove1 h (pu_held u), pu_trace = pu_trace u @ [Moved h]\<rparr>"

text \<open>Leaving the function drops the locals, the latest first.\<close>

definition pu_leave :: "pw_world \<Rightarrow> pw_world" where
  "pu_leave u = \<lparr>pu_held = [], pu_trace = pu_trace u @ map Dropped (pu_held u)\<rparr>"

definition pu_fail :: "string \<Rightarrow> pw_world \<Rightarrow> (string + unit) \<times> pw_world" where
  "pu_fail msg u = (Inl msg, pu_leave u)"

definition pu_then :: "(string + unit) \<times> pw_world \<Rightarrow> (pw_world \<Rightarrow> (string + unit) \<times> pw_world) \<Rightarrow> (string + unit) \<times> pw_world" where
  "pu_then r f = (case r of (Inl e, u) \<Rightarrow> (Inl e, u) | (Inr _, u) \<Rightarrow> f u)"

text \<open>A call that yields a handle, or fails with the text of the source.\<close>

definition pu_try :: "string + unit \<Rightarrow> string \<Rightarrow> pw_handle option \<Rightarrow> pw_world \<Rightarrow> (string + unit) \<times> pw_world" where
  "pu_try r msg made u = (case r of
      Inl e \<Rightarrow> pu_fail (msg @ e) u
    | Inr _ \<Rightarrow> (Inr (), case made of Some h \<Rightarrow> pu_make h u | None \<Rightarrow> u))"

section \<open>Set-up\<close>

record setup_env =
  se_dup :: "string + unit"
  se_main_loop :: "string + unit"
  se_context :: "string + unit"
  se_connect_fd :: "string + unit"
  se_stream :: "string + unit"
  se_listener :: "string + unit"
  se_serialize :: "string + unit"
  se_pod :: bool
  se_connect :: "string + unit"

definition pw_connect_stages :: "setup_env \<Rightarrow> nat \<Rightarrow> pw_world \<Rightarrow> (string + unit) \<times> pw_world" where
  "pw_connect_stages env path u =
     pu_then (pu_try (se_serialize env) ''Failed to serialize SPA pod: '' None u) (\<lambda>u.
     pu_then (if se_pod env then (Inr (), u) else pu_fail ''Failed to create Pod from serialized bytes'' u) (\<lambda>u.
       pu_try (se_connect env) ''Failed to connect PipeWire stream: '' None
         (u\<lparr>pu_trace := pu_trace u @ [Connected (path mod 2 ^ 32) pw_offer]\<rparr>)))"

definition pw_setup :: "setup_env \<Rightarrow> nat \<Rightarrow> nat \<Rightarrow> (string + unit) \<times> pw_world" where
  "pw_setup env raw_fd path =
     pu_then (pu_try (se_dup env) (''Failed to dup PipeWire fd '' @ dec raw_fd @ '': '') (Some DupFd)
       \<lparr>pu_held = [], pu_trace = []\<rparr>) (\<lambda>u.
     pu_then (pu_try (se_main_loop env) ''Failed to create PipeWire main loop: '' (Some MainLoop) u) (\<lambda>u.
     pu_then (pu_try (se_context env) ''Failed to create PipeWire context: '' (Some Context) u) (\<lambda>u.
     pu_then (pu_try (se_connect_fd env) ''Failed to connect to PipeWire via fd: '' (Some Core) (pu_move DupFd u)) (\<lambda>u.
     pu_then (pu_try (se_stream env) ''Failed to create PipeWire stream: '' (Some Stream) (pu_move Core u)) (\<lambda>u.
     pu_then (pu_try (se_listener env) ''Failed to register PipeWire stream listener: '' (Some Listener) u)
       (pw_connect_stages env path))))))"

text \<open>The recorder takes listener, stream and main loop; the context is dropped on return.\<close>

definition pw_recorder_start ::
  "setup_env \<Rightarrow> nat \<Rightarrow> nat \<Rightarrow> pw_event list list \<Rightarrow> (string + pw_recorder) \<times> pw_world" where
  "pw_recorder_start env raw_fd path rounds = (case pw_setup env raw_fd path of
      (Inl e, u) \<Rightarrow> (Inl e, u)
    | (Inr _, u) \<Rightarrow> (Inr (pw_recorder_new rounds),
        \<lparr>pu_held = [Listener, Stream, MainLoop], pu_trace = pu_trace u @ [Dropped Context]\<rparr>))"

text \<open>Dropping the recorder: its fields in the order of their declaration.\<close>

definition pw_recorder_drop :: "pw_world \<Rightarrow> pw_world" where
  "pw_recorder_drop u = pu_leave u"

section \<open>Facts\<close>

text \<open>The order PipeWire asks for: the listener goes before the stream, the stream before the main loop.\<close>

definition dropped_before :: "pw_handle \<Rightarrow> pw_handle \<Rightarrow> pw_life list \<Rightarrow> bool" where
  "dropped_before a b tr \<longleftrightarrow> Dropped b \<notin> set (takeWhile (\<lambda>x. x \<noteq> Dropped a) tr) \<or> Made a \<notin> set tr"

definition ends_clean :: "pw_world \<Rightarrow> bool" where
  "ends_clean u \<longleftrightarrow> pu_held u = []
     \<and> (\<forall>h. count_if (\<lambda>x. x = Made h) (pu_trace u) = count_if (\<lambda>x. x = Dropped h \<or> x = Moved h) (pu_trace u))
     \<and> dropped_before Listener Stream (pu_trace u) \<and> dropped_before Stream MainLoop (pu_trace u)"

lemmas pw_setup_defs = pw_recorder_start_def pw_setup_def pw_connect_stages_def pu_then_def pu_try_def pu_fail_def
  pu_make_def pu_move_def pu_leave_def pw_recorder_drop_def

lemma all_handles: "(\<forall>h. P h) \<longleftrightarrow> P DupFd \<and> P MainLoop \<and> P Context \<and> P Core \<and> P Stream \<and> P Listener"
  by (metis pw_handle.exhaust)

text \<open>Whichever call fails, every handle is given back once and in that order; so it is when the recorder goes.\<close>

lemma setup_failed_clean:
  "pw_recorder_start env raw_fd path rounds = (Inl e, u) \<Longrightarrow> ends_clean u"
  by (auto simp: pw_setup_defs ends_clean_def dropped_before_def all_handles split: sum.splits if_splits)

lemma setup_dropped_clean:
  "pw_recorder_start env raw_fd path rounds = (Inr r, u) \<Longrightarrow> ends_clean (pw_recorder_drop u)"
  by (auto simp: pw_setup_defs ends_clean_def dropped_before_def all_handles split: sum.splits if_splits)

lemma started_recorder:
  "pw_recorder_start env raw_fd path rounds = (Inr r, u) \<Longrightarrow>
     r = pw_recorder_new rounds \<and> Connected (path mod 2 ^ 32) pw_offer \<in> set (pu_trace u)"
  by (auto simp: pw_setup_defs split: sum.splits if_splits)

text \<open>What a compositor may dispatch after a format of width \<open>fw\<close> is settled: no other format, rows that hold their
  width and mappings of the size asked for.\<close>

definition settled_event :: "nat \<Rightarrow> pw_event \<Rightarrow> bool" where
  "settled_event fw e = (case e of
      ParamChanged p \<Rightarrow> p = None
    | Process (Some (d # _)) \<Rightarrow> 0 \<le> bd_stride d \<and> bd_stride d < 2 ^ 31
        \<and> (bd_stride d = 0 \<or> int fw * 4 \<le> bd_stride d) \<and> (\<forall>a n b. bd_mapped d a n = Some b \<longrightarrow> length b = n)
    | _ \<Rightarrow> True)"

lemma settled_good:
  "us_width v \<le> 16384 \<Longrightarrow> us_height v \<le> 16384 \<Longrightarrow> settled_event (us_width v) e \<Longrightarrow> good_event v e"
  by (auto simp: settled_event_def good_event_def good_buffer_def split: pw_event.splits option.splits list.splits)

end
