(* ===== verification/GuiView.thy ===== *)
theory GuiView
  imports GuiApp
begin

text \<open>
  What \<open>update\<close> of \<open>crates/rylus-gui/src/lib.rs\<close> draws on Linux: the widgets of the window as a function of the
  state, in their order, with their texts and hover texts.  Sizes and spacing are left out, the theme is in \<open>GuiTheme\<close>; a colour is
  the name it has in the source.
\<close>

section \<open>Widgets\<close>

datatype colour = Default | ACCENT | ERROR_COLOR | WARNING_COLOR | TextSecondary | TextMuted

datatype widget =
    Label colour string
  | Button bool string
  | TextEdit bool string string
  | Checkbox bool string
  | QrImage
  | Separator
  | Hover string
  | Group string "widget list"

text \<open>\<open>Button\<close> carries whether it is enabled, \<open>TextEdit\<close> whether it hides its text, the text and the hint,
  \<open>Hover\<close> the text shown for the widget before it, \<open>Group\<close> a window or collapsible section.\<close>

section \<open>The window\<close>

definition warning_view :: "string \<Rightarrow> 'r app \<Rightarrow> widget list" where
  "warning_view uinput_error a =
     (if ap_uinput_warning a
      then [Group ''UInput Inaccessible'' [Label Default uinput_error, Button True ''Close'']] else [])"

definition first_run_hint :: "'r app \<Rightarrow> bool" where
  "first_run_hint a \<longleftrightarrow> ap_first_run a \<and> \<not> ap_has_started a"

definition main_button :: "'r app \<Rightarrow> widget" where
  "main_button a =
     (let is_running = (ap_state a = Running); is_starting = (ap_state a = Starting)
      in Button (\<not> is_starting) (if is_starting then ''Starting...'' else if is_running then ''Stop'' else ''Start''))"

definition address_view :: "'r app \<Rightarrow> widget list" where
  "address_view a =
     (if ap_state a = Running \<and> ap_addr a \<noteq> []
      then [Label TextSecondary ''Connect your tablet to:'', Label ACCENT (ap_addr a), Button True ''Copy'',
            Hover ''Copy the connection URL to the clipboard''] @ (if ap_qr_texture a then [QrImage] else [])
      else [])"

definition hero_view :: "'r app \<Rightarrow> widget list" where
  "hero_view a =
     main_button a
     # (case ap_start_error a of Some err \<Rightarrow> [Label ERROR_COLOR err] | None \<Rightarrow> [])
     @ (if first_run_hint a
        then [Label TextSecondary ''Start the server, then scan the QR code on your tablet to connect.''] else [])
     @ address_view a"

definition error_label :: "string option \<Rightarrow> widget list" where
  "error_label e = (case e of Some err \<Rightarrow> [Label ERROR_COLOR err] | None \<Rightarrow> [])"

definition connection_view :: "'r app \<Rightarrow> widget list" where
  "connection_view a =
     [Label TextSecondary ''Access Code'',
      TextEdit (\<not> ap_show_code a) (ap_access_code a) ''Leave blank for no access code'',
      Hover (''Restrict who can control your computer with an access code. ''
        @ ''Note that this does NOT do any kind of encryption and it is advised ''
        @ ''to only run Rylus inside trusted networks! Do NOT reuse any of your passwords!''),
      Button True (if ap_show_code a then ''Hide'' else ''Show''),
      Label TextSecondary ''Bind Address'', TextEdit False (ap_bind_address a) ''''] @ error_label (ap_bind_error a)
     @ [Label TextSecondary ''Port'', TextEdit False (ap_port a) ''''] @ error_label (ap_port_error a)"

definition encoding_view :: "'r app \<Rightarrow> widget list" where
  "encoding_view a =
     [Label TextSecondary ''Hardware Acceleration'',
      Label TextMuted (''Video encoding can use hardware acceleration on supported systems. ''
        @ ''Quality and stability varies among hardware and drivers.''),
      Checkbox (ap_vaapi a) ''VAAPI'',
      Hover ''Try to use hardware acceleration through the Video Acceleration API.'',
      Checkbox (ap_nvenc a) ''NVENC'',
      Hover ''Try to use Nvidia's NVENC to encode the video via GPU.'']"

definition preferences_view :: "'r app \<Rightarrow> widget list" where
  "preferences_view a =
     [Checkbox (ap_auto_start a) ''Auto Start'', Hover ''Start Rylus server immediately on program start.'',
      Checkbox (ap_wayland a) ''Wayland/PipeWire Support'',
      Hover (''EXPERIMENTAL! This may crash your desktop! Enables screen ''
        @ ''capturing for Wayland using PipeWire and GStreamer.'')]"

definition log_colour :: "string \<Rightarrow> colour" where
  "log_colour line =
     (if contains line ''ERROR'' then ERROR_COLOR
      else if contains line ''WARN'' then WARNING_COLOR
      else if contains line ''INFO'' then ACCENT
      else TextMuted)"

definition log_view :: "'r app \<Rightarrow> widget list" where
  "log_view a =
     (let count = length (ap_log a)
      in [Label TextMuted (dec count @ '' line'' @ (if count = 1 then '''' else ''s'')
            @ (if count \<ge> LOG_RING_CAPACITY then '' (oldest trimmed)'' else '''')),
          Button (count > 0) ''Clear'', Hover ''Clear the on-screen log buffer'']
         @ (if ap_log a = [] then [Label TextMuted ''No log messages yet. Start the server to begin.'']
            else map (\<lambda>line. Label (log_colour line) line) (ap_log a)))"

definition gui_view :: "string \<Rightarrow> 'r app \<Rightarrow> widget list" where
  "gui_view uinput_error a =
     warning_view uinput_error a @ hero_view a
     @ [Separator, Group ''Connection'' (connection_view a), Group ''Encoding'' (encoding_view a),
        Group ''Preferences'' (preferences_view a)]
     @ (if first_run_hint a then [Label TextMuted ''(defaults work for most setups)''] else [])
     @ [Separator, Group ''Log'' (log_view a)]"

text \<open>A frame: the events of the server, then the window; the QR texture is made before it is shown.\<close>

definition gui_frame :: "'r gui_env \<Rightarrow> string \<Rightarrow> gui_input list \<Rightarrow> 'r app \<Rightarrow> widget list \<times> 'r app" where
  "gui_frame env uinput_error inputs a =
     (let a = gui_step env ShowQr (fold (gui_step env) inputs a) in (gui_view uinput_error a, a))"

section \<open>What is shown\<close>

text \<open>Secrets: the access code is drawn in clear only while it is asked for.\<close>

lemma code_hidden:
  "TextEdit h (ap_access_code a) ''Leave blank for no access code'' \<in> set (connection_view a) \<longleftrightarrow> h = (\<not> ap_show_code a)"
  by (auto simp: connection_view_def error_label_def split: option.splits)

text \<open>Every line that is kept is shown once, in order, under a count of them.\<close>

lemma log_shown:
  "ap_log a \<noteq> [] \<Longrightarrow> \<exists>head. log_view a = head @ map (\<lambda>l. Label (log_colour l) l) (ap_log a) \<and> length head = 3
     \<and> Button True ''Clear'' \<in> set head"
  by (simp add: log_view_def Let_def)

text \<open>The button and the address: over a consistent state they say what the server does.\<close>

lemma hero_button:
  "Button True ''Stop'' \<in> set (hero_view a) \<longleftrightarrow> ap_state a = Running"
  "Button True ''Start'' \<in> set (hero_view a) \<longleftrightarrow> ap_state a \<noteq> Running \<and> ap_state a \<noteq> Starting"
  "Label ACCENT t \<in> set (hero_view a) \<longleftrightarrow> ap_state a = Running \<and> ap_addr a \<noteq> [] \<and> t = ap_addr a"
  "QrImage \<in> set (hero_view a) \<longleftrightarrow> ap_state a = Running \<and> ap_addr a \<noteq> [] \<and> ap_qr_texture a"
  by (auto simp: hero_view_def main_button_def address_view_def first_run_hint_def Let_def split: option.splits)

text \<open>An error of a field is shown next to it, and an accepted start clears it.\<close>

lemma field_errors:
  "ap_bind_error a = Some e \<Longrightarrow> Label ERROR_COLOR e \<in> set (connection_view a)"
  "ap_port_error a = Some e \<Longrightarrow> Label ERROR_COLOR e \<in> set (connection_view a)"
  by (simp_all add: connection_view_def error_label_def)

lemma start_clears_errors:
  "ap_state (start_server env a) = Running \<Longrightarrow> ap_state a \<noteq> Running \<Longrightarrow>
     ap_bind_error (start_server env a) = None \<and> ap_port_error (start_server env a) = None
     \<and> ap_start_error (start_server env a) = None"
  by (auto simp: start_server_def Let_def split: sum.splits option.splits prod.splits if_splits)

end
