(* ===== verification/BuildScript.thy ===== *)
theory BuildScript
  imports RustString
begin

text \<open>
  The build script \<open>crates/rylus-server/build.rs\<close>: which bundles it rebuilds, with which calls and which exit
  status.  A file system is a map from paths (below the workspace) to modification times; \<open>esbuild\<close> is a parameter.
\<close>

section \<open>The script\<close>

type_synonym mtimes = "string \<Rightarrow> nat option"

definition bundles :: "(string \<times> string) list" where
  "bundles = [(''ts/lib.ts'', ''www/static/lib.js''), (''ts/sw.ts'', ''www/static/sw.js''), (''ts/utils.ts'', ''/dev/null'')]"

text \<open>The files cargo is told to watch.\<close>

definition rerun_if_changed :: "string list" where
  "rerun_if_changed = concat (map (\<lambda>(ts, js). ts # (if js \<noteq> ''/dev/null'' then [js] else [])) bundles)"

text \<open>\<open>needs_update\<close>; a file without a modification time counts as changed, except \<open>utils.ts\<close>.\<close>

definition needs_update :: "mtimes \<Rightarrow> string \<Rightarrow> string \<Rightarrow> bool" where
  "needs_update f ts js = (case (f ts, f js) of
      (Some ts_mtime, Some js_mtime) \<Rightarrow>
        if ts_mtime > js_mtime then True
        else (case f ''ts/utils.ts'' of Some u \<Rightarrow> u > js_mtime | None \<Rightarrow> False)
    | _ \<Rightarrow> True)"

text \<open>\<open>esbuild ts js f\<close>: an error of starting it, or its exit code (\<open>None\<close> for a signal) and the files then.\<close>

definition exit_code_text :: "int option \<Rightarrow> string" where
  "exit_code_text code = (case code of None \<Rightarrow> ''signal''
     | Some c \<Rightarrow> (if c < 0 then ''-'' @ dec (nat (- c)) else dec (nat c)))"

datatype build_end = BuildDone | BuildExit nat string

fun build_run ::
  "(string \<Rightarrow> string \<Rightarrow> mtimes \<Rightarrow> (string + int option) \<times> mtimes) \<Rightarrow> (string \<times> string) list \<Rightarrow> mtimes
     \<Rightarrow> build_end \<times> mtimes \<times> (string \<times> string) list" where
  "build_run esbuild [] f = (BuildDone, f, [])"
| "build_run esbuild ((ts, js) # rest) f =
     (if js = ''/dev/null'' \<or> \<not> needs_update f ts js then build_run esbuild rest f
      else case esbuild ts js f of
        (Inl err, f) \<Rightarrow> (BuildExit 1 (''Failed to call esbuild: '' @ err), f, [(ts, js)])
      | (Inr code, f) \<Rightarrow>
          if code \<noteq> Some 0 then (BuildExit 2 (''esbuild failed with exit code: '' @ exit_code_text code), f, [(ts, js)])
          else (let (r, f, cs) = build_run esbuild rest f in (r, f, (ts, js) # cs)))"

definition build_main ::
  "(string \<Rightarrow> string \<Rightarrow> mtimes \<Rightarrow> (string + int option) \<times> mtimes) \<Rightarrow> mtimes \<Rightarrow> build_end \<times> mtimes \<times> (string \<times> string) list" where
  "build_main esbuild f = build_run esbuild bundles f"

section \<open>Facts\<close>

text \<open>What is relied on of \<open>esbuild\<close>: a successful call gives its output a time that no input exceeds and leaves
  all other files alone.\<close>

definition esbuild_law :: "(string \<Rightarrow> string \<Rightarrow> mtimes \<Rightarrow> (string + int option) \<times> mtimes) \<Rightarrow> bool" where
  "esbuild_law esbuild \<longleftrightarrow> (\<forall>ts js f f'. esbuild ts js f = (Inr (Some 0), f') \<longrightarrow>
     (\<exists>t. f' = f(js \<mapsto> t) \<and> (\<forall>p u. f p = Some u \<longrightarrow> u \<le> t)))"

lemma needs_update_other [simp]:
  "x \<noteq> ts \<Longrightarrow> x \<noteq> js \<Longrightarrow> x \<noteq> ''ts/utils.ts'' \<Longrightarrow> needs_update (f(x := t)) ts js = needs_update f ts js"
  by (simp add: needs_update_def split: option.split)

text \<open>A finished script leaves nothing to do: run again, it calls nothing.\<close>

lemma up_to_date_after:
  assumes "esbuild_law esbuild" "esbuild ts js f = (Inr (Some 0), f')" "f ts \<noteq> None"
    and "js \<noteq> ts" "js \<noteq> ''ts/utils.ts''"
  shows "\<not> needs_update f' ts js"
proof -
  obtain t where t: "f' = f(js \<mapsto> t)" "\<And>p u. f p = Some u \<Longrightarrow> u \<le> t"
    using assms(1,2) unfolding esbuild_law_def by meson
  then show ?thesis
    using assms(3-5) by (auto simp: needs_update_def split: option.splits) (force simp: not_less)+
qed

lemma build_again:
  assumes "esbuild_law esbuild" "build_main esbuild f = (BuildDone, f', cs)"
    and "f ''ts/lib.ts'' \<noteq> None" "f ''ts/sw.ts'' \<noteq> None"
  shows "build_main esbuild f' = (BuildDone, f', [])"
proof -
  let ?lib = "needs_update f ''ts/lib.ts'' ''www/static/lib.js''"
  obtain f1 where f1: "\<not> needs_update f1 ''ts/lib.ts'' ''www/static/lib.js''" "f1 ''ts/sw.ts'' = f ''ts/sw.ts''"
    "f1 = f \<or> (\<exists>t. f1 = f(''www/static/lib.js'' \<mapsto> t))"
    "build_run esbuild (tl bundles) f1 = (BuildDone, f', if ?lib then tl cs else cs)"
  proof (cases ?lib)
    case False
    then show ?thesis using that [of f] assms(2) by (simp add: build_main_def bundles_def)
  next
    case True
    then obtain f1 cs1 where e: "esbuild ''ts/lib.ts'' ''www/static/lib.js'' f = (Inr (Some 0), f1)"
      "build_run esbuild (tl bundles) f1 = (BuildDone, f', cs1)" "cs = (''ts/lib.ts'', ''www/static/lib.js'') # cs1"
      using assms(2) by (auto simp: build_main_def bundles_def split: prod.splits sum.splits if_splits)
    obtain t where "f1 = f(''www/static/lib.js'' \<mapsto> t)" using assms(1) e(1) unfolding esbuild_law_def by meson
    show ?thesis
    proof (rule that [of f1])
      show "\<not> needs_update f1 ''ts/lib.ts'' ''www/static/lib.js''"
        by (rule up_to_date_after [OF assms(1) e(1) assms(3)]) simp_all
    qed (use \<open>f1 = _\<close> True e(2,3) in auto)
  qed
  let ?sw = "needs_update f1 ''ts/sw.ts'' ''www/static/sw.js''"
  have "\<not> needs_update f' ''ts/sw.ts'' ''www/static/sw.js'' \<and> (f' = f1 \<or> (\<exists>t. f' = f1(''www/static/sw.js'' \<mapsto> t)))"
  proof (cases ?sw)
    case False
    then show ?thesis using f1(4) by (simp add: bundles_def)
  next
    case True
    then have e: "esbuild ''ts/sw.ts'' ''www/static/sw.js'' f1 = (Inr (Some 0), f')"
      using f1(4) by (auto simp: bundles_def split: prod.splits sum.splits if_splits)
    obtain t where "f' = f1(''www/static/sw.js'' \<mapsto> t)" using assms(1) e unfolding esbuild_law_def by meson
    moreover have "\<not> needs_update f' ''ts/sw.ts'' ''www/static/sw.js''"
      by (rule up_to_date_after [OF assms(1) e]) (use f1(2) assms(4) in simp_all)
    ultimately show ?thesis by blast
  qed
  moreover from this f1(1) have "\<not> needs_update f' ''ts/lib.ts'' ''www/static/lib.js''"
    by (auto simp del: fun_upd_apply)
  ultimately show ?thesis by (simp add: build_main_def bundles_def)
qed

text \<open>\<open>lib.ts\<close> imports \<open>webcodecs.ts\<close> as well; the script does not know it.\<close>

lemma webcodecs_ignored:
  "needs_update (f(''ts/webcodecs.ts'' := t)) ''ts/lib.ts'' ''www/static/lib.js'' = needs_update f ''ts/lib.ts'' ''www/static/lib.js''"
  "''ts/webcodecs.ts'' \<notin> set rerun_if_changed"
  by (simp_all add: rerun_if_changed_def bundles_def del: fun_upd_apply)

end
