(* ===== verification/Utf8.thy ===== *)
theory Utf8
  imports RustString
begin

text \<open>
  UTF-8 as Rust's \<open>String\<close> uses it: the bytes of a list of characters, and the characters of a
  string (\<open>str::chars\<close>), which give each other back.
\<close>

text \<open>The bytes of a character, and of a list of them.\<close>

fun utf8_char :: "nat \<Rightarrow> nat list" where
  "utf8_char c =
     (if c < 128 then [c]
      else if c < 2048 then [192 + c div 64, 128 + c mod 64]
      else if c < 65536 then [224 + c div 4096, 128 + c div 64 mod 64, 128 + c mod 64]
      else [240 + c div 262144, 128 + c div 4096 mod 64, 128 + c div 64 mod 64, 128 + c mod 64])"

declare utf8_char.simps [simp del]

definition utf8 :: "nat list \<Rightarrow> string" where
  "utf8 cs = map char_of (concat (map utf8_char cs))"

text \<open>Continuation bytes; overlong forms, surrogates and values above \<open>0x10FFFF\<close> are refused.\<close>

definition cont_byte :: "nat \<Rightarrow> bool" where
  "cont_byte b \<longleftrightarrow> 128 \<le> b \<and> b < 192"

definition is_scalar :: "nat \<Rightarrow> bool" where
  "is_scalar c \<longleftrightarrow> c < 55296 \<or> 57344 \<le> c \<and> c < 1114112"

fun conts :: "nat \<Rightarrow> nat \<Rightarrow> nat list \<Rightarrow> (nat \<times> nat list) option" where
  "conts 0 acc bs = Some (acc, bs)"
| "conts (Suc n) acc (b # bs) = (if cont_byte b then conts n (acc * 64 + (b - 128)) bs else None)"
| "conts (Suc n) acc [] = None"

definition scalar_from :: "nat \<Rightarrow> (nat \<times> nat list) option \<Rightarrow> (nat \<times> nat list) option" where
  "scalar_from least x = (case x of
      Some (c, r) \<Rightarrow> if least \<le> c \<and> is_scalar c then Some (c, r) else None
    | None \<Rightarrow> None)"

fun utf8_next :: "nat list \<Rightarrow> (nat \<times> nat list) option" where
  "utf8_next [] = None"
| "utf8_next (a # bs) =
     (if a < 128 then Some (a, bs)
      else if 192 \<le> a \<and> a < 224 then scalar_from 128 (conts 1 (a - 192) bs)
      else if 224 \<le> a \<and> a < 240 then scalar_from 2048 (conts 2 (a - 224) bs)
      else if 240 \<le> a \<and> a < 248 then scalar_from 65536 (conts 3 (a - 240) bs)
      else None)"

lemma conts_shorter: "conts n acc bs = Some (c, r) \<Longrightarrow> length r \<le> length bs"
  by (induction n acc bs rule: conts.induct) (auto split: if_splits)

lemma scalar_fromD: "scalar_from least x = Some y \<Longrightarrow> x = Some y"
  by (auto simp: scalar_from_def split: option.splits if_splits)

lemma utf8_next_shorter:
  assumes "utf8_next bs = Some (c, r)"
  shows "length r < length bs"
proof (cases bs)
  case (Cons a as)
  then have "r = as \<or> (\<exists>n acc. conts n acc as = Some (c, r))"
    using assms by (auto dest!: scalar_fromD split: if_splits)
  then show ?thesis using Cons conts_shorter by fastforce
qed (use assms in simp)

function utf8_chars :: "nat list \<Rightarrow> nat list option" where
  "utf8_chars bs = (if bs = [] then Some [] else
     case utf8_next bs of None \<Rightarrow> None
     | Some (c, r) \<Rightarrow> map_option ((#) c) (utf8_chars r))"
  by pat_completeness auto
termination
  by (relation "measure length") (auto dest: utf8_next_shorter)

declare utf8_chars.simps [simp del]

definition str_chars :: "string \<Rightarrow> nat list option" where
  "str_chars s = utf8_chars (map of_char s)"

lemma conts_1: "conts 1 a ((128 + x) # r) = (if x < 64 then Some (a * 64 + x, r) else None)"
  by (simp add: cont_byte_def)

lemma conts_2: "x < 64 \<Longrightarrow> y < 64 \<Longrightarrow>
    conts 2 a ((128 + x) # (128 + y) # r) = Some ((a * 64 + x) * 64 + y, r)"
  by (simp add: numeral_2_eq_2 cont_byte_def)

lemma conts_3: "x < 64 \<Longrightarrow> y < 64 \<Longrightarrow> z < 64 \<Longrightarrow>
    conts 3 a ((128 + x) # (128 + y) # (128 + z) # r) = Some (((a * 64 + x) * 64 + y) * 64 + z, r)"
  by (simp add: numeral_3_eq_3 cont_byte_def)

lemma div_digits:
  "(c :: nat) div 4096 * 64 + c div 64 mod 64 = c div 64"
  "(c :: nat) div 262144 * 64 + c div 4096 mod 64 = c div 4096"
proof -
  have "c div 4096 = c div 64 div 64" "c div 262144 = c div 4096 div 64"
    by (simp_all add: div_mult2_eq [symmetric])
  then show "c div 4096 * 64 + c div 64 mod 64 = c div 64"
    "c div 262144 * 64 + c div 4096 mod 64 = c div 4096" by simp_all
qed

lemma utf8_next_char:
  assumes "is_scalar c"
  shows "utf8_next (utf8_char c @ r) = Some (c, r)"
proof -
  have c: "c < 1114112" using assms by (auto simp: is_scalar_def)
  have m: "n mod 64 < (64 :: nat)" for n by simp
  consider "c < 128" | "128 \<le> c" "c < 2048" | "2048 \<le> c" "c < 65536" | "65536 \<le> c" by linarith
  then show ?thesis
  proof cases
    case 1
    then show ?thesis by (simp add: utf8_char.simps)
  next
    case 2
    then have "c div 64 < 32" by auto
    moreover have "conts 1 (c div 64) ((128 + c mod 64) # r) = Some (c, r)"
      unfolding conts_1 by simp
    ultimately show ?thesis using 2 assms
      by (simp add: utf8_char.simps scalar_from_def)
  next
    case 3
    then have "c div 4096 < 16" by auto
    moreover have "conts 2 (c div 4096) ((128 + c div 64 mod 64) # (128 + c mod 64) # r) = Some (c, r)"
      unfolding conts_2 [OF m m] by (simp add: div_digits)
    ultimately show ?thesis using 3 assms
      by (simp add: utf8_char.simps scalar_from_def)
  next
    case 4
    then have "c div 262144 < 8" using c by auto
    moreover have "conts 3 (c div 262144)
        ((128 + c div 4096 mod 64) # (128 + c div 64 mod 64) # (128 + c mod 64) # r) = Some (c, r)"
      unfolding conts_3 [OF m m m] by (simp add: div_digits)
    ultimately show ?thesis using 4 assms
      by (simp add: utf8_char.simps scalar_from_def)
  qed
qed

lemma utf8_char_not_Nil: "utf8_char c \<noteq> []"
  by (simp add: utf8_char.simps)

lemma utf8_char_bytes: "is_scalar c \<Longrightarrow> b \<in> set (utf8_char c) \<Longrightarrow> b < 256"
  by (auto simp: utf8_char.simps is_scalar_def split: if_splits)

lemma utf8_chars_utf8: "list_all is_scalar cs \<Longrightarrow> utf8_chars (concat (map utf8_char cs)) = Some cs"
proof (induction cs)
  case Nil
  then show ?case by (simp add: utf8_chars.simps)
next
  case (Cons c cs)
  then show ?case
    by (subst utf8_chars.simps) (simp add: utf8_next_char utf8_char_not_Nil)
qed

lemma str_chars_utf8: "list_all is_scalar cs \<Longrightarrow> str_chars (utf8 cs) = Some cs"
proof -
  assume a: "list_all is_scalar cs"
  have "map (of_char \<circ> char_of) bs = bs" if "\<forall>b \<in> set bs. b < 256" for bs :: "nat list"
    using that by (induction bs) (simp_all add: of_char_of)
  moreover have "\<forall>b \<in> set (concat (map utf8_char cs)). b < 256"
    using a utf8_char_bytes by (auto simp: list_all_iff)
  ultimately show ?thesis using a by (simp add: str_chars_def utf8_def utf8_chars_utf8)
qed

end
