(* ===== verification/Wire.thy ===== *)
theory Wire
  imports Protocol Utf8 "HOL-Library.Monad_Syntax"
begin

text \<open>
  The JSON form of the messages of \<open>crates/rylus-core/src/protocol.rs\<close>, as its types and attributes
  declare it: \<open>Serialize\<close> and \<open>Deserialize\<close> of every message over JSON values, with the renamed
  variants, the defaults and the conversions \<open>location_from\<close>, \<open>button_from\<close> and \<open>button_to\<close>.  A
  declared type is read by the documented rules of \<open>serde\<close>: an enum is tagged externally, a structure is
  an object whose unknown members are ignored and whose known ones occur at most once, or an array in the
  order of the fields.

  \<^item> Strings are their UTF-8 bytes; the key of a keyboard event is also split into its characters.
  \<^item> A decoder answers \<open>None\<close> for an error; which message the error carries is not modelled.
  \<^item> How a value is written as text (\<open>serde_json\<close>) is an argument of \<open>parse_inbound\<close> and \<open>write_outbound\<close>.
  \<^item> The platform is Linux, where \<open>ClientConfiguration\<close> has the field \<open>uinput_support\<close>.
\<close>

section \<open>Values\<close>

text \<open>A number without fraction and exponent that fits \<open>i64\<close> or \<open>u64\<close> is a \<open>JInt\<close>; every other one is a
  finite \<open>JFloat\<close>.  An object keeps the order and the duplicates of its members.\<close>

datatype json =
    JNull
  | JBool bool
  | JInt int
  | JFloat rat
  | JStr string
  | JArr "json list"
  | JObj "(string \<times> json) list"

section \<open>Reading the standard types\<close>

definition de_bool :: "json \<Rightarrow> bool option" where
  "de_bool v = (case v of JBool b \<Rightarrow> Some b | _ \<Rightarrow> None)"

definition de_int :: "int \<Rightarrow> int \<Rightarrow> json \<Rightarrow> int option" where
  "de_int lo hi v = (case v of JInt k \<Rightarrow> if lo \<le> k \<and> k \<le> hi then Some k else None | _ \<Rightarrow> None)"

definition de_nat :: "nat \<Rightarrow> json \<Rightarrow> nat option" where
  "de_nat hi v = map_option nat (de_int 0 (int hi) v)"

definition de_u8 :: "json \<Rightarrow> 8 word option" where
  "de_u8 v = map_option of_nat (de_nat 255 v)"

definition de_u32 :: "json \<Rightarrow> u32 option" where
  "de_u32 = de_nat 4294967295"

definition de_u64 :: "json \<Rightarrow> u64 option" where
  "de_u64 = de_nat 18446744073709551615"

definition de_i32 :: "json \<Rightarrow> int option" where
  "de_i32 = de_int (- 2147483648) 2147483647"

definition de_i64 :: "json \<Rightarrow> int option" where
  "de_i64 = de_int (- 9223372036854775808) 9223372036854775807"

definition de_f64 :: "json \<Rightarrow> f64 option" where
  "de_f64 v = (case v of JFloat r \<Rightarrow> Some (Fin r) | JInt k \<Rightarrow> Some (Fin (of_int k)) | _ \<Rightarrow> None)"

text \<open>\<open>f64 as f32\<close>: a value that rounds beyond the largest \<open>f32\<close> becomes infinite.\<close>

definition f32_limit :: rat where
  "f32_limit = 2 ^ 128 - 2 ^ 103"

definition f64_as_f32 :: "f64 \<Rightarrow> f64" where
  "f64_as_f32 x = (case x of
      Fin r \<Rightarrow> if f32_limit \<le> r then PInf else if r \<le> - f32_limit then NInf else Fin r
    | _ \<Rightarrow> x)"

definition de_f32 :: "json \<Rightarrow> f64 option" where
  "de_f32 v = map_option f64_as_f32 (de_f64 v)"

definition de_string :: "json \<Rightarrow> string option" where
  "de_string v = (case v of JStr s \<Rightarrow> Some s | _ \<Rightarrow> None)"

definition de_option :: "(json \<Rightarrow> 'a option) \<Rightarrow> json \<Rightarrow> 'a option option" where
  "de_option d v = (if v = JNull then Some None else map_option Some (d v))"

definition de_vec :: "(json \<Rightarrow> 'a option) \<Rightarrow> json \<Rightarrow> 'a list option" where
  "de_vec d v = (case v of JArr vs \<Rightarrow> those (map d vs) | _ \<Rightarrow> None)"

section \<open>Reading structures and enums\<close>

text \<open>A field is present, missing from an object, or beyond the end of an array.\<close>

datatype field = Present json | Missing | Short

definition known :: "string list \<Rightarrow> (string \<times> json) list \<Rightarrow> (string \<times> json) list" where
  "known ns kvs = filter (\<lambda>(k, _). k \<in> set ns) kvs"

definition fields_of :: "string list \<Rightarrow> json \<Rightarrow> (string \<Rightarrow> field) option" where
  "fields_of ns v = (case v of
      JObj kvs \<Rightarrow>
        let ks = known ns kvs
        in if distinct (map fst ks)
           then Some (\<lambda>n. case map_of ks n of Some x \<Rightarrow> Present x | None \<Rightarrow> Missing)
           else None
    | JArr vs \<Rightarrow>
        if length vs \<le> length ns
        then Some (\<lambda>n. case map_of (zip ns vs) n of Some x \<Rightarrow> Present x | None \<Rightarrow> Short)
        else None
    | _ \<Rightarrow> None)"

text \<open>A plain field, an \<open>Option\<close> field, which may be missing from an object, and an \<open>Option\<close> field with
  \<open>serde(default)\<close>.\<close>

definition field_req :: "(json \<Rightarrow> 'a option) \<Rightarrow> field \<Rightarrow> 'a option" where
  "field_req d m = (case m of Present v \<Rightarrow> d v | _ \<Rightarrow> None)"

definition field_opt :: "(json \<Rightarrow> 'a option) \<Rightarrow> field \<Rightarrow> 'a option option" where
  "field_opt d m = (case m of Present v \<Rightarrow> de_option d v | Missing \<Rightarrow> Some None | Short \<Rightarrow> None)"

definition field_default :: "(json \<Rightarrow> 'a option) \<Rightarrow> field \<Rightarrow> 'a option option" where
  "field_default d m = (case m of Present v \<Rightarrow> de_option d v | _ \<Rightarrow> Some None)"

text \<open>Externally tagged: the name alone, or an object with the name as its only key.\<close>

definition variant :: "json \<Rightarrow> (string \<times> json option) option" where
  "variant v = (case v of
      JStr s \<Rightarrow> Some (s, None)
    | JObj [(k, c)] \<Rightarrow> Some (k, Some c)
    | _ \<Rightarrow> None)"

definition unit_content :: "json option \<Rightarrow> bool" where
  "unit_content c \<longleftrightarrow> c = None \<or> c = Some JNull"

definition unit_variant :: "'a \<Rightarrow> json option \<Rightarrow> 'a option" where
  "unit_variant m c = (if unit_content c then Some m else None)"

definition newtype_variant :: "('b \<Rightarrow> 'a) \<Rightarrow> (json \<Rightarrow> 'b option) \<Rightarrow> json option \<Rightarrow> 'a option" where
  "newtype_variant f d c = (case c of Some v \<Rightarrow> map_option f (d v) | None \<Rightarrow> None)"

definition enum_from :: "('a \<Rightarrow> string) \<Rightarrow> 'a list \<Rightarrow> json \<Rightarrow> 'a option" where
  "enum_from name all v = (case variant v of
      Some (n, c) \<Rightarrow> if unit_content c then List.find (\<lambda>t. name t = n) all else None
    | None \<Rightarrow> None)"

section \<open>Enums\<close>

definition de_pointer_type :: "json \<Rightarrow> pointer_type option" where
  "de_pointer_type = enum_from pointer_type_name [PUnknown, Mouse, Pen, Touch]"

definition de_pointer_event_type :: "json \<Rightarrow> pointer_event_type option" where
  "de_pointer_event_type =
     enum_from pointer_event_type_name [DOWN, UP, CANCEL, MOVE, OVER, ENTER, LEAVE, OUT]"

definition de_keyboard_event_type :: "json \<Rightarrow> keyboard_event_type option" where
  "de_keyboard_event_type = enum_from keyboard_event_type_name [KDown, KUp, KRepeat]"

text \<open>\<open>KeyboardLocation\<close> has no renames and no conversion for writing.\<close>

fun keyboard_location_name :: "keyboard_location \<Rightarrow> string" where
  "keyboard_location_name STANDARD = ''STANDARD''"
| "keyboard_location_name LEFT = ''LEFT''"
| "keyboard_location_name RIGHT = ''RIGHT''"
| "keyboard_location_name NUMPAD = ''NUMPAD''"

text \<open>The conversions given by \<open>deserialize_with\<close>.\<close>

definition ok_of :: "'e + 'a \<Rightarrow> 'a option" where
  "ok_of x = (case x of Inr a \<Rightarrow> Some a | Inl _ \<Rightarrow> None)"

definition de_location :: "json \<Rightarrow> keyboard_location option" where
  "de_location v = Option.bind (de_u8 v) (\<lambda>c. ok_of (location_from c))"

definition de_button :: "json \<Rightarrow> button option" where
  "de_button v = Option.bind (de_u8 v) (\<lambda>c. ok_of (button_from c))"

definition de_key :: "json \<Rightarrow> nat list option" where
  "de_key v = Option.bind (de_string v) str_chars"

section \<open>Structures\<close>

definition de_hello :: "json \<Rightarrow> u32 option" where
  "de_hello v = do {
     f \<leftarrow> fields_of [''protocol_version''] v;
     field_req de_u32 (f ''protocol_version'')
   }"

definition de_buffer_health :: "json \<Rightarrow> f64 option" where
  "de_buffer_health v = do {
     f \<leftarrow> fields_of [''buffer_seconds''] v;
     field_req de_f64 (f ''buffer_seconds'')
   }"

definition de_client_rtt :: "json \<Rightarrow> u32 option" where
  "de_client_rtt v = do {
     f \<leftarrow> fields_of [''rtt_ms''] v;
     field_req de_u32 (f ''rtt_ms'')
   }"

definition client_configuration_fields :: "string list" where
  "client_configuration_fields = [''uinput_support'', ''capturable_id'', ''capture_cursor'', ''max_width'',
     ''max_height'', ''client_name'', ''frame_rate'']"

definition de_client_configuration :: "json \<Rightarrow> client_configuration option" where
  "de_client_configuration v = do {
     f \<leftarrow> fields_of client_configuration_fields v;
     uinput_support \<leftarrow> field_req de_bool (f ''uinput_support'');
     capturable_id \<leftarrow> field_req de_u64 (f ''capturable_id'');
     capture_cursor \<leftarrow> field_req de_bool (f ''capture_cursor'');
     max_width \<leftarrow> field_req de_u64 (f ''max_width'');
     max_height \<leftarrow> field_req de_u64 (f ''max_height'');
     client_name \<leftarrow> field_opt de_string (f ''client_name'');
     frame_rate \<leftarrow> field_req de_f64 (f ''frame_rate'');
     Some \<lparr>cc_uinput_support = uinput_support, cc_capturable_id = capturable_id,
       cc_capture_cursor = capture_cursor, cc_max_width = max_width, cc_max_height = max_height,
       cc_client_name = client_name, cc_frame_rate = frame_rate\<rparr>
   }"

definition keyboard_event_fields :: "string list" where
  "keyboard_event_fields = [''event_type'', ''code'', ''key'', ''location'', ''alt'', ''ctrl'', ''shift'',
     ''meta'']"

definition de_keyboard_event :: "json \<Rightarrow> keyboard_event option" where
  "de_keyboard_event v = do {
     f \<leftarrow> fields_of keyboard_event_fields v;
     event_type \<leftarrow> field_req de_keyboard_event_type (f ''event_type'');
     code \<leftarrow> field_req de_string (f ''code'');
     key \<leftarrow> field_req de_key (f ''key'');
     location \<leftarrow> field_req de_location (f ''location'');
     alt \<leftarrow> field_req de_bool (f ''alt'');
     ctrl \<leftarrow> field_req de_bool (f ''ctrl'');
     shift \<leftarrow> field_req de_bool (f ''shift'');
     meta \<leftarrow> field_req de_bool (f ''meta'');
     Some \<lparr>ke_event_type = event_type, ke_code = code, ke_key = key, ke_location = location,
       ke_alt = alt, ke_ctrl = ctrl, ke_shift = shift, ke_meta = meta\<rparr>
   }"

definition pointer_event_fields :: "string list" where
  "pointer_event_fields = [''event_type'', ''pointer_id'', ''timestamp'', ''is_primary'', ''pointer_type'',
     ''button'', ''buttons'', ''x'', ''y'', ''pressure'', ''tilt_x'', ''tilt_y'', ''twist'', ''width'',
     ''height'', ''altitude_angle'', ''azimuth_angle'']"

definition de_pointer_event :: "json \<Rightarrow> pointer_event option" where
  "de_pointer_event v = do {
     f \<leftarrow> fields_of pointer_event_fields v;
     event_type \<leftarrow> field_req de_pointer_event_type (f ''event_type'');
     pointer_id \<leftarrow> field_req de_i64 (f ''pointer_id'');
     timestamp \<leftarrow> field_req de_u64 (f ''timestamp'');
     is_primary \<leftarrow> field_req de_bool (f ''is_primary'');
     pointer_type \<leftarrow> field_req de_pointer_type (f ''pointer_type'');
     button \<leftarrow> field_req de_button (f ''button'');
     buttons \<leftarrow> field_req de_button (f ''buttons'');
     x \<leftarrow> field_req de_f64 (f ''x'');
     y \<leftarrow> field_req de_f64 (f ''y'');
     pressure \<leftarrow> field_req de_f64 (f ''pressure'');
     tilt_x \<leftarrow> field_req de_i32 (f ''tilt_x'');
     tilt_y \<leftarrow> field_req de_i32 (f ''tilt_y'');
     twist \<leftarrow> field_req de_i32 (f ''twist'');
     width \<leftarrow> field_req de_f64 (f ''width'');
     height \<leftarrow> field_req de_f64 (f ''height'');
     altitude_angle \<leftarrow> field_default de_f32 (f ''altitude_angle'');
     azimuth_angle \<leftarrow> field_default de_f32 (f ''azimuth_angle'');
     Some \<lparr>pe_event_type = event_type, pe_pointer_id = pointer_id, pe_timestamp = timestamp,
       pe_is_primary = is_primary, pe_pointer_type = pointer_type, pe_button = button,
       pe_buttons = buttons, pe_x = x, pe_y = y, pe_pressure = pressure, pe_tilt_x = tilt_x,
       pe_tilt_y = tilt_y, pe_twist = twist, pe_width = width, pe_height = height,
       pe_altitude_angle = altitude_angle, pe_azimuth_angle = azimuth_angle\<rparr>
   }"

definition de_wheel_event :: "json \<Rightarrow> wheel_event option" where
  "de_wheel_event v = do {
     f \<leftarrow> fields_of [''dx'', ''dy'', ''timestamp''] v;
     dx \<leftarrow> field_req de_i32 (f ''dx'');
     dy \<leftarrow> field_req de_i32 (f ''dy'');
     timestamp \<leftarrow> field_req de_u64 (f ''timestamp'');
     Some \<lparr>we_dx = dx, we_dy = dy, we_timestamp = timestamp\<rparr>
   }"

definition de_rect :: "json \<Rightarrow> rect option" where
  "de_rect v = do {
     f \<leftarrow> fields_of [''x'', ''y'', ''w'', ''h''] v;
     x \<leftarrow> field_req de_f64 (f ''x'');
     y \<leftarrow> field_req de_f64 (f ''y'');
     w \<leftarrow> field_req de_f64 (f ''w'');
     h \<leftarrow> field_req de_f64 (f ''h'');
     Some \<lparr>rx = x, ry = y, rw = w, rh = h\<rparr>
   }"

definition de_custom_input_areas :: "json \<Rightarrow> custom_input_areas option" where
  "de_custom_input_areas v = do {
     f \<leftarrow> fields_of [''mouse'', ''touch'', ''pen''] v;
     mouse \<leftarrow> field_opt de_rect (f ''mouse'');
     touch \<leftarrow> field_opt de_rect (f ''touch'');
     pen \<leftarrow> field_opt de_rect (f ''pen'');
     Some \<lparr>area_mouse = mouse, area_touch = touch, area_pen = pen\<rparr>
   }"

section \<open>Messages\<close>

definition inbound_of_variant :: "string \<Rightarrow> json option \<Rightarrow> message_inbound option" where
  "inbound_of_variant n c =
     (if n = ''Hello'' then newtype_variant InHello de_hello c
      else if n = ''PointerEvent'' then newtype_variant InPointerEvent de_pointer_event c
      else if n = ''batched_pointer_events'' then
        newtype_variant BatchedPointerEvents (de_vec de_pointer_event) c
      else if n = ''WheelEvent'' then newtype_variant InWheelEvent de_wheel_event c
      else if n = ''KeyboardEvent'' then newtype_variant InKeyboardEvent de_keyboard_event c
      else if n = ''GetCapturableList'' then unit_variant GetCapturableList c
      else if n = ''Config'' then newtype_variant Config de_client_configuration c
      else if n = ''PauseVideo'' then unit_variant PauseVideo c
      else if n = ''ResumeVideo'' then unit_variant ResumeVideo c
      else if n = ''RestartVideo'' then unit_variant RestartVideo c
      else if n = ''ChooseCustomInputAreas'' then unit_variant ChooseCustomInputAreas c
      else if n = ''BufferHealth'' then newtype_variant InBufferHealth de_buffer_health c
      else if n = ''Heartbeat'' then unit_variant Heartbeat c
      else if n = ''RequestKeyframe'' then unit_variant RequestKeyframe c
      else if n = ''ClientRtt'' then newtype_variant ClientRtt de_client_rtt c
      else None)"

definition inbound_of_json :: "json \<Rightarrow> message_inbound option" where
  "inbound_of_json v = Option.bind (variant v) (\<lambda>(n, c). inbound_of_variant n c)"

definition de_hello_nack :: "json \<Rightarrow> message_outbound option" where
  "de_hello_nack v = do {
     f \<leftarrow> fields_of [''server_version'', ''min_client_version'', ''reason''] v;
     server_version \<leftarrow> field_req de_u32 (f ''server_version'');
     min_client_version \<leftarrow> field_req de_u32 (f ''min_client_version'');
     reason \<leftarrow> field_req de_string (f ''reason'');
     Some (HelloNack server_version min_client_version reason)
   }"

definition de_video_init :: "json \<Rightarrow> string option" where
  "de_video_init v = do {
     f \<leftarrow> fields_of [''codec_string''] v;
     field_req de_string (f ''codec_string'')
   }"

definition de_heartbeat_ack :: "json \<Rightarrow> u64 option" where
  "de_heartbeat_ack v = do {
     f \<leftarrow> fields_of [''server_ts_ms''] v;
     field_req de_u64 (f ''server_ts_ms'')
   }"

definition outbound_of_variant :: "string \<Rightarrow> json option \<Rightarrow> message_outbound option" where
  "outbound_of_variant n c =
     (if n = ''Hello'' then newtype_variant OutHello de_hello c
      else if n = ''HelloNack'' then newtype_variant id de_hello_nack c
      else if n = ''CapturableList'' then newtype_variant CapturableList (de_vec de_string) c
      else if n = ''NewVideo'' then unit_variant NewVideo c
      else if n = ''VideoInit'' then newtype_variant VideoInit de_video_init c
      else if n = ''ConfigOk'' then unit_variant ConfigOk c
      else if n = ''CustomInputAreas'' then newtype_variant OutCustomInputAreas de_custom_input_areas c
      else if n = ''ConfigError'' then newtype_variant ConfigError de_string c
      else if n = ''Error'' then newtype_variant Error de_string c
      else if n = ''HeartbeatAck'' then newtype_variant HeartbeatAck de_heartbeat_ack c
      else None)"

definition outbound_of_json :: "json \<Rightarrow> message_outbound option" where
  "outbound_of_json v = Option.bind (variant v) (\<lambda>(n, c). outbound_of_variant n c)"

section \<open>Writing\<close>

text \<open>A float that is not finite is written as \<open>null\<close>, and so is \<open>None\<close>.\<close>

definition ser_f64 :: "f64 \<Rightarrow> json" where
  "ser_f64 x = (case x of Fin r \<Rightarrow> JFloat r | _ \<Rightarrow> JNull)"

definition ser_nat :: "nat \<Rightarrow> json" where
  "ser_nat n = JInt (int n)"

definition ser_option :: "('a \<Rightarrow> json) \<Rightarrow> 'a option \<Rightarrow> json" where
  "ser_option g x = (case x of Some a \<Rightarrow> g a | None \<Rightarrow> JNull)"

text \<open>\<open>serialize_with = "button_to"\<close>.\<close>

definition ser_button :: "button \<Rightarrow> json" where
  "ser_button b = ser_nat (unat (button_to b))"

definition ser_client_configuration :: "client_configuration \<Rightarrow> json" where
  "ser_client_configuration c = JObj [
     (''uinput_support'', JBool (cc_uinput_support c)),
     (''capturable_id'', ser_nat (cc_capturable_id c)),
     (''capture_cursor'', JBool (cc_capture_cursor c)),
     (''max_width'', ser_nat (cc_max_width c)),
     (''max_height'', ser_nat (cc_max_height c)),
     (''client_name'', ser_option JStr (cc_client_name c)),
     (''frame_rate'', ser_f64 (cc_frame_rate c))]"

definition ser_keyboard_event :: "keyboard_event \<Rightarrow> json" where
  "ser_keyboard_event e = JObj [
     (''event_type'', JStr (keyboard_event_type_name (ke_event_type e))),
     (''code'', JStr (ke_code e)),
     (''key'', JStr (utf8 (ke_key e))),
     (''location'', JStr (keyboard_location_name (ke_location e))),
     (''alt'', JBool (ke_alt e)),
     (''ctrl'', JBool (ke_ctrl e)),
     (''shift'', JBool (ke_shift e)),
     (''meta'', JBool (ke_meta e))]"

definition ser_pointer_event :: "pointer_event \<Rightarrow> json" where
  "ser_pointer_event e = JObj [
     (''event_type'', JStr (pointer_event_type_name (pe_event_type e))),
     (''pointer_id'', JInt (pe_pointer_id e)),
     (''timestamp'', ser_nat (pe_timestamp e)),
     (''is_primary'', JBool (pe_is_primary e)),
     (''pointer_type'', JStr (pointer_type_name (pe_pointer_type e))),
     (''button'', ser_button (pe_button e)),
     (''buttons'', ser_button (pe_buttons e)),
     (''x'', ser_f64 (pe_x e)),
     (''y'', ser_f64 (pe_y e)),
     (''pressure'', ser_f64 (pe_pressure e)),
     (''tilt_x'', JInt (pe_tilt_x e)),
     (''tilt_y'', JInt (pe_tilt_y e)),
     (''twist'', JInt (pe_twist e)),
     (''width'', ser_f64 (pe_width e)),
     (''height'', ser_f64 (pe_height e)),
     (''altitude_angle'', ser_option ser_f64 (pe_altitude_angle e)),
     (''azimuth_angle'', ser_option ser_f64 (pe_azimuth_angle e))]"

definition ser_wheel_event :: "wheel_event \<Rightarrow> json" where
  "ser_wheel_event e = JObj [(''dx'', JInt (we_dx e)), (''dy'', JInt (we_dy e)),
     (''timestamp'', ser_nat (we_timestamp e))]"

definition ser_rect :: "rect \<Rightarrow> json" where
  "ser_rect r = JObj [(''x'', ser_f64 (rx r)), (''y'', ser_f64 (ry r)), (''w'', ser_f64 (rw r)),
     (''h'', ser_f64 (rh r))]"

definition ser_custom_input_areas :: "custom_input_areas \<Rightarrow> json" where
  "ser_custom_input_areas a = JObj [(''mouse'', ser_option ser_rect (area_mouse a)),
     (''touch'', ser_option ser_rect (area_touch a)), (''pen'', ser_option ser_rect (area_pen a))]"

definition tagged :: "string \<Rightarrow> json \<Rightarrow> json" where
  "tagged n v = JObj [(n, v)]"

fun json_of_inbound :: "message_inbound \<Rightarrow> json" where
  "json_of_inbound (InHello v) = tagged ''Hello'' (JObj [(''protocol_version'', ser_nat v)])"
| "json_of_inbound (InPointerEvent e) = tagged ''PointerEvent'' (ser_pointer_event e)"
| "json_of_inbound (BatchedPointerEvents es) =
     tagged ''batched_pointer_events'' (JArr (map ser_pointer_event es))"
| "json_of_inbound (InWheelEvent e) = tagged ''WheelEvent'' (ser_wheel_event e)"
| "json_of_inbound (InKeyboardEvent e) = tagged ''KeyboardEvent'' (ser_keyboard_event e)"
| "json_of_inbound GetCapturableList = JStr ''GetCapturableList''"
| "json_of_inbound (Config c) = tagged ''Config'' (ser_client_configuration c)"
| "json_of_inbound PauseVideo = JStr ''PauseVideo''"
| "json_of_inbound ResumeVideo = JStr ''ResumeVideo''"
| "json_of_inbound RestartVideo = JStr ''RestartVideo''"
| "json_of_inbound ChooseCustomInputAreas = JStr ''ChooseCustomInputAreas''"
| "json_of_inbound (InBufferHealth s) = tagged ''BufferHealth'' (JObj [(''buffer_seconds'', ser_f64 s)])"
| "json_of_inbound Heartbeat = JStr ''Heartbeat''"
| "json_of_inbound RequestKeyframe = JStr ''RequestKeyframe''"
| "json_of_inbound (ClientRtt n) = tagged ''ClientRtt'' (JObj [(''rtt_ms'', ser_nat n)])"

fun json_of_outbound :: "message_outbound \<Rightarrow> json" where
  "json_of_outbound (OutHello v) = tagged ''Hello'' (JObj [(''protocol_version'', ser_nat v)])"
| "json_of_outbound (HelloNack v m r) = tagged ''HelloNack''
     (JObj [(''server_version'', ser_nat v), (''min_client_version'', ser_nat m), (''reason'', JStr r)])"
| "json_of_outbound (CapturableList ns) = tagged ''CapturableList'' (JArr (map JStr ns))"
| "json_of_outbound NewVideo = JStr ''NewVideo''"
| "json_of_outbound (VideoInit c) = tagged ''VideoInit'' (JObj [(''codec_string'', JStr c)])"
| "json_of_outbound ConfigOk = JStr ''ConfigOk''"
| "json_of_outbound (OutCustomInputAreas a) = tagged ''CustomInputAreas'' (ser_custom_input_areas a)"
| "json_of_outbound (ConfigError e) = tagged ''ConfigError'' (JStr e)"
| "json_of_outbound (Error e) = tagged ''Error'' (JStr e)"
| "json_of_outbound (HeartbeatAck t) = tagged ''HeartbeatAck'' (JObj [(''server_ts_ms'', ser_nat t)])"

text \<open>\<open>serde_json::from_str\<close> and \<open>to_string\<close>, over the text of a value.\<close>

definition parse_inbound :: "('t \<Rightarrow> json option) \<Rightarrow> 't \<Rightarrow> message_inbound option" where
  "parse_inbound text_value t = Option.bind (text_value t) inbound_of_json"

definition write_outbound :: "(json \<Rightarrow> 't) \<Rightarrow> message_outbound \<Rightarrow> 't option" where
  "write_outbound value_text m = Some (value_text (json_of_outbound m))"

end
