(* ===== verification/WireFacts.thy ===== *)
theory WireFacts
  imports Wire "HOL-Library.Multiset"
begin

text \<open>
  Facts about the JSON form of the messages: what a decoder accepts lies in the range of its type; what is
  written is read back, except for keyboard events, whose location is written as a name and read as a
  number; members that no field names, and the order of members, do not matter.
\<close>

section \<open>Messages in range\<close>

text \<open>The values of the declared types: integers within their widths, declared buttons only, characters that
  are Unicode scalars; the 64-bit floats are finite, since JSON has no other numbers, and a 32-bit float, which
  is converted from one, is a number.\<close>

definition u32_ok :: "nat \<Rightarrow> bool" where
  "u32_ok n \<longleftrightarrow> n \<le> 4294967295"

definition u64_ok :: "nat \<Rightarrow> bool" where
  "u64_ok n \<longleftrightarrow> n \<le> 18446744073709551615"

definition i32_ok :: "int \<Rightarrow> bool" where
  "i32_ok k \<longleftrightarrow> - 2147483648 \<le> k \<and> k \<le> 2147483647"

definition i64_ok :: "int \<Rightarrow> bool" where
  "i64_ok k \<longleftrightarrow> - 9223372036854775808 \<le> k \<and> k \<le> 9223372036854775807"

definition button_ok :: "button \<Rightarrow> bool" where
  "button_ok b \<longleftrightarrow> unat b < 64"

definition f32_ok :: "f64 \<Rightarrow> bool" where
  "f32_ok x \<longleftrightarrow> x \<noteq> NaN \<and> f64_as_f32 x = x"

definition pointer_event_ok :: "pointer_event \<Rightarrow> bool" where
  "pointer_event_ok e \<longleftrightarrow> i64_ok (pe_pointer_id e) \<and> u64_ok (pe_timestamp e) \<and> button_ok (pe_button e)
     \<and> button_ok (pe_buttons e) \<and> is_finite (pe_x e) \<and> is_finite (pe_y e) \<and> is_finite (pe_pressure e)
     \<and> i32_ok (pe_tilt_x e) \<and> i32_ok (pe_tilt_y e) \<and> i32_ok (pe_twist e) \<and> is_finite (pe_width e)
     \<and> is_finite (pe_height e) \<and> pred_option f32_ok (pe_altitude_angle e)
     \<and> pred_option f32_ok (pe_azimuth_angle e)"

definition wheel_event_ok :: "wheel_event \<Rightarrow> bool" where
  "wheel_event_ok e \<longleftrightarrow> i32_ok (we_dx e) \<and> i32_ok (we_dy e) \<and> u64_ok (we_timestamp e)"

definition client_configuration_ok :: "client_configuration \<Rightarrow> bool" where
  "client_configuration_ok c \<longleftrightarrow> u64_ok (cc_capturable_id c) \<and> u64_ok (cc_max_width c)
     \<and> u64_ok (cc_max_height c) \<and> is_finite (cc_frame_rate c)"

fun inbound_ok :: "message_inbound \<Rightarrow> bool" where
  "inbound_ok (InHello v) \<longleftrightarrow> u32_ok v"
| "inbound_ok (InPointerEvent e) \<longleftrightarrow> pointer_event_ok e"
| "inbound_ok (BatchedPointerEvents es) \<longleftrightarrow> list_all pointer_event_ok es"
| "inbound_ok (InWheelEvent e) \<longleftrightarrow> wheel_event_ok e"
| "inbound_ok (InKeyboardEvent e) \<longleftrightarrow> list_all is_scalar (ke_key e)"
| "inbound_ok (Config c) \<longleftrightarrow> client_configuration_ok c"
| "inbound_ok (InBufferHealth s) \<longleftrightarrow> is_finite s"
| "inbound_ok (ClientRtt n) \<longleftrightarrow> u32_ok n"
| "inbound_ok _ \<longleftrightarrow> True"

definition rect_ok :: "rect \<Rightarrow> bool" where
  "rect_ok r \<longleftrightarrow> is_finite (rx r) \<and> is_finite (ry r) \<and> is_finite (rw r) \<and> is_finite (rh r)"

fun outbound_ok :: "message_outbound \<Rightarrow> bool" where
  "outbound_ok (OutHello v) \<longleftrightarrow> u32_ok v"
| "outbound_ok (HelloNack v m r) \<longleftrightarrow> u32_ok v \<and> u32_ok m"
| "outbound_ok (OutCustomInputAreas a) \<longleftrightarrow> pred_option rect_ok (area_mouse a)
     \<and> pred_option rect_ok (area_touch a) \<and> pred_option rect_ok (area_pen a)"
| "outbound_ok (HeartbeatAck t) \<longleftrightarrow> u64_ok t"
| "outbound_ok _ \<longleftrightarrow> True"

lemmas range_defs = u32_ok_def u64_ok_def i32_ok_def i64_ok_def

section \<open>Decoded values are in range\<close>

lemma de_u32_ok: "de_u32 v = Some n \<Longrightarrow> u32_ok n"
  by (auto simp: de_u32_def de_nat_def de_int_def u32_ok_def split: json.splits if_splits)

lemma de_u64_ok: "de_u64 v = Some n \<Longrightarrow> u64_ok n"
  by (auto simp: de_u64_def de_nat_def de_int_def u64_ok_def split: json.splits if_splits)

lemma de_i32_ok: "de_i32 v = Some k \<Longrightarrow> i32_ok k"
  by (auto simp: de_i32_def de_int_def i32_ok_def split: json.splits if_splits)

lemma de_i64_ok: "de_i64 v = Some k \<Longrightarrow> i64_ok k"
  by (auto simp: de_i64_def de_int_def i64_ok_def split: json.splits if_splits)

lemma de_f64_ok: "de_f64 v = Some x \<Longrightarrow> is_finite x"
  by (auto simp: de_f64_def is_finite_def split: json.splits)

lemma de_f32_ok: "de_f32 v = Some x \<Longrightarrow> f32_ok x"
  by (auto simp: de_f32_def de_f64_def f32_ok_def f64_as_f32_def f32_limit_def
      split: json.splits if_splits f64.splits)

lemma de_button_ok: "de_button v = Some b \<Longrightarrow> button_ok b"
  by (auto simp: de_button_def button_from_def ok_of_def button_ok_def button_from_bits_iff
      bind_eq_Some_conv split: sum.splits option.splits)

lemma utf8_next_scalar: "utf8_next bs = Some (c, r) \<Longrightarrow> is_scalar c"
  by (cases bs) (auto simp: scalar_from_def is_scalar_def split: if_splits option.splits)

lemma utf8_chars_scalar: "utf8_chars bs = Some cs \<Longrightarrow> list_all is_scalar cs"
proof (induction bs arbitrary: cs rule: utf8_chars.induct)
  case (1 bs)
  have "cs = [] \<or> (\<exists>c r cs'. bs \<noteq> [] \<and> utf8_next bs = Some (c, r) \<and> utf8_chars r = Some cs' \<and> cs = c # cs')"
    using 1(2) utf8_chars.simps [of bs] by (auto split: if_splits option.splits)
  then show ?case using 1(1) by (auto dest: utf8_next_scalar)
qed

lemma de_key_ok: "de_key v = Some cs \<Longrightarrow> list_all is_scalar cs"
  by (auto simp: de_key_def str_chars_def bind_eq_Some_conv dest: utf8_chars_scalar)

text \<open>A property of what a type's decoder accepts passes to the fields of that type.\<close>

lemma field_reqD: "field_req d m = Some a \<Longrightarrow> (\<And>v. d v = Some a \<Longrightarrow> P a) \<Longrightarrow> P a"
  by (auto simp: field_req_def split: field.splits)

lemma field_defaultD:
  "field_default d m = Some a \<Longrightarrow> (\<And>v b. d v = Some b \<Longrightarrow> P b) \<Longrightarrow> pred_option P a"
  by (auto simp: field_default_def de_option_def split: field.splits if_splits)

lemma field_optD:
  "field_opt d m = Some a \<Longrightarrow> (\<And>v b. d v = Some b \<Longrightarrow> P b) \<Longrightarrow> pred_option P a"
  by (auto simp: field_opt_def de_option_def split: field.splits if_splits)

lemmas field_ok = field_reqD [of de_u32, OF _ de_u32_ok] field_reqD [of de_u64, OF _ de_u64_ok]
  field_reqD [of de_i32, OF _ de_i32_ok] field_reqD [of de_i64, OF _ de_i64_ok]
  field_reqD [of de_f64, OF _ de_f64_ok] field_reqD [of de_button, OF _ de_button_ok]
  field_reqD [of de_key, OF _ de_key_ok] field_defaultD [of de_f32, OF _ de_f32_ok]

lemma de_pointer_event_ok: "de_pointer_event v = Some e \<Longrightarrow> pointer_event_ok e"
  by (auto simp: de_pointer_event_def pointer_event_ok_def bind_eq_Some_conv intro: field_ok)

lemma de_wheel_event_ok: "de_wheel_event v = Some e \<Longrightarrow> wheel_event_ok e"
  by (auto simp: de_wheel_event_def wheel_event_ok_def bind_eq_Some_conv intro: field_ok)

lemma de_keyboard_event_ok: "de_keyboard_event v = Some e \<Longrightarrow> list_all is_scalar (ke_key e)"
  by (auto simp: de_keyboard_event_def bind_eq_Some_conv intro: field_ok)

lemma de_client_configuration_ok: "de_client_configuration v = Some c \<Longrightarrow> client_configuration_ok c"
  by (auto simp: de_client_configuration_def client_configuration_ok_def bind_eq_Some_conv
      intro: field_ok)

lemma de_vec_ok:
  assumes "de_vec d v = Some xs" "\<And>v x. d v = Some x \<Longrightarrow> P x"
  shows "list_all P xs"
proof -
  have "list_all P xs" if "those (map d vs) = Some xs" for vs
    using that assms(2) by (induction vs arbitrary: xs) (auto split: option.splits)
  then show ?thesis using assms(1) by (auto simp: de_vec_def split: json.splits)
qed

lemma newtype_variantD:
  "newtype_variant f d c = Some m \<Longrightarrow> \<exists>v a. d v = Some a \<and> m = f a"
  by (auto simp: newtype_variant_def split: option.splits)

lemma unit_variantD: "unit_variant m c = Some m' \<Longrightarrow> m' = m"
  by (simp add: unit_variant_def split: if_splits)

lemma inbound_in_range: "inbound_of_json v = Some m \<Longrightarrow> inbound_ok m"
proof -
  assume "inbound_of_json v = Some m"
  then obtain n c where "inbound_of_variant n c = Some m"
    by (auto simp: inbound_of_json_def bind_eq_Some_conv)
  then show ?thesis
    by (auto simp: inbound_of_variant_def de_hello_def de_buffer_health_def de_client_rtt_def
        bind_eq_Some_conv split: if_splits dest!: newtype_variantD unit_variantD
        intro: de_pointer_event_ok de_wheel_event_ok de_keyboard_event_ok de_client_configuration_ok
          de_vec_ok [OF _ de_pointer_event_ok] field_ok)
qed

section \<open>What is written is read back\<close>

lemma de_nat_ser: "n \<le> hi \<Longrightarrow> de_nat hi (ser_nat n) = Some n"
  by (simp add: de_nat_def de_int_def ser_nat_def)

lemma de_f64_ser: "is_finite x \<Longrightarrow> de_f64 (ser_f64 x) = Some x"
  by (cases x) (simp_all add: is_finite_def de_f64_def ser_f64_def)

lemma de_button_ser: "button_ok b \<Longrightarrow> de_button (ser_button b) = Some b"
  by (simp add: de_button_def ser_button_def de_u8_def de_nat_ser button_ok_def button_from_def
      ok_of_def button_to_def button_from_bits_iff [THEN iffD2])

lemma de_key_ser: "list_all is_scalar cs \<Longrightarrow> de_key (JStr (utf8 cs)) = Some cs"
  by (simp add: de_key_def de_string_def str_chars_utf8)

lemma de_pointer_type_ser: "de_pointer_type (JStr (pointer_type_name t)) = Some t"
  by (cases t) (simp_all add: de_pointer_type_def enum_from_def variant_def unit_content_def)

lemma de_pointer_event_type_ser: "de_pointer_event_type (JStr (pointer_event_type_name t)) = Some t"
  by (cases t) (simp_all add: de_pointer_event_type_def enum_from_def variant_def unit_content_def)

lemma de_keyboard_event_type_ser: "de_keyboard_event_type (JStr (keyboard_event_type_name t)) = Some t"
  by (cases t) (simp_all add: de_keyboard_event_type_def enum_from_def variant_def unit_content_def)

lemma de_location_ser: "n \<le> 3 \<Longrightarrow> de_location (ser_nat n) = Some ([STANDARD, LEFT, RIGHT, NUMPAD] ! n)"
  by (auto simp: de_location_def de_u8_def de_nat_ser location_from_def ok_of_def
      le_Suc_eq numeral_3_eq_3)

lemma de_location_name: "de_location (JStr s) = None"
  by (simp add: de_location_def de_u8_def de_nat_def de_int_def)

text \<open>The angles of an event are finite; an infinite one would be written as \<open>null\<close>.\<close>

definition angles_finite :: "pointer_event \<Rightarrow> bool" where
  "angles_finite e \<longleftrightarrow> pred_option is_finite (pe_altitude_angle e) \<and> pred_option is_finite (pe_azimuth_angle e)"

text \<open>An option whose content is never written as \<open>null\<close>.\<close>

lemma de_option_ser:
  "pred_option (\<lambda>a. d (g a) = Some a \<and> g a \<noteq> JNull) x \<Longrightarrow> de_option d (ser_option g x) = Some x"
  by (cases x) (simp_all add: de_option_def ser_option_def)

lemma de_option_f32:
  "pred_option f32_ok x \<Longrightarrow> pred_option is_finite x \<Longrightarrow> de_option de_f32 (ser_option ser_f64 x) = Some x"
  by (rule de_option_ser, cases x)
     (auto simp: de_f32_def de_f64_def ser_f64_def is_finite_def f32_ok_def split: f64.split)

lemma de_option_string: "de_option de_string (ser_option JStr x) = Some x"
  by (rule de_option_ser, cases x) (auto simp: de_string_def)

text \<open>An object with exactly the declared fields.\<close>

lemma fields_of_object:
  "distinct (map fst kvs) \<Longrightarrow> list_all (\<lambda>(k, _). k \<in> set ns) kvs \<Longrightarrow> fields_of ns (JObj kvs)
     = Some (\<lambda>n. case map_of kvs n of Some x \<Rightarrow> Present x | None \<Rightarrow> Missing)"
  by (simp add: fields_of_def known_def filter_id_conv [THEN iffD2] list_all_iff)

lemmas present = field_req_def field_opt_def field_default_def
lemmas field_names = pointer_event_fields_def keyboard_event_fields_def client_configuration_fields_def

lemmas de_ser = de_nat_ser de_f64_ser de_button_ser de_pointer_type_ser de_pointer_event_type_ser
  de_keyboard_event_type_ser de_key_ser de_option_f32 de_option_string

lemma de_int_range: "lo \<le> k \<and> k \<le> hi \<Longrightarrow> de_int lo hi (JInt k) = Some k"
  by (simp add: de_int_def)

lemmas de_ints = de_u32_def de_u64_def de_i32_def de_i64_def de_int_range

lemma de_pointer_event_ser:
  "pointer_event_ok e \<and> angles_finite e \<Longrightarrow> de_pointer_event (ser_pointer_event e) = Some e"
  by (simp add: angles_finite_def de_pointer_event_def ser_pointer_event_def fields_of_object field_names present de_ser de_ints
      pointer_event_ok_def range_defs de_bool_def)

lemma de_wheel_event_ser: "wheel_event_ok e \<Longrightarrow> de_wheel_event (ser_wheel_event e) = Some e"
  by (simp add: de_wheel_event_def ser_wheel_event_def fields_of_object present de_ser de_ints
      wheel_event_ok_def range_defs)

lemma de_client_configuration_ser:
  "client_configuration_ok c \<Longrightarrow> de_client_configuration (ser_client_configuration c) = Some c"
  by (simp add: de_client_configuration_def ser_client_configuration_def fields_of_object field_names present
      de_ser de_ints client_configuration_ok_def range_defs de_bool_def)

lemma de_rect_ser: "rect_ok r \<Longrightarrow> de_rect (ser_rect r) = Some r"
  by (simp add: de_rect_def ser_rect_def fields_of_object present de_ser rect_ok_def)

lemma de_option_rect: "pred_option rect_ok x \<Longrightarrow> de_option de_rect (ser_option ser_rect x) = Some x"
  by (rule de_option_ser, cases x) (auto simp: de_rect_ser, simp add: ser_rect_def)

text \<open>A keyboard event as it is written is not read: its location is a name where a number is expected.\<close>

lemma de_keyboard_event_ser: "de_keyboard_event (ser_keyboard_event e) = None"
  by (auto simp: de_keyboard_event_def ser_keyboard_event_def fields_of_object field_names present
      de_location_name bind_eq_None_conv)

lemma de_vec_ser:
  assumes "\<And>x. P x \<Longrightarrow> d (g x) = Some x" "list_all P xs"
  shows "de_vec d (JArr (map g xs)) = Some xs"
  using assms(2) by (induction xs) (simp_all add: de_vec_def assms(1))

lemma de_vec_strings: "de_vec de_string (JArr (map JStr xs)) = Some xs"
  by (rule de_vec_ser [of "\<lambda>_. True"]) (simp_all add: de_string_def list_all_iff)

definition is_keyboard_event :: "message_inbound \<Rightarrow> bool" where
  "is_keyboard_event m \<longleftrightarrow> (case m of InKeyboardEvent _ \<Rightarrow> True | _ \<Rightarrow> False)"

definition events_in :: "message_inbound \<Rightarrow> pointer_event list" where
  "events_in m = (case m of InPointerEvent e \<Rightarrow> [e] | BatchedPointerEvents es \<Rightarrow> es | _ \<Rightarrow> [])"

definition finite_angles :: "message_inbound \<Rightarrow> bool" where
  "finite_angles m \<longleftrightarrow> list_all angles_finite (events_in m)"

lemmas variant_simps = variant_def tagged_def newtype_variant_def unit_variant_def unit_content_def

lemma list_all_conj: "list_all (\<lambda>x. P x \<and> Q x) xs \<longleftrightarrow> list_all P xs \<and> list_all Q xs"
  by (auto simp: list_all_iff)

lemma inbound_roundtrip:
  "inbound_ok m \<Longrightarrow> finite_angles m \<Longrightarrow>
     inbound_of_json (json_of_inbound m) = (if is_keyboard_event m then None else Some m)"
  by (cases m)
     (simp_all add: inbound_of_json_def inbound_of_variant_def variant_simps is_keyboard_event_def
      finite_angles_def events_in_def de_hello_def de_buffer_health_def de_client_rtt_def fields_of_object present de_ser de_ints
      range_defs de_pointer_event_ser de_wheel_event_ser de_client_configuration_ser
      de_keyboard_event_ser list_all_conj
      de_vec_ser [of "\<lambda>e. pointer_event_ok e \<and> angles_finite e", OF de_pointer_event_ser])

lemma outbound_roundtrip: "outbound_ok m \<Longrightarrow> outbound_of_json (json_of_outbound m) = Some m"
  by (cases m)
     (simp_all add: outbound_of_json_def outbound_of_variant_def variant_simps de_hello_def
      de_hello_nack_def de_video_init_def de_heartbeat_ack_def de_custom_input_areas_def
      ser_custom_input_areas_def fields_of_object present de_ser de_ints range_defs de_option_rect
      de_string_def de_vec_strings)

section \<open>Order and unknown members\<close>

text \<open>Only the members with a declared name count, in any order.\<close>

lemma fields_of_cong:
  assumes "mset (known ns kvs) = mset (known ns kvs')"
  shows "fields_of ns (JObj kvs) = fields_of ns (JObj kvs')"
proof -
  let ?a = "known ns kvs" and ?b = "known ns kvs'"
  have d: "distinct (map fst ?a) \<longleftrightarrow> distinct (map fst ?b)"
    using assms by (metis mset_eq_imp_distinct_iff mset_map)
  have "set ?a = set ?b" using assms by (rule mset_eq_setD)
  then have "distinct (map fst ?a) \<Longrightarrow> map_of ?a = map_of ?b"
    using d by (simp add: map_of_inject_set)
  then show ?thesis using d by (simp add: fields_of_def Let_def)
qed

lemma pointer_event_cong: "mset (known pointer_event_fields kvs) = mset (known pointer_event_fields kvs')
    \<Longrightarrow> de_pointer_event (JObj kvs) = de_pointer_event (JObj kvs')"
  unfolding de_pointer_event_def by (drule fields_of_cong) (simp only:)

lemma keyboard_event_cong: "mset (known keyboard_event_fields kvs) = mset (known keyboard_event_fields kvs')
    \<Longrightarrow> de_keyboard_event (JObj kvs) = de_keyboard_event (JObj kvs')"
  unfolding de_keyboard_event_def by (drule fields_of_cong) (simp only:)

lemma client_configuration_cong:
  "mset (known client_configuration_fields kvs) = mset (known client_configuration_fields kvs')
    \<Longrightarrow> de_client_configuration (JObj kvs) = de_client_configuration (JObj kvs')"
  unfolding de_client_configuration_def by (drule fields_of_cong) (simp only:)

text \<open>A batch is read as a whole: one event with an undeclared button, or a coordinate that is not finite and
  so was sent as \<open>null\<close>, and none of the batch is delivered.\<close>

lemma batch_rejected:
  assumes "de_pointer_event v = None" "v \<in> set vs"
  shows "inbound_of_json (tagged ''batched_pointer_events'' (JArr vs)) = None"
proof -
  have "those (map de_pointer_event vs) = None"
    using assms(2) by (induction vs) (auto simp: assms(1) split: option.split)
  then show ?thesis
    by (simp add: inbound_of_json_def inbound_of_variant_def variant_simps de_vec_def)
qed

lemma null_coordinate_rejected:
  assumes "fields_of pointer_event_fields v = Some f" "f ''x'' = Present JNull"
  shows "de_pointer_event v = None"
  using assms by (simp add: de_pointer_event_def field_req_def de_f64_def bind_eq_None_conv)

text \<open>What a browser sends: the location as a number, no angles, a name only if there is one.\<close>

lemma browser_key:
  "n \<le> 3 \<Longrightarrow> list_all is_scalar key \<Longrightarrow> de_keyboard_event (JObj
     [(''event_type'', JStr (keyboard_event_type_name t)), (''code'', JStr code), (''key'', JStr (utf8 key)),
      (''location'', ser_nat n), (''alt'', JBool a), (''ctrl'', JBool c), (''shift'', JBool s), (''meta'', JBool m)])
   = Some \<lparr>ke_event_type = t, ke_code = code, ke_key = key, ke_location = [STANDARD, LEFT, RIGHT, NUMPAD] ! n,
       ke_alt = a, ke_ctrl = c, ke_shift = s, ke_meta = m\<rparr>"
  by (simp add: de_keyboard_event_def fields_of_object field_names present de_ser de_location_ser
      de_string_def de_bool_def)

end
