(* ===== verification/WireTests.thy ===== *)
theory WireTests
  imports WireFacts
begin

text \<open>
  The unit tests of \<open>crates/rylus-core/src/protocol.rs\<close> over the model of its messages: one definition per
  test, named after it, and the fact that the model passes them.  Left out are the tests whose input is not
  JSON, which compare a derived equality, or which read the documentation.
\<close>

text \<open>The derived \<open>Default\<close>.\<close>

definition custom_input_areas_default :: custom_input_areas where
  "custom_input_areas_default = \<lparr>area_mouse = None, area_touch = None, area_pen = None\<rparr>"

text \<open>The documents the tests spell out: pointer and keyboard events, in the order of their members.\<close>

definition test_event :: "string \<Rightarrow> int \<Rightarrow> int \<Rightarrow> bool \<Rightarrow> string \<Rightarrow> int \<Rightarrow> int \<Rightarrow> rat list
    \<Rightarrow> int \<Rightarrow> int \<Rightarrow> int \<Rightarrow> json" where
  "test_event et pid ts primary pt button buttons fs tilt_x tilt_y twist = (case fs of
      [x, y, pressure, width, height] \<Rightarrow> JObj [
        (''event_type'', JStr et), (''pointer_id'', JInt pid), (''timestamp'', JInt ts),
        (''is_primary'', JBool primary), (''pointer_type'', JStr pt), (''button'', JInt button),
        (''buttons'', JInt buttons), (''x'', JFloat x), (''y'', JFloat y), (''pressure'', JFloat pressure),
        (''tilt_x'', JInt tilt_x), (''tilt_y'', JInt tilt_y), (''twist'', JInt twist),
        (''width'', JFloat width), (''height'', JFloat height)]
    | _ \<Rightarrow> JNull)"

definition test_key :: "string \<Rightarrow> string \<Rightarrow> int \<Rightarrow> bool \<Rightarrow> json" where
  "test_key code key location ctrl = JObj [
     (''event_type'', JStr ''down''), (''code'', JStr code), (''key'', JStr key), (''location'', JInt location),
     (''alt'', JBool False), (''ctrl'', JBool ctrl), (''shift'', JBool False), (''meta'', JBool False)]"

definition add_members :: "(string \<times> json) list \<Rightarrow> json \<Rightarrow> json" where
  "add_members xs v = (case v of JObj kvs \<Rightarrow> JObj (kvs @ xs) | _ \<Rightarrow> v)"

definition test_hello_roundtrip :: bool where
  "test_hello_roundtrip \<longleftrightarrow>
     de_hello (JObj [(''protocol_version'', ser_nat PROTOCOL_VERSION)]) = Some PROTOCOL_VERSION"

definition test_message_inbound_hello_roundtrip :: bool where
  "test_message_inbound_hello_roundtrip \<longleftrightarrow>
     inbound_of_json (json_of_inbound (InHello 1)) = Some (InHello 1)"

definition test_message_inbound_get_capturable_list_roundtrip :: bool where
  "test_message_inbound_get_capturable_list_roundtrip \<longleftrightarrow>
     inbound_of_json (json_of_inbound GetCapturableList) = Some GetCapturableList"

definition test_message_inbound_pause_resume_restart_roundtrip :: bool where
  "test_message_inbound_pause_resume_restart_roundtrip \<longleftrightarrow>
     list_all (\<lambda>m. inbound_of_json (json_of_inbound m) \<noteq> None) [PauseVideo, ResumeVideo, RestartVideo, Heartbeat]"

definition test_message_inbound_buffer_health_roundtrip :: bool where
  "test_message_inbound_buffer_health_roundtrip \<longleftrightarrow>
     inbound_of_json (json_of_inbound (InBufferHealth (Fin (3 / 2)))) = Some (InBufferHealth (Fin (3 / 2)))"

definition test_message_outbound_hello_roundtrip :: bool where
  "test_message_outbound_hello_roundtrip \<longleftrightarrow>
     outbound_of_json (json_of_outbound (OutHello 1))
     = Some (OutHello 1)"

definition test_message_outbound_capturable_list_roundtrip :: bool where
  "test_message_outbound_capturable_list_roundtrip \<longleftrightarrow>
     outbound_of_json (json_of_outbound (CapturableList [''Screen 0'', ''Window A'']))
     = Some (CapturableList [''Screen 0'', ''Window A''])"

definition test_message_outbound_new_video_roundtrip :: bool where
  "test_message_outbound_new_video_roundtrip \<longleftrightarrow>
     outbound_of_json (json_of_outbound NewVideo)
     = Some NewVideo"

definition test_message_outbound_config_ok_roundtrip :: bool where
  "test_message_outbound_config_ok_roundtrip \<longleftrightarrow>
     outbound_of_json (json_of_outbound ConfigOk)
     = Some ConfigOk"

definition test_message_outbound_error_roundtrip :: bool where
  "test_message_outbound_error_roundtrip \<longleftrightarrow>
     outbound_of_json (json_of_outbound (Error ''something broke''))
     = Some (Error ''something broke'')"

definition test_message_outbound_config_error_roundtrip :: bool where
  "test_message_outbound_config_error_roundtrip \<longleftrightarrow>
     outbound_of_json (json_of_outbound (ConfigError ''bad config''))
     = Some (ConfigError ''bad config'')"

definition test_rect_default :: bool where
  "test_rect_default \<longleftrightarrow>
     rx rect_default = Fin 0 \<and> ry rect_default = Fin 0 \<and> rw rect_default = Fin 1 \<and> rh rect_default = Fin 1"

definition test_rect_roundtrip :: bool where
  "test_rect_roundtrip \<longleftrightarrow>
     (let r = \<lparr>rx = Fin (1 / 10), ry = Fin (1 / 5), rw = Fin (1 / 2), rh = Fin (3 / 5)\<rparr> 
      in de_rect (ser_rect r) = Some r)"

definition test_custom_input_areas_default_is_all_none :: bool where
  "test_custom_input_areas_default_is_all_none \<longleftrightarrow>
     area_mouse custom_input_areas_default = None
     \<and> area_touch custom_input_areas_default = None \<and> area_pen custom_input_areas_default = None"

definition test_custom_input_areas_roundtrip_with_values :: bool where
  "test_custom_input_areas_roundtrip_with_values \<longleftrightarrow>
     (let c = \<lparr>area_mouse = Some \<lparr>rx = Fin (0), ry = Fin (0), rw = Fin (1 / 2), rh = Fin (1 / 2)\<rparr>,
        area_touch = None, area_pen = Some rect_default\<rparr>
      in de_custom_input_areas (ser_custom_input_areas c) = Some c)"

definition test_message_outbound_custom_input_areas_roundtrip :: bool where
  "test_message_outbound_custom_input_areas_roundtrip \<longleftrightarrow>
     (let c = \<lparr>area_mouse = Some \<lparr>rx = Fin (1 / 10), ry = Fin (1 / 5), rw = Fin (3 / 10), rh = Fin (2 / 5)\<rparr>,
        area_touch = Some \<lparr>rx = Fin (1 / 2), ry = Fin (3 / 5), rw = Fin (1 / 5), rh = Fin (1 / 10)\<rparr>, area_pen = None\<rparr>
      in outbound_of_json (json_of_outbound (OutCustomInputAreas c)) = Some (OutCustomInputAreas c))"

definition test_pointer_type_serde_names :: bool where
  "test_pointer_type_serde_names \<longleftrightarrow>
     map pointer_type_name [Mouse, Pen, Touch, PUnknown] = [''mouse'', ''pen'', ''touch'', '''']"

definition test_pointer_type_deserialize :: bool where
  "test_pointer_type_deserialize \<longleftrightarrow>
     de_pointer_type (JStr ''mouse'') = Some Mouse \<and> de_pointer_type (JStr '''') = Some PUnknown"

definition test_pointer_event_type_serde_names :: bool where
  "test_pointer_event_type_serde_names \<longleftrightarrow>
     map pointer_event_type_name [DOWN, UP, MOVE] = [''pointerdown'', ''pointerup'', ''pointermove'']"

definition test_keyboard_event_type_serde_names :: bool where
  "test_keyboard_event_type_serde_names \<longleftrightarrow>
     map keyboard_event_type_name [KDown, KUp, KRepeat] = [''down'', ''up'', ''repeat'']"

definition test_keyboard_location_deserialize_valid_via_struct :: bool where
  "test_keyboard_location_deserialize_valid_via_struct \<longleftrightarrow>
     list_all (\<lambda>(n, l). map_option ke_location (de_keyboard_event (test_key ''KeyA'' ''a'' n False)) = Some l)
       [(0, STANDARD), (1, LEFT), (2, RIGHT), (3, NUMPAD)]"

definition test_keyboard_location_deserialize_invalid_via_struct :: bool where
  "test_keyboard_location_deserialize_invalid_via_struct \<longleftrightarrow>
     de_keyboard_event (test_key ''KeyA'' ''a'' 4 False) = None \<and> de_keyboard_event (test_key ''KeyA'' ''a'' 255 False) = None"

definition test_button_from_bits_valid :: bool where
  "test_button_from_bits_valid \<longleftrightarrow>
     button_from_bits 1 = Some PRIMARY \<and> (case button_from_bits 3 of
        Some b \<Rightarrow> button_contains b PRIMARY \<and> button_contains b SECONDARY
      | None \<Rightarrow> False)"

definition test_button_from_bits_invalid :: bool where
  "test_button_from_bits_invalid \<longleftrightarrow>
     button_from_bits 64 = None"

definition test_button_none_is_zero :: bool where
  "test_button_none_is_zero \<longleftrightarrow>
     NONE = 0"

definition test_button_eraser_flag :: bool where
  "test_button_eraser_flag \<longleftrightarrow>
     ERASER = 32 \<and> \<not> button_contains ERASER PRIMARY"

definition test_button_from_deserialize_valid :: bool where
  "test_button_from_deserialize_valid \<longleftrightarrow>
     (case de_pointer_event (test_event ''pointerdown'' 1 12345 True ''mouse'' 1 1 [1 / 2, 1 / 2, 1 / 2, 0, 0] 0 0 0) of
        Some e \<Rightarrow> pe_button e = PRIMARY \<and> pe_buttons e = PRIMARY
      | None \<Rightarrow> False)"

definition test_button_from_deserialize_invalid_bits :: bool where
  "test_button_from_deserialize_invalid_bits \<longleftrightarrow>
     de_pointer_event (test_event ''pointerdown'' 1 0 True ''mouse'' 128 0 [0, 0, 0, 0, 0] 0 0 0) = None"

definition test_pointer_event_deserialize :: bool where
  "test_pointer_event_deserialize \<longleftrightarrow>
     (case de_pointer_event (test_event ''pointermove'' 42 99999 False ''pen'' 32 33 [3 / 4, 1 / 4, 4 / 5, 1 / 100, 1 / 50] (-45) 30 90) of
        Some e \<Rightarrow> pe_pointer_id e = 42 \<and> \<not> pe_is_primary e \<and> pe_pointer_type e = Pen \<and> pe_button e = ERASER
        \<and> button_contains (pe_buttons e) PRIMARY \<and> button_contains (pe_buttons e) ERASER
        \<and> pe_tilt_x e = - 45 \<and> pe_twist e = 90 \<and> pe_pressure e = Fin (4 / 5)
      | None \<Rightarrow> False)"

definition test_keyboard_event_deserialize :: bool where
  "test_keyboard_event_deserialize \<longleftrightarrow>
     (case de_keyboard_event (test_key ''KeyA'' ''a'' 0 True) of
        Some e \<Rightarrow> ke_event_type e = KDown \<and> ke_code e = ''KeyA'' \<and> ke_key e = [97]
        \<and> ke_location e = STANDARD \<and> ke_ctrl e \<and> \<not> ke_alt e
      | None \<Rightarrow> False)"

definition test_keyboard_event_numpad_location :: bool where
  "test_keyboard_event_numpad_location \<longleftrightarrow>
     (case de_keyboard_event (test_key ''Numpad5'' ''5'' 3 False) of
        Some e \<Rightarrow> ke_location e = NUMPAD
      | None \<Rightarrow> False)"

definition test_wheel_event_roundtrip :: bool where
  "test_wheel_event_roundtrip \<longleftrightarrow>
     (let w = \<lparr>we_dx = - 3, we_dy = 120, we_timestamp = 5000\<rparr> in de_wheel_event (ser_wheel_event w) = Some w)"

definition test_client_configuration_roundtrip :: bool where
  "test_client_configuration_roundtrip \<longleftrightarrow>
     (let c = \<lparr>cc_uinput_support = True, cc_capturable_id = 0, cc_capture_cursor = True, cc_max_width = 1920,
        cc_max_height = 1080, cc_client_name = Some ''test-client'', cc_frame_rate = Fin 30\<rparr>
      in de_client_configuration (ser_client_configuration c) = Some c)"

definition test_message_inbound_pointer_event_roundtrip :: bool where
  "test_message_inbound_pointer_event_roundtrip \<longleftrightarrow>
     (case inbound_of_json (tagged ''PointerEvent''
        (test_event ''pointerup'' 0 100 True ''touch'' 1 0 [0, 1, 0, 1 / 20, 1 / 20] 0 0 0)) of
        Some m \<Rightarrow> (case m of
        InPointerEvent e \<Rightarrow> pe_event_type e = UP \<and> pe_pointer_type e = Touch \<and> pe_y e = Fin 1 | _ \<Rightarrow> False)
      | None \<Rightarrow> False)"

definition test_message_inbound_wheel_event_roundtrip :: bool where
  "test_message_inbound_wheel_event_roundtrip \<longleftrightarrow>
     inbound_of_json (json_of_inbound (InWheelEvent \<lparr>we_dx = 0, we_dy = - 1, we_timestamp = 0\<rparr>)) = Some (InWheelEvent \<lparr>we_dx = 0, we_dy = - 1, we_timestamp = 0\<rparr>)"

definition test_message_outbound_empty_capturable_list :: bool where
  "test_message_outbound_empty_capturable_list \<longleftrightarrow>
     outbound_of_json (json_of_outbound (CapturableList []))
     = Some (CapturableList [])"

definition test_message_inbound_unknown_variant :: bool where
  "test_message_inbound_unknown_variant \<longleftrightarrow>
     inbound_of_json (JStr ''NonExistentVariant'') = None"

definition test_message_outbound_malformed_json :: bool where
  "test_message_outbound_malformed_json \<longleftrightarrow>
     outbound_of_json (tagged ''Hello'' (JObj [])) = None"

definition test_altitude_angle_defaults_to_none :: bool where
  "test_altitude_angle_defaults_to_none \<longleftrightarrow>
     (case de_pointer_event (test_event ''pointermove'' 1 0 True ''mouse'' 0 0 [0, 0, 0, 0, 0] 0 0 0) of
        Some e \<Rightarrow> pe_altitude_angle e = None
      | None \<Rightarrow> False)"

definition test_azimuth_angle_defaults_to_none :: bool where
  "test_azimuth_angle_defaults_to_none \<longleftrightarrow>
     (case de_pointer_event (test_event ''pointermove'' 1 0 True ''mouse'' 0 0 [0, 0, 0, 0, 0] 0 0 0) of
        Some e \<Rightarrow> pe_azimuth_angle e = None
      | None \<Rightarrow> False)"

definition test_altitude_azimuth_present :: bool where
  "test_altitude_azimuth_present \<longleftrightarrow>
     (case de_pointer_event (add_members [(''altitude_angle'', JFloat (157 / 200)), (''azimuth_angle'', JFloat (157 / 100))]
        (test_event ''pointermove'' 1 0 True ''pen'' 0 0 [1 / 2, 1 / 2, 4 / 5, 0, 0] 0 0 0)) of
        Some e \<Rightarrow> pe_altitude_angle e = Some (Fin (157 / 200)) \<and> pe_azimuth_angle e = Some (Fin (157 / 100))
      | None \<Rightarrow> False)"

definition test_batched_pointer_events_deserialize :: bool where
  "test_batched_pointer_events_deserialize \<longleftrightarrow>
     (case inbound_of_json (tagged ''batched_pointer_events'' (JArr
        [(test_event ''pointerdown'' 1 100 True ''touch'' 1 1 [1 / 2, 1 / 2, 1, 1 / 20, 1 / 20] 0 0 0),
         (test_event ''pointermove'' 1 200 True ''touch'' 1 1 [3 / 5, 3 / 5, 9 / 10, 1 / 20, 1 / 20] 0 0 0)])) of
        Some m \<Rightarrow> (case m of
        BatchedPointerEvents [e, f] \<Rightarrow> pe_pointer_id e = 1 \<and> pe_x f = Fin (3 / 5) | _ \<Rightarrow> False)
      | None \<Rightarrow> False)"

definition test_pointer_event_with_all_fields_roundtrip :: bool where
  "test_pointer_event_with_all_fields_roundtrip \<longleftrightarrow>
     (let e = \<lparr>pe_event_type = MOVE, pe_pointer_id = 42, pe_timestamp = 999, pe_is_primary = True,
        pe_pointer_type = Pen, pe_button = PRIMARY, pe_buttons = PRIMARY, pe_x = Fin (1 / 2), pe_y = Fin (1 / 2),
        pe_pressure = Fin (4 / 5), pe_tilt_x = 30, pe_tilt_y = - 15, pe_twist = 90, pe_width = Fin (1 / 100),
        pe_height = Fin (1 / 50), pe_altitude_angle = Some (Fin (1 / 2)), pe_azimuth_angle = Some (Fin 1)\<rparr>
      in de_pointer_event (ser_pointer_event e) = Some e)"

lemmas read_simps = de_pointer_event_def de_keyboard_event_def inbound_of_json_def inbound_of_variant_def
  variant_simps fields_of_object field_names present de_ints de_nat_def de_u8_def de_f64_def de_f32_def de_bool_def
  de_string_def de_vec_def de_button_def de_location_def de_pointer_type_def de_pointer_event_type_def
  de_keyboard_event_type_def enum_from_def ok_of_def location_from_def button_from_def button_from_bits_def
  button_all_def button_consts button_contains_def f64_as_f32_def f32_limit_def de_option_def
  test_event_def test_key_def add_members_def

lemmas write_simps = outbound_of_json_def outbound_of_variant_def ser_nat_def ser_f64_def ser_option_def
  ser_button_def button_to_def ser_rect_def ser_custom_input_areas_def ser_wheel_event_def
  ser_client_configuration_def ser_pointer_event_def de_hello_def de_buffer_health_def de_wheel_event_def
  de_rect_def de_custom_input_areas_def de_client_configuration_def PROTOCOL_VERSION_def
  rect_default_def custom_input_areas_default_def

lemma ascii_char: "n < 128 \<Longrightarrow> utf8_chars [n] = Some [n]"
  by (simp add: utf8_chars.simps [of "[n]"] utf8_chars.simps [of "[]"])

text \<open>The tests that read a document.\<close>

lemma passes_keyboard_location_deserialize_valid_via_struct: test_keyboard_location_deserialize_valid_via_struct
  by (simp add: test_keyboard_location_deserialize_valid_via_struct_def read_simps de_key_def str_chars_def ascii_char)

lemma passes_keyboard_location_deserialize_invalid_via_struct: test_keyboard_location_deserialize_invalid_via_struct
  by (simp add: test_keyboard_location_deserialize_invalid_via_struct_def read_simps de_key_def str_chars_def ascii_char)

lemma passes_button_from_deserialize_valid: test_button_from_deserialize_valid
  by (simp add: test_button_from_deserialize_valid_def read_simps de_key_def str_chars_def ascii_char)

lemma passes_button_from_deserialize_invalid_bits: test_button_from_deserialize_invalid_bits
  by (simp add: test_button_from_deserialize_invalid_bits_def read_simps de_key_def str_chars_def ascii_char)

lemma passes_pointer_event_deserialize: test_pointer_event_deserialize
  by (simp add: test_pointer_event_deserialize_def read_simps de_key_def str_chars_def ascii_char)

lemma passes_keyboard_event_deserialize: test_keyboard_event_deserialize
  by (simp add: test_keyboard_event_deserialize_def read_simps de_key_def str_chars_def ascii_char)

lemma passes_keyboard_event_numpad_location: test_keyboard_event_numpad_location
  by (simp add: test_keyboard_event_numpad_location_def read_simps de_key_def str_chars_def ascii_char)

lemma passes_message_inbound_pointer_event_roundtrip: test_message_inbound_pointer_event_roundtrip
  by (simp add: test_message_inbound_pointer_event_roundtrip_def read_simps de_key_def str_chars_def ascii_char)

lemma passes_altitude_angle_defaults_to_none: test_altitude_angle_defaults_to_none
  by (simp add: test_altitude_angle_defaults_to_none_def read_simps de_key_def str_chars_def ascii_char)

lemma passes_azimuth_angle_defaults_to_none: test_azimuth_angle_defaults_to_none
  by (simp add: test_azimuth_angle_defaults_to_none_def read_simps de_key_def str_chars_def ascii_char)

lemma passes_altitude_azimuth_present: test_altitude_azimuth_present
  by (simp add: test_altitude_azimuth_present_def read_simps de_key_def str_chars_def ascii_char)

lemma passes_batched_pointer_events_deserialize: test_batched_pointer_events_deserialize
  by (simp add: test_batched_pointer_events_deserialize_def read_simps de_key_def str_chars_def ascii_char)

text \<open>The others.\<close>

lemma passes_hello_roundtrip: test_hello_roundtrip
  by (simp add: test_hello_roundtrip_def read_simps write_simps)

lemma passes_message_inbound_hello_roundtrip: test_message_inbound_hello_roundtrip
  by (simp add: test_message_inbound_hello_roundtrip_def read_simps write_simps)

lemma passes_message_inbound_get_capturable_list_roundtrip: test_message_inbound_get_capturable_list_roundtrip
  by (simp add: test_message_inbound_get_capturable_list_roundtrip_def read_simps write_simps)

lemma passes_message_inbound_pause_resume_restart_roundtrip: test_message_inbound_pause_resume_restart_roundtrip
  by (simp add: test_message_inbound_pause_resume_restart_roundtrip_def read_simps write_simps)

lemma passes_message_inbound_buffer_health_roundtrip: test_message_inbound_buffer_health_roundtrip
  by (simp add: test_message_inbound_buffer_health_roundtrip_def read_simps write_simps)

lemma passes_message_outbound_hello_roundtrip: test_message_outbound_hello_roundtrip
  by (simp add: test_message_outbound_hello_roundtrip_def read_simps write_simps)

lemma passes_message_outbound_capturable_list_roundtrip: test_message_outbound_capturable_list_roundtrip
  by (simp add: test_message_outbound_capturable_list_roundtrip_def read_simps write_simps)

lemma passes_message_outbound_new_video_roundtrip: test_message_outbound_new_video_roundtrip
  by (simp add: test_message_outbound_new_video_roundtrip_def read_simps write_simps)

lemma passes_message_outbound_config_ok_roundtrip: test_message_outbound_config_ok_roundtrip
  by (simp add: test_message_outbound_config_ok_roundtrip_def read_simps write_simps)

lemma passes_message_outbound_error_roundtrip: test_message_outbound_error_roundtrip
  by (simp add: test_message_outbound_error_roundtrip_def read_simps write_simps)

lemma passes_message_outbound_config_error_roundtrip: test_message_outbound_config_error_roundtrip
  by (simp add: test_message_outbound_config_error_roundtrip_def read_simps write_simps)

lemma passes_rect_default: test_rect_default
  by (simp add: test_rect_default_def read_simps write_simps)

lemma passes_rect_roundtrip: test_rect_roundtrip
  by (simp add: test_rect_roundtrip_def read_simps write_simps)

lemma passes_custom_input_areas_default_is_all_none: test_custom_input_areas_default_is_all_none
  by (simp add: test_custom_input_areas_default_is_all_none_def read_simps write_simps)

lemma passes_custom_input_areas_roundtrip_with_values: test_custom_input_areas_roundtrip_with_values
  by (simp add: test_custom_input_areas_roundtrip_with_values_def read_simps write_simps)

lemma passes_message_outbound_custom_input_areas_roundtrip: test_message_outbound_custom_input_areas_roundtrip
  by (simp add: test_message_outbound_custom_input_areas_roundtrip_def read_simps write_simps)

lemma passes_pointer_type_serde_names: test_pointer_type_serde_names
  by (simp add: test_pointer_type_serde_names_def read_simps write_simps)

lemma passes_pointer_type_deserialize: test_pointer_type_deserialize
  by (simp add: test_pointer_type_deserialize_def read_simps write_simps)

lemma passes_pointer_event_type_serde_names: test_pointer_event_type_serde_names
  by (simp add: test_pointer_event_type_serde_names_def read_simps write_simps)

lemma passes_keyboard_event_type_serde_names: test_keyboard_event_type_serde_names
  by (simp add: test_keyboard_event_type_serde_names_def read_simps write_simps)

lemma passes_button_from_bits_valid: test_button_from_bits_valid
  by (simp add: test_button_from_bits_valid_def read_simps write_simps)

lemma passes_button_from_bits_invalid: test_button_from_bits_invalid
  by (simp add: test_button_from_bits_invalid_def read_simps write_simps)

lemma passes_button_none_is_zero: test_button_none_is_zero
  by (simp add: test_button_none_is_zero_def read_simps write_simps)

lemma passes_button_eraser_flag: test_button_eraser_flag
  by (simp add: test_button_eraser_flag_def read_simps write_simps)

lemma passes_wheel_event_roundtrip: test_wheel_event_roundtrip
  by (simp add: test_wheel_event_roundtrip_def read_simps write_simps)

lemma passes_client_configuration_roundtrip: test_client_configuration_roundtrip
  by (simp add: test_client_configuration_roundtrip_def read_simps write_simps)

lemma passes_message_inbound_wheel_event_roundtrip: test_message_inbound_wheel_event_roundtrip
  by (simp add: test_message_inbound_wheel_event_roundtrip_def read_simps write_simps)

lemma passes_message_outbound_empty_capturable_list: test_message_outbound_empty_capturable_list
  by (simp add: test_message_outbound_empty_capturable_list_def read_simps write_simps)

lemma passes_message_inbound_unknown_variant: test_message_inbound_unknown_variant
  by (simp add: test_message_inbound_unknown_variant_def read_simps write_simps)

lemma passes_message_outbound_malformed_json: test_message_outbound_malformed_json
  by (simp add: test_message_outbound_malformed_json_def read_simps write_simps)

lemma passes_pointer_event_with_all_fields_roundtrip: test_pointer_event_with_all_fields_roundtrip
  by (simp add: test_pointer_event_with_all_fields_roundtrip_def read_simps write_simps)

end
