(* ===== verification/SourceTests.thy ===== *)
theory SourceTests
  imports Quality VideoQueue Pixel CoreError PipeWireStream UInputDevice RateLimiter SessionStore ConfigModel
begin

text \<open>
  Unit tests of the sources over the model: one definition per test, named after it, and the fact that the
  model passes it.  These are the tests of pure code; those that drive sockets, encoders, devices, files or
  the parsers of third-party libraries are left out, and so are tests of derived traits.  Where a test reads
  the clock, consecutive readings are 0, 1, 2 and so on.
\<close>

section \<open>QualityController (\<open>session.rs\<close>)\<close>

lemmas quality_simps = q_new_def q_reset_def q_set_buffer_health_def q_decide_def buffer_delta_def
  pipeline_delta_def rtt_tightening_def warn_threshold_def severe_threshold_def clamp_qp_def rylus_simps

definition test_quality_controller_starts_at_default :: bool where
  "test_quality_controller_starts_at_default \<longleftrightarrow>
     current_qp q_new = QP_DEFAULT"

lemma passes_quality_controller_starts_at_default: test_quality_controller_starts_at_default
  by (simp add: test_quality_controller_starts_at_default_def quality_simps)

definition test_quality_controller_reset_restores_default :: bool where
  "test_quality_controller_reset_restores_default \<longleftrightarrow>
     (let q = q_reset (fst (q_decide (q_set_buffer_health q_new (Fin (5))) (Fin (33 / 1000))))
      in current_qp q = QP_DEFAULT \<and> buffer_health_secs q = None)"

lemma passes_quality_controller_reset_restores_default: test_quality_controller_reset_restores_default
  by (simp add: test_quality_controller_reset_restores_default_def quality_simps)

definition test_buffer_overloaded_raises_qp :: bool where
  "test_buffer_overloaded_raises_qp \<longleftrightarrow>
     (let (q, r) = q_decide (q_set_buffer_health q_new (Fin (7 / 2))) (Fin (33 / 1000)) in r \<noteq> None \<and> QP_DEFAULT < current_qp q)"

lemma passes_buffer_overloaded_raises_qp: test_buffer_overloaded_raises_qp
  by (simp add: test_buffer_overloaded_raises_qp_def quality_simps)

definition test_buffer_moderately_overloaded_raises_qp_by_one :: bool where
  "test_buffer_moderately_overloaded_raises_qp_by_one \<longleftrightarrow>
     snd (q_decide (q_set_buffer_health q_new (Fin (5 / 2))) (Fin (33 / 1000))) = Some (QP_DEFAULT + 1)"

lemma passes_buffer_moderately_overloaded_raises_qp_by_one: test_buffer_moderately_overloaded_raises_qp_by_one
  by (simp add: test_buffer_moderately_overloaded_raises_qp_by_one_def quality_simps)

definition test_buffer_healthy_lowers_qp :: bool where
  "test_buffer_healthy_lowers_qp \<longleftrightarrow>
     snd (q_decide (q_set_buffer_health (q_new\<lparr>current_qp := 30\<rparr>) (Fin (3 / 10))) (Fin (33 / 1000))) = Some 29"

lemma passes_buffer_healthy_lowers_qp: test_buffer_healthy_lowers_qp
  by (simp add: test_buffer_healthy_lowers_qp_def quality_simps)

definition test_buffer_at_minimum_qp_cannot_decrease :: bool where
  "test_buffer_at_minimum_qp_cannot_decrease \<longleftrightarrow>
     snd (q_decide (q_set_buffer_health (q_new\<lparr>current_qp := QP_MIN\<rparr>) (Fin (3 / 10))) (Fin (33 / 1000))) = None"

lemma passes_buffer_at_minimum_qp_cannot_decrease: test_buffer_at_minimum_qp_cannot_decrease
  by (simp add: test_buffer_at_minimum_qp_cannot_decrease_def quality_simps)

definition test_pipeline_saturated_raises_qp :: bool where
  "test_pipeline_saturated_raises_qp \<longleftrightarrow>
     (let (q, r) = q_decide (q_new\<lparr>encode_time_avg := Fin (3 / 100)\<rparr>) (Fin (33 / 1000)) in r \<noteq> None \<and> QP_DEFAULT < current_qp q)"

lemma passes_pipeline_saturated_raises_qp: test_pipeline_saturated_raises_qp
  by (simp add: test_pipeline_saturated_raises_qp_def quality_simps)

definition test_pipeline_fast_lowers_qp :: bool where
  "test_pipeline_fast_lowers_qp \<longleftrightarrow>
     snd (q_decide ((q_new\<lparr>current_qp := 30\<rparr>)\<lparr>encode_time_avg := Fin (7 / 1000)\<rparr>) (Fin (33 / 1000))) = Some 29"

lemma passes_pipeline_fast_lowers_qp: test_pipeline_fast_lowers_qp
  by (simp add: test_pipeline_fast_lowers_qp_def quality_simps)

definition test_buffer_health_wins_over_pipeline :: bool where
  "test_buffer_health_wins_over_pipeline \<longleftrightarrow>
     (let (q, r) = q_decide ((q_set_buffer_health (q_new\<lparr>current_qp := 30\<rparr>) (Fin (7 / 2)))\<lparr>encode_time_avg := Fin (1 / 200)\<rparr>) (Fin (33 / 1000))
      in r \<noteq> None \<and> 30 < current_qp q)"

lemma passes_buffer_health_wins_over_pipeline: test_buffer_health_wins_over_pipeline
  by (simp add: test_buffer_health_wins_over_pipeline_def quality_simps)

definition test_neutral_buffer_defers_to_pipeline :: bool where
  "test_neutral_buffer_defers_to_pipeline \<longleftrightarrow>
     snd (q_decide ((q_set_buffer_health (q_new\<lparr>current_qp := 30\<rparr>) (Fin (1)))\<lparr>encode_time_avg := Fin (1 / 200)\<rparr>) (Fin (33 / 1000))) = Some 29"

lemma passes_neutral_buffer_defers_to_pipeline: test_neutral_buffer_defers_to_pipeline
  by (simp add: test_neutral_buffer_defers_to_pipeline_def quality_simps)

definition test_no_signals_returns_none :: bool where
  "test_no_signals_returns_none \<longleftrightarrow>
     snd (q_decide q_new (Fin (10))) = None"

lemma passes_no_signals_returns_none: test_no_signals_returns_none
  by (simp add: test_no_signals_returns_none_def quality_simps)

definition test_qp_clamped_at_max :: bool where
  "test_qp_clamped_at_max \<longleftrightarrow>
     snd (q_decide (q_set_buffer_health (q_new\<lparr>current_qp := QP_MAX\<rparr>) (Fin (5))) (Fin (33 / 1000))) = None"

lemma passes_qp_clamped_at_max: test_qp_clamped_at_max
  by (simp add: test_qp_clamped_at_max_def quality_simps)

definition test_buffer_signal_consumed_after_decide :: bool where
  "test_buffer_signal_consumed_after_decide \<longleftrightarrow>
     (let q = fst (q_decide (q_set_buffer_health q_new (Fin (7 / 2))) (Fin (33 / 1000)))
      in snd (q_decide (q\<lparr>encode_time_avg := Fin 0\<rparr>) (Fin 10)) = None)"

lemma passes_buffer_signal_consumed_after_decide: test_buffer_signal_consumed_after_decide
  by (simp add: test_buffer_signal_consumed_after_decide_def quality_simps)

section \<open>VideoQueue (\<open>websocket.rs\<close>)\<close>

lemmas queue_simps = vq_new_def vq_push_def vq_drain_def notify_one_def VIDEO_QUEUE_CAPACITY_def upt_rec

definition test_video_queue_drops_oldest_at_capacity :: bool where
  "test_video_queue_drops_oldest_at_capacity \<longleftrightarrow>
     (let q = foldl vq_push vq_new (map (\<lambda>i. [i]) [0..<VIDEO_QUEUE_CAPACITY + 3]); (drained, q) = vq_drain q
      in length drained = VIDEO_QUEUE_CAPACITY \<and> vq_dropped q = 3 \<and> drained ! 0 = [3])"

lemma passes_video_queue_drops_oldest_at_capacity: test_video_queue_drops_oldest_at_capacity
  by (simp add: test_video_queue_drops_oldest_at_capacity_def queue_simps)

section \<open>\<open>pixel.rs\<close>\<close>

definition test_pixel_provider_rgb_size :: bool where
  "test_pixel_provider_rgb_size \<longleftrightarrow>
     provider_size (RGB 1920 1080 (replicate (1920 * 1080 * 3) 0)) = (1920, 1080)"

lemma passes_pixel_provider_rgb_size: test_pixel_provider_rgb_size
  by (simp add: test_pixel_provider_rgb_size_def to_owned_def refill_def)

definition test_pixel_provider_rgb0_size :: bool where
  "test_pixel_provider_rgb0_size \<longleftrightarrow>
     provider_size (RGB0 800 600 (replicate (800 * 600 * 4) 0)) = (800, 600)"

lemma passes_pixel_provider_rgb0_size: test_pixel_provider_rgb0_size
  by (simp add: test_pixel_provider_rgb0_size_def to_owned_def refill_def)

definition test_pixel_provider_bgr0_size :: bool where
  "test_pixel_provider_bgr0_size \<longleftrightarrow>
     provider_size (BGR0 640 480 (replicate (640 * 480 * 4) 0)) = (640, 480)"

lemma passes_pixel_provider_bgr0_size: test_pixel_provider_bgr0_size
  by (simp add: test_pixel_provider_bgr0_size_def to_owned_def refill_def)

definition test_pixel_provider_bgr0s_size :: bool where
  "test_pixel_provider_bgr0s_size \<longleftrightarrow>
     provider_size (BGR0S 2560 1440 (2560 * 4) (replicate (2560 * 1440 * 4) 0)) = (2560, 1440)"

lemma passes_pixel_provider_bgr0s_size: test_pixel_provider_bgr0s_size
  by (simp add: test_pixel_provider_bgr0s_size_def to_owned_def refill_def)

definition test_pixel_provider_to_owned_preserves_data :: bool where
  "test_pixel_provider_to_owned_preserves_data \<longleftrightarrow>
     (let d = to_owned (RGB 2 1 [1, 2, 3, 4, 5, 6])
      in owned_size d = (2, 1) \<and> d = ORGB 2 1 [1, 2, 3, 4, 5, 6])"

lemma passes_pixel_provider_to_owned_preserves_data: test_pixel_provider_to_owned_preserves_data
  by (simp add: test_pixel_provider_to_owned_preserves_data_def to_owned_def refill_def)

definition test_pixel_provider_to_owned_bgr0s_preserves_stride :: bool where
  "test_pixel_provider_to_owned_bgr0s_preserves_stride \<longleftrightarrow>
     (let d = replicate (2048 * 100) 0
      in case to_owned (BGR0S 500 100 2048 d) of OBGR0S w h s d' \<Rightarrow> w = 500 \<and> h = 100 \<and> s = 2048 \<and> length d' = length d
           | _ \<Rightarrow> False)"

lemma passes_pixel_provider_to_owned_bgr0s_preserves_stride: test_pixel_provider_to_owned_bgr0s_preserves_stride
  by (simp add: test_pixel_provider_to_owned_bgr0s_preserves_stride_def to_owned_def refill_def)

definition test_owned_pixel_data_as_provider_roundtrip :: bool where
  "test_owned_pixel_data_as_provider_roundtrip \<longleftrightarrow>
     (let d = [10, 20, 30, 40, 50, 60, 70, 80]; p = as_provider (to_owned (RGB0 2 1 d))
      in provider_size p = (2, 1) \<and> (case p of RGB0 _ _ d' \<Rightarrow> d' = d | _ \<Rightarrow> False))"

lemma passes_owned_pixel_data_as_provider_roundtrip: test_owned_pixel_data_as_provider_roundtrip
  by (simp add: test_owned_pixel_data_as_provider_roundtrip_def to_owned_def refill_def)

definition test_owned_pixel_data_size_all_variants :: bool where
  "test_owned_pixel_data_size_all_variants \<longleftrightarrow>
     owned_size (ORGB 10 20 []) = (10, 20) \<and> owned_size (ORGB0 30 40 []) = (30, 40)
     \<and> owned_size (OBGR0 50 60 []) = (50, 60) \<and> owned_size (OBGR0S 70 80 280 []) = (70, 80)"

lemma passes_owned_pixel_data_size_all_variants: test_owned_pixel_data_size_all_variants
  by (simp add: test_owned_pixel_data_size_all_variants_def to_owned_def refill_def)

section \<open>\<open>error.rs\<close>\<close>

lemmas error_simps = cerror_is_err_def cerror_to_enum_def cerror_new_def cerror_with_code_def ascii_bytes_def

definition test_new_cerror_is_not_err :: bool where
  "test_new_cerror_is_not_err \<longleftrightarrow>
     \<not> cerror_is_err cerror_new \<and> err_code cerror_new = 0"

lemma passes_new_cerror_is_not_err: test_new_cerror_is_not_err
  by (simp add: test_new_cerror_is_not_err_def error_simps)

definition test_new_cerror_code_is_no_error :: bool where
  "test_new_cerror_code_is_no_error \<longleftrightarrow>
     cerror_to_enum cerror_new = NoError"

lemma passes_new_cerror_code_is_no_error: test_new_cerror_code_is_no_error
  by (simp add: test_new_cerror_code_is_no_error_def error_simps)

definition test_with_code_generic_error :: bool where
  "test_with_code_generic_error \<longleftrightarrow>
     (let e = cerror_with_code 1 (ascii_bytes ''generic failure'')
      in cerror_is_err e \<and> err_code e = 1 \<and> cerror_to_enum e = GenericError)"

lemma passes_with_code_generic_error: test_with_code_generic_error
  by (simp add: test_with_code_generic_error_def error_simps)

definition test_with_code_uinput_not_accessible :: bool where
  "test_with_code_uinput_not_accessible \<longleftrightarrow>
     (let e = cerror_with_code 101 (ascii_bytes ''permission denied'')
      in cerror_is_err e \<and> err_code e = 101 \<and> cerror_to_enum e = UInputNotAccessible)"

lemma passes_with_code_uinput_not_accessible: test_with_code_uinput_not_accessible
  by (simp add: test_with_code_uinput_not_accessible_def error_simps)

definition test_with_code_unknown_maps_to_generic :: bool where
  "test_with_code_unknown_maps_to_generic \<longleftrightarrow>
     cerror_to_enum (cerror_with_code 999 (ascii_bytes ''unknown'')) = GenericError"

lemma passes_with_code_unknown_maps_to_generic: test_with_code_unknown_maps_to_generic
  by (simp add: test_with_code_unknown_maps_to_generic_def error_simps)

definition test_display_contains_code_and_message :: bool where
  "test_display_contains_code_and_message \<longleftrightarrow>
     cerror_display (cerror_with_code 42 (ascii_bytes ''test message'')) = (42, Some (ascii_bytes ''test message''))"

lemma passes_display_contains_code_and_message: test_display_contains_code_and_message
  by (simp add: test_display_contains_code_and_message_def display_with_code ascii_bytes_def)

definition test_display_empty_message :: bool where
  "test_display_empty_message \<longleftrightarrow>
     fst (cerror_display cerror_new) = 0"

lemma passes_display_empty_message: test_display_empty_message
  by (simp add: test_display_empty_message_def cerror_display_def cerror_new_def)

definition test_with_code_truncates_long_message :: bool where
  "test_with_code_truncates_long_message \<longleftrightarrow>
     (let e = cerror_with_code 1 (replicate 2000 120)
      in cerror_is_err e \<and> (case snd (cerror_display e) of
           Some t \<Rightarrow> sublist (replicate 100 120) t \<and> \<not> sublist (replicate 2000 120) t | None \<Rightarrow> False))"

lemma passes_with_code_truncates_long_message: test_with_code_truncates_long_message
  proof -
  have d: "cerror_display (cerror_with_code 1 (replicate 2000 120)) = (1, Some (replicate 1023 120))"
    by (simp add: display_with_code)
  have e: "cerror_is_err (cerror_with_code 1 (replicate 2000 120))"
    by (simp add: cerror_is_err_def cerror_with_code_def cerror_new_def Let_def)
  have "sublist (replicate 100 120) (replicate 1023 (120 :: nat))"
    using sublist_append_leftI [of "replicate 100 (120 :: nat)" "replicate 923 120"]
    by (simp add: replicate_add [symmetric])
  moreover have "\<not> sublist (replicate 2000 120) (replicate 1023 (120 :: nat))"
    by (auto dest: sublist_length_le)
  ultimately show ?thesis
    by (simp add: test_with_code_truncates_long_message_def d e Let_def)
qed

definition test_negative_code :: bool where
  "test_negative_code \<longleftrightarrow>
     (let e = cerror_with_code (- 1) (ascii_bytes ''negative'')
      in cerror_is_err e \<and> err_code e = - 1 \<and> cerror_to_enum e = GenericError)"

lemma passes_negative_code: test_negative_code
  by (simp add: test_negative_code_def error_simps)

section \<open>\<open>pipewire.rs\<close>\<close>

definition test_depad_rows_in_place_compacts_padded_rgba_rows :: bool where
  "test_depad_rows_in_place_compacts_padded_rgba_rows \<longleftrightarrow>
     depad_rows_in_place 4 16 12
       (concat (map (\<lambda>row. map (\<lambda>b. row * 12 + b) [0..<12] @ replicate 4 0xAA) [0..<4])) = Some [0..<48]"

lemma passes_depad_rows_in_place_compacts_padded_rgba_rows: test_depad_rows_in_place_compacts_padded_rgba_rows
  unfolding test_depad_rows_in_place_compacts_padded_rgba_rows_def
  by (subst depad_in_place) (simp_all add: packed_rows_def upt_rec)

definition test_depad_rows_in_place_is_noop_when_already_tight :: bool where
  "test_depad_rows_in_place_is_noop_when_already_tight \<longleftrightarrow>
     depad_rows_in_place 2 16 16 [1..<17] = Some [1..<17]"

lemma passes_depad_rows_in_place_is_noop_when_already_tight: test_depad_rows_in_place_is_noop_when_already_tight
  by (simp add: test_depad_rows_in_place_is_noop_when_already_tight_def depad_rows_in_place_def)

section \<open>\<open>uinput_device.rs\<close>\<close>

text \<open>The touches alone, as the tests have them.\<close>

definition empty_touches :: "int option list" where
  "empty_touches = replicate 5 None"

definition claim_touch :: "int \<Rightarrow> int option list \<Rightarrow> nat option \<times> int option list" where
  "claim_touch i ts = (case position (\<lambda>t. t = Some i) ts of
      Some s \<Rightarrow> (Some s, ts)
    | None \<Rightarrow> (case position (\<lambda>t. t = None) ts of
        Some s \<Rightarrow> (Some s, ts[s := Some i])
      | None \<Rightarrow> (None, ts)))"

text \<open>The helper of the tests claims the slots the device claims.\<close>

lemma claim_touch_is_claim_slot:
  "claim_slot i d = (case claim_touch i (ud_touches d) of
      (Some s, ts) \<Rightarrow> Some (s, d\<lparr>ud_touches := ts\<rparr>) | (None, _) \<Rightarrow> None)"
  by (auto simp: claim_slot_def claim_touch_def find_slot_def free_slot_def split: option.split)

fun claim_all :: "int list \<Rightarrow> int option list \<Rightarrow> nat option list \<times> int option list" where
  "claim_all [] ts = ([], ts)"
| "claim_all (i # is) ts = (let (s, ts) = claim_touch i ts; (ss, ts) = claim_all is ts in (s # ss, ts))"

lemmas uinput_simps = compute_transform_def transform_unclamped_def compute_hover_distance_def ABS_MAX_def
  ABS_MAXVAL_def f_as_i32_def fclamp_def trunc_rat_def floor_eq_iff empty_touches_def claim_touch_def tool_key_for_touch_count_def
  map_io_error_def cerror_with_code_def cerror_new_def numeral_eq_Suc

definition test_transform_x_mid_default_geometry :: bool where
  "test_transform_x_mid_default_geometry \<longleftrightarrow>
     compute_transform (Fin (1 / 2)) (Fin (0)) (Fin (1)) = 32767"

lemma passes_transform_x_mid_default_geometry: test_transform_x_mid_default_geometry
  by (simp add: test_transform_x_mid_default_geometry_def uinput_simps)

definition test_transform_x_boundaries :: bool where
  "test_transform_x_boundaries \<longleftrightarrow>
     compute_transform (Fin (0)) (Fin (0)) (Fin (1)) = 0 \<and> compute_transform (Fin (1)) (Fin (0)) (Fin (1)) = 65535"

lemma passes_transform_x_boundaries: test_transform_x_boundaries
  by (simp add: test_transform_x_boundaries_def uinput_simps)

definition test_transform_y_mid_default_geometry :: bool where
  "test_transform_y_mid_default_geometry \<longleftrightarrow>
     compute_transform (Fin (1 / 2)) (Fin (0)) (Fin (1)) = 32767"

lemma passes_transform_y_mid_default_geometry: test_transform_y_mid_default_geometry
  by (simp add: test_transform_y_mid_default_geometry_def uinput_simps)

definition test_transform_y_boundaries :: bool where
  "test_transform_y_boundaries \<longleftrightarrow>
     compute_transform (Fin (0)) (Fin (0)) (Fin (1)) = 0 \<and> compute_transform (Fin (1)) (Fin (0)) (Fin (1)) = 65535"

lemma passes_transform_y_boundaries: test_transform_y_boundaries
  by (simp add: test_transform_y_boundaries_def uinput_simps)

definition test_transform_x_with_geometry_offset :: bool where
  "test_transform_x_with_geometry_offset \<longleftrightarrow>
     compute_transform (Fin (0)) (Fin (1 / 4)) (Fin (1 / 2)) = 16383
     \<and> compute_transform (Fin (1)) (Fin (1 / 4)) (Fin (1 / 2)) = 49151
     \<and> compute_transform (Fin (1 / 2)) (Fin (1 / 4)) (Fin (1 / 2)) = 32767"

lemma passes_transform_x_with_geometry_offset: test_transform_x_with_geometry_offset
  by (simp add: test_transform_x_with_geometry_offset_def uinput_simps)

definition test_transform_y_with_geometry_offset :: bool where
  "test_transform_y_with_geometry_offset \<longleftrightarrow>
     compute_transform (Fin (0)) (Fin (1 / 10)) (Fin (4 / 5)) = 6553
     \<and> compute_transform (Fin (1)) (Fin (1 / 10)) (Fin (4 / 5)) = 58981"

lemma passes_transform_y_with_geometry_offset: test_transform_y_with_geometry_offset
  by (simp add: test_transform_y_with_geometry_offset_def uinput_simps)

definition test_transform_x_clamps_above_one :: bool where
  "test_transform_x_clamps_above_one \<longleftrightarrow>
     compute_transform (Fin (3 / 2)) (Fin (0)) (Fin (1)) = 65535"

lemma passes_transform_x_clamps_above_one: test_transform_x_clamps_above_one
  by (simp add: test_transform_x_clamps_above_one_def uinput_simps)

definition test_transform_x_clamps_below_zero :: bool where
  "test_transform_x_clamps_below_zero \<longleftrightarrow>
     compute_transform (Fin (- 1 / 2)) (Fin (0)) (Fin (1)) = 0"

lemma passes_transform_x_clamps_below_zero: test_transform_x_clamps_below_zero
  by (simp add: test_transform_x_clamps_below_zero_def uinput_simps)

definition test_transform_y_clamps_above_one :: bool where
  "test_transform_y_clamps_above_one \<longleftrightarrow>
     compute_transform (Fin (3 / 2)) (Fin (0)) (Fin (1)) = 65535"

lemma passes_transform_y_clamps_above_one: test_transform_y_clamps_above_one
  by (simp add: test_transform_y_clamps_above_one_def uinput_simps)

definition test_transform_y_clamps_below_zero :: bool where
  "test_transform_y_clamps_below_zero \<longleftrightarrow>
     compute_transform (Fin (- 1 / 2)) (Fin (0)) (Fin (1)) = 0"

lemma passes_transform_y_clamps_below_zero: test_transform_y_clamps_below_zero
  by (simp add: test_transform_y_clamps_below_zero_def uinput_simps)

definition test_transform_x_clamps_when_geometry_pushes_past_range :: bool where
  "test_transform_x_clamps_when_geometry_pushes_past_range \<longleftrightarrow>
     compute_transform (Fin (9 / 10)) (Fin (1 / 2)) (Fin (1)) = 65535"

lemma passes_transform_x_clamps_when_geometry_pushes_past_range: test_transform_x_clamps_when_geometry_pushes_past_range
  by (simp add: test_transform_x_clamps_when_geometry_pushes_past_range_def uinput_simps)

definition test_transform_pressure_zero :: bool where
  "test_transform_pressure_zero \<longleftrightarrow>
     transform_unclamped (Fin 0) = 0"

lemma passes_transform_pressure_zero: test_transform_pressure_zero
  by (simp add: test_transform_pressure_zero_def uinput_simps)

definition test_transform_pressure_max :: bool where
  "test_transform_pressure_max \<longleftrightarrow>
     transform_unclamped (Fin 1) = 65535"

lemma passes_transform_pressure_max: test_transform_pressure_max
  by (simp add: test_transform_pressure_max_def uinput_simps)

definition test_transform_pressure_half :: bool where
  "test_transform_pressure_half \<longleftrightarrow>
     transform_unclamped (Fin (1 / 2)) = 32767"

lemma passes_transform_pressure_half: test_transform_pressure_half
  by (simp add: test_transform_pressure_half_def uinput_simps)

definition test_transform_touch_size_boundaries :: bool where
  "test_transform_touch_size_boundaries \<longleftrightarrow>
     transform_unclamped (Fin 0) = 0 \<and> transform_unclamped (Fin 1) = 65535
     \<and> transform_unclamped (Fin (1 / 2)) = 32767"

lemma passes_transform_touch_size_boundaries: test_transform_touch_size_boundaries
  by (simp add: test_transform_touch_size_boundaries_def uinput_simps)

definition test_slot_allocation_sequential :: bool where
  "test_slot_allocation_sequential \<longleftrightarrow>
     fst (claim_all [100, 200, 300] empty_touches) = [Some 0, Some 1, Some 2]"

lemma passes_slot_allocation_sequential: test_slot_allocation_sequential
  by (simp add: test_slot_allocation_sequential_def uinput_simps)

definition test_slot_find_existing :: bool where
  "test_slot_find_existing \<longleftrightarrow>
     fst (claim_all [42, 99, 42, 99] empty_touches) = [Some 0, Some 1, Some 0, Some 1]"

lemma passes_slot_find_existing: test_slot_find_existing
  by (simp add: test_slot_find_existing_def uinput_simps)

definition test_slot_dealloc_and_reuse :: bool where
  "test_slot_dealloc_and_reuse \<longleftrightarrow>
     fst (claim_all [99] ((snd (claim_all [1, 2, 3] empty_touches))[1 := None])) = [Some 1]"

lemma passes_slot_dealloc_and_reuse: test_slot_dealloc_and_reuse
  by (simp add: test_slot_dealloc_and_reuse_def uinput_simps)

definition test_slot_limit_exhaustion :: bool where
  "test_slot_limit_exhaustion \<longleftrightarrow>
     fst (claim_all [0, 1, 2, 3, 4, 999] empty_touches) = [Some 0, Some 1, Some 2, Some 3, Some 4, None]"

lemma passes_slot_limit_exhaustion: test_slot_limit_exhaustion
  by (simp add: test_slot_limit_exhaustion_def uinput_simps)

definition test_tool_key_for_touch_count_maps_one_through_five :: bool where
  "test_tool_key_for_touch_count_maps_one_through_five \<longleftrightarrow>
     map tool_key_for_touch_count [1, 2, 3, 4, 5] =
       [EC_KEY_TOOL_FINGER, EC_KEY_TOOL_DOUBLETAP, EC_KEY_TOOL_TRIPLETAP, EC_KEY_TOOL_QUADTAP, EC_KEY_TOOL_QUINTTAP]"

lemma passes_tool_key_for_touch_count_maps_one_through_five: test_tool_key_for_touch_count_maps_one_through_five
  by (simp add: test_tool_key_for_touch_count_maps_one_through_five_def uinput_simps)

definition test_tool_key_for_touch_count_saturates_at_quinttap :: bool where
  "test_tool_key_for_touch_count_saturates_at_quinttap \<longleftrightarrow>
     tool_key_for_touch_count 6 = EC_KEY_TOOL_QUINTTAP"

lemma passes_tool_key_for_touch_count_saturates_at_quinttap: test_tool_key_for_touch_count_saturates_at_quinttap
  by (simp add: test_tool_key_for_touch_count_saturates_at_quinttap_def uinput_simps)

definition test_tool_transition_survives_out_of_fifo_release :: bool where
  "test_tool_transition_survives_out_of_fifo_release \<longleftrightarrow>
     (let ts = snd (claim_all [3] ((snd (claim_all [1, 2] empty_touches))[0 := None])); n = count_if (\<lambda>t. t \<noteq> None) ts
      in n = 2 \<and> tool_key_for_touch_count n = EC_KEY_TOOL_DOUBLETAP)"

lemma passes_tool_transition_survives_out_of_fifo_release: test_tool_transition_survives_out_of_fifo_release
  by (simp add: test_tool_transition_survives_out_of_fifo_release_def uinput_simps)

definition test_map_io_error_permission_denied :: bool where
  "test_map_io_error_permission_denied \<longleftrightarrow>
     err_code (map_io_error (PermissionDenied, ''test'') ''ctx'') = 101"

lemma passes_map_io_error_permission_denied: test_map_io_error_permission_denied
  by (simp add: test_map_io_error_permission_denied_def uinput_simps)

definition test_map_io_error_not_found :: bool where
  "test_map_io_error_not_found \<longleftrightarrow>
     err_code (map_io_error (NotFound, ''test'') ''ctx'') = 101"

lemma passes_map_io_error_not_found: test_map_io_error_not_found
  by (simp add: test_map_io_error_not_found_def uinput_simps)

definition test_map_io_error_other :: bool where
  "test_map_io_error_other \<longleftrightarrow>
     err_code (map_io_error (OtherKind, ''test'') ''ctx'') = 1"

lemma passes_map_io_error_other: test_map_io_error_other
  by (simp add: test_map_io_error_other_def uinput_simps)

definition test_hover_distance_with_pressure_is_zero :: bool where
  "test_hover_distance_with_pressure_is_zero \<longleftrightarrow>
     compute_hover_distance (Fin (1 / 2)) = 0 \<and> compute_hover_distance (Fin 1) = 0"

lemma passes_hover_distance_with_pressure_is_zero: test_hover_distance_with_pressure_is_zero
  by (simp add: test_hover_distance_with_pressure_is_zero_def uinput_simps)

definition test_hover_distance_max_pressure_is_zero :: bool where
  "test_hover_distance_max_pressure_is_zero \<longleftrightarrow>
     compute_hover_distance (Fin 1) = 0"

lemma passes_hover_distance_max_pressure_is_zero: test_hover_distance_max_pressure_is_zero
  by (simp add: test_hover_distance_max_pressure_is_zero_def uinput_simps)

definition test_hover_distance_no_pressure_is_max :: bool where
  "test_hover_distance_no_pressure_is_max \<longleftrightarrow>
     compute_hover_distance (Fin 0) = ABS_MAXVAL"

lemma passes_hover_distance_no_pressure_is_max: test_hover_distance_no_pressure_is_max
  by (simp add: test_hover_distance_no_pressure_is_max_def uinput_simps)

definition test_hover_distance_clamps_negative_pressure :: bool where
  "test_hover_distance_clamps_negative_pressure \<longleftrightarrow>
     compute_hover_distance (Fin (- 1 / 2)) = ABS_MAXVAL"

lemma passes_hover_distance_clamps_negative_pressure: test_hover_distance_clamps_negative_pressure
  by (simp add: test_hover_distance_clamps_negative_pressure_def uinput_simps)

section \<open>Rate limiter and sessions (\<open>web.rs\<close>)\<close>

definition locked :: "nanos \<Rightarrow> string \<Rightarrow> string attempts \<Rightarrow> bool" where
  "locked now ip rl \<longleftrightarrow> fst (lockout_remaining now ip rl) \<noteq> None"

definition fail_at :: "nanos list \<Rightarrow> string \<Rightarrow> string attempts \<Rightarrow> string attempts" where
  "fail_at ts ip rl = foldl (\<lambda>rl t. record_failure t ip rl) rl ts"

lemmas web_simps = locked_def fail_at_def lockout_remaining_def record_failure_def retain_recent_def rl_new_def
  RATE_LIMIT_WINDOW_def LOCKOUT_DURATION_def MAX_FAILED_ATTEMPTS_def secs_def as_secs_def ss_new_def Let_def
  create_session_def is_valid_def SESSION_TTL_def token_char_def

definition test_rate_limiter_new_ip_not_locked :: bool where
  "test_rate_limiter_new_ip_not_locked \<longleftrightarrow>
     \<not> locked 0 ''10.0.0.1'' rl_new"

lemma passes_rate_limiter_new_ip_not_locked: test_rate_limiter_new_ip_not_locked
  by (simp add: test_rate_limiter_new_ip_not_locked_def web_simps)

definition test_rate_limiter_below_threshold_not_locked :: bool where
  "test_rate_limiter_below_threshold_not_locked \<longleftrightarrow>
     \<not> locked 4 ''10.0.0.1'' (fail_at [0, 1, 2, 3] ''10.0.0.1'' rl_new)"

lemma passes_rate_limiter_below_threshold_not_locked: test_rate_limiter_below_threshold_not_locked
  by (simp add: test_rate_limiter_below_threshold_not_locked_def web_simps)

definition test_rate_limiter_at_threshold_locked :: bool where
  "test_rate_limiter_at_threshold_locked \<longleftrightarrow>
     locked 5 ''10.0.0.2'' (fail_at [0, 1, 2, 3, 4] ''10.0.0.2'' rl_new)"

lemma passes_rate_limiter_at_threshold_locked: test_rate_limiter_at_threshold_locked
  by (simp add: test_rate_limiter_at_threshold_locked_def web_simps)

definition test_rate_limiter_different_ips_independent :: bool where
  "test_rate_limiter_different_ips_independent \<longleftrightarrow>
     (let rl = fail_at [0, 1, 2, 3, 4] ''10.0.0.1'' rl_new in locked 5 ''10.0.0.1'' rl \<and> \<not> locked 5 ''10.0.0.2'' rl)"

lemma passes_rate_limiter_different_ips_independent: test_rate_limiter_different_ips_independent
  by (simp add: test_rate_limiter_different_ips_independent_def web_simps)

definition test_rate_limiter_ipv6 :: bool where
  "test_rate_limiter_ipv6 \<longleftrightarrow>
     locked 5 ''::1'' (fail_at [0, 1, 2, 3, 4] ''::1'' rl_new)"

lemma passes_rate_limiter_ipv6: test_rate_limiter_ipv6
  by (simp add: test_rate_limiter_ipv6_def web_simps)

definition test_session_store_create_and_validate :: bool where
  "test_session_store_create_and_validate \<longleftrightarrow>
     (let (token, s) = create_session (replicate 32 7) 0 ss_new in token \<noteq> [] \<and> fst (is_valid 1 token s))"

lemma passes_session_store_create_and_validate: test_session_store_create_and_validate
  by (simp add: test_session_store_create_and_validate_def web_simps)

definition test_session_store_invalid_token :: bool where
  "test_session_store_invalid_token \<longleftrightarrow>
     \<not> fst (is_valid 0 ''nonexistent_token'' ss_new)"

lemma passes_session_store_invalid_token: test_session_store_invalid_token
  by (simp add: test_session_store_invalid_token_def web_simps)

definition test_session_store_empty_token :: bool where
  "test_session_store_empty_token \<longleftrightarrow>
     \<not> fst (is_valid 0 [] ss_new)"

lemma passes_session_store_empty_token: test_session_store_empty_token
  by (simp add: test_session_store_empty_token_def web_simps)

definition test_session_store_tokens_are_unique :: bool where
  "test_session_store_tokens_are_unique \<longleftrightarrow>
     (let (t1, s) = create_session (replicate 32 7) 0 ss_new; (t2, s) = create_session (replicate 32 35) 1 s
      in t1 \<noteq> t2 \<and> fst (is_valid 2 t1 s) \<and> fst (is_valid 2 t2 s))"

lemma passes_session_store_tokens_are_unique: test_session_store_tokens_are_unique
  by (simp add: test_session_store_tokens_are_unique_def web_simps)

definition test_session_store_token_length :: bool where
  "test_session_store_token_length \<longleftrightarrow>
     length (fst (create_session (replicate 32 7) 0 ss_new)) = 32"

lemma passes_session_store_token_length: test_session_store_token_length
  by (simp add: test_session_store_token_length_def web_simps)

definition test_session_store_token_is_alphanumeric :: bool where
  "test_session_store_token_is_alphanumeric \<longleftrightarrow>
     list_all (\<lambda>c. let n = of_char c :: nat in 97 \<le> n \<and> n \<le> 122 \<or> 48 \<le> n \<and> n \<le> 57)
       (fst (create_session [0..<36] 0 ss_new))"

lemma passes_session_store_token_is_alphanumeric: test_session_store_token_is_alphanumeric
  by (auto simp: test_session_store_token_is_alphanumeric_def create_session_def Let_def list_all_iff token_char_def of_char_of)

section \<open>\<open>config.rs\<close>\<close>

lemmas theme_simps = theme_default_def theme_to_index_def theme_from_index_def THEME_LIST_def upt_rec

definition test_theme_type_default_is_greybird :: bool where
  "test_theme_type_default_is_greybird \<longleftrightarrow>
     theme_default = Greybird"

lemma passes_theme_type_default_is_greybird: test_theme_type_default_is_greybird
  by (simp add: test_theme_type_default_is_greybird_def theme_simps)

definition test_theme_type_to_index_from_index_roundtrip :: bool where
  "test_theme_type_to_index_from_index_roundtrip \<longleftrightarrow>
     list_all (\<lambda>i. theme_to_index (THEME_LIST ! i) = Some (int i) \<and> theme_from_index (int i) = THEME_LIST ! i) [0..<8]"

lemma passes_theme_type_to_index_from_index_roundtrip: test_theme_type_to_index_from_index_roundtrip
  by (simp add: test_theme_type_to_index_from_index_roundtrip_def theme_simps)

definition test_theme_type_from_index_clamps :: bool where
  "test_theme_type_from_index_clamps \<longleftrightarrow>
     theme_from_index (- 1) = THEME_LIST ! 0 \<and> theme_from_index 100 = last THEME_LIST"

lemma passes_theme_type_from_index_clamps: test_theme_type_from_index_clamps
  by (simp add: test_theme_type_from_index_clamps_def theme_simps)

definition test_theme_type_name :: bool where
  "test_theme_type_name \<longleftrightarrow>
     theme_name Dark = ''Dark'' \<and> theme_name Metro = ''Metro''"

lemma passes_theme_type_name: test_theme_type_name
  by (simp add: test_theme_type_name_def theme_simps)

definition test_theme_list_length :: bool where
  "test_theme_list_length \<longleftrightarrow>
     length THEME_LIST = 8"

lemma passes_theme_list_length: test_theme_list_length
  by (simp add: test_theme_list_length_def theme_simps)

end
