(* ===== verification/SessionChannel.thy ===== *)
theory SessionChannel
  imports PipelineEnd SessionDemo WsFacts
begin

text \<open>
  A session over its WebSocket channel: the capture and encode threads of
  \<open>crates/rylus-server/src/session.rs\<close>, whose sends go through their clones of \<open>WsRylusSender\<close>, composed
  with the channel's tasks of \<open>crates/rylus-transport/src/websocket.rs\<close>.

  \<^item> A step of a thread leaves what it sends in the thread's hands; the sends follow one at a time, in
    order, and block while the message queue is full.  The thread's next step waits for them.
  \<^item> The client handler sends messages and receives; the reader reads what the peer sends.
  \<^item> \<open>se_log\<close> is a ghost history of the messages the queue accepted.
\<close>

section \<open>State\<close>

record ('r, 'e) session =
  se_pl :: "('r, 'e) pipeline"
  se_ws :: ws_state
  se_cap_sends :: "message_outbound list"
  se_enc_sends :: "(message_outbound + byte list) list"
  se_handler :: bool
  se_log :: "message_outbound list"

text \<open>\<open>se_handler\<close>: the client handler, which holds a sender of its own, still runs.\<close>

definition session_new :: "nanos \<Rightarrow> ('r, 'e) session" where
  "session_new now = \<lparr>se_pl = pl_init now, se_ws = rylus_websocket_channel, se_cap_sends = [],
     se_enc_sends = [], se_handler = True, se_log = []\<rparr>"

section \<open>Steps\<close>

text \<open>The steps of the two threads.\<close>

inductive capture_step :: "('r, 'e) pipeline \<Rightarrow> ('r, 'e) pipeline \<Rightarrow> bool" where
  Command: "pl_cap_pc s = CapLoop \<Longrightarrow> capture_step s (cap_command now (cmd :: unit video_command) created now2 s)"
| Tick: "pl_cap_pc s = CapLoop \<Longrightarrow> capture_step s (cap_tick now captured r' t s)"
| Restart: "cap_send_restart s = Some s' \<Longrightarrow> capture_step s s'"
| Offer: "pl_cap_pc s = CapFrame p t \<Longrightarrow> capture_step s (cap_send_frame p t queued_at now s)"
| Disconnect: "pl_cap_pc s = CapLoop \<Longrightarrow> capture_step s (s\<lparr>pl_cap_pc := CapStop\<rparr>)"
| Stop: "pl_cap_pc s = CapStop \<Longrightarrow> cap_send_stop s = Some s' \<Longrightarrow> capture_step s s'"

inductive encode_step :: "'e encoder_ops \<Rightarrow> ('r, 'e) pipeline \<Rightarrow> ('r, 'e) pipeline \<Rightarrow> bool" for ops where
  Recv: "pl_enc_pc s = EncWait \<Longrightarrow> encode_recv s = Some s' \<Longrightarrow> encode_step ops s s'"
| Encode: "pl_enc_pc s = EncBusy c \<Longrightarrow> encode_step ops s (encode_command_step ops t0 t1 c s)"

lemma pl_step_iff: "pl_step ops s s' \<longleftrightarrow> capture_step s s' \<or> encode_step ops s s'"
  by (auto elim!: pl_stepE capture_step.cases encode_step.cases
      intro: pl_step.intros capture_step.intros encode_step.intros)

text \<open>What a step added to the messages and to the chunks.\<close>

definition new_out :: "('r, 'e) pipeline \<Rightarrow> ('r, 'e) pipeline \<Rightarrow> message_outbound list" where
  "new_out p p' = drop (length (pl_out p)) (pl_out p')"

definition new_video :: "('r, 'e) pipeline \<Rightarrow> ('r, 'e) pipeline \<Rightarrow> byte list list" where
  "new_video p p' = drop (length (pl_video p)) (pl_video p')"

text \<open>A message through the sender: the error of a writer that has ended is ignored.\<close>

definition session_send :: "message_outbound \<Rightarrow> ('r, 'e) session \<Rightarrow> ('r, 'e) session option" where
  "session_send m s = (case send_message (se_ws s) m of
      Some (Inr _, w) \<Rightarrow> Some (s\<lparr>se_ws := w, se_log := se_log s @ [m]\<rparr>)
    | Some (Inl _, w) \<Rightarrow> Some (s\<lparr>se_ws := w\<rparr>)
    | None \<Rightarrow> None)"

definition session_video :: "byte list \<Rightarrow> ('r, 'e) session \<Rightarrow> ('r, 'e) session" where
  "session_video b s = s\<lparr>se_ws := snd (the (send_video (se_ws s) b))\<rparr>"

text \<open>The outbound side: the threads, their sends, the writer, and the end of the last sender.\<close>

inductive out_step ::
  "'e encoder_ops \<Rightarrow> (message_outbound \<Rightarrow> byte list option) \<Rightarrow> ('r, 'e) session \<Rightarrow> ('r, 'e) session \<Rightarrow> bool"
  for ops to_json where
  Capture: "se_cap_sends s = [] \<Longrightarrow> capture_step (se_pl s) p \<Longrightarrow>
    out_step ops to_json s (s\<lparr>se_pl := p, se_cap_sends := new_out (se_pl s) p\<rparr>)"
| Encode: "se_enc_sends s = [] \<Longrightarrow> encode_step ops (se_pl s) p \<Longrightarrow>
    out_step ops to_json s (s\<lparr>se_pl := p,
      se_enc_sends := map Inl (new_out (se_pl s) p) @ map Inr (new_video (se_pl s) p)\<rparr>)"
| CaptureSend: "se_cap_sends s = m # ms \<Longrightarrow> session_send m s = Some s' \<Longrightarrow>
    out_step ops to_json s (s'\<lparr>se_cap_sends := ms\<rparr>)"
| EncodeSend: "se_enc_sends s = Inl m # xs \<Longrightarrow> session_send m s = Some s' \<Longrightarrow>
    out_step ops to_json s (s'\<lparr>se_enc_sends := xs\<rparr>)"
| EncodeVideo: "se_enc_sends s = Inr b # xs \<Longrightarrow>
    out_step ops to_json s ((session_video b s)\<lparr>se_enc_sends := xs\<rparr>)"
| Writer: "writer_step to_json send_ok (se_ws s) = Some w \<Longrightarrow> out_step ops to_json s (s\<lparr>se_ws := w\<rparr>)"
| LastSender: "closed (se_pl s) \<Longrightarrow> se_cap_sends s = [] \<Longrightarrow> se_enc_sends s = [] \<Longrightarrow> \<not> se_handler s \<Longrightarrow>
    ws_senders (se_ws s) \<Longrightarrow> out_step ops to_json s (s\<lparr>se_ws := (se_ws s)\<lparr>ws_senders := False\<rparr>\<rparr>)"

text \<open>The rest: the handler's sends and its end, the reader and the receiver.\<close>

inductive session_step ::
  "'e encoder_ops \<Rightarrow> (byte list \<Rightarrow> message_inbound option) \<Rightarrow> (message_outbound \<Rightarrow> byte list option)
     \<Rightarrow> ('r, 'e) session \<Rightarrow> ('r, 'e) session \<Rightarrow> bool"
  for ops parse to_json where
  Out: "out_step ops to_json s s' \<Longrightarrow> session_step ops parse to_json s s'"
| HandlerSend: "se_handler s \<Longrightarrow> session_send m s = Some s' \<Longrightarrow> session_step ops parse to_json s s'"
| HandlerEnd: "session_step ops parse to_json s
    (s\<lparr>se_handler := False, se_ws := (se_ws s)\<lparr>ws_in_open := False, ws_in := []\<rparr>\<rparr>)"
| Reads: "ws_reader (se_ws s) = RSelect \<Longrightarrow>
    session_step ops parse to_json s (s\<lparr>se_ws := reader_on_event parse e (se_ws s)\<rparr>)"
| Forwards: "reader_forward (se_ws s) = Some w \<Longrightarrow> session_step ops parse to_json s (s\<lparr>se_ws := w\<rparr>)"
| Receives: "se_handler s \<Longrightarrow> ws_in_open (se_ws s) \<Longrightarrow> receiver_next (se_ws s) = Some (m, w) \<Longrightarrow>
    session_step ops parse to_json s (s\<lparr>se_ws := w\<rparr>)"

inductive session_reach ::
  "'e encoder_ops \<Rightarrow> (byte list \<Rightarrow> message_inbound option) \<Rightarrow> (message_outbound \<Rightarrow> byte list option)
     \<Rightarrow> ('r, 'e) session \<Rightarrow> bool"
  for ops parse to_json where
  Init: "session_reach ops parse to_json (session_new now)"
| Step: "session_reach ops parse to_json s \<Longrightarrow> session_step ops parse to_json s s' \<Longrightarrow>
    session_reach ops parse to_json s'"

inductive_cases out_stepE: "out_step ops to_json s s'"

section \<open>Threads only append\<close>

lemma capture_appends:
  assumes "capture_step s s'"
  shows "pl_out s' = pl_out s @ new_out s s' \<and> pl_video s' = pl_video s"
proof -
  have "prefix (pl_out s) (pl_out s') \<and> pl_video s' = pl_video s" using assms
  proof (induction rule: capture_step.induct)
    case (Command s now cmd created now2)
    then show ?case by (auto simp: cap_command_def Let_def split: prod.splits option.splits)
  next
    case (Tick s now captured r' t)
    then show ?case by (auto simp: cap_tick_def Let_def split: prod.splits option.splits)
  next
    case (Offer s p t queued_at now)
    then show ?case
      by (auto simp: cap_send_frame_def take_returned_def Let_def split: prod.splits option.splits list.splits)
  qed (auto simp: cap_send_restart_def cap_send_stop_def split: cap_pc.splits if_splits)
  then show ?thesis by (auto simp: new_out_def prefix_def)
qed

lemma encode_appends:
  assumes "encode_step ops s s'"
  shows "pl_out s' = pl_out s @ new_out s s' \<and> pl_video s' = pl_video s @ new_video s s'"
proof -
  have "prefix (pl_out s) (pl_out s') \<and> prefix (pl_video s) (pl_video s')" using assms
  proof (induction rule: encode_step.induct)
    case (Recv s s')
    then show ?case by (auto simp: encode_recv_def split: list.splits if_splits)
  next
    case (Encode s c t0 t1)
    then show ?case
      by (cases c) (auto simp: encode_command_step_def encode_frame_def encode_restart_def
          return_buffer_def Let_def split: option.splits prod.splits sum.splits)
  qed
  then show ?thesis by (auto simp: new_out_def new_video_def prefix_def)
qed

section \<open>What reaches the socket\<close>

fun text_of :: "ws_frame \<Rightarrow> byte list list" where
  "text_of (TextFrame t) = [t]"
| "text_of _ = []"

definition texts :: "ws_frame list \<Rightarrow> byte list list" where
  "texts fs = concat (map text_of fs)"

fun outbound_of :: "ws_message \<Rightarrow> message_outbound list" where
  "outbound_of (WsOutbound m) = [m]"
| "outbound_of (WsRaw _) = []"

definition waiting :: "ws_state \<Rightarrow> message_outbound list" where
  "waiting w = concat (map outbound_of (ws_out w))"

definition chunks_in_hand :: "('r, 'e) session \<Rightarrow> byte list list" where
  "chunks_in_hand s = concat (map (case_sum (\<lambda>_. []) (\<lambda>b. [b])) (se_enc_sends s))"

text \<open>The messages delivered are a prefix of those accepted, and the rest waits until the writer ends.\<close>

definition fifo :: "(message_outbound \<Rightarrow> byte list option) \<Rightarrow> message_outbound list \<Rightarrow> ws_state \<Rightarrow> bool" where
  "fifo to_json accepted w \<longleftrightarrow> (\<exists>d. prefix d accepted \<and> texts (ws_sent w) = List.map_filter to_json d
     \<and> (ws_writer w \<noteq> WEnded \<longrightarrow> accepted = d @ waiting w))"

definition session_inv ::
  "'e encoder_ops \<Rightarrow> (byte list \<Rightarrow> message_inbound option) \<Rightarrow> (message_outbound \<Rightarrow> byte list option)
     \<Rightarrow> ('r, 'e) session \<Rightarrow> bool" where
  "session_inv ops parse to_json s \<longleftrightarrow> pl_reach ops (se_pl s) \<and> ws_reach parse to_json (se_ws s)
     \<and> pl_video (se_pl s) = ws_pushed (se_ws s) @ chunks_in_hand s
     \<and> fifo to_json (se_log s) (se_ws s)
     \<and> (\<not> ws_senders (se_ws s) \<longrightarrow>
          closed (se_pl s) \<and> se_cap_sends s = [] \<and> se_enc_sends s = [] \<and> \<not> se_handler s)"

lemmas fifo_simps = fifo_def texts_def waiting_def

lemma fifo_writer_ended: "fifo to_json accepted w \<Longrightarrow> fifo to_json accepted (w\<lparr>ws_writer := WEnded\<rparr>)"
  by (auto simp: fifo_simps)

lemma fifo_cong: "ws_sent w' = ws_sent w \<Longrightarrow> ws_out w' = ws_out w \<Longrightarrow> ws_writer w \<noteq> WEnded \<or> ws_writer w' = WEnded
    \<Longrightarrow> fifo to_json accepted w \<Longrightarrow> fifo to_json accepted w'"
  by (auto simp: fifo_simps)

lemma fifo_message:
  assumes "fifo to_json accepted w" "ws_out w = m # ms" "is_outbound m" "ws_writer w \<noteq> WEnded"
  shows "fifo to_json accepted (writer_message to_json send_ok m (w\<lparr>ws_out := ms\<rparr>))"
proof -
  obtain x where m: "m = WsOutbound x" using assms(3) by (cases m) simp_all
  obtain d where d: "texts (ws_sent w) = List.map_filter to_json d"
    "accepted = d @ x # waiting (w\<lparr>ws_out := ms\<rparr>)"
    using assms(1,2,4) by (auto simp: fifo_simps m)
  then have "prefix d accepted" "prefix (d @ [x]) accepted" by (auto simp: prefix_def)
  show ?thesis
  proof (cases "to_json x")
    case None
    then show ?thesis using d \<open>prefix (d @ [x]) accepted\<close>
      by (auto simp: fifo_simps m writer_message_def List.map_filter_def intro!: exI [of _ "d @ [x]"])
  next
    case (Some t)
    show ?thesis
    proof (cases send_ok)
      case True
      then show ?thesis using d Some \<open>prefix (d @ [x]) accepted\<close>
        by (auto simp: fifo_simps m writer_message_def writer_deliver_def List.map_filter_def
            intro!: exI [of _ "d @ [x]"])
    next
      case False
      then show ?thesis using d Some \<open>prefix d accepted\<close>
        by (auto simp: fifo_simps m writer_message_def writer_deliver_def intro!: exI [of _ d])
    qed
  qed
qed

lemma fifo_sent_binary:
  "fifo to_json accepted w \<Longrightarrow> ws_writer w \<noteq> WEnded \<Longrightarrow>
     fifo to_json accepted (w\<lparr>ws_sent := ws_sent w @ [BinaryFrame b], ws_writer := WSending fs\<rparr>)"
  by (auto simp: fifo_simps)

lemma fifo_write:
  assumes "writer_step to_json send_ok w = Some w'" "fifo to_json accepted w" "list_all is_outbound (ws_out w)"
  shows "fifo to_json accepted w'"
proof (cases "ws_writer w")
  case WTop
  then have "w' = writer_top w" using assms(1) by (simp add: writer_step_def)
  then show ?thesis using WTop
    by (intro fifo_cong [OF _ _ _ assms(2)]) (simp_all add: writer_top_def vq_drain_def)
next
  case (WSending frames)
  then have w': "w' = writer_send send_ok frames w" using assms(1) by (simp add: writer_step_def)
  show ?thesis
  proof (cases frames)
    case Nil
    then show ?thesis using WSending w'
      by (intro fifo_cong [OF _ _ _ assms(2)]) (simp_all add: writer_send_def)
  next
    case (Cons b fs)
    then show ?thesis using WSending w' fifo_writer_ended [OF assms(2)] fifo_sent_binary [OF assms(2)]
      by (simp add: writer_send_def)
  qed
next
  case WSelect
  then have w: "writer_select to_json send_ok w = Some w'" using assms(1) by (simp add: writer_step_def)
  show ?thesis
  proof (cases "vq_permit (ws_vq w)")
    case True
    then have "w' = writer_notified w" using w by (simp add: writer_select_def)
    then show ?thesis using WSelect
      by (intro fifo_cong [OF _ _ _ assms(2)]) (simp_all add: writer_notified_def Let_def)
  next
    case False
    show ?thesis
    proof (cases "ws_out w")
      case Nil
      then show ?thesis using w False fifo_writer_ended [OF assms(2)]
        by (auto simp: writer_select_def split: if_splits)
    next
      case (Cons m ms)
      then show ?thesis using w False WSelect assms(2,3)
        by (auto simp: writer_select_def intro!: fifo_message)
    qed
  qed
qed (use assms(1) in \<open>simp add: writer_step_def\<close>)

lemma fifo_send:
  assumes "send_message w m = Some (Inr u, w')" "fifo to_json accepted w"
  shows "fifo to_json (accepted @ [m]) w'"
  using assms by (auto simp: send_message_def fifo_simps prefix_append split: if_splits)

section \<open>The composition keeps both invariants\<close>

lemma closed_no_step: "closed p \<Longrightarrow> \<not> capture_step p p'" "closed p \<Longrightarrow> \<not> encode_step ops p p'"
  by (auto simp: closed_def cap_send_restart_def elim!: capture_step.cases encode_step.cases)

lemma session_send_inv:
  assumes "session_inv ops parse to_json s" "session_send m s = Some s'" "ws_senders (se_ws s)"
  shows "session_inv ops parse to_json s' \<and> se_pl s' = se_pl s \<and> se_cap_sends s' = se_cap_sends s
     \<and> se_enc_sends s' = se_enc_sends s \<and> ws_senders (se_ws s')"
proof -
  obtain r w where r: "send_message (se_ws s) m = Some (r, w)"
    using assms(2) by (auto simp: session_send_def split: option.splits)
  have reach: "ws_reach parse to_json w"
    using assms(1) ws_reach.Step [OF _ ws_step.SendMessage [OF assms(3) r]] by (simp add: session_inv_def)
  have same: "ws_pushed w = ws_pushed (se_ws s)" "ws_senders w"
    using r assms(3) by (auto simp: send_message_def split: if_splits)
  show ?thesis
  proof (cases r)
    case (Inl e)
    then have "w = se_ws s" using r by (auto simp: send_message_def split: if_splits)
    then show ?thesis using assms Inl r by (auto simp: session_send_def)
  next
    case (Inr u)
    have "fifo to_json (se_log s @ [m]) w"
      using fifo_send [of "se_ws s" m u w] r Inr assms(1) by (simp add: session_inv_def)
    then show ?thesis using assms(1,2) Inr r reach same
      by (auto simp: session_send_def session_inv_def chunks_in_hand_def)
  qed
qed

lemma session_ws_inv:
  assumes "session_inv ops parse to_json s" "ws_reach parse to_json w"
    and "ws_pushed w = ws_pushed (se_ws s)" "ws_senders w = ws_senders (se_ws s)"
    and "fifo to_json (se_log s) w"
  shows "session_inv ops parse to_json (s\<lparr>se_ws := w\<rparr>)"
  using assms by (simp add: session_inv_def chunks_in_hand_def)

lemma writer_keeps:
  assumes "writer_step to_json send_ok w = Some w'"
  shows "ws_pushed w' = ws_pushed w \<and> ws_senders w' = ws_senders w"
  using assms
  by (auto simp: writer_step_def writer_top_def writer_send_def writer_select_def writer_notified_def
      writer_message_def writer_deliver_def Let_def
      split: writer_pc.splits list.splits if_splits ws_message.splits option.splits prod.splits)

lemma reader_keeps:
  "ws_pushed (reader_on_event parse e w) = ws_pushed w \<and> ws_senders (reader_on_event parse e w) = ws_senders w
     \<and> ws_sent (reader_on_event parse e w) = ws_sent w \<and> ws_out (reader_on_event parse e w) = ws_out w
     \<and> ws_writer (reader_on_event parse e w) = ws_writer w"
  by (auto simp: reader_on_event_def reader_on_frame_def reader_break_def
      split: read_event.split ws_frame.split option.split)

lemma forward_keeps:
  "reader_forward w = Some w' \<Longrightarrow> ws_pushed w' = ws_pushed w \<and> ws_senders w' = ws_senders w
     \<and> ws_sent w' = ws_sent w \<and> ws_out w' = ws_out w \<and> ws_writer w' = ws_writer w"
  by (auto simp: reader_forward_def split: reader_pc.splits if_splits)

lemma next_keeps:
  "receiver_next w = Some (m, w') \<Longrightarrow> ws_pushed w' = ws_pushed w \<and> ws_senders w' = ws_senders w
     \<and> ws_sent w' = ws_sent w \<and> ws_out w' = ws_out w \<and> ws_writer w' = ws_writer w"
  by (auto simp: receiver_next_def split: list.splits if_splits)

lemma session_video_inv:
  assumes "session_inv ops parse to_json s" "se_enc_sends s = Inr b # xs"
  shows "session_inv ops parse to_json ((session_video b s)\<lparr>se_enc_sends := xs\<rparr>)"
proof -
  let ?w = "(se_ws s)\<lparr>ws_vq := vq_push (ws_vq (se_ws s)) b, ws_pushed := ws_pushed (se_ws s) @ [b]\<rparr>"
  have senders: "ws_senders (se_ws s)" using assms by (auto simp: session_inv_def)
  have "ws_reach parse to_json ?w"
    using assms(1) ws_reach.Step [OF _ ws_step.SendVideo [OF senders, of b]]
    by (simp add: session_inv_def send_video_def)
  moreover have "fifo to_json (se_log s) ?w"
    using assms(1) by (auto simp: session_inv_def fifo_simps)
  ultimately show ?thesis using assms senders
    by (simp add: session_inv_def session_video_def send_video_def chunks_in_hand_def)
qed

lemma session_inv_out:
  assumes "out_step ops to_json s s'" "session_inv ops parse to_json s"
  shows "session_inv ops parse to_json s'"
  using assms
proof (induction rule: out_step.induct)
  case (Capture s p)
  then have "pl_reach ops p" "\<not> closed (se_pl s)"
    using pl_reach.Step [of ops "se_pl s" p] closed_no_step(1) by (auto simp: session_inv_def pl_step_iff)
  then show ?case using Capture capture_appends [OF Capture(2)]
    by (auto simp: session_inv_def chunks_in_hand_def)
next
  case (Encode s p)
  then have "pl_reach ops p" "\<not> closed (se_pl s)"
    using pl_reach.Step [of ops "se_pl s" p] closed_no_step(2) [of "se_pl s" ops]
    by (auto simp: session_inv_def pl_step_iff)
  then show ?case using Encode encode_appends [OF Encode(2)]
    by (auto simp: session_inv_def chunks_in_hand_def comp_def)
next
  case (CaptureSend s m ms s')
  then have "ws_senders (se_ws s)" by (auto simp: session_inv_def)
  from session_send_inv [OF CaptureSend(3,2) this] show ?case
    by (auto simp: session_inv_def chunks_in_hand_def)
next
  case (EncodeSend s m xs s')
  then have "ws_senders (se_ws s)" by (auto simp: session_inv_def)
  from session_send_inv [OF EncodeSend(3,2) this] show ?case
    using EncodeSend(1) by (auto simp: session_inv_def chunks_in_hand_def)
next
  case (EncodeVideo s b xs)
  then show ?case using session_video_inv by blast
next
  case (Writer send_ok s w)
  then have w: "ws_reach parse to_json (se_ws s)" by (simp add: session_inv_def)
  have "ws_reach parse to_json w" by (rule ws_reach.Step [OF w ws_step.Write [OF Writer(1)]])
  moreover have "fifo to_json (se_log s) w"
    using fifo_write [OF Writer(1)] Writer(2) ws_inv_reach [OF w]
    by (simp add: session_inv_def ws_inv_def ws_ordered_def)
  ultimately show ?case using Writer(2) writer_keeps [OF Writer(1)] by (intro session_ws_inv) simp_all
next
  case (LastSender s)
  have "ws_reach parse to_json ((se_ws s)\<lparr>ws_senders := False\<rparr>)"
    using LastSender(6) by (auto simp: session_inv_def intro: ws_reach.Step ws_step.DropSenders)
  then show ?case using LastSender by (auto simp: session_inv_def chunks_in_hand_def fifo_simps)
qed

lemma session_inv_step:
  assumes "session_step ops parse to_json s s'" "session_inv ops parse to_json s"
  shows "session_inv ops parse to_json s'"
  using assms
proof (induction rule: session_step.induct)
  case (Out s s')
  then show ?case by (rule session_inv_out)
next
  case (HandlerSend s m s')
  then have "ws_senders (se_ws s)" by (auto simp: session_inv_def)
  then show ?case using session_send_inv [OF HandlerSend(3,2)] by blast
next
  case (HandlerEnd s)
  have "ws_reach parse to_json ((se_ws s)\<lparr>ws_in_open := False, ws_in := []\<rparr>)"
    using HandlerEnd by (auto simp: session_inv_def intro: ws_reach.Step ws_step.DropReceiver)
  then show ?case using HandlerEnd by (auto simp: session_inv_def chunks_in_hand_def fifo_simps)
next
  case (Reads s e)
  have "ws_reach parse to_json (reader_on_event parse e (se_ws s))"
    using Reads by (auto simp: session_inv_def intro: ws_reach.Step ws_step.Read)
  then show ?case using Reads(2) reader_keeps [of parse e "se_ws s"]
    by (intro session_ws_inv) (auto simp: session_inv_def intro: fifo_cong [rotated -1])
next
  case (Forwards s w)
  have "ws_reach parse to_json w"
    using Forwards by (auto simp: session_inv_def intro: ws_reach.Step ws_step.Forward)
  then show ?case using Forwards(2) forward_keeps [OF Forwards(1)]
    by (intro session_ws_inv) (auto simp: session_inv_def intro: fifo_cong [rotated -1])
next
  case (Receives s m w)
  have "ws_reach parse to_json w"
    using Receives by (auto simp: session_inv_def intro: ws_reach.Step ws_step.Next)
  then show ?case using Receives(4) next_keeps [OF Receives(3)]
    by (intro session_ws_inv) (auto simp: session_inv_def intro: fifo_cong [rotated -1])
qed

lemma session_inv_reach: "session_reach ops parse to_json s \<Longrightarrow> session_inv ops parse to_json s"
proof (induction rule: session_reach.induct)
  case (Init now)
  show ?case
    by (auto simp: session_inv_def session_new_def chunks_in_hand_def fifo_simps pl_init_def
        rylus_websocket_channel_def intro: ws_reach.Init [unfolded rylus_websocket_channel_def]
          pl_reach.Init [unfolded pl_init_def])
next
  case (Step s s')
  then show ?case using session_inv_step by blast
qed

text \<open>What is on the socket, and where the rest is.\<close>

lemma session_ws_reach: "session_reach ops parse to_json s \<Longrightarrow> ws_inv parse (se_ws s)"
  using session_inv_reach [of ops parse to_json s] ws_inv_reach [of parse to_json "se_ws s"]
  by (simp add: session_inv_def)

lemma session_sent_video:
  assumes "session_reach ops parse to_json s"
  shows "subseq (videos (ws_sent (se_ws s))) (pl_video (se_pl s))"
proof -
  have "subseq (pipeline_frames (se_ws s)) (ws_pushed (se_ws s))"
    using session_ws_reach [OF assms] by (simp add: ws_inv_def ws_ordered_def)
  moreover have "subseq (videos (ws_sent (se_ws s))) (pipeline_frames (se_ws s))"
    unfolding pipeline_frames_def by (rule list_emb_prefix) simp
  moreover have "subseq (ws_pushed (se_ws s)) (pl_video (se_pl s))"
    using session_inv_reach [OF assms] by (simp add: session_inv_def list_emb_prefix)
  ultimately show ?thesis by (meson subseq_order.trans)
qed

lemma session_accounted:
  assumes "session_reach ops parse to_json s" "ws_writer (se_ws s) \<noteq> WEnded"
  shows "length (pl_video (se_pl s)) mod 2 ^ 64 =
     (length (pipeline_frames (se_ws s)) + length (chunks_in_hand s) + vq_dropped (ws_vq (se_ws s))) mod 2 ^ 64"
proof -
  have "length (ws_pushed (se_ws s)) mod 2 ^ 64
      = (length (pipeline_frames (se_ws s)) + vq_dropped (ws_vq (se_ws s))) mod 2 ^ 64"
    using session_ws_reach [OF assms(1)] assms(2) by (simp add: ws_inv_def ws_accounted_def)
  then have "(length (ws_pushed (se_ws s)) + length (chunks_in_hand s)) mod 2 ^ 64
      = (length (pipeline_frames (se_ws s)) + vq_dropped (ws_vq (se_ws s)) + length (chunks_in_hand s)) mod 2 ^ 64"
    by (rule mod_add_cong) simp
  then show ?thesis using session_inv_reach [OF assms(1)] by (simp add: session_inv_def ac_simps)
qed

end
