(* ===== verification/SessionEnd.thy ===== *)
theory SessionEnd
  imports SessionChannel
begin

text \<open>
  The end of a session over its channel: once the client handler is gone, the capture thread, the encode
  thread and the writer have finitely many steps left in every order, whatever the socket answers, and they
  are never stuck before all three have ended.  The threads may block on a full message queue and the
  writer may wait for them; no cycle of waiting can arise.
\<close>

definition writer_work :: "ws_state \<Rightarrow> nat" where
  "writer_work w = 4 * length (vq_inner (ws_vq w)) + (if vq_permit (ws_vq w) then 3 else 0)
     + 3 * length (ws_out w)
     + (case ws_writer w of WTop \<Rightarrow> 2 | WSending fs \<Rightarrow> length fs + 3 | WSelect \<Rightarrow> 1 | WEnded \<Rightarrow> 0)"

lemma writer_work_less:
  assumes "writer_step to_json send_ok w = Some w'"
  shows "writer_work w' < writer_work w"
proof (cases "ws_writer w")
  case WTop
  then show ?thesis using assms
    by (cases "vq_inner (ws_vq w)") (auto simp: writer_step_def writer_top_def vq_drain_def writer_work_def)
next
  case (WSending fs)
  then show ?thesis using assms
    by (cases fs) (auto simp: writer_step_def writer_send_def writer_work_def)
next
  case WSelect
  then show ?thesis using assms
    by (auto simp: writer_step_def writer_select_def writer_notified_def writer_message_def
        writer_deliver_def writer_work_def Let_def
        split: if_splits list.splits ws_message.splits option.splits)
qed (use assms in \<open>simp add: writer_step_def\<close>)

lemma session_send_keeps:
  "session_send m s = Some s' \<Longrightarrow> se_pl s' = se_pl s \<and> se_cap_sends s' = se_cap_sends s
     \<and> se_enc_sends s' = se_enc_sends s \<and> se_handler s' = se_handler s"
  by (auto simp: session_send_def split: option.splits sum.splits prod.splits)

text \<open>Lexicographic: the steps of the threads, the sends in their hands, the last sender, the writer.\<close>

definition out_work :: "(('r, 'e) session \<times> ('r, 'e) session) set" where
  "out_work = measures [\<lambda>s. work_left (se_pl s), \<lambda>s. length (se_cap_sends s) + length (se_enc_sends s),
     \<lambda>s. if ws_senders (se_ws s) then 1 else 0, \<lambda>s. writer_work (se_ws s)]"

lemma wf_out_work: "wf out_work"
  by (simp add: out_work_def)

lemma out_step_less:
  assumes "out_step ops to_json s s'" "closing (se_pl s)" "\<not> se_handler s"
  shows "(s', s) \<in> out_work \<and> closing (se_pl s') \<and> \<not> se_handler s'"
  using assms
proof (induction rule: out_step.induct)
  case (Capture s p)
  then have "pl_step undefined (se_pl s) p" by (simp add: pl_step_iff)
  from closing_step [OF this] Capture show ?case by (simp add: out_work_def)
next
  case (Encode s p)
  then have "pl_step ops (se_pl s) p" by (simp add: pl_step_iff)
  from closing_step [OF this] Encode show ?case by (simp add: out_work_def)
next
  case (CaptureSend s m ms s')
  then show ?case using session_send_keeps [OF CaptureSend(2)] by (simp add: out_work_def)
next
  case (EncodeSend s m xs s')
  then show ?case using session_send_keeps [OF EncodeSend(2)] by (simp add: out_work_def)
next
  case (EncodeVideo s b xs)
  then show ?case by (simp add: out_work_def session_video_def)
next
  case (Writer send_ok s w)
  then show ?case using writer_keeps [OF Writer(1)] writer_work_less [OF Writer(1)]
    by (simp add: out_work_def)
next
  case (LastSender s)
  then show ?case by (simp add: out_work_def)
qed

lemma out_run:
  assumes "(out_step ops to_json)\<^sup>*\<^sup>* s s'" "closing (se_pl s)" "\<not> se_handler s"
  shows "closing (se_pl s') \<and> \<not> se_handler s'"
  using assms by (induction rule: rtranclp_induct) (auto dest: out_step_less)

lemma no_endless_run:
  assumes "closing (se_pl (f 0))" "\<not> se_handler (f 0)"
  shows "\<exists>i. \<not> out_step ops to_json (f i) (f (Suc i))"
proof (rule ccontr)
  assume "\<nexists>i. \<not> out_step ops to_json (f i) (f (Suc i))"
  then have step: "out_step ops to_json (f i) (f (Suc i))" for i by blast
  have "closing (se_pl (f i)) \<and> \<not> se_handler (f i)" for i
    using assms step out_step_less by (induction i) blast+
  then have "(f (Suc i), f i) \<in> out_work" for i using step out_step_less by blast
  then show False using wf_out_work unfolding wf_iff_no_infinite_down_chain by blast
qed

section \<open>Never stuck\<close>

text \<open>A writer with something to do can do it.\<close>

lemma writer_can:
  "ws_writer w \<noteq> WEnded \<Longrightarrow> ws_out w \<noteq> [] \<or> \<not> ws_senders w \<Longrightarrow> \<exists>w'. writer_step to_json True w = Some w'"
  by (cases "ws_writer w") (auto simp: writer_step_def writer_select_def split: list.split)

lemma send_or_write:
  "\<exists>s'. session_send m s = Some s' \<or> (\<exists>w. writer_step to_json True (se_ws s) = Some w)"
proof (cases "session_send m s")
  case None
  then have "ws_writer (se_ws s) \<noteq> WEnded" "\<not> length (ws_out (se_ws s)) < CHANNEL_BUFFER_SIZE"
    by (auto simp: session_send_def send_message_def split: if_splits)
  then have "ws_writer (se_ws s) \<noteq> WEnded" "ws_out (se_ws s) \<noteq> []"
    by (auto simp: CHANNEL_BUFFER_SIZE_def)
  then show ?thesis using writer_can [of "se_ws s" to_json] by blast
qed auto

lemma out_progress:
  assumes "closing (se_pl s)" "\<not> se_handler s" "\<And>s'. \<not> out_step ops to_json s s'"
  shows "closed (se_pl s) \<and> se_cap_sends s = [] \<and> se_enc_sends s = [] \<and> ws_writer (se_ws s) = WEnded"
proof -
  note stuck = assms(3)
  have idle: "writer_step to_json True (se_ws s) = None"
    using stuck out_step.Writer by (cases "writer_step to_json True (se_ws s)") blast+
  have cap: "se_cap_sends s = []"
  proof (cases "se_cap_sends s")
    case (Cons m ms)
    then show ?thesis using send_or_write [of m s to_json] idle stuck out_step.CaptureSend by fastforce
  qed
  have enc: "se_enc_sends s = []"
  proof (cases "se_enc_sends s")
    case (Cons x xs)
    show ?thesis
    proof (cases x)
      case (Inl m)
      then show ?thesis using Cons send_or_write [of m s to_json] idle stuck out_step.EncodeSend by fastforce
    next
      case (Inr b)
      then show ?thesis using Cons stuck out_step.EncodeVideo by fastforce
    qed
  qed
  have closed: "closed (se_pl s)"
  proof (rule ccontr)
    assume "\<not> closed (se_pl s)"
    then obtain p where "pl_step ops (se_pl s) p" using closing_progress [OF assms(1)] by blast
    then show False using stuck cap enc out_step.Capture out_step.Encode by (fastforce simp: pl_step_iff)
  qed
  then have "\<not> ws_senders (se_ws s)" using stuck cap enc assms(2) out_step.LastSender by blast
  then have "ws_writer (se_ws s) = WEnded" using writer_can [of "se_ws s" to_json] idle by fastforce
  then show ?thesis using closed cap enc by simp
qed

section \<open>The end is reached\<close>

definition session_ended :: "('r, 'e) session \<Rightarrow> bool" where
  "session_ended s \<longleftrightarrow> closed (se_pl s) \<and> se_cap_sends s = [] \<and> se_enc_sends s = []
     \<and> ws_writer (se_ws s) = WEnded"

lemma out_reaches_end:
  "closing (se_pl s) \<Longrightarrow> \<not> se_handler s \<Longrightarrow> \<exists>s'. (out_step ops to_json)\<^sup>*\<^sup>* s s' \<and> session_ended s'"
proof (induction s rule: wf_induct_rule [of out_work, OF wf_out_work])
  case (1 s)
  show ?case
  proof (cases "\<exists>s'. out_step ops to_json s s'")
    case True
    then obtain s' where "out_step ops to_json s s'" by blast
    with out_step_less [OF this 1(2,3)] 1(1) show ?thesis by (meson converse_rtranclp_into_rtranclp)
  next
    case False
    then have "\<And>s'. \<not> out_step ops to_json s s'" by blast
    from out_progress [OF 1(2,3) this] have "session_ended s" by (simp add: session_ended_def)
    then show ?thesis by blast
  qed
qed

end
