(* ===== verification/SessionRun.thy ===== *)
theory SessionRun
  imports SessionEnd
begin

text \<open>
  A concrete session over its channel: the run of \<open>SessionDemo\<close> with its messages accepted by the
  channel and its chunk sent to the socket.
\<close>

lemma run_capture:
  assumes "session_reach ops parse to_json s" "se_cap_sends s = []" "capture_step (se_pl s) p"
    and "pl_out p = pl_out (se_pl s) @ ms"
  shows "session_reach ops parse to_json (s\<lparr>se_pl := p, se_cap_sends := ms\<rparr>)"
proof -
  have "new_out (se_pl s) p = ms" using assms(4) by (simp add: new_out_def)
  then show ?thesis
    using session_reach.Step [OF assms(1) session_step.Out [OF out_step.Capture [OF assms(2,3)]]] by simp
qed

lemma run_encode:
  assumes "session_reach ops parse to_json s" "se_enc_sends s = []" "encode_step ops (se_pl s) p"
    and "pl_out p = pl_out (se_pl s) @ ms" "pl_video p = pl_video (se_pl s) @ bs"
  shows "session_reach ops parse to_json (s\<lparr>se_pl := p, se_enc_sends := map Inl ms @ map Inr bs\<rparr>)"
proof -
  have "new_out (se_pl s) p = ms" "new_video (se_pl s) p = bs"
    using assms(4,5) by (simp_all add: new_out_def new_video_def)
  then show ?thesis
    using session_reach.Step [OF assms(1) session_step.Out [OF out_step.Encode [OF assms(2,3)]]] by simp
qed

text \<open>A step that sends nothing.\<close>

lemma run_capture_quiet:
  assumes "session_reach ops parse to_json s" "se_cap_sends s = []" "capture_step (se_pl s) p"
    and "pl_out p = pl_out (se_pl s)"
  shows "session_reach ops parse to_json (s\<lparr>se_pl := p\<rparr>)"
proof -
  have "s\<lparr>se_pl := p, se_cap_sends := []\<rparr> = s\<lparr>se_pl := p\<rparr>" using assms(2) by (cases s) simp
  then show ?thesis using run_capture [OF assms(1-3), of "[]"] assms(4) by simp
qed

lemma run_encode_quiet:
  assumes "session_reach ops parse to_json s" "se_enc_sends s = []" "encode_step ops (se_pl s) p"
    and "pl_out p = pl_out (se_pl s)" "pl_video p = pl_video (se_pl s)"
  shows "session_reach ops parse to_json (s\<lparr>se_pl := p\<rparr>)"
proof -
  have "s\<lparr>se_pl := p, se_enc_sends := []\<rparr> = s\<lparr>se_pl := p\<rparr>" using assms(2) by (cases s) simp
  then show ?thesis using run_encode [OF assms(1-3), of "[]" "[]"] assms(4,5) by simp
qed

lemma run_write:
  "session_reach ops parse to_json s \<Longrightarrow> writer_step to_json send_ok (se_ws s) = Some w \<Longrightarrow>
     session_reach ops parse to_json (s\<lparr>se_ws := w\<rparr>)"
  by (rule session_reach.Step) (auto intro: session_step.Out out_step.Writer)

definition accept :: "message_outbound \<Rightarrow> ('r, 'e) session \<Rightarrow> ('r, 'e) session" where
  "accept m s = s\<lparr>se_ws := (se_ws s)\<lparr>ws_out := ws_out (se_ws s) @ [WsOutbound m]\<rparr>, se_log := se_log s @ [m]\<rparr>"

lemma session_send_accept:
  "ws_writer (se_ws s) \<noteq> WEnded \<Longrightarrow> length (ws_out (se_ws s)) < 32 \<Longrightarrow> session_send m s = Some (accept m s)"
  by (simp add: session_send_def send_message_def CHANNEL_BUFFER_SIZE_def accept_def)

text \<open>The channel after the three messages of the start, before the frame, and with the chunk on the wire.\<close>

definition run_channel :: ws_state where
  "run_channel = rylus_websocket_channel\<lparr>ws_out := map WsOutbound [ConfigOk, NewVideo, VideoInit ''avc1'']\<rparr>"

definition run_started :: "(unit, nat) session" where
  "run_started = (session_new 0)\<lparr>se_pl := demo_3 demo_ops, se_ws := run_channel,
     se_log := [ConfigOk, NewVideo, VideoInit ''avc1'']\<rparr>"

definition run_sent :: "(unit, nat) session" where
  "run_sent = run_started\<lparr>se_pl := demo_6 demo_ops,
     se_ws := run_channel\<lparr>ws_vq := (vq_push vq_new [1, 2])\<lparr>vq_inner := []\<rparr>, ws_pushed := [[1, 2]],
       ws_sent := [BinaryFrame [1, 2]], ws_writer := WSending []\<rparr>\<rparr>"

lemma demo_out:
  "pl_out (demo_1 :: (unit, nat) pipeline) = [ConfigOk]" "pl_out (demo_2 :: (unit, nat) pipeline) = [ConfigOk]"
  "pl_out (demo_3 demo_ops) = [ConfigOk, NewVideo, VideoInit ''avc1'']"
  "pl_video (demo_2 :: (unit, nat) pipeline) = []" "pl_video (demo_3 demo_ops) = []"
proof -
  have c: "eo_codec_string demo_ops e = ''avc1''" for e by (simp add: demo_ops_def)
  show "pl_out (demo_1 :: (unit, nat) pipeline) = [ConfigOk]" "pl_out (demo_2 :: (unit, nat) pipeline) = [ConfigOk]"
    "pl_out (demo_3 demo_ops) = [ConfigOk, NewVideo, VideoInit ''avc1'']"
    "pl_video (demo_2 :: (unit, nat) pipeline) = []" "pl_video (demo_3 demo_ops) = []"
    by (simp_all add: demo_1_eq demo_2_eq demo_3_eq [OF demo_ops_new] pl_init_def c)
qed

lemma run_capture_send:
  assumes "session_reach ops parse to_json (s\<lparr>se_cap_sends := m # ms\<rparr>)"
    and "ws_writer (se_ws s) \<noteq> WEnded" "length (ws_out (se_ws s)) < 32"
  shows "session_reach ops parse to_json (accept m s\<lparr>se_cap_sends := ms\<rparr>)"
proof -
  let ?s = "s\<lparr>se_cap_sends := m # ms\<rparr>"
  have "session_send m ?s = Some (accept m ?s)" by (rule session_send_accept) (simp_all add: assms)
  then have "out_step ops to_json ?s ((accept m ?s)\<lparr>se_cap_sends := ms\<rparr>)"
    by (rule out_step.CaptureSend [rotated]) simp
  from session_reach.Step [OF assms(1) session_step.Out [OF this]] show ?thesis
    by (simp add: accept_def)
qed

lemma run_encode_send:
  assumes "session_reach ops parse to_json (s\<lparr>se_enc_sends := Inl m # xs\<rparr>)"
    and "ws_writer (se_ws s) \<noteq> WEnded" "length (ws_out (se_ws s)) < 32"
  shows "session_reach ops parse to_json (accept m s\<lparr>se_enc_sends := xs\<rparr>)"
proof -
  let ?s = "s\<lparr>se_enc_sends := Inl m # xs\<rparr>"
  have "session_send m ?s = Some (accept m ?s)" by (rule session_send_accept) (simp_all add: assms)
  then have "out_step ops to_json ?s ((accept m ?s)\<lparr>se_enc_sends := xs\<rparr>)"
    by (rule out_step.EncodeSend [rotated]) simp
  from session_reach.Step [OF assms(1) session_step.Out [OF this]] show ?thesis
    by (simp add: accept_def)
qed

lemma run_started_reach: "session_reach demo_ops parse to_json run_started"
proof -
  let ?r = "session_reach demo_ops parse to_json"
  let ?s0 = "session_new 0 :: (unit, nat) session"
  let ?s1 = "?s0\<lparr>se_pl := demo_1\<rparr>"
  let ?s2 = "accept ConfigOk ?s1"
  let ?t = "cap_tick 0 (Inr demo_frame) () 0 demo_1 :: (unit, nat) pipeline"
  let ?e = "the (encode_recv demo_2) :: (unit, nat) pipeline"
  let ?s3 = "?s2\<lparr>se_pl := demo_3 demo_ops\<rparr>"
  have f: "se_pl ?s0 = pl_init 0" "se_cap_sends ?s0 = []" "se_enc_sends ?s0 = []"
    "ws_writer (se_ws ?s0) = WTop" "ws_out (se_ws ?s0) = []"
    by (simp_all add: session_new_def rylus_websocket_channel_def)
  have f2: "se_cap_sends ?s2 = []" "se_enc_sends ?s2 = []" "ws_writer (se_ws ?s2) = WTop"
    "ws_out (se_ws ?s2) = [WsOutbound ConfigOk]"
    by (simp_all add: accept_def f)
  have c1: "capture_step (pl_init 0 :: (unit, nat) pipeline) demo_1"
    unfolding demo_1_def by (rule capture_step.Command) (simp add: pl_init_def)
  have ct: "capture_step demo_1 ?t" by (rule capture_step.Tick) (simp add: demo_1_eq pl_init_def)
  have c2: "capture_step ?t demo_2"
    by (rule capture_step.Restart) (simp add: demo_2_eq demo_tick_eq cap_send_restart_def pl_init_def)
  have e: "encode_step demo_ops demo_2 ?e" "encode_step demo_ops ?e (demo_3 demo_ops)"
    unfolding demo_3_def
    by (auto intro!: encode_step.Recv encode_step.Encode simp: demo_2_eq pl_init_def encode_recv_def)
  have o: "pl_out ?t = [ConfigOk]" "pl_out ?e = [ConfigOk]" "pl_video ?e = []"
    by (simp_all add: demo_tick_eq demo_2_eq pl_init_def encode_recv_def)
  have p0: "pl_out (pl_init 0 :: (unit, nat) pipeline) = []" by (simp add: pl_init_def)
  have "?r (?s1\<lparr>se_cap_sends := [ConfigOk]\<rparr>)"
    by (rule run_capture [OF session_reach.Init f(2)]) (simp_all add: f c1 demo_out p0)
  then have "?r (?s2\<lparr>se_cap_sends := []\<rparr>)" by (rule run_capture_send) (simp_all add: f)
  then have "?r ?s2" by (simp add: accept_def session_new_def)
  from run_capture_quiet [OF this, of ?t] have "?r (?s2\<lparr>se_pl := ?t\<rparr>)"
    by (simp add: accept_def f ct demo_out o)
  from run_capture_quiet [OF this, of demo_2] have "?r (?s2\<lparr>se_pl := demo_2\<rparr>)"
    by (simp add: accept_def f c2 demo_out o)
  from run_encode_quiet [OF this, of ?e] have "?r (?s2\<lparr>se_pl := ?e\<rparr>)"
    by (simp add: accept_def f e demo_out o)
  from run_encode [OF this, of "demo_3 demo_ops" "[NewVideo, VideoInit ''avc1'']" "[]"]
  have "?r (?s3\<lparr>se_enc_sends := [Inl NewVideo, Inl (VideoInit ''avc1'')]\<rparr>)"
    by (simp add: accept_def f e demo_out o)
  then have "?r ((accept NewVideo ?s3)\<lparr>se_enc_sends := [Inl (VideoInit ''avc1'')]\<rparr>)"
    by (rule run_encode_send) (simp_all add: f2)
  then have "?r ((accept (VideoInit ''avc1'') (accept NewVideo ?s3))\<lparr>se_enc_sends := []\<rparr>)"
    by (rule run_encode_send) (simp_all add: accept_def f)
  moreover have "(accept (VideoInit ''avc1'') (accept NewVideo ?s3))\<lparr>se_enc_sends := []\<rparr> = run_started"
    by (simp add: accept_def run_started_def run_channel_def session_new_def rylus_websocket_channel_def)
  ultimately show ?thesis by simp
qed

text \<open>The frame is offered, encoded and sent.\<close>

lemma demo_frame_out:
  "pl_out (demo_4 demo_ops) = pl_out (demo_3 demo_ops)" "pl_out (demo_5 demo_ops) = pl_out (demo_3 demo_ops)"
  "pl_out (demo_6 demo_ops) = pl_out (demo_3 demo_ops)"
  "pl_video (demo_4 demo_ops) = []" "pl_video (demo_5 demo_ops) = []" "pl_video (demo_6 demo_ops) = [[1, 2]]"
proof -
  obtain c where d4: "demo_4 demo_ops = (demo_3 demo_ops)\<lparr>pl_cap := c, pl_cap_pc := CapLoop, pl_chan := [demo_command]\<rparr>"
    using demo_4_eq [OF demo_ops_new] by blast
  show a: "pl_out (demo_4 demo_ops) = pl_out (demo_3 demo_ops)" "pl_video (demo_4 demo_ops) = []"
    by (simp_all add: d4 demo_out)
  show b: "pl_out (demo_5 demo_ops) = pl_out (demo_3 demo_ops)" "pl_video (demo_5 demo_ops) = []"
    unfolding demo_5_def d4 by (simp_all add: encode_recv_def demo_out)
  show "pl_out (demo_6 demo_ops) = pl_out (demo_3 demo_ops)" "pl_video (demo_6 demo_ops) = [[1, 2]]"
    using b demo_5_fields [OF demo_ops_new]
    by (simp_all add: demo_6_def demo_command_def encode_command_step_def encode_frame_def
        return_buffer_def Let_def case_prod_beta demo_ops_def)
qed

lemma run_sent_reach: "session_reach demo_ops parse to_json run_sent"
proof -
  let ?r = "session_reach demo_ops parse to_json"
  let ?s6 = "run_started\<lparr>se_pl := demo_6 demo_ops\<rparr>"
  let ?vq = "vq_push vq_new [1, 2]"
  let ?w = "run_channel\<lparr>ws_vq := ?vq, ws_pushed := [[1, 2]]\<rparr>"
  let ?w' = "?w\<lparr>ws_vq := ?vq\<lparr>vq_inner := []\<rparr>, ws_writer := WSending [[1, 2]]\<rparr>"
  have f: "se_pl run_started = demo_3 demo_ops" "se_cap_sends run_started = []" "se_enc_sends run_started = []"
    "se_ws run_started = run_channel"
    by (simp_all add: run_started_def session_new_def)
  obtain c where d4: "demo_4 demo_ops = (demo_3 demo_ops)\<lparr>pl_cap := c, pl_cap_pc := CapLoop, pl_chan := [demo_command]\<rparr>"
    using demo_4_eq [OF demo_ops_new] by blast
  have c4: "capture_step (demo_3 demo_ops) (demo_4 demo_ops)"
    unfolding demo_4_def by (rule capture_step.Offer) (simp add: demo_3_eq [OF demo_ops_new] pl_init_def)
  have e5: "encode_step demo_ops (demo_4 demo_ops) (demo_5 demo_ops)"
    unfolding demo_5_def
    by (rule encode_step.Recv) (simp_all add: d4 demo_3_eq [OF demo_ops_new] pl_init_def encode_recv_def)
  have e6: "encode_step demo_ops (demo_5 demo_ops) (demo_6 demo_ops)"
    unfolding demo_6_def by (rule encode_step.Encode) (rule demo_5_fields [OF demo_ops_new])
  have "?r (run_started\<lparr>se_pl := demo_4 demo_ops\<rparr>)"
    using run_capture_quiet [OF run_started_reach, of "demo_4 demo_ops"] by (simp add: f c4 demo_frame_out)
  from run_encode_quiet [OF this, of "demo_5 demo_ops"]
  have "?r (run_started\<lparr>se_pl := demo_5 demo_ops\<rparr>)" by (simp add: f e5 demo_frame_out)
  from run_encode [OF this, of "demo_6 demo_ops" "[]" "[[1, 2]]"]
  have "?r (?s6\<lparr>se_enc_sends := [Inr [1, 2]]\<rparr>)" by (simp add: f e6 demo_frame_out)
  from session_reach.Step [OF this session_step.Out [OF out_step.EncodeVideo]]
  have "?r (?s6\<lparr>se_ws := ?w\<rparr>)"
    by (auto simp: session_video_def send_video_def f run_channel_def rylus_websocket_channel_def run_started_def
        session_new_def)
  moreover have "writer_step to_json True ?w = Some ?w'"
    by (simp add: writer_step_def writer_top_def vq_drain_def run_channel_def rylus_websocket_channel_def
        vq_push_inner lastn_short)
  ultimately have "?r (?s6\<lparr>se_ws := ?w'\<rparr>)" using run_write [where w = ?w'] by fastforce
  moreover have "writer_step to_json True ?w' = Some (se_ws run_sent)"
    by (simp add: writer_step_def writer_send_def run_sent_def run_channel_def rylus_websocket_channel_def)
  ultimately have "?r (?s6\<lparr>se_ws := se_ws run_sent\<rparr>)" using run_write [where w = "se_ws run_sent"] by fastforce
  then show ?thesis by (simp add: run_sent_def)
qed

end
