(* ===== verification/PortalBus.thy ===== *)
theory PortalBus
  imports PortalSession RustNum
begin

text \<open>
  The D-Bus proxies of \<open>crates/rylus-capture/src/remote_desktop_dbus.rs\<close> (the interfaces Request, Session,
  ScreenCast and RemoteDesktop of the desktop portal), and the negotiation of \<open>PortalSession\<close> over
  them.  A proxy's method is the message it sends with the reader of the reply; the bus, which answers a
  message with an error or the values of a reply, is the argument \<open>bus\<close> of \<open>perform\<close>.

  \<^item> A reader fails on a reply whose first values are not of the types expected.
  \<^item> The options of a call (\<open>PropMap\<close>) are a map from names to variants.
\<close>

section \<open>Messages\<close>

datatype option_value = OU32 u32 | OStr string | OBool bool

type_synonym prop_map = "string \<Rightarrow> option_value option"

datatype bus_arg =
    BU32 u32
  | BI32 int
  | BDouble f64
  | BStr string
  | BPath string
  | BFd nat
  | BVariant bus_arg
  | BOptions prop_map
  | BResults "string \<Rightarrow> ref_arg option"

record proxy =
  px_destination :: string
  px_path :: string
  px_timeout :: nanos

record bus_message =
  bm_destination :: string
  bm_path :: string
  bm_interface :: string
  bm_member :: string
  bm_args :: "bus_arg list"

type_synonym bus = "bus_message \<Rightarrow> string + bus_arg list"
type_synonym 'a bus_call = "bus_message \<times> (bus_arg list \<Rightarrow> string + 'a)"

text \<open>\<open>Proxy::method_call\<close> and \<open>Properties::get\<close>.\<close>

definition method_call :: "proxy \<Rightarrow> string \<Rightarrow> string \<Rightarrow> bus_arg list \<Rightarrow> (bus_arg list \<Rightarrow> string + 'a) \<Rightarrow> 'a bus_call" where
  "method_call px i m args rd = (\<lparr>bm_destination = px_destination px, bm_path = px_path px,
     bm_interface = i, bm_member = m, bm_args = args\<rparr>, rd)"

definition perform :: "bus \<Rightarrow> 'a bus_call \<Rightarrow> string + 'a" where
  "perform bus c = (case bus (fst c) of Inl e \<Rightarrow> Inl e | Inr reply \<Rightarrow> snd c reply)"

definition read_unit :: "bus_arg list \<Rightarrow> string + unit" where
  "read_unit args = Inr ()"

definition read_path :: "bus_arg list \<Rightarrow> string + string" where
  "read_path args = (case args of BPath x # _ \<Rightarrow> Inr x | _ \<Rightarrow> Inl ''type mismatch'')"

definition read_fd :: "bus_arg list \<Rightarrow> string + nat" where
  "read_fd args = (case args of BFd n # _ \<Rightarrow> Inr n | _ \<Rightarrow> Inl ''type mismatch'')"

definition read_property_u32 :: "bus_arg list \<Rightarrow> string + u32" where
  "read_property_u32 args = (case args of BVariant (BU32 n) # _ \<Rightarrow> Inr n | _ \<Rightarrow> Inl ''type mismatch'')"

definition property_get :: "proxy \<Rightarrow> string \<Rightarrow> string \<Rightarrow> u32 bus_call" where
  "property_get px i name =
     method_call px ''org.freedesktop.DBus.Properties'' ''Get'' [BStr i, BStr name] read_property_u32"

section \<open>Request and Session\<close>

definition request_interface :: string where
  "request_interface = ''org.freedesktop.portal.Request''"

definition request_close :: "proxy \<Rightarrow> unit bus_call" where
  "request_close px = method_call px request_interface ''Close'' [] read_unit"

definition session_close :: "proxy \<Rightarrow> unit bus_call" where
  "session_close px = method_call px ''org.freedesktop.portal.Session'' ''Close'' [] read_unit"

text \<open>The signal \<open>Response\<close>: its values, appended and read.\<close>

record request_response =
  rr_response :: u32
  rr_results :: "string \<Rightarrow> ref_arg option"

definition response_name :: string where
  "response_name = ''Response''"

definition response_append :: "request_response \<Rightarrow> bus_arg list" where
  "response_append r = [BU32 (rr_response r), BResults (rr_results r)]"

definition response_read :: "bus_arg list \<Rightarrow> string + request_response" where
  "response_read args = (case args of
      BU32 n # BResults m # _ \<Rightarrow> Inr \<lparr>rr_response = n, rr_results = m\<rparr>
    | _ \<Rightarrow> Inl ''type mismatch'')"

lemma response_roundtrip: "response_read (response_append r @ xs) = Inr r"
  by (simp add: response_read_def response_append_def)

section \<open>ScreenCast\<close>

definition screen_cast_interface :: string where
  "screen_cast_interface = ''org.freedesktop.portal.ScreenCast''"

definition screen_cast_create_session :: "proxy \<Rightarrow> prop_map \<Rightarrow> string bus_call" where
  "screen_cast_create_session px options =
     method_call px screen_cast_interface ''CreateSession''
       [BOptions options] read_path"

definition screen_cast_select_sources :: "proxy \<Rightarrow> string \<Rightarrow> prop_map \<Rightarrow> string bus_call" where
  "screen_cast_select_sources px session_handle options =
     method_call px screen_cast_interface ''SelectSources''
       [BPath session_handle, BOptions options] read_path"

definition screen_cast_start :: "proxy \<Rightarrow> string \<Rightarrow> string \<Rightarrow> prop_map \<Rightarrow> string bus_call" where
  "screen_cast_start px session_handle parent_window options =
     method_call px screen_cast_interface ''Start''
       [BPath session_handle, BStr parent_window, BOptions options] read_path"

definition screen_cast_open_pipe_wire_remote :: "proxy \<Rightarrow> string \<Rightarrow> prop_map \<Rightarrow> nat bus_call" where
  "screen_cast_open_pipe_wire_remote px session_handle options =
     method_call px screen_cast_interface ''OpenPipeWireRemote''
       [BPath session_handle, BOptions options] read_fd"

definition screen_cast_available_source_types :: "proxy \<Rightarrow> u32 bus_call" where
  "screen_cast_available_source_types px = property_get px screen_cast_interface ''AvailableSourceTypes''"

definition screen_cast_available_cursor_modes :: "proxy \<Rightarrow> u32 bus_call" where
  "screen_cast_available_cursor_modes px = property_get px screen_cast_interface ''AvailableCursorModes''"

definition screen_cast_version :: "proxy \<Rightarrow> u32 bus_call" where
  "screen_cast_version px = property_get px screen_cast_interface ''version''"

text \<open>The trait, and its implementation for a proxy.\<close>

record screen_cast_trait =
  sct_create_session :: "prop_map \<Rightarrow> string bus_call"
  sct_select_sources :: "string \<Rightarrow> prop_map \<Rightarrow> string bus_call"
  sct_start :: "string \<Rightarrow> string \<Rightarrow> prop_map \<Rightarrow> string bus_call"
  sct_open_pipe_wire_remote :: "string \<Rightarrow> prop_map \<Rightarrow> nat bus_call"
  sct_available_source_types :: "u32 bus_call"
  sct_available_cursor_modes :: "u32 bus_call"
  sct_version :: "u32 bus_call"

definition screen_cast_proxy :: "proxy \<Rightarrow> screen_cast_trait" where
  "screen_cast_proxy px = \<lparr>sct_create_session = screen_cast_create_session px,
     sct_select_sources = screen_cast_select_sources px,
     sct_start = screen_cast_start px,
     sct_open_pipe_wire_remote = screen_cast_open_pipe_wire_remote px,
     sct_available_source_types = screen_cast_available_source_types px,
     sct_available_cursor_modes = screen_cast_available_cursor_modes px,
     sct_version = screen_cast_version px\<rparr>"

section \<open>RemoteDesktop\<close>

definition remote_desktop_interface :: string where
  "remote_desktop_interface = ''org.freedesktop.portal.RemoteDesktop''"

definition remote_desktop_create_session :: "proxy \<Rightarrow> prop_map \<Rightarrow> string bus_call" where
  "remote_desktop_create_session px options =
     method_call px remote_desktop_interface ''CreateSession''
       [BOptions options] read_path"

definition remote_desktop_select_devices :: "proxy \<Rightarrow> string \<Rightarrow> prop_map \<Rightarrow> string bus_call" where
  "remote_desktop_select_devices px session_handle options =
     method_call px remote_desktop_interface ''SelectDevices''
       [BPath session_handle, BOptions options] read_path"

definition remote_desktop_start :: "proxy \<Rightarrow> string \<Rightarrow> string \<Rightarrow> prop_map \<Rightarrow> string bus_call" where
  "remote_desktop_start px session_handle parent_window options =
     method_call px remote_desktop_interface ''Start''
       [BPath session_handle, BStr parent_window, BOptions options] read_path"

definition remote_desktop_notify_pointer_motion :: "proxy \<Rightarrow> string \<Rightarrow> prop_map \<Rightarrow> f64 \<Rightarrow> f64 \<Rightarrow> unit bus_call" where
  "remote_desktop_notify_pointer_motion px session_handle options dx dy =
     method_call px remote_desktop_interface ''NotifyPointerMotion''
       [BPath session_handle, BOptions options, BDouble dx, BDouble dy] read_unit"

definition remote_desktop_notify_pointer_motion_absolute :: "proxy \<Rightarrow> string \<Rightarrow> prop_map \<Rightarrow> u32 \<Rightarrow> f64 \<Rightarrow> f64 \<Rightarrow> unit bus_call" where
  "remote_desktop_notify_pointer_motion_absolute px session_handle options stream x y =
     method_call px remote_desktop_interface ''NotifyPointerMotionAbsolute''
       [BPath session_handle, BOptions options, BU32 stream, BDouble x, BDouble y] read_unit"

definition remote_desktop_notify_pointer_button :: "proxy \<Rightarrow> string \<Rightarrow> prop_map \<Rightarrow> int \<Rightarrow> u32 \<Rightarrow> unit bus_call" where
  "remote_desktop_notify_pointer_button px session_handle options button state =
     method_call px remote_desktop_interface ''NotifyPointerButton''
       [BPath session_handle, BOptions options, BI32 button, BU32 state] read_unit"

definition remote_desktop_notify_pointer_axis :: "proxy \<Rightarrow> string \<Rightarrow> prop_map \<Rightarrow> f64 \<Rightarrow> f64 \<Rightarrow> unit bus_call" where
  "remote_desktop_notify_pointer_axis px session_handle options dx dy =
     method_call px remote_desktop_interface ''NotifyPointerAxis''
       [BPath session_handle, BOptions options, BDouble dx, BDouble dy] read_unit"

definition remote_desktop_notify_pointer_axis_discrete :: "proxy \<Rightarrow> string \<Rightarrow> prop_map \<Rightarrow> u32 \<Rightarrow> int \<Rightarrow> unit bus_call" where
  "remote_desktop_notify_pointer_axis_discrete px session_handle options axis steps =
     method_call px remote_desktop_interface ''NotifyPointerAxisDiscrete''
       [BPath session_handle, BOptions options, BU32 axis, BI32 steps] read_unit"

definition remote_desktop_notify_keyboard_keycode :: "proxy \<Rightarrow> string \<Rightarrow> prop_map \<Rightarrow> int \<Rightarrow> u32 \<Rightarrow> unit bus_call" where
  "remote_desktop_notify_keyboard_keycode px session_handle options keycode state =
     method_call px remote_desktop_interface ''NotifyKeyboardKeycode''
       [BPath session_handle, BOptions options, BI32 keycode, BU32 state] read_unit"

definition remote_desktop_notify_keyboard_keysym :: "proxy \<Rightarrow> string \<Rightarrow> prop_map \<Rightarrow> int \<Rightarrow> u32 \<Rightarrow> unit bus_call" where
  "remote_desktop_notify_keyboard_keysym px session_handle options keysym state =
     method_call px remote_desktop_interface ''NotifyKeyboardKeysym''
       [BPath session_handle, BOptions options, BI32 keysym, BU32 state] read_unit"

definition remote_desktop_notify_touch_down :: "proxy \<Rightarrow> string \<Rightarrow> prop_map \<Rightarrow> u32 \<Rightarrow> u32 \<Rightarrow> f64 \<Rightarrow> f64 \<Rightarrow> unit bus_call" where
  "remote_desktop_notify_touch_down px session_handle options stream slot x y =
     method_call px remote_desktop_interface ''NotifyTouchDown''
       [BPath session_handle, BOptions options, BU32 stream, BU32 slot, BDouble x, BDouble y] read_unit"

definition remote_desktop_notify_touch_motion :: "proxy \<Rightarrow> string \<Rightarrow> prop_map \<Rightarrow> u32 \<Rightarrow> u32 \<Rightarrow> f64 \<Rightarrow> f64 \<Rightarrow> unit bus_call" where
  "remote_desktop_notify_touch_motion px session_handle options stream slot x y =
     method_call px remote_desktop_interface ''NotifyTouchMotion''
       [BPath session_handle, BOptions options, BU32 stream, BU32 slot, BDouble x, BDouble y] read_unit"

definition remote_desktop_notify_touch_up :: "proxy \<Rightarrow> string \<Rightarrow> prop_map \<Rightarrow> u32 \<Rightarrow> unit bus_call" where
  "remote_desktop_notify_touch_up px session_handle options slot =
     method_call px remote_desktop_interface ''NotifyTouchUp''
       [BPath session_handle, BOptions options, BU32 slot] read_unit"

definition remote_desktop_connect_to_eis :: "proxy \<Rightarrow> string \<Rightarrow> prop_map \<Rightarrow> nat bus_call" where
  "remote_desktop_connect_to_eis px session_handle options =
     method_call px remote_desktop_interface ''ConnectToEIS''
       [BPath session_handle, BOptions options] read_fd"

definition remote_desktop_available_device_types :: "proxy \<Rightarrow> u32 bus_call" where
  "remote_desktop_available_device_types px = property_get px remote_desktop_interface ''AvailableDeviceTypes''"

definition remote_desktop_version :: "proxy \<Rightarrow> u32 bus_call" where
  "remote_desktop_version px = property_get px remote_desktop_interface ''version''"

text \<open>The trait, and its implementation for a proxy.\<close>

record remote_desktop_trait =
  rdt_create_session :: "prop_map \<Rightarrow> string bus_call"
  rdt_select_devices :: "string \<Rightarrow> prop_map \<Rightarrow> string bus_call"
  rdt_start :: "string \<Rightarrow> string \<Rightarrow> prop_map \<Rightarrow> string bus_call"
  rdt_notify_pointer_motion :: "string \<Rightarrow> prop_map \<Rightarrow> f64 \<Rightarrow> f64 \<Rightarrow> unit bus_call"
  rdt_notify_pointer_motion_absolute :: "string \<Rightarrow> prop_map \<Rightarrow> u32 \<Rightarrow> f64 \<Rightarrow> f64 \<Rightarrow> unit bus_call"
  rdt_notify_pointer_button :: "string \<Rightarrow> prop_map \<Rightarrow> int \<Rightarrow> u32 \<Rightarrow> unit bus_call"
  rdt_notify_pointer_axis :: "string \<Rightarrow> prop_map \<Rightarrow> f64 \<Rightarrow> f64 \<Rightarrow> unit bus_call"
  rdt_notify_pointer_axis_discrete :: "string \<Rightarrow> prop_map \<Rightarrow> u32 \<Rightarrow> int \<Rightarrow> unit bus_call"
  rdt_notify_keyboard_keycode :: "string \<Rightarrow> prop_map \<Rightarrow> int \<Rightarrow> u32 \<Rightarrow> unit bus_call"
  rdt_notify_keyboard_keysym :: "string \<Rightarrow> prop_map \<Rightarrow> int \<Rightarrow> u32 \<Rightarrow> unit bus_call"
  rdt_notify_touch_down :: "string \<Rightarrow> prop_map \<Rightarrow> u32 \<Rightarrow> u32 \<Rightarrow> f64 \<Rightarrow> f64 \<Rightarrow> unit bus_call"
  rdt_notify_touch_motion :: "string \<Rightarrow> prop_map \<Rightarrow> u32 \<Rightarrow> u32 \<Rightarrow> f64 \<Rightarrow> f64 \<Rightarrow> unit bus_call"
  rdt_notify_touch_up :: "string \<Rightarrow> prop_map \<Rightarrow> u32 \<Rightarrow> unit bus_call"
  rdt_connect_to_eis :: "string \<Rightarrow> prop_map \<Rightarrow> nat bus_call"
  rdt_available_device_types :: "u32 bus_call"
  rdt_version :: "u32 bus_call"

definition remote_desktop_proxy :: "proxy \<Rightarrow> remote_desktop_trait" where
  "remote_desktop_proxy px = \<lparr>rdt_create_session = remote_desktop_create_session px,
     rdt_select_devices = remote_desktop_select_devices px,
     rdt_start = remote_desktop_start px,
     rdt_notify_pointer_motion = remote_desktop_notify_pointer_motion px,
     rdt_notify_pointer_motion_absolute = remote_desktop_notify_pointer_motion_absolute px,
     rdt_notify_pointer_button = remote_desktop_notify_pointer_button px,
     rdt_notify_pointer_axis = remote_desktop_notify_pointer_axis px,
     rdt_notify_pointer_axis_discrete = remote_desktop_notify_pointer_axis_discrete px,
     rdt_notify_keyboard_keycode = remote_desktop_notify_keyboard_keycode px,
     rdt_notify_keyboard_keysym = remote_desktop_notify_keyboard_keysym px,
     rdt_notify_touch_down = remote_desktop_notify_touch_down px,
     rdt_notify_touch_motion = remote_desktop_notify_touch_motion px,
     rdt_notify_touch_up = remote_desktop_notify_touch_up px,
     rdt_connect_to_eis = remote_desktop_connect_to_eis px,
     rdt_available_device_types = remote_desktop_available_device_types px,
     rdt_version = remote_desktop_version px\<rparr>"

section \<open>The negotiation over the bus\<close>

text \<open>\<open>get_portal\<close>: the proxy of the portal.\<close>

definition get_portal :: proxy where
  "get_portal = \<lparr>px_destination = ''org.freedesktop.portal.Desktop'',
     px_path = ''/org/freedesktop/portal/desktop'', px_timeout = millis 1000\<rparr>"

text \<open>The options \<open>request_remote_desktop\<close> and the response handlers insert.\<close>

definition create_session_options :: "string \<Rightarrow> string \<Rightarrow> prop_map" where
  "create_session_options session_token handle_token =
     [''session_handle_token'' \<mapsto> OStr session_token, ''handle_token'' \<mapsto> OStr handle_token]"

definition select_devices_options :: "string \<Rightarrow> u32 \<Rightarrow> prop_map" where
  "select_devices_options handle_token device_types =
     [''handle_token'' \<mapsto> OStr handle_token, ''persist_mode'' \<mapsto> OU32 2, ''types'' \<mapsto> OU32 device_types]"

definition select_sources_options :: "string \<Rightarrow> u32 \<Rightarrow> u32 \<Rightarrow> prop_map" where
  "select_sources_options handle_token source_types mode =
     [''handle_token'' \<mapsto> OStr handle_token, ''multiple'' \<mapsto> OBool True, ''types'' \<mapsto> OU32 source_types,
      ''cursor_mode'' \<mapsto> OU32 mode]"

definition start_options :: "string \<Rightarrow> prop_map" where
  "start_options handle_token = [''handle_token'' \<mapsto> OStr handle_token]"

fun call_options :: "portal_call \<Rightarrow> prop_map" where
  "call_options (CreateSession g st t) = create_session_options st t"
| "call_options (SelectDevices x t ty) = select_devices_options t ty"
| "call_options (SelectSources x t ty m) = select_sources_options t ty m"
| "call_options (StartCast g x t) = start_options t"
| "call_options (OpenRemote x) = Map.empty"

lemmas options_defs = create_session_options_def select_devices_options_def select_sources_options_def
  start_options_def

text \<open>The proxy call of a step; the request path it answers is not used.\<close>

definition read_any :: "(bus_arg list \<Rightarrow> string + 'a) \<Rightarrow> bus_arg list \<Rightarrow> string + unit" where
  "read_any rd args = (case rd args of Inl e \<Rightarrow> Inl e | Inr _ \<Rightarrow> Inr ())"

definition discard :: "'a bus_call \<Rightarrow> unit bus_call" where
  "discard c = (fst c, read_any (snd c))"

definition portal_proxy_call :: "portal_call \<Rightarrow> unit bus_call" where
  "portal_proxy_call c = (case c of
      CreateSession g st t \<Rightarrow>
        discard (if g then rdt_create_session (remote_desktop_proxy get_portal) (call_options c)
                 else sct_create_session (screen_cast_proxy get_portal) (call_options c))
    | SelectDevices x t ty \<Rightarrow> discard (rdt_select_devices (remote_desktop_proxy get_portal) x (call_options c))
    | SelectSources x t ty m \<Rightarrow> discard (sct_select_sources (screen_cast_proxy get_portal) x (call_options c))
    | StartCast g x t \<Rightarrow>
        discard (if g then rdt_start (remote_desktop_proxy get_portal) x [] (call_options c)
                 else sct_start (screen_cast_proxy get_portal) x [] (call_options c))
    | OpenRemote x \<Rightarrow> discard (sct_open_pipe_wire_remote (screen_cast_proxy get_portal) x (call_options c)))"

definition to_option :: "string + 'a \<Rightarrow> 'a option" where
  "to_option x = (case x of Inr a \<Rightarrow> Some a | Inl _ \<Rightarrow> None)"

text \<open>What the negotiation asks of its surroundings, answered by a bus.\<close>

definition bus_env :: "bus \<Rightarrow> string \<Rightarrow> (nat \<Rightarrow> nat) \<Rightarrow> bool \<Rightarrow> bool \<Rightarrow> portal_env" where
  "bus_env bus sender random gnome match_ok = \<lparr>pv_sender = sender, pv_random = random, pv_gnome = gnome,
     pv_device_types = to_option (perform bus (rdt_available_device_types (remote_desktop_proxy get_portal))),
     pv_source_types = to_option (perform bus (sct_available_source_types (screen_cast_proxy get_portal))),
     pv_cursor_modes = to_option (perform bus (sct_available_cursor_modes (screen_cast_proxy get_portal))),
     pv_match_ok = match_ok,
     pv_call_ok = (\<lambda>c. to_option (perform bus (portal_proxy_call c)) \<noteq> None),
     pv_fd = (\<lambda>x. case perform bus (sct_open_pipe_wire_remote (screen_cast_proxy get_portal) x Map.empty) of
                Inr fd \<Rightarrow> fd | Inl _ \<Rightarrow> 0)\<rparr>"

text \<open>A signal of the bus reaches the handlers if it is from the portal, of the interface Request and has the
  values of a response.\<close>

record bus_signal =
  bs_sender :: string
  bs_path :: string
  bs_interface :: string
  bs_args :: "bus_arg list"

definition signal_tick :: "bus_signal \<Rightarrow> tick" where
  "signal_tick b =
     (if bs_sender b = px_destination get_portal \<and> bs_interface b = request_interface
      then (case response_read (bs_args b) of
              Inr r \<Rightarrow> Signal \<lparr>sg_path = bs_path b, sg_code = rr_response r, sg_results = rr_results r\<rparr>
            | Inl _ \<Rightarrow> Quiet)
      else Quiet)"

text \<open>Dropping a \<open>PortalSession\<close> closes it at its own path; the outcome is only logged.\<close>

definition portal_session_drop :: "string \<Rightarrow> unit bus_call" where
  "portal_session_drop session_handle =
     session_close \<lparr>px_destination = ''org.freedesktop.portal.Desktop'', px_path = session_handle,
       px_timeout = millis 500\<rparr>"

section \<open>Facts\<close>

text \<open>The messages of the negotiation.\<close>

definition call_message :: "portal_call \<Rightarrow> bus_message" where
  "call_message c = fst (portal_proxy_call c)"

lemmas proxy_defs = portal_proxy_call_def discard_def method_call_def screen_cast_proxy_def remote_desktop_proxy_def screen_cast_create_session_def
  screen_cast_select_sources_def screen_cast_start_def screen_cast_open_pipe_wire_remote_def
  remote_desktop_create_session_def remote_desktop_select_devices_def remote_desktop_start_def

lemma call_message_simps:
  "bm_destination (call_message c) = ''org.freedesktop.portal.Desktop''"
  "bm_path (call_message c) = ''/org/freedesktop/portal/desktop''"
  "bm_interface (call_message c)
     = (if uses_remote_desktop c then remote_desktop_interface else screen_cast_interface)"
  by (cases c; simp add: call_message_def proxy_defs get_portal_def)+

lemma call_message_options:
  "\<exists>xs. bm_args (call_message c) = xs @ [BOptions (call_options c)]"
  by (cases c) (simp_all add: call_message_def proxy_defs)

lemma call_options_token: "awaits c = Some (t, h) \<Longrightarrow> call_options c ''handle_token'' = Some (OStr t)"
  by (cases c) (auto simp: awaits_def options_defs)

lemma call_members:
  "bm_member (call_message c) \<in> {''CreateSession'', ''SelectDevices'', ''SelectSources'', ''Start'',
     ''OpenPipeWireRemote''}"
  by (cases c) (simp_all add: call_message_def proxy_defs)

lemma open_fd:
  assumes "pv_call_ok (bus_env bus sender random gnome m) (OpenRemote x)"
  shows "perform bus (sct_open_pipe_wire_remote (screen_cast_proxy get_portal) x Map.empty)
     = Inr (pv_fd (bus_env bus sender random gnome m) x)"
  using assms
  by (auto simp: bus_env_def to_option_def perform_def proxy_defs read_any_def split: sum.splits)

lemma signal_of_response:
  "bs_sender b = ''org.freedesktop.portal.Desktop'' \<Longrightarrow> bs_interface b = request_interface \<Longrightarrow>
     bs_args b = response_append r \<Longrightarrow>
     signal_tick b = Signal \<lparr>sg_path = bs_path b, sg_code = rr_response r, sg_results = rr_results r\<rparr>"
  using response_roundtrip [of r "[]"] by (simp add: signal_tick_def get_portal_def)

text \<open>A negotiation over the bus: what it sends, and where the file descriptor comes from.\<close>

lemma negotiation_on_bus:
  assumes "request_remote_desktop (bus_env bus sender random gnome m) cursor ticks = (res, s)"
  shows "Called c \<in> set (pt_trace s) \<Longrightarrow> uses_remote_desktop c \<Longrightarrow> gnome"
    "res = Inr (x, fd, streams) \<Longrightarrow> \<exists>y. Called (OpenRemote y) \<in> set (pt_trace s)
       \<and> perform bus (sct_open_pipe_wire_remote (screen_cast_proxy get_portal) y Map.empty) = Inr fd"
proof -
  let ?env = "bus_env bus sender random gnome m"
  have ok: "calls_ok ?env s" using request_ok(1) [OF assms] by (simp add: portal_ok_def)
  then show "Called c \<in> set (pt_trace s) \<Longrightarrow> uses_remote_desktop c \<Longrightarrow> gnome"
    by (auto simp: calls_ok_def bus_env_def)
  assume "res = Inr (x, fd, streams)"
  then have "pt_fd s = Some fd"
    using assms by (auto simp: request_remote_desktop_def split: sum.splits option.splits if_splits prod.splits)
  then obtain y where "Called (OpenRemote y) \<in> set (pt_trace s)" "pv_call_ok ?env (OpenRemote y)" "fd = pv_fd ?env y"
    using ok by (auto simp: calls_ok_def)
  then show "\<exists>y. Called (OpenRemote y) \<in> set (pt_trace s)
       \<and> perform bus (sct_open_pipe_wire_remote (screen_cast_proxy get_portal) y Map.empty) = Inr fd"
    using open_fd by metis
qed

end
