(* ===== verification/GuiTheme.thy ===== *)
theory GuiTheme
  imports GuiView RustNum
begin

text \<open>
  The theme of the window, \<open>apply_rylus_theme\<close> of \<open>crates/rylus-gui/src/lib.rs\<close>, the colours its
  widgets are drawn in, and \<open>run\<close>.  The visuals \<open>egui\<close> starts from and its \<open>linear_multiply\<close> are
  arguments; a colour is its red, green and blue.
\<close>

section \<open>Colours\<close>

type_synonym color32 = "nat \<times> nat \<times> nat"

definition rgb_accent :: color32 where "rgb_accent = (0x00, 0xAA, 0xFF)"
definition rgb_accent_hover :: color32 where "rgb_accent_hover = (0x33, 0xBB, 0xFF)"
definition rgb_error :: color32 where "rgb_error = (0xEF, 0x44, 0x44)"
definition rgb_success :: color32 where "rgb_success = (0x22, 0xC5, 0x5E)"
definition rgb_warning :: color32 where "rgb_warning = (0xF5, 0x9E, 0x0B)"
definition rgb_white :: color32 where "rgb_white = (0xFF, 0xFF, 0xFF)"

definition DARK_BG :: color32 where "DARK_BG = (0x1E, 0x1E, 0x1E)"
definition DARK_SURFACE :: color32 where "DARK_SURFACE = (0x2A, 0x2A, 0x2A)"
definition DARK_SURFACE_RAISED :: color32 where "DARK_SURFACE_RAISED = (0x33, 0x33, 0x33)"
definition DARK_BORDER :: color32 where "DARK_BORDER = (0x3A, 0x3A, 0x3A)"
definition DARK_TEXT :: color32 where "DARK_TEXT = (0xE0, 0xE0, 0xE0)"
definition DARK_TEXT_SECONDARY :: color32 where "DARK_TEXT_SECONDARY = (0x88, 0x88, 0x88)"
definition DARK_TEXT_MUTED :: color32 where "DARK_TEXT_MUTED = (0x66, 0x66, 0x66)"

definition LIGHT_BG :: color32 where "LIGHT_BG = (0xF5, 0xF5, 0xF5)"
definition LIGHT_SURFACE :: color32 where "LIGHT_SURFACE = (0xFF, 0xFF, 0xFF)"
definition LIGHT_BORDER :: color32 where "LIGHT_BORDER = (0xE0, 0xE0, 0xE0)"
definition LIGHT_TEXT :: color32 where "LIGHT_TEXT = (0x1A, 0x1A, 0x1A)"
definition LIGHT_TEXT_SECONDARY :: color32 where "LIGHT_TEXT_SECONDARY = (0x66, 0x66, 0x66)"
definition LIGHT_TEXT_MUTED :: color32 where "LIGHT_TEXT_MUTED = (0x99, 0x99, 0x99)"

lemmas colour_defs = rgb_accent_def rgb_accent_hover_def rgb_error_def rgb_success_def rgb_warning_def
  rgb_white_def DARK_BG_def DARK_SURFACE_def DARK_SURFACE_RAISED_def DARK_BORDER_def DARK_TEXT_def DARK_TEXT_SECONDARY_def DARK_TEXT_MUTED_def
  LIGHT_BG_def LIGHT_SURFACE_def LIGHT_BORDER_def LIGHT_TEXT_def LIGHT_TEXT_SECONDARY_def LIGHT_TEXT_MUTED_def

section \<open>Visuals\<close>

record stroke =
  sk_width :: rat
  sk_color :: color32

definition stroke_new :: "color32 \<Rightarrow> stroke" where
  "stroke_new c = \<lparr>sk_width = 1, sk_color = c\<rparr>"

record widget_visuals =
  wv_bg_fill :: color32
  wv_fg_stroke :: stroke
  wv_bg_stroke :: stroke
  wv_corner_radius :: nat

record visuals =
  vs_dark_mode :: bool
  vs_panel_fill :: color32
  vs_window_fill :: color32
  vs_extreme_bg :: color32
  vs_faint_bg :: color32
  vs_override_text :: "color32 option"
  vs_noninteractive :: widget_visuals
  vs_inactive :: widget_visuals
  vs_hovered :: widget_visuals
  vs_active :: widget_visuals
  vs_open :: widget_visuals
  vs_selection_bg :: color32
  vs_selection_stroke :: stroke
  vs_window_stroke :: stroke

record egui_env =
  eg_dark :: visuals
  eg_light :: visuals
  eg_linear_multiply :: "rat \<Rightarrow> color32 \<Rightarrow> color32"

record egui_context =
  cx_visuals :: visuals
  cx_item_spacing :: "rat \<times> rat"
  cx_button_padding :: "rat \<times> rat"
  cx_window_margin :: nat

definition paint_widget :: "color32 \<Rightarrow> color32 \<Rightarrow> color32 \<Rightarrow> widget_visuals \<Rightarrow> widget_visuals" where
  "paint_widget fill fg bg w =
     w\<lparr>wv_bg_fill := fill, wv_fg_stroke := stroke_new fg, wv_bg_stroke := stroke_new bg\<rparr>"

definition dark_theme :: "egui_env \<Rightarrow> visuals \<Rightarrow> visuals" where
  "dark_theme env v = v\<lparr>
     vs_panel_fill := DARK_BG,
     vs_window_fill := DARK_SURFACE,
     vs_extreme_bg := DARK_BG,
     vs_faint_bg := DARK_SURFACE,
     vs_override_text := Some DARK_TEXT,
     vs_noninteractive := paint_widget DARK_SURFACE DARK_TEXT_SECONDARY DARK_BORDER (vs_noninteractive v),
     vs_inactive := paint_widget DARK_SURFACE_RAISED DARK_TEXT DARK_BORDER (vs_inactive v),
     vs_hovered := paint_widget DARK_SURFACE_RAISED rgb_accent_hover rgb_accent (vs_hovered v),
     vs_active := paint_widget rgb_accent rgb_white rgb_accent (vs_active v),
     vs_selection_bg := eg_linear_multiply env (3 / 10) rgb_accent,
     vs_selection_stroke := stroke_new rgb_accent,
     vs_window_stroke := stroke_new DARK_BORDER\<rparr>"

definition light_theme :: "egui_env \<Rightarrow> visuals \<Rightarrow> visuals" where
  "light_theme env v = v\<lparr>
     vs_panel_fill := LIGHT_BG,
     vs_window_fill := LIGHT_SURFACE,
     vs_extreme_bg := LIGHT_BG,
     vs_faint_bg := LIGHT_SURFACE,
     vs_override_text := Some LIGHT_TEXT,
     vs_noninteractive := paint_widget LIGHT_SURFACE LIGHT_TEXT_SECONDARY LIGHT_BORDER (vs_noninteractive v),
     vs_inactive := paint_widget LIGHT_SURFACE LIGHT_TEXT LIGHT_BORDER (vs_inactive v),
     vs_hovered := paint_widget LIGHT_SURFACE rgb_accent rgb_accent (vs_hovered v),
     vs_active := paint_widget rgb_accent rgb_white rgb_accent (vs_active v),
     vs_selection_bg := eg_linear_multiply env (15 / 100) rgb_accent,
     vs_selection_stroke := stroke_new rgb_accent,
     vs_window_stroke := stroke_new LIGHT_BORDER\<rparr>"

definition round_widgets :: "visuals \<Rightarrow> visuals" where
  "round_widgets v = v\<lparr>
     vs_noninteractive := (vs_noninteractive v)\<lparr>wv_corner_radius := 4\<rparr>,
     vs_inactive := (vs_inactive v)\<lparr>wv_corner_radius := 4\<rparr>,
     vs_hovered := (vs_hovered v)\<lparr>wv_corner_radius := 4\<rparr>,
     vs_active := (vs_active v)\<lparr>wv_corner_radius := 4\<rparr>,
     vs_open := (vs_open v)\<lparr>wv_corner_radius := 4\<rparr>\<rparr>"

definition apply_rylus_theme :: "egui_env \<Rightarrow> egui_context \<Rightarrow> egui_context" where
  "apply_rylus_theme env ctx =
     (let dark = vs_dark_mode (cx_visuals ctx);
          v = (if dark then dark_theme env (eg_dark env) else light_theme env (eg_light env))
      in ctx\<lparr>cx_visuals := round_widgets v, cx_item_spacing := (8, 8), cx_button_padding := (20, 10),
             cx_window_margin := 24\<rparr>)"

text \<open>The colours of the widgets, by the mode: \<open>text_secondary\<close> and \<open>text_muted\<close>.\<close>

definition text_secondary :: "bool \<Rightarrow> color32" where
  "text_secondary is_dark = (if is_dark then DARK_TEXT_SECONDARY else LIGHT_TEXT_SECONDARY)"

definition text_muted :: "bool \<Rightarrow> color32" where
  "text_muted is_dark = (if is_dark then DARK_TEXT_MUTED else LIGHT_TEXT_MUTED)"

definition colour_value :: "visuals \<Rightarrow> colour \<Rightarrow> color32 option" where
  "colour_value v c = (case c of
      Default \<Rightarrow> vs_override_text v
    | ACCENT \<Rightarrow> Some rgb_accent
    | ERROR_COLOR \<Rightarrow> Some rgb_error
    | WARNING_COLOR \<Rightarrow> Some rgb_warning
    | TextSecondary \<Rightarrow> Some (text_secondary (vs_dark_mode v))
    | TextMuted \<Rightarrow> Some (text_muted (vs_dark_mode v)))"

section \<open>The program's window\<close>

record native_options =
  no_inner_size :: "nat \<times> nat"
  no_min_inner_size :: "nat \<times> nat"
  no_title :: string

text \<open>\<open>run_native\<close> fails or runs the application made for it; \<open>None\<close> is the panic of \<open>expect\<close>.\<close>

definition gui_options :: "string \<Rightarrow> native_options" where
  "gui_options version = \<lparr>no_inner_size = (660, 600), no_min_inner_size = (660, 480),
     no_title = ''Rylus - '' @ version\<rparr>"

definition gui_run ::
  "(native_options \<Rightarrow> bool) \<Rightarrow> string \<Rightarrow> 'r gui_env \<Rightarrow> bool \<Rightarrow> config \<Rightarrow> 'r \<Rightarrow> 'r app option" where
  "gui_run run_native version env stored c r =
     (if run_native (gui_options version) then Some (app_new env stored c r) else None)"

section \<open>Facts\<close>

text \<open>The theme keeps the mode, so applying it in every frame changes nothing after the first.\<close>

definition egui_modes :: "egui_env \<Rightarrow> bool" where
  "egui_modes env \<longleftrightarrow> vs_dark_mode (eg_dark env) \<and> \<not> vs_dark_mode (eg_light env)"

lemma theme_mode:
  "egui_modes env \<Longrightarrow> vs_dark_mode (cx_visuals (apply_rylus_theme env ctx)) = vs_dark_mode (cx_visuals ctx)"
  by (simp add: apply_rylus_theme_def egui_modes_def Let_def round_widgets_def dark_theme_def light_theme_def)

lemma theme_idempotent:
  assumes "egui_modes env"
  shows "apply_rylus_theme env (apply_rylus_theme env ctx) = apply_rylus_theme env ctx"
proof -
  have "vs_dark_mode (cx_visuals (apply_rylus_theme env ctx)) = vs_dark_mode (cx_visuals ctx)"
    by (rule theme_mode [OF assms])
  then show ?thesis
    unfolding apply_rylus_theme_def [of env "apply_rylus_theme env ctx"]
    by (simp add: Let_def) (simp add: apply_rylus_theme_def Let_def)
qed

text \<open>In both modes every colour a label is drawn in differs from the fill of the panel by at least 60 in some
  component.\<close>

definition apart :: "color32 \<Rightarrow> color32 \<Rightarrow> bool" where
  "apart a b = (case (a, b) of ((r, g, b), (r', g', b')) \<Rightarrow>
     r + 60 \<le> r' \<or> r' + 60 \<le> r \<or> g + 60 \<le> g' \<or> g' + 60 \<le> g \<or> b + 60 \<le> b' \<or> b' + 60 \<le> b)"

lemma theme_readable:
  assumes "egui_modes env" "v = cx_visuals (apply_rylus_theme env ctx)"
  shows "\<exists>x. colour_value v c = Some x \<and> apart x (vs_panel_fill v)"
proof (cases "vs_dark_mode (cx_visuals ctx)")
  case True
  then have v: "v = round_widgets (dark_theme env (eg_dark env))" "vs_dark_mode v"
    using assms theme_mode [of env ctx] by (simp_all add: apply_rylus_theme_def)
  then show ?thesis unfolding colour_value_def text_secondary_def text_muted_def
    by (cases c) (simp_all add: round_widgets_def dark_theme_def apart_def colour_defs)
next
  case False
  then have v: "v = round_widgets (light_theme env (eg_light env))" "\<not> vs_dark_mode v"
    using assms theme_mode [of env ctx] by (simp_all add: apply_rylus_theme_def)
  then show ?thesis unfolding colour_value_def text_secondary_def text_muted_def
    by (cases c) (simp_all add: round_widgets_def light_theme_def apart_def colour_defs)
qed

end
