(* ===== verification/NetStream.thy ===== *)
theory NetStream
  imports Prelude
begin

text \<open>
  \<open>TlsOrTcpStream\<close> of \<open>crates/rylus-server/src/web.rs\<close>: a connection that is either a TLS stream or a plain
  TCP stream, read and written through the one it is.  The streams of \<open>tokio\<close> and \<open>tokio-rustls\<close> are the
  records \<open>stream_ops\<close>.
\<close>

datatype 'a poll = Pending | Ready "string + 'a"

record 's stream_ops =
  tio_read :: "nat \<Rightarrow> 's \<Rightarrow> byte list poll \<times> 's"
  tio_write :: "byte list \<Rightarrow> 's \<Rightarrow> nat poll \<times> 's"
  tio_flush :: "'s \<Rightarrow> unit poll \<times> 's"
  tio_shutdown :: "'s \<Rightarrow> unit poll \<times> 's"

datatype ('s, 't) tls_or_tcp_stream = TlsStream 's | TcpStream 't

definition poll_read ::
  "'s stream_ops \<Rightarrow> 't stream_ops \<Rightarrow> nat \<Rightarrow> ('s, 't) tls_or_tcp_stream \<Rightarrow> byte list poll \<times> ('s, 't) tls_or_tcp_stream" where
  "poll_read tls tcp n s = (case s of
      TlsStream inner \<Rightarrow> map_prod id TlsStream (tio_read tls n inner)
    | TcpStream inner \<Rightarrow> map_prod id TcpStream (tio_read tcp n inner))"

definition poll_write ::
  "'s stream_ops \<Rightarrow> 't stream_ops \<Rightarrow> byte list \<Rightarrow> ('s, 't) tls_or_tcp_stream \<Rightarrow> nat poll \<times> ('s, 't) tls_or_tcp_stream" where
  "poll_write tls tcp buf s = (case s of
      TlsStream inner \<Rightarrow> map_prod id TlsStream (tio_write tls buf inner)
    | TcpStream inner \<Rightarrow> map_prod id TcpStream (tio_write tcp buf inner))"

definition poll_flush ::
  "'s stream_ops \<Rightarrow> 't stream_ops \<Rightarrow> ('s, 't) tls_or_tcp_stream \<Rightarrow> unit poll \<times> ('s, 't) tls_or_tcp_stream" where
  "poll_flush tls tcp s = (case s of
      TlsStream inner \<Rightarrow> map_prod id TlsStream (tio_flush tls inner)
    | TcpStream inner \<Rightarrow> map_prod id TcpStream (tio_flush tcp inner))"

definition poll_shutdown ::
  "'s stream_ops \<Rightarrow> 't stream_ops \<Rightarrow> ('s, 't) tls_or_tcp_stream \<Rightarrow> unit poll \<times> ('s, 't) tls_or_tcp_stream" where
  "poll_shutdown tls tcp s = (case s of
      TlsStream inner \<Rightarrow> map_prod id TlsStream (tio_shutdown tls inner)
    | TcpStream inner \<Rightarrow> map_prod id TcpStream (tio_shutdown tcp inner))"

text \<open>A sequence of writes: a connection that was accepted with TLS never writes past it.\<close>

fun write_all ::
  "'s stream_ops \<Rightarrow> 't stream_ops \<Rightarrow> byte list list \<Rightarrow> ('s, 't) tls_or_tcp_stream
     \<Rightarrow> nat poll list \<times> ('s, 't) tls_or_tcp_stream" where
  "write_all tls tcp [] s = ([], s)"
| "write_all tls tcp (b # bs) s =
     (let (r, s) = poll_write tls tcp b s; (rs, s) = write_all tls tcp bs s in (r # rs, s))"

lemma tls_stays_tls:
  "\<exists>inner'. snd (write_all tls tcp bs (TlsStream inner)) = TlsStream inner'
     \<and> write_all tls tcp' bs (TlsStream inner) = write_all tls tcp bs (TlsStream inner)"
  by (induction bs arbitrary: inner)
     (simp_all add: poll_write_def Let_def case_prod_beta map_prod_def)

end
