(* ===== verification/Spec2Isabelle.thy ===== *)
theory Spec2Isabelle
  imports CoreError Pixel TestSource Quality ConfigModel Protocol WsFacts WebRate EntryPoint
    PipelineLive PipelineEnd EncodeSession EncoderDemo SessionDemo Capturables DeviceSession
    X11Recorder PipeWireStream PortalCache PlatformCodecs MacCapture WindowsCapture Logging Benchmark SelfTest
    PipeWireSetup GuiView BuildScript WireTests SourceTests SessionRun PortalBus
    GuiTheme NetStream
begin

text \<open>
  Rylus turns a tablet or phone into a graphics tablet and second screen: a browser connects to a
  server on the computer, receives the captured screen as a video stream and sends pointer, wheel
  and keyboard events, which the server replays on virtual input devices.  This development models
  the server's own logic, translated from the Rust sources under \<open>crates/\<close>, and proves what makes it
  correct.  This theory imports all others and states the properties \<open>C1\<close> to \<open>C40\<close>; each one is a
  theorem after a text that says what it means, followed by a witness that applies it at a concrete
  input where it has hypotheses.

  \<^bold>\<open>How the parts interact.\<close>  The web server authenticates a browser by an access code and a session
  token and upgrades \<open>GET /ws\<close> to a WebSocket.  For every client the WebSocket channel runs a reader
  and a writer task; a client handler takes the reader's messages, drives the input device and sends
  commands to the capture thread; the capture thread paces, captures and offers frames to the encode
  thread over a channel of capacity one; the encode thread encodes with FFmpeg and pushes the chunks
  into the channel's drop-oldest video queue, which the writer drains to the socket.

  \<^bold>\<open>Theories and sources.\<close>
  \<^item> \<open>Prelude\<close>, \<open>RustNum\<close>, \<open>RustString\<close>: shared types, numbers (\<open>f64\<close> as a rational, an infinity or NaN,
    computed exactly; saturating casts; durations in nanoseconds) and strings.
  \<^item> \<open>CoreError\<close>, \<open>Pixel\<close>, \<open>Protocol\<close>, \<open>ConfigModel\<close>: \<open>rylus-core\<close> (\<open>error.rs\<close>, \<open>pixel.rs\<close>, \<open>protocol.rs\<close>,
    \<open>config.rs\<close>).
  \<^item> \<open>Utf8\<close>, \<open>Wire\<close>, \<open>WireFacts\<close>, \<open>WireTests\<close>: what the derived and the hand-written serialisation of \<open>protocol.rs\<close>
    reads and writes, over JSON values, with the unit tests of that file evaluated on it.
  \<^item> \<open>TestSource\<close>, \<open>Capturables\<close>: \<open>rylus-capture\<close> (\<open>testsrc.rs\<close>, \<open>get_capturables\<close> of \<open>lib.rs\<close>).
  \<^item> \<open>CursorOverlay\<close>, \<open>X11Window\<close>, \<open>X11Recorder\<close>: \<open>rylus-capture/src/x11.rs\<close>.  The X server's replies are the record
    \<open>x11_env\<close> and, per capture, \<open>shm_replies\<close>; segments and their attachments are the record \<open>shm_world\<close>.
  \<^item> \<open>MacCapture\<close>, \<open>WindowsCapture\<close>: \<open>core_graphics.rs\<close>; \<open>captrs_capture.rs\<close> and \<open>win_ctx.rs\<close> of \<open>rylus-capture\<close>, with
    their parts of \<open>get_capturables\<close>.  The replies of CoreGraphics are \<open>cg_env\<close>, those of DXGI a list of outputs.
  \<^item> \<open>PipeWireSetup\<close>, \<open>PipeWireStream\<close>, \<open>PortalSession\<close>, \<open>PortalCache\<close>: \<open>rylus-capture/src/pipewire.rs\<close>.  The handles
    of the set-up and their drops are a trace.  A capture consumes rounds of
    stream events; the portal negotiation is a trace of registrations and calls; the sharing of sessions
    is a step relation over threads with a lock, a weak reference and reference counts.
  \<^item> \<open>PortalBus\<close>: the D-Bus proxies of \<open>rylus-capture/src/remote_desktop_dbus.rs\<close>, and the negotiation of
    \<open>PortalSession\<close> over a bus.
  \<^item> \<open>VideoQueue\<close>, \<open>WsChannel\<close>, \<open>WsFacts\<close>: \<open>rylus-transport/src/websocket.rs\<close>.  The interface \<open>drop_oldest\<close>
    is what producer and consumer of the queue rely on.  Both tasks are program counters of a step
    relation; \<open>ws_pushed\<close> and \<open>ws_sent\<close> are ghost histories.
  \<^item> \<open>RateLimiter\<close>, \<open>SessionStore\<close>, \<open>WebServer\<close>, \<open>WebFacts\<close>, \<open>WebRate\<close>, \<open>NetStream\<close>: \<open>rylus-server/src/web.rs\<close>.  \<open>serve\<close> is one
    definition per stretch between two awaits; clock readings and random draws are the record \<open>draws\<close>.
    The interface \<open>token_store\<close> is what a login handler relies on.
  \<^item> \<open>ServerLoop\<close>, \<open>ServerLifecycle\<close>, \<open>EntryPoint\<close>, \<open>TlsSetup\<close>, \<open>Mdns\<close>: \<open>run_server\<close> of \<open>web.rs\<close>, \<open>rylus.rs\<close>,
    \<open>main.rs\<close>, \<open>tls.rs\<close> and \<open>mdns.rs\<close> of \<open>rylus-server\<close>.  The accept loop is a program counter with its
    counts; the certificate files are a file system with permissions; calls to \<open>mdns-sd\<close> are recorded.
  \<^item> \<open>GuiApp\<close>, \<open>GuiView\<close>, \<open>GuiTheme\<close>: the state and actions behind the window of \<open>rylus-gui/src/lib.rs\<close>, over the interface
    \<open>rylus_server\<close> that \<open>ServerLifecycle\<close> provides, the widgets it draws, and its theme.
  \<^item> \<open>BuildScript\<close>: \<open>rylus-server/build.rs\<close>, over modification times.
  \<^item> \<open>Quality\<close>, \<open>CaptureLoop\<close>, \<open>Pipeline\<close>, \<open>PipelineFacts\<close>, \<open>PipelineLive\<close>, \<open>PipelineEnd\<close>, \<open>EncodeSession\<close>,
    \<open>SessionDemo\<close>: \<open>QualityController\<close>, \<open>handle_video\<close> and \<open>encode_thread\<close> of \<open>rylus-server/src/session.rs\<close>.
    The threads are a step relation over their channels; the encoder is a record of operations in
    \<open>Pipeline\<close> and the FFmpeg encoder in \<open>EncodeSession\<close>, which provides the interface \<open>sized_encoder\<close>.
  \<^item> \<open>SessionChannel\<close>, \<open>SessionEnd\<close>, \<open>SessionRun\<close>: the two threads of \<open>Pipeline\<close> composed with the channel of
    \<open>WsChannel\<close>: a thread's sends go through the channel one at a time and block while its queue is full.
  \<^item> \<open>ClientHandler\<close>, \<open>HandlerFacts\<close>, \<open>DeviceSession\<close>: \<open>RylusClientHandler\<close> of \<open>session.rs\<close>, over the interface
    \<open>input_device\<close> (\<open>rylus-input/src/device.rs\<close>), and with the two devices in place
    (\<open>device_invariant\<close>).
  \<^item> \<open>Ffi\<close>, \<open>ScaleContext\<close>, \<open>ScaleFacts\<close>, \<open>VideoEncoder\<close>, \<open>EncoderFacts\<close>, \<open>EncoderDemo\<close>: \<open>rylus-encode/src/lib.rs\<close>.
    Every FFmpeg call is an event of a trace answered by an oracle, so that every error path is a
    branch; which pointers the program holds is read off the trace.  \<open>PlatformCodecs\<close> has the encoders of Windows
    and macOS; all three platforms provide the interface \<open>codec_choice\<close>.
  \<^item> \<open>UInputKeys\<close>, \<open>UInputDevice\<close>, \<open>InputFacts\<close>, \<open>TouchFacts\<close>, \<open>EnigoDevice\<close>: \<open>rylus-input\<close>
    (\<open>uinput_keys.rs\<close>, \<open>uinput_device.rs\<close>, \<open>enigo_device.rs\<close>).  The events written are recorded, and the
    key state a kernel derives from them is computed.
  \<^item> \<open>WindowsInput\<close>: \<open>rylus-input/src/enigo_device_win.rs\<close>; the calls into the Windows API are recorded.
  \<^item> \<open>Logging\<close>, \<open>SelfTest\<close>, \<open>Benchmark\<close>: \<open>log.rs\<close> and \<open>self_test.rs\<close> of \<open>rylus-server\<close> with \<open>get_log_level\<close> of \<open>rylus-core\<close>,
    and \<open>rylus-encode/src/bin/bench.rs\<close>.  The self test composes the test source, the encoder and the server.
  \<^item> \<open>SourceTests\<close>: unit tests of pure code from eight source files, evaluated on the model.

  \<^bold>\<open>What is shown.\<close>  Authentication: what a request without a session reaches, the bound on guesses,
  the life of a token, rotation of the code, and where lockout and settings fail.  Server: shutdown, a silent
  peer, the certificate files, the announced name.  Wire: messages are read back as
  written, and what a client sends is in range.  Channel: bounds, order and accounting of frames, delivery.
  Session: frames match the encoder that gets them, bounds, pending requests, shutdown; over its channel, what
  reaches the socket, where video overtakes its announcement, and an end without a deadlock.  Encoder: ownership on every path,
  key frames, ends of the loops.  Devices: touch slots, pen state, declared events, coordinates.
  Handler: outcome of configurations, forwarding.  Quality and pacing: ranges, reaction, deadlines,
  output size.  Screen capture: the cursor overlay against its reference, segments, sizes of frames,
  row padding, what a portal session rests on, its calls on the bus, sharing.  Window: agreement with the server.  Windows: touches.
  Self test: it passes against this server.  The theories hold further facts: the unit square of a macOS display,
  desktops in the virtual screen, what the log window shows, the median and the gate of the benchmark.  Core:
  configuration file, error buffer, test source.  The theorems that follow their text without a number
  are further facts of the same components, among them the range of the quantiser, the reaction to an overload, a close
  that goes unnoticed and a handshake that blocks the server.

  \<^bold>\<open>Fuel.\<close>  Two loops around FFmpeg (\<open>packet_loop\<close>, \<open>sink_loop\<close>) end only if FFmpeg stops answering
  with data; they take fuel and return \<open>None\<close> when it is used up.  \<open>C23\<close> shows that \<open>k + 1\<close> rounds are
  enough for \<open>k\<close> answers.  All other loops are total functions.

  \<^bold>\<open>Parameters.\<close>  Third-party code is an argument: hashing, forms, JSON, templates, files and assets
  (\<open>web_env\<close>), certificates (\<open>rcgen\<close>, \<open>rustls\<close>), the mDNS daemon (\<open>mdns_env\<close>), the text of JSON values (\<open>text_value\<close>; \<open>parse\<close> and \<open>to_json\<close> where only the text matters), clocks and random draws, FFmpeg (the
  oracle of \<open>ffi\<close>), the kernel and X11 (\<open>uinput_env\<close>), Enigo's display (\<open>enigo_env\<close>),
  the X server (\<open>x11_env\<close>, \<open>shm_replies\<close>), the portal (\<open>portal_env\<close>) and the session bus (\<open>bus\<close>), stream events, network interfaces (\<open>gui_env\<close>), CoreGraphics (\<open>cg_env\<close>), DXGI, the Windows capturable (\<open>win_env\<close>),
  sockets (\<open>socket_env\<close>), log formatters, recorders.  The laws assumed of them are \<open>argon2_law\<close>, a hash verifies exactly
  the code it was made from, \<open>union_law\<close>, \<open>UnionRect\<close> gives the smallest rectangle around two, and \<open>esbuild_law\<close>, a bundle
  is written last.

  \<^bold>\<open>Not modelled.\<close>  How a JSON value is written as text and which message a refused value gives; the drawing of the
  window by \<open>egui\<close>, whose style record has the fields the theme sets; tests that drive sockets, encoders, devices,
  files or third-party parsers; the criterion harness.  Floating point rounding is not modelled: \<open>f64\<close> arithmetic is exact on rationals.
\<close>

section \<open>A concrete server\<close>

text \<open>A concrete server: \<open>argon2\<close> is the identity, forms are \<open>(''access_code'', body)\<close>.\<close>

definition demo_config :: config where
  "demo_config = \<lparr>access_code = Some ''abc'', bind_address = ''0.0.0.0'', web_port = 1701,
     try_vaapi = False, try_nvenc = False, auto_start = False, gui_theme = None, no_gui = True,
     self_test = False, wayland_support = False, print_index_html = False,
     print_access_html = False, print_style_css = False, print_lib_js = False,
     custom_index_html = None, custom_access_html = None, custom_style_css = None,
     custom_lib_js = None, completions = None, print_man_page = False, cfg_tls_mode = None,
     tls_cert_path = None, tls_key_path = None, no_mdns = False, latency_log = False\<rparr>"

definition demo_update :: "string option option \<Rightarrow> settings_update" where
  "demo_update code = \<lparr>su_bind_address = None, su_web_port = None, su_access_code = code,
     su_try_vaapi = None, su_try_nvenc = None, su_wayland_support = None\<rparr>"

definition demo_env :: web_env where
  "demo_env = \<lparr>env_to_str = Some, env_accept_key = id, env_parse_hash = Some,
     env_verify_password = (\<lambda>code h. code = h), env_hash_password = (\<lambda>_ code. code),
     env_form_parse = (\<lambda>b. [(''access_code'', b)]), env_asset = (\<lambda>_. ''asset''),
     env_read_file = (\<lambda>_. None), env_register_template = (\<lambda>_. True),
     env_render = (\<lambda>_ _. Some ''index''), env_log_level = ''info'',
     env_settings_json = (\<lambda>_. Some ''{}''), env_parse_update = (\<lambda>b. Inr (demo_update (Some (Some b)))),
     env_parse_addr = Inr, env_config_dir = None, env_readable = True, env_mkdir_ok = True,
     env_write_ok = True, env_toml_from = (\<lambda>_. None), env_toml_to = (\<lambda>_. None),
     env_default_config = demo_config\<rparr>"

definition demo_context :: "string option \<Rightarrow> nat serve_context" where
  "demo_context h = run_context
     \<lparr>bind_addr = ''0.0.0.0:1701'', wc_access_code_hash = h, wc_custom_index_html = None,
      wc_custom_access_html = None, wc_custom_style_css = None, wc_custom_lib_js = None\<rparr>
     True \<lparr>fs_dirs = {}, fs_files = (\<lambda>_. None)\<rparr>"

definition demo_draws :: "nanos \<Rightarrow> draws" where
  "demo_draws t = \<lparr>now_preauth = t, now_check = t, now_finish = t, now_retry = t, now_auth = t,
     token_idxs = [1, 2, 3], salt = []\<rparr>"

definition demo_request :: "http_method \<Rightarrow> string \<Rightarrow> string \<Rightarrow> request" where
  "demo_request m p b = \<lparr>req_method = m, req_path = p, req_headers = (\<lambda>_. None), req_body = Inr b\<rparr>"

lemmas demo_defs = demo_config_def demo_update_def demo_env_def demo_context_def demo_draws_def
  demo_request_def run_context_def

lemma demo_no_session: "\<not> has_session demo_env t (demo_request m p b) c"
  by (simp add: has_session_def extract_session_token_def header_str_def demo_defs)

section \<open>Web server\<close>

text \<open>C1: With an access code configured, a request that carries no valid session token opens no
  WebSocket, gets status 401 on the settings page, the configuration API and the WebSocket route,
  and leaves the live hash, the stored files and the client count alone; the only new session it can
  leave behind is the one of a login with an accepted code from an address that is not locked out.\<close>

theorem auth_gate:
  assumes "sc_hash c = Some h" "\<not> has_session env (now_preauth d) req c"
    and "now_preauth d \<le> now_auth d" "serve env d ip req c = (r, c', up)"
  shows "\<not> up \<and> sc_hash c' = sc_hash c \<and> sc_fs c' = sc_fs c
     \<and> sc_num_clients c' = sc_num_clients c \<and> (protected req \<longrightarrow> status r = 401)
     \<and> (\<forall>k t. sc_sessions c' k = Some t \<longrightarrow> sc_sessions c k = Some t \<or> login_ok env d ip req c)"
  by (rule unauthenticated_serve [OF assms])

theorem auth_gate_witness:
  "\<exists>r c'. serve demo_env (demo_draws 5) (7::nat) (demo_request GET ''/ws'' []) (demo_context (Some ''abc''))
     = (r, c', False) \<and> status r = 401 \<and> sc_num_clients c' = 0"
proof -
  let ?c = "demo_context (Some ''abc'')" and ?q = "demo_request GET ''/ws'' []" and ?d = "demo_draws 5"
  obtain r c' up where s: "serve demo_env ?d (7::nat) ?q ?c = (r, c', up)" by (metis prod_cases3)
  have "sc_hash ?c = Some ''abc''" "now_preauth ?d \<le> now_auth ?d" "protected ?q"
    "sc_num_clients ?c = 0"
    by (simp_all add: demo_defs protected_def)
  then show ?thesis using auth_gate [OF _ demo_no_session _ s, of "''abc''"] s by simp
qed




text \<open>C3: A session token is accepted at time \<open>t\<close> exactly if it was issued less than 24 hours before and
  the store has not been wiped since; the checks in between, which forget expired
  tokens, do not matter.\<close>

theorem session_life_cycle:
  assumes "\<forall>e \<in> set es. event_time e \<le> t"
  shows "fst (is_valid t k (sessions.run es ss_new)) \<longleftrightarrow>
           (\<exists>t0. live_issue k es = Some t0 \<and> t - t0 < SESSION_TTL)"
  by (rule sessions.valid_run [OF assms]) (simp add: ss_new_def is_valid_def)

theorem session_life_cycle_witness:
  "\<not> fst (is_valid 50 ''a'' (sessions.run [Issue 40 ''b'', Wipe, Issue 10 ''a''] ss_new))
   \<and> fst (is_valid 50 ''b'' (sessions.run [Issue 40 ''b'', Wipe, Issue 10 ''a''] ss_new))"
  using session_life_cycle [of "[Issue 40 ''b'', Wipe, Issue 10 ''a'']" 50 "''a''"]
    session_life_cycle [of "[Issue 40 ''b'', Wipe, Issue 10 ''a'']" 50 "''b''"]
  by (simp add: SESSION_TTL_def secs_def)

text \<open>C4: A settings update that changes the access code and is answered with 200 installs the hash of the
  new code and ends every session: no request is authenticated by a token any more, and, as
  \<open>argon2\<close> verifies exactly the hashed code, a login form is accepted only with the new code.\<close>

theorem code_rotation:
  assumes "argon2_law env" "rotates env u c (Some code)" "apply_update env s u c = (r, c')"
    and "status r = 200"
  shows "(\<forall>now req. \<not> fst (is_authed env now req c'))
     \<and> (\<exists>h. sc_hash c' = Some h \<and> (\<forall>b. code_accepted env h b \<longleftrightarrow>
          code \<noteq> [] \<and> map_of (rev (env_form_parse env b)) ''access_code'' = Some code))"
  using apply_update_rotates [OF assms(2-4)] rotated_no_session [OF assms(2-4)]
    code_accepted_hash [OF assms(1), of s code]
  by (simp add: is_authed_fst) blast

lemma demo_argon2: "argon2_law demo_env"
  by (simp add: argon2_law_def demo_env_def)

lemma demo_form: "env_form_parse demo_env b = [(''access_code'', b)]"
  by (simp add: demo_env_def)

lemma demo_stored: "stored_config demo_env f = demo_config"
  by (simp add: stored_config_def read_config_def demo_env_def)

lemma demo_rotates: "code \<noteq> Some ''abc'' \<Longrightarrow> rotates demo_env (demo_update (Some code)) c code"
  by (simp add: rotates_def demo_stored) (simp add: demo_update_def demo_config_def)

lemma demo_update_ok: "status (fst (apply_update demo_env s (demo_update code) c)) = 200"
  by (simp add: apply_update_def demo_stored apply_bind_address_def demo_update_def Let_def
      boxed_response_def split: prod.split)

theorem code_rotation_witness:
  "\<exists>r c'. apply_update demo_env [] (demo_update (Some (Some ''xyz''))) (demo_context (Some ''abc'') :: nat serve_context) = (r, c')
     \<and> (\<exists>h. sc_hash c' = Some h \<and> code_accepted demo_env h ''xyz'' \<and> \<not> code_accepted demo_env h ''abc'')"
proof -
  let ?c = "demo_context (Some ''abc'') :: nat serve_context"
  let ?u = "demo_update (Some (Some ''xyz''))"
  obtain r c' where a: "apply_update demo_env [] ?u ?c = (r, c')" by fastforce
  have "status r = 200" using demo_update_ok [of "[]" "Some (Some ''xyz'')" ?c] a by simp
  have r: "rotates demo_env ?u ?c (Some ''xyz'')" by (rule demo_rotates) simp
  from code_rotation [OF demo_argon2 r a \<open>status r = 200\<close>] obtain h
    where h: "sc_hash c' = Some h" and acc: "\<And>b. code_accepted demo_env h b \<longleftrightarrow> ''xyz'' \<noteq> []
      \<and> map_of (rev (env_form_parse demo_env b)) ''access_code'' = Some ''xyz''" by blast
  have "code_accepted demo_env h ''xyz''" "\<not> code_accepted demo_env h ''abc''"
    by (simp_all only: acc demo_form) simp_all
  then show ?thesis using a h by blast
qed

text \<open>C5: Concurrent logins bypass the lockout: however many requests of one address without recorded failures
  pass the check before the first of them is verified, every one of them goes on to the
  verification of its guess, since a failure is only recorded after the body has arrived.\<close>

theorem concurrent_logins_proceed:
  assumes "sc_hash c = Some h" "failures (sc_rate c) ip = []"
  shows "\<forall>k \<le> n. fst (auth_begin now ip (((\<lambda>c. snd (auth_begin now ip c)) ^^ k) c)) = AuthProceed h"
  using begins_proceed [OF assms] by blast

theorem concurrent_logins_proceed_witness:
  "fst (auth_begin 0 (7::nat) (((\<lambda>c. snd (auth_begin 0 7 c)) ^^ 1000) (demo_context (Some ''abc''))))
     = AuthProceed ''abc''"
  using concurrent_logins_proceed [of "demo_context (Some ''abc'')" "''abc''" 7 1000 0]
  by (simp add: demo_context_def run_context_def failures_def rl_new_def)

text \<open>Setting the empty access code through the settings page locks everybody out: the hash of the empty
  string is installed, no form is accepted any more, and all sessions are gone.\<close>

theorem empty_code_lockout:
  assumes "argon2_law env" "rotates env u c (Some [])" "apply_update env s u c = (r, c')"
    and "status r = 200"
  shows "\<exists>h. sc_hash c' = Some h \<and> (\<forall>b. \<not> code_accepted env h b)
     \<and> (\<forall>now req. \<not> fst (is_authed env now req c'))"
  by (rule empty_code_locks_out [OF assms])

theorem empty_code_lockout_witness:
  "\<exists>h. sc_hash (snd (apply_update demo_env [] (demo_update (Some (Some [])))
       (demo_context (Some ''abc'') :: nat serve_context))) = Some h \<and> (\<forall>b. \<not> code_accepted demo_env h b)"
proof -
  let ?c = "demo_context (Some ''abc'') :: nat serve_context"
  let ?u = "demo_update (Some (Some []))"
  obtain r c' where a: "apply_update demo_env [] ?u ?c = (r, c')" by fastforce
  have "status r = 200" using demo_update_ok [of "[]" "Some (Some [])" ?c] a by simp
  moreover have "rotates demo_env ?u ?c (Some [])" by (rule demo_rotates) simp
  ultimately show ?thesis using empty_code_lockout [OF demo_argon2 _ a] a by auto
qed

section \<open>Server start and shutdown\<close>

text \<open>C6: Server shutdown: in the shutdown loop with no client left, the loop has at most four steps of its own
  left, always has one until it has returned, and ends with the runtime dropped, although the
  notification of a client that disconnects can be missed.\<close>

theorem server_shutdown_ends:
  assumes "draining (f 0)" "sv_clients (f 0) = 0" "\<And>i. i < n \<Longrightarrow> server_own (f i) (f (Suc i))"
  shows "n \<le> 4 \<and> (sv_pc (f n) = SvEnded \<or> (\<exists>s'. server_own (f n) s'))"
  using drain_run [OF assms] drain_enabled by blast

definition demo_draining :: server where
  "demo_draining = (server_init False True)\<lparr>sv_startup := Some StartupStart, sv_pc := SvArm\<rparr>"

theorem server_shutdown_ends_witness: "\<exists>s'. server_own demo_draining s'"
  using server_shutdown_ends [of "\<lambda>_. demo_draining" 0]
  by (simp add: demo_draining_def draining_def server_init_def)

text \<open>A peer that stays silent during its TLS handshake blocks the server: there is a reachable state with
  a shutdown requested in which the loop can do nothing but await that handshake, and nothing its
  surroundings do changes that.\<close>

theorem silent_handshake_blocks:
  "\<exists>s. server_reach s \<and> sv_notify s \<and> {s'. server_own s s'} = {server_handshake True s, server_handshake False s}
     \<and> sv_pc ` {s'. server_env s s'} \<subseteq> {SvHandshake}"
proof -
  let ?s = "\<lparr>sv_pc = SvHandshake, sv_tls = True, sv_startup = Some StartupStart, sv_notify = True,
     sv_conns = 0, sv_clients = 0, sv_permits = 0\<rparr>"
  have p: "sv_pc ?s = SvHandshake" "sv_notify ?s" by simp_all
  have "server_own ?s s' \<longleftrightarrow> s' = server_handshake True ?s \<or> s' = server_handshake False ?s" for s'
    using handshake_blocks [OF p(1), of s'] server_own.Handshake [OF p(1)] by (metis (full_types))
  then have "{s'. server_own ?s s'} = {server_handshake True ?s, server_handshake False ?s}" by blast
  moreover have "sv_pc ` {s'. server_env ?s s'} \<subseteq> {SvHandshake}"
    using handshake_env [OF p(1)] by blast
  ultimately show ?thesis using handshake_reach p(2) by blast
qed

text \<open>C7: The TLS files: after a first start that generated a certificate, a later start loads the same pair
  without changing a file; the directory is private (\<open>0700\<close>), and the key, if its file did not exist
  before, is readable by its owner only (\<open>0600\<close>).\<close>

theorem generated_key_reloads:
  assumes "load_or_generate_cert io (Inr (cert, key)) build cert_path key_path d = (Inr cfg, d')"
    and "\<not> (disk_exists d cert_path \<and> disk_exists d key_path)" "dk_files d key_path = None"
    and "cert_path \<noteq> key_path" "path_parent cert_path = Some parent" "\<not> path_empty key_path"
    and "ti_read io' cert_path" "ti_read io' key_path"
  shows "load_or_generate_cert io' g build cert_path key_path d' = (Inr cfg, d')
     \<and> dk_dirs d' parent = Some 448 \<and> dk_files d' key_path = Some (key, 384)"
proof -
  have t: "tls_generate io (Inr (cert, key)) cert_path key_path d = (Inr (cert, key), d')"
    and b: "build cert key = Inr cfg" using load_generated [OF assms(2,1)] by simp_all
  have "\<not> path_empty cert_path" using assms(5) by (auto simp: path_parent_def path_empty_def)
  then show ?thesis
    using tls_generate_ok [OF t assms(4,5)] assms(3,6-8) b
    by (auto simp: load_existing split: option.splits)
qed

definition demo_io :: tls_io where
  "demo_io = \<lparr>ti_read = (\<lambda>_. True), ti_mkdir = True, ti_chmod = True, ti_write = (\<lambda>_. True)\<rparr>"

definition demo_disk :: disk where
  "demo_disk = \<lparr>dk_files = (\<lambda>_. None), dk_dirs = (\<lambda>_. None)\<rparr>"

theorem generated_key_reloads_witness:
  "\<exists>d'. fst (load_or_generate_cert demo_io (Inl ''unused'') (\<lambda>c k. Inr (c, k)) (Path True [''d'', ''c''])
       (Path True [''d'', ''k'']) d') = Inr ([1], [2])
     \<and> dk_files d' (Path True [''d'', ''k'']) = Some ([2], 384)"
proof -
  let ?c = "Path True [''d'', ''c'']" and ?k = "Path True [''d'', ''k'']"
  let ?load = "load_or_generate_cert demo_io (Inr ([1], [2])) (\<lambda>c k. Inr (c, k)) ?c ?k demo_disk"
  have "fst ?load = Inr ([1], [2])"
    by (simp add: load_or_generate_cert_def tls_generate_def disk_exists_def demo_disk_def demo_io_def
        path_parent_def create_dir_all_def path_empty_def set_permissions_def ancestor_def write_file_def
        Let_def)
  then obtain d' where l: "?load = (Inr ([1], [2]), d')" by (metis prod.collapse)
  have "load_or_generate_cert demo_io (Inl ''unused'') (\<lambda>c k. Inr (c, k)) ?c ?k d' = (Inr ([1], [2]), d')
     \<and> dk_dirs d' (Path True [''d'']) = Some 448 \<and> dk_files d' ?k = Some ([2], 384)"
    by (rule generated_key_reloads [OF l])
      (simp_all add: disk_exists_def demo_disk_def path_parent_def path_empty_def demo_io_def)
  then show ?thesis by (intro exI [of _ d']) simp
qed

text \<open>The announced instance name: whatever the interleaving of the threads that ask for the suffix, all of
  them get the same one, and two processes' suffixes collide only if their mixed numbers agree
  modulo \<open>36 ^ 4\<close>.\<close>

theorem suffix_agreement:
  "set (snd (fold suffix_step_run steps (0, []))) \<subseteq> {format_suffix (fst (fold suffix_step_run steps (0, [])))}
   \<and> (format_suffix m = format_suffix n \<longleftrightarrow> m mod 36 ^ 4 = n mod 36 ^ 4)"
  using agreed_run [of steps] by (auto simp: agreed_def format_suffix_eq)

section \<open>Wire protocol\<close>




text \<open>C9: Whatever a client sends, in every reachable state of its session: a message that waits for the handler,
  or that the reader is about to hand over, lies within the ranges of its types (integers within their widths,
  declared buttons only, finite coordinates, characters that are Unicode scalars) and was read from a text
  frame of at most 64 KiB.\<close>

theorem client_messages_in_range:
  assumes "session_reach ops (parse_inbound text_value) to_json s"
    and "m \<in> set (ws_in (se_ws s)) \<or> ws_reader (se_ws s) = RForward m"
  shows "inbound_ok m \<and> (\<exists>t. length t \<le> MAX_TEXT_FRAME_SIZE \<and> parse_inbound text_value t = Some m)"
proof -
  have "ws_inv (parse_inbound text_value) (se_ws s)" by (rule session_ws_reach [OF assms(1)])
  then obtain t where "length t \<le> MAX_TEXT_FRAME_SIZE" "parse_inbound text_value t = Some m"
    using assms(2) by (auto simp: ws_inv_def ws_parsed_def)
  then show ?thesis using inbound_in_range by (auto simp: parse_inbound_def bind_eq_Some_conv)
qed

definition demo_text :: "byte list \<Rightarrow> json option" where
  "demo_text t = (if t = [49] then Some (tagged ''Hello'' (JObj [(''protocol_version'', JInt 3)])) else None)"

theorem client_messages_in_range_witness:
  "\<exists>s :: (unit, nat) session. session_reach demo_ops (parse_inbound demo_text) (\<lambda>_. None) s
     \<and> ws_reader (se_ws s) = RForward (InHello 3) \<and> inbound_ok (InHello 3)"
proof -
  let ?w = "reader_on_event (parse_inbound demo_text) (ReadItem (TextFrame [49])) rylus_websocket_channel"
  let ?s = "(session_new 0 :: (unit, nat) session)\<lparr>se_ws := ?w\<rparr>"
  have "parse_inbound demo_text [49] = Some (InHello 3)"
    by (simp add: parse_inbound_def demo_text_def inbound_of_json_def inbound_of_variant_def variant_simps
        de_hello_def fields_of_object present de_ints de_nat_def)
  then have w: "ws_reader ?w = RForward (InHello 3)"
    by (simp add: reader_on_event_def reader_on_frame_def MAX_TEXT_FRAME_SIZE_def)
  have "session_reach demo_ops (parse_inbound demo_text) (\<lambda>_. None) ?s"
    using session_reach.Step [OF session_reach.Init session_step.Reads, of 0]
    by (simp add: session_new_def rylus_websocket_channel_def)
  then show ?thesis using client_messages_in_range [of demo_ops demo_text "\<lambda>_. None" ?s "InHello 3"] w
    by (intro exI [of _ ?s]) simp
qed

section \<open>WebSocket channel\<close>

text \<open>C10: In every state the reader, the writer and the two handles of the channel can reach: each queue is
  within its capacity; the video frames sent, in flight and queued are a subsequence, in order, of
  those pushed, and until the writer ends their number plus the drop counter is the number pushed;
  only text frames of at most 64 KiB that parse become inbound messages; the queue is closed
  exactly once the reader has ended.\<close>

theorem channel_invariant:
  assumes "ws_reach parse to_json s"
  shows "ws_bounded s \<and> ws_ordered s \<and> ws_accounted s \<and> ws_parsed parse s"
  using ws_inv_reach [OF assms] by (simp only: ws_inv_def)

theorem channel_invariant_witness:
  "subseq (pipeline_frames (lost_wakeup_state [1])) [[1]]
   \<and> ws_reader (lost_wakeup_state [1]) = REnded \<and> vq_closed (ws_vq (lost_wakeup_state [1]))"
proof -
  have "ws_ordered (lost_wakeup_state [1]) \<and> ws_parsed (\<lambda>_. None) (lost_wakeup_state [1])"
    using channel_invariant [OF lost_wakeup_reach [of "\<lambda>_. None" "\<lambda>_. None" "[1]"]] by simp
  then show ?thesis by (simp add: ws_ordered_def ws_parsed_def lost_wakeup_state_def)
qed




text \<open>C12: The video queue after any pushes on a fresh one: the newest four frames in order, every other one
  counted as dropped (modulo \<open>2 ^ 64\<close>), still open, and the writer notified.\<close>

theorem queue_contents:
  "let v = foldl vq_push vq_new fs in vq_inner v = lastn 4 fs
     \<and> vq_dropped v = (length fs - 4) mod 2 ^ 64 \<and> \<not> vq_closed v \<and> (vq_permit v \<longleftrightarrow> fs \<noteq> [])"
proof (induction fs rule: rev_induct)
  case Nil
  then show ?case by (simp add: lastn_short)
next
  case (snoc f fs)
  let ?v = "foldl vq_push vq_new fs"
  have v: "vq_inner ?v = lastn 4 fs" "vq_dropped ?v = (length fs - 4) mod 2 ^ 64" "\<not> vq_closed ?v"
    using snoc by (simp_all add: Let_def)
  have l: "length (lastn 4 fs) = min 4 (length fs)" by (simp add: lastn_def)
  have "vq_dropped (vq_push ?v f) = (Suc (length fs) - 4) mod 2 ^ 64"
  proof (cases "length fs < 4")
    case True
    then show ?thesis by (simp add: vq_push_cases v l)
  next
    case False
    then have "Suc (length fs) - 4 = (length fs - 4) + 1" by simp
    then show ?thesis using False by (simp add: vq_push_cases v l mod_Suc_eq)
  qed
  then show ?case by (simp add: Let_def v l vq_push_inner lastn_append_lastn)
qed

text \<open>The reader's close can go unnoticed: there is a reachable state in which the queue is closed and
  empty and the reader has ended, but the writer waits with no permit left and can only be woken by
  the session's own senders, because the permit of the close was merged with that of a frame.\<close>

theorem close_unnoticed:
  "\<exists>s. ws_reach parse to_json s \<and> ws_reader s = REnded \<and> vq_closed (ws_vq s)
     \<and> vq_inner (ws_vq s) = [] \<and> ws_writer s = WSelect
     \<and> (\<forall>send_ok. writer_step to_json send_ok s = None)"
  using lost_wakeup_reach [of parse to_json "[]"] lost_wakeup_parked
  by (intro exI [of _ "lost_wakeup_state []"]) (simp add: lost_wakeup_state_def)

section \<open>Session threads\<close>

text \<open>C13: Whatever the client commands, the captured sizes and the schedule of the two threads: every frame of
  positive width the encode thread encodes has exactly the input size of the last restart it
  handled, even when restarts and frames are still waiting in the channel and frames are dropped.\<close>

theorem frames_match_encoder:
  assumes "pl_reach ops s" "(d, p) \<in> set (pl_encoded s)" "provider_size p = (w, h)" "0 < w"
  shows "\<exists>wo ho. d = Some (w, h, wo, ho)"
  using fit_reach [OF assms(1)] assms(2-4) by (auto simp: pl_fit_def fits_def)

theorem frames_match_encoder_witness:
  "(Some (4, 2, 4, 2), demo_frame) \<in> set (pl_encoded (demo_6 demo_ops))
   \<and> (\<exists>wo ho. (Some (4, 2, 4, 2) :: dims option) = Some (4, 2, wo, ho))"
proof
  show e: "(Some (4, 2, 4, 2), demo_frame) \<in> set (pl_encoded (demo_6 demo_ops))"
    by (simp add: demo_6_fields [OF demo_ops_new])
  show "\<exists>wo ho. (Some (4, 2, 4, 2) :: dims option) = Some (4, 2, wo, ho)"
    by (rule frames_match_encoder [OF demo_reach(3) [OF demo_ops_new] e]) (simp_all add: demo_frame_def)
qed



text \<open>C15: A keyframe request and a changed quantiser survive everything but being queued: in each step of a
  session whose encode thread is alive, a pending one is still pending afterwards or the step put a
  frame carrying it into the channel; a frame dropped on a full channel gives both back.\<close>

theorem requests_stay_pending:
  assumes "pl_step ops s s'" "pl_enc_pc s \<noteq> EncEnded"
  shows "(cs_pending_keyframe (pl_cap s) \<longrightarrow>
        cs_pending_keyframe (pl_cap s') \<or> (\<exists>c \<in> set (queued s s'). carries_keyframe c))
     \<and> (cs_pending_qp (pl_cap s) \<noteq> None \<longrightarrow>
        cs_pending_qp (pl_cap s') \<noteq> None \<or> (\<exists>c \<in> set (queued s s'). carries_qp c))"
  using pending_step [OF assms] by (simp only: keeps_pending_def)

definition demo_asked :: "(unit, nat) pipeline" where
  "demo_asked = (demo_3 demo_ops)\<lparr>pl_cap := demo_cap\<lparr>cs_pending_keyframe := True\<rparr>,
     pl_chan := [EncRestart 4 2 4 2]\<rparr>"

theorem requests_stay_pending_witness:
  "cs_pending_keyframe (pl_cap (cap_send_frame demo_frame 0 0 0 demo_asked))
   \<or> (\<exists>c \<in> set (queued demo_asked (cap_send_frame demo_frame 0 0 0 demo_asked)). carries_keyframe c)"
proof -
  have "pl_cap_pc demo_asked = CapFrame demo_frame 0" "pl_enc_pc demo_asked \<noteq> EncEnded"
    "cs_pending_keyframe (pl_cap demo_asked)"
    by (simp_all add: demo_asked_def demo_3_eq [OF demo_ops_new] pl_init_def)
  then show ?thesis using requests_stay_pending [OF pl_step.Offer] by blast
qed

text \<open>C16: Shutdown: once the client handler is gone and the capture thread has seen it, every schedule of the
  two threads has at most seven steps left, and as long as one thread is alive one of them can make
  a step: neither the full channel nor a busy encoder blocks the shutdown for ever.\<close>

theorem shutdown_ends:
  assumes "pl_reach ops s" "closing s" "f 0 = s" "\<And>i. i < n \<Longrightarrow> pl_step ops (f i) (f (Suc i))"
  shows "n \<le> 7 \<and> (closed (f n) \<or> (\<exists>s'. pl_step ops (f n) s'))"
proof -
  have "length (pl_chan s) \<le> 1" using bounded_reach [OF assms(1)] by (simp add: pl_bounded_def)
  then have "work_left s \<le> 7" by (rule closing_bounded [OF assms(2)])
  moreover have "closing (f n) \<and> work_left (f n) + n \<le> work_left s"
    by (rule closing_run [OF assms(2) assms(4) assms(3)])
  ultimately show ?thesis using closing_progress by auto
qed

theorem shutdown_ends_witness:
  "\<exists>s. closing (s :: (unit, nat) pipeline) \<and> \<not> closed s \<and> (\<exists>s'. pl_step demo_ops s s')"
proof -
  let ?s = "(pl_init 0 :: (unit, nat) pipeline)\<lparr>pl_cap_pc := CapStop\<rparr>"
  have "pl_step demo_ops (pl_init 0) ?s" by (rule pl_step.Disconnect) (simp add: pl_init_def)
  then have r: "pl_reach demo_ops ?s" by (rule pl_reach.Step [OF pl_reach.Init])
  have c: "closing ?s" "\<not> closed ?s" by (simp_all add: closing_def closed_def)
  then show ?thesis using shutdown_ends [OF r c(1), of "\<lambda>_. ?s" 0] by auto
qed





section \<open>A session over its channel\<close>




text \<open>C20: The end of a session over its channel: once the capture thread has seen the client handler go, neither
  the threads, their pending messages nor the writer can go on for ever, whatever the
  socket answers; every state in which nothing is left to do has both threads and the writer ended, and such a
  state is reached from every state on the way.  A full message queue or a waiting writer delays the end but
  cannot prevent it.\<close>

theorem session_shutdown:
  assumes "closing (se_pl s)" "\<not> se_handler s"
  shows "(\<forall>f. f 0 = s \<longrightarrow> (\<exists>i. \<not> out_step ops to_json (f i) (f (Suc i))))
     \<and> (\<forall>s'. (out_step ops to_json)\<^sup>*\<^sup>* s s' \<longrightarrow> (\<forall>s''. \<not> out_step ops to_json s' s'') \<longrightarrow> session_ended s')
     \<and> (\<forall>s'. (out_step ops to_json)\<^sup>*\<^sup>* s s' \<longrightarrow> (\<exists>s''. (out_step ops to_json)\<^sup>*\<^sup>* s' s'' \<and> session_ended s''))"
  using no_endless_run assms out_run [OF _ assms] out_progress out_reaches_end
  unfolding session_ended_def by (intro conjI allI impI) blast+

theorem session_shutdown_witness:
  "\<exists>s. (out_step demo_ops (\<lambda>_. None))\<^sup>*\<^sup>* ((session_new 0 :: (unit, nat) session)\<lparr>se_handler := False,
      se_pl := (pl_init 0)\<lparr>pl_cap_pc := CapStop\<rparr>, se_cap_sends := [ConfigOk]\<rparr>) s \<and> session_ended s"
proof -
  let ?s = "(session_new 0 :: (unit, nat) session)\<lparr>se_handler := False,
      se_pl := (pl_init 0)\<lparr>pl_cap_pc := CapStop\<rparr>, se_cap_sends := [ConfigOk]\<rparr>"
  have "closing (se_pl ?s)" "\<not> se_handler ?s" by (simp_all add: closing_def)
  then show ?thesis using session_shutdown [of ?s demo_ops "\<lambda>_. None"] by blast
qed

section \<open>Encoder\<close>

text \<open>C21: The scaling graphs of an encoder: whichever FFmpeg call fails, a failed \<open>Scalers::new\<close> has released
  everything it had obtained; a successful one holds only new pointers, and dropping it releases
  exactly those.\<close>

theorem scalers_ownership:
  assumes "ffi_ok w" "scalers_new env a b c d fo fs dev w = (r, w')"
  shows "(\<forall>e. r = Inl e \<longrightarrow> owned w' = owned w)
     \<and> (\<forall>s. r = Inr s \<longrightarrow> owned (scalers_drop s w') = owned w)"
proof -
  have t: "transfers w r w' sl_own" by (rule scalers_new_transfers [OF assms])
  then have "ffi_ok w'" by (simp add: transfers_def)
  then show ?thesis using t scalers_drop_owned [of w'] by (auto simp: transfers_def)
qed

theorem scalers_ownership_witness:
  "\<exists>s w'. scalers_new demo_ffi_env 4 2 4 2 FmtYUV420P FmtYUV420P 0 demo_ffi = (Inr s, w')
     \<and> owned (scalers_drop s w') = {}"
proof -
  obtain s w' where "scalers_new demo_ffi_env 4 2 4 2 FmtYUV420P FmtYUV420P 0 demo_ffi = (Inr s, w')"
    by (rule scalers_willing [OF willing_demo(1)])
  with scalers_ownership [OF willing_demo(2) this] show ?thesis by (simp add: willing_demo(3))
qed



text \<open>A frame that is encoded is marked as a key frame exactly when one was requested (or it is the
  first), the request is used up by it, and the time stamp is the client's if one was set and the
  milliseconds since the encoder's start otherwise.\<close>

theorem keyframe_marking:
  "\<exists>e' w'. mark_frame now e w = (e', w') \<and> \<not> ve_force_keyframe e' \<and> ve_pending_pts e' = None
     \<and> ffi_trace w' = ffi_trace w @ [(Call ''set pts/pict_type/key'' [P (ve_frame e),
          I (case ve_pending_pts e of Some p \<Rightarrow> p | None \<Rightarrow> int (as_millis (now - ve_start e))),
          S (if ve_force_keyframe e then ''I'' else ''NONE'')], 0)]"
  by (simp add: mark_frame_def Let_def call_trace)

text \<open>C23: The two loops around FFmpeg end: if the codec answers every request for a packet with an error,
  \<open>EAGAIN\<close> or the end of stream after at most \<open>k\<close> packets, more than \<open>k\<close> rounds give a result,
  and likewise for the frames of the filter graph.\<close>

theorem encode_loops_end:
  assumes "k < n" "ffi_oracle w = orc"
    and "\<And>i. length (ffi_trace w) + 5 * k \<le> i \<Longrightarrow>
       orc i (Call ''avcodec_receive_packet'' [P (ve_codec_ctx e), P (ve_packet e)]) < 0"
    and "orc (length (ffi_trace w) + k) (Call ''av_buffersink_get_frame'' [P sink, P frame]) < 0"
  shows "fst (packet_loop n e w) \<noteq> None \<and> fst (sink_loop n sink frame w) \<noteq> None"
  using packet_loop_ends [OF assms(1-3)] sink_loop_ends [OF assms(1), of w sink frame] assms(2,4) by auto

theorem encode_loops_end_witness:
  "fst (packet_loop 1 (encoder_blank 4 2 4 2 0 options_default) demo_ffi) \<noteq> None
   \<and> fst (sink_loop 1 5 6 demo_ffi) \<noteq> None"
  by (rule encode_loops_end [where k = 0 and orc = demo_answers])
     (simp_all add: demo_ffi_def demo_answers_def)

section \<open>Virtual input devices\<close>

definition demo_uenv :: "unit uinput_env" where
  "demo_uenv = \<lparr>ue_before_input = (\<lambda>c. (None, c)), ue_geometry = (\<lambda>_. Inr (Relative (Fin 0) (Fin 0) (Fin 1) (Fin 1))),
     ue_now = (\<lambda>n. n), ue_xdg_session_type = None, ue_x11ctx = False, ue_build = (\<lambda>_. None)\<rparr>"

definition demo_device :: "unit uinput" where
  "demo_device = (case uinput_new demo_uenv () None of Inr d \<Rightarrow> d)"

lemma demo_device_new: "uinput_new demo_uenv () None = Inr demo_device"
  by (simp add: demo_device_def uinput_new_def demo_uenv_def)

definition demo_pointer :: "pointer_type \<Rightarrow> pointer_event_type \<Rightarrow> int \<Rightarrow> pointer_event" where
  "demo_pointer pt t i = \<lparr>pe_event_type = t, pe_pointer_id = i, pe_timestamp = 0, pe_is_primary = True,
     pe_pointer_type = pt, pe_button = NONE, pe_buttons = NONE, pe_x = Fin (1/2), pe_y = Fin 0,
     pe_pressure = Fin 1, pe_tilt_x = 0, pe_tilt_y = 0, pe_twist = 0, pe_width = Fin 0, pe_height = Fin 0,
     pe_altitude_angle = None, pe_azimuth_angle = None\<rparr>"

definition demo_ops_touch :: "unit input_op list" where
  "demo_ops_touch = [DoPointer (demo_pointer Touch DOWN 7), DoPointer (demo_pointer Touch DOWN 8),
     DoPointer (demo_pointer Pen DOWN 9), DoPointer (demo_pointer Touch UP 7)]"

text \<open>C24: Touches, after any sequence of client events and capturable changes on a new device: five slots, no
  pointer holds two of them, the tool key for \<open>k\<close> fingers is pressed only while at least \<open>k\<close> touches
  are active, and \<open>BTN_TOUCH\<close> only while one is.\<close>

theorem touch_slots:
  assumes "uinput_new env c name = Inr d0" "d = input_run env ops d0"
  shows "slots_wf (ud_touches d)
     \<and> (\<forall>k \<in> {1..5}. pressed TouchDev (tool_key_for_touch_count k) d \<longrightarrow> k \<le> active_count d)
     \<and> (pressed TouchDev EC_KEY_TOUCH d \<longrightarrow> 0 < active_count d)"
proof -
  have "slots_ok d0" "tools_ok d0" using fresh_ok [OF assms(1)] by simp_all
  then have "slots_ok d" "tools_ok d"
    unfolding assms(2) by (simp_all add: run_invariant slots_ok_step tools_ok_step)
  then show ?thesis by (simp add: slots_ok_def tools_ok_def)
qed

theorem touch_slots_witness:
  "slots_wf (ud_touches (input_run demo_uenv demo_ops_touch demo_device))"
  using touch_slots [OF demo_device_new refl] by blast

text \<open>C25: The pen, after any sequence of client events on a new device: the kernel's view of \<open>BTN_TOOL_PEN\<close> and
  \<open>BTN_TOUCH\<close> agrees with the device's own flags, and pen and rubber are never pressed together.\<close>

theorem pen_state:
  assumes "uinput_new env c name = Inr d0" "d = input_run env ops d0"
  shows "pressed Stylus EC_KEY_TOOL_PEN d = ud_tool_pen_active d
     \<and> pressed Stylus EC_KEY_TOUCH d = ud_pen_touching d
     \<and> \<not> (pressed Stylus EC_KEY_TOOL_PEN d \<and> pressed Stylus EC_KEY_TOOL_RUBBER d)"
proof -
  have "pen_ok d0" using fresh_ok [OF assms(1)] by simp
  then have "pen_ok d" unfolding assms(2) by (simp add: run_invariant pen_ok_step)
  then show ?thesis by (simp add: pen_ok_def)
qed

theorem pen_state_witness:
  "\<not> (pressed Stylus EC_KEY_TOOL_PEN (input_run demo_uenv demo_ops_touch demo_device)
      \<and> pressed Stylus EC_KEY_TOOL_RUBBER (input_run demo_uenv demo_ops_touch demo_device))"
  using pen_state [OF demo_device_new refl] by blast

text \<open>C26: Whatever a client sends, hostile values included, every event written to a virtual device has a code
  the device declared when it was created, and a value in the declared range, except for pressure,
  contact size and tilt, which are passed on unclamped.\<close>

theorem events_declared:
  assumes "uinput_new env c name = Inr d0" "d = input_run env ops d0"
  shows "list_all out_declared (ud_out d)"
proof -
  have "declared_ok d0" using fresh_ok [OF assms(1)] by (simp add: declared_ok_def)
  then have "declared_ok d" unfolding assms(2) by (simp add: run_invariant declared_step)
  then show ?thesis by (simp add: declared_ok_def)
qed

theorem events_declared_witness:
  "list_all out_declared (ud_out (input_run demo_uenv demo_ops_touch demo_device))"
  by (rule events_declared [OF demo_device_new refl])

text \<open>Lifting one of several fingers releases \<open>BTN_TOUCH\<close> although others are still down: the device then
  reports active contacts without a touch.\<close>

theorem touch_released_early:
  assumes "find_slot (pe_pointer_id e) d = Some slot" "2 \<le> active_count d"
  shows "\<not> pressed TouchDev EC_KEY_TOUCH (touch_up e d) \<and> 1 \<le> active_count (touch_up e d)"
proof -
  have "slot < length (ud_touches d)" "ud_touches d ! slot = Some (pe_pointer_id e)"
    using assms(1) by (auto simp: find_slot_def dest: position_SomeD)
  then have "active_count (touch_up e d) + 1 = active_count d"
    using assms count_if_update [of slot "ud_touches d" "\<lambda>t. t \<noteq> None" None]
    by (simp add: touch_up_def Let_def active_count_def)
  then have "1 \<le> active_count (touch_up e d)" using assms(2) by simp
  moreover have "\<not> pressed TouchDev EC_KEY_TOUCH (touch_up e d)"
    using assms by (auto simp: touch_up_def Let_def touch_not_tool)
  ultimately show ?thesis by blast
qed

definition demo_two_fingers :: "unit uinput" where
  "demo_two_fingers = demo_device\<lparr>ud_touches := [Some 7, Some 8, None, None, None]\<rparr>"

theorem touch_released_early_witness:
  "\<not> pressed TouchDev EC_KEY_TOUCH (touch_up (demo_pointer Touch UP 7) demo_two_fingers)
   \<and> 1 \<le> active_count (touch_up (demo_pointer Touch UP 7) demo_two_fingers)"
  by (rule touch_released_early [where slot = 0])
     (simp_all add: find_slot_def active_count_def demo_two_fingers_def demo_pointer_def)


definition demo_configuration :: client_configuration where
  "demo_configuration = \<lparr>cc_uinput_support = True, cc_capturable_id = 0, cc_capture_cursor = False,
     cc_max_width = 640, cc_max_height = 480, cc_client_name = None, cc_frame_rate = Fin 30\<rparr>"

definition demo_handler :: "(unit dyn_device, unit) handler_env" where
  "demo_handler = session_handler demo_uenv
     \<lparr>ee_before_input = (\<lambda>c. (None, c)), ee_geometry = (\<lambda>_. Inl ''none''), ee_main_display = Inl ''none''\<rparr>
     (\<lambda>_ _. [()]) (\<lambda>_. ''test'') None"




text \<open>Typing a character of the basic multilingual plane that has no key: the keys sent between the two
  modifier chords spell its code point in hexadecimal.\<close>

theorem character_typed:
  assumes "c < 65536"
  shows "ud_out (type_unicode [c] d) = ud_out d
     @ [Emit Keyboard [ev KEY KEY_LEFTCTRL 1, ev KEY KEY_LEFTSHIFT 1, ev KEY KEY_U 1]]
     @ concat (map (\<lambda>k. [Emit Keyboard [ev KEY k 1], Emit Keyboard [ev KEY k 0]]) (typed_keys [c]))
     @ [Emit Keyboard [ev KEY KEY_LEFTCTRL 0, ev KEY KEY_LEFTSHIFT 0, ev KEY KEY_U 0]]
     \<and> typed_number (typed_keys [c]) = c"
  using type_unicode_out [of "[c]" d] typed_bmp [OF assms] by blast

theorem character_typed_witness: "typed_number (typed_keys [8364]) = 8364"
  using character_typed [of 8364 "demo_device"] by simp

section \<open>Client handler\<close>

text \<open>C28: A configuration has exactly one outcome: it starts the selected capturable with the requested video
  settings, with an input device in place and without a reply, or it is answered with one error and
  starts nothing; the error is the missing-capturable one exactly when the index is out of range.\<close>

theorem configuration_outcome:
  assumes "s' = update_config env config s"
  shows "(ch_out s' = ch_out s \<and> cc_capturable_id config < length (ch_capturables s)
      \<and> ch_video s' = ch_video s
          @ [VStart (video_config_of config (ch_capturables s ! cc_capturable_id config))]
      \<and> ch_device s' \<noteq> None)
   \<or> (ch_video s' = ch_video s \<and> (\<exists>e. ch_out s' = ch_out s @ [e]
      \<and> (e = no_capturable_error \<longleftrightarrow> length (ch_capturables s) \<le> cc_capturable_id config)))"
  by (rule config_outcome [OF assms])

theorem configuration_outcome_witness:
  "\<exists>e. ch_out (update_config demo_handler demo_configuration (handler_new False)) = [e]
     \<and> e = no_capturable_error"
  using configuration_outcome [OF refl, of demo_handler demo_configuration "handler_new False"]
  by (simp add: handler_new_def demo_configuration_def)

text \<open>Video commands reach the capture thread in the order of the client's messages: pause, resume,
  restart, buffer health, keyframe requests and round trip times are forwarded one by one, and
  nothing else, in particular no input event, list request or malformed message, sends a command.\<close>

theorem commands_forwarded:
  assumes "list_all (\<lambda>m. case m of Inr m \<Rightarrow> \<not> is_config m | Inl _ \<Rightarrow> True) ms" "ch_video_alive s"
  shows "ch_video (handler_run env ms s) = ch_video s
     @ List.map_filter (\<lambda>m. case m of Inr m \<Rightarrow> forwarded m | Inl _ \<Rightarrow> None) ms"
  by (rule commands_in_order [OF assms])

theorem commands_forwarded_witness:
  "ch_video (handler_run demo_handler [Inr PauseVideo, Inl ''error'', Inr GetCapturableList, Inr RequestKeyframe]
      (handler_new True)) = [VPause, VRequestKeyframe]"
  by (subst commands_forwarded) (simp_all add: handler_new_def map_filter_simps)

section \<open>Pacing and quality\<close>

text \<open>The quality controller, after any sequence of resets, buffer reports, round trip times, encode times and
  decisions, NaN and infinities included, keeps its quantiser between 18 and 45.\<close>

theorem quantiser_range: "18 \<le> current_qp (q_run q_new es) \<and> current_qp (q_run q_new es) \<le> 45"
  using qp_ok_run [OF qp_ok_new, of es] by (simp add: qp_ok_def QP_MIN_def QP_MAX_def)

text \<open>Under a persistently overfull client buffer (more than three seconds) every decision raises the
  quantiser by two until it saturates at 45, whatever the encode times and the round trip time are.\<close>

theorem overload_raises_quantiser:
  assumes "flt (Fin 3) s" "qp_ok q"
  shows "current_qp ((buffer_round s b ^^ n) q) = min 45 (current_qp q + 2 * n)"
  using overload_rounds_qp [OF assms, of n b] by (simp add: QP_MAX_def)

theorem overload_raises_quantiser_witness:
  "current_qp ((buffer_round (Fin 4) (Fin (1/30)) ^^ 20) q_new) = 45"
  using overload_raises_quantiser [of "Fin 4" q_new 20 "Fin (1/30)"] qp_ok_new
  by (simp add: q_new_def QP_DEFAULT_def)



text \<open>The output size: for any captured size and any limits of the client, each side is at least 1 and at
  most the captured side, the client's limit (or 1) and 3840 by 2160; nothing is enlarged.\<close>

theorem output_size_fits:
  assumes "0 < w" "0 < h" "w < 2 ^ 64" "h < 2 ^ 64" "out_size mw mh w h = (wo, ho)"
  shows "1 \<le> wo \<and> wo \<le> w \<and> wo \<le> max mw 1 \<and> wo \<le> 3840
       \<and> 1 \<le> ho \<and> ho \<le> h \<and> ho \<le> max mh 1 \<and> ho \<le> 2160"
  by (rule out_size_bounds [OF assms])

theorem output_size_fits_witness: "\<exists>wo ho. out_size 1280 720 7680 4320 = (wo, ho) \<and> wo \<le> 1280 \<and> 1 \<le> ho"
proof -
  obtain wo ho where e: "out_size 1280 720 7680 4320 = (wo, ho)" by fastforce
  from output_size_fits [OF _ _ _ _ e] show ?thesis using e by simp
qed

text \<open>A recorder that was given up after 30 failures leaves its counter behind: the first failure of the
  recorder of the next start ends that capture at once.\<close>

theorem failures_survive_restart:
  assumes "on_start config (Inr r) now c = (msgs, Some c')" "29 \<le> cs_failures c"
  shows "cs_recorder c' = Some r
     \<and> on_capture n (Inl err) r' c' = ([Error ''Screen capture lost - please reconnect.''], None,
         c'\<lparr>cs_last_frame := n, cs_failures := cs_failures c + 1, cs_recorder := None\<rparr>)"
proof -
  have s: "cs_recorder c' = Some r" "cs_failures c' = cs_failures c"
    using start_keeps_failures [OF assms(1)] by simp_all
  then show ?thesis using gives_up [of c' r n err r'] assms(2) by simp
qed

theorem failures_survive_restart_witness:
  "\<exists>c'. snd (on_start \<lparr>vc_capturable = (), vc_capture_cursor = False, vc_max_width = 640, vc_max_height = 480,
       vc_frame_rate = Fin 0\<rparr> (Inr ()) 0 ((cs_init 0)\<lparr>cs_failures := 30\<rparr>)) = Some c'
     \<and> cs_recorder (snd (snd (on_capture 0 (Inl ''lost'') () c'))) = None"
proof -
  let ?v = "\<lparr>vc_capturable = (), vc_capture_cursor = False, vc_max_width = 640, vc_max_height = 480,
       vc_frame_rate = Fin 0\<rparr>"
  let ?c = "(cs_init 0)\<lparr>cs_failures := 30\<rparr> :: unit capture_state"
  have "frame_duration_of (vc_frame_rate ?v) \<noteq> None" by (simp add: frame_duration_of_def finf_def)
  then obtain msgs c' where e: "on_start ?v (Inr ()) 0 ?c = (msgs, Some c')"
    by (simp add: on_start_def Let_def) blast
  then show ?thesis using failures_survive_restart [OF e, of 0 "''lost''" "()"] by simp
qed

section \<open>Enigo device\<close>

text \<open>On a main display of any size a screen can have, the Enigo device moves the pointer to positions on
  the display only, whatever coordinates the client sends and whatever the capturable's geometry.\<close>

theorem enigo_stays_on_display:
  assumes "ee_main_display env = Inr (w, h)" "0 \<le> w" "w \<le> 2147483647" "0 \<le> h" "h \<le> 2147483647"
  shows "\<exists>cs. en_calls (enigo_pointer env e d) = en_calls d @ cs
    \<and> (\<forall>x y. MoveMouse x y \<in> set cs \<longrightarrow> 0 \<le> x \<and> x \<le> w \<and> 0 \<le> y \<and> y \<le> h)"
  by (rule enigo_pointer_cases [OF assms])

definition demo_enigo :: "unit enigo_env" where
  "demo_enigo = \<lparr>ee_before_input = (\<lambda>c. (None, c)),
     ee_geometry = (\<lambda>_. Inr (Relative (Fin 0) (Fin 0) (Fin 1) (Fin 1))), ee_main_display = Inr (1920, 1080)\<rparr>"

theorem enigo_stays_on_display_witness:
  "list_all (\<lambda>c. case c of MoveMouse x y \<Rightarrow> 0 \<le> x \<and> x \<le> 1920 \<and> 0 \<le> y \<and> y \<le> 1080 | _ \<Rightarrow> True)
     (en_calls (enigo_pointer demo_enigo (demo_pointer Mouse MOVE 1) (enigo_new ())))"
  using enigo_stays_on_display [of demo_enigo 1920 1080 "demo_pointer Mouse MOVE 1" "enigo_new ()"]
  by (auto simp: demo_enigo_def enigo_new_def list_all_iff split: enigo_call.split)

section \<open>Core\<close>

text \<open>The error buffer shared with C: a message without NUL bytes of any length is displayed with its first
  1023 bytes and its code, and the buffer keeps its 1024 bytes with a terminator.\<close>

theorem error_display:
  assumes "0 \<notin> set msg"
  shows "cerror_display (cerror_with_code c msg) = (c, Some (take 1023 msg))
     \<and> length (error_str (cerror_with_code c msg)) = 1024"
  using display_with_code [OF assms] length_error_str by blast

theorem error_display_witness:
  "cerror_display (cerror_with_code 101 [72, 105]) = (101, Some [72, 105])"
  using error_display [of "[72, 105]" 101] by simp

text \<open>A configuration that is written is read back as what survives serialisation, whether or not its
  directory existed before.\<close>

theorem config_round_trip:
  assumes "\<And>c s. to_string c = Some s \<Longrightarrow> from_str s = Some (persist c)" "to_string conf = Some s"
  shows "read_config (Some d) (write_config (Some d) True True to_string conf f) True from_str
           = Some (persist conf)"
  by (rule read_after_write) (use assms in auto)

theorem config_round_trip_witness:
  "read_config (Some ''/home/u/.config'')
     (write_config (Some ''/home/u/.config'') True True (\<lambda>c. Some (dec (web_port c))) demo_config
        \<lparr>fs_dirs = {}, fs_files = (\<lambda>_. None)\<rparr>) True (\<lambda>s. Some (demo_config\<lparr>web_port := undec 0 s\<rparr>))
   = Some (demo_config\<lparr>web_port := 1701\<rparr>)"
  by (subst config_round_trip [where persist = "\<lambda>c. demo_config\<lparr>web_port := web_port c\<rparr>"])
     (auto simp: undec_dec demo_config_def)

section \<open>Screen capture: X11\<close>

text \<open>C30: The mouse cursor in an X11 frame: unless it starts right of or below the captured area, drawing it
  gives, pixel by pixel, the cursor's pixel blended over the frame's where the cursor covers the frame
  and the frame's pixel elsewhere, however much of the cursor lies outside; no access leaves the
  frame or the cursor image.\<close>

theorem cursor_overlay:
  assumes "ci_x img - ci_xhot img - cap_x = cx" "ci_y img - ci_yhot img - cap_y = cy"
    and "cx \<le> int w" "cy \<le> int h"
    and "length (ci_pixels img) = ci_width img * ci_height img" "length data = w * h"
    and "int (ci_width img * ci_height img) < 2 ^ 31" "int (w * h) < 2 ^ 31"
  shows "composite_cursor (Some img) cap_x cap_y w h data
     = Some (overlay (ci_pixels img) (int (ci_width img)) (int (ci_height img)) cx cy w h data)"
  by (rule composite_cursor_overlay [OF assms])

definition demo_cursor :: "int \<Rightarrow> cursor_image" where
  "demo_cursor x = \<lparr>ci_x = x, ci_y = 0, ci_xhot = 0, ci_yhot = 0, ci_width = 2, ci_height = 1,
     ci_pixels = [0xFF0000FF, 0x00000000]\<rparr>"

theorem cursor_overlay_witness:
  "composite_cursor (Some (demo_cursor 11)) 10 0 2 1 [1, 2] = Some [1, 0xFF]"
  by (subst cursor_overlay [where cx = 1 and cy = 0])
     (simp_all add: demo_cursor_def overlay_def blend_def channel_def upt_rec Let_def)

text \<open>C31: A mouse cursor on a screen to the right of a captured one ends the capture: if the cursor is to be
  drawn and starts right of the captured area, at a height inside it, the first frame that is
  captured is a panic.\<close>

theorem cursor_beside_panics:
  assumes "get_target_geometry env (xr_target r) = Inr (x, y, xr_width r, xr_height r)"
    and "take_image a (xr_has_composite r) (xr_width r) (xr_height r)
       (choose_image env (xr_target r) (xr_is_wayland r) x y (xr_width r) (xr_height r)) = Some img"
    and "xr_capture_cursor r" "xr_has_xfixes r" "sr_cursor a = Some cur"
    and "int (xr_width r) < ci_x cur - ci_xhot cur - x" "ci_x cur - ci_xhot cur - x < 2 ^ 17"
    and "0 \<le> ci_y cur - ci_yhot cur - y" "ci_y cur - ci_yhot cur - y < int (xr_height r)"
    and "0 < ci_width cur" "ci_width cur \<le> 4096" "0 < ci_height cur" "0 < xr_width r" "xr_height r < 2 ^ 16"
  shows "fst (recorder_x11_capture env a r w) = CapturePanic"
proof -
  have "composite_cursor (Some cur) x y (xr_width r) (xr_height r) img = None"
    using assms(6-14) by (intro composite_cursor_beside [OF refl refl]) auto
  then show ?thesis
    using assms(1-5) by (simp add: recorder_x11_capture_def capture_resize_def capture_draw_def)
qed

definition demo_x11 :: x11_env where
  "demo_x11 = \<lparr>xe_root = 1, xe_screen = (4, 2), xe_geometry = (\<lambda>_. None), xe_translate = (\<lambda>_. None),
     xe_monitors = Some [\<lparr>mo_name = 9, mo_x = 0, mo_y = 0, mo_width = 2, mo_height = 2\<rparr>],
     xe_atom_name = (\<lambda>_. None), xe_intern = (\<lambda>_. None), xe_property = (\<lambda>_ _. None), xe_devices = None,
     xe_send = True\<rparr>"

definition demo_shm :: shm_replies where
  "demo_shm = \<lparr>sr_shmget = True, sr_shmat = True, sr_generate_id = True, sr_attach = True,
     sr_image = (\<lambda>_ _ _ w h. Some (replicate (w * h) 7)), sr_pixmap = True, sr_cursor = Some (demo_cursor 3)\<rparr>"

definition demo_features :: x11_features where
  "demo_features = \<lparr>xf_shm = True, xf_xfixes = True, xf_composite = False, xf_wayland = False\<rparr>"

definition demo_world :: shm_world where
  "demo_world = \<lparr>sw_next = 0, sw_segs = Map.empty, sw_next_xid = 0, sw_attached = Map.empty, sw_redirected = []\<rparr>"

definition demo_monitor_recorder :: "bool \<Rightarrow> x11_recorder" where
  "demo_monitor_recorder cursor = (case fst (recorder_x11_new demo_features demo_x11 demo_shm
     (Rect_Target 0 0 2 2 9) cursor demo_world) of Inr r \<Rightarrow> r)"

lemmas demo_x11_defs = demo_monitor_recorder_def recorder_x11_new_def demo_features_def demo_x11_def demo_shm_def
  demo_world_def get_target_geometry_def composite_redirect_def shm_alloc_def generate_id_def shm_attach_def

theorem cursor_beside_panics_witness:
  "fst (recorder_x11_capture demo_x11 demo_shm (demo_monitor_recorder True) demo_world) = CapturePanic"
  by (rule cursor_beside_panics [where x = 0 and y = 0 and cur = "demo_cursor 3" and img = "replicate 4 7"])
     (simp_all add: demo_x11_defs take_image_def choose_image_def demo_cursor_def Let_def)




section \<open>Screen capture: PipeWire\<close>


text \<open>A padded buffer: one row of one pixel and four bytes of padding, twice.\<close>

definition demo_padded :: buffer_data where
  "demo_padded = \<lparr>bd_type = MemPtr, bd_size = 16, bd_offset = 0, bd_stride = 8,
     bd_slice = Some ([1..<17]), bd_fd = 0, bd_mapped = (\<lambda>_ _. None)\<rparr>"



text \<open>C34: Removing row padding in place gives the rows one after the other, each cut to its width; no copy
  leaves the buffer.\<close>

theorem row_padding_removed:
  assumes "t < stride" "h * stride \<le> length buf" "h * stride < 2 ^ 64"
  shows "depad_rows_in_place h stride t buf = Some (concat (map (\<lambda>r. take t (drop (r * stride) buf)) [0..<h]))"
  using depad_in_place [OF assms] by (simp add: packed_rows_def)

theorem row_padding_removed_witness:
  "depad_rows_in_place 3 3 2 [1, 2, 0, 3, 4, 0, 5, 6, 0 :: nat] = Some [1, 2, 3, 4, 5, 6]"
  by (subst row_padding_removed) (simp_all add: upt_rec)

text \<open>A frame that waits while the format changes is mislabelled: if the compositor announces a wider
  format after delivering a frame, in the same round, the capture hands out the old bytes and row
  length with the new width; the encoder's size check accepts the frame, although a row of that
  width does not fit the row length.\<close>

theorem stale_frame_mislabelled:
  assumes "frame_data d = Some b" "length b = bd_size d" "us_valid u" "us_format u = BGRx" "0 < bd_size d"
    and "bd_stride d = 0" "us_height u * (us_width u * 4) = bd_size d"
    and "us_width u < 2 ^ 16" "us_height u < 2 ^ 16" "us_width u < w" "w < 2 ^ 16"
    and "ps_user s = u" "\<not> sf_error (ps_shared s)" "\<not> sf_new_frame (ps_shared s)" "pr_stream r = s"
  shows "\<exists>p. fst (pw_capture [[Process (Some [d]), ParamChanged (Some (BGRx, w, us_height u))]] r) = PwFrame p
     \<and> \<not> provider_fits p \<and> place_frame p sl v \<noteq> None
     \<and> length (provider_bytes p) < (us_height u - 1) * fst (snd (frame_layout p)) + w * 4"
proof -
  let ?p = "BGR0S w (us_height u) (us_width u * 4) b"
  have "us_height u * (us_width u * 4) \<le> bd_size d" using assms(7) by simp
  from stale_frame [OF assms(1,3-6) this assms(8-15)]
  have f: "fst (pw_capture [[Process (Some [d]), ParamChanged (Some (BGRx, w, us_height u))]] r) = PwFrame ?p" .
  have pos: "0 < us_height u" using assms(5,7) by (metis gr0I mult_zero_left)
  have "us_width u * us_height u \<le> 65536 * 65536" using assms(8,9) by (intro mult_le_mono) simp_all
  then have m: "usize_mul (us_width u * 4) (us_height u) = bd_size d"
    using assms(7) by (subst usize_mul_exact) (simp_all add: mult.commute)
  have "(us_height u - 1) * (us_width u * 4) + us_width u * 4 = us_height u * (us_width u * 4)"
    using pos by (cases "us_height u") simp_all
  then have "bd_size d < (us_height u - 1) * (us_width u * 4) + w * 4" using assms(7,10) by linarith
  then show ?thesis
    using f m assms(2,10) by (simp add: provider_fits_def place_frame_def frame_layout_def)
qed

definition demo_tight :: buffer_data where
  "demo_tight = demo_padded\<lparr>bd_size := 4, bd_stride := 0, bd_slice := Some [1, 2, 3, 4]\<rparr>"

theorem stale_frame_mislabelled_witness:
  "\<exists>p. fst (pw_capture [[Process (Some [demo_tight]), ParamChanged (Some (BGRx, 2, 1))]]
         (pw_recorder_new [[ParamChanged (Some (BGRx, 1, 1))]])) = PwFrame p \<and> \<not> provider_fits p"
proof -
  let ?u = "\<lparr>us_format = BGRx, us_width = 1, us_height = 1, us_valid = True\<rparr>"
  let ?r = "pw_recorder_new [[ParamChanged (Some (BGRx, 1, 1))]]"
  have "ps_user (pr_stream ?r) = ?u" "\<not> sf_error (ps_shared (pr_stream ?r))"
    "\<not> sf_new_frame (ps_shared (pr_stream ?r))"
    by (simp_all add: pw_recorder_new_def pw_iterate_def on_param_changed_def pw_stream_new_def)
  then show ?thesis
    using stale_frame_mislabelled [of demo_tight "[1, 2, 3, 4]" ?u 2 "pr_stream ?r" ?r]
    by (auto simp: frame_data_def demo_tight_def demo_padded_def Let_def)
qed
section \<open>Desktop portal\<close>

text \<open>C35: A portal request, whatever arrives in its 300 rounds of 100 ms and whichever call fails: the handler
  of a request is registered before the call it answers; sources are asked for with the cursor mode
  computed from the client's wish; and a session is obtained only without a failure or cancellation,
  with at least one stream, each of which came in a successful answer to the request to start.\<close>

theorem portal_consent:
  assumes "request_remote_desktop env cursor ticks = (res, s)"
  shows "registered_before env (pt_trace s)
     \<and> (\<forall>a t ty m. Called (SelectSources a t ty m) \<in> set (pt_trace s) \<longrightarrow> m = cursor_mode env cursor)
     \<and> (\<forall>session fd streams. res = Inr (session, fd, streams) \<longrightarrow> \<not> pt_failure s \<and> streams \<noteq> []
          \<and> (\<forall>x \<in> set streams. \<exists>r. Signal r \<in> set (take 300 ticks) \<and> sg_code r = 0
               \<and> Registered (sg_path r) OnStart \<in> set (pt_trace s)
               \<and> x \<in> set (streams_from_response (sg_results r))))"
  using request_ok [OF assms] unfolding portal_ok_def by fastforce

definition demo_portal :: portal_env where
  "demo_portal = \<lparr>pv_sender = '':1.5'', pv_random = (\<lambda>n. n), pv_gnome = False, pv_device_types = None,
     pv_source_types = Some 3, pv_cursor_modes = Some 3, pv_match_ok = True, pv_call_ok = (\<lambda>_. True),
     pv_fd = (\<lambda>_. 8)\<rparr>"

definition demo_signal :: "nat \<Rightarrow> (string \<Rightarrow> ref_arg option) \<Rightarrow> tick" where
  "demo_signal n results = Signal \<lparr>sg_path = request_path '':1.5'' (''rylus'' @ dec n), sg_code = 0, sg_results = results\<rparr>"

definition demo_ticks :: "tick list" where
  "demo_ticks = [demo_signal 1 [''session_handle'' \<mapsto> RStr ''/session''], Quiet, demo_signal 2 Map.empty,
     demo_signal 3 [''streams'' \<mapsto> RVariant (RList [RList [RUint 40, RList []]])]]"

lemma demo_negotiation:
  "case request_remote_desktop demo_portal True demo_ticks of (res, s) \<Rightarrow>
     res = Inr (''/session'', 8, [\<lparr>si_path = 40, si_source_type = 0\<rparr>])
     \<and> Called (SelectSources ''/session'' ''rylus2'' 3 2) \<in> set (pt_trace s)"
  by code_simp

theorem portal_consent_witness:
  "\<exists>s. request_remote_desktop demo_portal True demo_ticks
       = (Inr (''/session'', 8, [\<lparr>si_path = 40, si_source_type = 0\<rparr>]), s)
     \<and> \<not> pt_failure s \<and> Called (SelectSources ''/session'' ''rylus2'' 3 2) \<in> set (pt_trace s)"
proof -
  obtain res s where e: "request_remote_desktop demo_portal True demo_ticks = (res, s)" by fastforce
  then show ?thesis using demo_negotiation portal_consent [OF e] by simp
qed





text \<open>C37: Sharing of portal sessions, in every reachable state of any number of threads: one thread at a time
  negotiates; a session is closed once, and exactly when nothing refers to it any more and it is not
  about to be stored; and a thread that waited for the lock takes a live session of its mode instead
  of negotiating.\<close>

theorem portal_sharing:
  assumes "cache_reach s"
  shows "(\<forall>t u c d. cp_pc s t = AcNegotiate c \<longrightarrow> cp_pc s u = AcNegotiate d \<longrightarrow> t = u)
     \<and> distinct (cp_closed s) \<and> (\<forall>i \<in> set (cp_closed s). cp_arcs s i = 0)
     \<and> (\<forall>i < cp_next s. cp_arcs s i = 0 \<longrightarrow> (\<forall>t. cp_pc s t \<noteq> AcStore i) \<longrightarrow> i \<in> set (cp_closed s))
     \<and> (\<forall>i t. cp_cache s = Some i \<longrightarrow> 0 < cp_arcs s i \<longrightarrow>
          cp_pc (acquire_recheck t (cp_cursor s i) s) t = AcDone i)"
  by (intro conjI allI ballI impI) (use cache_sharing [OF assms] recheck_reuses in blast)+

definition demo_shared :: portal_cache where
  "demo_shared = acquire_store 7 0 (acquire_negotiate 7 True True (acquire_recheck 7 True (acquire_lock 7 True
     (acquire_fast 7 True (set_pc 7 (AcFast True) cache_init)))))"

lemma demo_shared_reach: "cache_reach demo_shared"
proof -
  have 1: "cache_reach (set_pc 7 (AcFast True) cache_init)"
    by (rule cache_reach.Step [OF cache_reach.Init cache_step.Call]) (simp add: cache_init_def)
  have 2: "cache_reach (acquire_fast 7 True (set_pc 7 (AcFast True) cache_init))" (is "cache_reach ?s2")
    by (rule cache_reach.Step [OF 1 cache_step.Fast]) simp
  have 3: "cache_reach (acquire_lock 7 True ?s2)" (is "cache_reach ?s3")
    by (rule cache_reach.Step [OF 2 cache_step.Lock])
      (simp_all add: acquire_fast_def cache_hit_def cache_init_def)
  have 4: "cache_reach (acquire_recheck 7 True ?s3)" (is "cache_reach ?s4")
    by (rule cache_reach.Step [OF 3 cache_step.Recheck]) (simp add: acquire_lock_def)
  have 5: "cache_reach (acquire_negotiate 7 True True ?s4)" (is "cache_reach ?s5")
    by (rule cache_reach.Step [OF 4 cache_step.Negotiate])
      (simp add: acquire_recheck_def acquire_lock_def acquire_fast_def cache_hit_def cache_init_def)
  show ?thesis unfolding demo_shared_def
    by (rule cache_reach.Step [OF 5 cache_step.Store])
      (simp add: acquire_negotiate_def acquire_recheck_def acquire_lock_def acquire_fast_def cache_hit_def
        cache_init_def)
qed

lemma demo_shared_arcs: "cp_cache demo_shared = Some 0" "cp_arcs demo_shared 0 = 1" "cp_cursor demo_shared 0"
  by (simp_all add: demo_shared_def acquire_store_def take_arc_def acquire_negotiate_def acquire_recheck_def
      acquire_lock_def acquire_fast_def cache_hit_def cache_init_def)

theorem portal_sharing_witness: "cp_pc (acquire_recheck 8 True demo_shared) 8 = AcDone 0"
  using portal_sharing [OF demo_shared_reach] demo_shared_arcs by (metis (full_types) zero_less_one)

section \<open>Window\<close>

section \<open>Windows and macOS\<close>






text \<open>The geometry of a display on macOS, among any displays of finite size, is a part of the unit square of
  positive size.\<close>

theorem mac_display_unit:
  assumes "ce_displays env = Inr ids" "d \<in> set ids" "\<forall>i \<in> set ids. finite_rect (ce_bounds env i)"
    and "cg_w (ce_bounds env d) \<noteq> Fin 0" "cg_h (ce_bounds env d) \<noteq> Fin 0"
  shows "\<exists>x y w h. cg_display_geometry env d = Inr (Relative (Fin x) (Fin y) (Fin w) (Fin h))
    \<and> 0 \<le> x \<and> 0 \<le> y \<and> 0 < w \<and> 0 < h \<and> x + w \<le> 1 \<and> y + h \<le> 1"
  by (rule display_geometry_unit [OF assms])

section \<open>Self test\<close>






end
